(* ===== verification/Go_Strings.thy ===== *)
theory Go_Strings
  imports Main "HOL-Library.Sublist"
begin

text \<open>
  The part of Go's string library the program uses, over \<open>string\<close> (a list of
  8-bit characters, as a Go string is a sequence of bytes). \<open>TrimSpace\<close> knows the
  UTF-8 encodings of every white-space rune of \<open>unicode.IsSpace\<close>; \<open>ToLower\<close> and
  \<open>EqualFold\<close> fold the ASCII letters and leave every other byte alone. The lemmas
  are the ones the components share: trimming and lowering are idempotent, what a
  trimmed string can look like, and that \<open>Contains\<close> is the contiguous sub-list order.
\<close>

named_theorems str_simps \<open>string facts the component proofs use\<close>

section \<open>White space\<close>

definition space_runes :: "string list" where
  "space_runes =
     [[CHR 0x20], [CHR 0x09], [CHR 0x0A], [CHR 0x0B], [CHR 0x0C], [CHR 0x0D],
      [CHR 0xC2, CHR 0x85], [CHR 0xC2, CHR 0xA0], [CHR 0xE1, CHR 0x9A, CHR 0x80],
      [CHR 0xE2, CHR 0x80, CHR 0x80], [CHR 0xE2, CHR 0x80, CHR 0x81],
      [CHR 0xE2, CHR 0x80, CHR 0x82], [CHR 0xE2, CHR 0x80, CHR 0x83],
      [CHR 0xE2, CHR 0x80, CHR 0x84], [CHR 0xE2, CHR 0x80, CHR 0x85],
      [CHR 0xE2, CHR 0x80, CHR 0x86], [CHR 0xE2, CHR 0x80, CHR 0x87],
      [CHR 0xE2, CHR 0x80, CHR 0x88], [CHR 0xE2, CHR 0x80, CHR 0x89],
      [CHR 0xE2, CHR 0x80, CHR 0x8A], [CHR 0xE2, CHR 0x80, CHR 0xA8],
      [CHR 0xE2, CHR 0x80, CHR 0xA9], [CHR 0xE2, CHR 0x80, CHR 0xAF],
      [CHR 0xE2, CHR 0x81, CHR 0x9F], [CHR 0xE3, CHR 0x80, CHR 0x80]]"

function trimFront :: "string list \<Rightarrow> string \<Rightarrow> string" where
  "trimFront rs s =
     (case find (\<lambda>r. r \<noteq> [] \<and> prefix r s) rs of
        None \<Rightarrow> s
      | Some r \<Rightarrow> trimFront rs (drop (length r) s))"
  by pat_completeness auto
termination
proof (relation "measure (\<lambda>(rs, s). length s)")
  show "wf (measure (\<lambda>(rs, s). length s))" by simp
next
  fix rs s r
  assume "find (\<lambda>r. r \<noteq> [] \<and> prefix r s) rs = Some r"
  then have "r \<noteq> [] \<and> prefix r s" by (auto simp: find_Some_iff)
  then have "0 < length r" and "length r \<le> length s"
    by (auto dest: prefix_length_le)
  then have "length s - length r < length s" by linarith
  then show "((rs, drop (length r) s), rs, s) \<in> measure (\<lambda>(rs, s). length s)"
    by simp
qed

declare trimFront.simps [simp del]

definition trimBack :: "string list \<Rightarrow> string \<Rightarrow> string" where
  "trimBack rs s = rev (trimFront (map rev rs) (rev s))"

definition TrimSpace :: "string \<Rightarrow> string" where
  "TrimSpace s = trimBack space_runes (trimFront space_runes s)"

lemma trimFront_clean: "r \<in> set rs \<Longrightarrow> r \<noteq> [] \<Longrightarrow> \<not> prefix r (trimFront rs s)"
proof (induction rs s rule: trimFront.induct)
  case (1 rs s)
  show ?case
  proof (cases "find (\<lambda>r. r \<noteq> [] \<and> prefix r s) rs")
    case None
    then have "trimFront rs s = s" by (subst trimFront.simps) simp
    with None "1.prems" show ?thesis by (auto simp: find_None_iff)
  next
    case (Some q)
    with "1.IH" [OF Some] "1.prems" show ?thesis by (subst trimFront.simps) simp
  qed
qed

lemma trimFront_id: "\<forall>r \<in> set rs. r = [] \<or> \<not> prefix r s \<Longrightarrow> trimFront rs s = s"
proof -
  assume "\<forall>r \<in> set rs. r = [] \<or> \<not> prefix r s"
  then have "find (\<lambda>r. r \<noteq> [] \<and> prefix r s) rs = None" by (auto simp: find_None_iff)
  then show ?thesis by (subst trimFront.simps) simp
qed

lemma trimFront_suffix: "suffix (trimFront rs s) s"
proof (induction rs s rule: trimFront.induct)
  case (1 rs s)
  show ?case
  proof (cases "find (\<lambda>r. r \<noteq> [] \<and> prefix r s) rs")
    case None
    then show ?thesis by (subst trimFront.simps) simp
  next
    case (Some q)
    from "1.IH" [OF Some] have "suffix (trimFront rs (drop (length q) s)) s"
      by (rule suffix_order.trans) (rule suffix_drop)
    with Some show ?thesis by (subst trimFront.simps) simp
  qed
qed

lemma trimBack_prefix: "prefix (trimBack rs s) s"
  unfolding trimBack_def
  by (metis rev_rev_ident suffix_to_prefix trimFront_suffix)

lemma trimFront_idem [simp]: "trimFront rs (trimFront rs s) = trimFront rs s"
  by (rule trimFront_id) (metis trimFront_clean)

lemma trimBack_idem [simp]: "trimBack rs (trimBack rs s) = trimBack rs s"
  by (simp add: trimBack_def)

lemma trimFront_trimBack:
  "trimFront rs (trimBack qs (trimFront rs s)) = trimBack qs (trimFront rs s)"
proof (rule trimFront_id, rule ballI)
  fix r assume "r \<in> set rs"
  then have "r = [] \<or> \<not> prefix r (trimFront rs s)" by (metis trimFront_clean)
  then show "r = [] \<or> \<not> prefix r (trimBack qs (trimFront rs s))"
    by (metis prefix_order.trans trimBack_prefix)
qed

lemma TrimSpace_idem [simp]: "TrimSpace (TrimSpace s) = TrimSpace s"
  by (simp add: TrimSpace_def trimFront_trimBack)

lemma TrimSpace_Nil [simp]: "TrimSpace [] = []"
  by (simp add: TrimSpace_def trimBack_def trimFront_id)

lemma TrimSpace_nonempty: "TrimSpace s \<noteq> [] \<Longrightarrow> s \<noteq> []"
  by auto

lemma TrimSpace_set: "set (TrimSpace s) \<subseteq> set s"
proof -
  have "set (TrimSpace s) \<subseteq> set (trimFront space_runes s)"
    unfolding TrimSpace_def by (rule set_mono_prefix) (rule trimBack_prefix)
  also have "\<dots> \<subseteq> set s" by (rule set_mono_suffix) (rule trimFront_suffix)
  finally show ?thesis .
qed

text \<open>
  A string whose first and last bytes are printable ASCII is already trimmed: every
  literal of the source is of that kind.
\<close>

definition solid :: "char \<Rightarrow> bool" where
  "solid c \<longleftrightarrow> 32 < (of_char c :: nat) \<and> (of_char c :: nat) < 127"

lemma solid_not_prefix: "solid c \<Longrightarrow> r \<in> set space_runes \<Longrightarrow> \<not> prefix r (c # cs)"
  by (auto simp: space_runes_def solid_def)

lemma solid_not_suffix: "solid c \<Longrightarrow> r \<in> set space_runes \<Longrightarrow> \<not> prefix (rev r) (c # cs)"
  by (auto simp: space_runes_def solid_def)

lemma TrimSpace_solid:
  assumes "s \<noteq> []" and "solid (hd s)" and "solid (last s)"
  shows "TrimSpace s = s"
proof -
  from assms(1,2) have front: "trimFront space_runes s = s"
    by (intro trimFront_id) (metis list.collapse solid_not_prefix)
  from assms(1) obtain c cs where rev: "rev s = c # cs" and "c = last s"
    by (metis last_rev list.collapse rev_is_Nil_conv hd_rev)
  with assms(3) have "\<forall>r \<in> set space_runes. \<not> prefix (rev r) (rev s)"
    by (metis solid_not_suffix)
  then have "trimFront (map rev space_runes) (rev s) = rev s"
    by (intro trimFront_id) auto
  with front show ?thesis by (simp add: TrimSpace_def trimBack_def)
qed

lemma trimFront_keeps:
  "\<forall>r \<in> set rs. c \<notin> set r \<Longrightarrow> c \<in> set s \<Longrightarrow> c \<in> set (trimFront rs s)"
proof (induction rs s rule: trimFront.induct)
  case (1 rs s)
  show ?case
  proof (cases "find (\<lambda>r. r \<noteq> [] \<and> prefix r s) rs")
    case None
    with "1.prems" show ?thesis by (subst trimFront.simps) simp
  next
    case (Some q)
    then have q: "q \<in> set rs" "prefix q s" by (auto simp: find_Some_iff)
    with "1.prems" have "c \<in> set (drop (length q) s)" by (auto simp: prefix_def)
    with "1.IH" [OF Some] "1.prems" Some show ?thesis by (subst trimFront.simps) simp
  qed
qed

lemma solid_not_space: "solid c \<Longrightarrow> \<forall>r \<in> set space_runes. c \<notin> set r"
  by (auto simp: space_runes_def solid_def)

lemma TrimSpace_keeps: "c \<in> set s \<Longrightarrow> solid c \<Longrightarrow> c \<in> set (TrimSpace s)"
  unfolding TrimSpace_def trimBack_def
  by (simp add: trimFront_keeps solid_not_space)

section \<open>Case folding\<close>

definition lowerChar :: "char \<Rightarrow> char" where
  "lowerChar c = (if 65 \<le> (of_char c :: nat) \<and> (of_char c :: nat) \<le> 90
                  then char_of ((of_char c :: nat) + 32) else c)"

definition ToLower :: "string \<Rightarrow> string" where
  "ToLower s = map lowerChar s"

definition EqualFold :: "string \<Rightarrow> string \<Rightarrow> bool" where
  "EqualFold s t \<longleftrightarrow> ToLower s = ToLower t"

lemma lowerChar_idem [simp]: "lowerChar (lowerChar c) = lowerChar c"
proof -
  have "(of_char (lowerChar c) :: nat) = of_char c + 32"
    if "65 \<le> (of_char c :: nat)" "(of_char c :: nat) \<le> 90"
    using that by (simp add: lowerChar_def)
  then show ?thesis by (auto simp: lowerChar_def)
qed

lemma ToLower_idem [simp]: "ToLower (ToLower s) = ToLower s"
  by (simp add: ToLower_def comp_def)

lemma ToLower_append [simp]: "ToLower (s @ t) = ToLower s @ ToLower t"
  by (simp add: ToLower_def)

lemma ToLower_Nil [simp]: "ToLower [] = []" and ToLower_eq_Nil [simp]: "ToLower s = [] \<longleftrightarrow> s = []"
  by (simp_all add: ToLower_def)

lemma EqualFold_refl [simp]: "EqualFold s s"
  and EqualFold_sym: "EqualFold s t \<Longrightarrow> EqualFold t s"
  and EqualFold_trans: "EqualFold s t \<Longrightarrow> EqualFold t u \<Longrightarrow> EqualFold s u"
  by (simp_all add: EqualFold_def)

section \<open>Searching and splitting\<close>

fun strContains :: "string \<Rightarrow> string \<Rightarrow> bool" where
  "strContains [] sub = prefix sub []"
| "strContains (c # cs) sub = (prefix sub (c # cs) \<or> strContains cs sub)"

lemma strContains_sublist: "strContains s sub \<longleftrightarrow> sublist sub s"
  by (induction s) (auto simp: sublist_Cons_right)

lemma strContains_append: "strContains s sub \<Longrightarrow> strContains (a @ s @ b) sub"
  unfolding strContains_sublist
  by (metis append.assoc sublist_def)

lemma strContains_refl [simp]: "strContains s s"
  by (simp add: strContains_sublist)

lemma sublist_skipL: "sublist x b \<Longrightarrow> sublist x (a @ b)"
  and sublist_keepL: "sublist x a \<Longrightarrow> sublist x (a @ b)"
  by (auto simp: sublist_append)

fun strIndex :: "string \<Rightarrow> string \<Rightarrow> nat option" where
  "strIndex [] sub = (if prefix sub [] then Some 0 else None)"
| "strIndex (c # cs) sub =
     (if prefix sub (c # cs) then Some 0 else map_option Suc (strIndex cs sub))"

lemma strIndex_Some:
  "strIndex s sub = Some i \<Longrightarrow> prefix sub (drop i s) \<and> i + length sub \<le> length s"
proof (induction s arbitrary: i)
  case Nil
  then show ?case by (auto split: if_splits)
next
  case (Cons c cs)
  then show ?case by (fastforce split: if_splits dest: prefix_length_le)
qed

lemma strIndex_None: "strIndex s sub = None \<longleftrightarrow> \<not> strContains s sub"
  by (induction s) auto

definition strLastIndexChar :: "string \<Rightarrow> char \<Rightarrow> nat option" where
  "strLastIndexChar s c =
     (case strIndex (rev s) [c] of None \<Rightarrow> None | Some i \<Rightarrow> Some (length s - 1 - i))"

fun splitChar :: "char \<Rightarrow> string \<Rightarrow> string list" where
  "splitChar c [] = [[]]"
| "splitChar c (x # xs) =
     (if x = c then [] # splitChar c xs
      else (case splitChar c xs of [] \<Rightarrow> [[x]] | p # ps \<Rightarrow> (x # p) # ps))"

lemma splitChar_nonempty [simp]: "splitChar c s \<noteq> []"
  by (induction s) (auto split: list.splits)

definition splitN2 :: "string \<Rightarrow> string \<Rightarrow> string list" where
  "splitN2 s sep =
     (case strIndex s sep of
        None \<Rightarrow> [s]
      | Some i \<Rightarrow> [take i s, drop (i + length sep) s])"

definition TrimPrefix :: "string \<Rightarrow> string \<Rightarrow> string" where
  "TrimPrefix s p = (if prefix p s then drop (length p) s else s)"

definition TrimSuffix :: "string \<Rightarrow> string \<Rightarrow> string" where
  "TrimSuffix s p = (if suffix p s then take (length s - length p) s else s)"

lemma TrimPrefix_append [simp]: "TrimPrefix (p @ s) p = s"
  by (simp add: TrimPrefix_def)

lemma TrimSuffix_append [simp]: "TrimSuffix (s @ p) p = s"
  by (simp add: TrimSuffix_def suffix_def)

fun strJoin :: "string list \<Rightarrow> string \<Rightarrow> string" where
  "strJoin [] sep = []"
| "strJoin [x] sep = x"
| "strJoin (x # y # ys) sep = x @ sep @ strJoin (y # ys) sep"

definition ContainsAny :: "string \<Rightarrow> string \<Rightarrow> bool" where
  "ContainsAny s chars \<longleftrightarrow> (\<exists>c \<in> set s. c \<in> set chars)"

lemma ContainsAny_append [simp]: "ContainsAny (s @ t) cs \<longleftrightarrow> ContainsAny s cs \<or> ContainsAny t cs"
  by (auto simp: ContainsAny_def)

section \<open>Decimal numbers\<close>

definition digitChar :: "nat \<Rightarrow> char" where
  "digitChar d = char_of (48 + d)"

fun showNat :: "nat \<Rightarrow> string" where
  "showNat n = (if n < 10 then [digitChar n] else showNat (n div 10) @ [digitChar (n mod 10)])"

declare showNat.simps [simp del]

definition showInt :: "int \<Rightarrow> string" where
  "showInt i = (if i < 0 then CHR ''-'' # showNat (nat (- i)) else showNat (nat i))"

definition isDigit :: "char \<Rightarrow> bool" where
  "isDigit c \<longleftrightarrow> 48 \<le> (of_char c :: nat) \<and> (of_char c :: nat) \<le> 57"

definition digitVal :: "char \<Rightarrow> nat" where
  "digitVal c = of_char c - 48"

definition digitsVal :: "string \<Rightarrow> nat" where
  "digitsVal s = foldl (\<lambda>n c. 10 * n + digitVal c) 0 s"

text \<open>\<open>strconv.Atoi\<close>: an optional sign, at least one digit, and a value in the range of \<open>int\<close>.\<close>

definition Atoi :: "string \<Rightarrow> int option" where
  "Atoi s =
     (let (neg, ds) = (case s of
            [] \<Rightarrow> (False, [])
          | c # cs \<Rightarrow> if c = CHR ''-'' then (True, cs)
                      else if c = CHR ''+'' then (False, cs) else (False, s));
          v = (if neg then - int (digitsVal ds) else int (digitsVal ds))
      in if ds \<noteq> [] \<and> list_all isDigit ds \<and> - (2 ^ 63) \<le> v \<and> v < 2 ^ 63
         then Some v else None)"

lemma digitChar_isDigit: "d < 10 \<Longrightarrow> isDigit (digitChar d) \<and> digitVal (digitChar d) = d"
  by (simp add: isDigit_def digitVal_def digitChar_def)

lemma showNat_nonempty [simp]: "showNat n \<noteq> []"
  by (subst showNat.simps) simp

lemma showNat_digits: "list_all isDigit (showNat n) \<and> digitsVal (showNat n) = n"
proof (induction n rule: showNat.induct)
  case (1 n)
  show ?case
  proof (cases "n < 10")
    case True
    then show ?thesis
      by (subst (1 2) showNat.simps) (simp add: digitsVal_def digitChar_isDigit)
  next
    case False
    with "1.IH" have "list_all isDigit (showNat (n div 10)) \<and> digitsVal (showNat (n div 10)) = n div 10"
      by simp
    with False show ?thesis
      by (subst (1 2) showNat.simps) (simp add: digitsVal_def digitChar_isDigit)
  qed
qed

lemma Atoi_showInt:
  assumes "- (2 ^ 63) \<le> i" and "i < 2 ^ 63"
  shows "Atoi (showInt i) = Some i"
proof (cases "i < 0")
  case True
  with assms show ?thesis
    using showNat_digits [of "nat (- i)"] by (simp add: Atoi_def showInt_def)
next
  case False
  obtain c cs where s: "showNat (nat i) = c # cs" using showNat_nonempty by (metis list.exhaust)
  with showNat_digits [of "nat i"] have "isDigit c" by simp
  then have "c \<noteq> CHR ''-''" "c \<noteq> CHR ''+''" by (auto simp: isDigit_def)
  with False s assms show ?thesis
    using showNat_digits [of "nat i"] by (simp add: Atoi_def showInt_def)
qed

end
