(* ===== verification/Go_Values.thy ===== *)
theory Go_Values
  imports Complex_Main Go_Strings
begin

text \<open>
  Go's dynamically typed values (\<open>any\<close>) as a datatype with one constructor per dynamic
  type the program inspects, and the type assertions and map reads it performs on them.
  A \<open>map[string]any\<close> is an association list read with \<open>map_of\<close>; a missing key reads as
  \<open>GNil\<close>, as in Go. A \<open>float64\<close> is the rational number it denotes. Errors are their
  messages, results are sums (\<open>Inl\<close> the error).
\<close>

type_synonym 'a result = "string + 'a"

record ArtifactRef =
  ArtKind :: string
  ArtRef :: string
  ArtSHA :: string

datatype gval =
    GNil
  | GBool bool
  | GInt int
  | GInt64 int
  | GFloat rat
  | GFloat32 rat
  | GNumber string
  | GStr string
  | GBytes string
  | GRaw string
  | GStrs "string list"
  | GList "gval list"
  | GMap "(string \<times> gval) list"
  | GArtifact ArtifactRef

type_synonym gmap = "(string \<times> gval) list"

section \<open>Reads and type assertions\<close>

definition gget :: "gmap \<Rightarrow> string \<Rightarrow> gval" where
  "gget m k = (case map_of m k of None \<Rightarrow> GNil | Some v \<Rightarrow> v)"

fun strOf :: "gval \<Rightarrow> string" where
  "strOf (GStr s) = s"
| "strOf _ = []"

fun isStr :: "gval \<Rightarrow> bool" where
  "isStr (GStr s) = True"
| "isStr _ = False"

fun mapOf :: "gval \<Rightarrow> gmap" where
  "mapOf (GMap m) = m"
| "mapOf _ = []"

fun listOf :: "gval \<Rightarrow> gval list" where
  "listOf (GList xs) = xs"
| "listOf _ = []"

definition gstr :: "gmap \<Rightarrow> string \<Rightarrow> string" where
  "gstr m k = strOf (gget m k)"

definition gput :: "gmap \<Rightarrow> string \<Rightarrow> gval \<Rightarrow> gmap" where
  "gput m k v = (k, v) # filter (\<lambda>(k', _). k' \<noteq> k) m"

definition gputAll :: "gmap \<Rightarrow> gmap \<Rightarrow> gmap" where
  "gputAll m kvs = foldl (\<lambda>acc (k, v). gput acc k v) m kvs"

lemma gget_Nil [simp]: "gget [] k = GNil"
  by (simp add: gget_def)

lemma gget_Cons [simp]: "gget ((k, v) # m) k' = (if k' = k then v else gget m k')"
  by (simp add: gget_def)

lemma map_of_gput [simp]: "map_of (gput m k v) = (map_of m)(k \<mapsto> v)"
proof
  fix k'
  have "map_of (filter (\<lambda>(k', _). k' \<noteq> k) m) k' = (if k' = k then None else map_of m k')"
    by (induction m) auto
  then show "map_of (gput m k v) k' = ((map_of m)(k \<mapsto> v)) k'" by (simp add: gput_def)
qed

lemma map_of_gputAll: "distinct (map fst kvs) \<Longrightarrow> map_of (gputAll m kvs) = map_of m ++ map_of kvs"
proof (induction kvs arbitrary: m)
  case Nil
  then show ?case by (simp add: gputAll_def)
next
  case (Cons kv kvs)
  obtain k v where kv: "kv = (k, v)" by (cases kv)
  have "map_of (gputAll m (kv # kvs)) = map_of (gputAll (gput m k v) kvs)"
    by (simp add: gputAll_def kv)
  also have "\<dots> = (map_of m)(k \<mapsto> v) ++ map_of kvs" using Cons by simp
  also have "\<dots> = map_of m ++ map_of (kv # kvs)"
    using Cons.prems kv
    by (auto simp: map_add_def fun_eq_iff map_of_eq_None_iff [symmetric] image_iff
        split: option.splits)
  finally show ?case .
qed

lemma gget_gputAll:
  "distinct (map fst kvs) \<Longrightarrow>
   gget (gputAll m kvs) k = (case map_of kvs k of None \<Rightarrow> gget m k | Some v \<Rightarrow> v)"
  by (auto simp: gget_def map_of_gputAll map_add_def split: option.splits)

lemma gputAll_Nil [simp]: "gputAll m [] = m"
  by (simp add: gputAll_def)

section \<open>Numeric conversions\<close>

text \<open>
  \<open>int(v)\<close> of a float truncates towards zero; outside the range of \<open>int\<close> the language
  leaves the result to the implementation, and the model takes amd64's (the least integer).
\<close>

definition truncRat :: "rat \<Rightarrow> int" where
  "truncRat r = (if 0 \<le> r then \<lfloor>r\<rfloor> else \<lceil>r\<rceil>)"

definition intOfFloat :: "rat \<Rightarrow> int" where
  "intOfFloat r =
     (if - (2 ^ 63) \<le> truncRat r \<and> truncRat r < 2 ^ 63 then truncRat r else - (2 ^ 63))"

lemma intOfFloat_of_int: "- (2 ^ 63) \<le> i \<Longrightarrow> i < 2 ^ 63 \<Longrightarrow> intOfFloat (of_int i) = i"
  by (simp add: intOfFloat_def truncRat_def)

lemma intOfFloat_range: "- (2 ^ 63) \<le> intOfFloat r \<and> intOfFloat r < 2 ^ 63"
  by (auto simp: intOfFloat_def)

section \<open>Results\<close>

definition bindR :: "'a result \<Rightarrow> ('a \<Rightarrow> 'b result) \<Rightarrow> 'b result" where
  "bindR r f = (case r of Inl e \<Rightarrow> Inl e | Inr x \<Rightarrow> f x)"

fun isOk :: "'a result \<Rightarrow> bool" where
  "isOk (Inl e) = False"
| "isOk (Inr x) = True"

lemma bindR_simps [simp]: "bindR (Inl e) f = Inl e" "bindR (Inr x) f = f x"
  by (simp_all add: bindR_def)

lemma bindR_eq_Inr: "bindR r f = Inr y \<longleftrightarrow> (\<exists>x. r = Inr x \<and> f x = Inr y)"
  by (cases r) auto

lemma isOk_iff: "isOk r \<longleftrightarrow> (\<exists>x. r = Inr x)"
  by (cases r) auto

section \<open>The context reference and the plan step shared by all packages\<close>

record ContextRef =
  TenantID :: string
  Environment :: string
  ClusterID :: string
  Namespace :: string
  AWSAccountID :: string
  Region :: string
  ArgoCDProject :: string
  GrafanaOrgID :: string

definition emptyContext :: ContextRef where
  "emptyContext = \<lparr>TenantID = [], Environment = [], ClusterID = [], Namespace = [],
     AWSAccountID = [], Region = [], ArgoCDProject = [], GrafanaOrgID = []\<rparr>"

record PlanStep =
  StepID :: string
  Stage :: string
  StepAction :: string
  StepTool :: string
  StepInput :: gval
  Preconditions :: gval
  Rollback :: gval

definition mkStep :: "string \<Rightarrow> string \<Rightarrow> string \<Rightarrow> gval \<Rightarrow> gval \<Rightarrow> PlanStep" where
  "mkStep stage action tool input rollback =
     \<lparr>StepID = [], Stage = stage, StepAction = action, StepTool = tool, StepInput = input,
      Preconditions = GNil, Rollback = rollback\<rparr>"

end
