(* ===== verification/Go_Effects.thy ===== *)
theory Go_Effects
  imports Go_Values "HOL-Library.Char_ord" "HOL-Library.List_Lexorder"
begin

text \<open>
  Effects shared by the database and the components above it: an operation takes a state and
  returns a result (\<open>Inl\<close> the error) with the next state. Also the part of \<open>encoding/json\<close>
  that decodes into structs, and the ordering facts on decimal identifiers that the
  \<open>ORDER BY step_id\<close> of the plan steps rests on.
\<close>

type_synonym ('s, 'a) op = "'s \<Rightarrow> 'a result \<times> 's"

definition bindS :: "('s, 'a) op \<Rightarrow> ('a \<Rightarrow> ('s, 'b) op) \<Rightarrow> ('s, 'b) op" where
  "bindS m f s = (case m s of (Inl e, s') \<Rightarrow> (Inl e, s') | (Inr x, s') \<Rightarrow> f x s')"

definition okS :: "'a \<Rightarrow> ('s, 'a) op" where
  "okS x s = (Inr x, s)"

definition failS :: "string \<Rightarrow> ('s, 'a) op" where
  "failS e s = (Inl e, s)"

definition tryS :: "'a result \<Rightarrow> ('s, 'a) op" where
  "tryS r s = (r, s)"

text \<open>\<open>_ = f(...)\<close>: the call's error is dropped.\<close>

definition dropS :: "('s, 'a) op \<Rightarrow> 's \<Rightarrow> 's" where
  "dropS m s = snd (m s)"

lemma bindS_simps [simp]:
  "bindS (okS x) f s = f x s" "bindS (failS e) f s = (Inl e, s)"
  "bindS (tryS (Inr x)) f s = f x s" "bindS (tryS (Inl e)) f s = (Inl e, s)"
  by (simp_all add: bindS_def okS_def failS_def tryS_def)

lemma bindS_eq_Inr:
  "bindS m f s = (Inr y, s') \<longleftrightarrow> (\<exists>x t. m s = (Inr x, t) \<and> f x t = (Inr y, s'))"
  by (auto simp: bindS_def split: prod.splits sum.splits)

text \<open>A predicate kept by every part is kept by the sequence.\<close>

lemma bindS_invariant:
  "\<lbrakk>I s; \<And>s. I s \<Longrightarrow> I (snd (m s)); \<And>x s. I s \<Longrightarrow> I (snd (f x s))\<rbrakk> \<Longrightarrow> I (snd (bindS m f s))"
  unfolding bindS_def by (auto split: prod.splits sum.splits) (metis snd_conv)+

text \<open>
  \<open>preserves I m\<close>: operation \<open>m\<close> keeps \<open>I\<close>, whether it succeeds or fails. The collection
  \<open>keeps\<close> holds the rules that take a handler apart and the facts on its parts.
\<close>

named_theorems keeps

definition preserves :: "('s \<Rightarrow> bool) \<Rightarrow> ('s, 'a) op \<Rightarrow> bool" where
  "preserves I m \<longleftrightarrow> (\<forall>s. I s \<longrightarrow> I (snd (m s)))"

lemma preservesD: "preserves I m \<Longrightarrow> I s \<Longrightarrow> I (snd (m s))"
  by (simp add: preserves_def)

lemma preserves_run: "preserves I m \<Longrightarrow> I s \<Longrightarrow> m s = (r, s') \<Longrightarrow> I s'"
  by (metis preservesD snd_conv)

lemma preserves_bindS [keeps]:
  "preserves I m \<Longrightarrow> (\<And>x. preserves I (f x)) \<Longrightarrow> preserves I (bindS m f)"
  unfolding preserves_def by (metis bindS_invariant)

lemma preserves_pure [keeps]:
  "preserves I (okS x)" "preserves I (failS e)" "preserves I (tryS r)"
  by (simp_all add: preserves_def okS_def failS_def tryS_def)

lemma preserves_if [keeps]:
  "preserves I m \<Longrightarrow> preserves I m' \<Longrightarrow> preserves I (if b then m else m')"
  by simp

lemma preserves_option [keeps]:
  "preserves I m \<Longrightarrow> (\<And>x. preserves I (f x)) \<Longrightarrow> preserves I (case v of None \<Rightarrow> m | Some x \<Rightarrow> f x)"
  by (cases v) auto

lemma preserves_sum [keeps]:
  "(\<And>e. preserves I (g e)) \<Longrightarrow> (\<And>x. preserves I (f x)) \<Longrightarrow>
   preserves I (case v of Inl e \<Rightarrow> g e | Inr x \<Rightarrow> f x)"
  by (cases v) auto

lemma preserves_pair [keeps]:
  "(\<And>x y. preserves I (f x y)) \<Longrightarrow> preserves I (case p of (x, y) \<Rightarrow> f x y)"
  by (cases p) auto

lemma preserves_Let [keeps]: "(\<And>x. preserves I (f x)) \<Longrightarrow> preserves I (let x = v in f x)"
  by simp

section \<open>Decoding JSON documents\<close>

text \<open>Into \<open>map[string]any\<close>: an object or null.\<close>

fun decodeObj :: "gval \<Rightarrow> gmap result" where
  "decodeObj (GMap m) = Inr m"
| "decodeObj GNil = Inr []"
| "decodeObj _ = Inl ''json: cannot unmarshal''"

text \<open>A struct field takes the key of its tag, or a key that differs from it in case only.\<close>

definition jsonField :: "gmap \<Rightarrow> string \<Rightarrow> gval option" where
  "jsonField m k =
    (case map_of m k of
       Some v \<Rightarrow> Some v
     | None \<Rightarrow> (case filter (\<lambda>(k', _). EqualFold k' k) m of
                  [] \<Rightarrow> None
                | kvs \<Rightarrow> Some (snd (last kvs))))"

text \<open>A field of type \<open>string\<close>: null or missing leaves it empty.\<close>

fun decodeStr :: "gval option \<Rightarrow> string result" where
  "decodeStr None = Inr []"
| "decodeStr (Some GNil) = Inr []"
| "decodeStr (Some (GStr s)) = Inr s"
| "decodeStr (Some _) = Inl ''json: cannot unmarshal''"

definition decodeBool :: "gval option \<Rightarrow> bool result" where
  "decodeBool v =
    (case v of None \<Rightarrow> Inr False | Some GNil \<Rightarrow> Inr False | Some (GBool b) \<Rightarrow> Inr b
     | _ \<Rightarrow> Inl ''json: cannot unmarshal'')"

text \<open>A \<open>ContextRef\<close>, whose field names are the same in all packages.\<close>

definition decodeContext :: "gval option \<Rightarrow> ContextRef result" where
  "decodeContext v =
    (case v of
       None \<Rightarrow> Inr emptyContext
     | Some doc \<Rightarrow>
        bindR (decodeObj doc) (\<lambda>m.
        bindR (decodeStr (jsonField m ''tenant_id'')) (\<lambda>tenant.
        bindR (decodeStr (jsonField m ''environment'')) (\<lambda>env.
        bindR (decodeStr (jsonField m ''cluster_id'')) (\<lambda>cluster.
        bindR (decodeStr (jsonField m ''namespace'')) (\<lambda>ns.
        bindR (decodeStr (jsonField m ''aws_account_id'')) (\<lambda>acct.
        bindR (decodeStr (jsonField m ''region'')) (\<lambda>region.
        bindR (decodeStr (jsonField m ''argocd_project'')) (\<lambda>proj.
        bindR (decodeStr (jsonField m ''grafana_org_id'')) (\<lambda>org.
          Inr \<lparr>TenantID = tenant, Environment = env, ClusterID = cluster, Namespace = ns,
               AWSAccountID = acct, Region = region, ArgoCDProject = proj, GrafanaOrgID = org\<rparr>))))))))))"

fun mapR :: "('a \<Rightarrow> 'b result) \<Rightarrow> 'a list \<Rightarrow> 'b list result" where
  "mapR f [] = Inr []"
| "mapR f (x # xs) = bindR (f x) (\<lambda>y. bindR (mapR f xs) (\<lambda>ys. Inr (y # ys)))"

lemma mapR_Inr: "(\<And>x. x \<in> set xs \<Longrightarrow> f x = Inr (g x)) \<Longrightarrow> mapR f xs = Inr (map g xs)"
  by (induction xs) auto

lemma mapR_map: "mapR f (map h xs) = mapR (\<lambda>x. f (h x)) xs"
  by (induction xs) auto

lemma mapR_total: "mapR (\<lambda>x. Inr (g x)) xs = Inr (map g xs)"
  by (induction xs) auto

section \<open>Decimal identifiers sort like the numbers\<close>

lemma digitChar_less: "a < b \<Longrightarrow> b < 10 \<Longrightarrow> digitChar a < digitChar b"
  by (simp add: digitChar_def less_char_def)

lemma snoc_less:
  fixes a b :: char
  assumes "length xs = length ys" "xs < ys \<or> xs = ys \<and> a < b"
  shows "xs @ [a] < ys @ [b]"
  using assms by (induction xs ys rule: list_induct2) auto

lemma showNat_length: "10 ^ k \<le> n \<Longrightarrow> n < 10 ^ Suc k \<Longrightarrow> length (showNat n) = Suc k"
proof (induction k arbitrary: n)
  case 0
  then show ?case by (subst showNat.simps) simp
next
  case (Suc k)
  then have "10 ^ k \<le> n div 10" "n div 10 < 10 ^ Suc k" by auto
  then have "length (showNat (n div 10)) = Suc k" by (rule Suc.IH)
  moreover have "\<not> n < 10"
  proof -
    have "(10::nat) * 1 \<le> 10 * 10 ^ k" by (intro mult_le_mono) simp_all
    also have "\<dots> \<le> n" using Suc.prems(1) by simp
    finally show ?thesis by simp
  qed
  ultimately show ?case by (subst showNat.simps) simp
qed

lemma showNat_less:
  "m < n \<Longrightarrow> length (showNat m) = length (showNat n) \<Longrightarrow> showNat m < showNat n"
proof (induction n arbitrary: m rule: showNat.induct)
  case (1 n)
  show ?case
  proof (cases "n < 10")
    case True
    then show ?thesis using "1.prems" by (subst (1 2) showNat.simps) (simp add: digitChar_less)
  next
    case False
    then have n: "showNat n = showNat (n div 10) @ [digitChar (n mod 10)]"
      by (subst showNat.simps) simp
    have "\<not> m < 10"
    proof
      assume "m < 10"
      then have "length (showNat m) = 1" by (subst showNat.simps) simp
      moreover have "length (showNat n) = Suc (length (showNat (n div 10)))" unfolding n by simp
      ultimately show False using "1.prems"(2) showNat_nonempty [of "n div 10"] by simp
    qed
    then have m: "showNat m = showNat (m div 10) @ [digitChar (m mod 10)]"
      by (subst showNat.simps) simp
    have len: "length (showNat (m div 10)) = length (showNat (n div 10))"
      using "1.prems"(2) unfolding m n by simp
    have "m div 10 < n div 10 \<or> m div 10 = n div 10 \<and> m mod 10 < n mod 10"
      using "1.prems"(1) div_le_mono [of m n 10] mod_mult_div_eq [of m 10] mod_mult_div_eq [of n 10]
      by linarith
    then have "showNat (m div 10) < showNat (n div 10) \<or>
        showNat (m div 10) = showNat (n div 10) \<and> digitChar (m mod 10) < digitChar (n mod 10)"
    proof (elim disjE conjE)
      assume "m div 10 < n div 10"
      with "1.IH" [OF False _ len] show ?thesis by (intro disjI1)
    next
      assume "m div 10 = n div 10" "m mod 10 < n mod 10"
      then show ?thesis using digitChar_less [of "m mod 10" "n mod 10"] by auto
    qed
    with len show ?thesis unfolding m n by (rule snoc_less)
  qed
qed

end
