(* ===== verification/Store.thy ===== *)
theory Store
  imports Go_Effects
begin

text \<open>
  \<open>internal/db\<close>: the plans, plan steps, executions, tool calls, evidence, approvals,
  schedules, audit events, event gates and sessions of the service (and the rows of the
  libraries, whose statements are in \<open>Library_Store\<close>), with every statement of
  \<open>queries.go\<close>, \<open>executions.go\<close>, \<open>approvals.go\<close>, \<open>event_gates.go\<close> and \<open>sessions.go\<close> as an
  operation on tables that are lists of rows.

  PostgreSQL, the clock and the JSON codec are outside the repository. A statement either
  fails with an error chosen by \<open>connFault\<close> (indexed by the number of statements so far, so
  any pattern of failures is possible) or has its effect. \<open>clockAt n\<close> is the \<open>n\<close>-th reading of
  the clock. Keys and references of the schema under \<open>migrations/\<close> are checked on insertion and
  deletion. Documents are the decoded values, \<open>NULL\<close> is \<open>None\<close>; among rows that tie in an
  \<open>ORDER BY ... LIMIT 1\<close> the database's choice is \<open>tieBreak\<close>.
\<close>

record PlanRow =
  PrID :: string
  PrCreatedAt :: nat
  PrTrigger :: string
  PrSummary :: string
  PrContext :: gval
  PrRisk :: string
  PrIntent :: "string option"
  PrConstraints :: "gval option"
  PrText :: "string option"
  PrSession :: "string option"
  PrMeta :: "gval option"

record StepRow =
  SrID :: string
  SrPlan :: string
  SrAction :: string
  SrTool :: string
  SrInput :: gval
  SrPreconditions :: "gval option"
  SrRollback :: "gval option"

record ExecRow =
  ErID :: string
  ErPlan :: string
  ErStatus :: string
  ErStartedAt :: nat
  ErCompletedAt :: "nat option"
  ErWorkflow :: "string option"

record ToolCallRow =
  TrID :: string
  TrExec :: string
  TrTool :: string
  TrInputRef :: "string option"
  TrOutputRef :: "string option"
  TrStatus :: string

record EvidenceRow =
  EvID :: string
  EvExec :: string
  EvType :: string
  EvQuery :: "string option"
  EvResultRef :: "string option"
  EvLink :: "string option"
  EvCollectedAt :: nat
  EvExternal :: "gval option"

record ApprovalRow =
  ArID :: string
  ArPlan :: string
  ArStatus :: string
  ArApprover :: "gval option"
  ArExpires :: "nat option"
  ArSource :: string
  ArHash :: "string option"

record ScheduleRow =
  ScID :: string
  ScCreatedAt :: nat
  ScCron :: string
  ScContext :: gval
  ScSummary :: string
  ScIntent :: string
  ScConstraints :: "gval option"
  ScTrigger :: string
  ScEnabled :: bool
  ScLastRun :: "nat option"

record AuditRow =
  AuID :: string
  AuOccurredAt :: nat
  AuActor :: gval
  AuAction :: string
  AuDecision :: string
  AuContext :: gval
  AuEvidence :: gval
  AuHash :: string

record EventGateState =
  FirstSeen :: int
  LastSeen :: int
  GateCount :: int
  SuppressedUntil :: "int option"

record SessionRow =
  SnID :: string
  SnName :: string
  SnTenant :: string
  SnGroup :: "string option"
  SnOwner :: "string option"
  SnMetadata :: "gval option"
  SnCreatedAt :: nat
  SnUpdatedAt :: nat

record MemberRow =
  MbSession :: string
  MbMember :: string
  MbRole :: string
  MbAddedAt :: nat

record PlaybookRow =
  PbID :: string
  PbTenant :: "string option"
  PbName :: string
  PbVersion :: int
  PbTags :: "gval option"
  PbSpec :: gval
  PbCreatedAt :: nat

record RunbookRow =
  RbID :: string
  RbTenant :: "string option"
  RbService :: string
  RbName :: string
  RbVersion :: int
  RbTags :: "gval option"
  RbBody :: "string option"
  RbSpec :: "gval option"
  RbCreatedAt :: nat

record MemoryRow =
  MmID :: string
  MmTenant :: string
  MmTitle :: string
  MmBody :: string
  MmTags :: "gval option"
  MmMetadata :: "gval option"
  MmOwner :: "string option"
  MmCreatedAt :: nat
  MmUpdatedAt :: nat

record WorkflowRow =
  WcID :: string
  WcTenant :: "string option"
  WcName :: string
  WcVersion :: int
  WcSpec :: gval
  WcCreatedAt :: nat

record Tables =
  plansT :: "PlanRow list"
  stepsT :: "StepRow list"
  execsT :: "ExecRow list"
  callsT :: "ToolCallRow list"
  evidenceT :: "EvidenceRow list"
  approvalsT :: "ApprovalRow list"
  schedulesT :: "ScheduleRow list"
  auditT :: "AuditRow list"
  gatesT :: "((string \<times> string) \<times> EventGateState) list"
  sessionsT :: "SessionRow list"
  membersT :: "MemberRow list"
  playbooksT :: "PlaybookRow list"
  runbooksT :: "RunbookRow list"
  memoryT :: "MemoryRow list"
  catalogT :: "WorkflowRow list"

record DB =
  clockAt :: "nat \<Rightarrow> nat"
  clockReads :: nat
  connFault :: "nat \<Rightarrow> string option"
  stmtCount :: nat
  tieBreak :: "ApprovalRow list \<Rightarrow> ApprovalRow"
  tables :: Tables

definition emptyTables :: Tables where
  "emptyTables = \<lparr>plansT = [], stepsT = [], execsT = [], callsT = [], evidenceT = [],
     approvalsT = [], schedulesT = [], auditT = [], gatesT = [],
     sessionsT = [], membersT = [], playbooksT = [], runbooksT = [], memoryT = [], catalogT = []\<rparr>"

section \<open>Statements, clock, transactions\<close>

definition query :: "(Tables \<Rightarrow> 'a result) \<Rightarrow> (DB, 'a) op" where
  "query q d =
    (let d' = d\<lparr>stmtCount := Suc (stmtCount d)\<rparr> in
     case connFault d (stmtCount d) of
       Some e \<Rightarrow> (Inl e, d')
     | None \<Rightarrow> (q (tables d), d'))"

definition execute :: "(Tables \<Rightarrow> Tables result) \<Rightarrow> (DB, unit) op" where
  "execute u d =
    (let d' = d\<lparr>stmtCount := Suc (stmtCount d)\<rparr> in
     case connFault d (stmtCount d) of
       Some e \<Rightarrow> (Inl e, d')
     | None \<Rightarrow> (case u (tables d) of
                  Inl e \<Rightarrow> (Inl e, d')
                | Inr t \<Rightarrow> (Inr (), d'\<lparr>tables := t\<rparr>)))"

definition timeNow :: "(DB, nat) op" where
  "timeNow d = (Inr (clockAt d (clockReads d)), d\<lparr>clockReads := Suc (clockReads d)\<rparr>)"

definition newID :: "string \<Rightarrow> (DB, string) op" where
  "newID pfx = bindS timeNow (\<lambda>t. okS (pfx @ ''_'' @ showNat t))"

definition withTx :: "(DB, 'a) op \<Rightarrow> (DB, 'a) op" where
  "withTx fn d =
    (case execute Inr d of
       (Inl e, d1) \<Rightarrow> (Inl (''begin tx: '' @ e), d1)
     | (Inr _, d1) \<Rightarrow>
        (case fn d1 of
           (Inl e, d2) \<Rightarrow> (Inl e, d2\<lparr>tables := tables d1\<rparr>)
         | (Inr x, d2) \<Rightarrow>
            (case execute Inr d2 of
               (Inl e, d3) \<Rightarrow> (Inl e, d3\<lparr>tables := tables d1\<rparr>)
             | (Inr _, d3) \<Rightarrow> (Inr x, d3))))"

definition clampPagination :: "int \<Rightarrow> int \<Rightarrow> int \<times> int" where
  "clampPagination limit offset =
    (let limit = (if limit \<le> 0 then 50 else limit);
         limit = (if limit > 200 then 200 else limit);
         offset = (if offset < 0 then 0 else offset) in (limit, offset))"

definition nullString :: "string \<Rightarrow> string option" where
  "nullString v = (if v = [] then None else Some v)"

definition duplicateKey :: string where
  "duplicateKey = ''duplicate key value violates unique constraint''"

definition foreignKey :: string where
  "foreignKey = ''violates foreign key constraint''"

definition hasPlan :: "string \<Rightarrow> Tables \<Rightarrow> bool" where
  "hasPlan p t \<longleftrightarrow> p \<in> PrID ` set (plansT t)"

definition hasExec :: "string \<Rightarrow> Tables \<Rightarrow> bool" where
  "hasExec x t \<longleftrightarrow> x \<in> ErID ` set (execsT t)"

section \<open>Plans and their steps\<close>

record StepPayload =
  SpAction :: string
  SpTool :: string
  SpInput :: "gval option"
  SpPreconditions :: "gval option"
  SpRollback :: "gval option"

definition decodePlanStep :: "gval \<Rightarrow> StepPayload result" where
  "decodePlanStep v =
     bindR (decodeObj v) (\<lambda>m.
     bindR (decodeStr (jsonField m ''action'')) (\<lambda>action.
     bindR (decodeStr (jsonField m ''tool'')) (\<lambda>tool.
       Inr \<lparr>SpAction = action, SpTool = tool, SpInput = jsonField m ''input'',
            SpPreconditions = jsonField m ''preconditions'', SpRollback = jsonField m ''rollback''\<rparr>)))"

fun decodePlanSteps :: "gval \<Rightarrow> StepPayload list result" where
  "decodePlanSteps GNil = Inr []"
| "decodePlanSteps (GList vs) = mapR decodePlanStep vs"
| "decodePlanSteps _ = Inl ''json: cannot unmarshal''"

definition insertStep :: "StepRow \<Rightarrow> Tables \<Rightarrow> Tables result" where
  "insertStep r t =
    (if SrID r \<in> SrID ` set (stepsT t) then Inl duplicateKey
     else if \<not> hasPlan (SrPlan r) t then Inl foreignKey
     else Inr (t\<lparr>stepsT := stepsT t @ [r]\<rparr>))"

fun insertPlanStepsConn :: "string \<Rightarrow> StepPayload list \<Rightarrow> (DB, unit) op" where
  "insertPlanStepsConn planID [] = okS ()"
| "insertPlanStepsConn planID (step # steps) =
    (if SpAction step = [] \<or> SpTool step = [] then insertPlanStepsConn planID steps
     else bindS (newID ''step'') (\<lambda>stepID.
          bindS (execute (insertStep
             \<lparr>SrID = stepID, SrPlan = planID, SrAction = SpAction step, SrTool = SpTool step,
              SrInput = (case SpInput step of None \<Rightarrow> GMap [] | Some v \<Rightarrow> v),
              SrPreconditions = SpPreconditions step, SrRollback = SpRollback step\<rparr>)) (\<lambda>_.
          insertPlanStepsConn planID steps)))"

text \<open>A column that takes a JSON document unless the payload has null there.\<close>

definition nullDoc :: "gval \<Rightarrow> gval option" where
  "nullDoc v = (if v = GNil then None else Some v)"

definition insertPlan :: "PlanRow \<Rightarrow> Tables \<Rightarrow> Tables result" where
  "insertPlan r t =
    (if hasPlan (PrID r) t then Inl duplicateKey else Inr (t\<lparr>plansT := plansT t @ [r]\<rparr>))"

definition CreatePlan :: "gval \<Rightarrow> (DB, string) op" where
  "CreatePlan planJSON =
     bindS (newID ''plan'') (\<lambda>planID.
     bindS (tryS (decodeObj planJSON)) (\<lambda>payload.
     bindS (tryS (decodePlanSteps (gget payload ''steps''))) (\<lambda>steps.
     bindS timeNow (\<lambda>now.
     bindS (withTx (
       bindS (execute (insertPlan
         \<lparr>PrID = planID, PrCreatedAt = now, PrTrigger = gstr payload ''trigger'',
          PrSummary = gstr payload ''summary'', PrContext = gget payload ''context'',
          PrRisk = gstr payload ''risk_level'', PrIntent = nullString (gstr payload ''intent''),
          PrConstraints = nullDoc (gget payload ''constraints''),
          PrText = nullString (gstr payload ''plan_text''),
          PrSession = nullString (gstr payload ''session_id''),
          PrMeta = nullDoc (gget payload ''meta'')\<rparr>)) (\<lambda>_.
       insertPlanStepsConn planID steps))) (\<lambda>_.
     okS planID)))))"

definition optEntry :: "string \<Rightarrow> gval option \<Rightarrow> gmap" where
  "optEntry k v = (case v of None \<Rightarrow> [] | Some x \<Rightarrow> [(k, x)])"

definition planDoc :: "PlanRow \<Rightarrow> gmap" where
  "planDoc r =
     [(''plan_id'', GStr (PrID r)), (''created_at'', GStr (showNat (PrCreatedAt r))),
      (''trigger'', GStr (PrTrigger r)), (''summary'', GStr (PrSummary r)),
      (''context'', PrContext r), (''risk_level'', GStr (PrRisk r))]
     @ optEntry ''intent'' (map_option GStr (PrIntent r))
     @ optEntry ''plan_text'' (map_option GStr (PrText r))
     @ optEntry ''constraints'' (PrConstraints r)
     @ optEntry ''session_id'' (map_option GStr (PrSession r))
     @ optEntry ''meta'' (PrMeta r)"

definition GetPlan :: "string \<Rightarrow> (DB, gmap option) op" where
  "GetPlan planID = query (\<lambda>t. Inr (map_option planDoc (find (\<lambda>r. PrID r = planID) (plansT t))))"

definition docOf :: "gval option \<Rightarrow> gval" where
  "docOf v = (case v of None \<Rightarrow> GNil | Some x \<Rightarrow> x)"

definition stepDoc :: "StepRow \<Rightarrow> gmap" where
  "stepDoc r =
     [(''step_id'', GStr (SrID r)), (''action'', GStr (SrAction r)), (''tool'', GStr (SrTool r)),
      (''input'', SrInput r), (''preconditions'', docOf (SrPreconditions r)),
      (''rollback'', docOf (SrRollback r))]"

definition ListPlanSteps :: "string \<Rightarrow> (DB, gval list) op" where
  "ListPlanSteps planID = query (\<lambda>t. Inr (map (\<lambda>r. GMap (stepDoc r))
     (sort_key SrID (filter (\<lambda>r. SrPlan r = planID) (stepsT t)))))"

text \<open>No reference to \<open>plans\<close> cascades.\<close>

definition DeletePlan :: "string \<Rightarrow> (DB, unit) op" where
  "DeletePlan planID = execute (\<lambda>t.
     if hasPlan planID t \<and>
        (planID \<in> SrPlan ` set (stepsT t) \<or> planID \<in> ErPlan ` set (execsT t) \<or>
         planID \<in> ArPlan ` set (approvalsT t)) then Inl foreignKey
     else Inr (t\<lparr>plansT := filter (\<lambda>r. PrID r \<noteq> planID) (plansT t)\<rparr>))"

section \<open>Executions, tool calls, evidence\<close>

definition CreateExecution :: "string \<Rightarrow> (DB, string) op" where
  "CreateExecution planID =
     bindS (newID ''exec'') (\<lambda>execID.
     bindS timeNow (\<lambda>now.
     bindS (execute (\<lambda>t.
       if hasExec execID t then Inl duplicateKey
       else if \<not> hasPlan planID t then Inl foreignKey
       else Inr (t\<lparr>execsT := execsT t @
              [\<lparr>ErID = execID, ErPlan = planID, ErStatus = ''pending'', ErStartedAt = now,
                ErCompletedAt = None, ErWorkflow = None\<rparr>]\<rparr>))) (\<lambda>_.
     okS execID)))"

definition isActive :: "ExecRow \<Rightarrow> bool" where
  "isActive r \<longleftrightarrow> ErStatus r \<in> {''pending'', ''running''}"

definition HasActiveExecution :: "string \<Rightarrow> (DB, bool) op" where
  "HasActiveExecution planID = query (\<lambda>t.
     Inr (length (filter (\<lambda>r. ErPlan r = planID \<and> isActive r) (execsT t)) > 0))"

definition execDoc :: "ExecRow \<Rightarrow> gmap" where
  "execDoc r =
     [(''execution_id'', GStr (ErID r)), (''plan_id'', GStr (ErPlan r)),
      (''status'', GStr (ErStatus r)), (''started_at'', GStr (showNat (ErStartedAt r))),
      (''completed_at'', (case ErCompletedAt r of None \<Rightarrow> GStr ''0001-01-01T00:00:00Z''
                                                | Some t \<Rightarrow> GStr (showNat t)))]
     @ optEntry ''workflow_id'' (map_option GStr (ErWorkflow r))"

definition GetExecution :: "string \<Rightarrow> (DB, gmap option) op" where
  "GetExecution execID =
     query (\<lambda>t. Inr (map_option execDoc (find (\<lambda>r. ErID r = execID) (execsT t))))"

definition updateExec :: "(ExecRow \<Rightarrow> bool) \<Rightarrow> (ExecRow \<Rightarrow> ExecRow) \<Rightarrow> Tables \<Rightarrow> Tables" where
  "updateExec p f t = t\<lparr>execsT := map (\<lambda>r. if p r then f r else r) (execsT t)\<rparr>"

definition UpdateExecutionStatus :: "string \<Rightarrow> string \<Rightarrow> (DB, unit) op" where
  "UpdateExecutionStatus executionID status = execute (\<lambda>t.
     Inr (updateExec (\<lambda>r. ErID r = executionID) (\<lambda>r. r\<lparr>ErStatus := status\<rparr>) t))"

definition UpdateExecutionWorkflowID :: "string \<Rightarrow> string \<Rightarrow> (DB, unit) op" where
  "UpdateExecutionWorkflowID executionID workflowID = execute (\<lambda>t.
     Inr (updateExec (\<lambda>r. ErID r = executionID) (\<lambda>r. r\<lparr>ErWorkflow := Some workflowID\<rparr>) t))"

definition CompleteExecution :: "string \<Rightarrow> string \<Rightarrow> (DB, unit) op" where
  "CompleteExecution executionID status =
    (if executionID = [] then failS ''execution id required''
     else bindS timeNow (\<lambda>now. execute (\<lambda>t.
       Inr (updateExec (\<lambda>r. ErID r = executionID)
              (\<lambda>r. r\<lparr>ErStatus := status, ErCompletedAt := Some now\<rparr>) t))))"

text \<open>\<open>NOW()\<close> is the database's own clock.\<close>

definition CancelExecution :: "string \<Rightarrow> (DB, unit) op" where
  "CancelExecution executionID =
     bindS timeNow (\<lambda>now. execute (\<lambda>t.
       let hit = (\<lambda>r. ErID r = executionID \<and> isActive r) in
       if \<exists>r\<in>set (execsT t). hit r
       then Inr (updateExec hit (\<lambda>r. r\<lparr>ErStatus := ''cancelled'', ErCompletedAt := Some now\<rparr>) t)
       else Inl ''sql: no rows in result set''))"

record ExecutionRef =
  RefExecutionID :: string
  RefPlanID :: string

definition ListExecutionsByStatus :: "string \<Rightarrow> int \<Rightarrow> (DB, ExecutionRef list) op" where
  "ListExecutionsByStatus status limit = query (\<lambda>t.
     Inr (map (\<lambda>r. \<lparr>RefExecutionID = ErID r, RefPlanID = ErPlan r\<rparr>)
       (take (nat (if limit \<le> 0 then 50 else limit))
         (sort_key ErStartedAt (filter (\<lambda>r. ErStatus r = status) (execsT t))))))"

text \<open>An empty payload is \<open>None\<close>.\<close>

definition InsertToolCall :: "string \<Rightarrow> gval option \<Rightarrow> (DB, string) op" where
  "InsertToolCall executionID payload =
     bindS (newID ''tool'') (\<lambda>toolID.
     bindS (tryS (case payload of
         None \<Rightarrow> Inr (''unknown'', ''pending'', None, None)
       | Some v \<Rightarrow>
           bindR (decodeObj v) (\<lambda>m.
           bindR (decodeStr (jsonField m ''tool_name'')) (\<lambda>name.
           bindR (decodeStr (jsonField m ''input_ref'')) (\<lambda>inp.
           bindR (decodeStr (jsonField m ''output_ref'')) (\<lambda>out.
           bindR (decodeStr (jsonField m ''status'')) (\<lambda>status.
             Inr ((if name = [] then ''unknown'' else name),
                  (if status = [] then ''pending'' else status),
                  nullString inp, nullString out)))))))) (\<lambda>(name, status, inp, out).
     bindS (execute (\<lambda>t.
       if toolID \<in> TrID ` set (callsT t) then Inl duplicateKey
       else if \<not> hasExec executionID t then Inl foreignKey
       else Inr (t\<lparr>callsT := callsT t @
              [\<lparr>TrID = toolID, TrExec = executionID, TrTool = name, TrInputRef = inp,
                TrOutputRef = out, TrStatus = status\<rparr>]\<rparr>))) (\<lambda>_.
     okS toolID)))"

definition UpdateToolCall :: "string \<Rightarrow> string \<Rightarrow> string \<Rightarrow> string \<Rightarrow> (DB, unit) op" where
  "UpdateToolCall toolCallID status inputRef outputRef =
    (if toolCallID = [] then failS ''tool call id required''
     else execute (\<lambda>t. Inr (t\<lparr>callsT := map (\<lambda>r.
       if TrID r = toolCallID
       then r\<lparr>TrStatus := status, TrInputRef := nullString inputRef,
              TrOutputRef := nullString outputRef\<rparr>
       else r) (callsT t)\<rparr>)))"

text \<open>\<open>time.Parse\<close> of the RFC 3339 text is the parameter \<open>parseTime\<close>.\<close>

definition InsertEvidence ::
  "(string \<Rightarrow> nat result) \<Rightarrow> string \<Rightarrow> gval option \<Rightarrow> (DB, string) op" where
  "InsertEvidence parseTime executionID payload =
     bindS (newID ''evid'') (\<lambda>evid.
     bindS timeNow (\<lambda>now.
     bindS (tryS (case payload of
         None \<Rightarrow> Inr (''unknown'', now, None, None, None, None)
       | Some v \<Rightarrow>
           bindR (decodeObj v) (\<lambda>m.
           bindR (decodeStr (jsonField m ''type'')) (\<lambda>typ.
           bindR (decodeStr (jsonField m ''query'')) (\<lambda>q.
           bindR (decodeStr (jsonField m ''result_ref'')) (\<lambda>ref.
           bindR (decodeStr (jsonField m ''link'')) (\<lambda>link.
           bindR (decodeStr (jsonField m ''collected_at'')) (\<lambda>stamp.
           bindR (if stamp = [] then Inr now else parseTime stamp) (\<lambda>queriedAt.
             Inr ((if typ = [] then ''unknown'' else typ), queriedAt, nullString q,
                  nullString ref, nullString link, jsonField m ''external_ids'')))))))))) (\<lambda>(typ, queriedAt, q, ref, link, ext).
     bindS (execute (\<lambda>t.
       if evid \<in> EvID ` set (evidenceT t) then Inl duplicateKey
       else if \<not> hasExec executionID t then Inl foreignKey
       else Inr (t\<lparr>evidenceT := evidenceT t @
              [\<lparr>EvID = evid, EvExec = executionID, EvType = typ, EvQuery = q, EvResultRef = ref,
                EvLink = link, EvCollectedAt = queriedAt, EvExternal = ext\<rparr>]\<rparr>))) (\<lambda>_.
     okS evid))))"

section \<open>Approvals\<close>

definition insertApproval :: "string \<Rightarrow> string \<Rightarrow> string \<Rightarrow> string \<Rightarrow> Tables \<Rightarrow> Tables result" where
  "insertApproval approvalID planID status source t =
    (if approvalID \<in> ArID ` set (approvalsT t) then Inl duplicateKey
     else if \<not> hasPlan planID t then Inl foreignKey
     else Inr (t\<lparr>approvalsT := approvalsT t @
            [\<lparr>ArID = approvalID, ArPlan = planID, ArStatus = status, ArApprover = None,
              ArExpires = None, ArSource = source, ArHash = None\<rparr>]\<rparr>))"

definition CreateApproval :: "string \<Rightarrow> (DB, string) op" where
  "CreateApproval planID =
     bindS (newID ''approval'') (\<lambda>i.
     bindS (execute (insertApproval i planID ''pending'' ''linear'')) (\<lambda>_. okS i))"

definition CreateAndApprove :: "string \<Rightarrow> (DB, string) op" where
  "CreateAndApprove planID =
     bindS (newID ''approval'') (\<lambda>i.
     bindS (withTx (execute (insertApproval i planID ''approved'' ''auto''))) (\<lambda>_. okS i))"

definition updateApprovals ::
  "(ApprovalRow \<Rightarrow> bool) \<Rightarrow> (ApprovalRow \<Rightarrow> ApprovalRow) \<Rightarrow> Tables \<Rightarrow> Tables" where
  "updateApprovals p f t = t\<lparr>approvalsT := map (\<lambda>r. if p r then f r else r) (approvalsT t)\<rparr>"

definition UpdateApprovalStatus :: "string \<Rightarrow> string \<Rightarrow> (DB, unit) op" where
  "UpdateApprovalStatus approvalID status = execute (\<lambda>t.
     Inr (updateApprovals (\<lambda>r. ArID r = approvalID) (\<lambda>r. r\<lparr>ArStatus := status\<rparr>) t))"

definition UpdateApprovalStatusByPlan :: "string \<Rightarrow> string \<Rightarrow> (DB, unit) op" where
  "UpdateApprovalStatusByPlan planID status = execute (\<lambda>t.
     Inr (updateApprovals (\<lambda>r. ArPlan r = planID) (\<lambda>r. r\<lparr>ArStatus := status\<rparr>) t))"

definition SetApprovalHash :: "string \<Rightarrow> string \<Rightarrow> (DB, unit) op" where
  "SetApprovalHash planID hash = execute (\<lambda>t.
     Inr (updateApprovals (\<lambda>r. ArPlan r = planID) (\<lambda>r. r\<lparr>ArHash := Some hash\<rparr>) t))"

text \<open>\<open>ORDER BY expires_at DESC NULLS LAST LIMIT 1\<close>.\<close>

definition latestApproval :: "DB \<Rightarrow> string \<Rightarrow> ApprovalRow option" where
  "latestApproval d planID =
    (let rows = filter (\<lambda>r. ArPlan r = planID) (approvalsT (tables d));
         best = filter (\<lambda>r. \<forall>r'\<in>set rows. case ArExpires r' of
                  None \<Rightarrow> True
                | Some e' \<Rightarrow> (case ArExpires r of None \<Rightarrow> False | Some e \<Rightarrow> e' \<le> e)) rows in
     if best = [] then None else Some (tieBreak d best))"

definition noRows :: string where
  "noRows = ''sql: no rows in result set''"

definition GetApprovalStatus :: "string \<Rightarrow> (DB, string) op" where
  "GetApprovalStatus planID d =
     query (\<lambda>_. case latestApproval d planID of None \<Rightarrow> Inl noRows | Some r \<Rightarrow> Inr (ArStatus r)) d"

definition GetApprovalHash :: "string \<Rightarrow> (DB, string) op" where
  "GetApprovalHash planID d =
     query (\<lambda>_. case latestApproval d planID of
                  None \<Rightarrow> Inl noRows
                | Some r \<Rightarrow> Inr (case ArHash r of None \<Rightarrow> [] | Some h \<Rightarrow> h)) d"

definition GetApprovalStatusByToken :: "string \<Rightarrow> string \<Rightarrow> (DB, string) op" where
  "GetApprovalStatusByToken planID approvalID =
     query (\<lambda>t. case find (\<lambda>r. ArPlan r = planID \<and> ArID r = approvalID) (approvalsT t) of
                  None \<Rightarrow> Inl noRows
                | Some r \<Rightarrow> Inr (ArStatus r))"

section \<open>Schedules and the audit log\<close>

definition CreateSchedule :: "gval \<Rightarrow> (DB, string) op" where
  "CreateSchedule payload =
     bindS (newID ''schedule'') (\<lambda>i.
     bindS (tryS (decodeObj payload)) (\<lambda>m.
     bindS timeNow (\<lambda>now.
     bindS (execute (\<lambda>t.
       if i \<in> ScID ` set (schedulesT t) then Inl duplicateKey
       else Inr (t\<lparr>schedulesT := schedulesT t @
              [\<lparr>ScID = i, ScCreatedAt = now, ScCron = gstr m ''cron'', ScContext = gget m ''context'',
                ScSummary = gstr m ''summary'', ScIntent = gstr m ''intent'',
                ScConstraints = nullDoc (gget m ''constraints''), ScTrigger = gstr m ''trigger'',
                ScEnabled = (case gget m ''enabled'' of GBool b \<Rightarrow> b | _ \<Rightarrow> True),
                ScLastRun = None\<rparr>]\<rparr>))) (\<lambda>_.
     okS i))))"

definition UpdateScheduleLastRun :: "string \<Rightarrow> nat \<Rightarrow> (DB, unit) op" where
  "UpdateScheduleLastRun scheduleID now = execute (\<lambda>t.
     Inr (t\<lparr>schedulesT := map (\<lambda>r. if ScID r = scheduleID then r\<lparr>ScLastRun := Some now\<rparr> else r)
                            (schedulesT t)\<rparr>))"

definition DeleteSchedule :: "string \<Rightarrow> (DB, unit) op" where
  "DeleteSchedule scheduleID = execute (\<lambda>t.
     Inr (t\<lparr>schedulesT := filter (\<lambda>r. ScID r \<noteq> scheduleID) (schedulesT t)\<rparr>))"

definition orDoc :: "gval \<Rightarrow> gval option \<Rightarrow> gval" where
  "orDoc dflt v = (case v of None \<Rightarrow> dflt | Some x \<Rightarrow> x)"

definition orStr :: "string \<Rightarrow> string \<Rightarrow> string" where
  "orStr dflt s = (if s = [] then dflt else s)"

definition insertAudit :: "AuditRow \<Rightarrow> Tables \<Rightarrow> Tables result" where
  "insertAudit r t =
    (if AuID r \<in> AuID ` set (auditT t) then Inl duplicateKey
     else Inr (t\<lparr>auditT := auditT t @ [r]\<rparr>))"

definition InsertAuditEvent :: "(string \<Rightarrow> nat result) \<Rightarrow> gval option \<Rightarrow> (DB, string) op" where
  "InsertAuditEvent parseTime payload =
     bindS (newID ''audit'') (\<lambda>i.
     bindS timeNow (\<lambda>now.
     bindS (tryS (case payload of
         None \<Rightarrow> Inr \<lparr>AuID = i, AuOccurredAt = now, AuActor = GMap [], AuAction = ''unknown'',
                     AuDecision = ''allow'', AuContext = GMap [], AuEvidence = GList [], AuHash = []\<rparr>
       | Some v \<Rightarrow>
           bindR (decodeObj v) (\<lambda>m.
           bindR (decodeStr (jsonField m ''occurred_at'')) (\<lambda>stamp.
           bindR (decodeStr (jsonField m ''action'')) (\<lambda>action.
           bindR (decodeStr (jsonField m ''decision'')) (\<lambda>decision.
           bindR (decodeStr (jsonField m ''hash'')) (\<lambda>hash.
           bindR (if stamp = [] then Inr now else parseTime stamp) (\<lambda>occurredAt.
             Inr \<lparr>AuID = i, AuOccurredAt = occurredAt,
                  AuActor = orDoc (GMap []) (jsonField m ''actor''),
                  AuAction = orStr ''unknown'' action, AuDecision = orStr ''allow'' decision,
                  AuContext = orDoc (GMap []) (jsonField m ''context''),
                  AuEvidence = orDoc (GList []) (jsonField m ''evidence_refs''),
                  AuHash = hash\<rparr>)))))))) (\<lambda>row.
     bindS (execute (insertAudit row)) (\<lambda>_. okS i))))"

section \<open>Listing with pagination\<close>

text \<open>\<open>ORDER BY created_at DESC LIMIT \<dots> OFFSET \<dots>\<close>, newest first, and the total.\<close>

definition pageDesc :: "('r \<Rightarrow> nat) \<Rightarrow> int \<Rightarrow> int \<Rightarrow> 'r list \<Rightarrow> 'r list" where
  "pageDesc key limit offset rows =
    (let (limit, offset) = clampPagination limit offset in
     take (nat limit) (drop (nat offset) (rev (sort_key key rows))))"

definition scheduleDoc :: "ScheduleRow \<Rightarrow> gmap" where
  "scheduleDoc r =
     [(''schedule_id'', GStr (ScID r)), (''created_at'', GStr (showNat (ScCreatedAt r))),
      (''cron'', GStr (ScCron r)), (''context'', ScContext r), (''summary'', GStr (ScSummary r)),
      (''intent'', GStr (ScIntent r)), (''constraints'', docOf (ScConstraints r)),
      (''trigger'', GStr (ScTrigger r)), (''enabled'', GBool (ScEnabled r)),
      (''last_run_at'', (case ScLastRun r of None \<Rightarrow> GNil | Some t \<Rightarrow> GStr (showNat t)))]"

definition ListSchedules :: "int \<Rightarrow> int \<Rightarrow> (DB, gval list \<times> nat) op" where
  "ListSchedules limit offset = query (\<lambda>t.
     Inr (map (\<lambda>r. GMap (scheduleDoc r)) (pageDesc ScCreatedAt limit offset (schedulesT t)),
          length (schedulesT t)))"

definition planListDoc :: "DB \<Rightarrow> PlanRow \<Rightarrow> gmap" where
  "planListDoc d r =
     [(''plan_id'', GStr (PrID r)), (''created_at'', GStr (showNat (PrCreatedAt r))),
      (''trigger'', GStr (PrTrigger r)), (''summary'', GStr (PrSummary r)),
      (''context'', PrContext r), (''risk_level'', GStr (PrRisk r)),
      (''intent'', docOf (map_option GStr (PrIntent r))),
      (''status'', GStr (case latestApproval d (PrID r) of None \<Rightarrow> ''none'' | Some a \<Rightarrow> ArStatus a))]"

definition ListPlans :: "int \<Rightarrow> int \<Rightarrow> (DB, gval list \<times> nat) op" where
  "ListPlans limit offset d = query (\<lambda>t.
     Inr (map (\<lambda>r. GMap (planListDoc d r)) (pageDesc PrCreatedAt limit offset (plansT t)),
          length (plansT t))) d"

definition execListDoc :: "ExecRow \<Rightarrow> gmap" where
  "execListDoc r =
     [(''execution_id'', GStr (ErID r)), (''plan_id'', GStr (ErPlan r)),
      (''status'', GStr (ErStatus r)), (''started_at'', GStr (showNat (ErStartedAt r))),
      (''completed_at'', (case ErCompletedAt r of None \<Rightarrow> GNil | Some t \<Rightarrow> GStr (showNat t)))]"

definition ListExecutions :: "int \<Rightarrow> int \<Rightarrow> (DB, gval list \<times> nat) op" where
  "ListExecutions limit offset = query (\<lambda>t.
     Inr (map (\<lambda>r. GMap (execListDoc r)) (pageDesc ErStartedAt limit offset (execsT t)),
          length (execsT t)))"

definition approvalDoc :: "ApprovalRow \<Rightarrow> gmap" where
  "approvalDoc r =
     [(''approval_id'', GStr (ArID r)), (''status'', GStr (ArStatus r)),
      (''approver'', docOf (ArApprover r)),
      (''expires_at'', (case ArExpires r of None \<Rightarrow> GNil | Some t \<Rightarrow> GStr (showNat t))),
      (''source'', GStr (ArSource r))]"

text \<open>Rows with an expiry first, latest first; those without one last.\<close>

definition ListApprovalsByPlan :: "string \<Rightarrow> (DB, gval list) op" where
  "ListApprovalsByPlan planID = query (\<lambda>t.
     let rows = filter (\<lambda>r. ArPlan r = planID) (approvalsT t) in
     Inr (map (\<lambda>r. GMap (approvalDoc r))
       (rev (sort_key (\<lambda>r. the (ArExpires r)) (filter (\<lambda>r. ArExpires r \<noteq> None) rows))
        @ filter (\<lambda>r. ArExpires r = None) rows)))"

section \<open>Event gates\<close>

text \<open>Times and durations are nanosecond counts; \<open>now\<close> is not the zero time.\<close>

definition putGate :: "string \<times> string \<Rightarrow> EventGateState \<Rightarrow> Tables \<Rightarrow> Tables" where
  "putGate k g t = t\<lparr>gatesT := (k, g) # filter (\<lambda>(k', _). k' \<noteq> k) (gatesT t)\<rparr>"

definition UpsertEventGate ::
  "string \<Rightarrow> string \<Rightarrow> int \<Rightarrow> int \<Rightarrow> int \<Rightarrow> int \<Rightarrow> (DB, bool \<times> EventGateState) op" where
  "UpsertEventGate source fingerprint now window backoff minCount =
    (let source = TrimSpace source; fingerprint = TrimSpace fingerprint; k = (source, fingerprint) in
     if source = [] \<or> fingerprint = [] then failS ''source and fingerprint required''
     else bindS (query (\<lambda>t. Inr (map_of (gatesT t) k))) (\<lambda>row.
       case row of
         None \<Rightarrow>
          (let allowed = minCount \<le> 1;
               g = \<lparr>FirstSeen = now, LastSeen = now, GateCount = 1,
                    SuppressedUntil = (if allowed \<and> backoff > 0 then Some (now + backoff) else None)\<rparr> in
           bindS (execute (\<lambda>t. if map_of (gatesT t) k \<noteq> None then Inl duplicateKey
                               else Inr (putGate k g t))) (\<lambda>_. okS (allowed, g)))
       | Some g \<Rightarrow>
          if (case SuppressedUntil g of None \<Rightarrow> False | Some u \<Rightarrow> now < u) then
            (let g = g\<lparr>LastSeen := now, GateCount := GateCount g + 1\<rparr> in
             bindS (execute (\<lambda>t. Inr (putGate k g t))) (\<lambda>_. okS (False, g)))
          else
            (let g = (if window > 0 \<and> now - FirstSeen g > window
                      then g\<lparr>FirstSeen := now, GateCount := 0, SuppressedUntil := None\<rparr> else g);
                 g = g\<lparr>LastSeen := now, GateCount := GateCount g + 1\<rparr>;
                 allowed = (minCount \<le> 1 \<or> GateCount g \<ge> minCount);
                 suppressed = (if allowed \<and> backoff > 0 then Some (now + backoff) else None) in
             bindS (execute (\<lambda>t. Inr (putGate k (g\<lparr>SuppressedUntil := suppressed\<rparr>) t))) (\<lambda>_.
               okS (allowed, g\<lparr>SuppressedUntil :=
                 (if allowed \<and> backoff > 0 then suppressed else SuppressedUntil g)\<rparr>)))))"

section \<open>Sessions\<close>

record SessionPayload =
  SesName :: string
  SesTenant :: string
  SesGroup :: string
  SesOwner :: string
  SesMetadata :: "gval option"

definition decodeSession :: "gval \<Rightarrow> SessionPayload result" where
  "decodeSession v =
     bindR (decodeObj v) (\<lambda>m.
     bindR (decodeStr (jsonField m ''name'')) (\<lambda>name.
     bindR (decodeStr (jsonField m ''tenant_id'')) (\<lambda>tenant.
     bindR (decodeStr (jsonField m ''group_id'')) (\<lambda>grp.
     bindR (decodeStr (jsonField m ''owner_actor_id'')) (\<lambda>owner.
     let name = TrimSpace name; tenant = TrimSpace tenant in
     if name = [] \<or> tenant = [] then Inl ''name and tenant_id required''
     else Inr \<lparr>SesName = name, SesTenant = tenant, SesGroup = TrimSpace grp,
               SesOwner = TrimSpace owner, SesMetadata = jsonField m ''metadata''\<rparr>)))))"

definition insertSession :: "SessionRow \<Rightarrow> Tables \<Rightarrow> Tables result" where
  "insertSession r t =
    (if SnID r \<in> SnID ` set (sessionsT t) then Inl duplicateKey
     else Inr (t\<lparr>sessionsT := sessionsT t @ [r]\<rparr>))"

definition CreateSession :: "gval \<Rightarrow> (DB, string) op" where
  "CreateSession payload =
     bindS (tryS (decodeSession payload)) (\<lambda>p.
     bindS (newID ''session'') (\<lambda>i.
     bindS timeNow (\<lambda>now.
     bindS (execute (insertSession
       \<lparr>SnID = i, SnName = SesName p, SnTenant = SesTenant p, SnGroup = nullString (SesGroup p),
        SnOwner = nullString (SesOwner p), SnMetadata = SesMetadata p, SnCreatedAt = now,
        SnUpdatedAt = now\<rparr>)) (\<lambda>_. okS i))))"

definition sessionListDoc :: "SessionRow \<Rightarrow> gmap" where
  "sessionListDoc r =
     [(''session_id'', GStr (SnID r)), (''name'', GStr (SnName r)), (''tenant_id'', GStr (SnTenant r)),
      (''group_id'', docOf (map_option GStr (SnGroup r))),
      (''owner_actor_id'', docOf (map_option GStr (SnOwner r))), (''metadata'', docOf (SnMetadata r)),
      (''created_at'', GStr (showNat (SnCreatedAt r))), (''updated_at'', GStr (showNat (SnUpdatedAt r)))]"

definition ListSessions :: "int \<Rightarrow> int \<Rightarrow> (DB, gval list \<times> nat) op" where
  "ListSessions limit offset = query (\<lambda>t.
     Inr (map (\<lambda>r. GMap (sessionListDoc r)) (pageDesc SnCreatedAt limit offset (sessionsT t)),
          length (sessionsT t)))"

text \<open>
  \<open>GetSession\<close> scans \<open>group_id\<close> and \<open>owner_actor_id\<close> into plain strings: \<open>database/sql\<close> refuses
  a NULL there.
\<close>

definition scanNull :: string where
  "scanNull = ''sql: converting NULL to string is unsupported''"

definition GetSession :: "string \<Rightarrow> (DB, gmap option) op" where
  "GetSession sessionID =
    (let sessionID = TrimSpace sessionID in
     if sessionID = [] then failS ''session_id required''
     else query (\<lambda>t. case find (\<lambda>r. SnID r = sessionID) (sessionsT t) of
       None \<Rightarrow> Inr None
     | Some r \<Rightarrow>
         (case SnGroup r of
            None \<Rightarrow> Inl scanNull
          | Some grp \<Rightarrow>
             (case SnOwner r of
                None \<Rightarrow> Inl scanNull
              | Some owner \<Rightarrow>
                 Inr (Some
                   [(''session_id'', GStr sessionID), (''name'', GStr (SnName r)),
                    (''tenant_id'', GStr (SnTenant r)), (''group_id'', GStr grp),
                    (''owner_actor_id'', GStr owner), (''metadata'', docOf (SnMetadata r)),
                    (''created_at'', GStr (showNat (SnCreatedAt r))),
                    (''updated_at'', GStr (showNat (SnUpdatedAt r)))])))))"

definition UpdateSession :: "string \<Rightarrow> gval \<Rightarrow> (DB, unit) op" where
  "UpdateSession sessionID payload =
    (let sessionID = TrimSpace sessionID in
     if sessionID = [] then failS ''session_id required''
     else
       bindS (tryS (decodeSession payload)) (\<lambda>p.
       bindS timeNow (\<lambda>now.
       execute (\<lambda>t. Inr (t\<lparr>sessionsT := map (\<lambda>r.
         if SnID r = sessionID
         then r\<lparr>SnName := SesName p, SnTenant := SesTenant p, SnGroup := nullString (SesGroup p),
                SnOwner := nullString (SesOwner p), SnMetadata := SesMetadata p, SnUpdatedAt := now\<rparr>
         else r) (sessionsT t)\<rparr>)))))"

text \<open>The members of a session go with it (\<open>ON DELETE CASCADE\<close>).\<close>

definition DeleteSession :: "string \<Rightarrow> (DB, unit) op" where
  "DeleteSession sessionID =
    (let sessionID = TrimSpace sessionID in
     if sessionID = [] then failS ''session_id required''
     else execute (\<lambda>t. Inr (t\<lparr>sessionsT := filter (\<lambda>r. SnID r \<noteq> sessionID) (sessionsT t),
                             membersT := filter (\<lambda>m. MbSession m \<noteq> sessionID) (membersT t)\<rparr>)))"

definition upsertMember :: "MemberRow \<Rightarrow> Tables \<Rightarrow> Tables result" where
  "upsertMember m t =
    (let same = (\<lambda>r. MbSession r = MbSession m \<and> MbMember r = MbMember m) in
     if MbSession m \<notin> SnID ` set (sessionsT t) then Inl foreignKey
     else if \<exists>r\<in>set (membersT t). same r
     then Inr (t\<lparr>membersT := map (\<lambda>r. if same r then r\<lparr>MbRole := MbRole m\<rparr> else r) (membersT t)\<rparr>)
     else Inr (t\<lparr>membersT := membersT t @ [m]\<rparr>))"

definition AddSessionMember :: "string \<Rightarrow> gval \<Rightarrow> (DB, unit) op" where
  "AddSessionMember sessionID payload =
    (let sessionID = TrimSpace sessionID in
     if sessionID = [] then failS ''session_id required''
     else
       bindS (tryS (bindR (decodeObj payload) (\<lambda>m.
                    bindR (decodeStr (jsonField m ''member_id'')) (\<lambda>member.
                    bindR (decodeStr (jsonField m ''role'')) (\<lambda>role.
                    if TrimSpace member = [] \<or> TrimSpace role = []
                    then Inl ''member_id and role required''
                    else Inr (TrimSpace member, TrimSpace role)))))) (\<lambda>(member, role).
       bindS timeNow (\<lambda>now.
       execute (upsertMember
         \<lparr>MbSession = sessionID, MbMember = member, MbRole = role, MbAddedAt = now\<rparr>))))"

definition memberDoc :: "MemberRow \<Rightarrow> gmap" where
  "memberDoc r = [(''member_id'', GStr (MbMember r)), (''role'', GStr (MbRole r)),
     (''added_at'', GStr (showNat (MbAddedAt r)))]"

definition ListSessionMembers :: "string \<Rightarrow> (DB, gval list) op" where
  "ListSessionMembers sessionID =
    (let sessionID = TrimSpace sessionID in
     if sessionID = [] then failS ''session_id required''
     else query (\<lambda>t. Inr (map (\<lambda>r. GMap (memberDoc r))
       (rev (sort_key MbAddedAt (filter (\<lambda>r. MbSession r = sessionID) (membersT t)))))))"

definition IsSessionMember :: "string \<Rightarrow> string \<Rightarrow> (DB, bool) op" where
  "IsSessionMember sessionID memberID =
    (let sessionID = TrimSpace sessionID; memberID = TrimSpace memberID in
     if sessionID = [] \<or> memberID = [] then failS ''session_id and member_id required''
     else query (\<lambda>t. Inr (\<exists>r\<in>set (membersT t). MbSession r = sessionID \<and> MbMember r = memberID)))"

section \<open>Integrity of the tables\<close>

text \<open>Primary keys are unique and every reference has its target.\<close>

definition refs :: "('r \<Rightarrow> string) \<Rightarrow> 'r list \<Rightarrow> ('q \<Rightarrow> string) \<Rightarrow> 'q list \<Rightarrow> bool" where
  "refs f rs key qs \<longleftrightarrow> f ` set rs \<subseteq> key ` set qs"

definition wfTables :: "Tables \<Rightarrow> bool" where
  "wfTables t \<longleftrightarrow>
     distinct (map PrID (plansT t)) \<and> distinct (map SrID (stepsT t)) \<and>
     distinct (map ErID (execsT t)) \<and> distinct (map TrID (callsT t)) \<and>
     distinct (map EvID (evidenceT t)) \<and> distinct (map ArID (approvalsT t)) \<and>
     distinct (map ScID (schedulesT t)) \<and> distinct (map AuID (auditT t)) \<and>
     distinct (map fst (gatesT t)) \<and> distinct (map SnID (sessionsT t)) \<and>
     distinct (map (\<lambda>m. (MbSession m, MbMember m)) (membersT t)) \<and>
     refs MbSession (membersT t) SnID (sessionsT t) \<and>
     refs SrPlan (stepsT t) PrID (plansT t) \<and>
     refs ErPlan (execsT t) PrID (plansT t) \<and>
     refs ArPlan (approvalsT t) PrID (plansT t) \<and>
     refs TrExec (callsT t) ErID (execsT t) \<and>
     refs EvExec (evidenceT t) ErID (execsT t) \<and>
     distinct (map PbID (playbooksT t)) \<and> distinct (map RbID (runbooksT t)) \<and>
     distinct (map MmID (memoryT t)) \<and> distinct (map WcID (catalogT t)) \<and>
     distinct (map (\<lambda>r. (WcName r, WcVersion r)) (catalogT t))"

abbreviation wfDB :: "DB \<Rightarrow> bool" where
  "wfDB d \<equiv> wfTables (tables d)"

lemma map_key_update [simp]:
  "(\<And>r. key (f r) = key r) \<Longrightarrow> map (key \<circ> (\<lambda>r. if p r then f r else r)) rs = map key rs"
  by simp

lemma refs_simps [simp]:
  "refs f [] key qs"
  "refs f (rs @ [r]) key qs \<longleftrightarrow> refs f rs key qs \<and> f r \<in> key ` set qs"
  by (auto simp: refs_def)

lemma refs_more [simp]: "refs f rs key qs \<Longrightarrow> refs f rs key (qs @ [q])"
  by (auto simp: refs_def)

lemma refs_update [simp]:
  "(\<And>r. f (g r) = f r) \<Longrightarrow> refs f (map (\<lambda>r. if p r then g r else r) rs) key qs = refs f rs key qs"
  "(\<And>q. key (h q) = key q) \<Longrightarrow> refs f rs key (map (\<lambda>q. if p' q then h q else q) qs) = refs f rs key qs"
  unfolding refs_def set_map [symmetric] map_map by simp_all

lemma refs_delete: "refs f rs key qs \<Longrightarrow> k \<notin> f ` set rs \<Longrightarrow> refs f rs key (filter (\<lambda>q. key q \<noteq> k) qs)"
  unfolding refs_def by (auto simp: subset_iff image_iff Bex_def) metis

lemma preserves_execute:
  assumes "\<And>t t'. I t \<Longrightarrow> u t = Inr t' \<Longrightarrow> I t'"
  shows "preserves (\<lambda>d. I (tables d)) (execute u)"
  using assms
  by (auto simp: preserves_def execute_def Let_def split: option.splits sum.splits)

lemma preserves_query [keeps]: "preserves (\<lambda>d. I (tables d)) (query q)"
  by (auto simp: preserves_def query_def Let_def split: option.splits)

lemma preserves_timeNow [keeps]: "preserves (\<lambda>d. I (tables d)) timeNow"
  by (simp add: preserves_def timeNow_def)

lemma preserves_newID [keeps]: "preserves (\<lambda>d. I (tables d)) (newID p)"
  unfolding newID_def by (intro keeps)

lemma preserves_withTx [keeps]:
  assumes "preserves (\<lambda>d. I (tables d)) fn"
  shows "preserves (\<lambda>d. I (tables d)) (withTx fn)"
proof -
  have ex: "preserves (\<lambda>d. I (tables d)) (execute Inr)" by (rule preserves_execute) simp
  have "I (tables (snd (withTx fn d)))" if "I (tables d)" for d
  proof -
    obtain r1 d1 where 1: "execute Inr d = (r1, d1)" by fastforce
    obtain r2 d2 where 2: "fn d1 = (r2, d2)" by fastforce
    obtain r3 d3 where 3: "execute Inr d2 = (r3, d3)" by fastforce
    have "I (tables d1)" using preserves_run [OF ex that 1] .
    moreover from this have "I (tables d2)" using preserves_run [OF assms _ 2] by blast
    moreover from this have "I (tables d3)" using preserves_run [OF ex _ 3] by blast
    ultimately show ?thesis
      unfolding withTx_def by (cases r1; cases r2; cases r3; simp add: 1 2 3)
  qed
  then show ?thesis by (simp add: preserves_def)
qed

lemma preserves_insertPlanStepsConn:
  assumes "\<And>r t t'. I t \<Longrightarrow> insertStep r t = Inr t' \<Longrightarrow> I t'"
  shows "preserves (\<lambda>d. I (tables d)) (insertPlanStepsConn planID steps)"
proof (induction steps)
  case Nil
  show ?case by (simp add: keeps)
next
  case (Cons s ss)
  show ?case
    unfolding insertPlanStepsConn.simps
    by (intro keeps Cons.IH preserves_execute) (erule assms)
qed

lemma insertStep_wf: "wfTables t \<Longrightarrow> insertStep r t = Inr t' \<Longrightarrow> wfTables t'"
  by (auto simp: insertStep_def wfTables_def hasPlan_def split: if_splits)

lemma insertPlan_wf: "wfTables t \<Longrightarrow> insertPlan r t = Inr t' \<Longrightarrow> wfTables t'"
  by (auto simp: insertPlan_def wfTables_def hasPlan_def split: if_splits)

lemma insertApproval_wf: "wfTables t \<Longrightarrow> insertApproval i p s src t = Inr t' \<Longrightarrow> wfTables t'"
  by (auto simp: insertApproval_def wfTables_def hasPlan_def split: if_splits)

lemma updateExec_wf:
  assumes "\<And>r. ErID (f r) = ErID r" "\<And>r. ErPlan (f r) = ErPlan r"
  shows "wfTables (updateExec p f t) = wfTables t"
  using assms by (simp add: wfTables_def updateExec_def)

lemma updateApprovals_wf:
  assumes "\<And>r. ArID (f r) = ArID r" "\<And>r. ArPlan (f r) = ArPlan r"
  shows "wfTables (updateApprovals p f t) = wfTables t"
  using assms by (simp add: wfTables_def updateApprovals_def)

lemma distinct_map_filter: "distinct (map f xs) \<Longrightarrow> distinct (map f (filter p xs))"
  by (induction xs) auto

lemma putGate_wf: "wfTables t \<Longrightarrow> wfTables (putGate k g t)"
  by (auto simp: wfTables_def putGate_def distinct_map_filter)

lemma wfDB_CreatePlan [keeps]: "preserves wfDB (CreatePlan doc)"
  unfolding CreatePlan_def
  by (intro keeps preserves_execute preserves_insertPlanStepsConn)
    (erule (1) insertPlan_wf insertStep_wf)+

lemma wfDB_reads [keeps]:
  "preserves wfDB (GetPlan p)" "preserves wfDB (ListPlanSteps p)"
  "preserves wfDB (HasActiveExecution p)" "preserves wfDB (GetExecution x)"
  "preserves wfDB (ListExecutionsByStatus s n)" "preserves wfDB (GetApprovalStatusByToken p a)"
  "preserves wfDB (ListSchedules m n)" "preserves wfDB (ListExecutions m n)"
  "preserves wfDB (ListApprovalsByPlan p)"
  unfolding GetPlan_def ListPlanSteps_def HasActiveExecution_def GetExecution_def
    ListExecutionsByStatus_def GetApprovalStatusByToken_def ListSchedules_def ListExecutions_def
    ListApprovalsByPlan_def
  by (rule keeps)+

lemma wfDB_state_reads [keeps]:
  "preserves wfDB (GetApprovalStatus p)" "preserves wfDB (GetApprovalHash p)"
  "preserves wfDB (ListPlans m n)"
  unfolding preserves_def GetApprovalStatus_def GetApprovalHash_def ListPlans_def
  by (rule allI, rule impI, erule preservesD [OF preserves_query])+

lemma wfDB_DeletePlan [keeps]: "preserves wfDB (DeletePlan p)"
proof -
  have "wfTables t'" if "wfTables t" and
    "(if hasPlan p t \<and> (p \<in> SrPlan ` set (stepsT t) \<or> p \<in> ErPlan ` set (execsT t) \<or>
         p \<in> ArPlan ` set (approvalsT t)) then Inl foreignKey
      else Inr (t\<lparr>plansT := filter (\<lambda>r. PrID r \<noteq> p) (plansT t)\<rparr>)) = Inr t'" for t t'
  proof -
    have "p \<notin> SrPlan ` set (stepsT t)" "p \<notin> ErPlan ` set (execsT t)"
      "p \<notin> ArPlan ` set (approvalsT t)"
      using that unfolding hasPlan_def wfTables_def refs_def
      by (meson Inl_Inr_False subsetD)+
    with that show ?thesis
      by (auto simp: wfTables_def distinct_map_filter refs_delete split: if_splits)
  qed
  then show ?thesis unfolding DeletePlan_def by (rule preserves_execute)
qed

lemma wfDB_CreateExecution [keeps]: "preserves wfDB (CreateExecution p)"
  unfolding CreateExecution_def
  by (intro keeps preserves_execute)
    (auto simp: wfTables_def hasPlan_def hasExec_def split: if_splits)

lemma wfDB_execution_updates [keeps]:
  "preserves wfDB (UpdateExecutionStatus x s)"
  "preserves wfDB (UpdateExecutionWorkflowID x w)"
  "preserves wfDB (CompleteExecution x s)"
  "preserves wfDB (CancelExecution x)"
  unfolding UpdateExecutionStatus_def UpdateExecutionWorkflowID_def CompleteExecution_def
    CancelExecution_def Let_def
  subgoal by (intro keeps preserves_execute) (auto simp: updateExec_wf)
  subgoal by (intro keeps preserves_execute) (auto simp: updateExec_wf)
  subgoal by (intro keeps preserves_execute) (auto simp: updateExec_wf)
  subgoal by (intro keeps preserves_execute) (auto simp: updateExec_wf split: if_splits)
  done

lemma wfDB_UpdateToolCall [keeps]: "preserves wfDB (UpdateToolCall c s i out)"
  unfolding UpdateToolCall_def
  by (intro keeps preserves_execute) (auto simp: wfTables_def)

lemma wfDB_InsertToolCall [keeps]: "preserves wfDB (InsertToolCall x p)"
  unfolding InsertToolCall_def
  by (intro keeps preserves_execute) (auto simp: wfTables_def hasExec_def split: if_splits)

lemma wfDB_InsertEvidence [keeps]: "preserves wfDB (InsertEvidence pt x p)"
  unfolding InsertEvidence_def
  by (intro keeps preserves_execute) (auto simp: wfTables_def hasExec_def split: if_splits)

lemma wfDB_approval_inserts [keeps]:
  "preserves wfDB (CreateApproval p)" "preserves wfDB (CreateAndApprove p)"
  unfolding CreateApproval_def CreateAndApprove_def
  by (intro keeps preserves_execute; erule (1) insertApproval_wf)+

lemma wfDB_approval_updates [keeps]:
  "preserves wfDB (UpdateApprovalStatus a s)" "preserves wfDB (UpdateApprovalStatusByPlan p s)"
  "preserves wfDB (SetApprovalHash p h)"
  unfolding UpdateApprovalStatus_def UpdateApprovalStatusByPlan_def SetApprovalHash_def
  subgoal by (rule preserves_execute) (auto simp: updateApprovals_wf)
  subgoal by (rule preserves_execute) (auto simp: updateApprovals_wf)
  subgoal by (rule preserves_execute) (auto simp: updateApprovals_wf)
  done

lemma wfDB_CreateSchedule [keeps]: "preserves wfDB (CreateSchedule doc)"
  unfolding CreateSchedule_def
  by (intro keeps preserves_execute) (auto simp: wfTables_def split: if_splits)

lemma wfDB_schedule_updates [keeps]:
  "preserves wfDB (UpdateScheduleLastRun i n)" "preserves wfDB (DeleteSchedule i)"
  unfolding UpdateScheduleLastRun_def DeleteSchedule_def
  subgoal by (rule preserves_execute) (auto simp: wfTables_def)
  subgoal by (rule preserves_execute) (auto simp: wfTables_def distinct_map_filter)
  done

lemma wfDB_InsertAuditEvent [keeps]: "preserves wfDB (InsertAuditEvent pt doc)"
  unfolding InsertAuditEvent_def
  by (intro keeps preserves_execute) (auto simp: wfTables_def insertAudit_def split: if_splits)

lemma wfDB_UpsertEventGate [keeps]: "preserves wfDB (UpsertEventGate s f now w b n)"
  unfolding UpsertEventGate_def Let_def
  by (intro keeps preserves_execute) (auto intro: putGate_wf split: if_splits)

lemma wfDB_session_reads [keeps]:
  "preserves wfDB (ListSessions m n)" "preserves wfDB (GetSession i)"
  "preserves wfDB (ListSessionMembers i)" "preserves wfDB (IsSessionMember i a)"
  unfolding ListSessions_def GetSession_def ListSessionMembers_def IsSessionMember_def
  by (intro keeps)+

lemma wfDB_CreateSession [keeps]: "preserves wfDB (CreateSession doc)"
  unfolding CreateSession_def
  by (intro keeps preserves_execute) (auto simp: wfTables_def insertSession_def split: if_splits)

lemma wfDB_UpdateSession [keeps]: "preserves wfDB (UpdateSession i doc)"
  unfolding UpdateSession_def by (intro keeps preserves_execute) (auto simp: wfTables_def)

lemma refs_delete_both:
  "refs f rs key qs \<Longrightarrow> refs f (filter (\<lambda>r. f r \<noteq> k) rs) key (filter (\<lambda>q. key q \<noteq> k) qs)"
  unfolding refs_def by (auto simp: subset_iff image_iff Bex_def)

lemma wfDB_DeleteSession [keeps]: "preserves wfDB (DeleteSession i)"
  unfolding DeleteSession_def
  by (intro keeps preserves_execute)
    (auto simp: wfTables_def distinct_map_filter refs_delete_both)

lemma upsertMember_wf: "wfTables t \<Longrightarrow> upsertMember m t = Inr t' \<Longrightarrow> wfTables t'"
  by (auto simp: upsertMember_def wfTables_def Let_def split: if_splits) blast

lemma wfDB_AddSessionMember [keeps]: "preserves wfDB (AddSessionMember i doc)"
  unfolding AddSessionMember_def
  by (intro keeps preserves_execute) (erule (1) upsertMember_wf)

section \<open>Storing a plan and reading it back\<close>

lemma execute_ok:
  "execute u d = (Inr x, d') \<longleftrightarrow>
   connFault d (stmtCount d) = None \<and>
   (\<exists>t. u (tables d) = Inr t \<and> d' = d\<lparr>stmtCount := Suc (stmtCount d), tables := t\<rparr>)"
  by (auto simp: execute_def Let_def split: option.splits sum.splits)

lemma query_ok:
  "query q d = (Inr x, d') \<longleftrightarrow>
   connFault d (stmtCount d) = None \<and> q (tables d) = Inr x \<and> d' = d\<lparr>stmtCount := Suc (stmtCount d)\<rparr>"
  by (auto simp: query_def Let_def split: option.splits)

lemma execute_err: "execute u d = (Inl e, d') \<Longrightarrow> tables d' = tables d"
  by (auto simp: execute_def Let_def split: option.splits sum.splits)

lemma newID_run:
  "newID p d = (Inr (p @ ''_'' @ showNat (clockAt d (clockReads d))), d\<lparr>clockReads := Suc (clockReads d)\<rparr>)"
  by (simp add: newID_def bindS_def timeNow_def okS_def)

lemma withTx_ok:
  assumes "withTx fn d = (Inr x, d')"
  shows "\<exists>d2. fn (d\<lparr>stmtCount := Suc (stmtCount d)\<rparr>) = (Inr x, d2) \<and>
     d' = d2\<lparr>stmtCount := Suc (stmtCount d2)\<rparr>"
  using assms by (auto simp: withTx_def execute_ok split: prod.splits sum.splits)

text \<open>A failed transaction changes no table.\<close>

lemma withTx_err: "withTx fn d = (Inl e, d') \<Longrightarrow> tables d' = tables d"
  by (auto simp: withTx_def execute_ok dest: execute_err split: prod.splits sum.splits)

fun stepRows :: "(nat \<Rightarrow> nat) \<Rightarrow> nat \<Rightarrow> string \<Rightarrow> StepPayload list \<Rightarrow> StepRow list" where
  "stepRows clock n planID [] = []"
| "stepRows clock n planID (s # ss) =
    (if SpAction s = [] \<or> SpTool s = [] then stepRows clock n planID ss
     else \<lparr>SrID = ''step_'' @ showNat (clock n), SrPlan = planID, SrAction = SpAction s,
           SrTool = SpTool s, SrInput = (case SpInput s of None \<Rightarrow> GMap [] | Some v \<Rightarrow> v),
           SrPreconditions = SpPreconditions s, SrRollback = SpRollback s\<rparr>
          # stepRows clock (Suc n) planID ss)"

lemma insertPlanStepsConn_ok:
  assumes "insertPlanStepsConn planID steps d = (Inr x, d')"
  shows "tables d' = (tables d)\<lparr>stepsT := stepsT (tables d) @
           stepRows (clockAt d) (clockReads d) planID steps\<rparr> \<and>
     clockAt d' = clockAt d \<and>
     clockReads d' = clockReads d + length (stepRows (clockAt d) (clockReads d) planID steps)"
  using assms
  by (induction steps arbitrary: d)
    (auto simp: okS_def bindS_eq_Inr newID_run execute_ok insertStep_def split: if_splits)

lemma CreatePlan_ok:
  assumes "CreatePlan (GMap m) d = (Inr planID, d')"
    and "decodePlanSteps (gget m ''steps'') = Inr steps"
  shows "planID = ''plan_'' @ showNat (clockAt d (clockReads d))"
    and "stepsT (tables d') = stepsT (tables d) @
           stepRows (clockAt d) (clockReads d + 2) planID steps"
    and "\<not> hasPlan planID (tables d)"
    and "\<exists>row. plansT (tables d') = plansT (tables d) @ [row] \<and> PrID row = planID \<and>
           PrContext row = gget m ''context'' \<and> PrRisk row = gstr m ''risk_level'' \<and>
           PrIntent row = nullString (gstr m ''intent'') \<and> PrSummary row = gstr m ''summary''"
    and "clockReads d' = clockReads d + 2 +
           length (stepRows (clockAt d) (clockReads d + 2) planID steps)"
    and "clockAt d' = clockAt d"
  using assms
  by (auto simp: CreatePlan_def bindS_eq_Inr newID_run timeNow_def okS_def tryS_def execute_ok
      insertPlan_def dest!: withTx_ok insertPlanStepsConn_ok split: if_splits)

lemma CreatePlan_err:
  assumes "CreatePlan doc d = (Inl e, d')"
  shows "tables d' = tables d"
  using assms
  by (auto simp: CreatePlan_def bindS_def newID_run timeNow_def okS_def tryS_def
      dest!: withTx_err split: prod.splits sum.splits)

text \<open>
  The readings of the clock so far increase and have 19 digits (they do until the year
  2286): what the text order of the step identifiers needs.
\<close>

definition clockFine :: "DB \<Rightarrow> bool" where
  "clockFine d \<longleftrightarrow>
     sorted_wrt (<) (map (clockAt d) [0..<clockReads d]) \<and>
     list_all (\<lambda>t. 10 ^ 18 \<le> t \<and> t < 10 ^ 19) (map (clockAt d) [0..<clockReads d])"

lemma clockFine_less:
  assumes "clockFine d" "i < j" "j < clockReads d"
  shows "showNat (clockAt d i) < showNat (clockAt d j)"
proof -
  have "clockAt d i < clockAt d j"
    using assms by (simp add: clockFine_def sorted_wrt_iff_nth_less)
  moreover have "length (showNat (clockAt d k)) = 19" if "k < clockReads d" for k
    using assms(1) that showNat_length [of 18 "clockAt d k"]
    by (simp add: clockFine_def list_all_iff)
  ultimately show ?thesis using assms by (simp add: showNat_less)
qed

lemma stepRows_id: "r \<in> set (stepRows c n p ss) \<Longrightarrow>
  \<exists>k. n \<le> k \<and> k < n + length (stepRows c n p ss) \<and> SrID r = ''step_'' @ showNat (c k) \<and> SrPlan r = p"
proof (induction ss arbitrary: n)
  case Nil
  then show ?case by simp
next
  case (Cons s ss)
  show ?case
  proof (cases "SpAction s = [] \<or> SpTool s = []")
    case True
    then show ?thesis using Cons by auto
  next
    case False
    then consider "SrID r = ''step_'' @ showNat (c n) \<and> SrPlan r = p"
      | "r \<in> set (stepRows c (Suc n) p ss)" using Cons.prems by auto
    then show ?thesis
    proof cases
      case 1
      then show ?thesis using False by (intro exI [of _ n]) simp
    next
      case 2
      from Cons.IH [OF 2] obtain k where "Suc n \<le> k" "k < Suc n + length (stepRows c (Suc n) p ss)"
        "SrID r = ''step_'' @ showNat (c k)" "SrPlan r = p" by blast
      then show ?thesis using False by (intro exI [of _ k]) simp
    qed
  qed
qed

lemma stepRows_sorted:
  assumes "clockFine d" "n + length (stepRows (clockAt d) n p ss) \<le> clockReads d"
  shows "sorted (map SrID (stepRows (clockAt d) n p ss))"
  using assms(2)
proof (induction ss arbitrary: n)
  case Nil
  then show ?case by simp
next
  case (Cons s ss)
  show ?case
  proof (cases "SpAction s = [] \<or> SpTool s = []")
    case True
    then show ?thesis using Cons by auto
  next
    case False
    have "''step_'' @ showNat (clockAt d n) \<le> SrID r"
      if "r \<in> set (stepRows (clockAt d) (Suc n) p ss)" for r
    proof -
      from stepRows_id [OF that] obtain k where
        "Suc n \<le> k" "k < Suc n + length (stepRows (clockAt d) (Suc n) p ss)"
        "SrID r = ''step_'' @ showNat (clockAt d k)" by blast
      then show ?thesis using clockFine_less [OF assms(1), of n k] Cons.prems False by simp
    qed
    then show ?thesis using Cons False by simp
  qed
qed

lemma ListPlanSteps_CreatePlan:
  assumes wf: "wfDB d"
    and create: "CreatePlan (GMap m) d = (Inr planID, d1)"
    and steps: "decodePlanSteps (gget m ''steps'') = Inr steps"
    and clock: "clockFine d1"
    and list: "ListPlanSteps planID d1 = (Inr docs, d2)"
  shows "docs = map (\<lambda>r. GMap (stepDoc r)) (stepRows (clockAt d1) (clockReads d + 2) planID steps)"
proof -
  let ?rows = "stepRows (clockAt d1) (clockReads d + 2) planID steps"
  note c = CreatePlan_ok [OF create steps]
  have old: "filter (\<lambda>r. SrPlan r = planID) (stepsT (tables d)) = []"
    using wf c(3) by (auto simp: wfTables_def refs_def hasPlan_def filter_empty_conv)
  have new: "filter (\<lambda>r. SrPlan r = planID) ?rows = ?rows"
    by (rule filter_True) (metis stepRows_id)
  have "sort_key SrID ?rows = ?rows"
    using stepRows_sorted [OF clock] c(5,6) by (simp add: sort_key_id_if_sorted)
  with list old new c(2,6) show ?thesis by (simp add: ListPlanSteps_def query_ok)
qed

text \<open>What the rows and their documents say of the steps they come from.\<close>

lemma stepRows_fields:
  "map (\<lambda>v. (gget (mapOf v) ''action'', gget (mapOf v) ''tool'', gget (mapOf v) ''input'', gget (mapOf v) ''rollback''))
     (map (\<lambda>r. GMap (stepDoc r)) (stepRows clock n planID steps)) =
   map (\<lambda>s. (GStr (SpAction s), GStr (SpTool s), (case SpInput s of None \<Rightarrow> GMap [] | Some v \<Rightarrow> v), docOf (SpRollback s)))
     (filter (\<lambda>s. SpAction s \<noteq> [] \<and> SpTool s \<noteq> []) steps)"
  by (induction steps arbitrary: n) (auto simp: stepDoc_def docOf_def)

end
