(* ===== verification/Tool_Registry.thy ===== *)
theory Tool_Registry
  imports Go_Values
begin

text \<open>
  \<open>internal/tools/registry.go\<close> and \<open>internal/tools/sanitize.go\<close>: the table of tools the
  router knows, the look-up in it, and the check of a command's arguments for shell
  metacharacters. The locale \<open>arg_builder\<close> is the contract a command builder keeps (the
  command starts with the tool's binary); its lemmas say what a builder and the argument
  check guarantee together.
\<close>

section \<open>The registry\<close>

record Tool =
  ToolName :: string
  CLI :: string
  SupportsAPI :: bool

definition Registry :: "Tool list" where
  "Registry =
    [\<lparr>ToolName = ''aws'', CLI = ''aws'', SupportsAPI = True\<rparr>,
     \<lparr>ToolName = ''vault'', CLI = ''vault'', SupportsAPI = True\<rparr>,
     \<lparr>ToolName = ''kubectl'', CLI = ''kubectl'', SupportsAPI = True\<rparr>,
     \<lparr>ToolName = ''helm'', CLI = ''helm'', SupportsAPI = True\<rparr>,
     \<lparr>ToolName = ''boundary'', CLI = ''boundary'', SupportsAPI = True\<rparr>,
     \<lparr>ToolName = ''argocd'', CLI = ''argocd'', SupportsAPI = True\<rparr>,
     \<lparr>ToolName = ''git'', CLI = ''git'', SupportsAPI = False\<rparr>,
     \<lparr>ToolName = ''prometheus'', CLI = [], SupportsAPI = True\<rparr>,
     \<lparr>ToolName = ''alertmanager'', CLI = [], SupportsAPI = True\<rparr>,
     \<lparr>ToolName = ''thanos'', CLI = [], SupportsAPI = True\<rparr>,
     \<lparr>ToolName = ''grafana'', CLI = [], SupportsAPI = True\<rparr>,
     \<lparr>ToolName = ''tempo'', CLI = [], SupportsAPI = True\<rparr>,
     \<lparr>ToolName = ''github'', CLI = ''gh'', SupportsAPI = True\<rparr>,
     \<lparr>ToolName = ''gitlab'', CLI = ''glab'', SupportsAPI = True\<rparr>,
     \<lparr>ToolName = ''linear'', CLI = [], SupportsAPI = True\<rparr>,
     \<lparr>ToolName = ''pagerduty'', CLI = [], SupportsAPI = True\<rparr>]"

definition findTool :: "string \<Rightarrow> Tool option" where
  "findTool name = find (\<lambda>t. ToolName t = name) Registry"

lemma findTool_Some: "findTool n = Some t \<Longrightarrow> t \<in> set Registry \<and> ToolName t = n"
  by (auto simp: findTool_def find_Some_iff)

lemma Registry_names_distinct: "distinct (map ToolName Registry)"
  by (simp add: Registry_def)

lemma findTool_registered: "t \<in> set Registry \<Longrightarrow> findTool (ToolName t) = Some t"
proof -
  assume t: "t \<in> set Registry"
  then have "findTool (ToolName t) \<noteq> None" by (auto simp: findTool_def find_None_iff)
  then obtain u where u: "findTool (ToolName t) = Some u" by auto
  then have "u \<in> set Registry" "ToolName u = ToolName t" by (auto dest: findTool_Some)
  with t have "u = t" by (metis Registry_names_distinct distinct_map inj_onD)
  with u show ?thesis by simp
qed

section \<open>Argument checks\<close>

definition shellMetaChars :: string where
  "shellMetaChars = '';|&$`!(){}[]<>'' @ [CHR 0x5C, CHR 0x22, CHR 0x27, CHR 0x0A, CHR 0x0D]"

definition errDangerousArg :: string where
  "errDangerousArg = ''argument contains shell metacharacters''"

definition errEmptyArg :: string where
  "errEmptyArg = ''empty argument in command''"

definition validateArg :: "string \<Rightarrow> unit result" where
  "validateArg arg =
     (if arg = [] then Inl errEmptyArg
      else if ContainsAny arg shellMetaChars then Inl errDangerousArg
      else Inr ())"

text \<open>The loop of \<open>ValidateToolArgs\<close> over \<open>cmd[1:]\<close>, stopping at the first bad argument.\<close>

fun validateArgs :: "string list \<Rightarrow> unit result" where
  "validateArgs [] = Inr ()"
| "validateArgs (a # as) = bindR (validateArg a) (\<lambda>_. validateArgs as)"

fun ValidateToolArgs :: "string list \<Rightarrow> unit result" where
  "ValidateToolArgs [] = Inr ()"
| "ValidateToolArgs (tool # args) = validateArgs args"

definition errToolRequired :: string where
  "errToolRequired = ''tool required''"

definition ValidateToolName :: "string \<Rightarrow> Tool result" where
  "ValidateToolName name =
     (let name = TrimSpace name in
      if name = [] then Inl errToolRequired
      else (case findTool name of
              None \<Rightarrow> Inl (''unknown tool: '' @ name)
            | Some t \<Rightarrow> Inr t))"

definition safeArg :: "string \<Rightarrow> bool" where
  "safeArg a \<longleftrightarrow> a \<noteq> [] \<and> set a \<inter> set shellMetaChars = {}"

lemma validateArg_ok: "validateArg a = Inr () \<longleftrightarrow> safeArg a"
  by (auto simp: validateArg_def safeArg_def ContainsAny_def)

lemma validateArgs_ok: "validateArgs as = Inr () \<longleftrightarrow> list_all safeArg as"
  by (induction as) (auto simp: bindR_eq_Inr validateArg_ok)

lemma validateArgs_unsafe: "a \<in> set as \<Longrightarrow> \<not> safeArg a \<Longrightarrow> \<exists>e. validateArgs as = Inl e"
  by (metis list_all_iff old.unit.exhaust sum.exhaust validateArgs_ok)

section \<open>The contract of a command builder\<close>

locale arg_builder =
  fixes build :: "string \<Rightarrow> gval \<Rightarrow> string list"
    and cli :: string
  assumes build_head: "build action input \<noteq> [] \<and> hd (build action input) = cli"
begin

lemma build_Cons: "\<exists>args. build action input = cli # args"
  using build_head by (metis list.collapse)

lemma validated_safe:
  assumes "ValidateToolArgs (build action input) = Inr ()"
  shows "\<exists>args. build action input = cli # args \<and> list_all safeArg args"
proof -
  obtain args where args: "build action input = cli # args" using build_Cons by blast
  with assms have "list_all safeArg args" by (simp add: validateArgs_ok)
  with args show ?thesis by blast
qed

lemma unsafe_rejected:
  assumes "a \<in> set (tl (build action input))" and "\<not> safeArg a"
  shows "\<exists>e. ValidateToolArgs (build action input) = Inl e"
proof -
  obtain args where "build action input = cli # args" using build_Cons by blast
  with assms show ?thesis by (auto dest: validateArgs_unsafe)
qed

end

end
