(* ===== verification/Tool_Commands.thy ===== *)
theory Tool_Commands
  imports Tool_Registry
begin

text \<open>
  \<open>internal/tools/commands.go\<close>: one command builder per CLI, and \<open>buildCmd\<close> of
  \<open>router_exec.go\<close> that dispatches to them. Every builder reads its fields from the input
  when that is a \<open>map[string]any\<close> and from the nil map otherwise. \<open>json.Marshal\<close> of the
  CloudWatch queries is the parameter \<open>marshal\<close>. Each builder interprets the contract
  \<open>arg_builder\<close>.
\<close>

section \<open>Field helpers\<close>

fun intFromAnyOK :: "gval \<Rightarrow> int option" where
  "intFromAnyOK (GInt i) = Some i"
| "intFromAnyOK (GInt64 i) = Some i"
| "intFromAnyOK (GFloat r) = Some (intOfFloat r)"
| "intFromAnyOK _ = None"

fun intFromAny :: "gval \<Rightarrow> int" where
  "intFromAny (GInt i) = i"
| "intFromAny (GFloat r) = intOfFloat r"
| "intFromAny _ = 0"

text \<open>
  \<open>if s, ok := m[k].(string); ok && s != "" { cmd = append(cmd, flags..., s) }\<close> and its
  variant for a boolean flag.
\<close>

definition optArg :: "string list \<Rightarrow> string \<Rightarrow> string list" where
  "optArg flags s = (if s = [] then [] else flags @ [s])"

definition optField :: "string \<Rightarrow> string \<Rightarrow> string \<Rightarrow> string list" where
  "optField flag pre s = (if s = [] then [] else [flag, pre @ s])"

definition boolFlag :: "gval \<Rightarrow> bool \<Rightarrow> string \<Rightarrow> string list" where
  "boolFlag v want flag = (if v = GBool want then [flag] else [])"

definition nonEmptyStrs :: "gval \<Rightarrow> string list" where
  "nonEmptyStrs v = filter (\<lambda>s. s \<noteq> []) (map strOf (listOf v))"

definition eachArg :: "string \<Rightarrow> gval \<Rightarrow> string list" where
  "eachArg flag v = concat (map (\<lambda>s. [flag, s]) (nonEmptyStrs v))"

section \<open>Builders\<close>

definition BuildKubectlCmd :: "string \<Rightarrow> gval \<Rightarrow> string list" where
  "BuildKubectlCmd action input =
    (let m = mapOf input; resource = gstr m ''resource'' in
     if action = ''scale'' then
       [''kubectl'', ''scale'', resource, ''--replicas='' @ showInt (intFromAny (gget m ''replicas''))]
       @ (case intFromAnyOK (gget m ''current_replicas'') of
            Some current \<Rightarrow> [''--current-replicas='' @ showInt current] | None \<Rightarrow> [])
       @ (let rv = gstr m ''resource_version'' in
          if rv = [] then [] else [''--resource-version='' @ rv])
     else if action = ''rollout-status'' then [''kubectl'', ''rollout'', ''status'', resource]
     else if action = ''get'' then
       [''kubectl'', ''get'', resource, ''-o'', ''json'']
       @ optArg [''-n''] (gstr m ''namespace'')
       @ optArg [''--selector''] (gstr m ''selector'')
     else if action = ''watch'' then
       [''kubectl'', ''get'', resource, ''-o'', ''json'', ''--watch'', ''--output-watch-events'']
       @ optArg [''-n''] (gstr m ''namespace'')
       @ optArg [''--selector''] (gstr m ''selector'')
       @ optArg [''--resource-version''] (gstr m ''resource_version'')
       @ boolFlag (gget m ''allow_bookmarks'') True ''--allow-watch-bookmarks''
       @ boolFlag (gget m ''send_initial_events'') False ''--watch-only''
       @ (case intFromAnyOK (gget m ''timeout_seconds'') of
            Some t \<Rightarrow> if t > 0 then [''--request-timeout='' @ showInt t @ ''s''] else []
          | None \<Rightarrow> [])
     else [''kubectl''])"

definition BuildHelmCmd :: "string \<Rightarrow> gval \<Rightarrow> string list" where
  "BuildHelmCmd action input =
    (let m = mapOf input; release = gstr m ''release'';
         nsArgs = optArg [''--namespace''] (gstr m ''namespace'') in
     if action = ''status'' then [''helm'', ''status'', release] @ nsArgs
     else if action = ''list'' then [''helm'', ''list'', ''-o'', ''json''] @ nsArgs
     else if action = ''get'' then [''helm'', ''get'', ''all'', release] @ nsArgs
     else if action = ''upgrade'' then
       (let chart = gstr m ''chart''; valuesFile = gstr m ''values_file'' in
        if chart = [] then
          (if valuesFile = [] then [''helm'', ''upgrade'', ''--install'', release] @ nsArgs
           else [''helm'', ''upgrade'', ''--install'', release, ''-f'', valuesFile] @ nsArgs)
        else if valuesFile = [] then [''helm'', ''upgrade'', ''--install'', release, chart] @ nsArgs
        else [''helm'', ''upgrade'', ''--install'', release, chart, ''-f'', valuesFile] @ nsArgs)
     else if action = ''rollback'' then [''helm'', ''rollback'', release] @ nsArgs
     else [''helm''])"

definition BuildArgoCmd :: "string \<Rightarrow> gval \<Rightarrow> string list" where
  "BuildArgoCmd action input =
    (let m = mapOf input; app = gstr m ''app'' in
     if action = ''sync'' then [''argocd'', ''app'', ''sync'', app]
     else if action = ''sync-dry-run'' then [''argocd'', ''app'', ''sync'', app, ''--dry-run'']
     else if action = ''sync-preview'' then
       [''argocd'', ''app'', ''sync'', app, ''--dry-run'', ''--preview-changes'']
     else if action = ''wait'' then [''argocd'', ''app'', ''wait'', app, ''--health'']
     else if action = ''rollback'' then
       (let revision = gstr m ''revision'' in
        if revision \<noteq> [] then [''argocd'', ''app'', ''rollback'', app, revision]
        else [''argocd'', ''app'', ''rollback'', app])
     else if action = ''status'' then [''argocd'', ''app'', ''get'', app, ''-o'', ''json'']
     else if action = ''list'' then [''argocd'', ''app'', ''list'', ''-o'', ''json'']
     else if action = ''project_token_create'' then
       [''argocd'', ''proj'', ''role'', ''create-token'', gstr m ''project'', gstr m ''role'']
     else if action = ''project_token_delete'' then
       [''argocd'', ''proj'', ''role'', ''delete-token'', gstr m ''project'', gstr m ''role'',
        gstr m ''token_id'']
     else [''argocd''])"

definition tagFilterArgs :: "gval \<Rightarrow> string list" where
  "tagFilterArgs f =
    (let fm = mapOf f; key = gstr fm ''key''; vals = nonEmptyStrs (gget fm ''values'') in
     if key \<noteq> [] \<and> vals \<noteq> []
     then [''--tag-filters'', ''Key='' @ key @ '',Values='' @ strJoin vals '','']
     else [])"

definition lookupAttrArgs :: "gval \<Rightarrow> string list" where
  "lookupAttrArgs a =
    (let am = mapOf a; key = gstr am ''key''; val = gstr am ''value'' in
     if key \<noteq> [] \<and> val \<noteq> []
     then [''--lookup-attributes'', ''AttributeKey='' @ key @ '',AttributeValue='' @ val]
     else [])"

definition BuildAwsCmd :: "(gval \<Rightarrow> string option) \<Rightarrow> string \<Rightarrow> gval \<Rightarrow> string list" where
  "BuildAwsCmd marshal action input =
    (let m = mapOf input; region = gstr m ''region'';
         withRegion = (\<lambda>cmd. cmd @ optArg [''--region''] region);
         withOutput = (\<lambda>cmd. let out = gstr m ''output'' in
            if out \<noteq> [] then cmd @ [''--output'', out] else cmd @ [''--output'', ''json'']) in
     if action = ''assume-role'' then
       (let sessionName = (if gstr m ''session_name'' = [] then ''carapulse''
                           else gstr m ''session_name'') in
        withOutput (withRegion
          ([''aws'', ''sts'', ''assume-role'', ''--role-arn'', gstr m ''role_arn'',
            ''--role-session-name'', sessionName]
           @ (case intFromAnyOK (gget m ''duration_seconds'') of
                Some dur \<Rightarrow> if dur > 0 then [''--duration-seconds='' @ showInt dur] else []
              | None \<Rightarrow> []))))
     else if action = ''tagging-get-resources'' then
       withOutput (withRegion
         ([''aws'', ''resourcegroupstaggingapi'', ''get-resources'']
          @ concat (map tagFilterArgs (listOf (gget m ''tag_filters'')))))
     else if action = ''cloudtrail-lookup-events'' then
       withOutput (withRegion
         ([''aws'', ''cloudtrail'', ''lookup-events'']
          @ concat (map lookupAttrArgs (listOf (gget m ''lookup_attributes'')))))
     else if action = ''cloudwatch-get-metric-data'' then
       withOutput (withRegion
         ([''aws'', ''cloudwatch'', ''get-metric-data'']
          @ (case map_of m ''metric_data_queries'' of
               None \<Rightarrow> []
             | Some queries \<Rightarrow>
                 (case marshal queries of
                    None \<Rightarrow> [] | Some data \<Rightarrow> [''--metric-data-queries'', data]))))
     else [''aws'', action])"

definition BuildVaultCmd :: "string \<Rightarrow> gval \<Rightarrow> string list" where
  "BuildVaultCmd action input =
    (let m = mapOf input in
     if action = ''health'' then [''vault'', ''status'', ''-format=json'']
     else if action = ''audit_enable'' then
       (let typ = (if gstr m ''type'' = [] then ''file'' else gstr m ''type'');
            path = gstr m ''path'' in
        [''vault'', ''audit'', ''enable'', typ]
        @ (if path \<noteq> [] \<and> EqualFold typ ''file'' then [''file_path='' @ path] else []))
     else if action = ''token_renew'' then [''vault'', ''token'', ''renew'']
     else [''vault'', action])"

definition BuildBoundaryCmd :: "string \<Rightarrow> gval \<Rightarrow> string list" where
  "BuildBoundaryCmd action input = [''boundary'', action]"

definition BuildGhCmd :: "string \<Rightarrow> gval \<Rightarrow> string list" where
  "BuildGhCmd action input =
    (let m = mapOf input in
     if action = ''pr'' then
       (let cmd = [''gh'', ''pr'', ''create'']
            @ optArg [''--title''] (gstr m ''title'')
            @ optArg [''--body''] (gstr m ''body'')
            @ optArg [''--base''] (gstr m ''base'')
            @ optArg [''--head''] (gstr m ''head'')
            @ boolFlag (gget m ''draft'') True ''--draft''
            @ eachArg ''--label'' (gget m ''labels'')
            @ eachArg ''--reviewer'' (gget m ''reviewers'')
        in if length cmd = 3 then cmd @ [''--fill''] else cmd)
     else if action = ''pr_status'' then
       [''gh'', ''pr'', ''status'', ''--json'', ''number,url,headRefName,headRefOid,state'']
     else if action = ''pr_merge'' then
       [''gh'', ''pr'', ''merge'', gstr m ''pr'']
       @ (let meth = ToLower (gstr m ''method'') in
          if meth = ''squash'' then [''--squash'']
          else if meth = ''rebase'' then [''--rebase''] else [''--merge''])
     else if action = ''pr_view'' then
       [''gh'', ''pr'', ''view'', gstr m ''pr'', ''--json'',
        ''number,url,headRefName,headRefOid,state,mergeCommit'']
     else if action = ''branch_create'' then
       [''gh'', ''api'', ''-X'', ''POST'', ''repos/'' @ gstr m ''repo'' @ ''/git/refs'',
        ''-f'', ''ref='' @ ''refs/heads/'' @ gstr m ''branch'', ''-f'', ''sha='' @ gstr m ''sha'']
     else if action = ''commit_status'' then
       [''gh'', ''api'', ''-X'', ''POST'',
        ''repos/'' @ gstr m ''repo'' @ ''/statuses/'' @ gstr m ''sha'',
        ''-f'', ''state='' @ gstr m ''state'']
       @ optField ''-f'' ''context='' (gstr m ''context'')
       @ optField ''-f'' ''description='' (gstr m ''description'')
       @ optField ''-f'' ''target_url='' (gstr m ''target_url'')
     else [''gh'', action])"

definition BuildGlabCmd :: "string \<Rightarrow> gval \<Rightarrow> string list" where
  "BuildGlabCmd action input =
    (let m = mapOf input; mr = gstr m ''mr'' in
     if action = ''mr'' then
       (let cmd = [''glab'', ''mr'', ''create'']
            @ optArg [''--title''] (gstr m ''title'')
            @ optArg [''--description''] (gstr m ''body'')
            @ optArg [''--source-branch''] (gstr m ''source'')
            @ optArg [''--target-branch''] (gstr m ''target'')
            @ boolFlag (gget m ''draft'') True ''--draft''
            @ eachArg ''--label'' (gget m ''labels'')
        in if length cmd = 3 then cmd @ [''--fill''] else cmd)
     else if action = ''mr_status'' then
       (if mr = [] then [''glab'', ''mr'', ''list''] else [''glab'', ''mr'', ''view'', mr, ''--json''])
     else if action = ''mr_merge'' then
       [''glab'', ''mr'', ''merge'', mr] @ boolFlag (gget m ''squash'') True ''--squash''
     else if action = ''mr_view'' then [''glab'', ''mr'', ''view'', mr, ''--json'']
     else if action = ''branch_create'' then
       [''glab'', ''api'', ''-X'', ''POST'',
        ''projects/'' @ gstr m ''project'' @ ''/repository/branches'',
        ''-f'', ''branch='' @ gstr m ''branch'', ''-f'', ''ref='' @ gstr m ''ref'']
     else if action = ''commit_status'' then
       [''glab'', ''api'', ''-X'', ''POST'',
        ''projects/'' @ gstr m ''project'' @ ''/statuses/'' @ gstr m ''sha'',
        ''-f'', ''state='' @ gstr m ''state'']
       @ optField ''-f'' ''context='' (gstr m ''context'')
       @ optField ''-f'' ''description='' (gstr m ''description'')
       @ optField ''-f'' ''target_url='' (gstr m ''target_url'')
     else [''glab'', action])"

definition BuildGitCmd :: "string \<Rightarrow> gval \<Rightarrow> string list" where
  "BuildGitCmd action input =
    (let m = mapOf input; remote = gstr m ''remote''; ref = gstr m ''ref'' in
     if action = ''branch'' then
       [''git'', ''checkout'', ''-b'', gstr m ''name''] @ optArg [] (gstr m ''base'')
     else if action = ''add'' then [''git'', ''add''] @ nonEmptyStrs (gget m ''paths'')
     else if action = ''commit'' then
       [''git'', ''commit'']
       @ boolFlag (gget m ''all'') True ''-a''
       @ optArg [''-m''] (gstr m ''message'')
       @ (if listOf (gget m ''paths'') \<noteq> [] then ''--'' # nonEmptyStrs (gget m ''paths'') else [])
     else if action = ''push'' then
       [''git'', ''push'']
       @ boolFlag (gget m ''set_upstream'') True ''-u''
       @ optArg [] remote @ optArg [] (gstr m ''branch'')
     else if action = ''status'' then [''git'', ''status'', ''--porcelain'']
     else if action = ''checkout'' then [''git'', ''checkout'', ref]
     else if action = ''merge'' then [''git'', ''merge'', ref]
     else if action = ''fetch'' then [''git'', ''fetch''] @ optArg [] remote @ optArg [] ref
     else [''git''])"

definition buildCmd :: "(gval \<Rightarrow> string option) \<Rightarrow> string \<Rightarrow> string \<Rightarrow> gval \<Rightarrow> string list" where
  "buildCmd marshal tool action input =
    (if tool = ''kubectl'' then BuildKubectlCmd action input
     else if tool = ''helm'' then BuildHelmCmd action input
     else if tool = ''argocd'' then BuildArgoCmd action input
     else if tool = ''aws'' then BuildAwsCmd marshal action input
     else if tool = ''vault'' then BuildVaultCmd action input
     else if tool = ''boundary'' then BuildBoundaryCmd action input
     else if tool = ''github'' then BuildGhCmd action input
     else if tool = ''gitlab'' then BuildGlabCmd action input
     else if tool = ''git'' then BuildGitCmd action input
     else [tool])"

section \<open>Every builder keeps the contract\<close>

interpretation kubectl: arg_builder BuildKubectlCmd "''kubectl''"
  by unfold_locales (simp add: BuildKubectlCmd_def Let_def)

interpretation helm: arg_builder BuildHelmCmd "''helm''"
  by unfold_locales (simp add: BuildHelmCmd_def Let_def)

interpretation argocd: arg_builder BuildArgoCmd "''argocd''"
  by unfold_locales (simp add: BuildArgoCmd_def Let_def)

interpretation aws: arg_builder "BuildAwsCmd marshal" "''aws''" for marshal
  by unfold_locales (simp add: BuildAwsCmd_def Let_def)

interpretation vault: arg_builder BuildVaultCmd "''vault''"
  by unfold_locales (simp add: BuildVaultCmd_def Let_def)

interpretation boundary: arg_builder BuildBoundaryCmd "''boundary''"
  by unfold_locales (simp add: BuildBoundaryCmd_def)

interpretation gh: arg_builder BuildGhCmd "''gh''"
  by unfold_locales (simp add: BuildGhCmd_def Let_def)

interpretation glab: arg_builder BuildGlabCmd "''glab''"
  by unfold_locales (simp add: BuildGlabCmd_def Let_def)

interpretation git: arg_builder BuildGitCmd "''git''"
  by unfold_locales (simp add: BuildGitCmd_def Let_def)

lemmas builder_heads =
  kubectl.build_head helm.build_head argocd.build_head aws.build_head vault.build_head
  boundary.build_head gh.build_head glab.build_head git.build_head

text \<open>
  \<open>buildCmd\<close> keeps the contract too, for the binary the registry names: one dispatcher per
  registered tool that has a CLI.
\<close>

lemma buildCmd_head:
  assumes "t \<in> set Registry" and "CLI t \<noteq> []"
  shows "buildCmd marshal (ToolName t) action input \<noteq> [] \<and>
         hd (buildCmd marshal (ToolName t) action input) = CLI t"
  using assms builder_heads
  by (auto simp: Registry_def buildCmd_def)

lemma buildCmd_arg_builder:
  "t \<in> set Registry \<Longrightarrow> CLI t \<noteq> [] \<Longrightarrow> arg_builder (buildCmd marshal (ToolName t)) (CLI t)"
  by (rule arg_builder.intro) (rule buildCmd_head)

end
