(* ===== verification/Tool_Validate.thy ===== *)
theory Tool_Validate
  imports Tool_Commands
begin

text \<open>
  \<open>internal/tools/validate.go\<close>, \<open>schema.go\<close> and the reference parsing of
  \<open>helm_values.go\<close>: the checks a tool request passes before it runs. Parameters:
  \<open>unm\<close> is \<open>json.Unmarshal\<close> into \<open>any\<close> (\<open>None\<close> when the text does not decode),
  \<open>schemas\<close> the action tables of the embedded schema files and \<open>schemaValid\<close> the
  validator of the third-party package gojsonschema (its error, or its verdict and messages).
\<close>

section \<open>Requests\<close>

record ExecuteRequest =
  ReqTool :: string
  ReqAction :: string
  ReqInput :: gval
  ReqToolCallID :: string
  ReqExecutionID :: string
  ReqContext :: ContextRef

record SchemaEnv =
  schemas :: "string \<Rightarrow> (string \<times> string) list option"
  schemaValid :: "gval \<Rightarrow> gval \<Rightarrow> (bool \<times> string list) result"

section \<open>Inputs\<close>

definition errInputRequired :: string where
  "errInputRequired = ''input required''"

text \<open>\<open>json.Unmarshal\<close> into a \<open>map[string]any\<close>: an object, or \<open>null\<close> for the nil map.\<close>

definition decodeInputMap :: "(string \<Rightarrow> gval option) \<Rightarrow> string \<Rightarrow> gmap result" where
  "decodeInputMap unm data =
    (if data = [] then Inl errInputRequired
     else (case unm data of
             Some (GMap m) \<Rightarrow> Inr m
           | Some GNil \<Rightarrow> Inr []
           | _ \<Rightarrow> Inl ''json decode error''))"

fun inputMap :: "(string \<Rightarrow> gval option) \<Rightarrow> gval \<Rightarrow> gmap result" where
  "inputMap unm GNil = Inl errInputRequired"
| "inputMap unm (GMap m) = Inr m"
| "inputMap unm (GBytes b) = decodeInputMap unm b"
| "inputMap unm (GRaw b) = decodeInputMap unm b"
| "inputMap unm (GStr s) = decodeInputMap unm s"
| "inputMap unm _ = Inl errInputRequired"

definition stringField :: "gmap \<Rightarrow> string \<Rightarrow> string" where
  "stringField m key = TrimSpace (strOf (gget m key))"

section \<open>Artifact references\<close>

definition errInvalidArtifact :: string where
  "errInvalidArtifact = ''invalid artifact ref''"

text \<open>The result is the reference and whether one was given.\<close>

definition checkArtifactRef :: "ArtifactRef \<Rightarrow> (ArtifactRef \<times> bool) result" where
  "checkArtifactRef ref =
    (if TrimSpace (ArtKind ref) = [] \<or> TrimSpace (ArtRef ref) = [] then Inl errInvalidArtifact
     else if ArtKind ref = ''git_path'' \<or> ArtKind ref = ''object_store'' \<or> ArtKind ref = ''inline''
     then Inr (ref, True) else Inl errInvalidArtifact)"

fun parseArtifactRef :: "gval \<Rightarrow> (ArtifactRef \<times> bool) result" where
  "parseArtifactRef GNil = Inr (\<lparr>ArtKind = [], ArtRef = [], ArtSHA = []\<rparr>, False)"
| "parseArtifactRef (GArtifact ref) = checkArtifactRef ref"
| "parseArtifactRef (GMap v) =
     checkArtifactRef \<lparr>ArtKind = TrimSpace (stringField v ''kind''),
                       ArtRef = TrimSpace (stringField v ''ref''),
                       ArtSHA = TrimSpace (stringField v ''sha'')\<rparr>"
| "parseArtifactRef _ = Inl errInvalidArtifact"

definition validateValuesRef :: "gval \<Rightarrow> unit result" where
  "validateValuesRef v = bindR (parseArtifactRef v) (\<lambda>_. Inr ())"

section \<open>Schema validation\<close>

definition orEmpty :: "gval option \<Rightarrow> gval \<Rightarrow> gval" where
  "orEmpty r v = (case r of Some w \<Rightarrow> w | None \<Rightarrow> v)"

fun normalizeSchemaInput :: "(string \<Rightarrow> gval option) \<Rightarrow> gval \<Rightarrow> gval" where
  "normalizeSchemaInput unm GNil = GMap []"
| "normalizeSchemaInput unm (GBytes b) = orEmpty (unm b) (GBytes b)"
| "normalizeSchemaInput unm (GRaw b) = orEmpty (unm b) (GRaw b)"
| "normalizeSchemaInput unm (GStr s) =
     (if TrimSpace s = [] then GMap [] else orEmpty (unm s) (GStr s))"
| "normalizeSchemaInput unm v = v"

definition validateSchema ::
  "SchemaEnv \<Rightarrow> (string \<Rightarrow> gval option) \<Rightarrow> string \<Rightarrow> string \<Rightarrow> gval \<Rightarrow> unit result" where
  "validateSchema env unm tool action input =
    (case schemas env tool of
       None \<Rightarrow> Inr ()
     | Some actions \<Rightarrow>
        (case (case map_of actions action of Some raw \<Rightarrow> Some raw | None \<Rightarrow> map_of actions ''*'') of
           None \<Rightarrow> Inr ()
         | Some raw \<Rightarrow>
            (case unm raw of
               None \<Rightarrow> Inl ''json decode error''
             | Some schema \<Rightarrow>
                bindR (schemaValid env schema (normalizeSchemaInput unm input))
                  (\<lambda>(valid, errs).
                     if valid then Inr ()
                     else (case errs of
                             [] \<Rightarrow> Inl ''schema validation failed''
                           | e # _ \<Rightarrow> Inl (''schema validation failed: '' @ e))))))"

section \<open>Per-tool checks\<close>

definition unsupportedAction :: "string \<Rightarrow> unit result" where
  "unsupportedAction action = Inl (''unsupported action: '' @ action)"

definition requireField :: "gmap \<Rightarrow> string \<Rightarrow> unit result" where
  "requireField m key = (if stringField m key = [] then Inl (key @ '' required'') else Inr ())"

definition validateKubectl :: "(string \<Rightarrow> gval option) \<Rightarrow> string \<Rightarrow> gval \<Rightarrow> unit result" where
  "validateKubectl unm action input =
    bindR (inputMap unm input) (\<lambda>m.
     if action = ''scale'' then
       bindR (requireField m ''resource'') (\<lambda>_.
         case intFromAnyOK (gget m ''replicas'') of
           None \<Rightarrow> Inl ''replicas required''
         | Some replicas \<Rightarrow> if replicas < 0 then Inl ''replicas must be >= 0'' else Inr ())
     else if action = ''rollout-status'' then requireField m ''resource''
     else if action = ''get'' then requireField m ''resource''
     else if action = ''watch'' then
       bindR (requireField m ''resource'') (\<lambda>_.
         case intFromAnyOK (gget m ''timeout_seconds'') of
           Some t \<Rightarrow> if t \<le> 0 then Inl ''timeout_seconds must be > 0'' else Inr ()
         | None \<Rightarrow> Inr ())
     else unsupportedAction action)"

definition validateHelm :: "(string \<Rightarrow> gval option) \<Rightarrow> string \<Rightarrow> gval \<Rightarrow> unit result" where
  "validateHelm unm action input =
    bindR (inputMap unm input) (\<lambda>m.
     if action \<in> {''status'', ''upgrade'', ''rollback'', ''get''} then
       bindR (requireField m ''release'') (\<lambda>_.
         if action = ''upgrade'' then validateValuesRef (gget m ''values_ref'') else Inr ())
     else if action = ''list'' then Inr ()
     else unsupportedAction action)"

definition validateArgo :: "(string \<Rightarrow> gval option) \<Rightarrow> string \<Rightarrow> gval \<Rightarrow> unit result" where
  "validateArgo unm action input =
    bindR (inputMap unm input) (\<lambda>m.
     if action \<in> {''sync'', ''wait'', ''sync-dry-run'', ''sync-preview'', ''rollback'', ''status''}
     then requireField m ''app''
     else if action = ''list'' then Inr ()
     else if action = ''project_token_create'' then
       bindR (requireField m ''project'') (\<lambda>_. requireField m ''role'')
     else if action = ''project_token_delete'' then
       bindR (requireField m ''project'') (\<lambda>_.
       bindR (requireField m ''role'') (\<lambda>_. requireField m ''token_id''))
     else unsupportedAction action)"

definition validateGit :: "(string \<Rightarrow> gval option) \<Rightarrow> string \<Rightarrow> gval \<Rightarrow> unit result" where
  "validateGit unm action input =
    bindR (inputMap unm input) (\<lambda>m.
     if action = ''branch'' then requireField m ''name''
     else if action = ''add'' then
       (if list_ex (\<lambda>p. isStr p \<and> TrimSpace (strOf p) \<noteq> []) (listOf (gget m ''paths''))
        then Inr () else Inl ''paths required'')
     else if action = ''commit'' then requireField m ''message''
     else if action = ''push'' then Inr ()
     else if action = ''status'' then Inr ()
     else if action = ''checkout'' \<or> action = ''merge'' then requireField m ''ref''
     else if action = ''fetch'' then Inr ()
     else unsupportedAction action)"

definition errActionRequired :: string where
  "errActionRequired = ''action required''"

text \<open>
  The Go function returns the tool even beside a late error; every caller tests the error
  first, so the model returns one or the other.
\<close>

definition validateExecuteRequest ::
  "SchemaEnv \<Rightarrow> (string \<Rightarrow> gval option) \<Rightarrow> ExecuteRequest \<Rightarrow> Tool result" where
  "validateExecuteRequest env unm req =
    (let toolName = TrimSpace (ReqTool req); action = TrimSpace (ReqAction req);
         input = ReqInput req in
     if toolName = [] then Inl errToolRequired
     else if action = [] then Inl errActionRequired
     else (case findTool toolName of
        None \<Rightarrow> Inl ''unknown tool''
      | Some tool \<Rightarrow>
         bindR (validateSchema env unm toolName action input) (\<lambda>_.
         bindR (if toolName = ''kubectl'' then validateKubectl unm action input
                else if toolName = ''helm'' then validateHelm unm action input
                else if toolName = ''argocd'' then validateArgo unm action input
                else if toolName = ''git'' then validateGit unm action input
                else Inr ()) (\<lambda>_. Inr tool))))"

text \<open>The same function is written out in \<open>internal/web/context_validate.go\<close>.\<close>

definition validateContextRefStrict :: "ContextRef \<Rightarrow> unit result" where
  "validateContextRefStrict ctx =
    (if TrimSpace (TenantID ctx) = [] then Inl ''tenant_id required''
     else if TrimSpace (Environment ctx) = [] then Inl ''environment required''
     else if TrimSpace (ClusterID ctx) = [] then Inl ''cluster_id required''
     else if TrimSpace (Namespace ctx) = [] then Inl ''namespace required''
     else if TrimSpace (AWSAccountID ctx) = [] then Inl ''aws_account_id required''
     else if TrimSpace (Region ctx) = [] then Inl ''region required''
     else if TrimSpace (ArgoCDProject ctx) = [] then Inl ''argocd_project required''
     else if TrimSpace (GrafanaOrgID ctx) = [] then Inl ''grafana_org_id required''
     else Inr ())"

section \<open>What the checks give\<close>

lemma requireField_ok: "requireField m k = Inr () \<longleftrightarrow> stringField m k \<noteq> []"
  by (simp add: requireField_def)

lemma requireField_raw: "requireField m k = Inr () \<Longrightarrow> gstr m k \<noteq> []"
  by (auto simp: requireField_ok stringField_def gstr_def dest: TrimSpace_nonempty)

lemma validateExecuteRequest_ok:
  assumes "validateExecuteRequest env unm req = Inr tool"
  shows "tool \<in> set Registry" and "ToolName tool = TrimSpace (ReqTool req)"
    and "TrimSpace (ReqAction req) \<noteq> []"
    and "ToolName tool = ''kubectl'' \<Longrightarrow>
         validateKubectl unm (TrimSpace (ReqAction req)) (ReqInput req) = Inr ()"
    and "ToolName tool = ''helm'' \<Longrightarrow>
         validateHelm unm (TrimSpace (ReqAction req)) (ReqInput req) = Inr ()"
    and "ToolName tool = ''argocd'' \<Longrightarrow>
         validateArgo unm (TrimSpace (ReqAction req)) (ReqInput req) = Inr ()"
    and "ToolName tool = ''git'' \<Longrightarrow>
         validateGit unm (TrimSpace (ReqAction req)) (ReqInput req) = Inr ()"
  using assms
  by (auto simp: validateExecuteRequest_def Let_def bindR_eq_Inr dest: findTool_Some
      split: if_splits option.splits)

lemma checkArtifactRef_ok:
  "checkArtifactRef r = Inr (ref, given) \<Longrightarrow>
   given \<and> ArtKind ref \<in> {''git_path'', ''object_store'', ''inline''} \<and> TrimSpace (ArtRef ref) \<noteq> []"
  by (auto simp: checkArtifactRef_def split: if_splits)

lemma parseArtifactRef_ok:
  "parseArtifactRef v = Inr (ref, True) \<Longrightarrow>
   ArtKind ref \<in> {''git_path'', ''object_store'', ''inline''} \<and> TrimSpace (ArtRef ref) \<noteq> []"
  by (cases v) (auto dest: checkArtifactRef_ok)

lemma validateContextRefStrict_ok:
  "validateContextRefStrict ctx = Inr () \<longleftrightarrow>
   TrimSpace (TenantID ctx) \<noteq> [] \<and> TrimSpace (Environment ctx) \<noteq> [] \<and>
   TrimSpace (ClusterID ctx) \<noteq> [] \<and> TrimSpace (Namespace ctx) \<noteq> [] \<and>
   TrimSpace (AWSAccountID ctx) \<noteq> [] \<and> TrimSpace (Region ctx) \<noteq> [] \<and>
   TrimSpace (ArgoCDProject ctx) \<noteq> [] \<and> TrimSpace (GrafanaOrgID ctx) \<noteq> []"
  by (simp add: validateContextRefStrict_def)

text \<open>
  A validated Kubernetes scale request over a map runs exactly the documented command, with
  a resource and a replica count that is not negative.
\<close>

lemma validated_scale_command:
  assumes "validateKubectl unm ''scale'' (GMap m) = Inr ()"
  shows "\<exists>n rest. 0 \<le> n \<and> gstr m ''resource'' \<noteq> [] \<and> intFromAnyOK (gget m ''replicas'') = Some n \<and>
     (gget m ''replicas'' \<noteq> GInt64 n \<longrightarrow>
        BuildKubectlCmd ''scale'' (GMap m) =
          [''kubectl'', ''scale'', gstr m ''resource'', ''--replicas='' @ showInt n] @ rest)"
proof -
  from assms obtain n where n: "intFromAnyOK (gget m ''replicas'') = Some n" "0 \<le> n"
    and r: "gstr m ''resource'' \<noteq> []"
    by (auto simp: validateKubectl_def bindR_eq_Inr split: option.splits if_splits
        dest: requireField_raw)
  have "intFromAny (gget m ''replicas'') = n" if "gget m ''replicas'' \<noteq> GInt64 n"
    using n that by (cases "gget m ''replicas''") auto
  then show ?thesis using n r by (auto simp: BuildKubectlCmd_def)
qed

end
