(* ===== verification/Tool_Policy.thy ===== *)
theory Tool_Policy
  imports Tool_Validate
begin

text \<open>
  The policy layer both services share (\<open>internal/policy\<close>: the input, the decision and
  the evaluator around a checker) and the tool router's use of it:
  \<open>internal/tools/policy_helpers.go\<close> classifies a tool action, \<open>authorize\<close> of
  \<open>tool_router_server.go\<close> decides whether it may run. The checker (OPA behind HTTP) is a
  parameter: an arbitrary function from inputs to decisions or errors.
\<close>

section \<open>Inputs, decisions, evaluator\<close>

record PolicyInput =
  InActor :: gval
  ActionName :: string
  ActionType :: string
  InContext :: ContextRef
  InBreakGlass :: bool
  RiskLevel :: string
  RiskTargets :: int
  BlastRadius :: string
  RiskTier :: string
  InTime :: string

record PolicyDecision =
  Decision :: string
  Constraints :: gmap
  TTL :: int

type_synonym checker = "PolicyInput \<Rightarrow> PolicyDecision result"

definition plainDecision :: "string \<Rightarrow> PolicyDecision" where
  "plainDecision d = \<lparr>Decision = d, Constraints = [], TTL = 0\<rparr>"

text \<open>\<open>Evaluator.Check\<close>: without a checker everything is allowed.\<close>

definition evaluatorCheck :: "checker option \<Rightarrow> PolicyInput \<Rightarrow> PolicyDecision result" where
  "evaluatorCheck ch input =
    (case ch of None \<Rightarrow> Inr (plainDecision ''allow'') | Some f \<Rightarrow> f input)"

section \<open>Classification of tool actions\<close>

definition actionTypeForTool :: "string \<Rightarrow> string \<Rightarrow> string" where
  "actionTypeForTool tool action =
    (let tool = ToLower (TrimSpace tool); action = ToLower (TrimSpace action);
         has = (\<lambda>s. strContains action s) in
     if tool \<in> {''prometheus'', ''thanos'', ''tempo''} then ''read''
     else if tool = ''grafana'' then
       (if action = ''dashboard_get'' then ''read'' else ''write'')
     else if tool = ''argocd'' then
       (if action \<in> {''wait'', ''status'', ''list''} then ''read'' else ''write'')
     else if tool = ''kubectl'' then
       (if action \<in> {''rollout-status'', ''get''} then ''read'' else ''write'')
     else if tool = ''helm'' then
       (if action \<in> {''status'', ''list'', ''get''} then ''read'' else ''write'')
     else if tool = ''aws'' then
       (if has ''lookup'' \<or> has ''get'' \<or> has ''list'' then ''read'' else ''write'')
     else if tool = ''vault'' then (if has ''read'' then ''read'' else ''write'')
     else if tool = ''boundary'' then
       (if has ''list'' \<or> has ''get'' then ''read'' else ''write'')
     else ''write'')"

definition riskForToolAction :: "string \<Rightarrow> string \<Rightarrow> string" where
  "riskForToolAction tool action =
    (let action = ToLower (TrimSpace action); has = (\<lambda>s. strContains action s) in
     if has ''delete'' \<or> has ''terminate'' \<or> has ''rollback'' \<or> has ''iam'' \<or> has ''policy''
        \<or> has ''network'' then ''high''
     else if has ''sync'' \<or> has ''restart'' \<or> has ''upgrade'' \<or> has ''scale'' then ''medium''
     else if actionTypeForTool tool action = ''read'' then ''read''
     else ''low'')"

text \<open>Also \<open>tierForRisk\<close> of \<open>internal/web/risk.go\<close>, the same text.\<close>

definition tierForRisk :: "string \<Rightarrow> string" where
  "tierForRisk risk =
    (let r = ToLower (TrimSpace risk) in
     if r = ''read'' then ''read''
     else if r = ''low'' \<or> r = ''medium'' then ''safe''
     else ''break_glass'')"

definition blastRadiusForContext :: "ContextRef \<Rightarrow> string" where
  "blastRadiusForContext ctx =
    (if TrimSpace (Namespace ctx) \<noteq> [] then ''namespace''
     else if TrimSpace (ClusterID ctx) \<noteq> [] then ''cluster''
     else ''account'')"

section \<open>authorize\<close>

text \<open>
  The header value \<open>X-Break-Glass\<close>, the actor map put together from the request context and
  the time stamp are arguments.
\<close>

definition breakGlassSet :: "string \<Rightarrow> bool" where
  "breakGlassSet hdr \<longleftrightarrow> EqualFold (TrimSpace hdr) ''true''"

definition authorize ::
  "checker option \<Rightarrow> string \<Rightarrow> gval \<Rightarrow> string \<Rightarrow> string \<Rightarrow> string \<Rightarrow> ContextRef \<Rightarrow> unit result" where
  "authorize policy breakGlassHdr actor time tool action ctxRef =
    (case policy of
       None \<Rightarrow> Inl ''policy required''
     | Some checker \<Rightarrow>
        (let actionType = actionTypeForTool tool action;
             risk = riskForToolAction tool action;
             tier = tierForRisk risk;
             blast = blastRadiusForContext ctxRef;
             breakGlass = breakGlassSet breakGlassHdr in
         bindR (validateContextRefStrict ctxRef) (\<lambda>_.
           case evaluatorCheck (Some checker)
                  \<lparr>InActor = actor, ActionName = ''tool.execute'', ActionType = actionType,
                   InContext = ctxRef, InBreakGlass = breakGlass, RiskLevel = risk,
                   RiskTargets = 0, BlastRadius = blast, RiskTier = tier, InTime = time\<rparr> of
             Inl e \<Rightarrow> if actionType = ''read'' then Inr () else Inl e
           | Inr dec \<Rightarrow>
               if risk = ''high'' \<and> \<not> breakGlass then Inl ''break-glass required''
               else if Decision dec = [] \<or> Decision dec = ''allow'' then Inr ()
               else Inl (''policy decision '' @ Decision dec))))"

section \<open>Facts\<close>

lemma actionTypeForTool_cases: "actionTypeForTool t a = ''read'' \<or> actionTypeForTool t a = ''write''"
  by (auto simp: actionTypeForTool_def Let_def)

lemma tierForRisk_riskForToolAction:
  "tierForRisk (riskForToolAction t a) = ''break_glass'' \<longleftrightarrow> riskForToolAction t a = ''high''"
proof -
  have "tierForRisk ''high'' = ''break_glass''" "tierForRisk ''medium'' = ''safe''"
    "tierForRisk ''low'' = ''safe''" "tierForRisk ''read'' = ''read''"
    by code_simp+
  then show ?thesis by (auto simp: riskForToolAction_def Let_def)
qed

lemma authorize_write:
  assumes ok: "authorize policy bg actor time tool action ctx = Inr ()"
    and wr: "actionTypeForTool tool action = ''write''"
  shows "\<exists>checker inp dec. policy = Some checker \<and> checker inp = Inr dec \<and>
     ActionType inp = ''write'' \<and> InContext inp = ctx \<and>
     RiskLevel inp = riskForToolAction tool action \<and> InBreakGlass inp = breakGlassSet bg \<and>
     Decision dec \<in> {[], ''allow''} \<and> validateContextRefStrict ctx = Inr () \<and>
     (riskForToolAction tool action = ''high'' \<longrightarrow> breakGlassSet bg)"
  using assms unfolding authorize_def evaluatorCheck_def Let_def
  by (auto simp: bindR_eq_Inr split: option.splits sum.splits if_splits intro!: exI)

lemma authorize_no_policy: "authorize None bg actor time tool action ctx = Inl ''policy required''"
  by (simp add: authorize_def)

end
