(* ===== verification/Plan_Risk.thy ===== *)
theory Plan_Risk
  imports Tool_Policy Go_Effects
begin

text \<open>
  The gateway's risk model: \<open>internal/web/plan_helpers.go\<close> (risk from the intent's words and
  from the tools and actions of the steps), \<open>risk.go\<close> (tier and blast radius), and
  \<open>plan_parse.go\<close>, which turns the text of a language model into step drafts. The JSON parser
  is the parameter \<open>unm\<close>.
\<close>

section \<open>Risk\<close>

definition riskFromIntent :: "string \<Rightarrow> string" where
  "riskFromIntent intent =
    (let intent = ToLower intent; has = (\<lambda>ws. \<exists>w\<in>set ws. strContains intent w) in
     if has [''destroy'', ''delete'', ''terminate'', ''iam'', ''policy'', ''role'', ''user'', ''network'',
             ''vpc'', ''subnet'', ''security group'', ''firewall''] then ''high''
     else if has [''sync'', ''restart'', ''rollout'', ''migrate'', ''upgrade''] then ''medium''
     else if has [''deploy'', ''scale'', ''rollback''] then ''low''
     else ''read'')"

definition isWriteAction :: "string \<Rightarrow> bool" where
  "isWriteAction intent \<longleftrightarrow> riskFromIntent intent \<noteq> ''read''"

definition highRiskActions :: "string \<Rightarrow> string list" where
  "highRiskActions tool =
    (if tool = ''kubectl'' then
       [''delete'', ''exec'', ''apply'', ''patch'', ''replace'', ''drain'', ''cordon'', ''taint'']
     else if tool = ''helm'' then [''uninstall'', ''delete'']
     else if tool = ''aws'' then
       [''delete'', ''terminate'', ''remove'', ''destroy'', ''put-role-policy'', ''create-role'',
        ''delete-role'', ''attach-role-policy'']
     else if tool = ''vault'' then [''delete'', ''revoke'', ''destroy'']
     else if tool = ''argocd'' then [''delete'']
     else [])"

definition mediumRiskActions :: "string \<Rightarrow> string list" where
  "mediumRiskActions tool =
    (if tool = ''kubectl'' then [''scale'', ''rollout'']
     else if tool = ''helm'' then [''upgrade'', ''install'', ''rollback'']
     else if tool = ''argocd'' then [''sync'']
     else if tool = ''aws'' then [''update'', ''modify'', ''put'', ''create'', ''run'']
     else [])"

fun matchesAny :: "string \<Rightarrow> string list \<Rightarrow> bool" where
  "matchesAny action [] = False"
| "matchesAny action (p # ps) = (if strContains action p then True else matchesAny action ps)"

definition riskOrd :: "string \<Rightarrow> nat" where
  "riskOrd level =
    (if level = ''read'' then 0 else if level = ''low'' then 1 else if level = ''medium'' then 2
     else if level = ''high'' then 3 else 0)"

definition readOnlyActions :: "string list" where
  "readOnlyActions = [''get'', ''list'', ''describe'', ''status'', ''query'', ''search'', ''show'']"

fun riskLoop :: "string \<Rightarrow> (string \<times> string) list \<Rightarrow> string" where
  "riskLoop highest [] = highest"
| "riskLoop highest ((tool0, action0) # steps) =
    (let tool = ToLower (TrimSpace tool0); action = ToLower (TrimSpace action0) in
     if tool = [] \<or> action = [] then riskLoop highest steps
     else if matchesAny action (highRiskActions tool) then ''high''
     else if matchesAny action (mediumRiskActions tool) then
       riskLoop (if riskOrd highest < riskOrd ''medium'' then ''medium'' else highest) steps
     else if action \<notin> set readOnlyActions then
       riskLoop (if riskOrd highest < riskOrd ''low'' then ''low'' else highest) steps
     else riskLoop highest steps)"

definition riskFromSteps :: "PlanStep list \<Rightarrow> string" where
  "riskFromSteps steps = riskLoop ''read'' (map (\<lambda>s. (StepTool s, StepAction s)) steps)"

definition effectiveRisk :: "string \<Rightarrow> PlanStep list \<Rightarrow> string" where
  "effectiveRisk intentRisk steps =
    (let stepRisk = riskFromSteps steps in
     if riskOrd stepRisk > riskOrd intentRisk then stepRisk else intentRisk)"

definition blastRadius :: "ContextRef \<Rightarrow> int \<Rightarrow> string" where
  "blastRadius ctx targets =
    (if targets \<le> 0 then ''namespace''
     else if targets \<le> 10 \<and> TrimSpace (Namespace ctx) \<noteq> [] then ''namespace''
     else if targets \<le> 50 then ''cluster''
     else ''account'')"

section \<open>Step drafts from text\<close>

record planStepDraft =
  DrStage :: string
  DrAction :: string
  DrTool :: string
  DrInput :: "gval option"
  DrPreconditions :: "gval option"
  DrRollback :: "gval option"

definition riskFromStepDrafts :: "planStepDraft list \<Rightarrow> string" where
  "riskFromStepDrafts steps = riskLoop ''read'' (map (\<lambda>s. (DrTool s, DrAction s)) steps)"

definition effectiveRiskDrafts :: "string \<Rightarrow> planStepDraft list \<Rightarrow> string" where
  "effectiveRiskDrafts intentRisk steps =
    (let stepRisk = riskFromStepDrafts steps in
     if riskOrd stepRisk > riskOrd intentRisk then stepRisk else intentRisk)"

definition isRegisteredTool :: "string \<Rightarrow> bool" where
  "isRegisteredTool tool \<longleftrightarrow> ToLower (TrimSpace tool) \<in> set (map (\<lambda>t. ToLower (ToolName t)) Registry)"

definition extractJSONBlock :: "string \<Rightarrow> string" where
  "extractJSONBlock text =
    (case strIndex text ''```'' of
       None \<Rightarrow> text
     | Some i \<Rightarrow>
        (let rest = drop (i + 3) text;
             rest = (case strIndex rest [char_of (10::nat)] of None \<Rightarrow> rest | Some nl \<Rightarrow> drop (nl + 1) rest) in
         case strIndex rest ''```'' of
           None \<Rightarrow> TrimSpace rest
         | Some j \<Rightarrow> TrimSpace (take j rest)))"

definition decodeDraft :: "gval \<Rightarrow> planStepDraft result" where
  "decodeDraft v =
     bindR (decodeObj v) (\<lambda>m.
     bindR (decodeStr (jsonField m ''stage'')) (\<lambda>stage.
     bindR (decodeStr (jsonField m ''action'')) (\<lambda>action.
     bindR (decodeStr (jsonField m ''tool'')) (\<lambda>tool.
       Inr \<lparr>DrStage = stage, DrAction = action, DrTool = tool, DrInput = jsonField m ''input'',
            DrPreconditions = jsonField m ''preconditions'', DrRollback = jsonField m ''rollback''\<rparr>))))"

fun decodeDrafts :: "gval \<Rightarrow> planStepDraft list result" where
  "decodeDrafts GNil = Inr []"
| "decodeDrafts (GList vs) = mapR decodeDraft vs"
| "decodeDrafts _ = Inl ''json: cannot unmarshal''"

definition decodePlanStepsPayload :: "(string \<Rightarrow> gval option) \<Rightarrow> string \<Rightarrow> planStepDraft list" where
  "decodePlanStepsPayload unm text =
    (case unm text of
       None \<Rightarrow> []
     | Some v \<Rightarrow>
        (case decodeDrafts v of
           Inr steps \<Rightarrow> steps
         | Inl _ \<Rightarrow>
            (case bindR (decodeObj v) (\<lambda>m. decodeDrafts (case jsonField m ''steps'' of None \<Rightarrow> GNil | Some x \<Rightarrow> x)) of
               Inr steps \<Rightarrow> steps
             | Inl _ \<Rightarrow> [])))"

definition parsePlanSteps :: "(string \<Rightarrow> gval option) \<Rightarrow> string \<Rightarrow> planStepDraft list" where
  "parsePlanSteps unm planText =
    (let text = TrimSpace planText in
     if text = [] then []
     else map (\<lambda>s. if TrimSpace (DrStage s) = [] then s\<lparr>DrStage := ''act''\<rparr> else s)
       (filter (\<lambda>s. TrimSpace (DrAction s) \<noteq> [] \<and> TrimSpace (DrTool s) \<noteq> [] \<and> isRegisteredTool (DrTool s))
         (decodePlanStepsPayload unm (extractJSONBlock text))))"

section \<open>Facts\<close>

lemma matchesAny_iff: "matchesAny a ps \<longleftrightarrow> (\<exists>p\<in>set ps. strContains a p)"
  by (induction ps) auto

lemma riskOrd_simps [simp]:
  "riskOrd ''read'' = 0" "riskOrd ''low'' = 1" "riskOrd ''medium'' = 2" "riskOrd ''high'' = 3"
  by (simp_all add: riskOrd_def)

lemma riskOrd_le: "riskOrd r \<le> 3"
  by (simp add: riskOrd_def)

text \<open>The risk of one step, and the loop as its maximum.\<close>

definition stepRiskOrd :: "string \<times> string \<Rightarrow> nat" where
  "stepRiskOrd ta =
    (let tool = ToLower (TrimSpace (fst ta)); action = ToLower (TrimSpace (snd ta)) in
     if tool = [] \<or> action = [] then 0
     else if \<exists>p\<in>set (highRiskActions tool). strContains action p then 3
     else if \<exists>p\<in>set (mediumRiskActions tool). strContains action p then 2
     else if action \<in> set readOnlyActions then 0
     else 1)"

lemma stepRiskOrd_le: "stepRiskOrd s \<le> 3"
  by (simp add: stepRiskOrd_def Let_def)

text \<open>The loop raises the level to that of the step it looks at.\<close>

definition raiseRisk :: "string \<Rightarrow> nat \<Rightarrow> string" where
  "raiseRisk h k =
    (if riskOrd h < k then (if k = 1 then ''low'' else if k = 2 then ''medium'' else ''high'') else h)"

lemma riskOrd_raise: "k \<le> 3 \<Longrightarrow> riskOrd (raiseRisk h k) = max (riskOrd h) k"
  by (auto simp: raiseRisk_def max_def)

lemma riskLoop_step:
  "riskLoop h (s # steps) =
   (if stepRiskOrd s = 3 then ''high'' else riskLoop (raiseRisk h (stepRiskOrd s)) steps)"
  by (cases s) (simp add: stepRiskOrd_def raiseRisk_def matchesAny_iff Let_def)

lemma Max_insert_shift:
  "finite A \<Longrightarrow> Max (insert (a::nat) (insert b A)) = Max (insert (max a b) A)"
  by (cases "A = {}") (simp_all add: max.assoc)

lemma riskLoop_max:
  "riskOrd (riskLoop h steps) = Max (insert (riskOrd h) (stepRiskOrd ` set steps))"
proof (induction steps arbitrary: h)
  case Nil
  show ?case by simp
next
  case (Cons s steps)
  show ?case
  proof (cases "stepRiskOrd s = 3")
    case True
    then have "Max (insert (riskOrd h) (stepRiskOrd ` set (s # steps))) = 3"
      using riskOrd_le [of h] stepRiskOrd_le by (intro Max_eqI) auto
    with True show ?thesis by (simp only: riskLoop_step) simp
  next
    case False
    then show ?thesis
      using Cons riskOrd_raise [OF stepRiskOrd_le, of h s]
      by (simp add: riskLoop_step Max_insert_shift del: riskLoop.simps Max_insert)
  qed
qed

lemma effectiveRisk_max:
  "riskOrd (effectiveRisk i steps) = max (riskOrd i) (riskOrd (riskFromSteps steps))"
  by (simp add: effectiveRisk_def Let_def)

lemma parsePlanSteps_registered:
  assumes "s \<in> set (parsePlanSteps unm text)"
  shows "isRegisteredTool (DrTool s)" "TrimSpace (DrAction s) \<noteq> []" "TrimSpace (DrStage s) \<noteq> []"
proof -
  have act: "TrimSpace ''act'' \<noteq> []" by code_simp
  from assms obtain d where "isRegisteredTool (DrTool d)" "TrimSpace (DrAction d) \<noteq> []"
    "s = (if TrimSpace (DrStage d) = [] then d\<lparr>DrStage := ''act''\<rparr> else d)"
    by (auto simp: parsePlanSteps_def Let_def split: if_splits)
  with act show "isRegisteredTool (DrTool s)" "TrimSpace (DrAction s) \<noteq> []" "TrimSpace (DrStage s) \<noteq> []"
    by (auto split: if_splits)
qed

end
