(* ===== verification/Plan_Constraints.thy ===== *)
theory Plan_Constraints
  imports Plan_Risk
begin

text \<open>
  \<open>internal/web/constraints.go\<close>: the constraints a request and the policy put on a plan
  (allowed environments, maintenance window, number of targets) and the steps payload parser.
  Times of day are nanoseconds since local midnight; \<open>TimeEnv\<close> gives the current one in UTC and in
  a named zone (\<open>None\<close> when \<open>time.LoadLocation\<close> fails). Days of a clock change are not treated
  specially.
\<close>

section \<open>Merging\<close>

definition copyConstraintMap :: "(string \<Rightarrow> gval option) \<Rightarrow> gmap \<Rightarrow> gval \<Rightarrow> gmap" where
  "copyConstraintMap unm out src =
    (case src of
       GMap m \<Rightarrow> gputAll out m
     | GRaw s \<Rightarrow> (case unm s of Some (GMap m) \<Rightarrow> gputAll out m | _ \<Rightarrow> out)
     | GBytes s \<Rightarrow> (case unm s of Some (GMap m) \<Rightarrow> gputAll out m | _ \<Rightarrow> out)
     | _ \<Rightarrow> out)"

text \<open>The nil map and the empty map are the same value; both mean: no constraints.\<close>

definition mergeConstraints :: "(string \<Rightarrow> gval option) \<Rightarrow> gval \<Rightarrow> gmap \<Rightarrow> gmap" where
  "mergeConstraints unm request pol = gputAll (copyConstraintMap unm [] request) pol"

definition constraintsFromPlan :: "(string \<Rightarrow> gval option) \<Rightarrow> gmap \<Rightarrow> gmap" where
  "constraintsFromPlan unm plan = mergeConstraints unm (gget plan ''constraints'') []"

section \<open>Conversions\<close>

fun anyToSlice :: "gval \<Rightarrow> gval list" where
  "anyToSlice (GList vs) = vs"
| "anyToSlice (GStrs ss) = map GStr ss"
| "anyToSlice _ = []"

fun stringSliceFromAny :: "gval \<Rightarrow> string list" where
  "stringSliceFromAny (GStr s) = (if TrimSpace s = [] then [] else [s])"
| "stringSliceFromAny (GStrs ss) = ss"
| "stringSliceFromAny (GList vs) = map strOf (filter isStr vs)"
| "stringSliceFromAny _ = []"

definition webIntFromAny :: "gval \<Rightarrow> int" where
  "webIntFromAny v =
    (case v of
       GInt n \<Rightarrow> n
     | GInt64 n \<Rightarrow> n
     | GFloat r \<Rightarrow> intOfFloat r
     | GFloat32 r \<Rightarrow> intOfFloat r
     | GNumber s \<Rightarrow> (case Atoi s of Some n \<Rightarrow> n | None \<Rightarrow> 0)
     | _ \<Rightarrow> 0)"

section \<open>Targets\<close>

definition targetsFromInput :: "gval \<Rightarrow> nat" where
  "targetsFromInput input =
    (let m = mapOf input;
         lists = filter (\<lambda>vs. vs \<noteq> []) (map (\<lambda>k. anyToSlice (gget m k))
                   [''targets'', ''resources'', ''namespaces'', ''items'']) in
     case lists of
       vs # _ \<Rightarrow> length vs
     | [] \<Rightarrow> if isStr (gget m ''resource'') then 1
             else if isStr (gget m ''name'') then 1 else 0)"

definition estimateTargets :: "PlanStep list \<Rightarrow> nat" where
  "estimateTargets steps =
    (if steps = [] then 1
     else (let count = foldl (\<lambda>n s. n + targetsFromInput (StepInput s)) 0 steps in
           if count = 0 then 1 else count))"

section \<open>The maintenance window\<close>

record TimeEnv =
  utcClock :: int
  zoneClock :: "string \<Rightarrow> int option"

definition minuteNs :: int where
  "minuteNs = 60 * 1000000000"

text \<open>\<open>time.Date\<close> normalises hours and minutes out of range.\<close>

definition parseClock :: "string \<Rightarrow> int option" where
  "parseClock v =
    (case splitChar (CHR '':'') (TrimSpace v) of
       [h, m] \<Rightarrow>
        (case Atoi h of
           None \<Rightarrow> None
         | Some hour \<Rightarrow>
            (case Atoi m of None \<Rightarrow> None | Some minute \<Rightarrow> Some ((hour * 60 + minute) * minuteNs)))
     | _ \<Rightarrow> None)"

definition withinMaintenanceWindow :: "TimeEnv \<Rightarrow> gmap \<Rightarrow> bool" where
  "withinMaintenanceWindow te constraints =
    (let window = mapOf (gget constraints ''maintenance_window'');
         startRaw = gstr window ''start''; endRaw = gstr window ''end''; tz = gstr window ''timezone'' in
     if window = [] then True
     else if TrimSpace startRaw = [] \<or> TrimSpace endRaw = [] then True
     else
      (let now = (if tz = [] then utcClock te
                  else (case zoneClock te tz of None \<Rightarrow> utcClock te | Some t \<Rightarrow> t)) in
       case parseClock startRaw of
         None \<Rightarrow> True
       | Some start \<Rightarrow>
          (case parseClock endRaw of
             None \<Rightarrow> True
           | Some stop \<Rightarrow>
               if stop < start then now \<ge> start \<or> now \<le> stop
               else now \<ge> start \<and> now \<le> stop)))"

section \<open>Enforcement\<close>

definition envAllowed :: "string \<Rightarrow> gmap \<Rightarrow> bool" where
  "envAllowed env constraints =
    (let allowed = stringSliceFromAny (gget constraints ''allowed_envs'');
         allowed = (if allowed = [] then stringSliceFromAny (gget constraints ''environments'') else allowed) in
     allowed = [] \<or> (\<exists>item\<in>set allowed. ToLower (TrimSpace item) = ToLower (TrimSpace env)))"

definition maxTargetsConstraint :: "gmap \<Rightarrow> int" where
  "maxTargetsConstraint constraints =
    (case map_of constraints ''max_targets'' of None \<Rightarrow> 0 | Some v \<Rightarrow> webIntFromAny v)"

definition errConstraint :: "string \<Rightarrow> string" where
  "errConstraint what = ''constraints violated: '' @ what"

definition enforceConstraints ::
  "TimeEnv \<Rightarrow> ContextRef \<Rightarrow> gmap \<Rightarrow> PlanStep list \<Rightarrow> string \<Rightarrow> unit result" where
  "enforceConstraints te ctx constraints steps actionType =
    (if constraints = [] then
       (if actionType = ''write'' \<and> estimateTargets steps > 50
        then Inl (errConstraint ''max targets exceeded'') else Inr ())
     else if \<not> envAllowed (Environment ctx) constraints then Inl (errConstraint ''environment not allowed'')
     else if actionType = ''write'' then
       (if \<not> withinMaintenanceWindow te constraints then Inl (errConstraint ''outside maintenance window'')
        else
         (let maxTargets = maxTargetsConstraint constraints;
              maxTargets = (if maxTargets = 0 then 50 else maxTargets) in
          if maxTargets > 0 \<and> int (estimateTargets steps) > maxTargets
          then Inl (errConstraint ''max targets exceeded'') else Inr ()))
     else Inr ())"

section \<open>The steps payload\<close>

text \<open>The field \<open>preconditions\<close> of the gateway's \<open>PlanStep\<close> is a list.\<close>

fun decodeList :: "gval option \<Rightarrow> gval result" where
  "decodeList None = Inr GNil"
| "decodeList (Some GNil) = Inr GNil"
| "decodeList (Some (GList vs)) = Inr (GList vs)"
| "decodeList (Some _) = Inl ''json: cannot unmarshal''"

definition decodeWebStep :: "gval \<Rightarrow> PlanStep result" where
  "decodeWebStep v =
     bindR (decodeObj v) (\<lambda>m.
     bindR (decodeStr (jsonField m ''step_id'')) (\<lambda>i.
     bindR (decodeStr (jsonField m ''stage'')) (\<lambda>stage.
     bindR (decodeStr (jsonField m ''action'')) (\<lambda>action.
     bindR (decodeStr (jsonField m ''tool'')) (\<lambda>tool.
     bindR (decodeList (jsonField m ''preconditions'')) (\<lambda>pre.
       Inr \<lparr>StepID = i, Stage = stage, StepAction = action, StepTool = tool,
            StepInput = (case jsonField m ''input'' of None \<Rightarrow> GNil | Some x \<Rightarrow> x),
            Preconditions = pre,
            Rollback = (case jsonField m ''rollback'' of None \<Rightarrow> GNil | Some x \<Rightarrow> x)\<rparr>))))))"

definition parsePlanStepsJSON :: "gval \<Rightarrow> PlanStep list result" where
  "parsePlanStepsJSON doc =
     bindR (case doc of GNil \<Rightarrow> Inr [] | GList vs \<Rightarrow> mapR decodeWebStep vs
              | _ \<Rightarrow> Inl ''json: cannot unmarshal'')
       (\<lambda>steps. Inr (map (\<lambda>s. if TrimSpace (Stage s) = [] then s\<lparr>Stage := ''act''\<rparr> else s) steps))"

definition parseStepsText :: "(string \<Rightarrow> gval option) \<Rightarrow> string \<Rightarrow> PlanStep list result" where
  "parseStepsText unm s =
    (if s = [] then Inr []
     else case unm s of None \<Rightarrow> Inl ''json: cannot unmarshal'' | Some doc \<Rightarrow> parsePlanStepsJSON doc)"

definition parsePlanStepsPayload :: "(string \<Rightarrow> gval option) \<Rightarrow> gval \<Rightarrow> PlanStep list result" where
  "parsePlanStepsPayload unm raw =
    (case raw of
       GList vs \<Rightarrow> parsePlanStepsJSON (GList vs)
     | GRaw s \<Rightarrow> parseStepsText unm s
     | GBytes s \<Rightarrow> parseStepsText unm s
     | _ \<Rightarrow> Inr [])"

section \<open>Facts\<close>

lemma estimateTargets_pos: "0 < estimateTargets steps"
  by (simp add: estimateTargets_def Let_def)

lemma foldl_targets: "foldl (\<lambda>n s. n + targetsFromInput (StepInput s)) k steps
   = k + sum_list (map (\<lambda>s. targetsFromInput (StepInput s)) steps)"
  by (induction steps arbitrary: k) (simp_all add: add.assoc)

lemma estimateTargets_sum:
  "estimateTargets steps = max 1 (sum_list (map (\<lambda>s. targetsFromInput (StepInput s)) steps))"
  by (auto simp: estimateTargets_def foldl_targets Let_def max_def simp del: sum_list_eq_0_iff)

text \<open>The policy's constraints win over the request's.\<close>

lemma mergeConstraints_policy:
  "distinct (map fst pol) \<Longrightarrow> map_of pol k = Some v \<Longrightarrow> gget (mergeConstraints unm request pol) k = v"
  by (simp add: mergeConstraints_def gget_gputAll)

lemma enforceConstraints_write_ok:
  assumes "enforceConstraints te ctx cs steps ''write'' = Inr ()"
    and "0 \<le> maxTargetsConstraint cs"
  shows "int (estimateTargets steps)
     \<le> (if maxTargetsConstraint cs = 0 then 50 else maxTargetsConstraint cs)"
    and "cs \<noteq> [] \<Longrightarrow> envAllowed (Environment ctx) cs \<and> withinMaintenanceWindow te cs"
  using assms
  by (auto simp: enforceConstraints_def maxTargetsConstraint_def Let_def not_less split: if_splits)

end
