(* ===== verification/Tenancy.thy ===== *)
theory Tenancy
  imports Tool_Policy
begin

text \<open>
  \<open>internal/web/tenancy_helpers.go\<close>: which tenant an item belongs to and the filters the list
  handlers put before their answers. Items are decoded JSON objects.
\<close>

definition resolveTenant :: "string \<Rightarrow> string \<Rightarrow> string result" where
  "resolveTenant bodyTenant headerTenant =
    (let body = TrimSpace bodyTenant; hdr = TrimSpace headerTenant in
     if body \<noteq> [] \<and> hdr \<noteq> [] \<and> hdr \<noteq> body then Inl ''tenant_id mismatch''
     else (let t = (if body = [] then hdr else body) in
           if t = [] then Inl ''tenant_id required'' else Inr t))"

definition tenantFromMap :: "gmap \<Rightarrow> string" where
  "tenantFromMap item = TrimSpace (gstr item ''tenant_id'')"

definition tenantFromContext :: "gmap \<Rightarrow> string" where
  "tenantFromContext item = TrimSpace (gstr (mapOf (gget item ''context'')) ''tenant_id'')"

definition tenantFromLabels :: "gmap \<Rightarrow> string" where
  "tenantFromLabels item = TrimSpace (gstr (mapOf (gget item ''labels'')) ''tenant_id'')"

definition tenantMatch :: "string \<Rightarrow> string \<Rightarrow> bool \<Rightarrow> bool" where
  "tenantMatch itemTenant tenantID includeGlobal =
    (let item = TrimSpace itemTenant; t = TrimSpace tenantID in
     if t = [] then False else if item = [] then includeGlobal else item = t)"

fun filterItemsByTenant :: "gmap list \<Rightarrow> string \<Rightarrow> bool \<Rightarrow> gmap list" where
  "filterItemsByTenant [] tenantID includeGlobal = []"
| "filterItemsByTenant (item # items) tenantID includeGlobal =
    (if tenantMatch (tenantFromMap item) tenantID includeGlobal
     then item # filterItemsByTenant items tenantID includeGlobal
     else filterItemsByTenant items tenantID includeGlobal)"

fun filterItemsByContextTenant :: "gmap list \<Rightarrow> string \<Rightarrow> gmap list" where
  "filterItemsByContextTenant [] tenantID = []"
| "filterItemsByContextTenant (item # items) tenantID =
    (if tenantMatch (tenantFromContext item) tenantID False
     then item # filterItemsByContextTenant items tenantID
     else filterItemsByContextTenant items tenantID)"

fun filterItemsByLabelTenant :: "gmap list \<Rightarrow> string \<Rightarrow> bool \<Rightarrow> gmap list" where
  "filterItemsByLabelTenant [] tenantID includeGlobal = []"
| "filterItemsByLabelTenant (item # items) tenantID includeGlobal =
    (if tenantMatch (tenantFromLabels item) tenantID includeGlobal
     then item # filterItemsByLabelTenant items tenantID includeGlobal
     else filterItemsByLabelTenant items tenantID includeGlobal)"

text \<open>\<open>json.Unmarshal\<close> into \<open>[]map[string]any\<close>: an array of objects (or nulls), or null.\<close>

fun decodeItem :: "gval \<Rightarrow> gmap result" where
  "decodeItem (GMap m) = Inr m"
| "decodeItem GNil = Inr []"
| "decodeItem _ = Inl ''json: cannot unmarshal''"

fun decodeItemList :: "gval list \<Rightarrow> gmap list result" where
  "decodeItemList [] = Inr []"
| "decodeItemList (v # vs) =
    bindR (decodeItem v) (\<lambda>m. bindR (decodeItemList vs) (\<lambda>ms. Inr (m # ms)))"

fun decodeItems :: "gval \<Rightarrow> gmap list result" where
  "decodeItems (GList vs) = decodeItemList vs"
| "decodeItems GNil = Inr []"
| "decodeItems _ = Inl ''json: cannot unmarshal''"

definition filterJSONByTenant :: "gval \<Rightarrow> string \<Rightarrow> bool \<Rightarrow> gmap list result" where
  "filterJSONByTenant payload tenantID includeGlobal =
     bindR (decodeItems payload) (\<lambda>items. Inr (filterItemsByTenant items tenantID includeGlobal))"

definition filterJSONByTenantContext :: "gval \<Rightarrow> string \<Rightarrow> gmap list result" where
  "filterJSONByTenantContext payload tenantID =
     bindR (decodeItems payload) (\<lambda>items. Inr (filterItemsByContextTenant items tenantID))"

section \<open>What a tenant filter promises\<close>

text \<open>
  A list handler relies on its filter to return, in order, exactly the items of the caller's
  tenant, and the items of no tenant when global ones are asked for.
\<close>

locale tenant_filter =
  fixes tenantOf :: "gmap \<Rightarrow> string"
    and globals :: bool
    and keep :: "gmap list \<Rightarrow> string \<Rightarrow> gmap list"
  assumes keep_filter: "keep items t = filter (\<lambda>i. tenantMatch (tenantOf i) t globals) items"
    and tenantOf_trimmed: "TrimSpace (tenantOf i) = tenantOf i"
begin

lemma keep_sound:
  assumes "i \<in> set (keep items t)"
  shows "i \<in> set items" and "TrimSpace t \<noteq> []"
    and "tenantOf i = TrimSpace t \<or> globals \<and> tenantOf i = []"
  using assms by (auto simp: keep_filter tenantMatch_def tenantOf_trimmed Let_def split: if_splits)

lemma keep_complete:
  assumes "i \<in> set items" "TrimSpace t \<noteq> []" "tenantOf i = TrimSpace t"
  shows "i \<in> set (keep items t)"
  using assms by (simp add: keep_filter tenantMatch_def tenantOf_trimmed Let_def)

lemma keep_no_tenant: "TrimSpace t = [] \<Longrightarrow> keep items t = []"
  by (simp add: keep_filter tenantMatch_def)

text \<open>Two different tenants never see the same item, unless it is a global one.\<close>

lemma keep_isolated:
  assumes "TrimSpace t \<noteq> TrimSpace u" "i \<in> set (keep items t)" "i \<in> set (keep items' u)"
  shows "globals \<and> tenantOf i = []"
  using keep_sound(3) [OF assms(2)] keep_sound(3) [OF assms(3)] assms(1) by auto

end

interpretation by_map: tenant_filter tenantFromMap g "\<lambda>items t. filterItemsByTenant items t g" for g
proof
  show "filterItemsByTenant items t g = filter (\<lambda>i. tenantMatch (tenantFromMap i) t g) items" for items t
    by (induction items) auto
qed (simp add: tenantFromMap_def TrimSpace_idem)

interpretation by_context: tenant_filter tenantFromContext False filterItemsByContextTenant
proof
  show "filterItemsByContextTenant items t = filter (\<lambda>i. tenantMatch (tenantFromContext i) t False) items" for items t
    by (induction items) auto
qed (simp add: tenantFromContext_def TrimSpace_idem)

interpretation by_labels: tenant_filter tenantFromLabels g "\<lambda>items t. filterItemsByLabelTenant items t g" for g
proof
  show "filterItemsByLabelTenant items t g = filter (\<lambda>i. tenantMatch (tenantFromLabels i) t g) items" for items t
    by (induction items) auto
qed (simp add: tenantFromLabels_def TrimSpace_idem)

lemma resolveTenant_ok:
  assumes "resolveTenant body hdr = Inr t"
  shows "t \<noteq> []" "TrimSpace t = t" "TrimSpace body = [] \<or> t = TrimSpace body"
    "TrimSpace hdr = [] \<or> t = TrimSpace hdr"
  using assms by (auto simp: resolveTenant_def TrimSpace_idem Let_def split: if_splits)

end
