(* ===== verification/Hubs.thy ===== *)
theory Hubs
  imports Go_Values
begin

text \<open>
  The in-process publish/subscribe hubs: \<open>EventHub\<close> and \<open>LogHub\<close> of
  \<open>internal/web/events.go\<close>, \<open>LogHub\<close> of \<open>internal/tools/logs.go\<close>. A subscriber's
  buffered channel is the list of messages waiting in it (capacity 8); a send to a full
  channel takes the \<open>default\<close> branch of the \<open>select\<close> and drops the message. Every method
  holds the hub's mutex, so a method is one step. Go ranges over a map in any order: the
  order in which \<open>Append\<close> visits the history keys is the argument \<open>order\<close>.

  The locale \<open>pubsub\<close> is what a hub promises to a subscriber; its lemma
  \<open>after_publishing\<close> gives the exact contents of a channel after any sequence of
  publications.
\<close>

section \<open>Association lists as Go maps\<close>

definition aput :: "('k \<times> 'v) list \<Rightarrow> 'k \<Rightarrow> 'v \<Rightarrow> ('k \<times> 'v) list" where
  "aput m k v = (k, v) # filter (\<lambda>(k', _). k' \<noteq> k) m"

definition adel :: "('k \<times> 'v) list \<Rightarrow> 'k \<Rightarrow> ('k \<times> 'v) list" where
  "adel m k = filter (\<lambda>(k', _). k' \<noteq> k) m"

lemma map_of_adel [simp]: "map_of (adel m k) k' = (if k' = k then None else map_of m k')"
  by (induction m) (auto simp: adel_def)

lemma map_of_aput [simp]: "map_of (aput m k v) k' = (if k' = k then Some v else map_of m k')"
  using map_of_adel [of m k k'] by (simp add: aput_def adel_def)

lemma adel_keys: "set (map fst (adel m k)) = set (map fst m) - {k}"
  by (induction m) (auto simp: adel_def)

lemma adel_distinct: "distinct (map fst m) \<Longrightarrow> distinct (map fst (adel m k))"
  by (simp add: adel_def distinct_map inj_on_def)

lemma aput_distinct: "distinct (map fst m) \<Longrightarrow> distinct (map fst (aput m k v))"
  using adel_distinct [of m k] adel_keys [of m k] by (simp add: aput_def adel_def)

section \<open>Subscribers\<close>

definition chanCap :: nat where
  "chanCap = 8"

record 'm SubHub =
  nextID :: nat
  subs :: "(string \<times> (nat \<times> 'm list) list) list"

definition NewEventHub :: "'m SubHub" where
  "NewEventHub = \<lparr>nextID = 0, subs = []\<rparr>"

definition subsOf :: "('m, 'z) SubHub_scheme \<Rightarrow> string \<Rightarrow> (nat \<times> 'm list) list" where
  "subsOf h key = (case map_of (subs h) key of None \<Rightarrow> [] | Some l \<Rightarrow> l)"

definition buffer :: "('m, 'z) SubHub_scheme \<Rightarrow> string \<Rightarrow> nat \<Rightarrow> 'm list option" where
  "buffer h key sid = map_of (subsOf h key) sid"

definition Subscribe :: "string \<Rightarrow> ('m, 'z) SubHub_scheme \<Rightarrow> nat \<times> ('m, 'z) SubHub_scheme" where
  "Subscribe key h =
    (let sid = nextID h in
     (sid, h\<lparr>nextID := Suc sid, subs := aput (subs h) key (aput (subsOf h key) sid [])\<rparr>))"

text \<open>The closure \<open>cancel\<close> that \<open>Subscribe\<close> returns.\<close>

definition cancelSub :: "string \<Rightarrow> nat \<Rightarrow> ('m, 'z) SubHub_scheme \<Rightarrow> ('m, 'z) SubHub_scheme" where
  "cancelSub key sid h =
    (case map_of (subs h) key of
       None \<Rightarrow> h
     | Some l \<Rightarrow>
        (let l' = adel l sid in
         if l' = [] then h\<lparr>subs := adel (subs h) key\<rparr> else h\<lparr>subs := aput (subs h) key l'\<rparr>))"

text \<open>\<open>select { case ch <- m: default: }\<close>.\<close>

definition trySend :: "'m \<Rightarrow> 'm list \<Rightarrow> 'm list" where
  "trySend m b = (if length b < chanCap then b @ [m] else b)"

definition deliverTo :: "string \<Rightarrow> 'm \<Rightarrow> ('m, 'z) SubHub_scheme \<Rightarrow> ('m, 'z) SubHub_scheme" where
  "deliverTo key m h =
    (case map_of (subs h) key of
       None \<Rightarrow> h
     | Some l \<Rightarrow> h\<lparr>subs := aput (subs h) key (map (\<lambda>(i, b). (i, trySend m b)) l)\<rparr>)"

definition Publish :: "'m \<Rightarrow> string \<Rightarrow> ('m, 'z) SubHub_scheme \<Rightarrow> ('m, 'z) SubHub_scheme" where
  "Publish ev sessionID h =
    (let h1 = deliverTo sessionID ev h in
     if sessionID \<noteq> [] then deliverTo [] ev h1 else h1)"

lemma map_of_map_snd: "map_of (map (\<lambda>(i, b). (i, f b)) l) k = map_option f (map_of l k)"
  by (induction l) auto

lemma buffer_deliverTo:
  "buffer (deliverTo key m h) k i =
   (if k = key then map_option (trySend m) (buffer h k i) else buffer h k i)"
  by (auto simp: buffer_def subsOf_def deliverTo_def map_of_map_snd split: option.splits)

lemma buffer_Subscribe:
  "Subscribe key h = (sid, h') \<Longrightarrow>
   buffer h' k i = (if k = key \<and> i = sid then Some [] else buffer h k i)"
  by (auto simp: buffer_def subsOf_def Subscribe_def Let_def split: option.splits if_splits)

lemma buffer_cancelSub:
  "buffer (cancelSub key sid h) k i = (if k = key \<and> i = sid then None else buffer h k i)"
proof -
  have "map_of l i = None" if "adel l sid = []" "i \<noteq> sid" for l :: "(nat \<times> 'a list) list"
    using map_of_adel [of l sid i] that by simp
  then show ?thesis
    by (auto simp: buffer_def subsOf_def cancelSub_def Let_def split: option.splits)
qed

section \<open>The subscriber's contract\<close>

locale pubsub =
  fixes pub :: "'m \<Rightarrow> string \<Rightarrow> 'h \<Rightarrow> 'h"
    and buf :: "'h \<Rightarrow> string \<Rightarrow> nat \<Rightarrow> 'm list option"
    and listens :: "string \<Rightarrow> string \<Rightarrow> bool"
  assumes pub_buf:
    "buf (pub m key h) k i =
     (if listens k key then map_option (trySend m) (buf h k i) else buf h k i)"
begin

definition publishAll :: "('m \<times> string) list \<Rightarrow> 'h \<Rightarrow> 'h" where
  "publishAll ms h = foldl (\<lambda>h (m, key). pub m key h) h ms"

lemma after_publishing:
  "buf h k i = Some b \<Longrightarrow> length b \<le> chanCap \<Longrightarrow>
   buf (publishAll ms h) k i =
     Some (take chanCap (b @ map fst (filter (\<lambda>(m, key). listens k key) ms)))"
proof (induction ms arbitrary: h b)
  case Nil
  then show ?case by (simp add: publishAll_def)
next
  case (Cons mk ms)
  obtain m key where mk: "mk = (m, key)" by (cases mk)
  define b' where "b' = (if listens k key then trySend m b else b)"
  from Cons.prems mk have "buf (pub m key h) k i = Some b'"
    by (simp add: pub_buf b'_def)
  moreover have "length b' \<le> chanCap" using Cons.prems by (simp add: b'_def trySend_def)
  ultimately have "buf (publishAll ms (pub m key h)) k i =
     Some (take chanCap (b' @ map fst (filter (\<lambda>(m, key). listens k key) ms)))"
    by (rule Cons.IH)
  then show ?case using Cons.prems mk
    by (auto simp: publishAll_def b'_def trySend_def take_Cons')
qed

lemma not_listening:
  "buf h k i = Some b \<Longrightarrow> length b \<le> chanCap \<Longrightarrow> \<forall>(m, key) \<in> set ms. \<not> listens k key \<Longrightarrow>
   buf (publishAll ms h) k i = Some b"
  by (subst after_publishing) (auto simp: filter_empty_conv split: prod.splits)

end

definition eventListens :: "string \<Rightarrow> string \<Rightarrow> bool" where
  "eventListens k key \<longleftrightarrow> k = key \<or> k = []"

interpretation events: pubsub Publish buffer eventListens
  by unfold_locales (auto simp: Publish_def Let_def buffer_deliverTo eventListens_def)

section \<open>Log hubs\<close>

record 'm LogHub = "'m SubHub" +
  history :: "(string \<times> 'm list) list"
  maxLines :: nat
  maxKeys :: int

definition NewLogHub :: "'m LogHub" where
  "NewLogHub = \<lparr>nextID = 0, subs = [], history = [], maxLines = 200, maxKeys = 500\<rparr>"

definition History :: "'m LogHub \<Rightarrow> string \<Rightarrow> 'm list" where
  "History h key = (case map_of (history h) key of None \<Rightarrow> [] | Some l \<Rightarrow> l)"

text \<open>
  The eviction loop of \<open>Append\<close>: the key of the new line is skipped, a key without
  subscribers is deleted, and the loop stops once few enough keys are left.
\<close>

fun evict ::
  "string \<Rightarrow> (string \<Rightarrow> bool) \<Rightarrow> int \<Rightarrow> string list \<Rightarrow> (string \<times> 'm list) list \<Rightarrow> (string \<times> 'm list) list"
where
  "evict cur hasSub mk [] hist = hist"
| "evict cur hasSub mk (key # keys) hist =
    (if key = cur then evict cur hasSub mk keys hist
     else (let hist' = (if hasSub key then hist else adel hist key) in
           if int (length hist') \<le> mk then hist' else evict cur hasSub mk keys hist'))"

definition storeLine :: "string list \<Rightarrow> string \<Rightarrow> 'm list \<Rightarrow> 'm LogHub \<Rightarrow> 'm LogHub" where
  "storeLine order key lines h =
    (let hist = aput (history h) key lines;
         hist' = (if maxKeys h > 0 \<and> int (length hist) > maxKeys h
                  then evict key (\<lambda>k. map_of (subs h) k \<noteq> None) (maxKeys h) order hist
                  else hist)
     in h\<lparr>history := hist'\<rparr>)"

text \<open>\<open>Append\<close> of \<open>internal/tools/logs.go\<close>; \<open>key\<close> is the line's tool call id.\<close>

definition toolLogAppend :: "string list \<Rightarrow> 'm \<Rightarrow> string \<Rightarrow> 'm LogHub \<Rightarrow> 'm LogHub" where
  "toolLogAppend order line key h =
    (let lines = History h key @ [line];
         lines' = (if maxLines h > 0 \<and> length lines > maxLines h
                   then drop (length lines - maxLines h) lines else lines)
     in deliverTo key line (storeLine order key lines' h))"

text \<open>\<open>Append\<close> of \<open>internal/web/events.go\<close>; \<open>key\<close> is the line's execution id.\<close>

definition webLogAppend :: "string list \<Rightarrow> 'm \<Rightarrow> string \<Rightarrow> 'm LogHub \<Rightarrow> 'm LogHub" where
  "webLogAppend order line key h =
    (let lines = History h key @ [line];
         lines' = (if length lines > maxLines h
                   then drop (length lines - maxLines h) lines else lines)
     in deliverTo key line (storeLine order key lines' h))"

lemma storeLine_subs [simp]: "subs (storeLine order key lines h) = subs h"
  and storeLine_max [simp]: "maxLines (storeLine order key lines h) = maxLines h"
    "maxKeys (storeLine order key lines h) = maxKeys h"
  by (simp_all add: storeLine_def Let_def)

lemma deliverTo_history [simp]: "history (deliverTo key m h) = history h"
  and deliverTo_max [simp]: "maxLines (deliverTo key m h) = maxLines h"
    "maxKeys (deliverTo key m h) = maxKeys h"
  by (simp_all add: deliverTo_def split: option.splits)

lemma buffer_storeLine [simp]: "buffer (storeLine order key lines h) = buffer h"
  by (simp add: buffer_def subsOf_def fun_eq_iff)

interpretation tool_logs: pubsub "toolLogAppend order" buffer "\<lambda>k key. k = key" for order
  by unfold_locales (simp add: toolLogAppend_def Let_def buffer_deliverTo)

interpretation web_logs: pubsub "webLogAppend order" buffer "\<lambda>k key. k = key" for order
  by unfold_locales (simp add: webLogAppend_def Let_def buffer_deliverTo)

section \<open>Eviction\<close>

lemma evict_keeps:
  "key = cur \<or> hasSub key \<Longrightarrow> map_of (evict cur hasSub mk keys hist) key = map_of hist key"
  by (induction keys arbitrary: hist) (auto simp: Let_def)

lemma evict_subset: "map_of (evict cur hasSub mk keys hist) key = Some l \<Longrightarrow> map_of hist key = Some l"
proof (induction keys arbitrary: hist)
  case Nil
  then show ?case by simp
next
  case (Cons k keys)
  define hist' where "hist' = (if k = cur \<or> hasSub k then hist else adel hist k)"
  have "evict cur hasSub mk (k # keys) hist \<in> {hist', evict cur hasSub mk keys hist'}"
    by (auto simp: hist'_def Let_def)
  with Cons.prems Cons.IH have "map_of hist' key = Some l" by (metis empty_iff insert_iff)
  then show ?case by (simp add: hist'_def split: if_splits)
qed

lemma evict_bound:
  "int (length (evict cur hasSub mk keys hist)) \<le> mk \<or>
   (\<forall>key \<in> set keys. key = cur \<or> hasSub key \<or>
      map_of (evict cur hasSub mk keys hist) key = None)"
proof (induction keys arbitrary: hist)
  case Nil
  then show ?case by simp
next
  case (Cons key keys)
  show ?case
  proof (cases "key = cur")
    case True
    with Cons [of hist] show ?thesis by simp
  next
    case False
    define hist' where "hist' = (if hasSub key then hist else adel hist key)"
    have step: "evict cur hasSub mk (key # keys) hist =
        (if int (length hist') \<le> mk then hist' else evict cur hasSub mk keys hist')"
      using False by (simp add: hist'_def Let_def)
    have "hasSub key \<or> map_of (evict cur hasSub mk keys hist') key = None"
      using evict_subset [of cur hasSub mk keys hist' key]
      by (cases "map_of (evict cur hasSub mk keys hist') key")
        (auto simp: hist'_def split: if_splits)
    with Cons [of hist'] show ?thesis unfolding step by (auto simp del: evict.simps)
  qed
qed

definition historyBounded :: "'m LogHub \<Rightarrow> bool" where
  "historyBounded h \<longleftrightarrow> (\<forall>key l. map_of (history h) key = Some l \<longrightarrow> length l \<le> maxLines h)"

lemma storeLine_history:
  "map_of (history (storeLine order key lines h)) k = Some l \<Longrightarrow>
   map_of (aput (history h) key lines) k = Some l"
  by (auto simp: storeLine_def Let_def simp del: map_of_aput split: if_splits dest: evict_subset)

lemma storeLine_own: "map_of (history (storeLine order key lines h)) key = Some lines"
  by (simp add: storeLine_def Let_def evict_keeps)

lemma storeLine_bounded:
  "historyBounded h \<Longrightarrow> length lines \<le> maxLines h \<Longrightarrow> historyBounded (storeLine order key lines h)"
  by (auto simp: historyBounded_def dest!: storeLine_history split: if_splits)

lemma historyBounded_deliverTo [simp]: "historyBounded (deliverTo key m h) = historyBounded h"
  by (simp add: historyBounded_def)

lemma toolLogAppend_bounded:
  "historyBounded h \<Longrightarrow> 0 < maxLines h \<Longrightarrow> historyBounded (toolLogAppend order line key h)"
  unfolding toolLogAppend_def Let_def by (auto intro!: storeLine_bounded)

lemma webLogAppend_bounded:
  "historyBounded h \<Longrightarrow> historyBounded (webLogAppend order line key h)"
  unfolding webLogAppend_def Let_def by (auto intro!: storeLine_bounded)

text \<open>The history of a key is the last lines appended to it; that of a key somebody follows is not evicted.\<close>

lemma toolLogAppend_own:
  "0 < maxLines h \<Longrightarrow> History (toolLogAppend order line key h) key =
   drop (Suc (length (History h key)) - maxLines h) (History h key @ [line])"
  by (auto simp: toolLogAppend_def Let_def History_def storeLine_own)

lemma toolLogAppend_followed:
  "k \<noteq> key \<Longrightarrow> map_of (subs h) k \<noteq> None \<Longrightarrow> History (toolLogAppend order line key h) k = History h k"
  by (auto simp: toolLogAppend_def Let_def History_def storeLine_def evict_keeps)

end
