(* ===== verification/Gateway.thy ===== *)
theory Gateway
  imports Store Plan_Constraints Tenancy Hubs
begin

text \<open>
  The gateway server of \<open>internal/web\<close>: its configuration, state, requests and replies, the
  session rules of \<open>session.go\<close>, the policy rules of \<open>policy.go\<close> and \<open>read_policy.go\<close>, the context
  checks of \<open>context_validate.go\<close>, and the helpers of \<open>http.go\<close> that every handler uses.

  A handler is an operation on the gateway's state that either stops with a reply or goes on.
  What the server calls outside (the policy engine, the planner, the diagnostics collector,
  the issue tracker, the workflow engine, SHA-256, the JSON and time parsers) are fields of
  \<open>Server\<close>; \<open>gwIssues\<close> and \<open>gwStarts\<close> record the calls to the tracker and to the workflow engine
  and index their answers.
\<close>

section \<open>Requests, configuration, state\<close>

record Actor =
  ActorID :: string
  ActorEmail :: string
  ActorRoles :: "string list"

record Request =
  rqMethod :: string
  rqPath :: string
  rqHeaders :: "(string \<times> string) list"
  rqQuery :: "(string \<times> string) list"
  rqBody :: string
  rqActor :: "Actor option"

definition getOr :: "(string \<times> string) list \<Rightarrow> string \<Rightarrow> string" where
  "getOr m k = (case map_of m k of None \<Rightarrow> [] | Some v \<Rightarrow> v)"

abbreviation header :: "Request \<Rightarrow> string \<Rightarrow> string" where
  "header r k \<equiv> getOr (rqHeaders r) k"

record DiagnosticEvidence =
  DgType :: string
  DgQuery :: string
  DgResultRef :: string
  DgLink :: string

record Server =
  srvPolicy :: "checker option"
  srvUnmarshal :: "string \<Rightarrow> gval option"
  srvDigest :: "string \<Rightarrow> PlanStep list \<Rightarrow> string"
  srvSHA :: "string \<Rightarrow> string"
  srvStamp :: string
  srvParseTime :: "string \<Rightarrow> nat result"
  srvTime :: TimeEnv
  srvPlanner :: "(string \<Rightarrow> gval \<Rightarrow> DiagnosticEvidence list \<Rightarrow> string result) option"
  srvDiagnostics :: "(ContextRef \<Rightarrow> string \<Rightarrow> gval \<Rightarrow> DiagnosticEvidence list result) option"
  srvApprovals :: "(nat \<Rightarrow> string \<Rightarrow> string result) option"
  srvExecutor :: "(nat \<Rightarrow> string \<Rightarrow> string \<Rightarrow> ContextRef \<Rightarrow> PlanStep list \<Rightarrow> string result) option"
  AutoApproveLow :: bool
  EnableEventLoop :: bool
  EventLoopSources :: "string list"
  SessionRequired :: bool

record Event =
  EvName :: string
  EvSession :: string
  EvData :: gval

record Gateway =
  gwDB :: DB
  gwHub :: "Event SubHub"
  gwIssues :: "string list"
  gwStarts :: "(string \<times> string \<times> ContextRef \<times> PlanStep list) list"

type_synonym reply = "nat \<times> gval"

definition httpError :: "string \<Rightarrow> nat \<Rightarrow> reply" where
  "httpError msg code = (code, GStr msg)"

section \<open>Handlers that may stop\<close>

type_synonym 'a act = "Gateway \<Rightarrow> (reply + 'a) \<times> Gateway"

definition bindH :: "'a act \<Rightarrow> ('a \<Rightarrow> 'b act) \<Rightarrow> 'b act" where
  "bindH m f g = (case m g of (Inl r, g') \<Rightarrow> (Inl r, g') | (Inr x, g') \<Rightarrow> f x g')"

definition okH :: "'a \<Rightarrow> 'a act" where
  "okH x g = (Inr x, g)"

definition stopH :: "reply \<Rightarrow> 'a act" where
  "stopH r g = (Inl r, g)"

definition checkH :: "bool \<Rightarrow> reply \<Rightarrow> unit act" where
  "checkH b r = (if b then okH () else stopH r)"

definition onGwDB :: "(DB, 'a) op \<Rightarrow> Gateway \<Rightarrow> 'a result \<times> Gateway" where
  "onGwDB m g = (let (r, d) = m (gwDB g) in (r, g\<lparr>gwDB := d\<rparr>))"

definition dbH :: "(DB, 'a) op \<Rightarrow> reply \<Rightarrow> 'a act" where
  "dbH m r g = (case onGwDB m g of (Inl e, g') \<Rightarrow> (Inl r, g') | (Inr x, g') \<Rightarrow> (Inr x, g'))"

definition tryDB :: "(DB, 'a) op \<Rightarrow> ('a result) act" where
  "tryDB m g = (let (r, g') = onGwDB m g in (Inr r, g'))"

definition replyOf :: "reply act \<Rightarrow> Gateway \<Rightarrow> reply \<times> Gateway" where
  "replyOf m g = (case m g of (Inl r, g') \<Rightarrow> (r, g') | (Inr r, g') \<Rightarrow> (r, g'))"

section \<open>Contexts\<close>

definition ctxDoc :: "ContextRef \<Rightarrow> gval" where
  "ctxDoc c = GMap
     [(''tenant_id'', GStr (TenantID c)), (''environment'', GStr (Environment c)),
      (''cluster_id'', GStr (ClusterID c)), (''namespace'', GStr (Namespace c)),
      (''aws_account_id'', GStr (AWSAccountID c)), (''region'', GStr (Region c)),
      (''argocd_project'', GStr (ArgoCDProject c)), (''grafana_org_id'', GStr (GrafanaOrgID c))]"

definition stringFromMap :: "gmap \<Rightarrow> string list \<Rightarrow> string" where
  "stringFromMap m keys = (case filter (\<lambda>k. isStr (gget m k)) keys of [] \<Rightarrow> [] | k # _ \<Rightarrow> gstr m k)"

definition webContextFromMap :: "gmap \<Rightarrow> ContextRef" where
  "webContextFromMap m =
     \<lparr>TenantID = stringFromMap m [''tenant_id'', ''tenant'', ''org''],
      Environment = stringFromMap m [''environment'', ''env''],
      ClusterID = stringFromMap m [''cluster_id'', ''cluster''],
      Namespace = stringFromMap m [''namespace''],
      AWSAccountID = stringFromMap m [''aws_account_id'', ''account_id''],
      Region = stringFromMap m [''region''],
      ArgoCDProject = stringFromMap m [''argocd_project'', ''project''],
      GrafanaOrgID = stringFromMap m [''grafana_org_id'', ''grafana_org'']\<rparr>"

definition contextFromHeaders :: "Request \<Rightarrow> ContextRef" where
  "contextFromHeaders r =
     \<lparr>TenantID = TrimSpace (header r ''X-Tenant-Id''), Environment = TrimSpace (header r ''X-Environment''),
      ClusterID = TrimSpace (header r ''X-Cluster-Id''), Namespace = TrimSpace (header r ''X-Namespace''),
      AWSAccountID = TrimSpace (header r ''X-AWS-Account-Id''), Region = TrimSpace (header r ''X-Region''),
      ArgoCDProject = TrimSpace (header r ''X-ArgoCD-Project''),
      GrafanaOrgID = TrimSpace (header r ''X-Grafana-Org-Id'')\<rparr>"

definition hasContextValues :: "ContextRef \<Rightarrow> bool" where
  "hasContextValues c \<longleftrightarrow> c \<noteq> emptyContext"

definition webValidateContextRefStrict :: "ContextRef \<Rightarrow> unit result" where
  "webValidateContextRefStrict ctx =
    (if TrimSpace (TenantID ctx) = [] then Inl ''tenant_id required''
     else if TrimSpace (Environment ctx) = [] then Inl ''environment required''
     else if TrimSpace (ClusterID ctx) = [] then Inl ''cluster_id required''
     else if TrimSpace (Namespace ctx) = [] then Inl ''namespace required''
     else if TrimSpace (AWSAccountID ctx) = [] then Inl ''aws_account_id required''
     else if TrimSpace (Region ctx) = [] then Inl ''region required''
     else if TrimSpace (ArgoCDProject ctx) = [] then Inl ''argocd_project required''
     else if TrimSpace (GrafanaOrgID ctx) = [] then Inl ''grafana_org_id required''
     else Inr ())"

definition validateContextRefTenantOnly :: "ContextRef \<Rightarrow> unit result" where
  "validateContextRefTenantOnly ctx =
    (if TrimSpace (TenantID ctx) = [] then Inl ''tenant_id required'' else Inr ())"

definition validateContextRefMinimal :: "ContextRef \<Rightarrow> unit result" where
  "validateContextRefMinimal ctx =
    (if TrimSpace (TenantID ctx) = [] then Inl ''tenant_id required''
     else if TrimSpace (Environment ctx) = [] then Inl ''environment required''
     else Inr ())"

section \<open>Sessions\<close>

definition sessionIDFromRequest :: "Request \<Rightarrow> string" where
  "sessionIDFromRequest r = TrimSpace (header r ''X-Session-Id'')"

definition sessionFromPlan :: "gmap \<Rightarrow> string" where
  "sessionFromPlan plan = TrimSpace (gstr plan ''session_id'')"

definition enforceSessionMatch :: "Request \<Rightarrow> gmap \<Rightarrow> unit result" where
  "enforceSessionMatch r plan =
    (let planSession = sessionFromPlan plan; reqSession = sessionIDFromRequest r in
     if planSession = [] then Inr ()
     else if reqSession = [] then Inl ''session required''
     else if planSession \<noteq> reqSession then Inl ''session mismatch''
     else Inr ())"

definition requireSession :: "Server \<Rightarrow> Request \<Rightarrow> (DB, string) op" where
  "requireSession s r =
    (if \<not> SessionRequired s then okS []
     else (let sessionID = sessionIDFromRequest r in
       if sessionID = [] then failS ''session required''
       else case rqActor r of
         None \<Rightarrow> okS sessionID
       | Some actor \<Rightarrow>
           if TrimSpace (ActorID actor) = [] then okS sessionID
           else bindS (IsSessionMember sessionID (ActorID actor)) (\<lambda>allowed.
             if allowed then okS sessionID else failS ''session unauthorized'')))"

section \<open>Policy\<close>

definition actorDoc :: "Actor option \<Rightarrow> gval" where
  "actorDoc a =
    (case a of
       None \<Rightarrow> GMap [(''ID'', GStr []), (''Email'', GStr []), (''Roles'', GNil)]
     | Some x \<Rightarrow> GMap [(''ID'', GStr (ActorID x)), (''Email'', GStr (ActorEmail x)),
                       (''Roles'', GStrs (ActorRoles x))])"

text \<open>The rules the gateway puts on top of the checker's answer, in the order of the code.\<close>

definition escalate :: "string \<Rightarrow> string \<Rightarrow> string \<Rightarrow> string \<Rightarrow> string \<Rightarrow> bool \<Rightarrow> string \<Rightarrow> string" where
  "escalate actionType env risk tier blast breakGlass d0 =
    (let d1 = (if d0 = [] then ''allow'' else d0);
         d2 = (if actionType = ''write'' \<and> EqualFold (TrimSpace env) ''prod'' \<and> d1 = ''allow''
               then ''require_approval'' else d1);
         d3 = (if actionType = ''write'' \<and> d2 = ''allow'' \<and> risk \<noteq> ''read'' \<and> risk \<noteq> ''low''
               then ''require_approval'' else d2);
         d4 = (if actionType = ''write'' \<and> blast = ''account'' then ''require_approval'' else d3) in
     if actionType = ''write'' \<and> tier = ''break_glass'' \<and> \<not> breakGlass then ''deny'' else d4)"

definition policyDecision ::
  "Server \<Rightarrow> Request \<Rightarrow> string \<Rightarrow> string \<Rightarrow> ContextRef \<Rightarrow> string \<Rightarrow> int \<Rightarrow> PolicyDecision result" where
  "policyDecision s r actionName actionType ctxRef risk targets =
    (case srvPolicy s of
       None \<Rightarrow> Inr (plainDecision ''allow'')
     | Some checker \<Rightarrow>
        (let tier = tierForRisk risk; blast = blastRadius ctxRef targets;
             breakGlass = breakGlassSet (header r ''X-Break-Glass'') in
         case evaluatorCheck (Some checker)
                \<lparr>InActor = actorDoc (rqActor r), ActionName = actionName, ActionType = actionType,
                 InContext = ctxRef, InBreakGlass = breakGlass, RiskLevel = risk,
                 RiskTargets = targets, BlastRadius = blast, RiskTier = tier, InTime = srvStamp s\<rparr> of
           Inl e \<Rightarrow> if actionType = ''read'' then Inr (plainDecision ''allow'') else Inl e
         | Inr dec \<Rightarrow>
             Inr (dec\<lparr>Decision := escalate actionType (Environment ctxRef) risk tier blast breakGlass
                                    (Decision dec)\<rparr>)))"

definition policyCheck ::
  "Server \<Rightarrow> Request \<Rightarrow> string \<Rightarrow> string \<Rightarrow> ContextRef \<Rightarrow> string \<Rightarrow> int \<Rightarrow> unit result" where
  "policyCheck s r actionName actionType ctxRef risk targets =
     bindR (policyDecision s r actionName actionType ctxRef risk targets) (\<lambda>dec.
       if Decision dec \<noteq> ''allow'' then Inl (''policy decision '' @ Decision dec) else Inr ())"

definition policyCheckRead :: "Server \<Rightarrow> Request \<Rightarrow> string \<Rightarrow> (DB, unit) op" where
  "policyCheckRead s r action =
     bindS (requireSession s r) (\<lambda>_.
     let ctxRef = contextFromHeaders r in
     bindS (tryS (if hasContextValues ctxRef then validateContextRefTenantOnly ctxRef
                  else if SessionRequired s then Inl ''tenant_id required''
                  else Inr ())) (\<lambda>_.
     tryS (policyCheck s r action ''read'' ctxRef ''read'' 0)))"

definition enforceSessionRequired :: "Server \<Rightarrow> Request \<Rightarrow> gmap \<Rightarrow> (DB, unit) op" where
  "enforceSessionRequired s r plan =
     bindS (requireSession s r) (\<lambda>_. tryS (enforceSessionMatch r plan))"

definition planContextRef :: "gmap \<Rightarrow> ContextRef" where
  "planContextRef plan =
    (case gget plan ''context'' of GMap m \<Rightarrow> webContextFromMap m | _ \<Rightarrow> emptyContext)"

definition policyCheckReadPlan :: "Server \<Rightarrow> Request \<Rightarrow> gmap \<Rightarrow> string \<Rightarrow> (DB, ContextRef) op" where
  "policyCheckReadPlan s r plan action =
     bindS (enforceSessionRequired s r plan) (\<lambda>_.
     let ctxRef = planContextRef plan in
     bindS (tryS (validateContextRefTenantOnly ctxRef)) (\<lambda>_.
     bindS (tryS (policyCheck s r action ''read'' ctxRef ''read'' 0)) (\<lambda>_.
     okS ctxRef)))"

definition policyCheckTenantRead :: "Server \<Rightarrow> Request \<Rightarrow> string \<Rightarrow> string \<Rightarrow> (DB, unit) op" where
  "policyCheckTenantRead s r action tenantID =
     bindS (requireSession s r) (\<lambda>_.
     let tenantID = TrimSpace tenantID in
     if tenantID = [] then failS ''tenant_id required''
     else tryS (policyCheck s r action ''read'' (emptyContext\<lparr>TenantID := tenantID\<rparr>) ''read'' 0))"

section \<open>Audit, events, approvals\<close>

definition auditPayloadDoc :: "Server \<Rightarrow> Request \<Rightarrow> string \<Rightarrow> string \<Rightarrow> gval \<Rightarrow> string \<Rightarrow> gmap" where
  "auditPayloadDoc s r action decision ctx note =
     [(''occurred_at'', GStr (srvStamp s)), (''actor'', actorDoc (rqActor r)),
      (''action'', GStr action), (''decision'', GStr decision), (''context'', ctx)]
     @ (if note \<noteq> [] then [(''note'', GStr note)] else [])"

definition auditEvent ::
  "Server \<Rightarrow> Request \<Rightarrow> string \<Rightarrow> string \<Rightarrow> gval \<Rightarrow> string \<Rightarrow> unit act" where
  "auditEvent s r action decision ctx note g =
    (Inr (), snd (onGwDB (InsertAuditEvent (srvParseTime s)
       (Some (GMap (auditPayloadDoc s r action decision ctx note)))) g))"

definition emit :: "string \<Rightarrow> gval \<Rightarrow> string \<Rightarrow> unit act" where
  "emit event data sessionID g =
    (Inr (), g\<lparr>gwHub := Publish \<lparr>EvName = event, EvSession = sessionID, EvData = data\<rparr> sessionID (gwHub g)\<rparr>)"

text \<open>\<open>auditEvent(..., "deny", ...); http.Error(...); return\<close>.\<close>

definition denyH :: "Server \<Rightarrow> Request \<Rightarrow> string \<Rightarrow> gval \<Rightarrow> string \<Rightarrow> reply \<Rightarrow> 'a act" where
  "denyH s r action ctx note rep =
     bindH (auditEvent s r action ''deny'' ctx note) (\<lambda>_. stopH rep)"

definition createApprovalIssue :: "Server \<Rightarrow> string \<Rightarrow> Gateway \<Rightarrow> unit result \<times> Gateway" where
  "createApprovalIssue s planID g =
    (case srvApprovals s of
       None \<Rightarrow> (Inr (), g)
     | Some create \<Rightarrow>
        (bindR (create (length (gwIssues g)) planID) (\<lambda>_. Inr ()), g\<lparr>gwIssues := gwIssues g @ [planID]\<rparr>))"

definition gwCreateApproval :: "Server \<Rightarrow> string \<Rightarrow> bool \<Rightarrow> Gateway \<Rightarrow> string result \<times> Gateway" where
  "gwCreateApproval s planID external g =
    (case onGwDB (CreateApproval planID) g of
       (Inl e, g1) \<Rightarrow> (Inl e, g1)
     | (Inr i, g1) \<Rightarrow>
        if \<not> external then (Inr i, g1)
        else (case createApprovalIssue s planID g1 of
                (Inl e, g2) \<Rightarrow> (Inl e, g2)
              | (Inr _, g2) \<Rightarrow> (Inr i, g2)))"

definition createApprovalH :: "Server \<Rightarrow> string \<Rightarrow> bool \<Rightarrow> reply \<Rightarrow> string act" where
  "createApprovalH s planID external rep g =
    (case gwCreateApproval s planID external g of (Inl e, g') \<Rightarrow> (Inl rep, g') | (Inr i, g') \<Rightarrow> (Inr i, g'))"

definition normalizeApprovalStatus :: "string \<Rightarrow> string option" where
  "normalizeApprovalStatus status =
    (let st = TrimSpace (ToLower status) in
     if st = [] then Some ''pending''
     else if st \<in> {''pending'', ''approved'', ''denied'', ''expired''} then Some st
     else None)"

definition approvalStatus :: "string \<Rightarrow> string \<Rightarrow> (DB, string) op" where
  "approvalStatus planID approvalToken =
    (if TrimSpace planID = [] then failS ''plan id required''
     else (let token = TrimSpace approvalToken in
           if token \<noteq> [] then GetApprovalStatusByToken planID token else GetApprovalStatus planID))"

text \<open>The digest of the intent and of the steps, stages filled in.\<close>

definition ComputePlanHash :: "Server \<Rightarrow> string \<Rightarrow> PlanStep list \<Rightarrow> string" where
  "ComputePlanHash s intent steps =
     srvDigest s intent
       (map (\<lambda>p. if TrimSpace (Stage p) = [] then p\<lparr>Stage := ''act''\<rparr> else p) steps)"

section \<open>Pagination\<close>

definition parsePagination :: "Request \<Rightarrow> int \<times> int" where
  "parsePagination r =
    (let v = getOr (rqQuery r) ''limit'';
         limit = (if v = [] then 50 else (case Atoi v of Some n \<Rightarrow> if n > 0 then n else 50 | None \<Rightarrow> 50));
         limit = (if limit > 200 then 200 else limit);
         v = getOr (rqQuery r) ''offset'';
         offset = (if v = [] then 0 else (case Atoi v of Some n \<Rightarrow> if n \<ge> 0 then n else 0 | None \<Rightarrow> 0)) in
     (limit, offset))"

definition paginatedResponse :: "gval \<Rightarrow> int \<Rightarrow> int \<Rightarrow> nat \<Rightarrow> reply" where
  "paginatedResponse data limit offset n =
     (200, GMap [(''data'', data),
       (''pagination'', GMap [(''limit'', GInt limit), (''offset'', GInt offset), (''total'', GInt (int n))])])"

text \<open>A request body: at most one megabyte.\<close>

definition maxRequestBody :: nat where
  "maxRequestBody = 1048576"

definition decodeBody :: "Server \<Rightarrow> Request \<Rightarrow> gval option" where
  "decodeBody s r =
    (if length (rqBody r) > maxRequestBody then None
     else if rqBody r = [] then None else srvUnmarshal s (rqBody r))"

section \<open>Facts\<close>

lemma web_strict_eq: "webValidateContextRefStrict = validateContextRefStrict"
  by (rule ext) (simp add: webValidateContextRefStrict_def validateContextRefStrict_def bindR_def)

lemma parsePagination_bounds:
  "parsePagination r = (limit, offset) \<Longrightarrow> 1 \<le> limit \<and> limit \<le> 200 \<and> 0 \<le> offset"
  by (auto simp: parsePagination_def Let_def split: if_splits option.splits)

lemma parsePagination_clamped:
  "parsePagination r = (limit, offset) \<Longrightarrow> clampPagination limit offset = (limit, offset)"
  using parsePagination_bounds by (fastforce simp: clampPagination_def Let_def)

text \<open>With a checker, a write that goes through without approval is low risk, outside
  production, of bounded blast radius, and explicitly or implicitly allowed.\<close>

lemma escalate_allow:
  assumes "escalate ''write'' env risk tier blast bg d = ''allow''"
  shows "risk = ''read'' \<or> risk = ''low''" "\<not> EqualFold (TrimSpace env) ''prod''" "blast \<noteq> ''account''"
    "tier = ''break_glass'' \<longrightarrow> bg" "d = [] \<or> d = ''allow''"
  using assms by (simp_all add: escalate_def Let_def split: if_splits)

lemma policyDecision_checked:
  assumes "srvPolicy s = Some checker" "policyDecision s r name ''write'' ctx risk targets = Inr dec"
  obtains inp dec' where "checker inp = Inr dec'" "InContext inp = ctx" "RiskLevel inp = risk"
    "ActionType inp = ''write''" "RiskTargets inp = targets"
    "Decision dec = escalate ''write'' (Environment ctx) risk (tierForRisk risk) (blastRadius ctx targets)
       (breakGlassSet (header r ''X-Break-Glass'')) (Decision dec')"
  using assms by (auto simp: policyDecision_def evaluatorCheck_def Let_def split: sum.splits)

lemma policyDecision_write_allow:
  assumes "srvPolicy s = Some checker"
    and "policyDecision s r name ''write'' ctx risk targets = Inr dec" "Decision dec = ''allow''"
  shows "risk = ''read'' \<or> risk = ''low''" "\<not> EqualFold (TrimSpace (Environment ctx)) ''prod''"
    "targets \<le> 50"
    and "\<exists>inp dec'. checker inp = Inr dec' \<and> InContext inp = ctx \<and> RiskLevel inp = risk \<and>
           ActionType inp = ''write'' \<and> (Decision dec' = [] \<or> Decision dec' = ''allow'')"
proof -
  obtain inp dec' where d: "checker inp = Inr dec'" "InContext inp = ctx" "RiskLevel inp = risk"
    "ActionType inp = ''write''"
    "Decision dec = escalate ''write'' (Environment ctx) risk (tierForRisk risk) (blastRadius ctx targets)
       (breakGlassSet (header r ''X-Break-Glass'')) (Decision dec')"
    using policyDecision_checked [OF assms(1,2)] by metis
  note e = escalate_allow [OF d(5) [unfolded assms(3), symmetric]]
  show "risk = ''read'' \<or> risk = ''low''" "\<not> EqualFold (TrimSpace (Environment ctx)) ''prod''"
    using e by blast+
  show "targets \<le> 50" using e(3) by (auto simp: blastRadius_def split: if_splits)
  show "\<exists>inp dec'. checker inp = Inr dec' \<and> InContext inp = ctx \<and> RiskLevel inp = risk \<and>
           ActionType inp = ''write'' \<and> (Decision dec' = [] \<or> Decision dec' = ''allow'')"
    using d e(5) by blast
qed

lemma policyDecision_high:
  assumes "srvPolicy s = Some checker" "tierForRisk risk = ''break_glass''"
    and "\<not> breakGlassSet (header r ''X-Break-Glass'')"
    and "policyDecision s r name ''write'' ctx risk targets = Inr dec"
  shows "Decision dec = ''deny''"
proof -
  have "escalate ''write'' env risk ''break_glass'' blast False d = ''deny''" for env blast d
    by (simp add: escalate_def Let_def)
  with policyDecision_checked [OF assms(1,4)] assms(2,3) show ?thesis by metis
qed

lemma enforceSessionMatch_ok:
  "enforceSessionMatch r plan = Inr () \<longleftrightarrow>
   sessionFromPlan plan = [] \<or> sessionFromPlan plan = sessionIDFromRequest r"
  by (auto simp: enforceSessionMatch_def Let_def)

end
