(* ===== verification/Plan_Api.thy ===== *)
theory Plan_Api
  imports Gateway
begin

text \<open>
  The handlers of \<open>internal/web/http.go\<close> for plans, approvals, schedules and executions: who may
  create a plan, what is stored, when an execution is created. The server always has a
  database here; the branches for a nil one are left out. A path is the part of the URL after
  the host; \<open>created_at\<close>, which no later step reads, is left out of the stored document.
\<close>

section \<open>Request documents\<close>

record PlanCreateRequest =
  PcSummary :: string
  PcTrigger :: string
  PcContext :: ContextRef
  PcIntent :: string
  PcConstraints :: gval
  PcSessionID :: string

definition anyField :: "gmap \<Rightarrow> string \<Rightarrow> gval" where
  "anyField m k = (case jsonField m k of None \<Rightarrow> GNil | Some v \<Rightarrow> v)"

definition decodePlanCreate :: "gval \<Rightarrow> PlanCreateRequest result" where
  "decodePlanCreate doc =
     bindR (decodeObj doc) (\<lambda>m.
     bindR (decodeStr (jsonField m ''summary'')) (\<lambda>summary.
     bindR (decodeStr (jsonField m ''trigger'')) (\<lambda>trigger.
     bindR (decodeContext (jsonField m ''context'')) (\<lambda>ctx.
     bindR (decodeStr (jsonField m ''intent'')) (\<lambda>intent.
     bindR (decodeStr (jsonField m ''session_id'')) (\<lambda>sid.
       Inr \<lparr>PcSummary = summary, PcTrigger = trigger, PcContext = ctx, PcIntent = intent,
            PcConstraints = anyField m ''constraints'', PcSessionID = sid\<rparr>))))))"

definition bodyH :: "Server \<Rightarrow> Request \<Rightarrow> (gval \<Rightarrow> 'a result) \<Rightarrow> 'a act" where
  "bodyH s r decode =
    (case decodeBody s r of
       None \<Rightarrow> stopH (httpError ''invalid json'' 400)
     | Some doc \<Rightarrow> (case decode doc of Inl _ \<Rightarrow> stopH (httpError ''invalid json'' 400) | Inr x \<Rightarrow> okH x))"

section \<open>The stored plan document\<close>

definition diagDoc :: "DiagnosticEvidence \<Rightarrow> gval" where
  "diagDoc d = GMap [(''type'', GStr (DgType d)), (''query'', GStr (DgQuery d)),
     (''result_ref'', GStr (DgResultRef d)), (''link'', GStr (DgLink d))]"

definition draftDoc :: "planStepDraft \<Rightarrow> gval" where
  "draftDoc d = GMap
     [(''stage'', GStr (DrStage d)), (''action'', GStr (DrAction d)), (''tool'', GStr (DrTool d)),
      (''input'', docOf (DrInput d)), (''preconditions'', docOf (DrPreconditions d)),
      (''rollback'', docOf (DrRollback d))]"

definition constraintsDoc :: "gmap \<Rightarrow> gval" where
  "constraintsDoc m = (if m = [] then GNil else GMap m)"

definition stepsEntry :: "planStepDraft list \<Rightarrow> gmap" where
  "stepsEntry steps = (if steps = [] then [] else [(''steps'', GList (map draftDoc steps))])"

text \<open>What the planner may add: its text and the steps parsed from it.\<close>

definition plannedPart :: "Server \<Rightarrow> string \<Rightarrow> gmap" where
  "plannedPart s planText =
    (if planText = [] then []
     else [(''plan_text'', GStr planText)] @ stepsEntry (parsePlanSteps (srvUnmarshal s) planText))"

definition collectDiagnostics ::
  "Server \<Rightarrow> ContextRef \<Rightarrow> string \<Rightarrow> gval \<Rightarrow> DiagnosticEvidence list" where
  "collectDiagnostics s ctx intent constraints =
    (case srvDiagnostics s of
       None \<Rightarrow> []
     | Some collect \<Rightarrow> (case collect ctx intent constraints of Inl _ \<Rightarrow> [] | Inr ds \<Rightarrow> ds))"

definition planWith ::
  "Server \<Rightarrow> string \<Rightarrow> gval \<Rightarrow> DiagnosticEvidence list \<Rightarrow> string result" where
  "planWith s intent planCtx diags =
    (case srvPlanner s of
       None \<Rightarrow> Inr []
     | Some plan \<Rightarrow> if TrimSpace intent = [] then Inr [] else plan intent planCtx diags)"

text \<open>\<open>switch dec.Decision\<close> of the handlers that create or execute a plan.\<close>

definition decisionH :: "Server \<Rightarrow> Request \<Rightarrow> string \<Rightarrow> string \<Rightarrow> gval \<Rightarrow> PolicyDecision \<Rightarrow> unit act" where
  "decisionH s r action actionType ctx dec =
    (if Decision dec = ''allow'' then okH ()
     else if Decision dec = ''require_approval'' then
       (if actionType \<noteq> ''write''
        then denyH s r action ctx ''approval required'' (httpError ''policy denied'' 403)
        else okH ())
     else denyH s r action ctx (''policy decision '' @ Decision dec) (httpError ''policy denied'' 403))"

section \<open>POST and GET /v1/plans\<close>

definition sessionForPlan :: "Request \<Rightarrow> string \<Rightarrow> string \<Rightarrow> string" where
  "sessionForPlan r reqSession required =
    (let sid = TrimSpace reqSession in
     if sid \<noteq> [] then sid else if required \<noteq> [] then required else sessionIDFromRequest r)"

definition handlePlansPost :: "Server \<Rightarrow> Request \<Rightarrow> reply act" where
  "handlePlansPost s r =
     bindH (dbH (requireSession s r) (httpError ''session denied'' 403)) (\<lambda>required.
     bindH (bodyH s r decodePlanCreate) (\<lambda>req.
     let risk = riskFromIntent (PcIntent req);
         actionType = (if risk \<noteq> ''read'' then ''write'' else ''read'');
         ctx = PcContext req in
     bindH (case validateContextRefMinimal ctx of
              Inl e \<Rightarrow> denyH s r ''plan.create'' (ctxDoc ctx) e (httpError ''invalid context'' 400)
            | Inr _ \<Rightarrow> okH ()) (\<lambda>_.
     bindH (case policyDecision s r ''plan.create'' actionType ctx risk 0 of
              Inl e \<Rightarrow> denyH s r ''plan.create'' (ctxDoc ctx) e (httpError ''policy denied'' 403)
            | Inr dec \<Rightarrow> okH dec) (\<lambda>dec.
     let merged = mergeConstraints (srvUnmarshal s) (PcConstraints req) (Constraints dec) in
     bindH (decisionH s r ''plan.create'' actionType (ctxDoc ctx) dec) (\<lambda>_.
     let sessionID = sessionForPlan r (PcSessionID req) required in
     bindH (checkH (required = [] \<or> sessionID = required) (httpError ''session mismatch'' 403)) (\<lambda>_.
     let diags = collectDiagnostics s ctx (PcIntent req) (PcConstraints req) in
     bindH (case planWith s (PcIntent req)
                (GMap [(''context'', ctxDoc ctx), (''constraints'', PcConstraints req),
                       (''summary'', GStr (PcSummary req)), (''trigger'', GStr (PcTrigger req)),
                       (''session_id'', GStr sessionID)]) diags of
              Inl e \<Rightarrow> denyH s r ''plan.create'' (ctxDoc ctx) e (httpError ''planner error'' 502)
            | Inr text \<Rightarrow> okH text) (\<lambda>planText.
     let plan = [(''trigger'', GStr (PcTrigger req)), (''summary'', GStr (PcSummary req)),
                 (''context'', ctxDoc ctx), (''constraints'', constraintsDoc merged),
                 (''risk_level'', GStr risk), (''intent'', GStr (PcIntent req)),
                 (''session_id'', GStr sessionID)]
                @ (if diags = [] then []
                   else [(''meta'', GMap [(''diagnostics'', GList (map diagDoc diags))])])
                @ plannedPart s planText in
     bindH (dbH (CreatePlan (GMap plan)) (httpError ''db error'' 500)) (\<lambda>planID.
     bindH (if actionType = ''write'' then
              (if risk = ''low'' \<and> AutoApproveLow s \<and> Decision dec \<noteq> ''require_approval'' then
                 bindH (createApprovalH s planID False (httpError ''approval error'' 502)) (\<lambda>approvalID.
                 bindH (dbH (UpdateApprovalStatusByPlan planID ''approved'') (httpError ''db error'' 500)) (\<lambda>_.
                 bindH (tryDB (SetApprovalHash planID (ComputePlanHash s (PcIntent req) []))) (\<lambda>_.
                 auditEvent s r ''approval.auto'' ''allow''
                   (GMap [(''plan_id'', GStr planID), (''approval_id'', GStr approvalID),
                          (''status'', GStr ''approved'')]) [])))
               else bindH (createApprovalH s planID True (httpError ''approval error'' 502)) (\<lambda>_. okH ()))
            else okH ()) (\<lambda>_.
     bindH (auditEvent s r ''plan.create'' ''allow''
              (GMap [(''plan_id'', GStr planID), (''context'', ctxDoc ctx),
                     (''trigger'', GStr (PcTrigger req)), (''intent'', GStr (PcIntent req))]) []) (\<lambda>_.
     bindH (emit ''plan.updated'' (GMap [(''plan_id'', GStr planID)]) sessionID) (\<lambda>_.
     okH (200, GMap [(''plan'', GMap ((''plan_id'', GStr planID) # plan)), (''plan_id'', GStr planID)]))))))))))))"

text \<open>
  In the automatic approval the code passes the drafts it has just parsed to
  \<open>parsePlanStepsPayload\<close>, whose \<open>default\<close> case drops them: the digest is that of no steps.
\<close>

definition handlePlansGet :: "Server \<Rightarrow> Request \<Rightarrow> reply act" where
  "handlePlansGet s r =
    (let tenantID = TrimSpace (header r ''X-Tenant-Id'') in
     bindH (checkH (tenantID \<noteq> []) (httpError ''tenant_id required'' 400)) (\<lambda>_.
     bindH (tryDB (policyCheckTenantRead s r ''plan.list'' tenantID)) (\<lambda>chk.
     bindH (case chk of
              Inl e \<Rightarrow> denyH s r ''plan.list'' (GMap []) e (httpError ''policy denied'' 403)
            | Inr _ \<Rightarrow> okH ()) (\<lambda>_.
     let (limit, offset) = parsePagination r in
     bindH (dbH (ListPlans limit offset) (httpError ''db error'' 500)) (\<lambda>(docs, n).
     case filterJSONByTenantContext (GList docs) tenantID of
       Inl _ \<Rightarrow> stopH (httpError ''encode error'' 500)
     | Inr items \<Rightarrow> okH (paginatedResponse (GList (map GMap items)) limit offset n))))))"

definition handlePlans :: "Server \<Rightarrow> Request \<Rightarrow> reply act" where
  "handlePlans s r =
    (if rqMethod r = ''GET'' then handlePlansGet s r
     else if rqMethod r = ''POST'' then handlePlansPost s r
     else stopH (405, GNil))"

section \<open>/v1/plans/\<close>

definition notFound :: reply where
  "notFound = httpError ''404 page not found'' 404"

definition getPlanH :: "string \<Rightarrow> gmap act" where
  "getPlanH planID =
     bindH (dbH (GetPlan planID) (httpError ''db error'' 500)) (\<lambda>p.
       case p of None \<Rightarrow> stopH notFound | Some plan \<Rightarrow> okH plan)"

definition planRisk :: "gmap \<Rightarrow> string" where
  "planRisk plan =
    (if TrimSpace (gstr plan ''risk_level'') \<noteq> [] then TrimSpace (gstr plan ''risk_level'')
     else ''medium'')"

definition stepsOfPlan :: "Server \<Rightarrow> gmap \<Rightarrow> PlanStep list" where
  "stepsOfPlan s plan =
    (case parsePlanStepsPayload (srvUnmarshal s) (gget plan ''steps'') of Inl _ \<Rightarrow> [] | Inr ps \<Rightarrow> ps)"

definition stepDocWeb :: "PlanStep \<Rightarrow> gval" where
  "stepDocWeb p = GMap
     [(''step_id'', GStr (StepID p)), (''stage'', GStr (Stage p)), (''action'', GStr (StepAction p)),
      (''tool'', GStr (StepTool p)), (''input'', StepInput p), (''preconditions'', Preconditions p),
      (''rollback'', Rollback p)]"

definition handlePlanDiff :: "Server \<Rightarrow> Request \<Rightarrow> string \<Rightarrow> reply act" where
  "handlePlanDiff s r planID =
     bindH (getPlanH planID) (\<lambda>plan.
     bindH (dbH (policyCheckReadPlan s r plan ''plan.diff'') (httpError ''policy denied'' 403)) (\<lambda>_.
     let steps = stepsOfPlan s plan in
     okH (200, GMap [(''plan_id'', GStr planID), (''changes'', GList (map stepDocWeb steps)),
                     (''targets'', GInt (int (estimateTargets steps)))])))"

definition handlePlanRisk :: "Server \<Rightarrow> Request \<Rightarrow> string \<Rightarrow> reply act" where
  "handlePlanRisk s r planID =
     bindH (getPlanH planID) (\<lambda>plan.
     bindH (dbH (policyCheckReadPlan s r plan ''plan.risk'') (httpError ''policy denied'' 403)) (\<lambda>ctxRef.
     let risk = planRisk plan; targets = estimateTargets (stepsOfPlan s plan) in
     okH (200, GMap [(''plan_id'', GStr planID), (''risk_level'', GStr risk),
                     (''tier'', GStr (tierForRisk risk)),
                     (''blast_radius'', GStr (blastRadius ctxRef (int targets))),
                     (''targets'', GInt (int targets))])))"

text \<open>The risk at execution time, and the steps, which the stored plan document never has.\<close>

definition executeRisk :: "gmap \<Rightarrow> string" where
  "executeRisk plan =
    (if TrimSpace (gstr plan ''risk_level'') \<noteq> [] then TrimSpace (gstr plan ''risk_level'')
     else if TrimSpace (gstr plan ''intent'') \<noteq> [] then riskFromIntent (gstr plan ''intent'')
     else ''medium'')"

definition executeSteps :: "Server \<Rightarrow> string \<Rightarrow> gmap \<Rightarrow> PlanStep list act" where
  "executeSteps s planID plan =
    (let steps = stepsOfPlan s plan in
     if steps \<noteq> [] then okH steps
     else bindH (tryDB (ListPlanSteps planID)) (\<lambda>data.
       case data of
         Inl _ \<Rightarrow> okH steps
       | Inr docs \<Rightarrow>
           (case parsePlanStepsJSON (GList docs) of Inl _ \<Rightarrow> okH steps | Inr ps \<Rightarrow> okH ps)))"

definition startExecution ::
  "Server \<Rightarrow> string \<Rightarrow> string \<Rightarrow> ContextRef \<Rightarrow> PlanStep list \<Rightarrow> unit act" where
  "startExecution s planID execID ctxRef steps g =
    (case srvExecutor s of
       None \<Rightarrow> (Inr (), g)
     | Some start \<Rightarrow>
        (let g' = g\<lparr>gwStarts := gwStarts g @ [(planID, execID, ctxRef, steps)]\<rparr> in
         case start (length (gwStarts g)) planID execID ctxRef steps of
           Inl _ \<Rightarrow> (Inr (), g')
         | Inr workflowID \<Rightarrow>
             if workflowID = [] then (Inr (), g')
             else (Inr (), snd (onGwDB (UpdateExecutionWorkflowID execID workflowID) g'))))"

definition decodeExecuteBody :: "Server \<Rightarrow> Request \<Rightarrow> string act" where
  "decodeExecuteBody s r =
    (if rqBody r = [] then okH []
     else bodyH s r (\<lambda>doc. bindR (decodeObj doc) (\<lambda>m.
       bindR (decodeStr (jsonField m ''plan_id'')) (\<lambda>_. decodeStr (jsonField m ''approval_token'')))))"

definition approvalH :: "Server \<Rightarrow> Request \<Rightarrow> string \<Rightarrow> string \<Rightarrow> unit act" where
  "approvalH s r planID token =
    (let ctx = GMap [(''plan_id'', GStr planID)]; rep = httpError ''approval required'' 403 in
     bindH (tryDB (approvalStatus planID token)) (\<lambda>st.
       case st of
         Inl e \<Rightarrow> denyH s r ''plan.execute'' ctx e rep
       | Inr status \<Rightarrow>
           if status \<noteq> ''approved'' then denyH s r ''plan.execute'' ctx ''approval required'' rep
           else okH ()))"

definition hashH :: "Server \<Rightarrow> Request \<Rightarrow> string \<Rightarrow> string \<Rightarrow> PlanStep list \<Rightarrow> unit act" where
  "hashH s r planID intent steps =
     bindH (tryDB (GetApprovalHash planID)) (\<lambda>h.
       case h of
         Inl _ \<Rightarrow> okH ()
       | Inr approvedHash \<Rightarrow>
           if approvedHash \<noteq> [] \<and> ComputePlanHash s intent steps \<noteq> approvedHash
           then denyH s r ''plan.execute'' (GMap [(''plan_id'', GStr planID)])
                  ''plan modified after approval'' (httpError ''plan modified after approval'' 403)
           else okH ())"

text \<open>The checks of \<open>:execute\<close>, up to the test for an active execution.\<close>

definition executeChecks :: "Server \<Rightarrow> Request \<Rightarrow> string \<Rightarrow> (gmap \<times> PlanStep list) act" where
  "executeChecks s r planID =
    (let pctx = GMap [(''plan_id'', GStr planID)] in
     bindH (checkH (TrimSpace planID \<noteq> []) (httpError ''plan id required'' 400)) (\<lambda>_.
     bindH (decodeExecuteBody s r) (\<lambda>token.
     bindH (getPlanH planID) (\<lambda>plan.
     bindH (dbH (requireSession s r) (httpError ''session denied'' 403)) (\<lambda>_.
     bindH (checkH (isOk (enforceSessionMatch r plan)) (httpError ''session denied'' 403)) (\<lambda>_.
     let risk = executeRisk plan;
         actionType = (if risk = ''read'' then ''read'' else ''write'');
         ctxRef = planContextRef plan in
     bindH (case webValidateContextRefStrict ctxRef of
              Inl e \<Rightarrow> denyH s r ''plan.execute'' pctx e (httpError ''invalid context'' 400)
            | Inr _ \<Rightarrow> okH ()) (\<lambda>_.
     let constraints = constraintsFromPlan (srvUnmarshal s) plan in
     bindH (executeSteps s planID plan) (\<lambda>steps.
     bindH (case policyDecision s r ''plan.execute'' actionType ctxRef risk (int (estimateTargets steps)) of
              Inl e \<Rightarrow> denyH s r ''plan.execute'' pctx e (httpError ''policy denied'' 403)
            | Inr dec \<Rightarrow> okH dec) (\<lambda>dec.
     bindH (decisionH s r ''plan.execute'' actionType pctx dec) (\<lambda>_.
     bindH (case enforceConstraints (srvTime s) ctxRef constraints steps actionType of
              Inl e \<Rightarrow> denyH s r ''plan.execute'' pctx e (httpError ''constraints violated'' 403)
            | Inr _ \<Rightarrow> okH ()) (\<lambda>_.
     bindH (if actionType = ''write'' then approvalH s r planID token else okH ()) (\<lambda>_.
     bindH (hashH s r planID (gstr plan ''intent'') steps) (\<lambda>_.
     bindH (dbH (HasActiveExecution planID) (httpError ''db error'' 500)) (\<lambda>active.
     bindH (checkH (\<not> active) (httpError ''execution already in progress'' 409)) (\<lambda>_.
     okH (plan, steps))))))))))))))))"

definition handlePlanExecute :: "Server \<Rightarrow> Request \<Rightarrow> string \<Rightarrow> reply act" where
  "handlePlanExecute s r planID =
     bindH (executeChecks s r planID) (\<lambda>(plan, steps).
     bindH (dbH (CreateExecution planID) (httpError ''db error'' 500)) (\<lambda>execID.
     bindH (startExecution s planID execID (planContextRef plan) steps) (\<lambda>_.
     bindH (auditEvent s r ''plan.execute'' ''allow''
              (GMap [(''plan_id'', GStr planID), (''execution_id'', GStr execID)]) []) (\<lambda>_.
     bindH (emit ''execution.updated''
              (GMap [(''execution_id'', GStr execID), (''plan_id'', GStr planID)]) (sessionFromPlan plan)) (\<lambda>_.
     okH (200, GMap [(''execution_id'', GStr execID)]))))))"

definition handlePlanGet :: "Server \<Rightarrow> Request \<Rightarrow> string \<Rightarrow> reply act" where
  "handlePlanGet s r planID =
     bindH (getPlanH planID) (\<lambda>plan.
     bindH (dbH (policyCheckReadPlan s r plan ''plan.get'') (httpError ''policy denied'' 403)) (\<lambda>_.
     bindH (dbH (ListPlanSteps planID) (httpError ''db error'' 500)) (\<lambda>steps.
     bindH (dbH (ListApprovalsByPlan planID) (httpError ''db error'' 500)) (\<lambda>approvals.
     okH (200, GMap (gputAll plan [(''steps'', GList steps), (''approvals'', GList approvals)]))))))"

definition handlePlanDelete :: "string \<Rightarrow> reply act" where
  "handlePlanDelete planID =
     bindH (dbH (DeletePlan planID) (httpError ''delete failed'' 500)) (\<lambda>_. okH (204, GNil))"

definition hasSuffix :: "string \<Rightarrow> string \<Rightarrow> bool" where
  "hasSuffix s x \<longleftrightarrow> suffix x s"

definition handlePlanByID :: "Server \<Rightarrow> Request \<Rightarrow> reply act" where
  "handlePlanByID s r =
    (let path = rqPath r; base = ''/v1/plans/'' in
     if rqMethod r = ''GET'' \<and> hasSuffix path ''/diff''
     then handlePlanDiff s r (TrimSuffix (TrimPrefix path base) ''/diff'')
     else if rqMethod r = ''GET'' \<and> hasSuffix path ''/risk''
     then handlePlanRisk s r (TrimSuffix (TrimPrefix path base) ''/risk'')
     else if rqMethod r = ''POST'' \<and> hasSuffix path '':execute''
     then handlePlanExecute s r (TrimPrefix (TrimSuffix path '':execute'') base)
     else if rqMethod r = ''GET'' then handlePlanGet s r (TrimPrefix path base)
     else if rqMethod r = ''DELETE'' then handlePlanDelete (TrimPrefix path base)
     else stopH (405, GNil))"

section \<open>/v1/approvals\<close>

definition decodeApproval :: "gval \<Rightarrow> (string \<times> string) result" where
  "decodeApproval doc =
     bindR (decodeObj doc) (\<lambda>m.
     bindR (decodeStr (jsonField m ''plan_id'')) (\<lambda>planID.
     bindR (decodeStr (jsonField m ''approver_note'')) (\<lambda>_.
     bindR (decodeStr (jsonField m ''status'')) (\<lambda>status. Inr (planID, status)))))"

definition recordApprovalHash :: "Server \<Rightarrow> string \<Rightarrow> unit act" where
  "recordApprovalHash s planID =
     bindH (tryDB (GetPlan planID)) (\<lambda>p.
       case p of
         Inr (Some plan) \<Rightarrow>
           bindH (tryDB (SetApprovalHash planID
             (ComputePlanHash s (gstr plan ''intent'') (stepsOfPlan s plan)))) (\<lambda>_. okH ())
       | _ \<Rightarrow> okH ())"

definition handleApprovals :: "Server \<Rightarrow> Request \<Rightarrow> reply act" where
  "handleApprovals s r =
     bindH (checkH (rqMethod r = ''POST'') (405, GNil)) (\<lambda>_.
     bindH (bodyH s r decodeApproval) (\<lambda>(planID, status0).
     bindH (checkH (planID \<noteq> []) (httpError ''plan_id required'' 400)) (\<lambda>_.
     case normalizeApprovalStatus status0 of
       None \<Rightarrow> stopH (httpError ''invalid status'' 400)
     | Some status \<Rightarrow>
     bindH (case policyCheck s r ''approval.create'' ''read'' emptyContext ''read'' 0 of
              Inl e \<Rightarrow> denyH s r ''approval.create''
                        (GMap [(''plan_id'', GStr planID), (''status'', GStr status)]) e
                        (httpError ''policy denied'' 403)
            | Inr _ \<Rightarrow> okH ()) (\<lambda>_.
     bindH (if status = ''pending''
            then createApprovalH s planID True (httpError ''approval error'' 502)
            else
              bindH (dbH (UpdateApprovalStatusByPlan planID status) (httpError ''db error'' 500)) (\<lambda>_.
              bindH (if status = ''approved'' then recordApprovalHash s planID else okH ()) (\<lambda>_.
              okH []))) (\<lambda>approvalID.
     bindH (auditEvent s r ''approval.create'' ''allow''
              (GMap [(''plan_id'', GStr planID), (''status'', GStr status),
                     (''approval_id'', GStr approvalID)]) []) (\<lambda>_.
     okH (200, GMap [(''approval_id'', GStr approvalID), (''status'', GStr status)])))))))"

section \<open>/v1/schedules and /v1/executions\<close>

record ScheduleCreateRequest =
  ScrSummary :: string
  ScrCron :: string
  ScrContext :: ContextRef
  ScrIntent :: string
  ScrConstraints :: gval
  ScrEnabled :: bool

definition decodeScheduleCreate :: "gval \<Rightarrow> ScheduleCreateRequest result" where
  "decodeScheduleCreate doc =
     bindR (decodeObj doc) (\<lambda>m.
     bindR (decodeStr (jsonField m ''summary'')) (\<lambda>summary.
     bindR (decodeStr (jsonField m ''cron'')) (\<lambda>cron.
     bindR (decodeContext (jsonField m ''context'')) (\<lambda>ctx.
     bindR (decodeStr (jsonField m ''intent'')) (\<lambda>intent.
     bindR (decodeBool (jsonField m ''enabled'')) (\<lambda>enabled.
       Inr \<lparr>ScrSummary = summary, ScrCron = cron, ScrContext = ctx,
            ScrIntent = (if TrimSpace intent = [] then summary else intent),
            ScrConstraints = anyField m ''constraints'', ScrEnabled = enabled\<rparr>))))))"

definition handleSchedulesPost :: "Server \<Rightarrow> Request \<Rightarrow> reply act" where
  "handleSchedulesPost s r =
     bindH (bodyH s r decodeScheduleCreate) (\<lambda>req.
     bindH (checkH (TrimSpace (ScrSummary req) \<noteq> []) (httpError ''summary required'' 400)) (\<lambda>_.
     bindH (checkH (TrimSpace (ScrCron req) \<noteq> []) (httpError ''cron required'' 400)) (\<lambda>_.
     let ctx = ScrContext req in
     bindH (case validateContextRefMinimal ctx of
              Inl e \<Rightarrow> denyH s r ''schedule.create'' (ctxDoc ctx) e (httpError ''invalid context'' 400)
            | Inr _ \<Rightarrow> okH ()) (\<lambda>_.
     bindH (case policyDecision s r ''schedule.create'' ''write'' ctx (riskFromIntent (ScrIntent req)) 0 of
              Inl e \<Rightarrow> denyH s r ''schedule.create'' (ctxDoc ctx) e (httpError ''policy denied'' 403)
            | Inr dec \<Rightarrow> okH dec) (\<lambda>dec.
     bindH (if Decision dec \<noteq> ''allow''
            then denyH s r ''schedule.create'' (ctxDoc ctx) (''policy decision '' @ Decision dec)
                   (httpError ''policy denied'' 403)
            else okH ()) (\<lambda>_.
     bindH (dbH (CreateSchedule (GMap
              [(''cron'', GStr (ScrCron req)), (''context'', ctxDoc ctx), (''summary'', GStr (ScrSummary req)),
               (''intent'', GStr (ScrIntent req)), (''constraints'', ScrConstraints req),
               (''trigger'', GStr ''scheduled''), (''enabled'', GBool (ScrEnabled req))]))
            (httpError ''db error'' 500)) (\<lambda>i.
     bindH (auditEvent s r ''schedule.create'' ''allow''
              (GMap [(''schedule_id'', GStr i), (''summary'', GStr (ScrSummary req))]) []) (\<lambda>_.
     okH (200, GMap [(''schedule_id'', GStr i)])))))))))"

definition handleSchedules :: "Server \<Rightarrow> Request \<Rightarrow> reply act" where
  "handleSchedules s r =
    (if rqMethod r = ''POST'' then handleSchedulesPost s r
     else if rqMethod r = ''GET'' then
       (let (limit, offset) = parsePagination r in
        bindH (dbH (ListSchedules limit offset) (httpError ''db error'' 500)) (\<lambda>(docs, n).
        okH (paginatedResponse (GList docs) limit offset n)))
     else stopH (405, GNil))"

definition handleScheduleByID :: "Request \<Rightarrow> reply act" where
  "handleScheduleByID r =
     bindH (checkH (rqMethod r = ''DELETE'') (405, GNil)) (\<lambda>_.
     let scheduleID = TrimPrefix (rqPath r) ''/v1/schedules/'' in
     bindH (checkH (TrimSpace scheduleID \<noteq> []) (httpError ''schedule_id required'' 400)) (\<lambda>_.
     bindH (dbH (DeleteSchedule scheduleID) (httpError ''delete failed'' 500)) (\<lambda>_.
     okH (204, GNil))))"

definition handleExecutions :: "Server \<Rightarrow> Request \<Rightarrow> reply act" where
  "handleExecutions s r =
     bindH (checkH (rqMethod r = ''GET'') (405, GNil)) (\<lambda>_.
     let tenantID = TrimSpace (header r ''X-Tenant-Id'') in
     bindH (checkH (tenantID \<noteq> []) (httpError ''tenant_id required'' 400)) (\<lambda>_.
     bindH (tryDB (policyCheckTenantRead s r ''execution.list'' tenantID)) (\<lambda>chk.
     bindH (case chk of
              Inl e \<Rightarrow> denyH s r ''execution.list'' (GMap []) e (httpError ''policy denied'' 403)
            | Inr _ \<Rightarrow> okH ()) (\<lambda>_.
     let (limit, offset) = parsePagination r in
     bindH (dbH (ListExecutions limit offset) (httpError ''db error'' 500)) (\<lambda>(docs, n).
     okH (paginatedResponse (GList docs) limit offset n))))))"

definition handleExecutionGet :: "Server \<Rightarrow> Request \<Rightarrow> string \<Rightarrow> reply act" where
  "handleExecutionGet s r execID =
     bindH (dbH (GetExecution execID) (httpError ''db error'' 500)) (\<lambda>p.
     case p of
       None \<Rightarrow> stopH notFound
     | Some exec \<Rightarrow>
        bindH (if gstr exec ''plan_id'' = [] then okH ()
               else bindH (tryDB (GetPlan (gstr exec ''plan_id''))) (\<lambda>q.
                 case q of
                   Inr (Some plan) \<Rightarrow>
                     bindH (dbH (policyCheckReadPlan s r plan ''execution.get'')
                              (httpError ''policy denied'' 403)) (\<lambda>_. okH ())
                 | _ \<Rightarrow> okH ())) (\<lambda>_.
        okH (200, GMap exec)))"

definition handleExecutionCancel :: "Server \<Rightarrow> Request \<Rightarrow> string \<Rightarrow> reply act" where
  "handleExecutionCancel s r execID =
    (let ctx = GMap [(''execution_id'', GStr execID)] in
     bindH (case policyCheck s r ''execution.cancel'' ''write'' emptyContext ''low'' 0 of
              Inl e \<Rightarrow> denyH s r ''execution.cancel'' ctx e (httpError ''policy denied'' 403)
            | Inr _ \<Rightarrow> okH ()) (\<lambda>_.
     bindH (tryDB (CancelExecution execID)) (\<lambda>res.
     case res of
       Inl e \<Rightarrow> stopH (if e = noRows then notFound else httpError ''db error'' 500)
     | Inr _ \<Rightarrow>
        bindH (auditEvent s r ''execution.cancel'' ''allow'' ctx []) (\<lambda>_.
        okH (200, GMap [(''execution_id'', GStr execID), (''status'', GStr ''cancelled'')])))))"

section \<open>What the checks of an execution establish\<close>

lemma bindH_Inr: "bindH m f g = (Inr y, g') \<longleftrightarrow> (\<exists>x h. m g = (Inr x, h) \<and> f x h = (Inr y, g'))"
  by (auto simp: bindH_def split: prod.splits sum.splits)

lemma okH_Inr: "okH x g = (Inr y, g') \<longleftrightarrow> y = x \<and> g' = g"
  by (auto simp: okH_def)

lemma stopH_Inr [simp]: "stopH r g \<noteq> (Inr y, g')"
  by (simp add: stopH_def)

lemma denyH_Inr [simp]: "denyH s r a c n rep g \<noteq> (Inr y, g')"
  by (simp add: denyH_def bindH_Inr)

lemma checkH_Inr: "checkH b r g = (Inr y, g') \<longleftrightarrow> b \<and> g' = g"
  by (auto simp: checkH_def okH_Inr)

lemma case_sum_act:
  "(case x of Inl e \<Rightarrow> F e | Inr y \<Rightarrow> G y) g = q \<longleftrightarrow>
   (\<exists>e. x = Inl e \<and> F e g = q) \<or> (\<exists>y. x = Inr y \<and> G y g = q)"
  by (cases x) auto

lemma case_option_act:
  "(case x of None \<Rightarrow> F | Some y \<Rightarrow> G y) g = q \<longleftrightarrow>
   x = None \<and> F g = q \<or> (\<exists>y. x = Some y \<and> G y g = q)"
  by (cases x) auto

text \<open>The content a handler can read: tables, the database's tie-breaking and failures, the calls made.\<close>

definition sameContent :: "Gateway \<Rightarrow> Gateway \<Rightarrow> bool" where
  "sameContent g g' \<longleftrightarrow> tables (gwDB g') = tables (gwDB g) \<and> tieBreak (gwDB g') = tieBreak (gwDB g) \<and>
     connFault (gwDB g') = connFault (gwDB g) \<and> gwStarts g' = gwStarts g \<and> gwIssues g' = gwIssues g"

lemma sameContent_refl [simp]: "sameContent g g"
  by (simp add: sameContent_def)

lemma sameContent_trans: "sameContent g h \<Longrightarrow> sameContent h k \<Longrightarrow> sameContent g k"
  by (simp add: sameContent_def)

lemma dbH_query:
  assumes "dbH (query q) rep g = (Inr x, g')"
  shows "q (tables (gwDB g)) = Inr x" "sameContent g g'"
  using assms
  by (auto simp: dbH_def onGwDB_def query_def Let_def sameContent_def
      split: prod.splits sum.splits option.splits)

lemma tryDB_query:
  assumes "tryDB (query q) g = (Inr x, g')"
  shows "x = q (tables (gwDB g)) \<or> (\<exists>e. x = Inl e)" "sameContent g g'"
  using assms
  by (auto simp: tryDB_def onGwDB_def query_def Let_def sameContent_def
      split: prod.splits sum.splits option.splits)

text \<open>An operation that only reads.\<close>

definition reads :: "(DB, 'a) op \<Rightarrow> bool" where
  "reads m \<longleftrightarrow> (\<forall>d. tables (snd (m d)) = tables d \<and> tieBreak (snd (m d)) = tieBreak d \<and>
     connFault (snd (m d)) = connFault d)"

lemma tryDB_reads: "tryDB m g = (Inr x, g') \<Longrightarrow> reads m \<Longrightarrow> sameContent g g'"
  by (auto simp: tryDB_def onGwDB_def sameContent_def reads_def split: prod.splits) (metis snd_conv)+

lemma dbH_reads: "dbH m rep g = (Inr x, g') \<Longrightarrow> reads m \<Longrightarrow> sameContent g g'"
  by (auto simp: dbH_def onGwDB_def sameContent_def reads_def split: prod.splits sum.splits) (metis snd_conv)+

lemma reads_query: "reads (query q)"
  by (auto simp: reads_def query_def Let_def split: option.splits)

lemma reads_pure: "reads (okS x)" "reads (failS e)" "reads (tryS y)"
  by (simp_all add: reads_def okS_def failS_def tryS_def)

lemma reads_bindS: "reads m \<Longrightarrow> (\<And>x. reads (f x)) \<Longrightarrow> reads (bindS m f)"
  by (auto simp: reads_def bindS_def split: prod.splits sum.splits) (metis snd_conv)+

lemma reads_requireSession: "reads (requireSession s r)"
proof -
  have "reads (IsSessionMember a b)" for a b
    by (simp add: IsSessionMember_def Let_def reads_pure reads_query)
  then show ?thesis
    by (auto simp: requireSession_def Let_def reads_pure split: option.splits
        intro!: reads_bindS)
qed

lemma reads_approval: "reads (approvalStatus p a)" "reads (GetApprovalHash p)"
proof -
  have st: "reads (GetApprovalStatus p)" and h: "reads (GetApprovalHash p)"
    using reads_query
    by (auto simp: reads_def GetApprovalStatus_def GetApprovalHash_def)
  show "reads (approvalStatus p a)"
    using st by (simp add: approvalStatus_def GetApprovalStatusByToken_def Let_def reads_pure reads_query)
  show "reads (GetApprovalHash p)" by (rule h)
qed

definition approvalGiven :: "DB \<Rightarrow> string \<Rightarrow> string \<Rightarrow> bool" where
  "approvalGiven d planID token =
    (if TrimSpace token \<noteq> []
     then \<exists>a\<in>set (approvalsT (tables d)).
            ArPlan a = planID \<and> ArID a = TrimSpace token \<and> ArStatus a = ''approved''
     else (case latestApproval d planID of None \<Rightarrow> False | Some a \<Rightarrow> ArStatus a = ''approved''))"

definition storedHash :: "DB \<Rightarrow> string \<Rightarrow> string" where
  "storedHash d planID =
    (case latestApproval d planID of
       None \<Rightarrow> [] | Some a \<Rightarrow> (case ArHash a of None \<Rightarrow> [] | Some h \<Rightarrow> h))"

lemma latestApproval_content:
  "sameContent g g' \<Longrightarrow> latestApproval (gwDB g') = latestApproval (gwDB g)"
  by (rule ext) (simp add: sameContent_def latestApproval_def Let_def)

lemma approvalStatus_approved:
  "approvalStatus planID token d = (Inr ''approved'', d') \<Longrightarrow> approvalGiven d planID token"
  by (auto simp: approvalStatus_def approvalGiven_def failS_def GetApprovalStatusByToken_def
      GetApprovalStatus_def query_ok find_Some_iff Let_def split: if_splits option.splits)

lemma approvalH_ok:
  assumes "approvalH s r planID token g = (Inr u, g')"
  shows "approvalGiven (gwDB g) planID token" "sameContent g g'"
proof -
  obtain st h where st: "tryDB (approvalStatus planID token) g = (Inr st, h)"
    and ok: "st = Inr ''approved''" "g' = h"
    using assms by (auto simp: approvalH_def bindH_Inr okH_Inr case_sum_act Let_def split: if_splits)
  show "sameContent g g'" using tryDB_reads [OF st reads_approval(1)] ok by simp
  from st ok show "approvalGiven (gwDB g) planID token"
    by (auto simp: tryDB_def onGwDB_def split: prod.splits intro: approvalStatus_approved)
qed

lemma hashH_ok:
  assumes "hashH s r planID intent steps g = (Inr u, g')"
  shows "sameContent g g'"
    and "connFault (gwDB g) = (\<lambda>_. None) \<Longrightarrow>
       storedHash (gwDB g) planID = [] \<or> storedHash (gwDB g) planID = ComputePlanHash s intent steps"
proof -
  obtain h g1 where h: "tryDB (GetApprovalHash planID) g = (Inr h, g1)" and g': "g' = g1"
    and ok: "\<And>x. h = Inr x \<Longrightarrow> x = [] \<or> ComputePlanHash s intent steps = x"
  proof -
    from assms obtain h g1 where h: "tryDB (GetApprovalHash planID) g = (Inr h, g1)"
      and rest: "(case h of
         Inl _ \<Rightarrow> okH ()
       | Inr approvedHash \<Rightarrow>
           if approvedHash \<noteq> [] \<and> ComputePlanHash s intent steps \<noteq> approvedHash
           then denyH s r ''plan.execute'' (GMap [(''plan_id'', GStr planID)])
                  ''plan modified after approval'' (httpError ''plan modified after approval'' 403)
           else okH ()) g1 = (Inr u, g')"
      unfolding hashH_def bindH_Inr by blast
    from rest have "g' = g1 \<and> (\<forall>x. h = Inr x \<longrightarrow> x = [] \<or> ComputePlanHash s intent steps = x)"
      by (cases h) (auto simp: okH_Inr split: if_splits)
    with h show thesis using that by blast
  qed
  show "sameContent g g'" using tryDB_reads [OF h reads_approval(2)] g' by simp
  assume "connFault (gwDB g) = (\<lambda>_. None)"
  with h have "h = (case latestApproval (gwDB g) planID of None \<Rightarrow> Inl noRows
      | Some a \<Rightarrow> Inr (case ArHash a of None \<Rightarrow> [] | Some x \<Rightarrow> x))"
    by (auto simp: tryDB_def onGwDB_def GetApprovalHash_def query_def Let_def)
  with ok show "storedHash (gwDB g) planID = [] \<or> storedHash (gwDB g) planID = ComputePlanHash s intent steps"
    by (auto simp: storedHash_def split: option.splits)
qed

text \<open>The steps an execution is checked against.\<close>

definition webSteps :: "Tables \<Rightarrow> string \<Rightarrow> PlanStep list result" where
  "webSteps t planID =
     parsePlanStepsJSON (GList (map (\<lambda>r. GMap (stepDoc r))
       (sort_key SrID (filter (\<lambda>r. SrPlan r = planID) (stepsT t)))))"

lemma getPlanH_ok:
  assumes "getPlanH planID g = (Inr plan, g')"
  shows "sameContent g g'"
    "\<exists>row. find (\<lambda>r. PrID r = planID) (plansT (tables (gwDB g))) = Some row \<and> plan = planDoc row"
proof -
  obtain p h where p: "dbH (GetPlan planID) (httpError ''db error'' 500) g = (Inr p, h)"
    and "p = Some plan" "g' = h"
    using assms by (auto simp: getPlanH_def bindH_Inr okH_Inr case_option_act)
  then show "sameContent g g'"
    "\<exists>row. find (\<lambda>r. PrID r = planID) (plansT (tables (gwDB g))) = Some row \<and> plan = planDoc row"
    using dbH_query [OF p [unfolded GetPlan_def]] by auto
qed

lemma planDoc_no_steps: "gget (planDoc row) ''steps'' = GNil"
  by (auto simp: planDoc_def optEntry_def gget_def split: option.splits)

lemma executeSteps_ok:
  assumes "executeSteps s planID (planDoc row) g = (Inr steps, g')"
  shows "sameContent g g'"
    and "connFault (gwDB g) = (\<lambda>_. None) \<Longrightarrow>
       steps = (case webSteps (tables (gwDB g)) planID of Inl _ \<Rightarrow> [] | Inr ps \<Rightarrow> ps)"
proof -
  have none: "stepsOfPlan s (planDoc row) = []"
    by (simp add: stepsOfPlan_def planDoc_no_steps parsePlanStepsPayload_def)
  obtain data h where data: "tryDB (ListPlanSteps planID) g = (Inr data, h)" and "g' = h"
    and steps: "steps = (case data of Inl _ \<Rightarrow> []
       | Inr docs \<Rightarrow> (case parsePlanStepsJSON (GList docs) of Inl _ \<Rightarrow> [] | Inr ps \<Rightarrow> ps))"
    using assms none
    by (auto simp: executeSteps_def Let_def bindH_Inr okH_Inr case_sum_act)
  then show "sameContent g g'" using tryDB_reads reads_query by (metis ListPlanSteps_def)
  assume "connFault (gwDB g) = (\<lambda>_. None)"
  with data steps show "steps = (case webSteps (tables (gwDB g)) planID of Inl _ \<Rightarrow> [] | Inr ps \<Rightarrow> ps)"
    by (auto simp: tryDB_def onGwDB_def ListPlanSteps_def query_def webSteps_def Let_def)
qed

lemma decodeExecuteBody_content: "decodeExecuteBody s r g = (Inr token, g') \<Longrightarrow> g' = g"
  by (auto simp: decodeExecuteBody_def bodyH_def okH_Inr case_sum_act case_option_act split: if_splits)

lemma decisionH_ok:
  "decisionH s r a ty c dec g = (Inr u, g') \<Longrightarrow>
   g' = g \<and> (Decision dec = ''allow'' \<or> Decision dec = ''require_approval'' \<and> ty = ''write'')"
  by (auto simp: decisionH_def okH_Inr split: if_splits)

lemma executeChecks_ok:
  assumes "executeChecks s r planID g = (Inr (plan, steps), g')"
  defines "d \<equiv> gwDB g" and "risk \<equiv> executeRisk plan" and "ctx \<equiv> planContextRef plan"
  shows "sameContent g g'"
    and "\<exists>row. find (\<lambda>q. PrID q = planID) (plansT (tables d)) = Some row \<and> plan = planDoc row"
    and "enforceSessionMatch r plan = Inr ()"
    and "validateContextRefStrict ctx = Inr ()"
    and "risk \<noteq> ''read'' \<Longrightarrow> \<exists>token. approvalGiven d planID token"
    and "\<exists>dec. policyDecision s r ''plan.execute'' (if risk = ''read'' then ''read'' else ''write'') ctx risk
           (int (estimateTargets steps)) = Inr dec \<and> Decision dec \<in> {''allow'', ''require_approval''}"
    and "enforceConstraints (srvTime s) ctx (constraintsFromPlan (srvUnmarshal s) plan) steps
           (if risk = ''read'' then ''read'' else ''write'') = Inr ()"
    and "filter (\<lambda>q. ErPlan q = planID \<and> isActive q) (execsT (tables d)) = []"
    and "connFault d = (\<lambda>_. None) \<Longrightarrow>
           steps = (case webSteps (tables d) planID of Inl _ \<Rightarrow> [] | Inr ps \<Rightarrow> ps)"
    and "connFault d = (\<lambda>_. None) \<Longrightarrow> storedHash d planID = [] \<or>
           storedHash d planID = ComputePlanHash s (gstr plan ''intent'') steps"
proof -
  let ?ty = "if risk = ''read'' then ''read'' else ''write''"
  obtain token g0 g1 g2 dec g3 g3' g4 g5 u1 where
    1: "decodeExecuteBody s r g = (Inr token, g0)" "getPlanH planID g0 = (Inr plan, g1)" and
    2: "dbH (requireSession s r) (httpError ''session denied'' 403) g1 = (Inr u1, g2)"
       "isOk (enforceSessionMatch r plan)" "webValidateContextRefStrict ctx = Inr ()" and
    3: "executeSteps s planID plan g2 = (Inr steps, g3)"
       "policyDecision s r ''plan.execute'' ?ty ctx risk (int (estimateTargets steps)) = Inr dec"
       "decisionH s r ''plan.execute'' ?ty (GMap [(''plan_id'', GStr planID)]) dec g3 = (Inr (), g3')"
       "enforceConstraints (srvTime s) ctx (constraintsFromPlan (srvUnmarshal s) plan) steps ?ty = Inr ()" and
    4: "(if ?ty = ''write'' then approvalH s r planID token else okH ()) g3' = (Inr (), g4)" and
    5: "hashH s r planID (gstr plan ''intent'') steps g4 = (Inr (), g5)" and
    6: "dbH (HasActiveExecution planID) (httpError ''db error'' 500) g5 = (Inr False, g')"
    using assms(1)
    by (auto simp: executeChecks_def Let_def bindH_Inr okH_Inr checkH_Inr case_sum_act risk_def ctx_def)
  have [simp]: "g0 = g" "g3' = g3"
    using decodeExecuteBody_content [OF 1(1)] decisionH_ok [OF 3(3)] by simp_all
  obtain row where row: "find (\<lambda>q. PrID q = planID) (plansT (tables d)) = Some row" "plan = planDoc row"
    using getPlanH_ok(2) [OF 1(2)] by (auto simp: d_def)
  have s1: "sameContent g g1" using getPlanH_ok(1) [OF 1(2)] by simp
  have s2: "sameContent g g2"
    using dbH_reads [OF 2(1) reads_requireSession] s1 sameContent_trans by blast
  have s3: "sameContent g g3"
    using executeSteps_ok(1) [OF 3(1) [unfolded row(2)]] s2 sameContent_trans by blast
  have s4: "sameContent g g4"
    using 4 approvalH_ok(2) s3 sameContent_trans by (auto simp: okH_Inr split: if_splits)
  have s5: "sameContent g g5" using hashH_ok(1) [OF 5] s4 sameContent_trans by blast
  show "sameContent g g'"
    using dbH_query(2) [OF 6 [unfolded HasActiveExecution_def]] s5 sameContent_trans by blast
  show "\<exists>row. find (\<lambda>q. PrID q = planID) (plansT (tables d)) = Some row \<and> plan = planDoc row"
    using row by blast
  show "enforceSessionMatch r plan = Inr ()" using 2(2) by (simp add: isOk_iff)
  show "validateContextRefStrict ctx = Inr ()" using 2(3) by (simp add: web_strict_eq)
  show "\<exists>dec. policyDecision s r ''plan.execute'' ?ty ctx risk (int (estimateTargets steps)) = Inr dec \<and>
      Decision dec \<in> {''allow'', ''require_approval''}"
    using 3(2) decisionH_ok [OF 3(3)] by blast
  show "enforceConstraints (srvTime s) ctx (constraintsFromPlan (srvUnmarshal s) plan) steps ?ty = Inr ()"
    by (rule 3(4))
  show "\<exists>token. approvalGiven d planID token" if "risk \<noteq> ''read''"
  proof -
    have "approvalGiven (gwDB g3) planID token" using 4 that approvalH_ok(1) by simp
    then show ?thesis
      using s3 latestApproval_content [OF s3]
      by (auto simp: approvalGiven_def sameContent_def d_def split: if_splits)
  qed
  show "filter (\<lambda>q. ErPlan q = planID \<and> isActive q) (execsT (tables d)) = []"
    using dbH_query(1) [OF 6 [unfolded HasActiveExecution_def]] s5
    by (simp add: sameContent_def d_def)
  show "steps = (case webSteps (tables d) planID of Inl _ \<Rightarrow> [] | Inr ps \<Rightarrow> ps)"
    if "connFault d = (\<lambda>_. None)"
    using executeSteps_ok(2) [OF 3(1) [unfolded row(2)]] s2 that by (simp add: sameContent_def d_def)
  show "storedHash d planID = [] \<or> storedHash d planID = ComputePlanHash s (gstr plan ''intent'') steps"
    if "connFault d = (\<lambda>_. None)"
    using hashH_ok(2) [OF 5] s4 that latestApproval_content [OF s4]
    by (simp add: sameContent_def storedHash_def d_def)
qed

section \<open>A refused request leaves nothing but audit events\<close>

text \<open>Everything but the audit log: the other tables, the issues opened, the workflows started.\<close>

definition beyondAudit :: "Gateway \<Rightarrow> Tables \<times> string list \<times> (string \<times> string \<times> ContextRef \<times> PlanStep list) list" where
  "beyondAudit g = ((tables (gwDB g))\<lparr>auditT := []\<rparr>, gwIssues g, gwStarts g)"

definition onlyAudits :: "'a act \<Rightarrow> bool" where
  "onlyAudits a \<longleftrightarrow> (\<forall>g. beyondAudit (snd (a g)) = beyondAudit g)"

named_theorems audits

lemma onlyAudits_bindH [audits]:
  "onlyAudits m \<Longrightarrow> (\<And>x. onlyAudits (f x)) \<Longrightarrow> onlyAudits (bindH m f)"
  by (auto simp: onlyAudits_def bindH_def split: prod.splits sum.splits) (metis snd_conv)+

lemma onlyAudits_pure [audits]:
  "onlyAudits (okH x)" "onlyAudits (stopH r)" "onlyAudits (checkH b r)"
  by (simp_all add: onlyAudits_def okH_def stopH_def checkH_def)

lemma onlyAudits_dbH [audits]: "reads m \<Longrightarrow> onlyAudits (dbH m rep)"
  by (auto simp: onlyAudits_def dbH_def onGwDB_def reads_def beyondAudit_def split: prod.splits sum.splits)
    (metis snd_conv)+

lemma onlyAudits_tryDB [audits]: "reads m \<Longrightarrow> onlyAudits (tryDB m)"
  by (auto simp: onlyAudits_def tryDB_def onGwDB_def reads_def beyondAudit_def split: prod.splits)
    (metis snd_conv)+

lemma InsertAuditEvent_tables:
  "(tables (snd (InsertAuditEvent pt doc d)))\<lparr>auditT := []\<rparr> = (tables d)\<lparr>auditT := []\<rparr>"
proof -
  have "preserves (\<lambda>d. (tables d)\<lparr>auditT := []\<rparr> = T) (InsertAuditEvent pt doc)" for T
    unfolding InsertAuditEvent_def
    by (intro keeps preserves_execute [where I = "\<lambda>t. t\<lparr>auditT := []\<rparr> = T"]
        preserves_newID [where I = "\<lambda>t. t\<lparr>auditT := []\<rparr> = T"]
        preserves_timeNow [where I = "\<lambda>t. t\<lparr>auditT := []\<rparr> = T"])
      (auto simp: insertAudit_def split: if_splits)
  then show ?thesis by (simp add: preserves_def)
qed

lemma onlyAudits_audit [audits]: "onlyAudits (auditEvent s r a dec c n)" "onlyAudits (denyH s r a c n rep)"
proof -
  show *: "onlyAudits (auditEvent s r a dec c n)" for dec
    using InsertAuditEvent_tables
    by (auto simp: onlyAudits_def auditEvent_def onGwDB_def beyondAudit_def split: prod.splits)
      (metis snd_conv)
  show "onlyAudits (denyH s r a c n rep)"
    unfolding denyH_def by (intro audits *)
qed

lemma onlyAudits_if [audits]: "onlyAudits a \<Longrightarrow> onlyAudits b \<Longrightarrow> onlyAudits (if c then a else b)"
  by simp

lemma onlyAudits_sum [audits]:
  "(\<And>e. onlyAudits (F e)) \<Longrightarrow> (\<And>y. onlyAudits (G y)) \<Longrightarrow> onlyAudits (case x of Inl e \<Rightarrow> F e | Inr y \<Rightarrow> G y)"
  by (cases x) auto

lemma onlyAudits_option [audits]:
  "onlyAudits F \<Longrightarrow> (\<And>y. onlyAudits (G y)) \<Longrightarrow> onlyAudits (case x of None \<Rightarrow> F | Some y \<Rightarrow> G y)"
  by (cases x) auto

lemma reads_named:
  "reads (GetPlan p)" "reads (ListPlanSteps p)" "reads (HasActiveExecution p)"
  by (simp_all add: GetPlan_def ListPlanSteps_def HasActiveExecution_def reads_query)

lemma onlyAudits_executeChecks: "onlyAudits (executeChecks s r planID)"
  unfolding executeChecks_def Let_def decodeExecuteBody_def bodyH_def getPlanH_def executeSteps_def
    decisionH_def approvalH_def hashH_def
  by (intro audits reads_named reads_requireSession reads_approval)

lemma CreateExecution_run:
  assumes "CreateExecution planID d = (res, d')"
  shows "case res of
      Inl e \<Rightarrow> tables d' = tables d
    | Inr x \<Rightarrow> hasPlan planID (tables d) \<and> \<not> hasExec x (tables d) \<and>
        (\<exists>now. tables d' = (tables d)\<lparr>execsT := execsT (tables d) @
           [\<lparr>ErID = x, ErPlan = planID, ErStatus = ''pending'', ErStartedAt = now,
             ErCompletedAt = None, ErWorkflow = None\<rparr>]\<rparr>)"
  using assms
  by (auto simp: CreateExecution_def bindS_def newID_run timeNow_def okS_def execute_def Let_def
      split: option.splits sum.splits if_splits)

lemma bindH_Inl:
  "bindH m f g = (Inl r, g') \<longleftrightarrow> m g = (Inl r, g') \<or> (\<exists>x h. m g = (Inr x, h) \<and> f x h = (Inl r, g'))"
  by (auto simp: bindH_def split: prod.splits sum.splits)

lemma never_stops [simp]:
  "okH y g \<noteq> (Inl r, g')" "emit e d i g \<noteq> (Inl r, g')" "auditEvent s q a dec c n g \<noteq> (Inl r, g')"
  "startExecution s p x ctx ps g \<noteq> (Inl r, g')"
  by (simp_all add: okH_def emit_def auditEvent_def startExecution_def Let_def split: option.splits sum.splits)

lemma dbH_Inr:
  assumes "dbH m rp g = (Inr x, g')"
  obtains d where "m (gwDB g) = (Inr x, d)" "g' = g\<lparr>gwDB := d\<rparr>"
  using assms by (cases "m (gwDB g)") (auto simp: dbH_def onGwDB_def split: sum.splits)

lemma dbH_CreateExecution_Inl:
  "dbH (CreateExecution planID) rp g = (Inl x, g') \<Longrightarrow> beyondAudit g' = beyondAudit g"
  using CreateExecution_run
  by (fastforce simp: dbH_def onGwDB_def beyondAudit_def split: prod.splits sum.splits)

lemma handlePlanExecute_refused:
  assumes "handlePlanExecute s r planID g = (Inl rep, g')"
  shows "beyondAudit g' = beyondAudit g"
proof -
  have checks: "beyondAudit h = beyondAudit g" if "executeChecks s r planID g = (x, h)" for x h
    using onlyAudits_executeChecks that unfolding onlyAudits_def by (metis snd_conv)
  from assms consider "executeChecks s r planID g = (Inl rep, g')"
    | ps h where "executeChecks s r planID g = (Inr ps, h)"
        "dbH (CreateExecution planID) (httpError ''db error'' 500) h = (Inl rep, g')"
    unfolding handlePlanExecute_def by (auto simp: bindH_Inl split: prod.splits)
  then show ?thesis using checks dbH_CreateExecution_Inl by cases metis+
qed

text \<open>An accepted request creates one pending execution, identified in the reply. What an
  execution row says of its plan, without the workflow identifier that starting it fills in.\<close>

definition execKey :: "ExecRow \<Rightarrow> string \<times> string \<times> string" where
  "execKey q = (ErID q, ErPlan q, ErStatus q)"

definition execKeys :: "Gateway \<Rightarrow> (string \<times> string \<times> string) list" where
  "execKeys g = map execKey (execsT (tables (gwDB g)))"

lemma UpdateExecutionWorkflowID_keys:
  "map execKey (execsT (tables (snd (UpdateExecutionWorkflowID x w d)))) = map execKey (execsT (tables d))"
  by (simp add: UpdateExecutionWorkflowID_def execute_def updateExec_def execKey_def Let_def split: option.split)

lemma startExecution_keys: "execKeys (snd (startExecution s p x ctx ps g)) = execKeys g"
  by (simp add: startExecution_def onGwDB_def execKeys_def UpdateExecutionWorkflowID_keys Let_def case_prod_beta
      split: option.split sum.split)

lemma beyondAudit_keys: "beyondAudit g' = beyondAudit g \<Longrightarrow> execKeys g' = execKeys g"
  by (drule arg_cong [where f = "\<lambda>b. map execKey (execsT (fst b))"]) (simp add: beyondAudit_def execKeys_def)

lemma audit_emit_keys:
  "execKeys (snd (auditEvent s r a dec c n g)) = execKeys g" "execKeys (snd (emit e m i g)) = execKeys g"
proof -
  show "execKeys (snd (auditEvent s r a dec c n g)) = execKeys g"
    by (rule beyondAudit_keys) (rule onlyAudits_audit(1) [unfolded onlyAudits_def, rule_format])
  show "execKeys (snd (emit e m i g)) = execKeys g" by (simp add: emit_def execKeys_def)
qed

lemma handlePlanExecute_accepted:
  assumes "handlePlanExecute s r planID g = (Inr rep, g')"
  obtains plan steps h x where
    "executeChecks s r planID g = (Inr (plan, steps), h)"
    "rep = (200, GMap [(''execution_id'', GStr x)])"
    "\<not> hasExec x (tables (gwDB g))"
    "execKeys g' = execKeys g @ [(x, planID, ''pending'')]"
proof -
  from assms obtain plan steps h x h1 h2 h3 where
    c: "executeChecks s r planID g = (Inr (plan, steps), h)" and
    d: "dbH (CreateExecution planID) (httpError ''db error'' 500) h = (Inr x, h1)" and
    st: "startExecution s planID x (planContextRef plan) steps h1 = (Inr (), h2)" and
    au: "auditEvent s r ''plan.execute'' ''allow''
           (GMap [(''plan_id'', GStr planID), (''execution_id'', GStr x)]) [] h2 = (Inr (), h3)" and
    em: "emit ''execution.updated'' (GMap [(''execution_id'', GStr x), (''plan_id'', GStr planID)])
           (sessionFromPlan plan) h3 = (Inr (), g')" and
    rep: "rep = (200, GMap [(''execution_id'', GStr x)])"
    unfolding handlePlanExecute_def by (auto simp: bindH_Inr okH_Inr)
  have same: "tables (gwDB h) = tables (gwDB g)"
    using executeChecks_ok(1) [OF c] by (simp add: sameContent_def)
  from d obtain d1 where d1: "CreateExecution planID (gwDB h) = (Inr x, d1)" "h1 = h\<lparr>gwDB := d1\<rparr>"
    by (rule dbH_Inr)
  have new: "\<not> hasExec x (tables (gwDB g))" "execKeys h1 = execKeys g @ [(x, planID, ''pending'')]"
    using CreateExecution_run [OF d1(1)] d1(2) same by (auto simp: execKeys_def execKey_def)
  have "execKeys g' = execKeys h1"
    using startExecution_keys audit_emit_keys(1) audit_emit_keys(2) st au em by (metis snd_conv)
  then show thesis using that c rep new by metis
qed

end
