(* ===== verification/Tool_Sandbox.thy ===== *)
theory Tool_Sandbox
  imports Tool_Registry
begin

text \<open>
  \<open>internal/tools/sandbox.go\<close> with \<open>proxyEnv\<close> of \<open>egress_proxy.go\<close>: whether a command
  may run, and as which process. The operating system is a parameter (\<open>OSEnv\<close>): whether
  a binary is on the path, what running a process returns (its combined output and its
  error), and the port of a freshly started egress proxy. Go's random map order is the
  order of the association list, about which nothing is assumed.
\<close>

type_synonym outcome = "string \<times> string option"

record OSEnv =
  onPath :: "string \<Rightarrow> bool"
  runProcess :: "string \<Rightarrow> string list \<Rightarrow> (string \<times> string) list \<Rightarrow> outcome"
  proxyPort :: "string list \<Rightarrow> string result"

record Sandbox =
  RunFunc :: "(string list \<Rightarrow> outcome) option"
  Enabled :: bool
  Enforce :: bool
  Runtime :: string
  Image :: string
  Egress :: "string list"
  Mounts :: "string list"
  ReadOnlyRoot :: bool
  Tmpfs :: "string list"
  User :: string
  SeccompProfile :: string
  NoNewPrivs :: bool
  DropCaps :: "string list"
  Env :: "(string \<times> string) list"
  RequireSeccomp :: bool
  RequireNoNewPrivs :: bool
  RequireUser :: bool
  RequireDropCaps :: bool
  RequireOnWrite :: bool
  RequireEgressAllowlist :: bool
  MaxOutputBytes :: int

definition NewSandbox :: Sandbox where
  "NewSandbox = \<lparr>RunFunc = None, Enabled = False, Enforce = True, Runtime = [], Image = [],
     Egress = [], Mounts = [], ReadOnlyRoot = False, Tmpfs = [], User = [], SeccompProfile = [],
     NoNewPrivs = False, DropCaps = [], Env = [], RequireSeccomp = False,
     RequireNoNewPrivs = False, RequireUser = False, RequireDropCaps = False,
     RequireOnWrite = False, RequireEgressAllowlist = False, MaxOutputBytes = 0\<rparr>"

definition NewSandboxPermissive :: Sandbox where
  "NewSandboxPermissive = NewSandbox\<lparr>Enforce := False\<rparr>"

definition NewSandboxWithConfig ::
  "bool \<Rightarrow> string \<Rightarrow> string \<Rightarrow> string list \<Rightarrow> string list \<Rightarrow> Sandbox" where
  "NewSandboxWithConfig enabled runtime img egress mounts =
     NewSandbox\<lparr>Enabled := enabled, Runtime := runtime, Image := img, Egress := egress,
       Mounts := mounts\<rparr>"

section \<open>Environment and output\<close>

definition mergeEnv :: "(string \<times> string) list \<Rightarrow> (string \<times> string) list \<Rightarrow> (string \<times> string) list" where
  "mergeEnv base extra = foldl (\<lambda>acc (k, v). (k, v) # filter (\<lambda>(k', _). k' \<noteq> k) acc) base extra"

definition proxyEnv :: "OSEnv \<Rightarrow> string list \<Rightarrow> string \<Rightarrow> (string \<times> string) list result" where
  "proxyEnv os allowlist runtime =
    (if allowlist = [] then Inr []
     else bindR (proxyPort os allowlist) (\<lambda>port.
       let host = (if EqualFold (TrimSpace runtime) ''podman'' then ''host.containers.internal''
                   else if EqualFold (TrimSpace runtime) ''docker'' then ''host.docker.internal''
                   else ''127.0.0.1'');
           url = ''http://'' @ host @ '':'' @ port
       in Inr [(''HTTP_PROXY'', url), (''HTTPS_PROXY'', url), (''ALL_PROXY'', url)]))"

definition truncatedMark :: string where
  "truncatedMark = ''...(truncated)''"

definition limitOutput :: "Sandbox \<Rightarrow> string \<Rightarrow> string" where
  "limitOutput s output =
    (if MaxOutputBytes s \<le> 0 \<or> int (length output) \<le> MaxOutputBytes s then output
     else take (nat (MaxOutputBytes s)) output @ truncatedMark)"

section \<open>The container command line\<close>

definition flagEach :: "string \<Rightarrow> string list \<Rightarrow> string list" where
  "flagEach flag xs = concat (map (\<lambda>x. [flag, x]) (filter (\<lambda>x. x \<noteq> []) (map TrimSpace xs)))"

definition envArgs :: "(string \<times> string) list \<Rightarrow> string list" where
  "envArgs env = concat (map (\<lambda>(k, v). [''-e'', k @ ''='' @ v]) env)"

definition isolationArgs :: "Sandbox \<Rightarrow> string list" where
  "isolationArgs s =
     [''run'', ''--rm'']
     @ (if ReadOnlyRoot s then [''--read-only''] else [])
     @ flagEach ''--tmpfs'' (if Tmpfs s = [] then [''/tmp''] else Tmpfs s)
     @ (if NoNewPrivs s then [''--security-opt'', ''no-new-privileges''] else [])
     @ (let profile = TrimSpace (SeccompProfile s) in
        if profile \<noteq> [] then [''--security-opt'', ''seccomp='' @ profile] else [])
     @ flagEach ''--cap-drop'' (DropCaps s)
     @ (let user = TrimSpace (User s) in if user \<noteq> [] then [''--user'', user] else [])"

definition networkArgs :: "OSEnv \<Rightarrow> Sandbox \<Rightarrow> string \<Rightarrow> string list result" where
  "networkArgs os s runtime =
    (if Egress s = [] then Inr [''--network=none'']
     else bindR (proxyEnv os (Egress s) runtime) (\<lambda>env.
       Inr (envArgs env
            @ (if EqualFold runtime ''docker''
               then [''--add-host'', ''host.docker.internal:host-gateway''] else []))))"

definition containerArgs :: "OSEnv \<Rightarrow> Sandbox \<Rightarrow> string \<Rightarrow> string list \<Rightarrow> string list result" where
  "containerArgs os s runtime cmd =
    bindR (networkArgs os s runtime) (\<lambda>net.
      Inr (isolationArgs s @ net
           @ envArgs (filter (\<lambda>(k, _). TrimSpace k \<noteq> []) (Env s))
           @ concat (map (\<lambda>m. [''-v'', m]) (filter (\<lambda>m. TrimSpace m \<noteq> []) (Mounts s)))
           @ [Image s] @ cmd))"

definition errNotFound :: string where
  "errNotFound = ''executable file not found in $PATH''"

definition runContainer :: "OSEnv \<Rightarrow> Sandbox \<Rightarrow> string list \<Rightarrow> outcome" where
  "runContainer os s cmd =
    (let runtime = (if TrimSpace (Runtime s) = [] then ''docker'' else TrimSpace (Runtime s)) in
     if \<not> onPath os runtime then ([], Some errNotFound)
     else if cmd = [] then ([], Some errNotFound)
     else (case containerArgs os s runtime cmd of
             Inl e \<Rightarrow> ([], Some e)
           | Inr args \<Rightarrow>
               (let (out, err) = runProcess os runtime args [] in (limitOutput s out, err))))"

section \<open>Run\<close>

text \<open>
  The checks of \<open>Run\<close> before anything is started. The Go method also accepts a nil
  receiver; the router refuses a nil sandbox before calling it.
\<close>

definition sandboxChecks :: "Sandbox \<Rightarrow> unit result" where
  "sandboxChecks s =
    (if Enforce s \<and> \<not> Enabled s then Inl ''sandbox required''
     else if Enforce s then
       (if RequireSeccomp s \<and> TrimSpace (SeccompProfile s) = [] then Inl ''seccomp required''
        else if RequireNoNewPrivs s \<and> \<not> NoNewPrivs s then Inl ''no_new_privs required''
        else if RequireUser s \<and> TrimSpace (User s) = [] then Inl ''user required''
        else if RequireDropCaps s \<and> DropCaps s = [] then Inl ''drop_caps required''
        else if Enabled s then
          (if TrimSpace (SeccompProfile s) = [] then Inl ''seccomp required''
           else if \<not> NoNewPrivs s then Inl ''no_new_privs required''
           else if TrimSpace (User s) = [] then Inl ''user required''
           else if DropCaps s = [] then Inl ''drop_caps required''
           else Inr ())
        else Inr ())
     else Inr ())"

definition runHost :: "OSEnv \<Rightarrow> Sandbox \<Rightarrow> string list \<Rightarrow> outcome" where
  "runHost os s cmd =
    (case (if Egress s \<noteq> [] then proxyEnv os (Egress s) (Runtime s) else Inr []) of
       Inl e \<Rightarrow> ([], Some e)
     | Inr penv \<Rightarrow>
         (let env = mergeEnv (mergeEnv [] penv) (Env s);
              (out, err) = runProcess os (hd cmd) (tl cmd) env
          in (limitOutput s out, err)))"

definition sandboxRun :: "OSEnv \<Rightarrow> Sandbox \<Rightarrow> string list \<Rightarrow> outcome" where
  "sandboxRun os s cmd =
    (case RunFunc s of
       Some f \<Rightarrow> f cmd
     | None \<Rightarrow>
        if cmd = [] then ([], Some errNotFound)
        else (case sandboxChecks s of
                Inl e \<Rightarrow> ([], Some e)
              | Inr _ \<Rightarrow>
                 if Enabled s \<and> Image s \<noteq> [] then runContainer os s cmd
                 else runHost os s cmd))"

section \<open>Facts\<close>

lemma sandboxChecks_enforced:
  "Enforce s \<Longrightarrow> sandboxChecks s = Inr () \<longleftrightarrow>
   Enabled s \<and> TrimSpace (SeccompProfile s) \<noteq> [] \<and> NoNewPrivs s \<and>
   TrimSpace (User s) \<noteq> [] \<and> DropCaps s \<noteq> []"
  by (auto simp: sandboxChecks_def)

lemma limitOutput_length:
  "0 < MaxOutputBytes s \<Longrightarrow>
   int (length (limitOutput s out)) \<le> MaxOutputBytes s + int (length truncatedMark)"
  by (auto simp: limitOutput_def)

lemma limitOutput_short: "int (length out) \<le> MaxOutputBytes s \<Longrightarrow> limitOutput s out = out"
  by (simp add: limitOutput_def)

lemma limitOutput_prefix:
  "0 < MaxOutputBytes s \<Longrightarrow> take (nat (MaxOutputBytes s)) (limitOutput s out) = take (nat (MaxOutputBytes s)) out"
  by (auto simp: limitOutput_def)

lemma containerArgs_shape:
  "containerArgs os s runtime cmd = Inr args \<Longrightarrow>
   \<exists>pre. args = isolationArgs s @ pre @ [Image s] @ cmd"
  by (auto simp: containerArgs_def bindR_eq_Inr)

lemma isolationArgs_hardened:
  assumes "sandboxChecks s = Inr ()" and "Enforce s"
  shows "sublist [''--security-opt'', ''no-new-privileges''] (isolationArgs s)"
    and "sublist [''--security-opt'', ''seccomp='' @ TrimSpace (SeccompProfile s)] (isolationArgs s)"
    and "sublist [''--user'', TrimSpace (User s)] (isolationArgs s)"
proof -
  from assms have h: "NoNewPrivs s" "TrimSpace (SeccompProfile s) \<noteq> []" "TrimSpace (User s) \<noteq> []"
    by (auto simp: sandboxChecks_enforced)
  show "sublist [''--security-opt'', ''no-new-privileges''] (isolationArgs s)"
    unfolding isolationArgs_def
    by (rule sublist_skipL, rule sublist_skipL, rule sublist_skipL, rule sublist_keepL)
      (simp add: h)
  show "sublist [''--security-opt'', ''seccomp='' @ TrimSpace (SeccompProfile s)] (isolationArgs s)"
    unfolding isolationArgs_def Let_def
    by (rule sublist_skipL, rule sublist_skipL, rule sublist_skipL, rule sublist_skipL,
        rule sublist_keepL) (simp add: h)
  show "sublist [''--user'', TrimSpace (User s)] (isolationArgs s)"
    unfolding isolationArgs_def Let_def
    by (rule sublist_skipL, rule sublist_skipL, rule sublist_skipL, rule sublist_skipL,
        rule sublist_skipL, rule sublist_skipL) (simp add: h)
qed

end
