(* ===== verification/Tool_Artifacts.thy ===== *)
theory Tool_Artifacts
  imports Tool_Validate Tool_Sandbox
begin

text \<open>
  \<open>internal/tools/artifacts.go\<close> and \<open>prepareHelmCLIInput\<close> of \<open>helm_values.go\<close>: from an
  artifact reference to its bytes. The hash (\<open>sha256hex\<close>: the lower-case hexadecimal
  SHA-256 digest) and the temporary file (\<open>mkTemp\<close>: its name once created, written and
  closed) are parameters, as is the operating system.
\<close>

definition errUnsupportedArtifact :: string where
  "errUnsupportedArtifact = ''unsupported artifact ref''"

definition errNotImplemented :: string where
  "errNotImplemented = ''artifact resolver not implemented''"

section \<open>References\<close>

definition parseGitRef :: "string \<Rightarrow> (string \<times> string \<times> string) result" where
  "parseGitRef ref =
    (if TrimSpace ref = [] then Inl errInvalidArtifact
     else if strContains ref '':'' then
       (case splitN2 ref '':'' of
          [repoPart, path] \<Rightarrow>
            if path = [] then Inl errInvalidArtifact
            else (case strLastIndexChar repoPart (CHR ''@'') of
                    Some idx \<Rightarrow>
                      (let repo = take idx repoPart; rv = drop (idx + 1) repoPart;
                           repo = (if repo = [] then ''.'' else repo) in
                       if rv = [] then Inl errInvalidArtifact else Inr (repo, rv, path))
                  | None \<Rightarrow> Inr (if repoPart \<noteq> [] then repoPart else ''.'', ''HEAD'', path))
        | _ \<Rightarrow> Inl errInvalidArtifact)
     else Inr (''.'', ''HEAD'', ref))"

definition parseObjectRef :: "string \<Rightarrow> string result" where
  "parseObjectRef ref =
    (let trimmed = TrimSpace ref in
     if trimmed = [] then Inl errInvalidArtifact
     else if prefix ''s3://'' trimmed then Inr trimmed
     else if strContains trimmed ''://'' then Inl errInvalidArtifact
     else Inr (''s3://'' @ TrimPrefix trimmed ''/''))"

definition verifySHA :: "(string \<Rightarrow> string) \<Rightarrow> string \<Rightarrow> string \<Rightarrow> unit result" where
  "verifySHA sha256hex data expected =
    (if TrimSpace expected = [] then Inr ()
     else (let normalized = TrimPrefix (ToLower (TrimSpace expected)) ''sha256:'' in
           if length normalized \<noteq> 64 then Inl errInvalidArtifact
           else if sha256hex data \<noteq> normalized then Inl errInvalidArtifact
           else Inr ()))"

section \<open>Resolution\<close>

definition resolveGitPath :: "OSEnv \<Rightarrow> string \<Rightarrow> string result" where
  "resolveGitPath os ref =
    bindR (parseGitRef ref) (\<lambda>(repo, rv, path).
      if \<not> onPath os ''git'' then Inl errNotImplemented
      else (case runProcess os ''git'' [''-C'', repo, ''show'', rv @ '':'' @ path] [] of
              (out, Some e) \<Rightarrow> Inl (''git show failed: '' @ e @ '': '' @ TrimSpace out)
            | (out, None) \<Rightarrow> Inr out))"

definition resolveObjectStore :: "OSEnv \<Rightarrow> string \<Rightarrow> string result" where
  "resolveObjectStore os ref =
    bindR (parseObjectRef ref) (\<lambda>uri.
      if \<not> onPath os ''aws'' then Inl errNotImplemented
      else (case runProcess os ''aws'' [''s3'', ''cp'', ''--only-show-errors'', uri, ''-''] [] of
              (out, Some e) \<Rightarrow> Inl (''aws s3 cp failed: '' @ e @ '': '' @ TrimSpace out)
            | (out, None) \<Rightarrow> Inr out))"

definition ResolveArtifact :: "OSEnv \<Rightarrow> (string \<Rightarrow> string) \<Rightarrow> ArtifactRef \<Rightarrow> string result" where
  "ResolveArtifact os sha256hex ref =
    (let checked = (\<lambda>data. bindR (verifySHA sha256hex data (ArtSHA ref)) (\<lambda>_. Inr data)) in
     if ArtKind ref = ''git_path'' then bindR (resolveGitPath os (ArtRef ref)) checked
     else if ArtKind ref = ''object_store'' then bindR (resolveObjectStore os (ArtRef ref)) checked
     else if ArtKind ref = ''inline'' then checked (ArtRef ref)
     else Inl errUnsupportedArtifact)"

text \<open>The prepared input and the file the returned clean-up function removes, if any.\<close>

definition prepareHelmCLIInput ::
  "(string \<Rightarrow> gval option) \<Rightarrow> OSEnv \<Rightarrow> (string \<Rightarrow> string) \<Rightarrow> (string \<Rightarrow> string result) \<Rightarrow> gval
   \<Rightarrow> (gmap \<times> string option) result" where
  "prepareHelmCLIInput unm os sha256hex mkTemp input =
    bindR (inputMap unm input) (\<lambda>m.
    bindR (parseArtifactRef (gget m ''values_ref'')) (\<lambda>(ref, given).
      if \<not> given then Inr (m, None)
      else bindR (ResolveArtifact os sha256hex ref) (\<lambda>data.
           bindR (mkTemp data) (\<lambda>file.
             Inr (gput m ''values_file'' (GStr file), Some file)))))"

section \<open>Facts\<close>

lemma verifySHA_ok:
  "verifySHA sha data expected = Inr () \<Longrightarrow> TrimSpace expected \<noteq> [] \<Longrightarrow>
   sha data = TrimPrefix (ToLower (TrimSpace expected)) ''sha256:'' \<and> length (sha data) = 64"
  by (auto simp: verifySHA_def Let_def split: if_splits)

lemma ResolveArtifact_checked:
  "ResolveArtifact os sha ref = Inr data \<Longrightarrow> verifySHA sha data (ArtSHA ref) = Inr ()"
  by (auto simp: ResolveArtifact_def Let_def bindR_eq_Inr split: if_splits)

lemma parseObjectRef_s3: "parseObjectRef ref = Inr uri \<Longrightarrow> prefix ''s3://'' uri"
  by (auto simp: parseObjectRef_def Let_def split: if_splits)

lemma strIndex_char_append:
  "c \<notin> set s \<Longrightarrow> strIndex (s @ c # t) [c] = Some (length s)"
  by (induction s) auto

lemma strLastIndexChar_append:
  assumes "c \<notin> set t"
  shows "strLastIndexChar (s @ c # t) c = Some (length s)"
  using assms by (simp add: strLastIndexChar_def strIndex_char_append)

lemma parseGitRef_qualified:
  assumes "CHR '':'' \<notin> set (repo @ rv)" and "CHR ''@'' \<notin> set rv"
    and "repo \<noteq> []" and "rv \<noteq> []" and "path \<noteq> []"
  shows "parseGitRef (repo @ ''@'' @ rv @ '':'' @ path) = Inr (repo, rv, path)"
proof -
  let ?left = "repo @ ''@'' @ rv" and ?ref = "repo @ ''@'' @ rv @ '':'' @ path"
  have ref: "?ref = ?left @ CHR '':'' # path" by simp
  have colon: "CHR '':'' \<notin> set ?left" using assms(1) by simp
  have idx: "strIndex ?ref '':'' = Some (length ?left)"
    unfolding ref using colon by (rule strIndex_char_append)
  then have has: "strContains ?ref '':''" by (metis option.distinct(1) strIndex_None)
  have "CHR '':'' \<in> set (TrimSpace ?ref)" by (rule TrimSpace_keeps) (simp_all add: solid_def)
  then have "TrimSpace ?ref \<noteq> []" by auto
  moreover have "splitN2 ?ref '':'' = [?left, path]"
    unfolding splitN2_def idx unfolding ref by simp
  moreover have "strLastIndexChar ?left (CHR ''@'') = Some (length repo)"
    using strLastIndexChar_append [of "CHR ''@''" rv repo] assms(2) by simp
  ultimately show ?thesis
    using has assms(3-5) by (simp add: parseGitRef_def)
qed

end
