(* ===== verification/Tool_Api.thy ===== *)
theory Tool_Api
  imports Tool_Validate Tool_Sandbox
begin

text \<open>
  \<open>internal/tools/api_exec.go\<close>: the HTTP fallback of the router, as the request it sends
  through a tool's client, and the egress allow-list of \<open>api_fallbacks.go\<close> and
  \<open>egress_proxy.go\<close>. A client is the parameter \<open>Do\<close> (method, path, body); \<open>urlHost\<close> is
  \<open>url.Parse\<close> followed by \<open>Hostname\<close>, \<open>urlHostPort\<close> the parsed \<open>Host\<close>.
  \<open>url.PathEscape\<close> and the query encoding are written out.
\<close>

type_synonym client = "string \<Rightarrow> string \<Rightarrow> gval \<Rightarrow> outcome"

definition errNoCLI :: string where
  "errNoCLI = ''cli not available''"

section \<open>Escaping\<close>

definition hexDigit :: "nat \<Rightarrow> char" where
  "hexDigit d = (if d < 10 then char_of (48 + d) else char_of (55 + d))"

definition percentEncode :: "char \<Rightarrow> string" where
  "percentEncode c = [CHR ''%'', hexDigit (of_char c div 16), hexDigit (of_char c mod 16)]"

definition unreserved :: "char \<Rightarrow> bool" where
  "unreserved c \<longleftrightarrow>
    (let n = (of_char c :: nat) in
     48 \<le> n \<and> n \<le> 57 \<or> 65 \<le> n \<and> n \<le> 90 \<or> 97 \<le> n \<and> n \<le> 122) \<or> c \<in> set ''-_.~''"

definition PathEscape :: "string \<Rightarrow> string" where
  "PathEscape s =
     concat (map (\<lambda>c. if unreserved c \<or> c \<in> set ''$&+=:@'' then [c] else percentEncode c) s)"

definition QueryEscape :: "string \<Rightarrow> string" where
  "QueryEscape s =
     concat (map (\<lambda>c. if unreserved c then [c] else if c = CHR '' '' then ''+'' else percentEncode c) s)"

text \<open>\<open>url.Values.Encode\<close> of pairs already sorted by key.\<close>

definition encodeValues :: "(string \<times> string) list \<Rightarrow> string" where
  "encodeValues kvs =
     strJoin (map (\<lambda>(k, v). QueryEscape k @ ''='' @ QueryEscape v) kvs) ''&''"

section \<open>Query parameters\<close>

definition stringFieldFromInput :: "(string \<Rightarrow> gval option) \<Rightarrow> gval \<Rightarrow> string \<Rightarrow> string" where
  "stringFieldFromInput unm input key =
    (case inputMap unm input of Inl _ \<Rightarrow> [] | Inr m \<Rightarrow> stringField m key)"

definition thanosQueryParams :: "(string \<Rightarrow> gval option) \<Rightarrow> gval \<Rightarrow> string" where
  "thanosQueryParams unm input =
    (case inputMap unm input of
       Inl _ \<Rightarrow> []
     | Inr m \<Rightarrow> encodeValues
         ((case gget m ''dedup'' of
             GBool b \<Rightarrow> [(''dedup'', if b then ''true'' else ''false'')] | _ \<Rightarrow> [])
          @ (let msr = TrimSpace (gstr m ''max_source_resolution'') in
             if msr = [] then [] else [(''max_source_resolution'', msr)])))"

definition grafanaSearchParams :: "(string \<Rightarrow> gval option) \<Rightarrow> gval \<Rightarrow> string" where
  "grafanaSearchParams unm input =
    (case inputMap unm input of
       Inl _ \<Rightarrow> []
     | Inr m \<Rightarrow> encodeValues
         (map (\<lambda>i. (''folderIds'', showInt i))
              (List.map_filter intFromAnyOK (listOf (gget m ''folder_ids'')))
          @ (let q = TrimSpace (gstr m ''query'') in if q = [] then [] else [(''query'', q)])))"

definition withQuery :: "string \<Rightarrow> string \<Rightarrow> string" where
  "withQuery path q = (if q \<noteq> [] then path @ ''?'' @ q else path)"

section \<open>ExecuteAPI\<close>

text \<open>The request of a tool action: method, path and body; \<open>None\<close> where the code gives up.\<close>

definition apiRequest ::
  "(string \<Rightarrow> gval option) \<Rightarrow> string \<Rightarrow> string \<Rightarrow> gval \<Rightarrow> (string \<times> string \<times> gval) option" where
  "apiRequest unm tool action input =
    (let post = (\<lambda>path. Some (''POST'', path, input));
         field = stringFieldFromInput unm input;
         byID = (\<lambda>key meth pre suf. let v = field key in
           if v = [] then None else Some (meth, pre @ PathEscape v @ suf, GNil)) in
     if tool = ''prometheus'' then
       (if action = ''query'' then post ''/api/v1/query''
        else if action = ''query_range'' then post ''/api/v1/query_range''
        else if action = ''rules'' then Some (''GET'', ''/api/v1/rules'', GNil)
        else if action = ''query_exemplars'' then post ''/api/v1/query_exemplars''
        else None)
     else if tool = ''alertmanager'' then
       (if action = ''alerts_list'' then Some (''GET'', ''/api/v2/alerts'', GNil) else None)
     else if tool = ''thanos'' then
       (if action = ''query'' then post (withQuery ''/api/v1/query'' (thanosQueryParams unm input))
        else if action = ''query_range'' then
          post (withQuery ''/api/v1/query_range'' (thanosQueryParams unm input))
        else None)
     else if tool = ''grafana'' then
       (if action = ''annotate'' then post ''/api/annotations''
        else if action = ''dashboard_get'' then byID ''uid'' ''GET'' ''/api/dashboards/uid/'' []
        else if action = ''dashboard_upsert'' then post ''/api/dashboards/db''
        else if action = ''dashboard_list'' then
          Some (''GET'', withQuery ''/api/search'' (grafanaSearchParams unm input), GNil)
        else if action = ''dashboard_delete'' then byID ''uid'' ''DELETE'' ''/api/dashboards/uid/'' []
        else None)
     else if tool = ''tempo'' then
       (if action = ''query'' \<or> action = ''traceql'' then post ''/api/search''
        else if action = ''trace_by_id'' then byID ''trace_id'' ''GET'' ''/api/v2/traces/'' []
        else None)
     else if tool = ''vault'' then
       (if action = ''login_k8s'' then post ''/v1/auth/kubernetes/login''
        else if action = ''login_approle'' then post ''/v1/auth/approle/login''
        else if action = ''renew'' then post ''/v1/sys/leases/renew''
        else if action = ''revoke'' then post ''/v1/sys/leases/revoke''
        else if action = ''health'' then Some (''GET'', ''/v1/sys/health'', GNil)
        else if action = ''audit_enable'' then
          (let path = field ''path''; typ = field ''type'' in
           Some (''POST'', ''/v1/sys/audit/'' @ PathEscape (if path = [] then ''file'' else path),
             GMap ((''type'', GStr (if typ = [] then ''file'' else typ))
                   # (if path = [] then []
                      else [(''options'', GMap [(''file_path'', GStr path)])]))))
        else if action = ''token_renew'' then
          Some (''POST'', ''/v1/auth/token/renew-self'', GMap [])
        else None)
     else if tool = ''boundary'' then
       (if action = ''authenticate'' then post ''/v1/auth-methods/login''
        else if action = ''session_open'' then post ''/v1/sessions''
        else if action = ''session_close'' then byID ''session_id'' ''POST'' ''/v1/sessions/'' '':cancel''
        else None)
     else if tool = ''argocd'' then
       (if action = ''status'' then byID ''app'' ''GET'' ''/api/v1/applications/'' [] else None)
     else if tool = ''aws'' then
       (if action = ''cloudtrail_lookup_events'' \<or> action = ''cloudtrail-lookup-events'' then
          post ''/cloudtrail/lookup''
        else if action = ''cloudwatch_get_metric_data'' \<or> action = ''cloudwatch-get-metric-data'' then
          post ''/cloudwatch/metric-data''
        else None)
     else if tool = ''linear'' then post ''/graphql''
     else if tool = ''pagerduty'' then post ''/v2/enqueue''
     else None)"

definition ExecuteAPI ::
  "(string \<Rightarrow> gval option) \<Rightarrow> (string \<Rightarrow> client option) \<Rightarrow> string \<Rightarrow> string \<Rightarrow> gval \<Rightarrow> outcome" where
  "ExecuteAPI unm clients tool action input =
    (case clients tool of
       None \<Rightarrow> ([], Some errNoCLI)
     | Some Do \<Rightarrow>
        (case apiRequest unm tool action input of
           None \<Rightarrow> ([], Some errNoCLI)
         | Some (meth, path, body) \<Rightarrow> Do meth path body))"

section \<open>The egress allow-list\<close>

definition allowHost :: "(string \<Rightarrow> string option) \<Rightarrow> string \<Rightarrow> string list \<Rightarrow> bool" where
  "allowHost urlHost baseURL allowlist =
    (case urlHost (TrimSpace baseURL) of
       None \<Rightarrow> False
     | Some host \<Rightarrow>
        host \<noteq> [] \<and>
        list_ex (\<lambda>a. let allowed = TrimSpace a in
          allowed \<noteq> [] \<and>
          (EqualFold host allowed \<or>
           prefix ''*.'' allowed \<and> suffix (TrimPrefix allowed ''*'') host)) allowlist)"

text \<open>\<open>allowHost\<close> of the egress proxy: the raw \<open>Host\<close> header of a proxied request.\<close>

definition proxyAllowHost ::
  "(string \<Rightarrow> string option) \<Rightarrow> (string \<Rightarrow> string) \<Rightarrow> string list \<Rightarrow> string \<Rightarrow> bool" where
  "proxyAllowHost urlHost urlHostPort allowlist raw =
    (let host = TrimSpace raw in
     if host = [] then False
     else (let host = (if strContains host ''://'' then host else ''http://'' @ host) in
           case urlHost host of
             None \<Rightarrow> False
           | Some h \<Rightarrow> h \<noteq> [] \<and> allowHost urlHost (''http://'' @ urlHostPort host) allowlist))"

section \<open>Facts\<close>

lemma hexDigit_unreserved: "d < 16 \<Longrightarrow> unreserved (hexDigit d)"
  by (auto simp: hexDigit_def unreserved_def Let_def)

lemma PathEscape_chars:
  "c \<in> set (PathEscape s) \<Longrightarrow> unreserved c \<or> c \<in> set ''$&+=:@%''"
proof -
  assume "c \<in> set (PathEscape s)"
  then obtain x where
    "c \<in> set (if unreserved x \<or> x \<in> set ''$&+=:@'' then [x] else percentEncode x)"
    unfolding PathEscape_def set_concat set_map by blast
  moreover have "(of_char x :: nat) div 16 < 16"
    using mod_less_divisor [of 256 "of_char x :: nat"] by (simp add: div_less_iff_less_mult)
  ultimately show ?thesis
    by (auto simp: percentEncode_def hexDigit_unreserved split: if_splits)
qed

lemma PathEscape_one_segment: "set (PathEscape s) \<inter> set ''/?#;'' = {}"
proof -
  have "\<not> unreserved c \<and> c \<notin> set ''$&+=:@%''" if "c \<in> set ''/?#;''" for c
    using that by (auto simp: unreserved_def Let_def)
  then show ?thesis using PathEscape_chars by blast
qed

lemma ExecuteAPI_unavailable:
  "clients tool = None \<or> apiRequest unm tool action input = None \<Longrightarrow>
   ExecuteAPI unm clients tool action input = ([], Some errNoCLI)"
  by (auto simp: ExecuteAPI_def split: option.splits)

lemma allowHost_match:
  assumes "allowHost urlHost url allowlist"
  shows "\<exists>host a. urlHost (TrimSpace url) = Some host \<and> host \<noteq> [] \<and> a \<in> set allowlist \<and>
     TrimSpace a \<noteq> [] \<and>
     (EqualFold host (TrimSpace a) \<or>
      (\<exists>dom. TrimSpace a = ''*.'' @ dom \<and> suffix (''.'' @ dom) host))"
proof -
  from assms obtain host a where h: "urlHost (TrimSpace url) = Some host" "host \<noteq> []"
    "a \<in> set allowlist" "TrimSpace a \<noteq> []"
    and m: "EqualFold host (TrimSpace a) \<or>
      prefix ''*.'' (TrimSpace a) \<and> suffix (TrimPrefix (TrimSpace a) ''*'') host"
    by (auto simp: allowHost_def list_ex_iff Let_def split: option.splits)
  have "\<exists>dom. TrimSpace a = ''*.'' @ dom \<and> suffix (''.'' @ dom) host"
    if p: "prefix ''*.'' (TrimSpace a)" and s: "suffix (TrimPrefix (TrimSpace a) ''*'') host"
  proof -
    from p obtain dom where d: "TrimSpace a = ''*.'' @ dom" by (auto simp: prefix_def)
    then have "TrimPrefix (TrimSpace a) ''*'' = ''.'' @ dom" by (simp add: TrimPrefix_def)
    with s d show ?thesis by auto
  qed
  with h m show ?thesis by blast
qed

end
