(* ===== verification/Tool_Router.thy ===== *)
theory Tool_Router
  imports Tool_Policy Tool_Artifacts Tool_Api Hubs
begin

text \<open>
  \<open>Router.Execute\<close> of \<open>internal/tools/router_exec.go\<close>: validation, the sandbox
  requirements, the command line through the sandbox when the CLI is installed, the HTTP
  API otherwise, and the log lines on the way. The router's state is the counter behind
  \<open>newToolCallID\<close> and the log hub. \<open>RouterEnv\<close> holds what the code takes from outside:
  the JSON codec, schemas, operating system, hash, temporary files, HTTP clients, the
  redactor and the clock; \<open>evOrder\<close> is the order in which the hub's history is visited.
\<close>

record LogLine =
  LogToolCallID :: string
  LogExecutionID :: string
  LogTool :: string
  LogAction :: string
  LogLevel :: string
  LogMessage :: string
  LogTimestamp :: int

record ExecuteResponse =
  RespToolCallID :: string
  RespOutput :: string
  RespUsed :: string

record RouterEnv =
  renvUnmarshal :: "string \<Rightarrow> gval option"
  renvMarshal :: "gval \<Rightarrow> string option"
  renvSchema :: SchemaEnv
  renvOS :: OSEnv
  renvSHA :: "string \<Rightarrow> string"
  renvTemp :: "string \<Rightarrow> string result"
  renvClients :: "string \<Rightarrow> client option"
  renvRedact :: "(string \<Rightarrow> string) option"
  renvNow :: int
  evOrder :: "string list"

record RouterState =
  toolCallCounter :: nat
  Logs :: "LogLine LogHub"

definition NewRouter :: RouterState where
  "NewRouter = \<lparr>toolCallCounter = 0, Logs = NewLogHub\<rparr>"

section \<open>Helpers\<close>

text \<open>\<open>atomic.AddUint64\<close> wraps at \<open>2^64\<close>.\<close>

definition newToolCallID :: "RouterState \<Rightarrow> string \<times> RouterState" where
  "newToolCallID st =
    (let n = (toolCallCounter st + 1) mod 2 ^ 64 in
     (''tool_'' @ showNat n, st\<lparr>toolCallCounter := n\<rparr>))"

definition truncateMessage :: "string \<Rightarrow> string" where
  "truncateMessage msg =
    (let msg = TrimSpace msg in
     if length msg \<le> 4096 then msg else take 4096 msg @ ''...'')"

definition redactString :: "(string \<Rightarrow> string) option \<Rightarrow> string \<Rightarrow> string" where
  "redactString r value =
    (case r of None \<Rightarrow> value | Some f \<Rightarrow> if value = [] then value else f value)"

definition appendLog :: "RouterEnv \<Rightarrow> LogLine \<Rightarrow> RouterState \<Rightarrow> RouterState" where
  "appendLog env line st =
     st\<lparr>Logs := toolLogAppend (evOrder env) line (LogToolCallID line) (Logs st)\<rparr>"

definition logLine :: "RouterEnv \<Rightarrow> string \<Rightarrow> ExecuteRequest \<Rightarrow> Tool \<Rightarrow> string \<Rightarrow> string \<Rightarrow> LogLine" where
  "logLine env callID req tool level msg =
     \<lparr>LogToolCallID = callID, LogExecutionID = TrimSpace (ReqExecutionID req),
      LogTool = ToolName tool, LogAction = ReqAction req, LogLevel = level, LogMessage = msg,
      LogTimestamp = renvNow env\<rparr>"

text \<open>The line after a run: the redacted and truncated output, or the error.\<close>

definition resultLine :: "RouterEnv \<Rightarrow> string \<Rightarrow> ExecuteRequest \<Rightarrow> Tool \<Rightarrow> outcome \<Rightarrow> LogLine" where
  "resultLine env callID req tool res =
    (case res of
       (out, None) \<Rightarrow>
         logLine env callID req tool ''info'' (truncateMessage (redactString (renvRedact env) out))
     | (out, Some e) \<Rightarrow>
         logLine env callID req tool ''error'' (truncateMessage (redactString (renvRedact env) e)))"

section \<open>Execute\<close>

type_synonym execResult = "ExecuteResponse \<times> string option"

definition respond :: "string \<Rightarrow> string \<Rightarrow> string \<Rightarrow> ExecuteResponse" where
  "respond callID out used = \<lparr>RespToolCallID = callID, RespOutput = out, RespUsed = used\<rparr>"

definition sandboxRequirements :: "Sandbox \<Rightarrow> string \<Rightarrow> unit result" where
  "sandboxRequirements sb actionType =
    (if RequireOnWrite sb \<and> actionType = ''write'' \<and> \<not> Enabled sb
     then Inl ''sandbox required for write''
     else if RequireEgressAllowlist sb \<and> Egress sb = [] then Inl ''egress allowlist required''
     else if RequireEgressAllowlist sb \<and> \<not> Enabled sb then Inl ''sandbox required for egress''
     else Inr ())"

text \<open>The input of the command builder: only a Helm upgrade is prepared.\<close>

definition cliInput :: "RouterEnv \<Rightarrow> Tool \<Rightarrow> ExecuteRequest \<Rightarrow> gval result" where
  "cliInput env tool req =
    (if ToolName tool = ''helm'' \<and> ReqAction req = ''upgrade'' then
       bindR (prepareHelmCLIInput (renvUnmarshal env) (renvOS env) (renvSHA env) (renvTemp env)
                (ReqInput req)) (\<lambda>(m, _). Inr (GMap m))
     else Inr (ReqInput req))"

definition runCLI ::
  "RouterEnv \<Rightarrow> Sandbox \<Rightarrow> string \<Rightarrow> Tool \<Rightarrow> ExecuteRequest \<Rightarrow> RouterState \<Rightarrow> execResult \<times> RouterState" where
  "runCLI env sb callID tool req st =
    (case cliInput env tool req of
       Inl e \<Rightarrow> ((respond [] [] [], Some e), st)
     | Inr input \<Rightarrow>
        (let cmd = buildCmd (renvMarshal env) (ToolName tool) (ReqAction req) input in
         case ValidateToolArgs cmd of
           Inl e \<Rightarrow> ((respond callID [] [], Some e), st)
         | Inr _ \<Rightarrow>
            (let (out, err) = sandboxRun (renvOS env) sb cmd;
                 st' = appendLog env (resultLine env callID req tool (out, err)) st
             in ((respond callID (limitOutput sb out) ''cli'', err), st'))))"

definition runAPI ::
  "RouterEnv \<Rightarrow> Sandbox \<Rightarrow> string \<Rightarrow> Tool \<Rightarrow> ExecuteRequest \<Rightarrow> RouterState \<Rightarrow> execResult \<times> RouterState" where
  "runAPI env sb callID tool req st =
    (let (raw, err) = ExecuteAPI (renvUnmarshal env) (renvClients env) (ToolName tool)
                        (ReqAction req) (ReqInput req);
         out = limitOutput sb raw;
         st' = appendLog env (resultLine env callID req tool (out, err)) st
     in ((respond callID out ''api'', err), st'))"

definition Execute ::
  "RouterEnv \<Rightarrow> Sandbox option \<Rightarrow> ExecuteRequest \<Rightarrow> RouterState \<Rightarrow> execResult \<times> RouterState" where
  "Execute env sandbox req st =
    (let (callID, st) = (if TrimSpace (ReqToolCallID req) = [] then newToolCallID st
                         else (TrimSpace (ReqToolCallID req), st)) in
     case sandbox of
       None \<Rightarrow> ((respond callID [] [], Some ''sandbox required''), st)
     | Some sb \<Rightarrow>
        (case validateExecuteRequest (renvSchema env) (renvUnmarshal env) req of
           Inl e \<Rightarrow> ((respond callID [] [], Some e), st)
         | Inr tool \<Rightarrow>
            (case sandboxRequirements sb (actionTypeForTool (ToolName tool) (ReqAction req)) of
               Inl e \<Rightarrow> ((respond callID [] [], Some e), st)
             | Inr _ \<Rightarrow>
                (let st = appendLog env (logLine env callID req tool ''info'' ''execute start'') st in
                 if CLI tool \<noteq> [] \<and> onPath (renvOS env) (CLI tool) then
                   runCLI env sb callID tool req st
                 else if SupportsAPI tool then runAPI env sb callID tool req st
                 else ((respond callID [] [], Some errNoCLI), st)))))"

section \<open>What reaches the sandbox\<close>

text \<open>The command a request hands to \<open>sandbox.Run\<close>, if it gets that far.\<close>

definition sandboxCommand :: "RouterEnv \<Rightarrow> Sandbox \<Rightarrow> ExecuteRequest \<Rightarrow> string list option" where
  "sandboxCommand env sb req =
    (case validateExecuteRequest (renvSchema env) (renvUnmarshal env) req of
       Inl e \<Rightarrow> None
     | Inr tool \<Rightarrow>
        if isOk (sandboxRequirements sb (actionTypeForTool (ToolName tool) (ReqAction req)))
           \<and> CLI tool \<noteq> [] \<and> onPath (renvOS env) (CLI tool)
        then (case cliInput env tool req of
                Inl e \<Rightarrow> None
              | Inr input \<Rightarrow>
                 (let cmd = buildCmd (renvMarshal env) (ToolName tool) (ReqAction req) input in
                  if isOk (ValidateToolArgs cmd) then Some cmd else None))
        else None)"

text \<open>\<open>Execute\<close> depends on the sandbox only through the output of that one command.\<close>

lemma Execute_cli:
  assumes "sandboxCommand env sb req = Some cmd"
  shows "RespUsed (fst (fst (Execute env (Some sb) req st))) = ''cli''"
    and "RespOutput (fst (fst (Execute env (Some sb) req st)))
          = limitOutput sb (fst (sandboxRun (renvOS env) sb cmd))"
    and "snd (fst (Execute env (Some sb) req st)) = snd (sandboxRun (renvOS env) sb cmd)"
  using assms
  by (auto simp: sandboxCommand_def Execute_def runCLI_def Let_def respond_def isOk_iff
      split: sum.splits if_splits prod.splits)

lemma Execute_no_cli:
  assumes "sandboxCommand env sb req = None"
  shows "RespUsed (fst (fst (Execute env (Some sb) req st))) \<noteq> ''cli''"
  using assms
  by (auto simp: sandboxCommand_def Execute_def runCLI_def runAPI_def Let_def respond_def isOk_iff
      split: sum.splits if_splits prod.splits)

lemma sandboxCommand_safe:
  assumes "sandboxCommand env sb req = Some cmd"
  shows "\<exists>tool args. findTool (TrimSpace (ReqTool req)) = Some tool \<and> CLI tool \<noteq> [] \<and>
     cmd = CLI tool # args \<and> list_all safeArg args"
proof -
  from assms obtain tool input where
    v: "validateExecuteRequest (renvSchema env) (renvUnmarshal env) req = Inr tool"
    and cli: "CLI tool \<noteq> []"
    and cmd: "cmd = buildCmd (renvMarshal env) (ToolName tool) (ReqAction req) input"
    and ok: "ValidateToolArgs cmd = Inr ()"
    by (auto simp: sandboxCommand_def Let_def isOk_iff split: sum.splits if_splits)
  note t = validateExecuteRequest_ok [OF v]
  from t(1) cli have "arg_builder (buildCmd (renvMarshal env) (ToolName tool)) (CLI tool)"
    by (rule buildCmd_arg_builder)
  from arg_builder.validated_safe [OF this] ok obtain args
    where "cmd = CLI tool # args" "list_all safeArg args"
    unfolding cmd by blast
  moreover have "findTool (TrimSpace (ReqTool req)) = Some tool"
    using findTool_registered [OF t(1)] t(2) by simp
  ultimately show ?thesis using cli by blast
qed

lemma truncateMessage_length: "length (truncateMessage m) \<le> 4099"
  by (simp add: truncateMessage_def Let_def)

end
