(* ===== verification/Executor.thy ===== *)
theory Executor
  imports Store Tool_Router
begin

text \<open>
  \<open>internal/workflows/executor.go\<close> with \<open>stages.go\<close>, \<open>context.go\<close> and \<open>runtime.go\<close>: the
  worker that takes pending executions from the store, runs the act steps and the verify
  steps of their plans through the tool router, records tool calls and evidence, and rolls
  back on failure. The world is the database, the router's state, the number of blob
  operations, and \<open>xCalls\<close>, the requests handed to \<open>Router.Execute\<close> so far, in order (an
  observation: no definition reads anything but its length, which indexes the environment, so
  that the outcome of a tool may differ from call to call).

  The store behind \<open>ExecutionStore\<close> is \<open>Store\<close>. The object store, the clock text and its
  parser, and the environment of the router are parameters. Time-outs of a step appear as
  errors of its environment.
\<close>

record BlobStore =
  blobPut :: "nat \<Rightarrow> string \<Rightarrow> string \<Rightarrow> string result"
  blobPresign :: "nat \<Rightarrow> string \<Rightarrow> string result"

record Runtime =
  rtRouter :: bool
  rtSandbox :: "Sandbox option"
  rtRedactor :: "(string \<Rightarrow> string) option"

record Executor =
  exRuntime :: "Runtime option"
  exObjects :: "BlobStore option"
  exMaxBatch :: int
  exEnv :: "nat \<Rightarrow> RouterEnv"
  exMarshal :: "gval \<Rightarrow> string result"
  exUnmarshal :: "string \<Rightarrow> gval option"
  exStamp :: string
  exParseTime :: "string \<Rightarrow> nat result"

record World =
  xDB :: DB
  xRouter :: RouterState
  xBlobOps :: nat
  xCalls :: "ExecuteRequest list"

definition onDB :: "(DB, 'a) op \<Rightarrow> (World, 'a) op" where
  "onDB m w = (let (r, d) = m (xDB w) in (r, w\<lparr>xDB := d\<rparr>))"

section \<open>Stages and contexts\<close>

definition isVerifyStage :: "string \<Rightarrow> bool" where
  "isVerifyStage stage \<longleftrightarrow> ToLower (TrimSpace stage) = ''verify''"

definition splitStepsByStage :: "PlanStep list \<Rightarrow> PlanStep list \<times> PlanStep list" where
  "splitStepsByStage steps =
     foldl (\<lambda>(act, verify) step.
        if isVerifyStage (Stage step) then (act, verify @ [step]) else (act @ [step], verify))
       ([], []) steps"

definition contextFromMap :: "gmap \<Rightarrow> ContextRef" where
  "contextFromMap values =
     \<lparr>TenantID = gstr values ''tenant_id'', Environment = gstr values ''environment'',
      ClusterID = gstr values ''cluster_id'', Namespace = gstr values ''namespace'',
      AWSAccountID = gstr values ''aws_account_id'', Region = gstr values ''region'',
      ArgoCDProject = gstr values ''argocd_project'', GrafanaOrgID = gstr values ''grafana_org_id''\<rparr>"

definition loadContext :: "string \<Rightarrow> (World, ContextRef) op" where
  "loadContext planID =
     bindS (onDB (GetPlan planID)) (\<lambda>data.
       case data of
         None \<Rightarrow> okS emptyContext
       | Some payload \<Rightarrow> okS (contextFromMap (mapOf (gget payload ''context''))))"

definition decodeStep :: "gval \<Rightarrow> PlanStep result" where
  "decodeStep v =
     bindR (decodeObj v) (\<lambda>m.
     bindR (decodeStr (jsonField m ''step_id'')) (\<lambda>i.
     bindR (decodeStr (jsonField m ''stage'')) (\<lambda>stage.
     bindR (decodeStr (jsonField m ''action'')) (\<lambda>action.
     bindR (decodeStr (jsonField m ''tool'')) (\<lambda>tool.
       Inr \<lparr>StepID = i, Stage = stage, StepAction = action, StepTool = tool,
            StepInput = docOf (jsonField m ''input''),
            Preconditions = docOf (jsonField m ''preconditions''),
            Rollback = docOf (jsonField m ''rollback'')\<rparr>)))))"

definition loadSteps :: "string \<Rightarrow> (World, PlanStep list) op" where
  "loadSteps planID = bindS (onDB (ListPlanSteps planID)) (\<lambda>docs. tryS (mapR decodeStep docs))"

section \<open>Tool calls, blobs, evidence\<close>

definition insertToolCall :: "string \<Rightarrow> string \<Rightarrow> string \<Rightarrow> string \<Rightarrow> string \<Rightarrow> (World, string) op" where
  "insertToolCall executionID tool status inputRef outputRef =
     onDB (InsertToolCall executionID (Some (GMap
       [(''tool_name'', GStr tool), (''status'', GStr status),
        (''input_ref'', GStr inputRef), (''output_ref'', GStr outputRef)])))"

definition putBlob :: "BlobStore \<Rightarrow> string \<Rightarrow> string \<Rightarrow> (World, string) op" where
  "putBlob objects key data w =
     (blobPut objects (xBlobOps w) key data, w\<lparr>xBlobOps := Suc (xBlobOps w)\<rparr>)"

definition storeInput :: "Executor \<Rightarrow> string \<Rightarrow> string \<Rightarrow> gval \<Rightarrow> (World, string) op" where
  "storeInput e executionID toolCallID input =
    (case exObjects e of
       None \<Rightarrow> okS []
     | Some objects \<Rightarrow>
         bindS (tryS (exMarshal e input)) (\<lambda>payload.
         putBlob objects (''tool-input/'' @ executionID @ ''/'' @ toolCallID @ ''.json'') payload))"

definition storeOutput :: "Executor \<Rightarrow> string \<Rightarrow> string \<Rightarrow> string \<Rightarrow> (World, string) op" where
  "storeOutput e executionID toolCallID output =
    (case exObjects e of
       None \<Rightarrow> okS []
     | Some objects \<Rightarrow>
        (let output = (case exRuntime e of
               None \<Rightarrow> output
             | Some rt \<Rightarrow> (case rtRedactor rt of None \<Rightarrow> output | Some f \<Rightarrow> f output)) in
         putBlob objects (''tool-output/'' @ executionID @ ''/'' @ toolCallID @ ''.json'') output))"

definition runTool ::
  "Executor \<Rightarrow> string \<Rightarrow> string \<Rightarrow> string \<Rightarrow> string \<Rightarrow> gval \<Rightarrow> ContextRef \<Rightarrow> (World, string) op" where
  "runTool e executionID toolCallID tool action input ctxRef w =
    (case exRuntime e of
       None \<Rightarrow> (Inl ''runtime required'', w)
     | Some rt \<Rightarrow>
        if \<not> rtRouter rt \<or> rtSandbox rt = None then (Inl ''runtime required'', w)
        else
         (let req = \<lparr>ReqTool = tool, ReqAction = action, ReqInput = input,
                     ReqToolCallID = toolCallID, ReqExecutionID = executionID,
                     ReqContext = ctxRef\<rparr>;
              ((resp, err), st) = Execute (exEnv e (length (xCalls w))) (rtSandbox rt) req (xRouter w);
              w' = w\<lparr>xRouter := st, xCalls := xCalls w @ [req]\<rparr> in
          case err of Some m \<Rightarrow> (Inl m, w') | None \<Rightarrow> (Inr (RespOutput resp), w')))"

definition evidenceType :: "string \<Rightarrow> string" where
  "evidenceType tool =
    (let t = ToLower (TrimSpace tool) in
     if t = ''prometheus'' \<or> t = ''thanos'' then ''promql''
     else if t = ''tempo'' then ''traceql''
     else if t = ''argocd'' then ''argocd''
     else if t = ''kubectl'' then ''k8s''
     else if t = ''aws'' then ''cloudtrail''
     else if t = ''grafana'' then ''grafana''
     else if t = ''github'' \<or> t = ''gitlab'' \<or> t = ''git'' then ''scm''
     else [])"

definition stringFromAny :: "gmap \<Rightarrow> string list \<Rightarrow> string option" where
  "stringFromAny m keys =
    (case filter (\<lambda>k. TrimSpace (gstr m k) \<noteq> []) keys of [] \<Rightarrow> None | k # _ \<Rightarrow> Some (gstr m k))"

text \<open>The first match of \<open>https?://[^\s]+\<close>.\<close>

definition urlSpace :: "char \<Rightarrow> bool" where
  "urlSpace c \<longleftrightarrow> of_char c \<in> {9, 10, 12, 13, 32 :: nat}"

fun firstURL :: "string \<Rightarrow> string" where
  "firstURL [] = []"
| "firstURL (c # cs) =
    (let s = c # cs;
         head = (if take 7 s = ''http://'' then 7 else if take 8 s = ''https://'' then 8 else 0);
         rest = takeWhile (\<lambda>x. \<not> urlSpace x) (drop head s) in
     if head > 0 \<and> rest \<noteq> [] then take head s @ rest else firstURL cs)"

text \<open>The first match of \<open>\b[0-9a-f]{7,40}\b\<close> in the lower-cased text.\<close>

definition hexChar :: "char \<Rightarrow> bool" where
  "hexChar c \<longleftrightarrow> isDigit c \<or> c \<in> set ''abcdef''"

definition wordChar :: "char \<Rightarrow> bool" where
  "wordChar c \<longleftrightarrow> (let n = of_char c :: nat in
     48 \<le> n \<and> n \<le> 57 \<or> 65 \<le> n \<and> n \<le> 90 \<or> 97 \<le> n \<and> n \<le> 122 \<or> n = 95)"

fun shaFrom :: "bool \<Rightarrow> string \<Rightarrow> string" where
  "shaFrom prevWord [] = []"
| "shaFrom prevWord (c # cs) =
    (let hex = takeWhile hexChar (c # cs); rest = dropWhile hexChar (c # cs) in
     if \<not> prevWord \<and> 7 \<le> length hex \<and> length hex \<le> 40 \<and> (rest = [] \<or> \<not> wordChar (hd rest))
     then hex else shaFrom (wordChar c) cs)"

definition firstSHA :: "string \<Rightarrow> string" where
  "firstSHA text = shaFrom False (ToLower text)"

definition isScm :: "string \<Rightarrow> bool" where
  "isScm tool \<longleftrightarrow> ToLower (TrimSpace tool) \<in> {''github'', ''gitlab'', ''git''}"

definition optStr :: "string \<Rightarrow> string option \<Rightarrow> gmap" where
  "optStr k v = (case v of None \<Rightarrow> [] | Some s \<Rightarrow> [(k, GStr s)])"

definition extractExternalIDsFromText :: "string \<Rightarrow> string \<Rightarrow> gmap" where
  "extractExternalIDsFromText tool text =
    (let text = TrimSpace text;
         out = optStr ''pr_url'' (nullString (firstURL text))
             @ optStr ''commit_sha'' (nullString (firstSHA text)) in
     if text = [] \<or> \<not> isScm tool then [] else out)"

definition firstEntry :: "(string option \<times> (string \<Rightarrow> gmap)) list \<Rightarrow> gmap" where
  "firstEntry alts =
    (case filter (\<lambda>(v, _). v \<noteq> None) alts of [] \<Rightarrow> [] | (v, f) # _ \<Rightarrow> f (the v))"

definition extractExternalIDs :: "(string \<Rightarrow> gval option) \<Rightarrow> string \<Rightarrow> string \<Rightarrow> gmap" where
  "extractExternalIDs unm tool output =
    (if output = [] then []
     else case unm output of
       None \<Rightarrow> extractExternalIDsFromText tool output
     | Some raw \<Rightarrow>
        (let t = ToLower (TrimSpace tool); m = mapOf raw in
         if t = ''aws'' then
           (case listOf (gget m ''Events'') of
              [] \<Rightarrow> []
            | ev # _ \<Rightarrow> optStr ''cloudtrail_event_id''
                         (stringFromAny (mapOf ev) [''EventId'', ''eventId'', ''event_id'']))
         else if t = ''argocd'' then
           (let status = mapOf (gget m ''status'') in
            firstEntry
              [(stringFromAny (mapOf (gget status ''sync'')) [''id'', ''syncId'', ''sync_id''],
                \<lambda>i. [(''argocd_sync_id'', GStr i)]),
               (stringFromAny (mapOf (gget (mapOf (gget status ''operationState'')) ''syncResult''))
                  [''revision''],
                \<lambda>r. [(''argocd_revision'', GStr r), (''argocd_diff_ref'', GStr r)])])
         else if t = ''grafana'' then
           (case map_of m ''id'' of
              Some i \<Rightarrow> [(''grafana_annotation_id'', i)]
            | None \<Rightarrow>
               firstEntry
                 [(stringFromAny m [''url'', ''dashboardUrl'', ''dashboard_url''],
                   \<lambda>u. [(''grafana_url'', GStr u)]),
                  (stringFromAny (mapOf (gget m ''meta'')) [''url''],
                   \<lambda>u. [(''grafana_url'', GStr u), (''grafana_diff_url'', GStr (u @ ''?tab=versions''))])])
         else if t = ''tempo'' then
           optStr ''trace_id'' (stringFromAny m [''traceId'', ''traceID'', ''trace_id''])
         else if isScm tool then
           optStr ''pr_url'' (stringFromAny m [''url'', ''web_url'', ''html_url''])
           @ optStr ''commit_sha''
               (stringFromAny m [''sha'', ''commit'', ''commit_sha'', ''headRefOid'', ''head_ref_oid''])
         else []))"

definition presignLink :: "Executor \<Rightarrow> string \<Rightarrow> (World, string) op" where
  "presignLink e outputRef w =
    (case exObjects e of
       None \<Rightarrow> (Inr [], w)
     | Some objects \<Rightarrow>
        if outputRef = [] then (Inr [], w)
        else (Inr (case blobPresign objects (xBlobOps w) outputRef of Inl _ \<Rightarrow> [] | Inr s \<Rightarrow> s),
              w\<lparr>xBlobOps := Suc (xBlobOps w)\<rparr>))"

definition recordEvidence :: "Executor \<Rightarrow> string \<Rightarrow> PlanStep \<Rightarrow> string \<Rightarrow> string \<Rightarrow> (World, unit) op" where
  "recordEvidence e executionID step outputRef output =
    (if evidenceType (StepTool step) = [] then okS ()
     else bindS (presignLink e outputRef) (\<lambda>link.
      (let external = extractExternalIDs (exUnmarshal e) (StepTool step) output;
           payload = [(''type'', GStr (evidenceType (StepTool step))),
                      (''query'', GStr (gstr (mapOf (StepInput step)) ''query'')),
                      (''result_ref'', GStr outputRef), (''link'', GStr link),
                      (''collected_at'', GStr (exStamp e))]
                   @ (if external = [] then [] else [(''external_ids'', GMap external)]) in
       bindS (onDB (InsertEvidence (exParseTime e) executionID (Some (GMap payload)))) (\<lambda>_. okS ()))))"

section \<open>One step and its rollback\<close>

text \<open>\<open>if err := m; err != nil \{ f; return err \}\<close>: the error of \<open>f\<close> is dropped.\<close>

definition onError :: "(World, 'a) op \<Rightarrow> (World, unit) op \<Rightarrow> (World, 'a) op" where
  "onError m f w = (case m w of (Inl e, w') \<Rightarrow> (Inl e, dropS f w') | (Inr x, w') \<Rightarrow> (Inr x, w'))"

definition failCall :: "string \<Rightarrow> string \<Rightarrow> (World, unit) op" where
  "failCall toolCallID inputRef = onDB (UpdateToolCall toolCallID ''failed'' inputRef [])"

text \<open>
  The part \<open>executeStep\<close> and \<open>tryRollback\<close> have in common; the input reference of a failed
  upload is empty, as \<open>Put\<close> returns none with an error.
\<close>

definition callTool ::
  "Executor \<Rightarrow> string \<Rightarrow> string \<Rightarrow> string \<Rightarrow> gval \<Rightarrow> ContextRef \<Rightarrow> (World, string \<times> string \<times> string) op" where
  "callTool e executionID tool action input ctxRef =
     bindS (insertToolCall executionID tool ''running'' [] []) (\<lambda>toolCallID.
     bindS (onError (storeInput e executionID toolCallID input) (failCall toolCallID [])) (\<lambda>inputRef.
     bindS (onError (runTool e executionID toolCallID tool action input ctxRef)
              (failCall toolCallID inputRef)) (\<lambda>resp.
     bindS (onError (storeOutput e executionID toolCallID resp)
              (failCall toolCallID inputRef)) (\<lambda>outputRef.
     bindS (onDB (UpdateToolCall toolCallID ''succeeded'' inputRef outputRef)) (\<lambda>_.
     okS (toolCallID, outputRef, resp))))))"

definition executeStep :: "Executor \<Rightarrow> string \<Rightarrow> ContextRef \<Rightarrow> PlanStep \<Rightarrow> (World, unit) op" where
  "executeStep e executionID ctxRef step =
     bindS (callTool e executionID (StepTool step) (StepAction step) (StepInput step) ctxRef)
       (\<lambda>(toolCallID, outputRef, resp). recordEvidence e executionID step outputRef resp)"

definition tryRollback :: "Executor \<Rightarrow> string \<Rightarrow> ContextRef \<Rightarrow> PlanStep \<Rightarrow> (World, unit) op" where
  "tryRollback e executionID ctxRef step =
    (let rollback = mapOf (Rollback step);
         tool = gstr rollback ''tool''; action = gstr rollback ''action'' in
     if rollback = [] then failS ''no rollback''
     else if TrimSpace tool = [] \<or> TrimSpace action = [] then failS ''invalid rollback''
     else bindS (callTool e executionID tool action (gget rollback ''input'') ctxRef) (\<lambda>_. okS ()))"

section \<open>A plan\<close>

text \<open>The loop over steps stops at the first that fails and says which it was.\<close>

fun forSteps :: "('p \<Rightarrow> ('s, unit) op) \<Rightarrow> 'p list \<Rightarrow> 's \<Rightarrow> ('p \<times> string) option \<times> 's" where
  "forSteps run [] w = (None, w)"
| "forSteps run (p # ps) w =
    (case run p w of
       (Inl e, w') \<Rightarrow> (Some (p, e), w')
     | (Inr _, w') \<Rightarrow> forSteps run ps w')"

text \<open>\<open>rollbackSteps\<close> visits the steps from the last to the first and keeps the last error.\<close>

definition rollbackSteps :: "('p \<Rightarrow> ('s, unit) op) \<Rightarrow> 'p list \<Rightarrow> ('s, unit) op" where
  "rollbackSteps undo steps w =
     foldl (\<lambda>(r, w) p. case undo p w of (Inl e, w') \<Rightarrow> (Inl e, w') | (Inr _, w') \<Rightarrow> (r, w'))
       (Inr (), w) (rev steps)"

definition executePlan :: "Executor \<Rightarrow> ExecutionRef \<Rightarrow> (World, unit) op" where
  "executePlan e exec =
    (let execID = RefExecutionID exec; planID = RefPlanID exec;
         complete = (\<lambda>status. onDB (CompleteExecution execID status)) in
     if TrimSpace execID = [] \<or> TrimSpace planID = [] then failS ''execution missing identifiers''
     else
       bindS (onDB (UpdateExecutionStatus execID ''running'')) (\<lambda>_.
       bindS (onError (loadContext planID) (complete ''failed'')) (\<lambda>ctxRef.
       bindS (onError (loadSteps planID) (complete ''failed'')) (\<lambda>steps w.
       (let (actSteps, verifySteps) = splitStepsByStage steps;
            run = executeStep e execID ctxRef; undo = tryRollback e execID ctxRef in
        case forSteps run actSteps w of
          (Some (step, err), w1) \<Rightarrow>
            (let (r, w2) = undo step w1 in
             (Inl err, dropS (complete (if isOk r then ''rolled_back'' else ''failed'')) w2))
        | (None, w1) \<Rightarrow>
           (case forSteps run verifySteps w1 of
              (Some (_, err), w2) \<Rightarrow>
                (let (r, w3) = rollbackSteps undo actSteps w2 in
                 (Inl err, dropS (complete (if isOk r then ''rolled_back'' else ''failed'')) w3))
            | (None, w2) \<Rightarrow> complete ''succeeded'' w2))))))"

section \<open>The worker\<close>

fun executeAll :: "Executor \<Rightarrow> nat \<Rightarrow> ExecutionRef list \<Rightarrow> World \<Rightarrow> (nat \<times> string option) \<times> World" where
  "executeAll e n [] w = ((n, None), w)"
| "executeAll e n (x # xs) w =
    (case executePlan e x w of
       (Inl err, w') \<Rightarrow> ((n, Some err), w')
     | (Inr _, w') \<Rightarrow> executeAll e (Suc n) xs w')"

definition RunOnce :: "Executor \<Rightarrow> World \<Rightarrow> (nat \<times> string option) \<times> World" where
  "RunOnce e w =
    (if exRuntime e = None then ((0, Some ''runtime required''), w)
     else (let limit = (if exMaxBatch e \<le> 0 then 10 else exMaxBatch e) in
       case onDB (ListExecutionsByStatus ''pending'' limit) w of
         (Inl err, w') \<Rightarrow> ((0, Some err), w')
       | (Inr pending, w') \<Rightarrow> executeAll e 0 pending w'))"

text \<open>\<open>Run\<close> polls until a round fails or the context, cancelled after \<open>polls\<close> rounds, is done.\<close>

fun pollLoop :: "Executor \<Rightarrow> nat \<Rightarrow> World \<Rightarrow> string \<times> World" where
  "pollLoop e 0 w = (''context canceled'', w)"
| "pollLoop e (Suc polls) w =
    (case RunOnce e w of
       ((_, Some err), w') \<Rightarrow> (err, w')
     | ((_, None), w') \<Rightarrow> pollLoop e polls w')"

definition Run :: "Executor \<Rightarrow> nat \<Rightarrow> World \<Rightarrow> string \<times> World" where
  "Run e polls w =
    (if exRuntime e = None then (''runtime required'', w) else pollLoop e polls w)"

section \<open>Runs of a list of steps\<close>

text \<open>
  \<open>inOrder lo hi xs t\<close>: the trace \<open>t\<close> consists of \<open>xs\<close> in order, each of them at least \<open>lo\<close>
  and at most \<open>hi\<close> times (a step may fail before its tool is called; a workflow engine may
  retry it).
\<close>

inductive inOrder :: "nat \<Rightarrow> nat \<Rightarrow> 'a list \<Rightarrow> 'a list \<Rightarrow> bool" for lo hi where
  inOrder_Nil: "inOrder lo hi [] []"
| inOrder_Cons: "inOrder lo hi xs t \<Longrightarrow> lo \<le> n \<Longrightarrow> n \<le> hi \<Longrightarrow> inOrder lo hi (x # xs) (replicate n x @ t)"

lemma inOrder_append:
  "inOrder lo hi xs t \<Longrightarrow> inOrder lo hi ys u \<Longrightarrow> inOrder lo hi (xs @ ys) (t @ u)"
  by (induction rule: inOrder.induct) (auto intro: inOrder_Cons)

lemma inOrder_set: "inOrder lo hi xs t \<Longrightarrow> set t \<subseteq> set xs"
  by (induction rule: inOrder.induct) auto

text \<open>Exactly once each: the trace is the list.\<close>

lemma inOrder_once: "inOrder (Suc 0) (Suc 0) xs t \<longleftrightarrow> t = xs"
proof
  show "inOrder (Suc 0) (Suc 0) xs t \<Longrightarrow> t = xs" by (induction rule: inOrder.induct) auto
  have "inOrder (Suc 0) (Suc 0) xs xs"
  proof (induction xs)
    case Nil
    show ?case by (rule inOrder_Nil)
  next
    case (Cons x xs)
    then show ?case using inOrder_Cons [of "Suc 0" "Suc 0" xs xs "Suc 0" x] by simp
  qed
  then show "t = xs \<Longrightarrow> inOrder (Suc 0) (Suc 0) xs t" by simp
qed

text \<open>At most once each: the trace is a subsequence.\<close>

lemma inOrder_subseq: "inOrder 0 1 xs t \<Longrightarrow> subseq t xs"
proof (induction rule: inOrder.induct)
  case inOrder_Nil
  show ?case by simp
next
  case (inOrder_Cons xs t n x)
  then show ?case by (cases n) auto
qed

text \<open>
  What the executor and the Temporal workflows rely on from whatever runs a step: running it
  issues the step's own calls only, at least one when it succeeds, undoing it issues the
  step's rollback calls only.
\<close>

locale step_runner =
  fixes run :: "'p \<Rightarrow> ('s, unit) op"
    and undo :: "'p \<Rightarrow> ('s, unit) op"
    and calls :: "'s \<Rightarrow> 'c list"
    and fwd :: "'p \<Rightarrow> 'c"
    and bwd :: "'p \<Rightarrow> 'c"
    and attempts :: nat
  assumes run_calls: "\<exists>n\<le>attempts. calls (snd (run p s)) = calls s @ replicate n (fwd p)"
    and run_called: "run p s = (Inr (), s') \<Longrightarrow> calls s' \<noteq> calls s"
    and undo_calls: "\<exists>n\<le>attempts. calls (snd (undo p s)) = calls s @ replicate n (bwd p)"
begin

lemma run_ok:
  assumes "run p s = (Inr (), s')"
  obtains n where "1 \<le> n" "n \<le> attempts" "calls s' = calls s @ replicate n (fwd p)"
proof -
  obtain n where n: "n \<le> attempts" "calls s' = calls s @ replicate n (fwd p)"
    using run_calls [of p s] assms by auto
  moreover have "n \<noteq> 0" using run_called [OF assms] n(2) by (cases n) auto
  ultimately show thesis using that [of n] by simp
qed

lemma forSteps_ok:
  assumes "forSteps run ps s = (None, s')"
  shows "\<exists>t. calls s' = calls s @ t \<and> inOrder 1 attempts (map fwd ps) t"
  using assms
proof (induction ps arbitrary: s)
  case Nil
  then show ?case by (auto intro: inOrder_Nil)
next
  case (Cons p ps)
  then obtain s1 where 1: "run p s = (Inr (), s1)" and 2: "forSteps run ps s1 = (None, s')"
    by (auto split: prod.splits sum.splits)
  obtain n where "1 \<le> n" "n \<le> attempts" "calls s1 = calls s @ replicate n (fwd p)"
    using run_ok [OF 1] by blast
  moreover obtain t where "calls s' = calls s1 @ t" "inOrder 1 attempts (map fwd ps) t"
    using Cons.IH [OF 2] by blast
  ultimately show ?case
    by (intro exI [of _ "replicate n (fwd p) @ t"]) (simp add: inOrder_Cons)
qed

lemma forSteps_fail:
  assumes "forSteps run ps s = (Some (p, e), s')"
  shows "\<exists>pre post t n. ps = pre @ p # post \<and> calls s' = calls s @ t @ replicate n (fwd p) \<and>
     inOrder 1 attempts (map fwd pre) t \<and> n \<le> attempts"
  using assms
proof (induction ps arbitrary: s)
  case Nil
  then show ?case by simp
next
  case (Cons q ps)
  obtain r s1 where 1: "run q s = (r, s1)" by fastforce
  show ?case
  proof (cases r)
    case (Inl e')
    obtain n where "n \<le> attempts" "calls s1 = calls s @ replicate n (fwd q)"
      using run_calls [of q s] 1 by auto
    with Cons.prems 1 Inl show ?thesis
      by (intro exI [of _ "[]"] exI [of _ ps] exI [of _ n]) (auto intro: inOrder_Nil)
  next
    case (Inr u)
    with 1 have "run q s = (Inr (), s1)" by simp
    then obtain n where n: "1 \<le> n" "n \<le> attempts" "calls s1 = calls s @ replicate n (fwd q)"
      using run_ok by blast
    from Inr Cons.prems 1 have "forSteps run ps s1 = (Some (p, e), s')" by simp
    from Cons.IH [OF this] obtain pre post t k where
      "ps = pre @ p # post" "calls s' = calls s1 @ t @ replicate k (fwd p)"
      "inOrder 1 attempts (map fwd pre) t" "k \<le> attempts" by blast
    with n show ?thesis
      by (intro exI [of _ "q # pre"] exI [of _ post] exI [of _ "replicate n (fwd q) @ t"] exI [of _ k])
        (simp add: inOrder_Cons)
  qed
qed

lemma rollbackSteps_calls:
  "\<exists>t. calls (snd (rollbackSteps undo ps s)) = calls s @ t \<and> inOrder 0 attempts (map bwd (rev ps)) t"
proof -
  let ?f = "\<lambda>(r, w) p. case undo p w of (Inl e, w') \<Rightarrow> (Inl e, w') | (Inr _, w') \<Rightarrow> (r, w')"
  have "\<exists>t. calls (snd (foldl ?f (r, s) qs)) = calls s @ t \<and> inOrder 0 attempts (map bwd qs) t" for r qs
  proof (induction qs arbitrary: r s)
    case Nil
    then show ?case by (auto intro: inOrder_Nil)
  next
    case (Cons q qs)
    obtain r1 s1 where 1: "undo q s = (r1, s1)" by fastforce
    obtain n where n: "n \<le> attempts" "calls s1 = calls s @ replicate n (bwd q)" using undo_calls [of q s] 1 by auto
    have "\<exists>r2. foldl ?f (r, s) (q # qs) = foldl ?f (r2, s1) qs" using 1 by (cases r1) auto
    then obtain r2 where eq: "foldl ?f (r, s) (q # qs) = foldl ?f (r2, s1) qs" by blast
    obtain t where "calls (snd (foldl ?f (r2, s1) qs)) = calls s1 @ t"
      "inOrder 0 attempts (map bwd qs) t" using Cons.IH [of r2 s1] by blast
    with n show ?case
      unfolding eq by (intro exI [of _ "replicate n (bwd q) @ t"]) (simp add: inOrder_Cons)
  qed
  then show ?thesis by (simp add: rollbackSteps_def)
qed

end

section \<open>The executor runs the steps of the plan\<close>

text \<open>
  What a request asks of the outside world: everything but the call's identifier.
\<close>

definition stepOp :: "ContextRef \<Rightarrow> string \<Rightarrow> PlanStep \<Rightarrow> string \<times> string \<times> string \<times> gval \<times> ContextRef" where
  "stepOp ctx x p = (x, StepTool p, StepAction p, StepInput p, ctx)"

definition rollbackOp :: "ContextRef \<Rightarrow> string \<Rightarrow> PlanStep \<Rightarrow> string \<times> string \<times> string \<times> gval \<times> ContextRef" where
  "rollbackOp ctx x p =
    (let r = mapOf (Rollback p) in (x, gstr r ''tool'', gstr r ''action'', gget r ''input'', ctx))"

definition requestOp :: "ExecuteRequest \<Rightarrow> string \<times> string \<times> string \<times> gval \<times> ContextRef" where
  "requestOp r = (ReqExecutionID r, ReqTool r, ReqAction r, ReqInput r, ReqContext r)"

abbreviation xOps :: "World \<Rightarrow> (string \<times> string \<times> string \<times> gval \<times> ContextRef) list" where
  "xOps w \<equiv> map requestOp (xCalls w)"

text \<open>Everything but \<open>runTool\<close> leaves the calls alone.\<close>

definition silent :: "(World, 'a) op \<Rightarrow> bool" where
  "silent m \<longleftrightarrow> (\<forall>w. xCalls (snd (m w)) = xCalls w)"

lemma silent_onDB: "silent (onDB m)"
  by (simp add: silent_def onDB_def split: prod.splits)

lemma silent_blobs: "silent (storeInput e x c i)" "silent (storeOutput e x c out)"
  by (auto simp: silent_def storeInput_def storeOutput_def putBlob_def okS_def bindS_def tryS_def Let_def
      split: option.splits prod.splits sum.splits)

lemma silent_bindS: "silent m \<Longrightarrow> (\<And>x. silent (f x)) \<Longrightarrow> silent (bindS m f)"
  by (auto simp: silent_def bindS_def split: prod.splits sum.splits) (metis snd_conv)+

lemma silent_recordEvidence: "silent (recordEvidence e x p ref out)"
proof -
  have "silent (presignLink e ref)"
    by (auto simp: silent_def presignLink_def split: option.splits)
  then show ?thesis
    by (auto simp: recordEvidence_def Let_def intro!: silent_bindS silent_onDB)
      (auto simp: silent_def okS_def)
qed

lemma silentD: "silent m \<Longrightarrow> m w = (r, w') \<Longrightarrow> xCalls w' = xCalls w"
  by (auto simp: silent_def dest: spec [of _ w])

lemma runTool_calls:
  "\<exists>n\<le>1. xOps (snd (runTool e x c tool action input ctx w))
      = xOps w @ replicate n (x, tool, action, input, ctx)"
  by (auto simp: runTool_def Let_def requestOp_def split: option.splits prod.splits
      intro: exI [of _ 0] exI [of _ 1])

lemma onError_calls:
  assumes "silent f" "\<exists>n\<le>1. xOps (snd (m w)) = xOps w @ replicate n a"
  shows "\<exists>n\<le>1. xOps (snd (onError m f w)) = xOps w @ replicate n a"
  using assms by (auto simp: onError_def dropS_def silent_def split: prod.splits sum.splits)

lemma silent_onError: "silent m \<Longrightarrow> silent f \<Longrightarrow> silent (onError m f)"
  by (auto simp: silent_def onError_def dropS_def split: prod.splits sum.splits) (metis snd_conv)+

lemma callTool_calls:
  "\<exists>n\<le>1. xOps (snd (callTool e x tool action input ctx w))
      = xOps w @ replicate n (x, tool, action, input, ctx)"
proof -
  let ?goal = "\<lambda>w w'. \<exists>n\<le>1. xOps w' = xOps w @ replicate n (x, tool, action, input, ctx)"
  have same: "?goal w w'" if "xCalls w' = xCalls w" for w w'
    using that by (auto intro: exI [of _ 0])
  obtain r1 w1 where 1: "insertToolCall x tool ''running'' [] [] w = (r1, w1)" by fastforce
  have c1: "xCalls w1 = xCalls w"
    using 1 unfolding insertToolCall_def by (rule silentD [OF silent_onDB])
  show ?thesis
  proof (cases r1)
    case (Inl a)
    then show ?thesis using same [OF c1] by (simp add: callTool_def bindS_def 1)
  next
    case (Inr c)
    obtain r2 w2 where 2: "onError (storeInput e x c input) (failCall c []) w1 = (r2, w2)" by fastforce
    have c2: "xCalls w2 = xCalls w"
      using silentD [OF silent_onError [OF silent_blobs(1) silent_onDB] 2 [unfolded failCall_def]] c1
      by simp
    show ?thesis
    proof (cases r2)
      case (Inl a)
      then show ?thesis using same [OF c2] Inr by (simp add: callTool_def bindS_def 1 2)
    next
      case (Inr ref)
      let ?rest = "bindS (onError (runTool e x c tool action input ctx) (failCall c ref)) (\<lambda>resp.
         bindS (onError (storeOutput e x c resp) (failCall c ref)) (\<lambda>outRef.
         bindS (onDB (UpdateToolCall c ''succeeded'' ref outRef)) (\<lambda>_. okS (c, outRef, resp))))"
      have eq: "callTool e x tool action input ctx w = ?rest w2"
        using \<open>r1 = Inr c\<close> Inr by (simp add: callTool_def bindS_def 1 2)
      obtain r3 w3 where 3: "onError (runTool e x c tool action input ctx) (failCall c ref) w2 = (r3, w3)"
        by fastforce
      have "?goal w2 w3"
        using onError_calls [OF silent_onDB, of "runTool e x c tool action input ctx" w2] runTool_calls 3
        unfolding failCall_def by (metis snd_conv)
      moreover have "silent (bindS (onError (storeOutput e x c resp) (failCall c ref)) (\<lambda>outRef.
         bindS (onDB (UpdateToolCall c ''succeeded'' ref outRef)) (\<lambda>_. okS (c, outRef, resp))))" for resp
        unfolding failCall_def
        by (intro silent_bindS silent_onError silent_onDB silent_blobs) (simp add: silent_def okS_def)
      then have "xCalls (snd (?rest w2)) = xCalls w3"
        using 3 by (cases r3) (simp_all add: bindS_def [of "onError (runTool _ _ _ _ _ _ _) _"] silent_def)
      ultimately show ?thesis unfolding eq using c2 by simp
    qed
  qed
qed

lemma executeStep_calls:
  "\<exists>n\<le>1. xOps (snd (executeStep e x ctx p w)) = xOps w @ replicate n (stepOp ctx x p)"
proof -
  have "xCalls (snd (executeStep e x ctx p w))
      = xCalls (snd (callTool e x (StepTool p) (StepAction p) (StepInput p) ctx w))"
    using silent_recordEvidence
    by (auto simp: executeStep_def bindS_def silent_def split: prod.splits sum.splits)
  then show ?thesis using callTool_calls by (simp add: stepOp_def)
qed

lemma snd_bindS_okS: "snd (bindS m (\<lambda>_. okS x) w) = snd (m w)"
  by (auto simp: bindS_def okS_def split: prod.splits sum.splits)

lemma tryRollback_calls:
  "\<exists>n\<le>1. xOps (snd (tryRollback e x ctx p w)) = xOps w @ replicate n (rollbackOp ctx x p)"
proof -
  let ?r = "mapOf (Rollback p)"
  show ?thesis
    using callTool_calls [of e x "gstr ?r ''tool''" "gstr ?r ''action''" "gget ?r ''input''" ctx w]
    by (auto simp: tryRollback_def rollbackOp_def Let_def failS_def snd_bindS_okS intro: exI [of _ 0])
qed

lemma runTool_ok: "runTool e x c tool action input ctx w = (Inr out, w') \<Longrightarrow>
  length (xCalls w') = Suc (length (xCalls w))"
  by (auto simp: runTool_def Let_def split: option.splits prod.splits if_splits)

lemma callTool_ok:
  assumes "callTool e x tool action input ctx w = (Inr y, w')"
  shows "length (xCalls w') = Suc (length (xCalls w))"
proof -
  obtain c w1 ref w2 resp w3 out w4 where
    1: "insertToolCall x tool ''running'' [] [] w = (Inr c, w1)" and
    2: "onError (storeInput e x c input) (failCall c []) w1 = (Inr ref, w2)" and
    3: "onError (runTool e x c tool action input ctx) (failCall c ref) w2 = (Inr resp, w3)" and
    4: "onError (storeOutput e x c resp) (failCall c ref) w3 = (Inr out, w4)" and
    5: "onDB (UpdateToolCall c ''succeeded'' ref out) w4 = (Inr (), w')"
    using assms by (auto simp: callTool_def bindS_eq_Inr okS_def)
  have "length (xCalls w3) = Suc (length (xCalls w2))"
    using 3 runTool_ok by (fastforce simp: onError_def split: prod.splits sum.splits)
  moreover have "xCalls w1 = xCalls w"
    using 1 unfolding insertToolCall_def by (rule silentD [OF silent_onDB])
  moreover have "xCalls w2 = xCalls w1"
    using silentD [OF silent_onError [OF silent_blobs(1) silent_onDB] 2 [unfolded failCall_def]] .
  moreover have "xCalls w4 = xCalls w3"
    using silentD [OF silent_onError [OF silent_blobs(2) silent_onDB] 4 [unfolded failCall_def]] .
  moreover have "xCalls w' = xCalls w4" using 5 by (rule silentD [OF silent_onDB])
  ultimately show ?thesis by simp
qed

lemma executeStep_ok: "executeStep e x ctx p w = (Inr (), w') \<Longrightarrow> xOps w' \<noteq> xOps w"
proof -
  assume "executeStep e x ctx p w = (Inr (), w')"
  then obtain y w1 where 1: "callTool e x (StepTool p) (StepAction p) (StepInput p) ctx w = (Inr y, w1)"
    and 2: "xCalls w' = xCalls w1"
    by (auto simp: executeStep_def bindS_eq_Inr dest!: silentD [OF silent_recordEvidence])
  have "length (xOps w') \<noteq> length (xOps w)" using callTool_ok [OF 1] 2 by simp
  then show ?thesis by metis
qed

interpretation executor: step_runner "executeStep e x ctx" "tryRollback e x ctx" xOps
    "stepOp ctx x" "rollbackOp ctx x" 1 for e x ctx
  by unfold_locales (rule executeStep_calls, erule executeStep_ok, rule tryRollback_calls)

section \<open>Stored steps\<close>

definition stepOfRow :: "StepRow \<Rightarrow> PlanStep" where
  "stepOfRow r =
     \<lparr>StepID = SrID r, Stage = [], StepAction = SrAction r, StepTool = SrTool r,
      StepInput = SrInput r, Preconditions = docOf (SrPreconditions r), Rollback = docOf (SrRollback r)\<rparr>"

definition planSteps :: "Tables \<Rightarrow> string \<Rightarrow> PlanStep list" where
  "planSteps t planID = map stepOfRow (sort_key SrID (filter (\<lambda>r. SrPlan r = planID) (stepsT t)))"

definition planContext :: "Tables \<Rightarrow> string \<Rightarrow> ContextRef" where
  "planContext t planID =
    (case find (\<lambda>r. PrID r = planID) (plansT t) of
       None \<Rightarrow> emptyContext
     | Some r \<Rightarrow> contextFromMap (mapOf (PrContext r)))"

lemma decodeStep_stepDoc: "decodeStep (GMap (stepDoc r)) = Inr (stepOfRow r)"
proof -
  have "jsonField (stepDoc r) ''stage'' = None"
    by (simp add: jsonField_def stepDoc_def EqualFold_def ToLower_def lowerChar_def)
  moreover have "jsonField (stepDoc r) ''step_id'' = Some (GStr (SrID r))"
    "jsonField (stepDoc r) ''action'' = Some (GStr (SrAction r))"
    "jsonField (stepDoc r) ''tool'' = Some (GStr (SrTool r))"
    "jsonField (stepDoc r) ''input'' = Some (SrInput r)"
    "jsonField (stepDoc r) ''preconditions'' = Some (docOf (SrPreconditions r))"
    "jsonField (stepDoc r) ''rollback'' = Some (docOf (SrRollback r))"
    by (simp_all add: jsonField_def stepDoc_def)
  ultimately show ?thesis by (simp add: decodeStep_def stepOfRow_def docOf_def)
qed

lemma loadSteps_ok:
  assumes "loadSteps planID w = (Inr steps, w')"
  shows "steps = planSteps (tables (xDB w)) planID"
  using assms
  by (auto simp: loadSteps_def bindS_eq_Inr onDB_def tryS_def ListPlanSteps_def query_ok
      planSteps_def decodeStep_stepDoc mapR_map mapR_total
      split: prod.splits)

lemma loadContext_ok:
  assumes "loadContext planID w = (Inr ctx, w')"
  shows "ctx = planContext (tables (xDB w)) planID"
  using assms
  by (auto simp: loadContext_def bindS_eq_Inr onDB_def okS_def GetPlan_def query_ok planContext_def
      planDoc_def split: prod.splits option.splits)

text \<open>A stored step has no stage, so the executor never has verify steps.\<close>

lemma splitStepsByStage_filter:
  "splitStepsByStage steps =
   (filter (\<lambda>p. \<not> isVerifyStage (Stage p)) steps, filter (\<lambda>p. isVerifyStage (Stage p)) steps)"
proof -
  have "foldl (\<lambda>(act, verify) step.
        if isVerifyStage (Stage step) then (act, verify @ [step]) else (act @ [step], verify))
       (a, v) steps =
     (a @ filter (\<lambda>p. \<not> isVerifyStage (Stage p)) steps, v @ filter (\<lambda>p. isVerifyStage (Stage p)) steps)"
    for a v
    by (induction steps arbitrary: a v) auto
  then show ?thesis by (simp add: splitStepsByStage_def)
qed

lemma split_planSteps: "splitStepsByStage (planSteps t p) = (planSteps t p, [])"
proof -
  have "\<not> isVerifyStage (Stage s)" if "s \<in> set (planSteps t p)" for s
  proof -
    have "\<not> isVerifyStage []" by code_simp
    with that show ?thesis by (auto simp: planSteps_def stepOfRow_def)
  qed
  then show ?thesis by (simp add: splitStepsByStage_filter filter_empty_conv)
qed

section \<open>The status of the execution\<close>

text \<open>The executions table changes by \<open>UpdateExecutionStatus\<close> and \<open>CompleteExecution\<close> alone.\<close>

abbreviation xExecs :: "World \<Rightarrow> ExecRow list" where
  "xExecs w \<equiv> execsT (tables (xDB w))"

lemma preserves_onDB:
  assumes "preserves (\<lambda>d. I (tables d)) m"
  shows "preserves (\<lambda>w. I (tables (xDB w))) (onDB m)"
  using assms by (auto simp: preserves_def onDB_def split: prod.splits)

lemma preserves_onError:
  "preserves I m \<Longrightarrow> preserves I f \<Longrightarrow> preserves I (onError m f)"
  by (auto simp: preserves_def onError_def dropS_def split: prod.splits sum.splits)

lemma execs_InsertToolCall: "preserves (\<lambda>d. execsT (tables d) = E) (InsertToolCall x p)"
  unfolding InsertToolCall_def
  by (intro keeps preserves_execute [where I = "\<lambda>t. execsT t = E"]
      preserves_newID [where I = "\<lambda>t. execsT t = E"]) (auto split: if_splits)

lemma execs_InsertEvidence: "preserves (\<lambda>d. execsT (tables d) = E) (InsertEvidence pt x p)"
  unfolding InsertEvidence_def
  by (intro keeps preserves_execute [where I = "\<lambda>t. execsT t = E"]
      preserves_newID [where I = "\<lambda>t. execsT t = E"]
      preserves_timeNow [where I = "\<lambda>t. execsT t = E"]) (auto split: if_splits)

lemma execs_UpdateToolCall: "preserves (\<lambda>d. execsT (tables d) = E) (UpdateToolCall c s i out)"
  unfolding UpdateToolCall_def
  by (intro keeps preserves_execute [where I = "\<lambda>t. execsT t = E"]) auto

lemmas execs_onDB =
  preserves_onDB [where I = "\<lambda>t. execsT t = E" for E, OF execs_InsertToolCall]
  preserves_onDB [where I = "\<lambda>t. execsT t = E" for E, OF execs_InsertEvidence]
  preserves_onDB [where I = "\<lambda>t. execsT t = E" for E, OF execs_UpdateToolCall]

lemma execs_runTool: "preserves (\<lambda>w. xExecs w = E) (runTool e x c tool action input ctx)"
  by (auto simp: preserves_def runTool_def Let_def split: option.splits prod.splits)

lemma execs_blobs:
  "preserves (\<lambda>w. xExecs w = E) (storeInput e x c i)"
  "preserves (\<lambda>w. xExecs w = E) (storeOutput e x c out)"
  "preserves (\<lambda>w. xExecs w = E) (presignLink e ref)"
  by (auto simp: preserves_def storeInput_def storeOutput_def putBlob_def presignLink_def okS_def
      bindS_def tryS_def Let_def split: option.splits prod.splits sum.splits)

lemma execs_callTool: "preserves (\<lambda>w. xExecs w = E) (callTool e x tool action input ctx)"
  unfolding callTool_def insertToolCall_def failCall_def
  by (intro keeps preserves_onError execs_onDB execs_runTool execs_blobs)

lemma execs_executeStep: "preserves (\<lambda>w. xExecs w = E) (executeStep e x ctx p)"
  unfolding executeStep_def recordEvidence_def Let_def
  by (intro keeps execs_callTool execs_blobs execs_onDB)

lemma execs_tryRollback: "preserves (\<lambda>w. xExecs w = E) (tryRollback e x ctx p)"
  unfolding tryRollback_def Let_def by (intro keeps execs_callTool)

lemma execs_forSteps:
  assumes "\<And>p. preserves I (run p)" "I w" "forSteps run ps w = (r, w')"
  shows "I w'"
  using assms(2,3)
proof (induction ps arbitrary: w)
  case Nil
  then show ?case by simp
next
  case (Cons p ps)
  obtain r1 w1 where 1: "run p w = (r1, w1)" by fastforce
  with assms(1) Cons.prems(1) have "I w1" by (metis preserves_run)
  with 1 Cons show ?case by (cases r1) auto
qed

lemma loads_silent: "silent (loadContext p)" "silent (loadSteps p)"
  unfolding loadContext_def loadSteps_def
  by (intro silent_bindS silent_onDB; auto simp: silent_def okS_def tryS_def split: option.splits)+

lemma onError_Inr: "onError m f w = (Inr x, w') \<longleftrightarrow> m w = (Inr x, w')"
  by (auto simp: onError_def split: prod.splits sum.splits)

lemma onDB_Inr: "onDB m w = (Inr x, w') \<longleftrightarrow> (\<exists>d. m (xDB w) = (Inr x, d) \<and> w' = w\<lparr>xDB := d\<rparr>)"
  by (auto simp: onDB_def split: prod.splits)

lemma UpdateExecutionStatus_ok:
  "UpdateExecutionStatus x s d = (Inr (), d') \<Longrightarrow>
   tables d' = updateExec (\<lambda>r. ErID r = x) (\<lambda>r. r\<lparr>ErStatus := s\<rparr>) (tables d)"
  by (auto simp: UpdateExecutionStatus_def execute_ok)

text \<open>
  The three parts of \<open>executePlan\<close>: marking the execution as running, loading, and the run
  proper, which for a stored plan has act steps only.
\<close>

lemma planSteps_updateExec [simp]:
  "planSteps (updateExec p f t) q = planSteps t q" "planContext (updateExec p f t) q = planContext t q"
  by (simp_all add: planSteps_def planContext_def updateExec_def)

definition runPlan :: "Executor \<Rightarrow> string \<Rightarrow> ContextRef \<Rightarrow> PlanStep list \<Rightarrow> (World, unit) op" where
  "runPlan e x ctx steps w =
    (case forSteps (executeStep e x ctx) steps w of
       (Some (step, err), w1) \<Rightarrow>
         (let (r, w2) = tryRollback e x ctx step w1 in
          (Inl err, dropS (onDB (CompleteExecution x (if isOk r then ''rolled_back'' else ''failed''))) w2))
     | (None, w1) \<Rightarrow> onDB (CompleteExecution x ''succeeded'') w1)"

lemma executePlan_cases:
  assumes "executePlan e ref w = (r, w')"
  defines "x \<equiv> RefExecutionID ref" and "p \<equiv> RefPlanID ref"
  shows "(\<exists>err. r = Inl err \<and> xCalls w' = xCalls w) \<or>
    (\<exists>w1. runPlan e x (planContext (tables (xDB w)) p) (planSteps (tables (xDB w)) p) w1 = (r, w') \<and>
       xCalls w1 = xCalls w \<and>
       tables (xDB w1) = updateExec (\<lambda>r. ErID r = x) (\<lambda>r. r\<lparr>ErStatus := ''running''\<rparr>) (tables (xDB w)))"
proof (cases "TrimSpace x = [] \<or> TrimSpace p = []")
  case True
  then show ?thesis using assms(1) by (auto simp: executePlan_def failS_def x_def p_def Let_def)
next
  case False
  let ?fail = "onDB (CompleteExecution x ''failed'')"
  obtain r1 w1 where 1: "onDB (UpdateExecutionStatus x ''running'') w = (r1, w1)" by fastforce
  obtain r2 w2 where 2: "onError (loadContext p) ?fail w1 = (r2, w2)" by fastforce
  obtain r3 w3 where 3: "onError (loadSteps p) ?fail w2 = (r3, w3)" by fastforce
  have c1: "xCalls w1 = xCalls w" using 1 by (rule silentD [OF silent_onDB])
  have c2: "xCalls w2 = xCalls w1"
    using 2 by (rule silentD [OF silent_onError [OF loads_silent(1) silent_onDB]])
  have c3: "xCalls w3 = xCalls w2"
    using 3 by (rule silentD [OF silent_onError [OF loads_silent(2) silent_onDB]])
  note run = assms(1) [unfolded executePlan_def Let_def, folded x_def p_def]
  show ?thesis
  proof (cases "isOk r1 \<and> isOk r2 \<and> isOk r3")
    case True
    then obtain ctx steps where ok: "r1 = Inr ()" "r2 = Inr ctx" "r3 = Inr steps"
      by (auto simp: isOk_iff)
    have t1: "tables (xDB w1) = updateExec (\<lambda>r. ErID r = x) (\<lambda>r. r\<lparr>ErStatus := ''running''\<rparr>) (tables (xDB w))"
      using 1 ok by (auto simp: onDB_Inr dest: UpdateExecutionStatus_ok)
    have l2: "loadContext p w1 = (Inr ctx, w2)" using 2 ok by (simp add: onError_Inr)
    have l3: "loadSteps p w2 = (Inr steps, w3)" using 3 ok by (simp add: onError_Inr)
    have t2: "tables (xDB w2) = tables (xDB w1)"
      using l2 by (auto simp: loadContext_def bindS_eq_Inr onDB_Inr GetPlan_def query_ok okS_def
          split: option.splits)
    have t3: "tables (xDB w3) = tables (xDB w2)"
      using l3 by (auto simp: loadSteps_def bindS_eq_Inr onDB_Inr ListPlanSteps_def query_ok tryS_def)
    have ctx: "ctx = planContext (tables (xDB w)) p" using loadContext_ok [OF l2] t1 by simp
    have steps: "steps = planSteps (tables (xDB w)) p" using loadSteps_ok [OF l3] t1 t2 by simp
    have "runPlan e x ctx steps w3 = (r, w')"
      using run False 1 2 3 ok split_planSteps [of "tables (xDB w)" p]
      by (auto simp: bindS_def runPlan_def steps split: prod.splits option.splits)
    then show ?thesis using ctx steps c1 c2 c3 t1 t2 t3 by auto
  next
    case False
    then show ?thesis
      using run \<open>\<not> (TrimSpace x = [] \<or> TrimSpace p = [])\<close> 1 2 3 c1 c2 c3
      by (cases r1; cases r2; cases r3) (auto simp: bindS_def)
  qed
qed

lemma CompleteExecution_tables:
  assumes "CompleteExecution x s d = (r, d')"
  shows "if isOk r then \<exists>now. tables d' = updateExec (\<lambda>q. ErID q = x)
           (\<lambda>q. q\<lparr>ErStatus := s, ErCompletedAt := Some now\<rparr>) (tables d)
         else tables d' = tables d"
  using assms
  by (auto simp: CompleteExecution_def failS_def bindS_def timeNow_def execute_def Let_def
      split: if_splits option.splits)

lemma updateExec_row:
  "q \<in> set (execsT (updateExec p f t)) \<Longrightarrow> \<exists>r\<in>set (execsT t). q = (if p r then f r else r)"
  unfolding updateExec_def by (auto simp: image_iff)

lemma CompleteExecution_rows:
  assumes "onDB (CompleteExecution x s) w = (r, w')"
  shows "\<forall>q\<in>set (xExecs w'). ErID q = x \<longrightarrow> ErStatus q = s \<or> \<not> isOk r \<and> q \<in> set (xExecs w)"
    and "xCalls w' = xCalls w"
proof -
  obtain d where d: "CompleteExecution x s (xDB w) = (r, d)" "w' = w\<lparr>xDB := d\<rparr>"
    using assms by (auto simp: onDB_def split: prod.splits)
  show "\<forall>q\<in>set (xExecs w'). ErID q = x \<longrightarrow> ErStatus q = s \<or> \<not> isOk r \<and> q \<in> set (xExecs w)"
  proof (cases "isOk r")
    case True
    then obtain now where t: "tables d = updateExec (\<lambda>q. ErID q = x)
        (\<lambda>q. q\<lparr>ErStatus := s, ErCompletedAt := Some now\<rparr>) (tables (xDB w))"
      using CompleteExecution_tables [OF d(1)] by auto
    have "ErStatus q = s" if q: "q \<in> set (execsT (tables d))" "ErID q = x" for q
    proof -
      obtain r where r: "q = (if ErID r = x then r\<lparr>ErStatus := s, ErCompletedAt := Some now\<rparr> else r)"
        using updateExec_row [OF q(1) [unfolded t]] by blast
      show ?thesis
      proof (cases "ErID r = x")
        case True
        with r show ?thesis by simp
      next
        case False
        with r q(2) show ?thesis by simp
      qed
    qed
    with d(2) show ?thesis by simp
  next
    case False
    then show ?thesis using CompleteExecution_tables [OF d(1)] d(2) by simp
  qed
  show "xCalls w' = xCalls w" using d by simp
qed

lemma runPlan_ok:
  assumes "runPlan e x ctx steps w = (Inr (), w')"
  shows "xOps w' = xOps w @ map (stepOp ctx x) steps"
    and "\<forall>q\<in>set (xExecs w'). ErID q = x \<longrightarrow> ErStatus q = ''succeeded''"
proof -
  obtain w1 where 1: "forSteps (executeStep e x ctx) steps w = (None, w1)"
    and 2: "onDB (CompleteExecution x ''succeeded'') w1 = (Inr (), w')"
    using assms by (auto simp: runPlan_def Let_def split: prod.splits option.splits)
  show "xOps w' = xOps w @ map (stepOp ctx x) steps"
    using executor.forSteps_ok [OF 1] CompleteExecution_rows(2) [OF 2] by (auto simp: inOrder_once)
  show "\<forall>q\<in>set (xExecs w'). ErID q = x \<longrightarrow> ErStatus q = ''succeeded''"
    using CompleteExecution_rows(1) [OF 2] by auto
qed

lemma runPlan_fail:
  assumes "runPlan e x ctx steps w = (Inl err, w')"
  shows "xOps w' = xOps w @ map (stepOp ctx x) steps \<or>
    (\<exists>pre p post n k. steps = pre @ p # post \<and> n \<le> 1 \<and> k \<le> 1 \<and>
       xOps w' = xOps w @ map (stepOp ctx x) pre @ replicate n (stepOp ctx x p)
                 @ replicate k (rollbackOp ctx x p))"
proof (cases "forSteps (executeStep e x ctx) steps w")
  case (Pair res w1)
  show ?thesis
  proof (cases res)
    case None
    with Pair assms have "onDB (CompleteExecution x ''succeeded'') w1 = (Inl err, w')"
      by (simp add: runPlan_def)
    then have "xCalls w' = xCalls w1" by (rule CompleteExecution_rows(2))
    moreover obtain t where "xOps w1 = xOps w @ t" "inOrder 1 1 (map (stepOp ctx x) steps) t"
      using executor.forSteps_ok [of e x ctx steps w w1] Pair None by auto
    ultimately show ?thesis by (simp add: inOrder_once)
  next
    case (Some pe)
    obtain p err' where pe: "pe = (p, err')" by (cases pe)
    obtain r w2 where 2: "tryRollback e x ctx p w1 = (r, w2)" by fastforce
    have "xCalls w' = xCalls w2"
      using assms Pair Some pe 2 silent_onDB by (auto simp: runPlan_def dropS_def silent_def split: if_splits)
    moreover obtain k where "k \<le> 1" "xOps w2 = xOps w1 @ replicate k (rollbackOp ctx x p)"
      using tryRollback_calls [of e x ctx p w1] 2 by auto
    moreover obtain pre post t n where "steps = pre @ p # post" "xOps w1 = xOps w @ t @ replicate n (stepOp ctx x p)"
      "inOrder 1 1 (map (stepOp ctx x) pre) t" "n \<le> 1"
      using executor.forSteps_fail Pair Some pe by metis
    ultimately have "steps = pre @ p # post" "n \<le> 1" "k \<le> 1"
      "xOps w' = xOps w @ map (stepOp ctx x) pre @ replicate n (stepOp ctx x p)
         @ replicate k (rollbackOp ctx x p)" by (auto simp: inOrder_once)
    then show ?thesis by blast
  qed
qed

text \<open>On failure no execution row turns into \<open>succeeded\<close>.\<close>

lemma runPlan_fail_status:
  assumes "runPlan e x ctx steps w = (Inl err, w')" "q \<in> set (xExecs w')" "ErID q = x"
    "ErStatus q = ''succeeded''"
  shows "q \<in> set (xExecs w)"
proof (cases "forSteps (executeStep e x ctx) steps w")
  case (Pair res w1)
  have 1: "xExecs w1 = xExecs w" using execs_forSteps [OF execs_executeStep refl Pair] by simp
  show ?thesis
  proof (cases res)
    case None
    with Pair assms(1) have 2: "onDB (CompleteExecution x ''succeeded'') w1 = (Inl err, w')"
      by (simp add: runPlan_def)
    then have "xExecs w' = xExecs w1"
      using CompleteExecution_tables by (fastforce simp: onDB_def split: prod.splits)
    with assms(2) 1 show ?thesis by simp
  next
    case (Some pe)
    obtain p err' where pe: "pe = (p, err')" by (cases pe)
    obtain r w2 where 2: "tryRollback e x ctx p w1 = (r, w2)" by fastforce
    have "xExecs w2 = xExecs w1" using preserves_run [OF execs_tryRollback refl 2] by simp
    moreover obtain s r' where "s \<in> {''rolled_back'', ''failed''}"
      "onDB (CompleteExecution x s) w2 = (r', w')"
      using assms(1) Pair Some pe 2
      by (auto simp: runPlan_def dropS_def split: if_splits) (metis prod.collapse)+
    ultimately show ?thesis using CompleteExecution_rows(1) assms(2-4) 1 by fastforce
  qed
qed

end
