(* ===== verification/Workflow_Catalog.thy ===== *)
theory Workflow_Catalog
  imports Tool_Validate Tool_Policy
begin

text \<open>
  The workflow catalogue, which the repository has twice: \<open>internal/web/workflow_catalog.go\<close>
  builds the plan the gateway stores, \<open>internal/workflows/workflow_templates.go\<close> the steps the
  Temporal workflows run. Both are modelled, each from its own file; the helpers
  \<open>stringValue\<close>, \<open>intValue\<close> and \<open>rollbackStep\<close> are the same text in both.
\<close>

section \<open>Helpers\<close>

definition stringValue :: "gmap \<Rightarrow> string list \<Rightarrow> string" where
  "stringValue m keys =
    (case filter (\<lambda>k. TrimSpace (gstr m k) \<noteq> []) keys of [] \<Rightarrow> [] | k # _ \<Rightarrow> TrimSpace (gstr m k))"

definition intValue :: "gmap \<Rightarrow> string \<Rightarrow> int option" where
  "intValue m key =
    (case gget m key of
       GInt n \<Rightarrow> Some n
     | GInt64 n \<Rightarrow> Some n
     | GFloat r \<Rightarrow> Some (intOfFloat r)
     | _ \<Rightarrow> None)"

definition rollbackStep :: "string \<Rightarrow> string \<Rightarrow> gmap \<Rightarrow> bool \<Rightarrow> gval" where
  "rollbackStep tool action input enabled =
    (if \<not> enabled then GNil
     else GMap [(''tool'', GStr tool), (''action'', GStr action), (''input'', GMap input)])"

section \<open>The gateway's catalogue\<close>

record WorkflowTemplate =
  TplName :: string
  TplDescription :: string
  TplRisk :: string

definition workflowCatalog :: "WorkflowTemplate list" where
  "workflowCatalog =
     [\<lparr>TplName = ''gitops_deploy'',
       TplDescription = ''Argo CD deploy with dry-run, sync, verify, annotate'', TplRisk = ''medium''\<rparr>,
      \<lparr>TplName = ''helm_release'',
       TplDescription = ''Helm upgrade/rollback with verify and annotate'', TplRisk = ''medium''\<rparr>,
      \<lparr>TplName = ''scale_service'',
       TplDescription = ''Scale workloads with rollout verify'', TplRisk = ''low''\<rparr>,
      \<lparr>TplName = ''incident_remediation'',
       TplDescription = ''Diagnose + remediate incidents with evidence'', TplRisk = ''medium''\<rparr>,
      \<lparr>TplName = ''secret_rotation'',
       TplDescription = ''Rotate secrets and verify health'', TplRisk = ''high''\<rparr>]"

definition findWorkflowTemplate :: "string \<Rightarrow> WorkflowTemplate option" where
  "findWorkflowTemplate name = find (\<lambda>wf. TplName wf = name) workflowCatalog"

definition buildGitOpsDeploy :: "gmap \<Rightarrow> (string \<times> PlanStep list) result" where
  "buildGitOpsDeploy input =
    (let app = stringValue input [''argocd_app'', ''app''];
         service = stringValue input [''service'']; revision = stringValue input [''revision''];
         promql = stringValue input [''promql'']; text = stringValue input [''annotation''];
         text = (if text = [] then
                   (if service \<noteq> [] then ''GitOps deploy '' @ service else ''GitOps deploy '' @ app)
                 else text) in
     if app = [] then Inl ''argocd_app required''
     else Inr
       (''GitOps deploy'' @ (if service \<noteq> [] then '' '' @ service else []),
        [mkStep [] ''sync-dry-run'' ''argocd'' (GMap [(''app'', GStr app)]) GNil,
         mkStep [] ''sync-preview'' ''argocd'' (GMap [(''app'', GStr app)]) GNil,
         mkStep [] ''sync'' ''argocd'' (GMap [(''app'', GStr app)])
           (rollbackStep ''argocd'' ''rollback''
              [(''app'', GStr app), (''revision'', GStr revision)] (revision \<noteq> [])),
         mkStep ''verify'' ''wait'' ''argocd'' (GMap [(''app'', GStr app)]) GNil]
        @ (if promql \<noteq> [] then
             [mkStep ''verify'' ''query'' ''prometheus'' (GMap [(''query'', GStr promql)]) GNil] else [])
        @ [mkStep [] ''annotate'' ''grafana''
             (GMap [(''text'', GStr text), (''tags'', GStrs [''gitops'', ''deploy''])]) GNil]))"

definition buildHelmRelease :: "gmap \<Rightarrow> (string \<times> PlanStep list) result" where
  "buildHelmRelease input =
    (let release = stringValue input [''release'']; chart = stringValue input [''chart''];
         strategy = stringValue input [''strategy'']; namespace = stringValue input [''namespace''];
         promql = stringValue input [''promql'']; text = stringValue input [''annotation''];
         valuesRef = gget input ''values_ref'';
         text = (if text = [] then ''Helm release '' @ release else text);
         target = [(''release'', GStr release), (''namespace'', GStr namespace)];
         rollout = stringValue input [''rollout_resource''] in
     if release = [] then Inl ''release required''
     else Inr
       (''Helm release '' @ release,
        [mkStep [] ''status'' ''helm'' (GMap target) GNil]
        @ (if EqualFold strategy ''rollback''
           then [mkStep [] ''rollback'' ''helm'' (GMap target) GNil]
           else [mkStep [] ''upgrade'' ''helm''
                   (GMap (target @ (if chart \<noteq> [] then [(''chart'', GStr chart)] else [])
                     @ (if valuesRef \<noteq> GNil then [(''values_ref'', valuesRef)] else [])))
                   (rollbackStep ''helm'' ''rollback'' target True)])
        @ [mkStep ''verify'' ''status'' ''helm'' (GMap target) GNil]
        @ (if rollout \<noteq> [] then
             [mkStep ''verify'' ''rollout-status'' ''kubectl'' (GMap [(''resource'', GStr rollout)]) GNil]
           else [])
        @ (if promql \<noteq> [] then
             [mkStep ''verify'' ''query'' ''prometheus'' (GMap [(''query'', GStr promql)]) GNil] else [])
        @ [mkStep [] ''annotate'' ''grafana''
             (GMap [(''text'', GStr text), (''tags'', GStrs [''helm'', ''deploy''])]) GNil]))"

definition buildScaleService :: "gmap \<Rightarrow> (string \<times> PlanStep list) result" where
  "buildScaleService input =
    (let resource = stringValue input [''resource'', ''service''] in
     if resource = [] then Inl ''resource required''
     else case intValue input ''replicas'' of
       None \<Rightarrow> Inl ''replicas required''
     | Some replicas \<Rightarrow>
        (let current = (case intValue input ''current_replicas'' of None \<Rightarrow> 0 | Some n \<Rightarrow> n);
             previous = (case intValue input ''previous_replicas'' of None \<Rightarrow> 0 | Some n \<Rightarrow> n);
             promql = stringValue input [''promql'']; text = stringValue input [''annotation''];
             summary = ''Scale '' @ resource @ '' to '' @ showInt replicas;
             text = (if text = [] then summary else text) in
         Inr (summary,
           [mkStep [] ''scale'' ''kubectl''
              (GMap ([(''resource'', GStr resource), (''replicas'', GInt replicas)]
                 @ (if current > 0 then [(''current_replicas'', GInt current)] else [])))
              (rollbackStep ''kubectl'' ''scale''
                 [(''resource'', GStr resource), (''replicas'', GInt previous)] (previous > 0)),
            mkStep ''verify'' ''rollout-status'' ''kubectl'' (GMap [(''resource'', GStr resource)]) GNil]
           @ (if promql \<noteq> [] then
                [mkStep ''verify'' ''query'' ''prometheus'' (GMap [(''query'', GStr promql)]) GNil] else [])
           @ [mkStep [] ''annotate'' ''grafana''
                (GMap [(''text'', GStr text), (''tags'', GStrs [''scale''])]) GNil])))"

definition buildIncidentRemediation :: "gmap \<Rightarrow> (string \<times> PlanStep list) result" where
  "buildIncidentRemediation input =
    (let service = stringValue input [''service'']; promql = stringValue input [''promql''];
         traceID = stringValue input [''trace_id'']; traceQL = stringValue input [''traceql''];
         text = stringValue input [''annotation''];
         text = (if text = [] then
                   (if service \<noteq> [] then ''Incident remediation '' @ service else ''Incident remediation'')
                 else text) in
     Inr
       (''Incident remediation'' @ (if service \<noteq> [] then '' '' @ service else []),
        [mkStep ''verify'' ''rules'' ''prometheus'' (GMap []) GNil]
        @ (if promql \<noteq> [] then
             [mkStep ''verify'' ''query'' ''prometheus'' (GMap [(''query'', GStr promql)]) GNil] else [])
        @ (if traceQL \<noteq> [] then
             [mkStep ''verify'' ''traceql'' ''tempo'' (GMap [(''query'', GStr traceQL)]) GNil] else [])
        @ (if traceID \<noteq> [] then
             [mkStep ''verify'' ''trace_by_id'' ''tempo'' (GMap [(''trace_id'', GStr traceID)]) GNil] else [])
        @ (case gget input ''remediation'' of
             GMap remediation \<Rightarrow>
              (let tool = stringValue remediation [''tool'']; action = stringValue remediation [''action''] in
               if tool \<noteq> [] \<and> action \<noteq> [] then
                 [mkStep [] action tool (gget remediation ''input'') (gget remediation ''rollback'')]
               else [])
           | _ \<Rightarrow> [])
        @ [mkStep [] ''annotate'' ''grafana''
             (GMap [(''text'', GStr text), (''tags'', GStrs [''incident''])]) GNil]))"

definition buildSecretRotation :: "gmap \<Rightarrow> (string \<times> PlanStep list) result" where
  "buildSecretRotation input =
    (let secret = stringValue input [''secret_path''];
         argocdApp = stringValue input [''argocd_app'', ''app''];
         promql = stringValue input [''promql'']; text = stringValue input [''annotation''];
         text = (if text = [] then ''Secret rotation '' @ secret else text) in
     if secret = [] then Inl ''secret_path required''
     else Inr
       (''Secret rotation'' @ (if secret \<noteq> [] then '' '' @ secret else []),
        [mkStep [] ''renew'' ''vault'' (GMap [(''lease_id'', GStr secret)]) GNil,
         mkStep [] ''revoke'' ''vault'' (GMap [(''lease_id'', GStr secret)]) GNil]
        @ (if argocdApp \<noteq> [] then
             [mkStep [] ''sync'' ''argocd'' (GMap [(''app'', GStr argocdApp)]) GNil] else [])
        @ (if promql \<noteq> [] then
             [mkStep ''verify'' ''query'' ''prometheus'' (GMap [(''query'', GStr promql)]) GNil] else [])
        @ [mkStep [] ''annotate'' ''grafana''
             (GMap [(''text'', GStr text), (''tags'', GStrs [''secret'', ''rotation''])]) GNil]))"

definition buildWorkflowPlan :: "string \<Rightarrow> gmap \<Rightarrow> (string \<times> PlanStep list) result" where
  "buildWorkflowPlan name input =
    (if name = ''gitops_deploy'' then buildGitOpsDeploy input
     else if name = ''helm_release'' then buildHelmRelease input
     else if name = ''scale_service'' then buildScaleService input
     else if name = ''incident_remediation'' then buildIncidentRemediation input
     else if name = ''secret_rotation'' then buildSecretRotation input
     else Inl ''unknown workflow'')"

section \<open>The templates of the Temporal workflows\<close>

definition buildGitOpsDeploySteps :: "gmap \<Rightarrow> (string \<times> PlanStep list) result" where
  "buildGitOpsDeploySteps input =
    (let app = stringValue input [''argocd_app'', ''app''];
         service = stringValue input [''service'']; revision = stringValue input [''revision''];
         promql = stringValue input [''promql'']; text = stringValue input [''annotation''];
         text = (if text = [] then
                   (if service \<noteq> [] then ''GitOps deploy '' @ service else ''GitOps deploy '' @ app)
                 else text) in
     if app = [] then Inl ''argocd_app required''
     else Inr
       (''GitOps deploy'' @ (if service \<noteq> [] then '' '' @ service else []),
        [mkStep [] ''sync-dry-run'' ''argocd'' (GMap [(''app'', GStr app)]) GNil,
         mkStep [] ''sync-preview'' ''argocd'' (GMap [(''app'', GStr app)]) GNil,
         mkStep [] ''sync'' ''argocd'' (GMap [(''app'', GStr app)])
           (rollbackStep ''argocd'' ''rollback''
              [(''app'', GStr app), (''revision'', GStr revision)] (revision \<noteq> [])),
         mkStep ''verify'' ''wait'' ''argocd'' (GMap [(''app'', GStr app)]) GNil]
        @ (if promql \<noteq> [] then
             [mkStep ''verify'' ''query'' ''prometheus'' (GMap [(''query'', GStr promql)]) GNil] else [])
        @ [mkStep [] ''annotate'' ''grafana''
             (GMap [(''text'', GStr text), (''tags'', GStrs [''gitops'', ''deploy''])]) GNil]))"

definition buildHelmReleaseSteps :: "gmap \<Rightarrow> (string \<times> PlanStep list) result" where
  "buildHelmReleaseSteps input =
    (let release = stringValue input [''release'']; chart = stringValue input [''chart''];
         strategy = stringValue input [''strategy'']; namespace = stringValue input [''namespace''];
         promql = stringValue input [''promql'']; text = stringValue input [''annotation''];
         valuesRef = gget input ''values_ref'';
         text = (if text = [] then ''Helm release '' @ release else text);
         target = [(''release'', GStr release), (''namespace'', GStr namespace)];
         rollout = stringValue input [''rollout_resource''] in
     if release = [] then Inl ''release required''
     else Inr
       (''Helm release '' @ release,
        [mkStep [] ''status'' ''helm'' (GMap target) GNil]
        @ (if EqualFold strategy ''rollback''
           then [mkStep [] ''rollback'' ''helm'' (GMap target) GNil]
           else [mkStep [] ''upgrade'' ''helm''
                   (GMap (target @ (if chart \<noteq> [] then [(''chart'', GStr chart)] else [])
                     @ (if valuesRef \<noteq> GNil then [(''values_ref'', valuesRef)] else [])))
                   (rollbackStep ''helm'' ''rollback'' target True)])
        @ [mkStep ''verify'' ''status'' ''helm'' (GMap target) GNil]
        @ (if rollout \<noteq> [] then
             [mkStep ''verify'' ''rollout-status'' ''kubectl'' (GMap [(''resource'', GStr rollout)]) GNil]
           else [])
        @ (if promql \<noteq> [] then
             [mkStep ''verify'' ''query'' ''prometheus'' (GMap [(''query'', GStr promql)]) GNil] else [])
        @ [mkStep [] ''annotate'' ''grafana''
             (GMap [(''text'', GStr text), (''tags'', GStrs [''helm'', ''deploy''])]) GNil]))"

definition buildScaleServiceSteps :: "gmap \<Rightarrow> (string \<times> PlanStep list) result" where
  "buildScaleServiceSteps input =
    (let resource = stringValue input [''resource'', ''service''] in
     if resource = [] then Inl ''resource required''
     else case intValue input ''replicas'' of
       None \<Rightarrow> Inl ''replicas required''
     | Some replicas \<Rightarrow>
        (let current = (case intValue input ''current_replicas'' of None \<Rightarrow> 0 | Some n \<Rightarrow> n);
             previous = (case intValue input ''previous_replicas'' of None \<Rightarrow> 0 | Some n \<Rightarrow> n);
             promql = stringValue input [''promql'']; text = stringValue input [''annotation''];
             summary = ''Scale '' @ resource @ '' to '' @ showInt replicas;
             text = (if text = [] then summary else text) in
         Inr (summary,
           [mkStep [] ''scale'' ''kubectl''
              (GMap ([(''resource'', GStr resource), (''replicas'', GInt replicas)]
                 @ (if current > 0 then [(''current_replicas'', GInt current)] else [])))
              (rollbackStep ''kubectl'' ''scale''
                 [(''resource'', GStr resource), (''replicas'', GInt previous)] (previous > 0)),
            mkStep ''verify'' ''rollout-status'' ''kubectl'' (GMap [(''resource'', GStr resource)]) GNil]
           @ (if promql \<noteq> [] then
                [mkStep ''verify'' ''query'' ''prometheus'' (GMap [(''query'', GStr promql)]) GNil] else [])
           @ [mkStep [] ''annotate'' ''grafana''
                (GMap [(''text'', GStr text), (''tags'', GStrs [''scale''])]) GNil])))"

definition buildIncidentRemediationSteps :: "gmap \<Rightarrow> (string \<times> PlanStep list) result" where
  "buildIncidentRemediationSteps input =
    (let service = stringValue input [''service'']; promql = stringValue input [''promql''];
         traceID = stringValue input [''trace_id'']; traceQL = stringValue input [''traceql''];
         text = stringValue input [''annotation''];
         text = (if text = [] then
                   (if service \<noteq> [] then ''Incident remediation '' @ service else ''Incident remediation'')
                 else text) in
     Inr
       (''Incident remediation'' @ (if service \<noteq> [] then '' '' @ service else []),
        [mkStep ''verify'' ''rules'' ''prometheus'' (GMap []) GNil]
        @ (if promql \<noteq> [] then
             [mkStep ''verify'' ''query'' ''prometheus'' (GMap [(''query'', GStr promql)]) GNil] else [])
        @ (if traceQL \<noteq> [] then
             [mkStep ''verify'' ''traceql'' ''tempo'' (GMap [(''query'', GStr traceQL)]) GNil] else [])
        @ (if traceID \<noteq> [] then
             [mkStep ''verify'' ''trace_by_id'' ''tempo'' (GMap [(''trace_id'', GStr traceID)]) GNil] else [])
        @ (case gget input ''remediation'' of
             GMap remediation \<Rightarrow>
              (let tool = stringValue remediation [''tool'']; action = stringValue remediation [''action''] in
               if tool \<noteq> [] \<and> action \<noteq> [] then
                 [mkStep [] action tool (gget remediation ''input'') (gget remediation ''rollback'')]
               else [])
           | _ \<Rightarrow> [])
        @ [mkStep [] ''annotate'' ''grafana''
             (GMap [(''text'', GStr text), (''tags'', GStrs [''incident''])]) GNil]))"

definition buildSecretRotationSteps :: "gmap \<Rightarrow> (string \<times> PlanStep list) result" where
  "buildSecretRotationSteps input =
    (let secret = stringValue input [''secret_path''];
         argocdApp = stringValue input [''argocd_app'', ''app''];
         promql = stringValue input [''promql'']; text = stringValue input [''annotation''];
         text = (if text = [] then ''Secret rotation '' @ secret else text) in
     if secret = [] then Inl ''secret_path required''
     else Inr
       (''Secret rotation'' @ (if secret \<noteq> [] then '' '' @ secret else []),
        [mkStep [] ''renew'' ''vault'' (GMap [(''lease_id'', GStr secret)]) GNil,
         mkStep [] ''revoke'' ''vault'' (GMap [(''lease_id'', GStr secret)]) GNil]
        @ (if argocdApp \<noteq> [] then
             [mkStep [] ''sync'' ''argocd'' (GMap [(''app'', GStr argocdApp)]) GNil] else [])
        @ (if promql \<noteq> [] then
             [mkStep ''verify'' ''query'' ''prometheus'' (GMap [(''query'', GStr promql)]) GNil] else [])
        @ [mkStep [] ''annotate'' ''grafana''
             (GMap [(''text'', GStr text), (''tags'', GStrs [''secret'', ''rotation''])]) GNil]))"

definition BuildWorkflowSteps :: "string \<Rightarrow> gmap \<Rightarrow> (string \<times> PlanStep list) result" where
  "BuildWorkflowSteps name input =
    (if name = ''gitops_deploy'' then buildGitOpsDeploySteps input
     else if name = ''helm_release'' then buildHelmReleaseSteps input
     else if name = ''scale_service'' then buildScaleServiceSteps input
     else if name = ''incident_remediation'' then buildIncidentRemediationSteps input
     else if name = ''secret_rotation'' then buildSecretRotationSteps input
     else Inl ''unknown workflow'')"

section \<open>Facts\<close>

lemmas web_builders =
  buildGitOpsDeploy_def buildHelmRelease_def buildScaleService_def buildIncidentRemediation_def
  buildSecretRotation_def

lemmas temporal_builders =
  buildGitOpsDeploySteps_def buildHelmReleaseSteps_def buildScaleServiceSteps_def
  buildIncidentRemediationSteps_def buildSecretRotationSteps_def

lemma builders_agree: "buildWorkflowPlan name input = BuildWorkflowSteps name input"
  unfolding buildWorkflowPlan_def BuildWorkflowSteps_def web_builders temporal_builders
  by (rule refl)

text \<open>The templates are exactly the workflows the builder knows.\<close>

lemma catalogue_complete:
  "findWorkflowTemplate name = None \<longleftrightarrow> buildWorkflowPlan name input = Inl ''unknown workflow''"
  by (auto simp: findWorkflowTemplate_def workflowCatalog_def buildWorkflowPlan_def web_builders Let_def
      split: option.splits)

end
