(* ===== verification/Temporal.thy ===== *)
theory Temporal
  imports Executor Workflow_Catalog
begin

text \<open>
  \<open>internal/workflows\<close> on Temporal: the activities of \<open>temporal_activities.go\<close>, the plan
  execution workflow of \<open>temporal_workflow.go\<close>, the catalogue workflows of
  \<open>temporal_catalog.go\<close>, and the direct workflows of \<open>workflows.go\<close> with their activities
  (\<open>activities.go\<close>, \<open>approvals.go\<close>, \<open>approval_check.go\<close>).

  The Temporal engine is outside the repository: \<open>workflow.ExecuteActivity(...).Get\<close> is a
  parameter \<open>engine\<close> that turns an activity into the operation the workflow sees. What the
  retry policy (\<open>MaximumAttempts: 5\<close>) documents is \<open>retriesUpTo 5\<close>: the activity has run at most
  five times, and a success reported to the workflow is the result of its last run.
\<close>

definition runTimes :: "('s, 'a) op \<Rightarrow> nat \<Rightarrow> 's \<Rightarrow> 's" where
  "runTimes m n = (dropS m ^^ n)"

definition retriesUpTo :: "nat \<Rightarrow> (('s, 'a) op \<Rightarrow> ('s, 'a) op) \<Rightarrow> bool" where
  "retriesUpTo k engine \<longleftrightarrow>
    (\<forall>m s. \<exists>n\<le>k. snd (engine m s) = runTimes m n s \<and>
       (\<forall>x. fst (engine m s) = Inr x \<longrightarrow> 1 \<le> n \<and> fst (m (runTimes m (n - 1) s)) = Inr x))"

section \<open>Activities\<close>

definition contextToTools :: "ContextRef \<Rightarrow> ContextRef" where
  "contextToTools ctxRef =
     \<lparr>TenantID = TenantID ctxRef, Environment = Environment ctxRef, ClusterID = ClusterID ctxRef,
      Namespace = Namespace ctxRef, AWSAccountID = AWSAccountID ctxRef, Region = Region ctxRef,
      ArgoCDProject = ArgoCDProject ctxRef, GrafanaOrgID = GrafanaOrgID ctxRef\<rparr>"

record StepActivityInput =
  SaPlanID :: string
  SaExecutionID :: string
  SaContext :: ContextRef
  SaStep :: PlanStep

text \<open>\<open>Activities.executor\<close> passes its own store, runtime and blob store on; \<open>e\<close> is that executor.\<close>

definition ExecuteStep :: "Executor \<Rightarrow> StepActivityInput \<Rightarrow> (World, unit) op" where
  "ExecuteStep e input =
    (if exRuntime e = None then failS ''runtime required''
     else executeStep e (SaExecutionID input) (contextToTools (SaContext input)) (SaStep input))"

definition RollbackStep :: "Executor \<Rightarrow> StepActivityInput \<Rightarrow> (World, unit) op" where
  "RollbackStep e input =
    (if exRuntime e = None then failS ''runtime required''
     else tryRollback e (SaExecutionID input) (contextToTools (SaContext input)) (SaStep input))"

definition errApprovalRequired :: string where
  "errApprovalRequired = ''approval required''"

definition CheckApproval :: "string \<Rightarrow> (World, unit) op" where
  "CheckApproval planID w =
    (case onDB (GetApprovalStatus planID) w of
       (Inl _, w') \<Rightarrow> (Inl errApprovalRequired, w')
     | (Inr status, w') \<Rightarrow>
         if status \<noteq> ''approved'' then (Inl errApprovalRequired, w') else (Inr (), w'))"

definition RequireApproval :: "string \<Rightarrow> (World, unit) op" where
  "RequireApproval planID = CheckApproval planID"

section \<open>The plan execution workflow\<close>

record PlanExecutionInput =
  PePlanID :: string
  PeExecutionID :: string
  PeContext :: ContextRef
  PeSteps :: "PlanStep list"

type_synonym engine = "(World, unit) op \<Rightarrow> (World, unit) op"

definition stepInput :: "string \<Rightarrow> string \<Rightarrow> ContextRef \<Rightarrow> PlanStep \<Rightarrow> StepActivityInput" where
  "stepInput planID executionID ctxRef step =
     \<lparr>SaPlanID = planID, SaExecutionID = executionID, SaContext = ctxRef, SaStep = step\<rparr>"

text \<open>
  From the split by stage on, the plan execution workflow and the catalogue workflows have
  the same text: the act steps, then the verify steps; a failed act step is rolled back
  alone, a failed verify step rolls back all act steps from the last to the first.
\<close>

definition workflowBody ::
  "engine \<Rightarrow> Executor \<Rightarrow> string \<Rightarrow> string \<Rightarrow> ContextRef \<Rightarrow> PlanStep list \<Rightarrow> (World, unit) op" where
  "workflowBody engine e planID execID ctxRef steps w =
    (let (actSteps, verifySteps) = splitStepsByStage steps;
         run = (\<lambda>step. engine (ExecuteStep e (stepInput planID execID ctxRef step)));
         undo = (\<lambda>step. engine (RollbackStep e (stepInput planID execID ctxRef step)));
         complete = (\<lambda>status. engine (onDB (CompleteExecution execID status))) in
     case forSteps run actSteps w of
       (Some (step, err), w1) \<Rightarrow> (Inl err, dropS (complete ''failed'') (dropS (undo step) w1))
     | (None, w1) \<Rightarrow>
        (case forSteps run verifySteps w1 of
           (Some (_, err), w2) \<Rightarrow>
             (Inl err, dropS (complete ''failed'') (dropS (rollbackSteps undo actSteps) w2))
         | (None, w2) \<Rightarrow> complete ''succeeded'' w2))"

definition PlanExecutionWorkflow :: "engine \<Rightarrow> Executor \<Rightarrow> PlanExecutionInput \<Rightarrow> (World, unit) op" where
  "PlanExecutionWorkflow engine e input =
    (if PeExecutionID input = [] then failS ''execution_id required''
     else bindS (engine (onDB (UpdateExecutionStatus (PeExecutionID input) ''running''))) (\<lambda>_.
       workflowBody engine e (PePlanID input) (PeExecutionID input) (PeContext input) (PeSteps input)))"

section \<open>The catalogue workflows\<close>

text \<open>\<open>engineS\<close> is the engine at the activity that returns the execution's identifier.\<close>

definition runWorkflowSteps ::
  "engine \<Rightarrow> ((World, string) op \<Rightarrow> (World, string) op) \<Rightarrow> Executor \<Rightarrow> string \<Rightarrow> ContextRef \<Rightarrow>
   PlanStep list \<Rightarrow> (World, unit) op" where
  "runWorkflowSteps engine engineS e planID ctxRef steps =
     bindS (engine (CheckApproval planID)) (\<lambda>_.
     bindS (engineS (onDB (CreateExecution planID))) (\<lambda>executionID.
     bindS (engine (onDB (UpdateExecutionStatus executionID ''running''))) (\<lambda>_.
     workflowBody engine e planID executionID ctxRef steps)))"

record DeployInput =
  DePlanID :: string
  DeService :: string
  DeArgoCDApp :: string
  DeContext :: ContextRef
  DeRevision :: string

record HelmInput =
  HePlanID :: string
  HeRelease :: string
  HeChart :: string
  HeValuesRef :: gval
  HeNamespace :: string
  HeContext :: ContextRef
  HeStrategy :: string

record ScaleInput =
  ScPlanID :: string
  ScService :: string
  ScCtx :: ContextRef
  ScReplicas :: int

record IncidentInput =
  InPlanID :: string
  InAlertID :: string
  InService :: string
  InCtx :: ContextRef

record SecretRotationInput =
  SePlanID :: string
  SeSecretPath :: string
  SeContext :: ContextRef
  SeTarget :: string

definition catalogWorkflow ::
  "engine \<Rightarrow> ((World, string) op \<Rightarrow> (World, string) op) \<Rightarrow> Executor \<Rightarrow> string \<Rightarrow> gmap \<Rightarrow> string \<Rightarrow> ContextRef \<Rightarrow>
   (World, unit) op" where
  "catalogWorkflow engine engineS e name input planID ctxRef =
    (case BuildWorkflowSteps name input of
       Inl err \<Rightarrow> failS err
     | Inr (_, steps) \<Rightarrow> runWorkflowSteps engine engineS e planID ctxRef steps)"

definition GitOpsDeployWorkflowTemporal where
  "GitOpsDeployWorkflowTemporal engine engineS e inp =
     catalogWorkflow engine engineS e ''gitops_deploy''
       [(''service'', GStr (DeService inp)), (''argocd_app'', GStr (DeArgoCDApp inp)),
        (''revision'', GStr (DeRevision inp))] (DePlanID inp) (DeContext inp)"

definition HelmReleaseWorkflowTemporal where
  "HelmReleaseWorkflowTemporal engine engineS e inp =
     catalogWorkflow engine engineS e ''helm_release''
       [(''release'', GStr (HeRelease inp)), (''chart'', GStr (HeChart inp)),
        (''values_ref'', HeValuesRef inp), (''namespace'', GStr (HeNamespace inp)),
        (''strategy'', GStr (HeStrategy inp))] (HePlanID inp) (HeContext inp)"

definition ScaleServiceWorkflowTemporal where
  "ScaleServiceWorkflowTemporal engine engineS e inp =
     catalogWorkflow engine engineS e ''scale_service''
       [(''service'', GStr (ScService inp)), (''replicas'', GInt (ScReplicas inp))]
       (ScPlanID inp) (ScCtx inp)"

definition IncidentRemediationWorkflowTemporal where
  "IncidentRemediationWorkflowTemporal engine engineS e inp =
     catalogWorkflow engine engineS e ''incident_remediation''
       [(''alert_id'', GStr (InAlertID inp)), (''service'', GStr (InService inp))]
       (InPlanID inp) (InCtx inp)"

definition SecretRotationWorkflowTemporal where
  "SecretRotationWorkflowTemporal engine engineS e inp =
     catalogWorkflow engine engineS e ''secret_rotation''
       [(''secret_path'', GStr (SeSecretPath inp)), (''target'', GStr (SeTarget inp))]
       (SePlanID inp) (SeContext inp)"

section \<open>The direct workflows\<close>

text \<open>\<open>Runtime.RunCLI\<close>: a request without identifiers or context. The router is there whenever
  the runtime is; a runtime without a sandbox is refused by \<open>Router.Execute\<close>. Without a runtime
  the code dereferences a nil pointer; the model returns an error and calls nothing.\<close>

definition RunCLI :: "Executor \<Rightarrow> string \<Rightarrow> string \<Rightarrow> gval \<Rightarrow> (World, string) op" where
  "RunCLI e tool action input w =
    (case exRuntime e of
       None \<Rightarrow> (Inl ''runtime required'', w)
     | Some rt \<Rightarrow>
        (let req = \<lparr>ReqTool = tool, ReqAction = action, ReqInput = input, ReqToolCallID = [],
                    ReqExecutionID = [], ReqContext = emptyContext\<rparr>;
             ((resp, err), st) = Execute (exEnv e (length (xCalls w))) (rtSandbox rt) req (xRouter w);
             w' = w\<lparr>xRouter := st, xCalls := xCalls w @ [req]\<rparr> in
         case err of Some m \<Rightarrow> (Inl m, w') | None \<Rightarrow> (Inr (RespOutput resp), w')))"

fun decodePayload :: "(string \<Rightarrow> gval option) \<Rightarrow> gval \<Rightarrow> gval result" where
  "decodePayload unm (GBytes b) =
    (if b = [] then Inr GNil
     else case unm b of None \<Rightarrow> Inl ''json: cannot unmarshal'' | Some v \<Rightarrow> Inr v)"
| "decodePayload unm v = Inr v"

definition runToolActivity :: "Executor \<Rightarrow> string \<Rightarrow> string \<Rightarrow> gval \<Rightarrow> (World, string) op" where
  "runToolActivity e tool action payload =
    (if exRuntime e = None then failS ''runtime required''
     else bindS (tryS (decodePayload (exUnmarshal e) payload)) (\<lambda>input. RunCLI e tool action input))"

definition andThen :: "('s, 'a) op \<Rightarrow> ('s, 'b) op \<Rightarrow> ('s, 'b) op" where
  "andThen m f = bindS m (\<lambda>_. f)"

definition ignoring :: "('s, 'a) op \<Rightarrow> ('s, 'b) op \<Rightarrow> ('s, 'b) op" where
  "ignoring m f s = f (dropS m s)"

definition GitOpsDeployWorkflow :: "Executor \<Rightarrow> DeployInput \<Rightarrow> (World, unit) op" where
  "GitOpsDeployWorkflow e inp =
    (let app = GStr (DeArgoCDApp inp);
         argo = (\<lambda>action. RunCLI e ''argocd'' action (GMap [(''app'', app)]));
         rollback = (if DeRevision inp \<noteq> []
           then bindS (RunCLI e ''argocd'' ''rollback''
                  (GMap [(''app'', app), (''revision'', GStr (DeRevision inp))])) (\<lambda>_. okS ())
           else okS ()) in
     andThen (RequireApproval (DePlanID inp))
       (andThen (argo ''sync-dry-run'')
         (ignoring (argo ''sync-preview'')
           (andThen (onError (argo ''sync'') rollback)
             (andThen (onError (argo ''wait'') rollback) (okS ()))))))"

definition HelmReleaseWorkflow :: "Executor \<Rightarrow> HelmInput \<Rightarrow> (World, unit) op" where
  "HelmReleaseWorkflow e inp =
    (let helm = (\<lambda>action. RunCLI e ''helm'' action (GMap [(''release'', GStr (HeRelease inp))])) in
     andThen (RequireApproval (HePlanID inp))
       (if HeStrategy inp = ''rollback'' then andThen (helm ''rollback'') (okS ())
        else andThen (onError (helm ''upgrade'') (andThen (helm ''rollback'') (okS ())))
               (ignoring (helm ''status'') (okS ()))))"

definition ScaleServiceWorkflow :: "Executor \<Rightarrow> ScaleInput \<Rightarrow> (World, unit) op" where
  "ScaleServiceWorkflow e inp =
     andThen (RequireApproval (ScPlanID inp))
       (andThen (RunCLI e ''kubectl'' ''scale''
           (GMap [(''resource'', GStr (ScService inp)), (''replicas'', GInt (ScReplicas inp))]))
         (andThen (RunCLI e ''kubectl'' ''rollout-status'' (GMap [(''resource'', GStr (ScService inp))]))
           (okS ())))"

definition IncidentRemediationWorkflow :: "Executor \<Rightarrow> IncidentInput \<Rightarrow> (World, unit) op" where
  "IncidentRemediationWorkflow e inp =
     andThen (RequireApproval (InPlanID inp))
       (ignoring (runToolActivity e ''prometheus'' ''rules'' (GMap []))
         (if InService inp \<noteq> []
          then ignoring (runToolActivity e ''prometheus'' ''query'' (GMap [(''query'', GStr ''up'')])) (okS ())
          else okS ()))"

definition SecretRotationWorkflow :: "Executor \<Rightarrow> SecretRotationInput \<Rightarrow> (World, unit) op" where
  "SecretRotationWorkflow e inp =
     andThen (RequireApproval (SePlanID inp))
       (if SeSecretPath inp = [] then okS ()
        else ignoring (runToolActivity e ''vault'' ''renew'' (GMap [(''lease_id'', GStr (SeSecretPath inp))]))
          (ignoring (runToolActivity e ''vault'' ''revoke'' (GMap [(''lease_id'', GStr (SeSecretPath inp))]))
            (okS ())))"

section \<open>Approval comes first\<close>

definition approved :: "DB \<Rightarrow> string \<Rightarrow> bool" where
  "approved d planID \<longleftrightarrow>
     (case latestApproval d planID of None \<Rightarrow> False | Some r \<Rightarrow> ArStatus r = ''approved'')"

text \<open>Nothing of the database's content and no tool call changed; statements may have been counted.\<close>

definition untouched :: "World \<Rightarrow> World \<Rightarrow> bool" where
  "untouched w w' \<longleftrightarrow> tables (xDB w') = tables (xDB w) \<and> tieBreak (xDB w') = tieBreak (xDB w) \<and>
     xCalls w' = xCalls w"

lemma untouched_refl [simp]: "untouched w w"
  by (simp add: untouched_def)

lemma untouched_trans: "untouched w w' \<Longrightarrow> untouched w' w'' \<Longrightarrow> untouched w w''"
  by (simp add: untouched_def)

lemma approved_untouched: "untouched w w' \<Longrightarrow> approved (xDB w') p = approved (xDB w) p"
  by (simp add: untouched_def approved_def latestApproval_def Let_def)

text \<open>What every workflow relies on from its approval check.\<close>

locale approval_gate =
  fixes check :: "string \<Rightarrow> (World, unit) op"
  assumes check_sound: "check p w = (Inr (), w') \<Longrightarrow> approved (xDB w) p"
    and check_quiet: "untouched w (snd (check p w))"
begin

lemma guarded:
  assumes "bindS (check p) (\<lambda>_. body) w = (r, w')" "\<not> approved (xDB w) p"
  shows "\<exists>e. r = Inl e" and "untouched w w'"
proof -
  obtain c w1 where 1: "check p w = (c, w1)" by fastforce
  then obtain e where "c = Inl e" using check_sound assms(2) by (cases c) auto
  then show "\<exists>e. r = Inl e" and "untouched w w'"
    using assms(1) 1 check_quiet [of w p] by (auto simp: bindS_def)
qed

end

lemma CheckApproval_sound: "CheckApproval p w = (Inr (), w') \<Longrightarrow> approved (xDB w) p"
  by (auto simp: CheckApproval_def onDB_def GetApprovalStatus_def query_def Let_def approved_def
      split: prod.splits sum.splits option.splits if_splits)

lemma CheckApproval_quiet: "untouched w (snd (CheckApproval p w))"
  by (auto simp: CheckApproval_def onDB_def GetApprovalStatus_def query_def Let_def untouched_def
      split: prod.splits sum.splits option.splits if_splits)

interpretation direct: approval_gate RequireApproval
  by unfold_locales (auto simp: RequireApproval_def CheckApproval_quiet dest: CheckApproval_sound)

lemma runTimes_Suc: "runTimes m (Suc n) s = runTimes m n (snd (m s))"
  by (simp add: runTimes_def dropS_def funpow_Suc_right del: funpow.simps)

lemma runTimes_0 [simp]: "runTimes m 0 s = s"
  by (simp add: runTimes_def)

lemma runTimes_untouched:
  assumes "\<And>w. untouched w (snd (m w))"
  shows "untouched w (runTimes m n w)"
proof (induction n arbitrary: w)
  case 0
  show ?case by simp
next
  case (Suc n)
  show ?case unfolding runTimes_Suc using Suc assms untouched_trans by blast
qed

lemma engine_gate:
  assumes "retriesUpTo k engine"
  shows "approval_gate (\<lambda>p. engine (CheckApproval p))"
proof
  fix p w w'
  obtain n where n: "snd (engine (CheckApproval p) w) = runTimes (CheckApproval p) n w"
    "\<And>x. fst (engine (CheckApproval p) w) = Inr x \<Longrightarrow>
       fst (CheckApproval p (runTimes (CheckApproval p) (n - 1) w)) = Inr x"
    using assms unfolding retriesUpTo_def by metis
  show "untouched w (snd (engine (CheckApproval p) w))"
    unfolding n(1) by (rule runTimes_untouched) (rule CheckApproval_quiet)
  assume "engine (CheckApproval p) w = (Inr (), w')"
  then have "fst (CheckApproval p (runTimes (CheckApproval p) (n - 1) w)) = Inr ()"
    using n(2) by simp
  then have "approved (xDB (runTimes (CheckApproval p) (n - 1) w)) p"
    using CheckApproval_sound by (metis prod.collapse)
  then show "approved (xDB w) p"
    using approved_untouched [OF runTimes_untouched [of "CheckApproval p", OF CheckApproval_quiet]] by simp
qed

lemma runWorkflowSteps_gated:
  assumes "retriesUpTo k engine" "\<not> approved (xDB w) planID"
    and "runWorkflowSteps engine engineS e planID ctx steps w = (r, w')"
  shows "\<exists>err. r = Inl err" and "untouched w w'"
  using approval_gate.guarded [OF engine_gate [OF assms(1)] assms(3) [unfolded runWorkflowSteps_def] assms(2)]
  by blast+

section \<open>The trace of a workflow\<close>

lemma runTimes_calls:
  assumes "\<And>w. \<exists>j\<le>1. xOps (snd (m w)) = xOps w @ replicate j a"
  shows "\<exists>j\<le>n. xOps (runTimes m n w) = xOps w @ replicate j a"
proof (induction n arbitrary: w)
  case 0
  show ?case by simp
next
  case (Suc n)
  obtain j where "j \<le> 1" "xOps (snd (m w)) = xOps w @ replicate j a" using assms by blast
  moreover obtain i where "i \<le> n" "xOps (runTimes m n (snd (m w))) = xOps (snd (m w)) @ replicate i a"
    using Suc by blast
  ultimately show ?case
    unfolding runTimes_Suc by (intro exI [of _ "j + i"]) (simp add: replicate_add)
qed

lemma runTimes_snoc: "1 \<le> n \<Longrightarrow> runTimes m n s = snd (m (runTimes m (n - 1) s))"
  by (cases n) (simp_all add: runTimes_def dropS_def)

lemma activity_step_runner:
  assumes "retriesUpTo k engine"
  shows "step_runner (\<lambda>p. engine (ExecuteStep e (stepInput planID x ctx p)))
     (\<lambda>p. engine (RollbackStep e (stepInput planID x ctx p)))
     xOps (stepOp (contextToTools ctx) x) (rollbackOp (contextToTools ctx) x) k"
proof -
  let ?run = "\<lambda>p. ExecuteStep e (stepInput planID x ctx p)"
  let ?undo = "\<lambda>p. RollbackStep e (stepInput planID x ctx p)"
  have run1: "\<exists>j\<le>1. xOps (snd (?run p w)) = xOps w @ replicate j (stepOp (contextToTools ctx) x p)" for p w
    using executeStep_calls [of e x "contextToTools ctx" p w]
    by (auto simp: ExecuteStep_def stepInput_def failS_def intro: exI [of _ 0])
  have undo1: "\<exists>j\<le>1. xOps (snd (?undo p w)) = xOps w @ replicate j (rollbackOp (contextToTools ctx) x p)" for p w
    using tryRollback_calls [of e x "contextToTools ctx" p w]
    by (auto simp: RollbackStep_def stepInput_def failS_def intro: exI [of _ 0])
  have eng: "\<exists>n\<le>k. snd (engine m s) = runTimes m n s \<and>
      (\<forall>x. fst (engine m s) = Inr x \<longrightarrow> 1 \<le> n \<and> fst (m (runTimes m (n - 1) s)) = Inr x)" for m s
    using assms by (simp add: retriesUpTo_def)
  show ?thesis
  proof
    fix p s
    show "\<exists>n\<le>k. xOps (snd (engine (?run p) s)) = xOps s @ replicate n (stepOp (contextToTools ctx) x p)"
    proof -
      obtain n where "n \<le> k" "snd (engine (?run p) s) = runTimes (?run p) n s"
        using eng [of "?run p" s] by blast
      moreover obtain j where "j \<le> n"
        "xOps (runTimes (?run p) n s) = xOps s @ replicate j (stepOp (contextToTools ctx) x p)"
        using runTimes_calls [of "?run p", OF run1] by blast
      ultimately show ?thesis by (intro exI [of _ j]) simp
    qed
    show "\<exists>n\<le>k. xOps (snd (engine (?undo p) s)) = xOps s @ replicate n (rollbackOp (contextToTools ctx) x p)"
    proof -
      obtain n where "n \<le> k" "snd (engine (?undo p) s) = runTimes (?undo p) n s"
        using eng [of "?undo p" s] by blast
      moreover obtain j where "j \<le> n"
        "xOps (runTimes (?undo p) n s) = xOps s @ replicate j (rollbackOp (contextToTools ctx) x p)"
        using runTimes_calls [of "?undo p", OF undo1] by blast
      ultimately show ?thesis by (intro exI [of _ j]) simp
    qed
  next
    fix p s s'
    assume ok: "engine (?run p) s = (Inr (), s')"
    then obtain n where n: "s' = runTimes (?run p) n s" "1 \<le> n"
      "fst (?run p (runTimes (?run p) (n - 1) s)) = Inr ()"
      using eng [of "?run p" s] by auto
    let ?t = "runTimes (?run p) (n - 1) s"
    have "length (xOps s) \<le> length (xOps ?t)"
      using runTimes_calls [of "?run p", OF run1, of "n - 1" s] by (metis le_add1 length_append)
    moreover have "length (xOps s') \<noteq> length (xOps ?t) \<and> length (xOps ?t) \<le> length (xOps s')"
    proof -
      have run: "?run p ?t = (Inr (), s')" using n runTimes_snoc [OF n(2)] by (metis prod.collapse)
      then have "executeStep e x (contextToTools ctx) p ?t = (Inr (), s')"
        by (auto simp: ExecuteStep_def stepInput_def failS_def split: if_splits)
      from executeStep_ok [OF this] have "xOps s' \<noteq> xOps ?t" .
      moreover obtain j where "xOps s' = xOps ?t @ replicate j (stepOp (contextToTools ctx) x p)"
        using run1 [of p ?t] run by auto
      ultimately show ?thesis by auto
    qed
    ultimately show "xOps s' \<noteq> xOps s" by fastforce
  qed
qed

lemma engine_silent:
  assumes "retriesUpTo k engine" "silent m"
  shows "silent (engine m)"
proof -
  have "xCalls (runTimes m n w) = xCalls w" for n w
    using assms(2) by (induction n arbitrary: w) (simp_all add: runTimes_Suc silent_def)
  then show ?thesis using assms(1) unfolding silent_def retriesUpTo_def by metis
qed

text \<open>
  Success: every act step ran in order, then every verify step, each up to \<open>k\<close> times; no
  rollback.
\<close>

lemma workflowBody_ok:
  assumes eng: "retriesUpTo k engine"
    and run: "workflowBody engine e planID x ctx steps w = (Inr (), w')"
    and split: "splitStepsByStage steps = (act, verify)"
  shows "\<exists>t. xOps w' = xOps w @ t \<and> inOrder 1 k (map (stepOp (contextToTools ctx) x) (act @ verify)) t"
proof -
  let ?run = "\<lambda>step. engine (ExecuteStep e (stepInput planID x ctx step))"
  note sr = activity_step_runner [OF eng, of e planID x ctx]
  from run split obtain w1 w2 where 1: "forSteps ?run act w = (None, w1)"
    and 2: "forSteps ?run verify w1 = (None, w2)"
    and 3: "engine (onDB (CompleteExecution x ''succeeded'')) w2 = (Inr (), w')"
    by (auto simp: workflowBody_def Let_def split: prod.splits option.splits)
  obtain t1 where "xOps w1 = xOps w @ t1" "inOrder 1 k (map (stepOp (contextToTools ctx) x) act) t1"
    using step_runner.forSteps_ok [OF sr 1] by blast
  moreover obtain t2 where "xOps w2 = xOps w1 @ t2" "inOrder 1 k (map (stepOp (contextToTools ctx) x) verify) t2"
    using step_runner.forSteps_ok [OF sr 2] by blast
  moreover have "xCalls w' = xCalls w2"
    using silentD [OF engine_silent [OF eng silent_onDB] 3] .
  ultimately show ?thesis by (intro exI [of _ "t1 @ t2"]) (simp add: inOrder_append)
qed

text \<open>
  A verify step fails: all act steps have run, the verify steps up to the failing one, and
  then the rollbacks of all act steps, the last act step first.
\<close>

lemma workflowBody_verify_fails:
  assumes eng: "retriesUpTo k engine"
    and split: "splitStepsByStage steps = (act, verify)"
    and acts: "forSteps (\<lambda>step. engine (ExecuteStep e (stepInput planID x ctx step))) act w = (None, w1)"
    and ver: "forSteps (\<lambda>step. engine (ExecuteStep e (stepInput planID x ctx step))) verify w1 = (Some (p, err), w2)"
  shows "\<exists>w' t1 t2 pre post n t3. workflowBody engine e planID x ctx steps w = (Inl err, w') \<and>
     verify = pre @ p # post \<and> n \<le> k \<and>
     xOps w' = xOps w @ t1 @ t2 @ replicate n (stepOp (contextToTools ctx) x p) @ t3 \<and>
     inOrder 1 k (map (stepOp (contextToTools ctx) x) act) t1 \<and>
     inOrder 1 k (map (stepOp (contextToTools ctx) x) pre) t2 \<and>
     inOrder 0 k (map (rollbackOp (contextToTools ctx) x) (rev act)) t3"
proof -
  let ?undo = "\<lambda>step. engine (RollbackStep e (stepInput planID x ctx step))"
  note sr = activity_step_runner [OF eng, of e planID x ctx]
  let ?w3 = "dropS (rollbackSteps ?undo act) w2"
  let ?w' = "dropS (engine (onDB (CompleteExecution x ''failed''))) ?w3"
  have "workflowBody engine e planID x ctx steps w = (Inl err, ?w')"
    using split acts ver by (simp add: workflowBody_def)
  moreover have "xCalls ?w' = xCalls ?w3"
    using engine_silent [OF eng silent_onDB] by (simp add: silent_def dropS_def)
  moreover obtain t3 where "xOps ?w3 = xOps w2 @ t3"
    "inOrder 0 k (map (rollbackOp (contextToTools ctx) x) (rev act)) t3"
    using step_runner.rollbackSteps_calls [OF sr] unfolding dropS_def by blast
  moreover obtain t1 where "xOps w1 = xOps w @ t1" "inOrder 1 k (map (stepOp (contextToTools ctx) x) act) t1"
    using step_runner.forSteps_ok [OF sr acts] by blast
  moreover obtain pre post t2 n where "verify = pre @ p # post"
    "xOps w2 = xOps w1 @ t2 @ replicate n (stepOp (contextToTools ctx) x p)"
    "inOrder 1 k (map (stepOp (contextToTools ctx) x) pre) t2" "n \<le> k"
    using step_runner.forSteps_fail [OF sr ver] by blast
  ultimately show ?thesis
    by (intro exI [of _ ?w'] exI [of _ t1] exI [of _ t2] exI [of _ pre] exI [of _ post] exI [of _ n]
        exI [of _ t3]) simp
qed

end
