(* ===== verification/Executor_Live.thy ===== *)
theory Executor_Live
  imports Executor
begin

text \<open>
  The executor finishes: on a database that answers, with identifiers that are new, and with
  tools and a blob store that do not fail, \<open>executePlan\<close> runs every step and completes the
  execution. The other theorems on \<open>executePlan\<close> say what a run that returned has done; this
  one says that it does return, with success.
\<close>

text \<open>The identifiers the clock will give are not among \<open>ids\<close>.\<close>

definition freshFrom :: "(nat \<Rightarrow> nat) \<Rightarrow> nat \<Rightarrow> string \<Rightarrow> string set \<Rightarrow> bool" where
  "freshFrom clock n pfx ids \<longleftrightarrow> (\<forall>k\<ge>n. pfx @ showNat (clock k) \<notin> ids)"

text \<open>No statement fails, the execution exists, and new identifiers are new.\<close>

definition healthyDB :: "string \<Rightarrow> DB \<Rightarrow> bool" where
  "healthyDB x d \<longleftrightarrow>
     connFault d = (\<lambda>_. None) \<and> hasExec x (tables d) \<and> inj (clockAt d) \<and>
     freshFrom (clockAt d) (clockReads d) ''tool_'' (TrID ` set (callsT (tables d))) \<and>
     freshFrom (clockAt d) (clockReads d) ''evid_'' (EvID ` set (evidenceT (tables d)))"

text \<open>A runtime is there, uploads succeed and the evidence's time stamp parses.\<close>

definition blobsWork :: "Executor \<Rightarrow> bool" where
  "blobsWork e \<longleftrightarrow>
     (\<forall>v. isOk (exMarshal e v)) \<and> isOk (exParseTime e (exStamp e)) \<and>
     (case exObjects e of None \<Rightarrow> True | Some b \<Rightarrow> \<forall>n k v. isOk (blobPut b n k v))"

definition toolWorks :: "Executor \<Rightarrow> string \<Rightarrow> ContextRef \<Rightarrow> PlanStep \<Rightarrow> bool" where
  "toolWorks e x ctx p \<longleftrightarrow>
     (\<exists>rt sb. exRuntime e = Some rt \<and> rtRouter rt \<and> rtSandbox rt = Some sb \<and>
        (\<forall>n c st. snd (fst (Execute (exEnv e n) (Some sb)
           \<lparr>ReqTool = StepTool p, ReqAction = StepAction p, ReqInput = StepInput p, ReqToolCallID = c,
            ReqExecutionID = x, ReqContext = ctx\<rparr> st)) = None))"

section \<open>The statements of a step\<close>

lemma showNat_inj: "showNat m = showNat n \<Longrightarrow> m = n"
  by (metis showNat_digits)

lemma freshFrom_later: "freshFrom clock n pfx ids \<Longrightarrow> n \<le> m \<Longrightarrow> freshFrom clock m pfx ids"
  by (simp add: freshFrom_def)

lemma freshFrom_new: "freshFrom clock n pfx ids \<Longrightarrow> pfx @ showNat (clock n) \<notin> ids"
  by (simp add: freshFrom_def)

lemma freshFrom_insert:
  assumes "freshFrom clock n pfx ids" "inj clock" "n < m"
  shows "freshFrom clock m pfx (insert (pfx @ showNat (clock n)) ids)"
proof -
  have "showNat (clock k) \<noteq> showNat (clock n)" if "m \<le> k" for k
    using assms(2,3) that showNat_inj by (metis injD leD)
  with assms show ?thesis by (auto simp: freshFrom_def)
qed

lemma InsertToolCall_live:
  assumes "healthyDB x d"
  shows "\<exists>c d'. InsertToolCall x (Some (GMap
       [(''tool_name'', GStr tool), (''status'', GStr status), (''input_ref'', GStr i), (''output_ref'', GStr out)])) d
       = (Inr c, d') \<and> c \<noteq> [] \<and> healthyDB x d'"
proof -
  note h = assms [unfolded healthyDB_def]
  have "''tool_'' @ showNat (clockAt d (clockReads d)) \<notin> TrID ` set (callsT (tables d))"
    using h by (intro freshFrom_new) blast
  moreover have "freshFrom (clockAt d) (Suc (clockReads d)) ''tool_''
      (insert (''tool_'' @ showNat (clockAt d (clockReads d))) (TrID ` set (callsT (tables d))))"
    using h by (intro freshFrom_insert) auto
  moreover have "freshFrom (clockAt d) (Suc (clockReads d)) ''evid_'' (EvID ` set (evidenceT (tables d)))"
    using h by (auto intro: freshFrom_later)
  ultimately show ?thesis
    using h
    by (simp add: InsertToolCall_def bindS_def newID_run tryS_def okS_def execute_def Let_def healthyDB_def
        jsonField_def hasExec_def)
qed

lemma UpdateToolCall_live:
  assumes "healthyDB x d" "c \<noteq> []"
  shows "\<exists>d'. UpdateToolCall c s i out d = (Inr (), d') \<and> healthyDB x d'"
proof -
  have "TrID ` (\<lambda>r. if TrID r = c then r\<lparr>TrStatus := s, TrInputRef := a, TrOutputRef := b\<rparr> else r) ` S
      = TrID ` S" for a b and S :: "ToolCallRow set"
    unfolding image_image by (rule image_cong) simp_all
  with assms show ?thesis
    by (simp add: UpdateToolCall_def execute_def Let_def healthyDB_def hasExec_def del: if_image_distrib)
qed

lemma InsertEvidence_live:
  assumes "healthyDB x d" "isOk (pt stamp)"
  shows "\<exists>v d'. InsertEvidence pt x (Some (GMap ([(''type'', GStr t), (''query'', GStr q),
       (''result_ref'', GStr r), (''link'', GStr l), (''collected_at'', GStr stamp)]
       @ (if ext = [] then [] else [(''external_ids'', GMap ext)])))) d = (Inr v, d') \<and> healthyDB x d'"
proof -
  note h = assms(1) [unfolded healthyDB_def]
  have "''evid_'' @ showNat (clockAt d (clockReads d)) \<notin> EvID ` set (evidenceT (tables d))"
    using h by (intro freshFrom_new) blast
  moreover have "freshFrom (clockAt d) (Suc (Suc (clockReads d))) ''evid_''
      (insert (''evid_'' @ showNat (clockAt d (clockReads d))) (EvID ` set (evidenceT (tables d))))"
    using h by (intro freshFrom_insert) auto
  moreover have "freshFrom (clockAt d) (Suc (Suc (clockReads d))) ''tool_'' (TrID ` set (callsT (tables d)))"
    using h by (auto intro: freshFrom_later)
  moreover obtain tm where "pt stamp = Inr tm"
    using assms(2) by (auto simp: isOk_iff)
  ultimately show ?thesis
    using h
    by (cases "ext = []")
      (simp_all add: InsertEvidence_def bindS_def newID_run timeNow_def tryS_def okS_def execute_def Let_def
        healthyDB_def jsonField_def EqualFold_def ToLower_def lowerChar_def hasExec_def)
qed

section \<open>One step\<close>

definition healthy :: "string \<Rightarrow> World \<Rightarrow> bool" where
  "healthy x w \<longleftrightarrow> healthyDB x (xDB w)"

lemma live_onDB:
  "(\<exists>y d. m (xDB w) = (Inr y, d) \<and> P y \<and> healthyDB x d) \<Longrightarrow> \<exists>y w'. onDB m w = (Inr y, w') \<and> P y \<and> healthy x w'"
  by (auto simp: onDB_def healthy_def)

lemma live_bindS:
  assumes "\<exists>y w1. m w = (Inr y, w1) \<and> P y \<and> healthy x w1"
    and "\<And>y w1. P y \<Longrightarrow> healthy x w1 \<Longrightarrow> \<exists>z w2. f y w1 = (Inr z, w2) \<and> Q z \<and> healthy x w2"
  shows "\<exists>z w2. bindS m f w = (Inr z, w2) \<and> Q z \<and> healthy x w2"
  using assms by (fastforce simp: bindS_def)

lemma live_onError:
  "\<exists>y w'. m w = (Inr y, w') \<and> P y \<and> healthy x w' \<Longrightarrow> \<exists>y w'. onError m f w = (Inr y, w') \<and> P y \<and> healthy x w'"
  by (auto simp: onError_def)

lemma live_blobs:
  assumes "blobsWork e" "healthy x w"
  shows "\<exists>y w'. storeInput e x c i w = (Inr y, w') \<and> True \<and> healthy x w'"
    and "\<exists>y w'. storeOutput e x c out w = (Inr y, w') \<and> True \<and> healthy x w'"
    and "\<exists>y w'. presignLink e ref w = (Inr y, w') \<and> True \<and> healthy x w'"
proof -
  obtain payload where "exMarshal e i = Inr payload"
    using assms(1) by (auto simp: blobsWork_def isOk_iff)
  then show "\<exists>y w'. storeInput e x c i w = (Inr y, w') \<and> True \<and> healthy x w'"
    using assms
    by (auto simp: storeInput_def bindS_def tryS_def okS_def putBlob_def healthy_def blobsWork_def isOk_iff
        split: option.splits)
  show "\<exists>y w'. storeOutput e x c out w = (Inr y, w') \<and> True \<and> healthy x w'"
    using assms
    by (auto simp: storeOutput_def okS_def putBlob_def healthy_def blobsWork_def isOk_iff Let_def
        split: option.splits)
  show "\<exists>y w'. presignLink e ref w = (Inr y, w') \<and> True \<and> healthy x w'"
    using assms(2) by (auto simp: presignLink_def healthy_def split: option.splits)
qed

lemma live_runTool:
  assumes "toolWorks e x ctx p" "healthy x w"
  shows "\<exists>y w'. runTool e x c (StepTool p) (StepAction p) (StepInput p) ctx w = (Inr y, w') \<and> True \<and> healthy x w'"
proof -
  obtain rt sb where rt: "exRuntime e = Some rt" "rtRouter rt" "rtSandbox rt = Some sb"
    and ok: "\<And>n c st. snd (fst (Execute (exEnv e n) (Some sb)
       \<lparr>ReqTool = StepTool p, ReqAction = StepAction p, ReqInput = StepInput p, ReqToolCallID = c,
        ReqExecutionID = x, ReqContext = ctx\<rparr> st)) = None"
    using assms(1) by (auto simp: toolWorks_def)
  show ?thesis
    using ok [of "length (xCalls w)" c "xRouter w"] assms(2) rt
    by (auto simp: runTool_def healthy_def Let_def split: prod.splits option.splits)
qed

lemma live_callTool:
  assumes "toolWorks e x ctx p" "blobsWork e" "healthy x w"
  shows "\<exists>y w'. callTool e x (StepTool p) (StepAction p) (StepInput p) ctx w = (Inr y, w') \<and> True \<and> healthy x w'"
  unfolding callTool_def
proof (rule live_bindS [where P = "\<lambda>c :: string. c \<noteq> []"])
  show "\<exists>y w1. insertToolCall x (StepTool p) ''running'' [] [] w = (Inr y, w1) \<and> y \<noteq> [] \<and> healthy x w1"
    unfolding insertToolCall_def using assms(3)
    by (intro live_onDB InsertToolCall_live) (simp add: healthy_def)
  fix c :: string and w1
  assume c: "c \<noteq> []" and w1: "healthy x w1"
  have upd: "\<exists>y w'. onDB (UpdateToolCall c s i out) w = (Inr y, w') \<and> True \<and> healthy x w'"
    if "healthy x w" for s i out w
    using UpdateToolCall_live [OF that [unfolded healthy_def] c] by (intro live_onDB) auto
  show "\<exists>z w2. bindS (onError (storeInput e x c (StepInput p)) (failCall c []))
      (\<lambda>inputRef. bindS (onError (runTool e x c (StepTool p) (StepAction p) (StepInput p) ctx) (failCall c inputRef))
        (\<lambda>resp. bindS (onError (storeOutput e x c resp) (failCall c inputRef))
          (\<lambda>outputRef. bindS (onDB (UpdateToolCall c ''succeeded'' inputRef outputRef))
            (\<lambda>_. okS (c, outputRef, resp))))) w1 = (Inr z, w2) \<and> True \<and> healthy x w2"
    by (intro live_bindS [where P = "\<lambda>_. True"] live_onError live_blobs live_runTool upd assms w1)
      (auto simp: okS_def)
qed

lemma live_executeStep:
  assumes "toolWorks e x ctx p" "blobsWork e" "healthy x w"
  shows "\<exists>w'. executeStep e x ctx p w = (Inr (), w') \<and> healthy x w'"
proof -
  have ev: "\<exists>y w'. onDB (InsertEvidence (exParseTime e) x (Some (GMap ([(''type'', GStr t), (''query'', GStr q),
       (''result_ref'', GStr r), (''link'', GStr l), (''collected_at'', GStr (exStamp e))]
       @ (if ext = [] then [] else [(''external_ids'', GMap ext)]))))) w = (Inr y, w') \<and> True \<and> healthy x w'"
    if "healthy x w" for t q r l ext w
    using InsertEvidence_live [OF that [unfolded healthy_def], of "exParseTime e" "exStamp e"] assms(2)
    by (intro live_onDB) (auto simp: blobsWork_def)
  have rec: "\<exists>z w2. recordEvidence e x p ref out w = (Inr z, w2) \<and> True \<and> healthy x w2" if "healthy x w" for ref out w
  proof (cases "evidenceType (StepTool p) = []")
    case True
    then show ?thesis using that by (simp add: recordEvidence_def okS_def)
  next
    case False
    show ?thesis
      unfolding recordEvidence_def Let_def if_not_P [OF False]
      by (intro live_bindS [where P = "\<lambda>_. True"] live_blobs(3) assms(2) that ev) (auto simp: okS_def)
  qed
  have "\<exists>z w2. executeStep e x ctx p w = (Inr z, w2) \<and> True \<and> healthy x w2"
    unfolding executeStep_def
    by (rule live_bindS [where P = "\<lambda>_. True"], rule live_callTool [OF assms])
      (auto split: prod.split intro!: rec [simplified])
  then show ?thesis by auto
qed

lemma live_forSteps:
  assumes "list_all (toolWorks e x ctx) steps" "blobsWork e" "healthy x w"
  shows "\<exists>w'. forSteps (executeStep e x ctx) steps w = (None, w') \<and> healthy x w'"
  using assms(1,3)
proof (induction steps arbitrary: w)
  case Nil
  then show ?case by simp
next
  case (Cons p ps)
  obtain w1 where "executeStep e x ctx p w = (Inr (), w1)" "healthy x w1"
    using live_executeStep [of e x ctx p w] assms(2) Cons.prems by auto
  with Cons show ?case by simp
qed

section \<open>A plan\<close>

lemma executePlan_loads:
  assumes db: "healthyDB (RefExecutionID ref) (xDB w)"
    and ids: "TrimSpace (RefExecutionID ref) \<noteq> []" "TrimSpace (RefPlanID ref) \<noteq> []"
  shows "\<exists>w1. executePlan e ref w = runPlan e (RefExecutionID ref)
      (planContext (tables (xDB w)) (RefPlanID ref)) (planSteps (tables (xDB w)) (RefPlanID ref)) w1 \<and>
    healthyDB (RefExecutionID ref) (xDB w1)"
proof -
  define x p where "x = RefExecutionID ref" and "p = RefPlanID ref"
  define t where "t = updateExec (\<lambda>r. ErID r = x) (\<lambda>r. r\<lparr>ErStatus := ''running''\<rparr>) (tables (xDB w))"
  define loaded where "loaded n = w\<lparr>xDB := (xDB w)\<lparr>tables := t, stmtCount := stmtCount (xDB w) + n\<rparr>\<rparr>" for n
  note h = db [unfolded healthyDB_def]
  have up: "onDB (UpdateExecutionStatus x ''running'') w = (Inr (), loaded 1)"
    using h by (simp add: onDB_def UpdateExecutionStatus_def execute_def Let_def loaded_def t_def)
  have ctx: "onError (loadContext p) f (loaded 1) = (Inr (planContext (tables (xDB w)) p), loaded 2)" for f
    using h
    by (auto simp: onError_def loadContext_def bindS_def onDB_def GetPlan_def query_def Let_def loaded_def okS_def
        planContext_def t_def updateExec_def planDoc_def split: option.split)
  have steps: "onError (loadSteps p) f (loaded 2) = (Inr (planSteps (tables (xDB w)) p), loaded 3)" for f
    using h
    by (auto simp: onError_def loadSteps_def bindS_def onDB_def ListPlanSteps_def query_def Let_def loaded_def tryS_def
        planSteps_def t_def updateExec_def decodeStep_stepDoc mapR_map mapR_total)
  have "ErID ` (\<lambda>r. if ErID r = x then r\<lparr>ErStatus := ''running''\<rparr> else r) ` S = ErID ` S" for S :: "ExecRow set"
    unfolding image_image by (rule image_cong) simp_all
  then have hx: "healthyDB x (xDB (loaded 3))"
    using h by (simp add: healthyDB_def loaded_def t_def updateExec_def hasExec_def x_def del: if_image_distrib)
  have "executePlan e ref w = runPlan e x (planContext (tables (xDB w)) p) (planSteps (tables (xDB w)) p) (loaded 3)"
    using up ctx steps ids split_planSteps [of "tables (xDB w)" p]
    by (simp add: executePlan_def bindS_def runPlan_def Let_def x_def p_def split: prod.split option.split)
  with hx show ?thesis by (auto simp: x_def p_def)
qed

lemma live_executePlan:
  assumes works: "list_all (toolWorks e (RefExecutionID ref) (planContext (tables (xDB w)) (RefPlanID ref)))
       (planSteps (tables (xDB w)) (RefPlanID ref))"
    and "blobsWork e" and db: "healthyDB (RefExecutionID ref) (xDB w)"
    and ids: "TrimSpace (RefExecutionID ref) \<noteq> []" "TrimSpace (RefPlanID ref) \<noteq> []"
  shows "\<exists>w'. executePlan e ref w = (Inr (), w')"
proof -
  define x where "x = RefExecutionID ref"
  define ctx steps where "ctx = planContext (tables (xDB w)) (RefPlanID ref)"
    and "steps = planSteps (tables (xDB w)) (RefPlanID ref)"
  obtain w1 where w1: "executePlan e ref w = runPlan e x ctx steps w1" "healthy x w1"
    using executePlan_loads [OF db ids] by (auto simp: healthy_def x_def ctx_def steps_def)
  obtain w2 where run: "forSteps (executeStep e x ctx) steps w1 = (None, w2)" and w2: "healthy x w2"
    using live_forSteps [OF works [folded x_def ctx_def steps_def] assms(2) w1(2)] by blast
  have "x \<noteq> []" using ids by (auto simp: x_def)
  then have "\<exists>w'. onDB (CompleteExecution x ''succeeded'') w2 = (Inr (), w')"
    using w2 by (auto simp: onDB_def CompleteExecution_def bindS_def timeNow_def execute_def Let_def healthy_def healthyDB_def)
  then show ?thesis by (simp add: w1 runPlan_def run)
qed

end
