(* ===== verification/Library_Store.thy ===== *)
theory Library_Store
  imports Store
begin

text \<open>
  The libraries of \<open>internal/db\<close>: \<open>playbooks.go\<close>, \<open>runbooks.go\<close>, \<open>operator_memory.go\<close> and
  \<open>workflow_catalog.go\<close>, as operations on the tables of \<open>Store\<close>. The version columns are 32-bit
  integers; a number of a JSON document read back into \<open>any\<close> is a \<open>float64\<close>.
\<close>

text \<open>A struct field of type \<open>int\<close>, and a slice of structs.\<close>

fun decodeInt :: "gval option \<Rightarrow> int result" where
  "decodeInt None = Inr 0"
| "decodeInt (Some GNil) = Inr 0"
| "decodeInt (Some (GInt n)) = Inr n"
| "decodeInt (Some (GFloat r)) = (if of_int \<lfloor>r\<rfloor> = r then Inr \<lfloor>r\<rfloor> else Inl ''json: cannot unmarshal'')"
| "decodeInt (Some _) = Inl ''json: cannot unmarshal''"

fun decodeSlice :: "(gval \<Rightarrow> 'a result) \<Rightarrow> gval \<Rightarrow> 'a list result" where
  "decodeSlice f GNil = Inr []"
| "decodeSlice f (GList vs) = mapR f vs"
| "decodeSlice f _ = Inl ''json: cannot unmarshal''"

definition fitsInt4 :: "int \<Rightarrow> bool" where
  "fitsInt4 v \<longleftrightarrow> - (2 ^ 31) \<le> v \<and> v < 2 ^ 31"

definition outOfRange :: string where
  "outOfRange = ''integer out of range''"

definition versionDoc :: "int \<Rightarrow> gval" where
  "versionDoc v = GFloat (of_int v)"

section \<open>Playbooks\<close>

record playbookPayload =
  PpTenant :: string
  PpName :: string
  PpVersion :: int
  PpTags :: "gval option"
  PpSpec :: "gval option"

definition decodePlaybook :: "gval \<Rightarrow> playbookPayload result" where
  "decodePlaybook v =
     bindR (decodeObj v) (\<lambda>m.
     bindR (decodeStr (jsonField m ''tenant_id'')) (\<lambda>tenant.
     bindR (decodeStr (jsonField m ''name'')) (\<lambda>name.
     bindR (decodeInt (jsonField m ''version'')) (\<lambda>version.
       Inr \<lparr>PpTenant = tenant, PpName = name, PpVersion = version, PpTags = jsonField m ''tags'',
            PpSpec = jsonField m ''spec''\<rparr>))))"

definition insertPlaybook :: "PlaybookRow \<Rightarrow> Tables \<Rightarrow> Tables result" where
  "insertPlaybook r t =
    (if \<not> fitsInt4 (PbVersion r) then Inl outOfRange
     else if PbID r \<in> PbID ` set (playbooksT t) then Inl duplicateKey
     else Inr (t\<lparr>playbooksT := playbooksT t @ [r]\<rparr>))"

definition CreatePlaybook :: "gval \<Rightarrow> (DB, string) op" where
  "CreatePlaybook payload =
     bindS (tryS (decodePlaybook payload)) (\<lambda>p.
     let tenant = TrimSpace (PpTenant p) in
     if tenant = [] \<or> PpName p = [] then failS ''tenant_id and name required''
     else case PpSpec p of
       None \<Rightarrow> failS ''spec required''
     | Some spec \<Rightarrow>
        bindS (newID ''playbook'') (\<lambda>i.
        bindS timeNow (\<lambda>now.
        bindS (execute (insertPlaybook
          \<lparr>PbID = i, PbTenant = Some tenant, PbName = PpName p,
           PbVersion = (if PpVersion p = 0 then 1 else PpVersion p), PbTags = PpTags p, PbSpec = spec,
           PbCreatedAt = now\<rparr>)) (\<lambda>_. okS i))))"

definition playbookDoc :: "PlaybookRow \<Rightarrow> gmap" where
  "playbookDoc r =
     [(''playbook_id'', GStr (PbID r)), (''tenant_id'', docOf (map_option GStr (PbTenant r))),
      (''name'', GStr (PbName r)), (''version'', versionDoc (PbVersion r)), (''tags'', docOf (PbTags r)),
      (''spec'', PbSpec r), (''created_at'', GStr (showNat (PbCreatedAt r)))]"

definition ListPlaybooks :: "int \<Rightarrow> int \<Rightarrow> (DB, gval list \<times> nat) op" where
  "ListPlaybooks limit offset = query (\<lambda>t.
     Inr (map (\<lambda>r. GMap (playbookDoc r)) (pageDesc PbCreatedAt limit offset (playbooksT t)),
          length (playbooksT t)))"

text \<open>\<open>tenant_id\<close> is scanned into a string; the column was added later and may be NULL.\<close>

definition GetPlaybook :: "string \<Rightarrow> (DB, gmap option) op" where
  "GetPlaybook playbookID = query (\<lambda>t.
     case find (\<lambda>r. PbID r = playbookID) (playbooksT t) of
       None \<Rightarrow> Inr None
     | Some r \<Rightarrow> if PbTenant r = None then Inl scanNull else Inr (Some (playbookDoc r)))"

definition DeletePlaybook :: "string \<Rightarrow> (DB, unit) op" where
  "DeletePlaybook playbookID =
     execute (\<lambda>t. Inr (t\<lparr>playbooksT := filter (\<lambda>r. PbID r \<noteq> playbookID) (playbooksT t)\<rparr>))"

section \<open>Runbooks\<close>

record runbookPayload =
  RpTenant :: string
  RpService :: string
  RpName :: string
  RpVersion :: int
  RpTags :: "gval option"
  RpBody :: string
  RpSpec :: "gval option"

definition decodeRunbook :: "gval \<Rightarrow> runbookPayload result" where
  "decodeRunbook v =
     bindR (decodeObj v) (\<lambda>m.
     bindR (decodeStr (jsonField m ''tenant_id'')) (\<lambda>tenant.
     bindR (decodeStr (jsonField m ''service'')) (\<lambda>service.
     bindR (decodeStr (jsonField m ''name'')) (\<lambda>name.
     bindR (decodeInt (jsonField m ''version'')) (\<lambda>version.
     bindR (decodeStr (jsonField m ''body'')) (\<lambda>body.
       Inr \<lparr>RpTenant = tenant, RpService = service, RpName = name, RpVersion = version,
            RpTags = jsonField m ''tags'', RpBody = body, RpSpec = jsonField m ''spec''\<rparr>))))))"

definition insertRunbook :: "RunbookRow \<Rightarrow> Tables \<Rightarrow> Tables result" where
  "insertRunbook r t =
    (if \<not> fitsInt4 (RbVersion r) then Inl outOfRange
     else if RbID r \<in> RbID ` set (runbooksT t) then Inl duplicateKey
     else Inr (t\<lparr>runbooksT := runbooksT t @ [r]\<rparr>))"

text \<open>\<open>SELECT COALESCE(MAX(version),0)\<close> of the runbooks of this name.\<close>

definition maxVersion :: "string \<Rightarrow> string \<Rightarrow> string \<Rightarrow> Tables \<Rightarrow> int" where
  "maxVersion tenant service name t =
    (case map RbVersion (filter (\<lambda>r. RbTenant r = Some tenant \<and> RbService r = service \<and> RbName r = name)
            (runbooksT t)) of
       [] \<Rightarrow> 0
     | v # vs \<Rightarrow> foldl max v vs)"

definition CreateRunbook :: "gval \<Rightarrow> (DB, string) op" where
  "CreateRunbook payload =
     bindS (tryS (decodeRunbook payload)) (\<lambda>p.
     let tenant = TrimSpace (RpTenant p); service = TrimSpace (RpService p); name = TrimSpace (RpName p) in
     if tenant = [] \<or> service = [] \<or> name = [] then failS ''tenant_id, service and name required''
     else bindS (if RpVersion p \<le> 0
                 then bindS (query (\<lambda>t. Inr (maxVersion tenant service name t))) (\<lambda>v. okS (v + 1))
                 else okS (RpVersion p)) (\<lambda>version.
          bindS (newID ''runbook'') (\<lambda>i.
          bindS timeNow (\<lambda>now.
          bindS (execute (insertRunbook
            \<lparr>RbID = i, RbTenant = Some tenant, RbService = service, RbName = name, RbVersion = version,
             RbTags = RpTags p, RbBody = nullString (TrimSpace (RpBody p)), RbSpec = RpSpec p,
             RbCreatedAt = now\<rparr>)) (\<lambda>_. okS i)))))"

definition runbookListDoc :: "RunbookRow \<Rightarrow> gmap" where
  "runbookListDoc r =
     [(''runbook_id'', GStr (RbID r)), (''tenant_id'', docOf (map_option GStr (RbTenant r))),
      (''service'', GStr (RbService r)), (''name'', GStr (RbName r)), (''version'', versionDoc (RbVersion r)),
      (''tags'', docOf (RbTags r)), (''created_at'', GStr (showNat (RbCreatedAt r)))]"

definition ListRunbooks :: "int \<Rightarrow> int \<Rightarrow> (DB, gval list \<times> nat) op" where
  "ListRunbooks limit offset = query (\<lambda>t.
     Inr (map (\<lambda>r. GMap (runbookListDoc r)) (pageDesc RbCreatedAt limit offset (runbooksT t)),
          length (runbooksT t)))"

text \<open>A missing row is an error here, and \<open>tenant_id\<close> and \<open>body\<close> are scanned into strings.\<close>

definition GetRunbook :: "string \<Rightarrow> (DB, gmap) op" where
  "GetRunbook runbookID0 =
    (let runbookID = TrimSpace runbookID0 in
     if runbookID = [] then failS ''runbook_id required''
     else query (\<lambda>t. case find (\<lambda>r. RbID r = runbookID) (runbooksT t) of
       None \<Rightarrow> Inl noRows
     | Some r \<Rightarrow>
        (case (RbTenant r, RbBody r) of
           (Some tenant, Some body) \<Rightarrow>
             Inr [(''runbook_id'', GStr runbookID), (''tenant_id'', GStr tenant), (''service'', GStr (RbService r)),
                  (''name'', GStr (RbName r)), (''version'', versionDoc (RbVersion r)),
                  (''tags'', docOf (RbTags r)), (''body'', GStr body), (''spec'', docOf (RbSpec r)),
                  (''created_at'', GStr (showNat (RbCreatedAt r)))]
         | _ \<Rightarrow> Inl scanNull)))"

definition DeleteRunbook :: "string \<Rightarrow> (DB, unit) op" where
  "DeleteRunbook runbookID =
     execute (\<lambda>t. Inr (t\<lparr>runbooksT := filter (\<lambda>r. RbID r \<noteq> runbookID) (runbooksT t)\<rparr>))"

section \<open>Operator memory\<close>

record operatorMemoryPayload =
  OpTenant :: string
  OpTitle :: string
  OpBody :: string
  OpTags :: "gval option"
  OpMetadata :: "gval option"
  OpOwner :: string

text \<open>Decoding, trimming and the check that both writes make.\<close>

definition decodeMemory :: "gval \<Rightarrow> operatorMemoryPayload result" where
  "decodeMemory v =
     bindR (decodeObj v) (\<lambda>m.
     bindR (decodeStr (jsonField m ''tenant_id'')) (\<lambda>tenant.
     bindR (decodeStr (jsonField m ''title'')) (\<lambda>title.
     bindR (decodeStr (jsonField m ''body'')) (\<lambda>body.
     bindR (decodeStr (jsonField m ''owner_actor_id'')) (\<lambda>owner.
     let tenant = TrimSpace tenant; title = TrimSpace title; body = TrimSpace body in
     if tenant = [] \<or> title = [] \<or> body = [] then Inl ''tenant_id, title, body required''
     else Inr \<lparr>OpTenant = tenant, OpTitle = title, OpBody = body, OpTags = jsonField m ''tags'',
               OpMetadata = jsonField m ''metadata'', OpOwner = TrimSpace owner\<rparr>)))))"

definition insertMemory :: "MemoryRow \<Rightarrow> Tables \<Rightarrow> Tables result" where
  "insertMemory r t =
    (if MmID r \<in> MmID ` set (memoryT t) then Inl duplicateKey
     else Inr (t\<lparr>memoryT := memoryT t @ [r]\<rparr>))"

definition CreateOperatorMemory :: "gval \<Rightarrow> (DB, string) op" where
  "CreateOperatorMemory payload =
     bindS (tryS (decodeMemory payload)) (\<lambda>p.
     bindS (newID ''memory'') (\<lambda>i.
     bindS timeNow (\<lambda>now.
     bindS (execute (insertMemory
       \<lparr>MmID = i, MmTenant = OpTenant p, MmTitle = OpTitle p, MmBody = OpBody p, MmTags = OpTags p,
        MmMetadata = OpMetadata p, MmOwner = nullString (OpOwner p), MmCreatedAt = now,
        MmUpdatedAt = now\<rparr>)) (\<lambda>_. okS i))))"

definition memoryListDoc :: "MemoryRow \<Rightarrow> gmap" where
  "memoryListDoc r =
     [(''memory_id'', GStr (MmID r)), (''tenant_id'', GStr (MmTenant r)), (''title'', GStr (MmTitle r)),
      (''body'', GStr (MmBody r)), (''tags'', docOf (MmTags r)), (''metadata'', docOf (MmMetadata r)),
      (''owner_actor_id'', docOf (map_option GStr (MmOwner r))),
      (''created_at'', GStr (showNat (MmCreatedAt r))), (''updated_at'', GStr (showNat (MmUpdatedAt r)))]"

definition ListOperatorMemory :: "string \<Rightarrow> (DB, gval list) op" where
  "ListOperatorMemory tenantID0 =
    (let tenantID = TrimSpace tenantID0 in
     if tenantID = [] then failS ''tenant_id required''
     else query (\<lambda>t. Inr (map (\<lambda>r. GMap (memoryListDoc r))
       (rev (sort_key MmCreatedAt (filter (\<lambda>r. MmTenant r = tenantID) (memoryT t)))))))"

definition GetOperatorMemory :: "string \<Rightarrow> (DB, gmap option) op" where
  "GetOperatorMemory memoryID0 =
    (let memoryID = TrimSpace memoryID0 in
     if memoryID = [] then failS ''memory_id required''
     else query (\<lambda>t. case find (\<lambda>r. MmID r = memoryID) (memoryT t) of
       None \<Rightarrow> Inr None
     | Some r \<Rightarrow>
        (case MmOwner r of
           None \<Rightarrow> Inl scanNull
         | Some owner \<Rightarrow>
            Inr (Some [(''memory_id'', GStr memoryID), (''tenant_id'', GStr (MmTenant r)),
              (''title'', GStr (MmTitle r)), (''body'', GStr (MmBody r)), (''tags'', docOf (MmTags r)),
              (''metadata'', docOf (MmMetadata r)), (''owner_actor_id'', GStr owner),
              (''created_at'', GStr (showNat (MmCreatedAt r))),
              (''updated_at'', GStr (showNat (MmUpdatedAt r)))]))))"

definition UpdateOperatorMemory :: "string \<Rightarrow> gval \<Rightarrow> (DB, unit) op" where
  "UpdateOperatorMemory memoryID0 payload =
    (let memoryID = TrimSpace memoryID0 in
     if memoryID = [] then failS ''memory_id required''
     else bindS (tryS (decodeMemory payload)) (\<lambda>p.
          bindS timeNow (\<lambda>now.
          execute (\<lambda>t. Inr (t\<lparr>memoryT := map (\<lambda>r. if MmID r = memoryID
            then r\<lparr>MmTenant := OpTenant p, MmTitle := OpTitle p, MmBody := OpBody p, MmTags := OpTags p,
                   MmMetadata := OpMetadata p, MmOwner := nullString (OpOwner p), MmUpdatedAt := now\<rparr>
            else r) (memoryT t)\<rparr>)))))"

definition DeleteOperatorMemory :: "string \<Rightarrow> (DB, unit) op" where
  "DeleteOperatorMemory memoryID0 =
    (let memoryID = TrimSpace memoryID0 in
     if memoryID = [] then failS ''memory_id required''
     else execute (\<lambda>t. Inr (t\<lparr>memoryT := filter (\<lambda>r. MmID r \<noteq> memoryID) (memoryT t)\<rparr>)))"

section \<open>Workflow catalogue\<close>

record workflowPayload =
  WpTenant :: string
  WpName :: string
  WpVersion :: int
  WpSpec :: "gval option"

definition decodeWorkflow :: "gval \<Rightarrow> workflowPayload result" where
  "decodeWorkflow v =
     bindR (decodeObj v) (\<lambda>m.
     bindR (decodeStr (jsonField m ''tenant_id'')) (\<lambda>tenant.
     bindR (decodeStr (jsonField m ''name'')) (\<lambda>name.
     bindR (decodeInt (jsonField m ''version'')) (\<lambda>version.
       Inr \<lparr>WpTenant = tenant, WpName = name, WpVersion = version, WpSpec = jsonField m ''spec''\<rparr>))))"

text \<open>The unique index is on name and version, whatever the tenant.\<close>

definition insertWorkflow :: "WorkflowRow \<Rightarrow> Tables \<Rightarrow> Tables result" where
  "insertWorkflow r t =
    (if \<not> fitsInt4 (WcVersion r) then Inl outOfRange
     else if WcID r \<in> WcID ` set (catalogT t) \<or>
             (WcName r, WcVersion r) \<in> (\<lambda>q. (WcName q, WcVersion q)) ` set (catalogT t) then Inl duplicateKey
     else Inr (t\<lparr>catalogT := catalogT t @ [r]\<rparr>))"

definition CreateWorkflowCatalog :: "gval \<Rightarrow> (DB, string) op" where
  "CreateWorkflowCatalog payload =
     bindS (tryS (decodeWorkflow payload)) (\<lambda>p.
     let name = TrimSpace (WpName p) in
     if name = [] then failS ''name required''
     else case WpSpec p of
       None \<Rightarrow> failS ''spec required''
     | Some spec \<Rightarrow>
        bindS (newID ''workflow'') (\<lambda>i.
        bindS timeNow (\<lambda>now.
        bindS (execute (insertWorkflow
          \<lparr>WcID = i, WcTenant = nullString (TrimSpace (WpTenant p)), WcName = name,
           WcVersion = (if WpVersion p \<le> 0 then 1 else WpVersion p), WcSpec = spec, WcCreatedAt = now\<rparr>))
          (\<lambda>_. okS i))))"

definition workflowDoc :: "WorkflowRow \<Rightarrow> gmap" where
  "workflowDoc r =
     [(''workflow_id'', GStr (WcID r)), (''tenant_id'', docOf (map_option GStr (WcTenant r))),
      (''name'', GStr (WcName r)), (''version'', versionDoc (WcVersion r)), (''spec'', WcSpec r),
      (''created_at'', GStr (showNat (WcCreatedAt r)))]"

definition ListWorkflowCatalog :: "int \<Rightarrow> int \<Rightarrow> (DB, gval list \<times> nat) op" where
  "ListWorkflowCatalog limit offset = query (\<lambda>t.
     Inr (map (\<lambda>r. GMap (workflowDoc r)) (pageDesc WcCreatedAt limit offset (catalogT t)),
          length (catalogT t)))"

section \<open>The constraints of the schema\<close>

lemma wfDB_library_reads [keeps]:
  "preserves wfDB (ListPlaybooks m n)" "preserves wfDB (GetPlaybook i)"
  "preserves wfDB (ListRunbooks m n)" "preserves wfDB (GetRunbook i)"
  "preserves wfDB (ListOperatorMemory tn)" "preserves wfDB (GetOperatorMemory i)"
  "preserves wfDB (ListWorkflowCatalog m n)"
  unfolding ListPlaybooks_def GetPlaybook_def ListRunbooks_def GetRunbook_def ListOperatorMemory_def
    GetOperatorMemory_def ListWorkflowCatalog_def
  by (intro keeps)+

lemma wfDB_library_deletes [keeps]:
  "preserves wfDB (DeletePlaybook i)" "preserves wfDB (DeleteRunbook i)" "preserves wfDB (DeleteOperatorMemory i)"
  unfolding DeletePlaybook_def DeleteRunbook_def DeleteOperatorMemory_def
  by (intro keeps preserves_execute; force simp: wfTables_def distinct_map_filter)+

lemma insert_library_wf:
  "wfTables t \<Longrightarrow> insertPlaybook pb t = Inr t' \<Longrightarrow> wfTables t'"
  "wfTables t \<Longrightarrow> insertRunbook rb t = Inr t' \<Longrightarrow> wfTables t'"
  "wfTables t \<Longrightarrow> insertMemory mm t = Inr t' \<Longrightarrow> wfTables t'"
  "wfTables t \<Longrightarrow> insertWorkflow wc t = Inr t' \<Longrightarrow> wfTables t'"
  by (auto simp: insertPlaybook_def insertRunbook_def insertMemory_def insertWorkflow_def wfTables_def
      split: if_splits)

lemma wfDB_library_creates [keeps]:
  "preserves wfDB (CreatePlaybook doc)" "preserves wfDB (CreateRunbook doc)"
  "preserves wfDB (CreateOperatorMemory doc)" "preserves wfDB (CreateWorkflowCatalog doc)"
  unfolding CreatePlaybook_def CreateRunbook_def CreateOperatorMemory_def CreateWorkflowCatalog_def
  by (intro keeps preserves_execute; erule (1) insert_library_wf)+

lemma wfDB_UpdateOperatorMemory [keeps]: "preserves wfDB (UpdateOperatorMemory i doc)"
  unfolding UpdateOperatorMemory_def
  by (intro keeps preserves_execute) (auto simp: wfTables_def)

section \<open>Versions of a runbook\<close>

lemma foldl_max_ge: "v \<le> foldl max (v :: int) vs" "x \<in> set vs \<Longrightarrow> x \<le> foldl max v vs"
proof (induction vs arbitrary: v)
  case (Cons y ys)
  { case 1 show ?case using Cons.IH(1) [of "max v y"] by simp
  next
    case 2 then show ?case using Cons.IH(1) [of "max v y"] Cons.IH(2) [of "max v y"] by auto }
qed simp_all

lemma maxVersion_ge:
  assumes "r \<in> set (runbooksT t)" "RbTenant r = Some tenant" "RbService r = service" "RbName r = name"
  shows "RbVersion r \<le> maxVersion tenant service name t"
proof -
  let ?vs = "map RbVersion (filter (\<lambda>r. RbTenant r = Some tenant \<and> RbService r = service \<and> RbName r = name) (runbooksT t))"
  have "RbVersion r \<in> set ?vs" using assms by auto
  then show ?thesis
    unfolding maxVersion_def using foldl_max_ge by (cases ?vs) auto
qed

text \<open>A runbook stored without a version gets one above all versions of its name.\<close>

lemma CreateRunbook_version:
  assumes "decodeRunbook payload = Inr p" "RpVersion p \<le> 0" "CreateRunbook payload d = (Inr i, d')"
  shows "\<exists>row. runbooksT (tables d') = runbooksT (tables d) @ [row] \<and> RbID row = i \<and>
    RbTenant row = Some (TrimSpace (RpTenant p)) \<and> RbService row = TrimSpace (RpService p) \<and>
    RbName row = TrimSpace (RpName p) \<and>
    (\<forall>r \<in> set (runbooksT (tables d)). RbTenant r = RbTenant row \<longrightarrow> RbService r = RbService row \<longrightarrow>
       RbName r = RbName row \<longrightarrow> RbVersion r < RbVersion row)"
proof -
  let ?v = "maxVersion (TrimSpace (RpTenant p)) (TrimSpace (RpService p)) (TrimSpace (RpName p)) (tables d)"
  from assms obtain row where "runbooksT (tables d') = runbooksT (tables d) @ [row]" "RbID row = i"
    "RbTenant row = Some (TrimSpace (RpTenant p))" "RbService row = TrimSpace (RpService p)"
    "RbName row = TrimSpace (RpName p)" "RbVersion row = ?v + 1"
    by (auto simp: CreateRunbook_def bindS_eq_Inr tryS_def query_ok execute_ok insertRunbook_def newID_run
        timeNow_def okS_def failS_def Let_def split: if_splits)
  moreover have "r \<in> set (runbooksT (tables d)) \<Longrightarrow> RbTenant r = Some (TrimSpace (RpTenant p)) \<Longrightarrow>
      RbService r = TrimSpace (RpService p) \<Longrightarrow> RbName r = TrimSpace (RpName p) \<Longrightarrow> RbVersion r < ?v + 1" for r
    using maxVersion_ge [of r "tables d"] by fastforce
  ultimately show ?thesis by (intro exI [of _ row]) auto
qed

end
