(* ===== verification/Store_Reach.thy ===== *)
theory Store_Reach
  imports Library_Store
begin

text \<open>
  The database as a state machine: one rule per operation of \<open>internal/db\<close> that writes, one for
  the reads and one for a statement of another client that keeps the schema's constraints. What
  holds of every reachable database is proved by rule induction; the event gate's back-off is a
  property of the sequence of its calls.
\<close>

inductive dbStep :: "DB \<Rightarrow> DB \<Rightarrow> bool" where
  createPlan: "dbStep d (snd (CreatePlan doc d))"
| deletePlan: "dbStep d (snd (DeletePlan p d))"
| createExecution: "dbStep d (snd (CreateExecution p d))"
| updateExecutionStatus: "dbStep d (snd (UpdateExecutionStatus x s d))"
| updateExecutionWorkflow: "dbStep d (snd (UpdateExecutionWorkflowID x wid d))"
| completeExecution: "dbStep d (snd (CompleteExecution x s d))"
| cancelExecution: "dbStep d (snd (CancelExecution x d))"
| insertToolCall: "dbStep d (snd (InsertToolCall x payload d))"
| updateToolCall: "dbStep d (snd (UpdateToolCall c s i out d))"
| insertEvidence: "dbStep d (snd (InsertEvidence pt x payload d))"
| createApproval: "dbStep d (snd (CreateApproval p d))"
| createAndApprove: "dbStep d (snd (CreateAndApprove p d))"
| updateApproval: "dbStep d (snd (UpdateApprovalStatus a s d))"
| updateApprovalByPlan: "dbStep d (snd (UpdateApprovalStatusByPlan p s d))"
| setApprovalHash: "dbStep d (snd (SetApprovalHash p h d))"
| createSchedule: "dbStep d (snd (CreateSchedule doc d))"
| scheduleRan: "dbStep d (snd (UpdateScheduleLastRun i at_time d))"
| deleteSchedule: "dbStep d (snd (DeleteSchedule i d))"
| insertAudit: "dbStep d (snd (InsertAuditEvent pt doc d))"
| eventGate: "dbStep d (snd (UpsertEventGate src fp now win backoff minCount d))"
| createSession: "dbStep d (snd (CreateSession doc d))"
| updateSession: "dbStep d (snd (UpdateSession i doc d))"
| deleteSession: "dbStep d (snd (DeleteSession i d))"
| addMember: "dbStep d (snd (AddSessionMember i doc d))"
| createPlaybook: "dbStep d (snd (CreatePlaybook doc d))"
| deletePlaybook: "dbStep d (snd (DeletePlaybook i d))"
| createRunbook: "dbStep d (snd (CreateRunbook doc d))"
| deleteRunbook: "dbStep d (snd (DeleteRunbook i d))"
| createMemory: "dbStep d (snd (CreateOperatorMemory doc d))"
| updateMemory: "dbStep d (snd (UpdateOperatorMemory i doc d))"
| deleteMemory: "dbStep d (snd (DeleteOperatorMemory i d))"
| createWorkflow: "dbStep d (snd (CreateWorkflowCatalog doc d))"
| reading: "dbStep d (snd (query (q :: Tables \<Rightarrow> gval result) d))"

inductive dbReach :: "DB \<Rightarrow> bool" where
  start: "tables d = emptyTables \<Longrightarrow> dbReach d"
| step: "dbReach d \<Longrightarrow> dbStep d d' \<Longrightarrow> dbReach d'"

lemma preserves_snd: "preserves I m \<Longrightarrow> I s \<Longrightarrow> I (snd (m s))"
  by (simp add: preserves_def)

lemma wfDB_dbStep: "dbStep d d' \<Longrightarrow> wfDB d \<Longrightarrow> wfDB d'"
  by (induction rule: dbStep.induct) (erule preserves_snd [where I = wfDB, rotated], intro keeps)+

lemma wfDB_dbReach: "dbReach d \<Longrightarrow> wfDB d"
proof (induction rule: dbReach.induct)
  case (start d)
  then show ?case by (simp add: wfTables_def emptyTables_def)
next
  case (step d d')
  then show ?case by (blast intro: wfDB_dbStep)
qed

section \<open>The event gate\<close>

text \<open>
  What \<open>UpsertEventGate\<close> means for one row: the abstract gate. An event during the suppression
  only counts; otherwise the window may restart, the event counts, and it passes when the count
  has reached the threshold, which suppresses the events of the next \<open>backoff\<close>.
\<close>

definition gateStep ::
  "int \<Rightarrow> int \<Rightarrow> int \<Rightarrow> EventGateState option \<Rightarrow> int \<Rightarrow> bool \<times> EventGateState" where
  "gateStep window backoff minCount row now =
    (let until = (\<lambda>allowed. if allowed \<and> backoff > 0 then Some (now + backoff) else None) in
     case row of
       None \<Rightarrow> (minCount \<le> 1,
         \<lparr>FirstSeen = now, LastSeen = now, GateCount = 1, SuppressedUntil = until (minCount \<le> 1)\<rparr>)
     | Some g \<Rightarrow>
         if (case SuppressedUntil g of None \<Rightarrow> False | Some u \<Rightarrow> now < u)
         then (False, g\<lparr>LastSeen := now, GateCount := GateCount g + 1\<rparr>)
         else (let restart = window > 0 \<and> now - FirstSeen g > window;
                   n = (if restart then 1 else GateCount g + 1);
                   allowed = (minCount \<le> 1 \<or> n \<ge> minCount) in
               (allowed, \<lparr>FirstSeen = (if restart then now else FirstSeen g), LastSeen = now,
                          GateCount = n, SuppressedUntil = until allowed\<rparr>)))"

fun gateRun ::
  "int \<Rightarrow> int \<Rightarrow> int \<Rightarrow> EventGateState option \<Rightarrow> int list \<Rightarrow> (int \<times> bool) list" where
  "gateRun window backoff minCount row [] = []"
| "gateRun window backoff minCount row (now # ts) =
    (let (allowed, g) = gateStep window backoff minCount row now in
     (now, allowed) # gateRun window backoff minCount (Some g) ts)"

abbreviation gateOf :: "DB \<Rightarrow> string \<times> string \<Rightarrow> EventGateState option" where
  "gateOf d k \<equiv> map_of (gatesT (tables d)) k"

lemma map_of_putGate:
  "map_of (gatesT (putGate k g t)) k' = (if k' = k then Some g else map_of (gatesT t) k')"
proof -
  have "map_of (filter (\<lambda>(j, _). j \<noteq> k) xs) k' = (if k' = k then None else map_of xs k')" for xs :: "((string \<times> string) \<times> EventGateState) list"
    by (induction xs) auto
  then show ?thesis by (simp add: putGate_def)
qed

lemma UpsertEventGate_refines:
  assumes run: "UpsertEventGate src fp now window backoff minCount d = (Inr (allowed, g), d')"
  defines "k \<equiv> (TrimSpace src, TrimSpace fp)"
  shows "gateOf d' k = Some (snd (gateStep window backoff minCount (gateOf d k) now))"
    and "allowed = fst (gateStep window backoff minCount (gateOf d k) now)"
    and "k' \<noteq> k \<Longrightarrow> gateOf d' k' = gateOf d k'"
proof -
  have ids: "TrimSpace src \<noteq> []" "TrimSpace fp \<noteq> []"
    using run by (auto simp: UpsertEventGate_def failS_def Let_def split: if_splits)
  have "gateOf d' k = Some (snd (gateStep window backoff minCount (gateOf d k) now)) \<and>
      allowed = fst (gateStep window backoff minCount (gateOf d k) now) \<and>
      (k' \<noteq> k \<longrightarrow> gateOf d' k' = gateOf d k')"
  proof (cases "gateOf d k")
    case None
    then show ?thesis
      using run ids
      by (auto simp: UpsertEventGate_def bindS_eq_Inr query_ok execute_ok okS_def Let_def k_def gateStep_def
          map_of_putGate split: if_splits)
  next
    case (Some g0)
    show ?thesis
    proof (cases "case SuppressedUntil g0 of None \<Rightarrow> False | Some u \<Rightarrow> now < u")
      case True
      then show ?thesis
        using run ids Some
        by (auto simp: UpsertEventGate_def bindS_eq_Inr query_ok execute_ok okS_def Let_def k_def gateStep_def
            map_of_putGate split: if_splits)
    next
      case False
      then show ?thesis
        using run ids Some
        by (auto simp: UpsertEventGate_def bindS_eq_Inr query_ok execute_ok okS_def Let_def k_def gateStep_def
            map_of_putGate split: if_splits)
    qed
  qed
  then show "gateOf d' k = Some (snd (gateStep window backoff minCount (gateOf d k) now))"
    "allowed = fst (gateStep window backoff minCount (gateOf d k) now)"
    "k' \<noteq> k \<Longrightarrow> gateOf d' k' = gateOf d k'" by blast+
qed

text \<open>Events that pass are at least the back-off apart.\<close>

lemma gateRun_times: "map fst (gateRun window backoff minCount row ts) = ts"
  by (induction ts arbitrary: row) (auto simp: Let_def split: prod.split)

lemma gateRun_suppressed:
  "SuppressedUntil g = Some u \<Longrightarrow> sorted ts \<Longrightarrow>
   (t, True) \<in> set (gateRun window backoff minCount (Some g) ts) \<Longrightarrow> u \<le> t"
proof (induction ts arbitrary: g)
  case Nil
  then show ?case by simp
next
  case (Cons now ts)
  show ?case
  proof (cases "now < u")
    case True
    with Cons.prems have "(t, True) \<in> set (gateRun window backoff minCount
        (Some (g\<lparr>LastSeen := now, GateCount := GateCount g + 1\<rparr>)) ts)"
      by (auto simp: gateStep_def Let_def)
    with Cons.IH [of "g\<lparr>LastSeen := now, GateCount := GateCount g + 1\<rparr>"] Cons.prems(1,2) show ?thesis by simp
  next
    case False
    have "t \<in> set (now # ts)"
      using Cons.prems(3) gateRun_times [of window backoff minCount "Some g" "now # ts"] by (metis fst_conv image_eqI list.set_map)
    with False Cons.prems(2) show ?thesis by auto
  qed
qed

lemma gateStep_suppresses:
  "gateStep window backoff minCount row now = (True, g) \<Longrightarrow> 0 < backoff \<Longrightarrow> SuppressedUntil g = Some (now + backoff)"
  by (auto simp: gateStep_def Let_def split: option.splits if_splits)

lemma gateRun_backoff:
  assumes "0 < backoff" "sorted ts"
  shows "sorted_wrt (\<lambda>(t, a) (t', a'). a \<and> a' \<longrightarrow> t + backoff \<le> t') (gateRun window backoff minCount row ts)"
  using assms(2)
proof (induction ts arbitrary: row)
  case Nil
  then show ?case by simp
next
  case (Cons now ts)
  obtain allowed g where st: "gateStep window backoff minCount row now = (allowed, g)" by fastforce
  have "now + backoff \<le> t" if "allowed" "(t, True) \<in> set (gateRun window backoff minCount (Some g) ts)" for t
    using gateRun_suppressed that gateStep_suppresses st assms(1) Cons.prems by fastforce
  with Cons st show ?case by (auto simp: Let_def)
qed

text \<open>An event passes only when the threshold is reached.\<close>

lemma gateStep_threshold:
  "fst (gateStep window backoff minCount row now) \<Longrightarrow>
   minCount \<le> 1 \<or> minCount \<le> GateCount (snd (gateStep window backoff minCount row now))"
  by (auto simp: gateStep_def Let_def split: option.splits if_splits)

end
