(* ===== verification/Examples.thy ===== *)
theory Examples
  imports Plan_Api Temporal Executor_Live Store_Reach
begin

text \<open>
  Concrete states, servers and tools on which the properties are instantiated: a database with
  one plan of two steps and its approval, a tool whose runs always succeed or always fail, a
  workflow engine that retries five times, a policy that allows everything.
\<close>

definition exCtx :: ContextRef where
  "exCtx = \<lparr>TenantID = ''t1'', Environment = ''dev'', ClusterID = ''c'', Namespace = ''n'',
     AWSAccountID = ''a'', Region = ''r'', ArgoCDProject = ''p'', GrafanaOrgID = ''g''\<rparr>"

definition exPlanRow :: PlanRow where
  "exPlanRow = \<lparr>PrID = ''plan_1'', PrCreatedAt = 1, PrTrigger = ''manual'', PrSummary = ''s'',
     PrContext = ctxDoc exCtx, PrRisk = ''low'', PrIntent = Some ''restart'', PrConstraints = None,
     PrText = None, PrSession = None, PrMeta = None\<rparr>"

definition exStepRow :: "string \<Rightarrow> string \<Rightarrow> StepRow" where
  "exStepRow i action = \<lparr>SrID = i, SrPlan = ''plan_1'', SrAction = action, SrTool = ''vault'',
     SrInput = GMap [], SrPreconditions = None,
     SrRollback = Some (GMap [(''tool'', GStr ''vault''), (''action'', GStr ''undo'')])\<rparr>"

definition exApproval :: "string \<Rightarrow> ApprovalRow" where
  "exApproval status = \<lparr>ArID = ''approval_1'', ArPlan = ''plan_1'', ArStatus = status, ArApprover = None,
     ArExpires = None, ArSource = ''linear'', ArHash = None\<rparr>"

definition exExec :: ExecRow where
  "exExec = \<lparr>ErID = ''exec_1'', ErPlan = ''plan_1'', ErStatus = ''pending'', ErStartedAt = 2,
     ErCompletedAt = None, ErWorkflow = None\<rparr>"

definition exTables :: "string \<Rightarrow> ExecRow list \<Rightarrow> Tables" where
  "exTables status execs = emptyTables\<lparr>plansT := [exPlanRow],
     stepsT := [exStepRow ''step_1'' ''read'', exStepRow ''step_2'' ''write''],
     approvalsT := [exApproval status], execsT := execs\<rparr>"

definition exDB :: "Tables \<Rightarrow> DB" where
  "exDB t = \<lparr>clockAt = (\<lambda>n. n + 5), clockReads = 0, connFault = (\<lambda>_. None), stmtCount = 0,
     tieBreak = hd, tables = t\<rparr>"

definition exServer :: Server where
  "exServer = \<lparr>srvPolicy = Some (\<lambda>_. Inr (plainDecision ''allow'')), srvUnmarshal = (\<lambda>_. None),
     srvDigest = (\<lambda>intent steps. ''digest''), srvSHA = id, srvStamp = ''2024-01-01T00:00:00Z'',
     srvParseTime = (\<lambda>_. Inr 0), srvTime = \<lparr>utcClock = 0, zoneClock = (\<lambda>_. None)\<rparr>,
     srvPlanner = None, srvDiagnostics = None, srvApprovals = None, srvExecutor = None,
     AutoApproveLow = False, EnableEventLoop = False, EventLoopSources = [], SessionRequired = False\<rparr>"

definition exRequest :: "string \<Rightarrow> string \<Rightarrow> Request" where
  "exRequest meth path = \<lparr>rqMethod = meth, rqPath = path, rqHeaders = [(''X-Tenant-Id'', ''t1'')],
     rqQuery = [], rqBody = [], rqActor = None\<rparr>"

definition exGateway :: "Tables \<Rightarrow> Gateway" where
  "exGateway t = \<lparr>gwDB = exDB t, gwHub = NewEventHub, gwIssues = [], gwStarts = []\<rparr>"

section \<open>The approved plan is accepted for execution\<close>

text \<open>The gateway after \<open>n\<close> statements that changed nothing, and the steps as the gateway reads them.\<close>

definition gwAt :: "nat \<Rightarrow> Gateway" where
  "gwAt n = (exGateway (exTables ''approved'' []))\<lparr>gwDB := (exDB (exTables ''approved'' []))\<lparr>stmtCount := n\<rparr>\<rparr>"

definition exSteps :: "PlanStep list" where
  "exSteps = map (\<lambda>r. (stepOfRow r)\<lparr>Stage := ''act''\<rparr>) [exStepRow ''step_1'' ''read'', exStepRow ''step_2'' ''write'']"

abbreviation exPost :: Request where
  "exPost \<equiv> exRequest ''POST'' ''/v1/plans/plan_1:execute''"

lemmas ex_defs = exServer_def exRequest_def exGateway_def exTables_def exDB_def exPlanRow_def exStepRow_def
  exApproval_def exCtx_def emptyTables_def

lemmas ex_run = bindH_def dbH_def tryDB_def onGwDB_def query_def okH_def checkH_def Let_def

lemma ex_step_order: "(''step_1'' :: string) \<le> ''step_2''"
  by code_simp

lemma ex_plan:
  "enforceSessionMatch exPost (planDoc exPlanRow) = Inr ()"
  "webValidateContextRefStrict (planContextRef (planDoc exPlanRow)) = Inr ()"
  "executeRisk (planDoc exPlanRow) = ''low''"
  "stepsOfPlan exServer (planDoc exPlanRow) = []"
  "parsePlanStepsJSON (GList [GMap (stepDoc (exStepRow ''step_1'' ''read'')),
     GMap (stepDoc (exStepRow ''step_2'' ''write''))]) = Inr exSteps"
  "policyDecision exServer exPost ''plan.execute'' ''write'' (planContextRef (planDoc exPlanRow)) ''low''
     (int (estimateTargets exSteps)) = Inr (plainDecision ''allow'')"
  "enforceConstraints (srvTime exServer) (planContextRef (planDoc exPlanRow))
     (constraintsFromPlan (srvUnmarshal exServer) (planDoc exPlanRow)) exSteps ''write'' = Inr ()"
  by code_simp+

lemma ex_reads:
  "decodeExecuteBody exServer exPost g = (Inr [], g)"
  "dbH (requireSession exServer exPost) rep g = (Inr [], g)"
  "getPlanH ''plan_1'' (gwAt n) = (Inr (planDoc exPlanRow), gwAt (Suc n))"
  "approvalH exServer exPost ''plan_1'' [] (gwAt n) = (Inr (), gwAt (Suc n))"
  "hashH exServer exPost ''plan_1'' i st (gwAt n) = (Inr (), gwAt (Suc n))"
  "dbH (HasActiveExecution ''plan_1'') rep (gwAt n) = (Inr False, gwAt (Suc n))"
  by (simp_all add: decodeExecuteBody_def requireSession_def okS_def getPlanH_def GetPlan_def approvalH_def
      approvalStatus_def TrimSpace_solid solid_def GetApprovalStatus_def latestApproval_def hashH_def
      GetApprovalHash_def HasActiveExecution_def gwAt_def ex_run ex_defs)

lemma ex_executeSteps: "executeSteps exServer ''plan_1'' (planDoc exPlanRow) (gwAt n) = (Inr exSteps, gwAt (Suc n))"
proof -
  have "SrPlan (exStepRow i a) = ''plan_1''" "SrID (exStepRow i a) = i" for i a
    by (simp_all add: exStepRow_def)
  then show ?thesis
    by (simp add: executeSteps_def ex_plan ListPlanSteps_def ex_step_order ex_run gwAt_def exGateway_def
        exTables_def exDB_def emptyTables_def)
qed

lemma ex_executeChecks:
  "executeChecks exServer exPost ''plan_1'' (gwAt 0) = (Inr (planDoc exPlanRow, exSteps), gwAt (Suc (Suc (Suc (Suc (Suc 0))))))"
  by (simp add: executeChecks_def bindH_def checkH_def okH_def decisionH_def ex_plan ex_reads
      ex_executeSteps plainDecision_def TrimSpace_solid solid_def Let_def)

lemma ex_created: "fst (dbH (CreateExecution ''plan_1'') rep (gwAt n)) = Inr ''exec_5''"
proof -
  have "showNat 5 = ''5''" by code_simp
  then show ?thesis
    by (simp add: dbH_def onGwDB_def CreateExecution_def newID_run bindS_def timeNow_def okS_def execute_def
        Let_def hasExec_def hasPlan_def gwAt_def ex_defs)
qed

lemma ex_execute:
  "fst (handlePlanExecute exServer exPost ''plan_1'' (gwAt 0)) = Inr (200, GMap [(''execution_id'', GStr ''exec_5'')])"
proof -
  obtain h where "dbH (CreateExecution ''plan_1'') (httpError ''db error'' 500) (gwAt (Suc (Suc (Suc (Suc (Suc 0)))))) =
      (Inr ''exec_5'', h)"
    by (metis ex_created prod.collapse)
  moreover have "srvExecutor exServer = None" by (simp add: exServer_def)
  ultimately show ?thesis
    by (simp add: handlePlanExecute_def ex_executeChecks bindH_def okH_def startExecution_def auditEvent_def
        emit_def Let_def split: prod.split)
qed

section \<open>A plan whose tools succeed, and one whose tools fail\<close>

definition exSandbox :: "outcome \<Rightarrow> Sandbox" where
  "exSandbox res = NewSandboxPermissive\<lparr>RunFunc := Some (\<lambda>_. res)\<rparr>"

definition exRouterEnv :: RouterEnv where
  "exRouterEnv = \<lparr>renvUnmarshal = (\<lambda>_. None), renvMarshal = (\<lambda>_. None),
     renvSchema = \<lparr>schemas = (\<lambda>_. None), schemaValid = (\<lambda>_ _. Inr (True, []))\<rparr>,
     renvOS = \<lparr>onPath = (\<lambda>_. True), runProcess = (\<lambda>_ _ _. ([], None)), proxyPort = (\<lambda>_. Inl [])\<rparr>,
     renvSHA = id, renvTemp = Inr, renvClients = (\<lambda>_. None), renvRedact = None, renvNow = 0, evOrder = []\<rparr>"

definition exExecutor :: "outcome \<Rightarrow> Executor" where
  "exExecutor res = \<lparr>exRuntime = Some \<lparr>rtRouter = True, rtSandbox = Some (exSandbox res), rtRedactor = None\<rparr>,
     exObjects = None, exMaxBatch = 0, exEnv = (\<lambda>_. exRouterEnv), exMarshal = (\<lambda>_. Inr []),
     exUnmarshal = (\<lambda>_. None), exStamp = [], exParseTime = (\<lambda>_. Inr 0)\<rparr>"

definition exWorld :: World where
  "exWorld = \<lparr>xDB = exDB (exTables ''approved'' [exExec]), xRouter = NewRouter, xBlobOps = 0, xCalls = []\<rparr>"

definition exRef :: ExecutionRef where
  "exRef = \<lparr>RefExecutionID = ''exec_1'', RefPlanID = ''plan_1''\<rparr>"

definition exCall :: "string \<Rightarrow> ExecuteRequest" where
  "exCall action = \<lparr>ReqTool = ''vault'', ReqAction = action, ReqInput = GMap [], ReqToolCallID = [],
     ReqExecutionID = [], ReqContext = exCtx\<rparr>"

lemma ex_command:
  "sandboxCommand exRouterEnv (exSandbox res) (exCall ''read'') = Some [''vault'', ''read'']"
  "sandboxCommand exRouterEnv (exSandbox res) (exCall ''write'') = Some [''vault'', ''write'']"
  by code_simp+

lemma sandboxCommand_ids:
  "ReqTool req' = ReqTool req \<Longrightarrow> ReqAction req' = ReqAction req \<Longrightarrow> ReqInput req' = ReqInput req \<Longrightarrow>
   sandboxCommand env sb req' = sandboxCommand env sb req"
proof -
  assume same: "ReqTool req' = ReqTool req" "ReqAction req' = ReqAction req" "ReqInput req' = ReqInput req"
  then have "validateExecuteRequest se unm req' = validateExecuteRequest se unm req" for se unm
    by (simp add: validateExecuteRequest_def)
  moreover from same have "cliInput env tool req' = cliInput env tool req" for tool
    by (simp add: cliInput_def)
  ultimately show ?thesis using same by (simp add: sandboxCommand_def split: sum.split)
qed

lemma ex_planSteps:
  "planSteps (tables (xDB exWorld)) ''plan_1'' =
     [stepOfRow (exStepRow ''step_1'' ''read''), stepOfRow (exStepRow ''step_2'' ''write'')]"
  by code_simp

lemma ex_toolWorks:
  assumes "a = ''read'' \<or> a = ''write''"
  shows "toolWorks (exExecutor (out, None)) x ctx (stepOfRow (exStepRow i a))"
proof -
  let ?req = "\<lambda>c. \<lparr>ReqTool = ''vault'', ReqAction = a, ReqInput = GMap [], ReqToolCallID = c,
     ReqExecutionID = x, ReqContext = ctx\<rparr>"
  have "sandboxCommand exRouterEnv (exSandbox (out, None)) (?req c) = Some [''vault'', a]" for c
  proof -
    have "sandboxCommand exRouterEnv (exSandbox (out, None)) (?req c) =
        sandboxCommand exRouterEnv (exSandbox (out, None)) (exCall a)"
      by (rule sandboxCommand_ids) (simp_all add: exCall_def)
    then show ?thesis using assms ex_command [of "(out, None)"] by auto
  qed
  then have "snd (fst (Execute exRouterEnv (Some (exSandbox (out, None))) (?req c) st)) = None" for c st
    by (simp add: Execute_cli(3) sandboxRun_def exSandbox_def)
  then show ?thesis by (simp add: toolWorks_def exExecutor_def stepOfRow_def exStepRow_def)
qed

lemma ex_healthy: "healthyDB ''exec_1'' (xDB exWorld)"
  by (simp add: healthyDB_def freshFrom_def hasExec_def inj_def exWorld_def exExec_def ex_defs)

lemma ex_executePlan: "\<exists>w'. executePlan (exExecutor (out, None)) exRef exWorld = (Inr (), w')"
proof (rule live_executePlan)
  show "blobsWork (exExecutor (out, None))" by (simp add: blobsWork_def exExecutor_def)
  show "list_all (toolWorks (exExecutor (out, None)) (RefExecutionID exRef)
      (planContext (tables (xDB exWorld)) (RefPlanID exRef))) (planSteps (tables (xDB exWorld)) (RefPlanID exRef))"
    by (simp add: exRef_def ex_planSteps ex_toolWorks)
qed (simp_all add: exRef_def ex_healthy TrimSpace_solid solid_def)

text \<open>With tools that fail, the first step stops the run.\<close>

lemma ex_tool_fails:
  assumes "a = ''read'' \<or> a = ''write''"
  shows "\<exists>w'. runTool (exExecutor (out, Some err)) x c ''vault'' a (GMap []) ctx w = (Inl err, w')"
proof -
  let ?req = "\<lparr>ReqTool = ''vault'', ReqAction = a, ReqInput = GMap [], ReqToolCallID = c,
     ReqExecutionID = x, ReqContext = ctx\<rparr>"
  have "sandboxCommand exRouterEnv (exSandbox (out, Some err)) ?req =
      sandboxCommand exRouterEnv (exSandbox (out, Some err)) (exCall a)"
    by (rule sandboxCommand_ids) (simp_all add: exCall_def)
  then have "sandboxCommand exRouterEnv (exSandbox (out, Some err)) ?req = Some [''vault'', a]"
    using assms ex_command [of "(out, Some err)"] by auto
  then have "snd (fst (Execute exRouterEnv (Some (exSandbox (out, Some err))) ?req st)) = Some err" for st
    by (simp add: Execute_cli(3) sandboxRun_def exSandbox_def)
  from this [of "xRouter w"] show ?thesis
    by (auto simp: runTool_def exExecutor_def Let_def split: prod.splits option.splits)
qed

lemma ex_step_fails:
  assumes "healthyDB x (xDB w)" "a = ''read'' \<or> a = ''write''"
  shows "\<exists>w'. executeStep (exExecutor (out, Some err)) x ctx (stepOfRow (exStepRow i a)) w = (Inl err, w')"
proof -
  obtain c d where "InsertToolCall x (Some (GMap [(''tool_name'', GStr ''vault''), (''status'', GStr ''running''),
      (''input_ref'', GStr []), (''output_ref'', GStr [])])) (xDB w) = (Inr c, d)"
    using InsertToolCall_live [OF assms(1)] by blast
  moreover obtain w' where
    "runTool (exExecutor (out, Some err)) x c ''vault'' a (GMap []) ctx (w\<lparr>xDB := d\<rparr>) = (Inl err, w')"
    using ex_tool_fails [OF assms(2)] by blast
  moreover have "exObjects (exExecutor (out, Some err)) = None" by (simp add: exExecutor_def)
  ultimately show ?thesis
    by (simp add: executeStep_def callTool_def insertToolCall_def onDB_def bindS_def onError_def storeInput_def
        okS_def stepOfRow_def exStepRow_def)
qed

lemma ex_executePlan_fails: "\<exists>w'. executePlan (exExecutor (out, Some err)) exRef exWorld = (Inl err, w')"
proof -
  let ?e = "exExecutor (out, Some err)" and ?ctx = "planContext (tables (xDB exWorld)) ''plan_1''"
  obtain w1 where run: "executePlan ?e exRef exWorld = runPlan ?e ''exec_1'' ?ctx
        (planSteps (tables (xDB exWorld)) ''plan_1'') w1" and "healthyDB ''exec_1'' (xDB w1)"
    using executePlan_loads [of exRef exWorld ?e] ex_healthy by (auto simp: exRef_def TrimSpace_solid solid_def)
  then obtain w2 where "executeStep ?e ''exec_1'' ?ctx (stepOfRow (exStepRow ''step_1'' ''read'')) w1 = (Inl err, w2)"
    using ex_step_fails by blast
  then show ?thesis by (simp add: run runPlan_def ex_planSteps split: prod.split)
qed

section \<open>A workflow engine that tries five times\<close>

fun attempts :: "nat \<Rightarrow> ('s, 'a) op \<Rightarrow> ('s, 'a) op" where
  "attempts 0 m s = m s"
| "attempts (Suc n) m s = (case m s of (Inl e, s') \<Rightarrow> (if n = 0 then (Inl e, s') else attempts n m s') | ok \<Rightarrow> ok)"

lemma retriesUpTo_attempts: "retriesUpTo (Suc n) (attempts (Suc n) :: ('s, 'a) op \<Rightarrow> ('s, 'a) op)"
proof -
  have "\<exists>k\<le>Suc n. snd (attempts (Suc n) m s) = runTimes m k s \<and> 1 \<le> k \<and>
      (\<forall>x. fst (attempts (Suc n) m s) = Inr x \<longrightarrow> fst (m (runTimes m (k - 1) s)) = Inr x)"
    for m :: "('s, 'a) op" and s
  proof (induction n arbitrary: s)
    case 0
    show ?case
      by (intro exI [of _ 1]) (auto simp: runTimes_def dropS_def split: prod.splits sum.splits)
  next
    case (Suc n)
    obtain r s' where ms: "m s = (r, s')" by fastforce
    show ?case
    proof (cases r)
      case (Inr x)
      with ms show ?thesis by (intro exI [of _ 1]) (auto simp: runTimes_def dropS_def)
    next
      case (Inl e)
      obtain k where k: "k \<le> Suc n" "snd (attempts (Suc n) m s') = runTimes m k s'" "1 \<le> k"
        "\<forall>x. fst (attempts (Suc n) m s') = Inr x \<longrightarrow> fst (m (runTimes m (k - 1) s')) = Inr x"
        using Suc.IH [of s'] by blast
      have "runTimes m (Suc j) s = runTimes m j s'" for j using ms by (simp add: runTimes_Suc)
      from this [of k] this [of "k - 1"] k ms Inl show ?thesis by (intro exI [of _ "Suc k"]) auto
    qed
  qed
  then show ?thesis unfolding retriesUpTo_def by blast
qed

text \<open>Without a runtime every activity fails.\<close>

definition exVerify :: PlanStep where
  "exVerify = (stepOfRow (exStepRow ''step_3'' ''read''))\<lparr>Stage := ''verify''\<rparr>"

definition exNoRuntime :: Executor where
  "exNoRuntime = (exExecutor ([], None))\<lparr>exRuntime := None\<rparr>"

lemma attempts_fail: "(\<And>s. m s = (Inl e, s)) \<Longrightarrow> attempts n m s = (Inl e, s)"
  by (induction n arbitrary: s) auto

lemma ex_verify_fails:
  "forSteps (\<lambda>step. attempts 5 (ExecuteStep exNoRuntime (stepInput ''plan_1'' ''exec_1'' exCtx step))) [exVerify] exWorld =
   (Some (exVerify, ''runtime required''), exWorld)"
proof -
  have "attempts 5 (ExecuteStep exNoRuntime i) s = (Inl ''runtime required'', s)" for i s
    by (rule attempts_fail) (simp add: ExecuteStep_def exNoRuntime_def failS_def)
  then show ?thesis by (simp add: forSteps.simps)
qed

section \<open>A plan with two steps is stored\<close>

definition exStepDoc :: "string \<Rightarrow> gval" where
  "exStepDoc action = GMap [(''action'', GStr action), (''tool'', GStr ''vault''), (''input'', GMap [])]"

definition exPlanDoc :: gmap where
  "exPlanDoc = [(''summary'', GStr ''s''), (''steps'', GList [exStepDoc ''read'', exStepDoc ''write''])]"

definition exNanoDB :: DB where
  "exNanoDB = (exDB emptyTables)\<lparr>clockAt := (\<lambda>n. 10 ^ 18 + n)\<rparr>"

definition exPayload :: "string \<Rightarrow> StepPayload" where
  "exPayload action = \<lparr>SpAction = action, SpTool = ''vault'', SpInput = Some (GMap []),
     SpPreconditions = None, SpRollback = None\<rparr>"

lemma ex_decodePlanSteps: "decodePlanSteps (gget exPlanDoc ''steps'') = Inr [exPayload ''read'', exPayload ''write'']"
  by code_simp

lemma ex_CreatePlan:
  "\<exists>p d1. CreatePlan (GMap exPlanDoc) exNanoDB = (Inr p, d1) \<and> clockReads d1 = 4 \<and> connFault d1 = (\<lambda>_. None)"
proof -
  have "showNat (Suc (Suc (10 ^ 18))) \<noteq> showNat (Suc (Suc (Suc (10 ^ 18))))"
    using showNat_inj by fastforce
  then show ?thesis
    by (simp add: CreatePlan_def ex_decodePlanSteps bindS_def newID_run timeNow_def tryS_def okS_def withTx_def
        execute_def insertPlan_def insertStep_def exPayload_def exNanoDB_def exDB_def emptyTables_def Let_def hasPlan_def)
qed

end
