(* ===== verification/Go_Base64.thy ===== *)
theory Go_Base64
  imports Go_Values
begin

text \<open>
  \<open>base64.RawURLEncoding\<close> of Go's library, the encoding of the segments of a JSON web token and
  of the numbers of a JSON web key: line breaks are skipped, any other character outside the
  alphabet is an error, there is no padding, and the unused bits of a last group are ignored.
  \<open>EncodeToString\<close> is the inverse the tokens are made with. \<open>setBytes\<close> is \<open>big.Int.SetBytes\<close>.
\<close>

definition urlAlphabet :: string where
  "urlAlphabet = ''ABCDEFGHIJKLMNOPQRSTUVWXYZabcdefghijklmnopqrstuvwxyz0123456789-_''"

fun indexIn :: "char \<Rightarrow> string \<Rightarrow> nat option" where
  "indexIn c [] = None"
| "indexIn c (x # xs) = (if c = x then Some 0 else map_option Suc (indexIn c xs))"

definition sextet :: "char \<Rightarrow> nat option" where
  "sextet c = indexIn c urlAlphabet"

fun joinSextets :: "nat list \<Rightarrow> string result" where
  "joinSextets [] = Inr []"
| "joinSextets [a] = Inl ''illegal base64 data''"
| "joinSextets [a, b] = Inr [char_of (a * 4 + b div 16)]"
| "joinSextets [a, b, c] = Inr [char_of (a * 4 + b div 16), char_of (b mod 16 * 16 + c div 4)]"
| "joinSextets (a # b # c # d # rest) =
     bindR (joinSextets rest) (\<lambda>out.
       Inr (char_of (a * 4 + b div 16) # char_of (b mod 16 * 16 + c div 4) # char_of (c mod 4 * 64 + d) # out))"

definition isLineBreak :: "char \<Rightarrow> bool" where
  "isLineBreak c \<longleftrightarrow> c = CHR 0x0A \<or> c = CHR 0x0D"

definition DecodeString :: "string \<Rightarrow> string result" where
  "DecodeString s =
    (let cs = filter (\<lambda>c. \<not> isLineBreak c) s in
     if \<exists>c \<in> set cs. sextet c = None then Inl ''illegal base64 data''
     else joinSextets (map (\<lambda>c. the (sextet c)) cs))"

fun splitSextets :: "nat list \<Rightarrow> nat list" where
  "splitSextets [] = []"
| "splitSextets [x] = [x div 4, x mod 4 * 16]"
| "splitSextets [x, y] = [x div 4, x mod 4 * 16 + y div 16, y mod 16 * 4]"
| "splitSextets (x # y # z # rest) =
     x div 4 # (x mod 4 * 16 + y div 16) # (y mod 16 * 4 + z div 64) # (z mod 64) # splitSextets rest"

definition EncodeToString :: "string \<Rightarrow> string" where
  "EncodeToString s = map (\<lambda>n. urlAlphabet ! n) (splitSextets (map of_char s))"

definition setBytes :: "string \<Rightarrow> nat" where
  "setBytes s = foldl (\<lambda>n c. 256 * n + of_char c) 0 s"

section \<open>Facts\<close>

lemma sextet_alphabet: "n < 64 \<Longrightarrow> sextet (urlAlphabet ! n) = Some n \<and> \<not> isLineBreak (urlAlphabet ! n)"
proof -
  have "list_all (\<lambda>n. sextet (urlAlphabet ! n) = Some n \<and> \<not> isLineBreak (urlAlphabet ! n)) [0..<64]"
    by code_simp
  then show "n < 64 \<Longrightarrow> sextet (urlAlphabet ! n) = Some n \<and> \<not> isLineBreak (urlAlphabet ! n)"
    by (simp add: list_all_iff)
qed

lemma splitSextets_bound: "\<forall>x \<in> set xs. x < 256 \<Longrightarrow> y \<in> set (splitSextets xs) \<Longrightarrow> y < 64"
  by (induction xs rule: splitSextets.induct) auto

lemma join_split:
  assumes "\<forall>x \<in> set xs. x < 256"
  shows "joinSextets (splitSextets xs) = Inr (map char_of xs)"
  using assms
proof (induction xs rule: splitSextets.induct)
  case (4 x y z rest)
  have "x div 4 * 4 + (x mod 4 * 16 + y div 16) div 16 = x"
    "(x mod 4 * 16 + y div 16) mod 16 * 16 + (y mod 16 * 4 + z div 64) div 4 = y"
    "(y mod 16 * 4 + z div 64) mod 4 * 64 + z mod 64 = z"
    using "4.prems" by auto
  with 4 show ?case by simp
qed auto

lemma DecodeString_EncodeToString: "DecodeString (EncodeToString s) = Inr s"
proof -
  let ?ns = "splitSextets (map of_char s)"
  have lt: "n < 64" if "n \<in> set ?ns" for n
    using splitSextets_bound [OF _ that] by auto
  have "filter (\<lambda>c. \<not> isLineBreak c) (EncodeToString s) = EncodeToString s"
    using lt sextet_alphabet by (auto simp: EncodeToString_def filter_id_conv)
  moreover have "\<not> (\<exists>c \<in> set (EncodeToString s). sextet c = None)"
    using lt sextet_alphabet by (fastforce simp: EncodeToString_def)
  moreover have "map (\<lambda>c. the (sextet c)) (EncodeToString s) = ?ns"
    using lt sextet_alphabet by (simp add: EncodeToString_def comp_def map_idI)
  ultimately have "DecodeString (EncodeToString s) = joinSextets ?ns"
    unfolding DecodeString_def Let_def by (simp only: if_False)
  also have "\<dots> = Inr s" by (subst join_split) (auto simp: comp_def)
  finally show ?thesis .
qed

lemma urlAlphabet_length: "length urlAlphabet = 64"
  by (simp add: urlAlphabet_def)

lemma EncodeToString_chars:
  assumes "c \<in> set (EncodeToString s)"
  shows "c \<in> set urlAlphabet"
proof -
  obtain n where "c = urlAlphabet ! n" "n \<in> set (splitSextets (map of_char s))"
    using assms by (auto simp: EncodeToString_def)
  moreover have "n < 64" if "n \<in> set (splitSextets (map of_char s))" for n
    using splitSextets_bound [OF _ that] by auto
  ultimately show ?thesis using urlAlphabet_length by (metis nth_mem)
qed

lemma EncodeToString_no_dot: "CHR ''.'' \<notin> set (EncodeToString s)"
proof -
  have "CHR ''.'' \<notin> set urlAlphabet" by (simp add: urlAlphabet_def)
  then show ?thesis using EncodeToString_chars by blast
qed

end
