(* ===== verification/Auth.thy ===== *)
theory Auth
  imports Go_Base64 Go_Effects
begin

text \<open>
  \<open>internal/auth\<close>: bearer tokens, JSON web tokens and their RS256 signatures, the checks of the
  claims, and the cache of key sets. Both services use this package; \<open>web/auth.go\<close> and
  \<open>tools/auth_context.go\<close> put the result into the request.

  \<open>AuthEnv\<close> holds what comes from outside: the JSON parser, SHA-256, the RSA primitive
  \<open>rsa.VerifyPKCS1v15\<close> and the clock in seconds. The number of seconds is exact as a
  \<open>float64\<close>. Reading a key set is an operation on a state, instantiated below by the cache.
\<close>

record AuthConfig =
  Issuer :: string
  Audience :: string
  JWKSURL :: string
  DevMode :: bool
  AuthToken :: string

record JWTPayload =
  Sub :: string
  Email :: string
  Groups :: "string list"
  Iss :: string
  Aud :: gval
  Exp :: rat
  Nbf :: rat
  ClaimTenantID :: string

record JWTHeader =
  Alg :: string
  Kid :: string
  Typ :: string

record JWK =
  JwkKty :: string
  JwkKid :: string
  JwkAlg :: string
  JwkUse :: string
  JwkN :: string
  JwkE :: string

type_synonym JWKS = "JWK list"

record PublicKey =
  keyN :: nat
  keyE :: int

record AuthEnv =
  aeUnmarshal :: "string \<Rightarrow> gval option"
  aeSHA :: "string \<Rightarrow> string"
  aeRSA :: "PublicKey \<Rightarrow> string \<Rightarrow> string \<Rightarrow> bool"
  aeUnix :: int

section \<open>Bearer tokens\<close>

definition ParseBearer :: "string \<Rightarrow> string result" where
  "ParseBearer authorization =
    (let hdr = TrimSpace authorization in
     if hdr = [] then Inl ''authorization required''
     else case splitN2 hdr '' '' of
       [a, b] \<Rightarrow> if EqualFold a ''bearer'' then Inr (TrimSpace b) else Inl ''invalid authorization''
     | _ \<Rightarrow> Inl ''invalid authorization'')"

section \<open>Decoding\<close>

fun decodeFloat :: "gval option \<Rightarrow> rat result" where
  "decodeFloat None = Inr 0"
| "decodeFloat (Some GNil) = Inr 0"
| "decodeFloat (Some (GFloat r)) = Inr r"
| "decodeFloat (Some _) = Inl ''json: cannot unmarshal''"

fun decodeStrs :: "gval option \<Rightarrow> string list result" where
  "decodeStrs None = Inr []"
| "decodeStrs (Some GNil) = Inr []"
| "decodeStrs (Some (GList vs)) = mapR (\<lambda>v. decodeStr (Some v)) vs"
| "decodeStrs (Some _) = Inl ''json: cannot unmarshal''"

definition unmarshalDoc :: "AuthEnv \<Rightarrow> string \<Rightarrow> gmap result" where
  "unmarshalDoc env data =
    (case aeUnmarshal env data of None \<Rightarrow> Inl ''json: invalid'' | Some doc \<Rightarrow> decodeObj doc)"

definition decodePayload :: "gmap \<Rightarrow> JWTPayload result" where
  "decodePayload m =
     bindR (decodeStr (jsonField m ''sub'')) (\<lambda>sub.
     bindR (decodeStr (jsonField m ''email'')) (\<lambda>email.
     bindR (decodeStrs (jsonField m ''groups'')) (\<lambda>groups.
     bindR (decodeStr (jsonField m ''iss'')) (\<lambda>iss.
     bindR (decodeFloat (jsonField m ''exp'')) (\<lambda>exp.
     bindR (decodeFloat (jsonField m ''nbf'')) (\<lambda>nbf.
     bindR (decodeStr (jsonField m ''tenant_id'')) (\<lambda>tenant.
       Inr \<lparr>Sub = sub, Email = email, Groups = groups, Iss = iss,
            Aud = (case jsonField m ''aud'' of None \<Rightarrow> GNil | Some v \<Rightarrow> v),
            Exp = exp, Nbf = nbf, ClaimTenantID = tenant\<rparr>)))))))"

definition decodeHeader :: "gmap \<Rightarrow> JWTHeader result" where
  "decodeHeader m =
     bindR (decodeStr (jsonField m ''alg'')) (\<lambda>alg.
     bindR (decodeStr (jsonField m ''kid'')) (\<lambda>kid.
     bindR (decodeStr (jsonField m ''typ'')) (\<lambda>typ.
       Inr \<lparr>Alg = alg, Kid = kid, Typ = typ\<rparr>)))"

definition ParseJWTClaims :: "AuthEnv \<Rightarrow> string \<Rightarrow> JWTPayload result" where
  "ParseJWTClaims env token =
    (case splitChar (CHR ''.'') token of
       _ # p # _ \<Rightarrow>
         bindR (DecodeString p) (\<lambda>payload. bindR (unmarshalDoc env payload) decodePayload)
     | _ \<Rightarrow> Inl ''invalid jwt'')"

definition ParseJWTHeader :: "AuthEnv \<Rightarrow> string \<Rightarrow> JWTHeader result" where
  "ParseJWTHeader env token =
    (case splitChar (CHR ''.'') token of
       h # _ # _ \<Rightarrow>
         bindR (DecodeString h) (\<lambda>header. bindR (unmarshalDoc env header) decodeHeader)
     | _ \<Rightarrow> Inl ''invalid jwt'')"

definition parseJWTForVerify :: "AuthEnv \<Rightarrow> string \<Rightarrow> (JWTHeader \<times> string \<times> string) result" where
  "parseJWTForVerify env token =
    (case splitChar (CHR ''.'') token of
       [h, p, g] \<Rightarrow>
         bindR (DecodeString h) (\<lambda>headerBytes.
         bindR (bindR (unmarshalDoc env headerBytes) decodeHeader) (\<lambda>header.
         bindR (DecodeString g) (\<lambda>sig.
           Inr (header, h @ ''.'' @ p, sig))))
     | _ \<Rightarrow> Inl ''invalid jwt'')"

section \<open>Signatures\<close>

definition SelectJWK :: "JWKS \<Rightarrow> string \<Rightarrow> JWK result" where
  "SelectJWK keys kid =
    (if kid \<noteq> [] then
       (case find (\<lambda>k. JwkKid k = kid) keys of
          Some k \<Rightarrow> Inr k
        | None \<Rightarrow> Inl ''jwks kid not found'')
     else case keys of [k] \<Rightarrow> Inr k | _ \<Rightarrow> Inl ''jwks kid required'')"

definition RSAKeyFromJWK :: "JWK \<Rightarrow> PublicKey result" where
  "RSAKeyFromJWK key =
    (if JwkKty key \<noteq> [] \<and> JwkKty key \<noteq> ''RSA'' then Inl ''unsupported jwk kty''
     else if JwkN key = [] \<or> JwkE key = [] then Inl ''invalid jwk''
     else bindR (DecodeString (JwkN key)) (\<lambda>nBytes.
          bindR (DecodeString (JwkE key)) (\<lambda>eBytes.
          let n = setBytes nBytes; e = setBytes eBytes in
          if \<not> e < 2 ^ 63 then Inl ''invalid jwk exponent''
          else if e = 0 then Inl ''invalid jwk exponent''
          else Inr \<lparr>keyN = n, keyE = int e\<rparr>)))"

definition VerifyRS256 :: "AuthEnv \<Rightarrow> string \<Rightarrow> string \<Rightarrow> PublicKey \<Rightarrow> unit result" where
  "VerifyRS256 env signed sig key =
    (if aeRSA env key (aeSHA env signed) sig then Inr () else Inl ''crypto/rsa: verification error'')"

definition VerifyJWTSignature ::
  "AuthEnv \<Rightarrow> (string \<Rightarrow> ('c, JWKS) op) \<Rightarrow> string \<Rightarrow> AuthConfig \<Rightarrow> ('c, unit) op" where
  "VerifyJWTSignature env fetch token cfg =
    (let jwksURL = TrimSpace (JWKSURL cfg) in
     if jwksURL = [] then
       (if DevMode cfg then okS () else failS ''jwks url required'')
     else bindS (tryS (parseJWTForVerify env token)) (\<lambda>(header, signed, sig).
       if Alg header = [] then failS ''jwt alg required''
       else if Alg header \<noteq> ''RS256'' then failS ''unsupported jwt alg''
       else bindS (fetch jwksURL) (\<lambda>jwks.
            bindS (tryS (SelectJWK jwks (Kid header))) (\<lambda>key.
            bindS (tryS (RSAKeyFromJWK key)) (\<lambda>pub.
              tryS (VerifyRS256 env signed sig pub))))))"

section \<open>Claims\<close>

definition AudienceMatches :: "gval \<Rightarrow> string \<Rightarrow> bool" where
  "AudienceMatches aud target =
    (case aud of
       GStr v \<Rightarrow> v = target
     | GStrs vs \<Rightarrow> target \<in> set vs
     | GList vs \<Rightarrow> GStr target \<in> set vs
     | _ \<Rightarrow> False)"

definition ValidateClaims :: "AuthEnv \<Rightarrow> JWTPayload \<Rightarrow> AuthConfig \<Rightarrow> unit result" where
  "ValidateClaims env claims cfg =
    (if Issuer cfg \<noteq> [] \<and> Iss claims \<noteq> Issuer cfg then Inl ''issuer mismatch''
     else if Audience cfg \<noteq> [] \<and> \<not> AudienceMatches (Aud claims) (Audience cfg) then Inl ''audience mismatch''
     else (let now = of_int (aeUnix env) in
       if Exp claims > 0 \<and> now \<ge> Exp claims then Inl ''token expired''
       else if Nbf claims > 0 \<and> now < Nbf claims then Inl ''token not yet valid''
       else Inr ()))"

text \<open>
  The sequence both services share: \<open>AuthMiddleware\<close> of the gateway with its actor, and
  \<open>authenticate\<close> of the tool router, which also accepts its static token.
\<close>

definition verifyToken ::
  "AuthEnv \<Rightarrow> (string \<Rightarrow> ('c, JWKS) op) \<Rightarrow> AuthConfig \<Rightarrow> string \<Rightarrow> ('c, JWTPayload) op" where
  "verifyToken env fetch cfg token =
     bindS (tryS (ParseJWTClaims env token)) (\<lambda>claims.
     bindS (tryS (ValidateClaims env claims cfg)) (\<lambda>_.
     bindS (VerifyJWTSignature env fetch token cfg) (\<lambda>_. okS claims)))"

section \<open>Facts\<close>

lemma splitChar_join: "strJoin (splitChar c s) [c] = s"
proof (induction s)
  case (Cons x xs)
  obtain y ys where "splitChar c xs = y # ys" by (cases "splitChar c xs") auto
  with Cons show ?case by (cases ys) auto
qed simp

lemma splitChar_solid: "c \<notin> set s \<Longrightarrow> splitChar c s = [s]"
  by (induction s) auto

lemma splitChar_append: "c \<notin> set s \<Longrightarrow> splitChar c (s @ c # t) = s # splitChar c t"
  by (induction s) auto

lemma parseJWTForVerify_ok:
  assumes "parseJWTForVerify env token = Inr (header, signed, sig)"
  obtains h p g where "token = h @ ''.'' @ p @ ''.'' @ g" "splitChar (CHR ''.'') token = [h, p, g]"
    "signed = h @ ''.'' @ p" "DecodeString g = Inr sig"
proof -
  from assms obtain h p g where t: "splitChar (CHR ''.'') token = [h, p, g]"
    by (auto simp: parseJWTForVerify_def split: list.splits)
  then have "token = h @ ''.'' @ p @ ''.'' @ g" using splitChar_join [of "CHR ''.''" token] by simp
  moreover have "signed = h @ ''.'' @ p" "DecodeString g = Inr sig"
    using assms unfolding parseJWTForVerify_def t by (auto simp: bindR_eq_Inr)
  ultimately show ?thesis using t that by blast
qed

lemma SelectJWK_in: "SelectJWK keys kid = Inr k \<Longrightarrow> k \<in> set keys \<and> (kid \<noteq> [] \<longrightarrow> JwkKid k = kid)"
  by (auto simp: SelectJWK_def find_Some_iff split: if_splits option.splits list.splits)

lemma VerifyJWTSignature_ok:
  assumes "VerifyJWTSignature env fetch token cfg c = (Inr (), c')" "TrimSpace (JWKSURL cfg) \<noteq> []"
  obtains header signed sig keys key pub where
    "parseJWTForVerify env token = Inr (header, signed, sig)" "Alg header = ''RS256''"
    "fetch (TrimSpace (JWKSURL cfg)) c = (Inr keys, c')"
    "key \<in> set keys" "Kid header \<noteq> [] \<longrightarrow> JwkKid key = Kid header"
    "RSAKeyFromJWK key = Inr pub" "aeRSA env pub (aeSHA env signed) sig"
proof -
  from assms obtain header signed sig keys key pub t where
    p: "parseJWTForVerify env token = Inr (header, signed, sig)" "Alg header = ''RS256''"
    and f: "fetch (TrimSpace (JWKSURL cfg)) c = (Inr keys, t)" "t = c'"
    and k: "SelectJWK keys (Kid header) = Inr key" "RSAKeyFromJWK key = Inr pub"
    and v: "VerifyRS256 env signed sig pub = Inr ()"
    by (auto simp: VerifyJWTSignature_def Let_def bindS_eq_Inr tryS_def failS_def split: if_splits)
  from v have "aeRSA env pub (aeSHA env signed) sig" by (simp add: VerifyRS256_def split: if_splits)
  with p f k SelectJWK_in that show ?thesis by blast
qed

text \<open>A verified token: its claims are in the part that was signed.\<close>

lemma verifyToken_ok:
  assumes "verifyToken env fetch cfg token c = (Inr claims, c')" "TrimSpace (JWKSURL cfg) \<noteq> []"
  obtains h p g sig keys key pub where
    "token = h @ ''.'' @ p @ ''.'' @ g"
    "bindR (DecodeString p) (\<lambda>payload. bindR (unmarshalDoc env payload) decodePayload) = Inr claims"
    "DecodeString g = Inr sig" "fetch (TrimSpace (JWKSURL cfg)) c = (Inr keys, c')"
    "key \<in> set keys" "RSAKeyFromJWK key = Inr pub" "aeRSA env pub (aeSHA env (h @ ''.'' @ p)) sig"
    "ValidateClaims env claims cfg = Inr ()"
proof -
  from assms(1) have c: "ParseJWTClaims env token = Inr claims" "ValidateClaims env claims cfg = Inr ()"
    and v: "VerifyJWTSignature env fetch token cfg c = (Inr (), c')"
    by (auto simp: verifyToken_def bindS_eq_Inr tryS_def okS_def)
  obtain header signed sig keys key pub where
    w: "parseJWTForVerify env token = Inr (header, signed, sig)"
    "fetch (TrimSpace (JWKSURL cfg)) c = (Inr keys, c')" "key \<in> set keys" "RSAKeyFromJWK key = Inr pub"
    "aeRSA env pub (aeSHA env signed) sig"
    by (rule VerifyJWTSignature_ok [OF v assms(2)])
  obtain h p g where t: "token = h @ ''.'' @ p @ ''.'' @ g" "splitChar (CHR ''.'') token = [h, p, g]"
    "signed = h @ ''.'' @ p" "DecodeString g = Inr sig"
    by (rule parseJWTForVerify_ok [OF w(1)])
  from c(1) have "bindR (DecodeString p) (\<lambda>payload. bindR (unmarshalDoc env payload) decodePayload) = Inr claims"
    by (simp add: ParseJWTClaims_def t(2))
  with t w c(2) that show ?thesis by blast
qed

lemma ValidateClaims_ok:
  "ValidateClaims env claims cfg = Inr () \<longleftrightarrow>
   (Issuer cfg = [] \<or> Iss claims = Issuer cfg) \<and>
   (Audience cfg = [] \<or> AudienceMatches (Aud claims) (Audience cfg)) \<and>
   (Exp claims > 0 \<longrightarrow> of_int (aeUnix env) < Exp claims) \<and>
   (Nbf claims > 0 \<longrightarrow> Nbf claims \<le> of_int (aeUnix env))"
  by (auto simp: ValidateClaims_def Let_def not_le)

text \<open>The compact serialisation of a token, and that a token built with it is read back.\<close>

definition compactToken :: "string \<Rightarrow> string \<Rightarrow> string \<Rightarrow> string" where
  "compactToken header payload sig =
     EncodeToString header @ ''.'' @ EncodeToString payload @ ''.'' @ EncodeToString sig"

lemma compactToken_split:
  "splitChar (CHR ''.'') (compactToken h p g) = [EncodeToString h, EncodeToString p, EncodeToString g]"
  using splitChar_append [OF EncodeToString_no_dot] splitChar_solid [OF EncodeToString_no_dot]
  by (simp add: compactToken_def)

lemma verifyToken_compact:
  assumes "TrimSpace (JWKSURL cfg) \<noteq> []"
    and "bindR (unmarshalDoc env h) decodeHeader = Inr header" "Alg header = ''RS256''"
    and "bindR (unmarshalDoc env p) decodePayload = Inr claims" "ValidateClaims env claims cfg = Inr ()"
    and "fetch (TrimSpace (JWKSURL cfg)) c = (Inr keys, c')" "SelectJWK keys (Kid header) = Inr key"
    and "RSAKeyFromJWK key = Inr pub"
    and "aeRSA env pub (aeSHA env (EncodeToString h @ ''.'' @ EncodeToString p)) g"
  shows "verifyToken env fetch cfg (compactToken h p g) c = (Inr claims, c')"
proof -
  have "parseJWTForVerify env (compactToken h p g)
      = Inr (header, EncodeToString h @ ''.'' @ EncodeToString p, g)"
    using assms(2) by (simp add: parseJWTForVerify_def compactToken_split DecodeString_EncodeToString)
  then have "VerifyJWTSignature env fetch (compactToken h p g) cfg c = (Inr (), c')"
    using assms by (simp add: VerifyJWTSignature_def VerifyRS256_def bindS_def tryS_def Let_def)
  moreover have "ParseJWTClaims env (compactToken h p g) = Inr claims"
    using assms(4) by (simp add: ParseJWTClaims_def compactToken_split DecodeString_EncodeToString)
  ultimately show ?thesis
    using assms(5) by (simp add: verifyToken_def bindS_def tryS_def okS_def)
qed

end
