(* ===== verification/Jwks_Cache.thy ===== *)
theory Jwks_Cache
  imports Auth
begin

text \<open>
  \<open>internal/auth/jwks_cache.go\<close>: key sets by URL with a time to live, the read path \<open>Get\<close>, and one
  round of the background \<open>refreshLoop\<close> with its back-off. Times and durations are nanoseconds;
  \<open>None\<close> is Go's zero time. \<open>answer\<close> is the HTTP client: the status and body of the n-th request;
  \<open>jcFetched\<close> records the key sets the URLs served, with the time of the entry made from them.

  The rounds are the transitions of \<open>cacheStep\<close>; between the read and the write lock of \<open>Get\<close>
  nothing else is interleaved.
\<close>

definition second :: int where
  "second = 1000000000"

definition int64 :: "int \<Rightarrow> int" where
  "int64 x = (x + 2 ^ 63) mod 2 ^ 64 - 2 ^ 63"

lemma int64_id: "- (2 ^ 63) \<le> x \<Longrightarrow> x < 2 ^ 63 \<Longrightarrow> int64 x = x"
  unfolding int64_def by (subst mod_pos_pos_trivial) auto

record jwksEntry =
  jeKeys :: JWKS
  jeFetchedAt :: "int option"
  jeExpiresAt :: "int option"
  jeRefreshing :: bool
  jeBackoff :: int

record JWKSCache =
  jcTTL :: int
  jcEntries :: "string \<Rightarrow> jwksEntry option"
  jcRequests :: nat
  jcFetched :: "(string \<times> int \<times> JWKS) list"

definition NewJWKSCache :: "int \<Rightarrow> JWKSCache" where
  "NewJWKSCache ttl =
     \<lparr>jcTTL = (if ttl \<le> 0 then 3600 * second else ttl), jcEntries = (\<lambda>_. None), jcRequests = 0, jcFetched = []\<rparr>"

definition emptyEntry :: jwksEntry where
  "emptyEntry = \<lparr>jeKeys = [], jeFetchedAt = None, jeExpiresAt = None, jeRefreshing = False, jeBackoff = 0\<rparr>"

section \<open>Fetching\<close>

definition decodeJWK :: "gval \<Rightarrow> JWK result" where
  "decodeJWK v =
     bindR (decodeObj v) (\<lambda>m.
     bindR (decodeStr (jsonField m ''kty'')) (\<lambda>kty.
     bindR (decodeStr (jsonField m ''kid'')) (\<lambda>kid.
     bindR (decodeStr (jsonField m ''alg'')) (\<lambda>alg.
     bindR (decodeStr (jsonField m ''use'')) (\<lambda>use.
     bindR (decodeStr (jsonField m ''n'')) (\<lambda>n.
     bindR (decodeStr (jsonField m ''e'')) (\<lambda>e.
       Inr \<lparr>JwkKty = kty, JwkKid = kid, JwkAlg = alg, JwkUse = use, JwkN = n, JwkE = e\<rparr>)))))))"

definition decodeJWKS :: "gval \<Rightarrow> JWKS result" where
  "decodeJWKS v =
     bindR (decodeObj v) (\<lambda>m.
       case jsonField m ''keys'' of
         None \<Rightarrow> Inr []
       | Some GNil \<Rightarrow> Inr []
       | Some (GList ks) \<Rightarrow> mapR decodeJWK ks
       | Some _ \<Rightarrow> Inl ''json: cannot unmarshal'')"

record FetchEnv =
  feUnmarshal :: "string \<Rightarrow> gval option"
  feAnswer :: "nat \<Rightarrow> string \<Rightarrow> (nat \<times> string) result"

definition fetchJWKS :: "FetchEnv \<Rightarrow> string \<Rightarrow> (JWKSCache, JWKS) op" where
  "fetchJWKS env url c =
    (let c' = c\<lparr>jcRequests := Suc (jcRequests c)\<rparr> in
     case feAnswer env (jcRequests c) url of
       Inl e \<Rightarrow> (Inl e, c')
     | Inr (status, body) \<Rightarrow>
         if status < 200 \<or> status \<ge> 300 then (Inl ''jwks fetch failed'', c')
         else (case feUnmarshal env body of
                 None \<Rightarrow> (Inl ''json: invalid'', c')
               | Some doc \<Rightarrow> (decodeJWKS doc, c')))"

section \<open>Reading\<close>

definition entryAt :: "JWKSCache \<Rightarrow> string \<Rightarrow> jwksEntry" where
  "entryAt c u = (case jcEntries c u of None \<Rightarrow> emptyEntry | Some e \<Rightarrow> e)"

definition fresh :: "int \<Rightarrow> jwksEntry \<Rightarrow> bool" where
  "fresh now e = (case jeExpiresAt e of None \<Rightarrow> False | Some x \<Rightarrow> now < x)"

definition storeKeys :: "string \<Rightarrow> int \<Rightarrow> JWKS \<Rightarrow> jwksEntry \<Rightarrow> JWKSCache \<Rightarrow> JWKSCache" where
  "storeKeys u now keys e c =
     c\<lparr>jcEntries := (jcEntries c)(u \<mapsto>
         e\<lparr>jeKeys := keys, jeFetchedAt := Some now, jeExpiresAt := Some (now + jcTTL c)\<rparr>),
       jcFetched := (u, now, keys) # jcFetched c\<rparr>"

definition Get :: "FetchEnv \<Rightarrow> int \<Rightarrow> string \<Rightarrow> (JWKSCache, JWKS) op" where
  "Get env now url c =
    (let u = TrimSpace url in
     if u = [] then (Inl ''jwks url required'', c)
     else if jcEntries c u \<noteq> None \<and> fresh now (entryAt c u) then (Inr (jeKeys (entryAt c u)), c)
     else case fetchJWKS env u c of
       (Inl e, c') \<Rightarrow> (Inl e, c')
     | (Inr keys, c') \<Rightarrow>
        (let e = entryAt c' u;
             e = (if jeBackoff e \<le> 0 then e\<lparr>jeBackoff := second\<rparr> else e) in
         (Inr keys, storeKeys u now keys (e\<lparr>jeRefreshing := True\<rparr>) c')))"

section \<open>The refresh loop\<close>

definition truncDiv :: "int \<Rightarrow> int \<Rightarrow> int" where
  "truncDiv a b = (if 0 \<le> a then a div b else - ((- a) div b))"

definition refreshAfter :: "int \<Rightarrow> int" where
  "refreshAfter ttl0 =
    (let ttl = (if ttl0 \<le> 0 then 3600 * second else ttl0);
         r = truncDiv (int64 (ttl * 9)) 10 in
     if r < 10 * second then truncDiv ttl 2 else r)"

text \<open>How long a round sleeps before it fetches.\<close>

definition refreshDelay :: "int \<Rightarrow> string \<Rightarrow> JWKSCache \<Rightarrow> int" where
  "refreshDelay now url c =
    (case jeFetchedAt (entryAt c url) of
       None \<Rightarrow> 0
     | Some t \<Rightarrow> max 0 (t + refreshAfter (jcTTL c) - now))"

definition maxBackoff :: int where
  "maxBackoff = 300 * second"

text \<open>How long it sleeps after a failure, and the back-off of the next round.\<close>

definition failureDelay :: "string \<Rightarrow> JWKSCache \<Rightarrow> int" where
  "failureDelay url c =
    (let b = jeBackoff (entryAt c url); b = (if b \<le> 0 then second else b) in
     if b > maxBackoff then maxBackoff else b)"

definition nextBackoff :: "int \<Rightarrow> int" where
  "nextBackoff b0 =
    (let b = int64 (b0 * 2); b = (if b \<le> 0 then 2 * second else b) in
     if b > maxBackoff then maxBackoff else b)"

text \<open>The fetch of a round: \<open>now\<close> is the time at which a key set arrived.\<close>

definition refreshRound :: "FetchEnv \<Rightarrow> int \<Rightarrow> string \<Rightarrow> JWKSCache \<Rightarrow> JWKSCache" where
  "refreshRound env now url c =
    (case fetchJWKS env url c of
       (Inr keys, c') \<Rightarrow>
         (case jcEntries c' url of
            None \<Rightarrow> c'
          | Some e \<Rightarrow> storeKeys url now keys (e\<lparr>jeBackoff := second\<rparr>) c')
     | (Inl _, c') \<Rightarrow>
         (case jcEntries c' url of
            None \<Rightarrow> c'
          | Some e \<Rightarrow> c'\<lparr>jcEntries := (jcEntries c')(url \<mapsto> e\<lparr>jeBackoff := nextBackoff (jeBackoff e)\<rparr>)\<rparr>))"

section \<open>The cache as a state machine\<close>

inductive cacheReach :: "FetchEnv \<Rightarrow> int \<Rightarrow> int \<Rightarrow> JWKSCache \<Rightarrow> bool" for env ttl where
  start: "cacheReach env ttl now (NewJWKSCache ttl)"
| tick: "cacheReach env ttl t c \<Longrightarrow> t \<le> t' \<Longrightarrow> cacheReach env ttl t' c"
| get: "cacheReach env ttl t c \<Longrightarrow> cacheReach env ttl t (snd (Get env t url c))"
| refresh: "cacheReach env ttl t c \<Longrightarrow> cacheReach env ttl t (refreshRound env t url c)"

definition cacheTTL :: "int \<Rightarrow> int" where
  "cacheTTL ttl = (if ttl \<le> 0 then 3600 * second else ttl)"

text \<open>Every entry holds what its URL served, for no longer than the time to live.\<close>

definition wfCache :: "int \<Rightarrow> int \<Rightarrow> JWKSCache \<Rightarrow> bool" where
  "wfCache ttl now c \<longleftrightarrow>
     jcTTL c = cacheTTL ttl \<and>
     (\<forall>u e. jcEntries c u = Some e \<longrightarrow>
        (\<exists>t. jeFetchedAt e = Some t \<and> jeExpiresAt e = Some (t + cacheTTL ttl) \<and> t \<le> now \<and>
             (u, t, jeKeys e) \<in> set (jcFetched c)) \<and>
        jeRefreshing e \<and> second \<le> jeBackoff e \<and> jeBackoff e \<le> maxBackoff)"

lemma fetchJWKS_frame:
  assumes "fetchJWKS env u c = (r, c')"
  shows "jcTTL c' = jcTTL c" "jcEntries c' = jcEntries c" "jcFetched c' = jcFetched c"
  using assms by (auto simp: fetchJWKS_def Let_def split: sum.splits prod.splits if_splits option.splits)

lemma wfCache_fetch: "fetchJWKS env u c = (r, c') \<Longrightarrow> wfCache ttl now c' \<longleftrightarrow> wfCache ttl now c"
  using fetchJWKS_frame [of env u c r c'] by (simp add: wfCache_def)

lemma wfCache_store:
  assumes "wfCache ttl now c" "jeRefreshing e" "second \<le> jeBackoff e" "jeBackoff e \<le> maxBackoff"
  shows "wfCache ttl now (storeKeys u now keys e c)"
  using assms unfolding wfCache_def storeKeys_def by (auto split: if_splits)

lemma nextBackoff_small:
  assumes "second \<le> b" "b \<le> maxBackoff"
  shows "nextBackoff b = min (2 * b) maxBackoff"
proof -
  have "int64 (b * 2) = b * 2" using assms by (intro int64_id) (auto simp: second_def maxBackoff_def)
  then show ?thesis using assms by (simp add: nextBackoff_def Let_def second_def)
qed

lemma backoff_bounds: "0 < second" "second \<le> maxBackoff"
  by (simp_all add: second_def maxBackoff_def)

lemma entryAt_backoff:
  assumes "wfCache ttl now c"
  shows "jeBackoff (entryAt c u) \<le> maxBackoff"
    "0 < jeBackoff (entryAt c u) \<longrightarrow> second \<le> jeBackoff (entryAt c u)"
  using assms backoff_bounds
  by (auto simp: wfCache_def entryAt_def emptyEntry_def maxBackoff_def second_def split: option.splits)

lemma wfCache_Get:
  assumes "wfCache ttl now c"
  shows "wfCache ttl now (snd (Get env now url c))"
proof -
  have "wfCache ttl now (storeKeys u now keys
      ((if jeBackoff (entryAt c' u) \<le> 0 then (entryAt c' u)\<lparr>jeBackoff := second\<rparr> else entryAt c' u)
         \<lparr>jeRefreshing := True\<rparr>) c')"
    if "fetchJWKS env u c = (Inr keys, c')" for u keys c'
    using wfCache_fetch [OF that, of ttl now] assms entryAt_backoff [of ttl now c' u] backoff_bounds
    by (intro wfCache_store) auto
  then show ?thesis
    using assms wfCache_fetch by (auto simp: Get_def Let_def split: sum.splits prod.splits if_splits)
qed

lemma wfCache_refresh:
  assumes "wfCache ttl now c"
  shows "wfCache ttl now (refreshRound env now url c)"
proof (cases "fetchJWKS env url c")
  case (Pair r c')
  then have w: "wfCache ttl now c'" using wfCache_fetch assms by blast
  show ?thesis
  proof (cases r)
    case (Inl e)
    have "second \<le> nextBackoff b \<and> nextBackoff b \<le> maxBackoff" if "second \<le> b" "b \<le> maxBackoff" for b
      using that backoff_bounds by (simp add: nextBackoff_small)
    with w Inl Pair show ?thesis
      unfolding wfCache_def refreshRound_def by (auto split: option.splits if_splits)
  next
    case (Inr keys)
    have "wfCache ttl now (storeKeys url now keys (e\<lparr>jeBackoff := second\<rparr>) c')"
      if "jcEntries c' url = Some e" for e
      using w that backoff_bounds by (intro wfCache_store) (auto simp: wfCache_def)
    with w Inr Pair show ?thesis by (auto simp: refreshRound_def split: option.splits)
  qed
qed

lemma wfCache_mono: "wfCache ttl t c \<Longrightarrow> t \<le> t' \<Longrightarrow> wfCache ttl t' c"
  unfolding wfCache_def by (meson order_trans)

lemma cacheReach_wf: "cacheReach env ttl now c \<Longrightarrow> wfCache ttl now c"
proof (induction rule: cacheReach.induct)
  case (start now)
  show ?case by (simp add: wfCache_def NewJWKSCache_def cacheTTL_def)
qed (auto intro: wfCache_mono wfCache_Get wfCache_refresh)

section \<open>What a read returns\<close>

lemma cacheTTL_pos: "0 < cacheTTL ttl"
  by (simp add: cacheTTL_def second_def)

lemma Get_fresh:
  assumes "wfCache ttl now c" "Get env now url c = (Inr keys, c')"
  shows "\<exists>t. (TrimSpace url, t, keys) \<in> set (jcFetched c') \<and> t \<le> now \<and> now < t + cacheTTL ttl"
proof (cases "jcEntries c (TrimSpace url) \<noteq> None \<and> fresh now (entryAt c (TrimSpace url))")
  case True
  then obtain e where e: "jcEntries c (TrimSpace url) = Some e" "fresh now e"
    by (auto simp: entryAt_def)
  with assms(2) have "keys = jeKeys e" "c' = c"
    by (auto simp: Get_def Let_def entryAt_def split: if_splits)
  with e assms(1) show ?thesis by (fastforce simp: wfCache_def fresh_def)
next
  case False
  with assms(2) have "(TrimSpace url, now, keys) \<in> set (jcFetched c')"
    unfolding Get_def Let_def if_not_P [OF False]
    by (auto simp: storeKeys_def split: sum.splits prod.splits if_splits)
  then show ?thesis using cacheTTL_pos [of ttl] by auto
qed

text \<open>Consecutive failures: the back-off doubles from one second up to five minutes.\<close>

lemma nextBackoff_iterate: "(nextBackoff ^^ n) second = min (2 ^ n * second) maxBackoff"
proof (induction n)
  case (Suc n)
  have "second \<le> 2 ^ n * second" by (simp add: second_def)
  then have "nextBackoff (min (2 ^ n * second) maxBackoff) = min (2 * min (2 ^ n * second) maxBackoff) maxBackoff"
    using backoff_bounds by (intro nextBackoff_small) auto
  then show ?case using Suc backoff_bounds by (simp add: min_def)
qed (simp add: backoff_bounds min_def)

text \<open>While no fetch succeeds, the entry's back-off is that iteration.\<close>

lemma refreshRound_fails:
  assumes "feAnswer env (jcRequests c) url = Inl err" "jcEntries c url = Some e"
  shows "\<exists>e'. jcEntries (refreshRound env now url c) url = Some e' \<and> jeBackoff e' = nextBackoff (jeBackoff e)"
  using assms by (simp add: refreshRound_def fetchJWKS_def Let_def)

lemma refresh_backoff:
  assumes "jcEntries c url = Some e" "jeBackoff e = second" "\<forall>k. \<exists>err. feAnswer env k url = Inl err"
  shows "failureDelay url (foldl (\<lambda>c now. refreshRound env now url c) c rounds) =
    min (2 ^ length rounds * second) maxBackoff"
proof -
  have "\<exists>e'. jcEntries (foldl (\<lambda>c now. refreshRound env now url c) c rounds) url = Some e' \<and>
      jeBackoff e' = (nextBackoff ^^ length rounds) (jeBackoff e)"
    using assms(1)
  proof (induction rounds arbitrary: c e)
    case (Cons t rounds)
    obtain err where "feAnswer env (jcRequests c) url = Inl err" using assms(3) by blast
    from refreshRound_fails [OF this Cons.prems, of t] Cons.IH show ?case by (fastforce simp: funpow_swap1)
  qed simp
  then show ?thesis
    using assms(2) nextBackoff_iterate [of "length rounds"]
    by (auto simp: failureDelay_def entryAt_def Let_def min_def second_def maxBackoff_def split: if_splits)
qed

end
