(* ===== verification/Tool_Server.thy ===== *)
theory Tool_Server
  imports Tool_Router Jwks_Cache Gateway
begin

text \<open>
  \<open>internal/tools/tool_router_server.go\<close> with \<open>auth_context.go\<close>: the HTTP service around the tool
  router. A request is authenticated (a static service token or a signed web token), the
  call is authorized by the policy, and only then does \<open>Router.Execute\<close> run. The state is the
  router's and the cache of key sets. Resources and prompts come from files of the workspace
  and are a parameter; of the log stream the model has the history and the subscription, not
  the delivery of later lines.
\<close>

record ToolServer =
  tsRouterEnv :: RouterEnv
  tsSandbox :: "Sandbox option"
  tsAuth :: AuthConfig
  tsAuthEnv :: AuthEnv
  tsFetch :: FetchEnv
  tsNow :: int
  tsPolicy :: "checker option"
  tsStamp :: string
  tsResources :: gval
  tsPrompts :: gval

record ToolService =
  svRouter :: RouterState
  svKeys :: JWKSCache

section \<open>Who is calling\<close>

definition fetchKeys :: "ToolServer \<Rightarrow> string \<Rightarrow> (ToolService, JWKS) op" where
  "fetchKeys sv url st =
    (let (r, c) = Get (tsFetch sv) (tsNow sv) url (svKeys st) in (r, st\<lparr>svKeys := c\<rparr>))"

definition serviceClaims :: JWTPayload where
  "serviceClaims = \<lparr>Sub = ''service'', Email = ''service'', Groups = [''service''], Iss = [], Aud = GNil,
     Exp = 0, Nbf = 0, ClaimTenantID = []\<rparr>"

text \<open>The tool router has no development mode: \<open>tools.AuthConfig\<close> lacks the field.\<close>

definition authenticate :: "ToolServer \<Rightarrow> Request \<Rightarrow> (ToolService, JWTPayload) op" where
  "authenticate sv r =
    (case ParseBearer (header r ''Authorization'') of
       Inl _ \<Rightarrow> failS ''unauthorized''
     | Inr token \<Rightarrow>
         if token = [] then failS ''unauthorized''
         else if AuthToken (tsAuth sv) \<noteq> [] \<and> token = AuthToken (tsAuth sv) then okS serviceClaims
         else verifyToken (tsAuthEnv sv) (fetchKeys sv) (tsAuth sv\<lparr>DevMode := False\<rparr>) token)"

definition toolActor :: "JWTPayload \<Rightarrow> string \<Rightarrow> gval" where
  "toolActor claims sessionID =
     GMap [(''id'', GStr (Sub claims)), (''email'', GStr (Email claims)), (''roles'', GStrs (Groups claims)),
           (''tenant_id'', GStr (ClaimTenantID claims)),
           (''session_id'', if sessionID = [] then GNil else GStr sessionID)]"

section \<open>Handlers\<close>

type_synonym toolHandler = "ToolService \<Rightarrow> reply \<times> ToolService"

text \<open>\<open>json.NewDecoder(http.MaxBytesReader(...)).Decode\<close>.\<close>

definition toolBody :: "ToolServer \<Rightarrow> Request \<Rightarrow> gmap result" where
  "toolBody sv r =
    (if length (rqBody r) > maxRequestBody \<or> rqBody r = [] then Inl ''invalid json''
     else case renvUnmarshal (tsRouterEnv sv) (rqBody r) of
       None \<Rightarrow> Inl ''invalid json''
     | Some doc \<Rightarrow> decodeObj doc)"

definition decodeExecuteRequest :: "gmap \<Rightarrow> ExecuteRequest result" where
  "decodeExecuteRequest m =
     bindR (decodeStr (jsonField m ''Tool'')) (\<lambda>tool.
     bindR (decodeStr (jsonField m ''Action'')) (\<lambda>action.
     bindR (decodeStr (jsonField m ''ToolCallID'')) (\<lambda>callID.
     bindR (decodeStr (jsonField m ''ExecutionID'')) (\<lambda>execID.
     bindR (decodeContext (jsonField m ''Context'')) (\<lambda>ctx.
       Inr \<lparr>ReqTool = tool, ReqAction = action,
            ReqInput = (case jsonField m ''Input'' of None \<Rightarrow> GNil | Some v \<Rightarrow> v),
            ReqToolCallID = callID, ReqExecutionID = execID, ReqContext = ctx\<rparr>)))))"

definition responseDoc :: "ExecuteResponse \<Rightarrow> gval" where
  "responseDoc resp = GMap [(''tool_call_id'', GStr (RespToolCallID resp)),
     (''Output'', GBytes (RespOutput resp)), (''Used'', GStr (RespUsed resp))]"

text \<open>Method, caller, body, policy; then the router.\<close>

definition withCaller :: "ToolServer \<Rightarrow> string \<Rightarrow> (JWTPayload \<Rightarrow> toolHandler) \<Rightarrow> Request \<Rightarrow> toolHandler" where
  "withCaller sv method h r st =
    (if rqMethod r \<noteq> method then ((405, GNil), st)
     else case authenticate sv r st of
       (Inl _, st') \<Rightarrow> (httpError ''unauthorized'' 401, st')
     | (Inr claims, st') \<Rightarrow> h claims st')"

definition executeCall :: "ToolServer \<Rightarrow> Request \<Rightarrow> JWTPayload \<Rightarrow> toolHandler" where
  "executeCall sv r claims st =
    (case bindR (toolBody sv r) decodeExecuteRequest of
       Inl _ \<Rightarrow> (httpError ''invalid json'' 400, st)
     | Inr req \<Rightarrow>
        (case authorize (tsPolicy sv) (header r ''X-Break-Glass'')
                (toolActor claims (TrimSpace (header r ''X-Session-Id''))) (tsStamp sv)
                (ReqTool req) (ReqAction req) (ReqContext req) of
           Inl _ \<Rightarrow> (httpError ''policy denied'' 403, st)
         | Inr _ \<Rightarrow>
            (case Execute (tsRouterEnv sv) (tsSandbox sv) req (svRouter st) of
               ((resp, Some e), rs) \<Rightarrow> (httpError e 400, st\<lparr>svRouter := rs\<rparr>)
             | ((resp, None), rs) \<Rightarrow> ((200, responseDoc resp), st\<lparr>svRouter := rs\<rparr>))))"

definition handleExecute :: "ToolServer \<Rightarrow> Request \<Rightarrow> toolHandler" where
  "handleExecute sv r = withCaller sv ''POST'' (executeCall sv r) r"

definition toolDoc :: "Tool \<Rightarrow> gval" where
  "toolDoc t = GMap [(''Name'', GStr (ToolName t)), (''CLI'', GStr (CLI t)), (''SupportsAPI'', GBool (SupportsAPI t))]"

definition handleListTools :: "ToolServer \<Rightarrow> Request \<Rightarrow> toolHandler" where
  "handleListTools sv r = withCaller sv ''GET'' (\<lambda>_ st.
     ((200, GMap [(''tools'', GList (map toolDoc Registry))]), st)) r"

definition handleListResources :: "ToolServer \<Rightarrow> Request \<Rightarrow> toolHandler" where
  "handleListResources sv r = withCaller sv ''GET'' (\<lambda>_ st.
     ((200, GMap [(''resources'', tsResources sv)]), st)) r"

definition handleListPrompts :: "ToolServer \<Rightarrow> Request \<Rightarrow> toolHandler" where
  "handleListPrompts sv r = withCaller sv ''GET'' (\<lambda>_ st.
     ((200, GMap [(''prompts'', tsPrompts sv)]), st)) r"

definition decodeArtifact :: "gmap \<Rightarrow> ArtifactRef result" where
  "decodeArtifact m =
     bindR (case jsonField m ''artifact'' of None \<Rightarrow> Inr [] | Some v \<Rightarrow> decodeObj v) (\<lambda>a.
     bindR (decodeStr (jsonField a ''Kind'')) (\<lambda>kind.
     bindR (decodeStr (jsonField a ''Ref'')) (\<lambda>ref.
     bindR (decodeStr (jsonField a ''SHA'')) (\<lambda>sha.
       Inr \<lparr>ArtKind = kind, ArtRef = ref, ArtSHA = sha\<rparr>))))"

definition artifactStatus :: "string \<Rightarrow> nat" where
  "artifactStatus e =
    (if e = errNotImplemented then 501
     else if e = errUnsupportedArtifact \<or> e = errInvalidArtifact then 400
     else 500)"

definition handleResolveResource :: "ToolServer \<Rightarrow> Request \<Rightarrow> toolHandler" where
  "handleResolveResource sv r = withCaller sv ''POST'' (\<lambda>_ st.
    (case bindR (toolBody sv r) decodeArtifact of
       Inl _ \<Rightarrow> (httpError ''invalid json'' 400, st)
     | Inr ref \<Rightarrow>
        (case ResolveArtifact (renvOS (tsRouterEnv sv)) (renvSHA (tsRouterEnv sv)) ref of
           Inl e \<Rightarrow> (httpError e (artifactStatus e), st)
         | Inr data \<Rightarrow> ((200, GMap [(''data'', GBytes data)]), st)))) r"

definition lineDoc :: "LogLine \<Rightarrow> gval" where
  "lineDoc l = GMap ([(''tool_call_id'', GStr (LogToolCallID l))]
     @ (if LogExecutionID l = [] then [] else [(''execution_id'', GStr (LogExecutionID l))])
     @ [(''tool'', GStr (LogTool l)), (''action'', GStr (LogAction l)), (''level'', GStr (LogLevel l)),
        (''message'', GStr (LogMessage l)), (''timestamp'', GInt (LogTimestamp l))])"

definition handleToolLogs :: "ToolServer \<Rightarrow> Request \<Rightarrow> toolHandler" where
  "handleToolLogs sv r = withCaller sv ''GET'' (\<lambda>_ st.
    (let id = TrimSpace (getOr (rqQuery r) ''tool_call_id'') in
     if id = [] then (httpError ''tool_call_id required'' 400, st)
     else (let hub = Logs (svRouter st) in
       ((200, GList (map lineDoc (History hub id))),
        st\<lparr>svRouter := svRouter st\<lparr>Logs := snd (Subscribe id hub)\<rparr>\<rparr>)))) r"

definition toolServeHTTP :: "ToolServer \<Rightarrow> Request \<Rightarrow> toolHandler" where
  "toolServeHTTP sv r =
    (let p = rqPath r in
     if p \<in> {''/'', ''/v1/tools:execute'', ''/execute''} then handleExecute sv r
     else if p \<in> {''/v1/tools'', ''/tools''} then handleListTools sv r
     else if p \<in> {''/v1/resources'', ''/resources''} then handleListResources sv r
     else if p \<in> {''/v1/prompts'', ''/prompts''} then handleListPrompts sv r
     else if p \<in> {''/v1/resources:resolve'', ''/resources:resolve''} then handleResolveResource sv r
     else if p \<in> {''/v1/tools/logs'', ''/tools/logs''} then handleToolLogs sv r
     else (\<lambda>st. (httpError ''404 page not found'' 404, st)))"

section \<open>Facts\<close>

lemma fetchKeys_router: "fetchKeys sv url st = (x, st') \<Longrightarrow> svRouter st' = svRouter st"
  by (auto simp: fetchKeys_def split: prod.splits)

lemma VerifyJWTSignature_frame:
  assumes "\<And>url st x st'. fetch url st = (x, st') \<Longrightarrow> f st' = f st"
    and "VerifyJWTSignature env fetch token cfg st = (x, st')"
  shows "f st' = f st"
  using assms(2) assms(1)
  by (auto simp: VerifyJWTSignature_def Let_def bindS_def tryS_def okS_def failS_def
      split: if_splits prod.splits sum.splits)

lemma authenticate_router:
  assumes "authenticate sv r st = (x, st')"
  shows "svRouter st' = svRouter st"
proof -
  have v: "VerifyJWTSignature env (fetchKeys sv) token cfg s = (y, s') \<Longrightarrow> svRouter s' = svRouter s"
    for env token cfg s y s'
    by (rule VerifyJWTSignature_frame [where f = svRouter, OF fetchKeys_router])
  show ?thesis
    using assms
    by (auto simp: authenticate_def verifyToken_def okS_def failS_def bindS_def tryS_def
        split: sum.splits if_splits prod.splits dest: v)
qed

text \<open>A caller is the service with its token, or the holder of a token signed by a current key.\<close>

lemma authenticate_ok:
  assumes wf: "wfCache ttl (tsNow sv) (svKeys st)" and a: "authenticate sv r st = (Inr claims, st')"
  shows "AuthToken (tsAuth sv) \<noteq> [] \<and> ParseBearer (header r ''Authorization'') = Inr (AuthToken (tsAuth sv)) \<or>
    (\<exists>h p g sig keys key pub t.
       ParseBearer (header r ''Authorization'') = Inr (h @ ''.'' @ p @ ''.'' @ g) \<and>
       bindR (DecodeString p) (\<lambda>d. bindR (unmarshalDoc (tsAuthEnv sv) d) decodePayload) = Inr claims \<and>
       DecodeString g = Inr sig \<and>
       key \<in> set keys \<and> RSAKeyFromJWK key = Inr pub \<and>
       aeRSA (tsAuthEnv sv) pub (aeSHA (tsAuthEnv sv) (h @ ''.'' @ p)) sig \<and>
       ValidateClaims (tsAuthEnv sv) claims (tsAuth sv\<lparr>DevMode := False\<rparr>) = Inr () \<and>
       (TrimSpace (JWKSURL (tsAuth sv)), t, keys) \<in> set (jcFetched (svKeys st')) \<and>
       t \<le> tsNow sv \<and> tsNow sv < t + cacheTTL ttl)"
proof -
  let ?cfg = "tsAuth sv\<lparr>DevMode := False\<rparr>"
  from a obtain token where tok: "ParseBearer (header r ''Authorization'') = Inr token"
    "AuthToken (tsAuth sv) \<noteq> [] \<and> token = AuthToken (tsAuth sv) \<or>
     verifyToken (tsAuthEnv sv) (fetchKeys sv) ?cfg token st = (Inr claims, st')"
    by (auto simp: authenticate_def okS_def failS_def split: sum.splits if_splits)
  show ?thesis
  proof (cases "AuthToken (tsAuth sv) \<noteq> [] \<and> token = AuthToken (tsAuth sv)")
    case True
    with tok show ?thesis by blast
  next
    case False
    with tok have v: "verifyToken (tsAuthEnv sv) (fetchKeys sv) ?cfg token st = (Inr claims, st')" by blast
    have url: "TrimSpace (JWKSURL ?cfg) \<noteq> []"
      using v by (auto simp: verifyToken_def bindS_eq_Inr VerifyJWTSignature_def Let_def failS_def tryS_def split: if_splits)
    obtain h p g sig keys key pub where w: "token = h @ ''.'' @ p @ ''.'' @ g"
      "bindR (DecodeString p) (\<lambda>d. bindR (unmarshalDoc (tsAuthEnv sv) d) decodePayload) = Inr claims"
      "DecodeString g = Inr sig" "fetchKeys sv (TrimSpace (JWKSURL ?cfg)) st = (Inr keys, st')"
      "key \<in> set keys" "RSAKeyFromJWK key = Inr pub"
      "aeRSA (tsAuthEnv sv) pub (aeSHA (tsAuthEnv sv) (h @ ''.'' @ p)) sig"
      "ValidateClaims (tsAuthEnv sv) claims ?cfg = Inr ()"
      by (rule verifyToken_ok [OF v url])
    from w(4) obtain c where "Get (tsFetch sv) (tsNow sv) (TrimSpace (JWKSURL ?cfg)) (svKeys st) = (Inr keys, c)"
      "svKeys st' = c"
      by (auto simp: fetchKeys_def split: prod.splits)
    with Get_fresh [OF wf] obtain t where "(TrimSpace (JWKSURL (tsAuth sv)), t, keys) \<in> set (jcFetched (svKeys st'))"
      "t \<le> tsNow sv" "tsNow sv < t + cacheTTL ttl"
      by fastforce
    with w tok(1) show ?thesis by blast
  qed
qed

text \<open>What reaches the router went through both gates.\<close>

lemma handleExecute_gate:
  assumes "handleExecute sv r st = (rep, st')" "svRouter st' \<noteq> svRouter st \<or> fst rep = 200"
  obtains claims st1 req where "rqMethod r = ''POST''" "authenticate sv r st = (Inr claims, st1)"
    "bindR (toolBody sv r) decodeExecuteRequest = Inr req"
    "authorize (tsPolicy sv) (header r ''X-Break-Glass'')
       (toolActor claims (TrimSpace (header r ''X-Session-Id''))) (tsStamp sv)
       (ReqTool req) (ReqAction req) (ReqContext req) = Inr ()"
    "svRouter st' = snd (Execute (tsRouterEnv sv) (tsSandbox sv) req (svRouter st))" "svKeys st' = svKeys st1"
proof -
  from assms obtain claims st1 where a: "rqMethod r = ''POST''" "authenticate sv r st = (Inr claims, st1)"
    and e: "executeCall sv r claims st1 = (rep, st')"
    by (auto simp: handleExecute_def withCaller_def httpError_def split: if_splits prod.splits sum.splits
        dest: authenticate_router)
  have r: "svRouter st1 = svRouter st" using authenticate_router [OF a(2)] .
  from e assms(2) r obtain req where "bindR (toolBody sv r) decodeExecuteRequest = Inr req"
    "authorize (tsPolicy sv) (header r ''X-Break-Glass'')
       (toolActor claims (TrimSpace (header r ''X-Session-Id''))) (tsStamp sv)
       (ReqTool req) (ReqAction req) (ReqContext req) = Inr ()"
    "svRouter st' = snd (Execute (tsRouterEnv sv) (tsSandbox sv) req (svRouter st))" "svKeys st' = svKeys st1"
    by (auto simp: executeCall_def httpError_def split: sum.splits prod.splits option.splits)
  with a that show ?thesis by blast
qed

lemma other_handlers_keep_calls:
  assumes "p \<notin> {''/'', ''/v1/tools:execute'', ''/execute''}" "rqPath r = p"
    and "toolServeHTTP sv r st = (rep, st')"
  shows "toolCallCounter (svRouter st') = toolCallCounter (svRouter st)"
  using assms
  by (auto simp: toolServeHTTP_def handleListTools_def handleListResources_def handleListPrompts_def
      handleResolveResource_def handleToolLogs_def withCaller_def Let_def
      split: if_splits prod.splits sum.splits dest: authenticate_router)

end
