(* ===== verification/Context_Graph.thy ===== *)
theory Context_Graph
  imports Go_Effects
begin

text \<open>
  \<open>internal/context/service.go\<close> and the context tables of \<open>internal/db\<close> (\<open>context.go\<close>,
  \<open>context_snapshots.go\<close>): the graph of services, clusters, dashboards and alerts, how
  snapshots are ingested into it, and the periodic copies of what was collected.

  As for the other tables, \<open>cxFault\<close> chooses which statements fail and \<open>cxClock\<close> gives the
  readings of the clock. Rows that tie in \<open>ORDER BY name\<close> keep the order of the table.
\<close>

section \<open>Nodes, edges, snapshots\<close>

record Node =
  NdID :: string
  NdKind :: string
  NdName :: string
  NdLabels :: "(string \<times> string) list option"
  NdTeam :: string

record Edge =
  EgID :: string
  EgFrom :: string
  EgTo :: string
  EgRelation :: string

record Snapshot =
  SnapNodes :: "Node list"
  SnapEdges :: "Edge list"

definition emptySnap :: Snapshot where
  "emptySnap = \<lparr>SnapNodes = [], SnapEdges = []\<rparr>"

record SnapRow =
  SpID :: string
  SpSource :: string
  SpCollectedAt :: nat
  SpNodes :: "Node list"
  SpEdges :: "Edge list"
  SpLabels :: "(string \<times> string) list option"

record ContextDB =
  cxClock :: "nat \<Rightarrow> nat"
  cxReads :: nat
  cxFault :: "nat \<Rightarrow> string option"
  cxStmts :: nat
  cxNodes :: "Node list"
  cxEdges :: "Edge list"
  cxSnaps :: "SnapRow list"

section \<open>The tables\<close>

definition cxStep :: "(ContextDB \<Rightarrow> 'a result \<times> ContextDB) \<Rightarrow> (ContextDB, 'a) op" where
  "cxStep u d =
    (let d' = d\<lparr>cxStmts := Suc (cxStmts d)\<rparr> in
     case cxFault d (cxStmts d) of Some e \<Rightarrow> (Inl e, d') | None \<Rightarrow> u d')"

definition cxNow :: "(ContextDB, nat) op" where
  "cxNow d = (Inr (cxClock d (cxReads d)), d\<lparr>cxReads := Suc (cxReads d)\<rparr>)"

definition validNode :: "Node \<Rightarrow> bool" where
  "validNode n \<longleftrightarrow> NdID n \<noteq> [] \<and> NdKind n \<noteq> [] \<and> NdName n \<noteq> []"

definition putNode :: "Node \<Rightarrow> Node list \<Rightarrow> Node list" where
  "putNode n ns =
    (if NdID n \<in> NdID ` set ns then map (\<lambda>m. if NdID m = NdID n then n else m) ns else ns @ [n])"

definition putEdge :: "Edge \<Rightarrow> Edge list \<Rightarrow> Edge list" where
  "putEdge e es =
    (if EgID e \<in> EgID ` set es then map (\<lambda>f. if EgID f = EgID e then e else f) es else es @ [e])"

definition UpsertContextNode :: "Node \<Rightarrow> (ContextDB, unit) op" where
  "UpsertContextNode n =
    (if \<not> validNode n then failS ''invalid context node''
     else cxStep (\<lambda>d. (Inr (), d\<lparr>cxNodes := putNode n (cxNodes d)\<rparr>)))"

definition UpsertContextEdge :: "Edge \<Rightarrow> (ContextDB, unit) op" where
  "UpsertContextEdge e =
    (if EgFrom e = [] \<or> EgTo e = [] \<or> EgRelation e = [] then failS ''invalid context edge''
     else bindS (if EgID e = [] then bindS cxNow (\<lambda>t. okS (''edge_'' @ showNat t)) else okS (EgID e)) (\<lambda>edgeID.
       cxStep (\<lambda>d.
         if EgFrom e \<in> NdID ` set (cxNodes d) \<and> EgTo e \<in> NdID ` set (cxNodes d)
         then (Inr (), d\<lparr>cxEdges := putEdge (e\<lparr>EgID := edgeID\<rparr>) (cxEdges d)\<rparr>)
         else (Inl ''violates foreign key constraint'', d))))"

definition serviceIDs :: "string \<Rightarrow> Node list \<Rightarrow> string list" where
  "serviceIDs service ns =
     map NdID (filter (\<lambda>n. NdKind n = ''service'' \<and> (NdID n = service \<or> NdName n = service)) ns)"

definition dbServiceGraph :: "string \<Rightarrow> (ContextDB, Snapshot) op" where
  "dbServiceGraph service =
    (if service = [] then failS ''invalid context service''
     else cxStep (\<lambda>d.
       let svc = serviceIDs service (cxNodes d);
           es = filter (\<lambda>e. EgFrom e \<in> set svc \<or> EgTo e \<in> set svc) (cxEdges d);
           ns = filter (\<lambda>n. NdID n \<in> set svc \<or> NdID n \<in> EgFrom ` set es \<or> NdID n \<in> EgTo ` set es) (cxNodes d) in
       (Inr \<lparr>SnapNodes = sort_key NdName ns, SnapEdges = sort_key EgID es\<rparr>, d)))"

definition InsertContextSnapshot ::
  "string \<Rightarrow> Node list \<Rightarrow> Edge list \<Rightarrow> (string \<times> string) list option \<Rightarrow> (ContextDB, string) op" where
  "InsertContextSnapshot source nodes edges labels =
     bindS cxNow (\<lambda>t. let i = ''snapshot_'' @ showNat t in
     bindS cxNow (\<lambda>now.
     bindS (cxStep (\<lambda>d.
       if i \<in> SpID ` set (cxSnaps d) then (Inl ''duplicate key value violates unique constraint'', d)
       else (Inr (), d\<lparr>cxSnaps := cxSnaps d @ [\<lparr>SpID = i, SpSource = source, SpCollectedAt = now,
               SpNodes = nodes, SpEdges = edges, SpLabels = labels\<rparr>]\<rparr>))) (\<lambda>_.
     okS i)))"

definition GetContextSnapshot :: "string \<Rightarrow> (ContextDB, SnapRow option) op" where
  "GetContextSnapshot snapshotID =
    (let snapshotID = TrimSpace snapshotID in
     if snapshotID = [] then failS ''snapshot_id required''
     else cxStep (\<lambda>d. (Inr (find (\<lambda>r. SpID r = snapshotID) (cxSnaps d)), d)))"

section \<open>The context service\<close>

fun upsertNodes :: "Node list \<Rightarrow> (ContextDB, unit) op" where
  "upsertNodes [] = okS ()"
| "upsertNodes (n # ns) = bindS (UpsertContextNode n) (\<lambda>_. upsertNodes ns)"

fun upsertEdges :: "Edge list \<Rightarrow> (ContextDB, unit) op" where
  "upsertEdges [] = okS ()"
| "upsertEdges (e # es) = bindS (UpsertContextEdge e) (\<lambda>_. upsertEdges es)"

definition IngestSnapshot :: "Snapshot \<Rightarrow> (ContextDB, unit) op" where
  "IngestSnapshot snap = bindS (upsertNodes (SnapNodes snap)) (\<lambda>_. upsertEdges (SnapEdges snap))"

text \<open>A poller is what its \<open>Snapshot\<close> returned in this round, \<open>None\<close> for a nil one.\<close>

fun RefreshContext :: "Snapshot result option list \<Rightarrow> (ContextDB, unit) op" where
  "RefreshContext [] = okS ()"
| "RefreshContext (None # ps) = RefreshContext ps"
| "RefreshContext (Some r # ps) =
     bindS (tryS r) (\<lambda>snap. bindS (IngestSnapshot snap) (\<lambda>_. RefreshContext ps))"

definition GetServiceGraph :: "string \<Rightarrow> (ContextDB, Snapshot) op" where
  "GetServiceGraph service = dbServiceGraph service"

definition labelKeys :: "string list" where
  "labelKeys = [''tenant_id'', ''environment'', ''cluster_id'', ''namespace'', ''aws_account_id'',
     ''region'', ''argocd_project'', ''grafana_org_id'']"

definition labelOf :: "string \<Rightarrow> Node \<Rightarrow> string option" where
  "labelOf key n =
    (case NdLabels n of
       None \<Rightarrow> None
     | Some m \<Rightarrow> (case map_of m key of
                    None \<Rightarrow> None
                  | Some l \<Rightarrow> if TrimSpace l \<noteq> [] then Some l else None))"

text \<open>The inner loop: \<open>None\<close> once two nodes disagree.\<close>

fun agreedLabel :: "string \<Rightarrow> string \<Rightarrow> Node list \<Rightarrow> string option" where
  "agreedLabel key val [] = Some val"
| "agreedLabel key val (n # ns) =
    (case labelOf key n of
       None \<Rightarrow> agreedLabel key val ns
     | Some l \<Rightarrow> if val = [] then agreedLabel key l ns
                 else if val \<noteq> l then None else agreedLabel key val ns)"

definition consistentLabel :: "Node list \<Rightarrow> string \<Rightarrow> string option" where
  "consistentLabel nodes key =
    (case agreedLabel key [] nodes of None \<Rightarrow> None | Some v \<Rightarrow> if v \<noteq> [] then Some v else None)"

definition snapshotLabels :: "Node list \<Rightarrow> (string \<times> string) list option" where
  "snapshotLabels nodes =
    (if nodes = [] then None
     else (let out = List.map_filter (\<lambda>key. map_option (Pair key) (consistentLabel nodes key)) labelKeys in
           if out = [] then None else Some out))"

text \<open>\<open>maybeSnapshot\<close>; the second component is \<open>lastSnapshot\<close>, \<open>None\<close> before the first copy.\<close>

definition maybeSnapshot ::
  "int \<Rightarrow> int \<Rightarrow> Snapshot \<Rightarrow> int option \<Rightarrow> ContextDB \<Rightarrow> int option \<times> ContextDB" where
  "maybeSnapshot interval now snap prev d =
    (if SnapNodes snap = [] \<and> SnapEdges snap = [] then (prev, d)
     else if (case prev of None \<Rightarrow> False | Some t \<Rightarrow> now - t < interval) then (prev, d)
     else case InsertContextSnapshot ''context'' (SnapNodes snap) (SnapEdges snap) (snapshotLabels (SnapNodes snap)) d of
       (Inl _, d') \<Rightarrow> (prev, d')
     | (Inr _, d') \<Rightarrow> (Some now, d'))"

text \<open>One message of \<open>ingestLoop\<close>; errors are only reported.\<close>

definition ingestRound :: "int \<Rightarrow> int \<Rightarrow> Snapshot \<Rightarrow> int option \<Rightarrow> ContextDB \<Rightarrow> int option \<times> ContextDB" where
  "ingestRound interval now snap prev d =
     maybeSnapshot interval now snap prev (snd (IngestSnapshot snap d))"

section \<open>Facts: what the labels say\<close>

lemma labelOf_nonempty: "labelOf key n = Some l \<Longrightarrow> l \<noteq> []"
  by (auto simp: labelOf_def split: option.splits if_splits)

lemma agreedLabel_set:
  "val \<noteq> [] \<Longrightarrow> agreedLabel key val ns = Some v \<longleftrightarrow>
   v = val \<and> (\<forall>n \<in> set ns. labelOf key n = None \<or> labelOf key n = Some val)"
  by (induction ns) (auto split: option.splits)

lemma agreedLabel_Nil:
  "v \<noteq> [] \<Longrightarrow> agreedLabel key [] ns = Some v \<longleftrightarrow>
   (\<exists>n \<in> set ns. labelOf key n = Some v) \<and> (\<forall>n \<in> set ns. labelOf key n = None \<or> labelOf key n = Some v)"
proof (induction ns)
  case (Cons n ns)
  then show ?case using labelOf_nonempty agreedLabel_set by (cases "labelOf key n") auto
qed simp

lemma map_of_map_filter:
  "map_of (List.map_filter (\<lambda>k. map_option (Pair k) (f k)) ks) k = (if k \<in> set ks then f k else None)"
  by (induction ks) (auto simp: map_filter_simps split: option.splits)

lemma snapshotLabels_iff:
  "(\<exists>m. snapshotLabels nodes = Some m \<and> map_of m key = Some v) \<longleftrightarrow>
   key \<in> set labelKeys \<and> (\<exists>n \<in> set nodes. labelOf key n = Some v) \<and>
   (\<forall>n \<in> set nodes. labelOf key n = None \<or> labelOf key n = Some v)"
proof -
  let ?out = "List.map_filter (\<lambda>k. map_option (Pair k) (consistentLabel nodes k)) labelKeys"
  have "consistentLabel nodes key = Some v \<longleftrightarrow> v \<noteq> [] \<and> agreedLabel key [] nodes = Some v"
    by (auto simp: consistentLabel_def split: option.splits)
  moreover have "v \<noteq> []" if "\<exists>n \<in> set nodes. labelOf key n = Some v"
    using that labelOf_nonempty by blast
  ultimately have "map_of ?out key = Some v \<longleftrightarrow>
     key \<in> set labelKeys \<and> (\<exists>n \<in> set nodes. labelOf key n = Some v) \<and>
     (\<forall>n \<in> set nodes. labelOf key n = None \<or> labelOf key n = Some v)"
    unfolding map_of_map_filter using agreedLabel_Nil by (auto split: if_splits)
  moreover have "?out \<noteq> []" if "map_of ?out key = Some v"
    using that by (cases ?out) auto
  ultimately show ?thesis by (auto simp: snapshotLabels_def Let_def)
qed

section \<open>Facts: the graph stays a graph\<close>

definition wfGraph :: "ContextDB \<Rightarrow> bool" where
  "wfGraph d \<longleftrightarrow> distinct (map NdID (cxNodes d)) \<and> distinct (map EgID (cxEdges d)) \<and>
     (\<forall>n \<in> set (cxNodes d). validNode n) \<and>
     (\<forall>e \<in> set (cxEdges d). EgFrom e \<in> NdID ` set (cxNodes d) \<and> EgTo e \<in> NdID ` set (cxNodes d)) \<and>
     distinct (map SpID (cxSnaps d))"

lemma putNode_ids: "NdID ` set (putNode n ns) = insert (NdID n) (NdID ` set ns)"
  by (auto simp: putNode_def image_iff)

lemma putNode_in: "n \<in> set (putNode n ns)"
  by (auto simp: putNode_def)

lemma putNode_elem: "m \<in> set (putNode n ns) \<Longrightarrow> m = n \<or> m \<in> set ns"
  by (auto simp: putNode_def split: if_splits)

lemma putNode_distinct: "distinct (map NdID ns) \<Longrightarrow> distinct (map NdID (putNode n ns))"
  by (auto simp: putNode_def comp_def if_distrib cong: if_cong)

lemma putEdge_elem: "f \<in> set (putEdge e es) \<Longrightarrow> f = e \<or> f \<in> set es"
  by (auto simp: putEdge_def split: if_splits)

lemma putEdge_distinct: "distinct (map EgID es) \<Longrightarrow> distinct (map EgID (putEdge e es))"
  by (auto simp: putEdge_def comp_def if_distrib cong: if_cong)

lemma wfGraph_stmts [simp]: "wfGraph (d\<lparr>cxStmts := k\<rparr>) = wfGraph d"
  by (simp add: wfGraph_def)

lemma preserves_cxStep [keeps]:
  "(\<And>d. wfGraph d \<Longrightarrow> wfGraph (snd (u d))) \<Longrightarrow> preserves wfGraph (cxStep u)"
  by (auto simp: preserves_def cxStep_def Let_def split: option.splits)

lemma preserves_cxNow [keeps]: "preserves wfGraph cxNow"
  by (simp add: preserves_def cxNow_def wfGraph_def)

lemma wfGraph_node: "wfGraph d \<Longrightarrow> validNode n \<Longrightarrow> wfGraph (d\<lparr>cxNodes := putNode n (cxNodes d)\<rparr>)"
  unfolding wfGraph_def
  by (auto simp: putNode_distinct putNode_ids dest: putNode_elem)

lemma wfGraph_edge:
  "wfGraph d \<Longrightarrow> EgFrom e \<in> NdID ` set (cxNodes d) \<Longrightarrow> EgTo e \<in> NdID ` set (cxNodes d) \<Longrightarrow>
   wfGraph (d\<lparr>cxEdges := putEdge e (cxEdges d)\<rparr>)"
  unfolding wfGraph_def by (auto simp: putEdge_distinct dest: putEdge_elem)

lemma wfGraph_upserts [keeps]:
  "preserves wfGraph (UpsertContextNode n)" "preserves wfGraph (UpsertContextEdge e)"
proof -
  show "preserves wfGraph (UpsertContextNode n)"
    by (cases "validNode n")
      (auto simp: UpsertContextNode_def keeps intro!: preserves_cxStep wfGraph_node)
  show "preserves wfGraph (UpsertContextEdge e)"
    unfolding UpsertContextEdge_def by (intro keeps) (auto intro: wfGraph_edge)
qed

lemma wfGraph_Ingest [keeps]: "preserves wfGraph (IngestSnapshot snap)"
proof -
  have "preserves wfGraph (upsertNodes ns)" for ns by (induction ns) (simp_all add: keeps)
  moreover have "preserves wfGraph (upsertEdges es)" for es by (induction es) (simp_all add: keeps)
  ultimately show ?thesis unfolding IngestSnapshot_def by (intro keeps)
qed

lemma wfGraph_Refresh [keeps]: "preserves wfGraph (RefreshContext ps)"
  by (induction ps rule: RefreshContext.induct) (simp_all add: keeps)

lemma wfGraph_InsertSnapshot [keeps]: "preserves wfGraph (InsertContextSnapshot s ns es l)"
  unfolding InsertContextSnapshot_def Let_def by (intro keeps) (auto simp: wfGraph_def)

lemma wfGraph_ingestRound:
  assumes "wfGraph d"
  shows "wfGraph (snd (ingestRound interval now snap prev d))"
proof -
  have "wfGraph (snd (IngestSnapshot snap d))" using preservesD [OF wfGraph_Ingest assms] .
  then show ?thesis
    using preservesD [OF wfGraph_InsertSnapshot]
    by (auto simp: ingestRound_def maybeSnapshot_def split: prod.splits sum.splits if_splits option.splits)
      (metis snd_conv)+
qed

section \<open>Facts: a closed snapshot is ingested whole\<close>

definition closedSnap :: "Snapshot \<Rightarrow> bool" where
  "closedSnap s \<longleftrightarrow> (\<forall>e \<in> set (SnapEdges s). EgID e \<noteq> [] \<and> EgRelation e \<noteq> [] \<and>
     EgFrom e \<noteq> [] \<and> EgTo e \<noteq> [] \<and>
     EgFrom e \<in> NdID ` set (SnapNodes s) \<and> EgTo e \<in> NdID ` set (SnapNodes s))"

lemma upsertNodes_all:
  assumes "cxFault d = (\<lambda>_. None)" "\<forall>n \<in> set ns. validNode n"
  shows "\<exists>d'. upsertNodes ns d = (Inr (), d') \<and> cxFault d' = (\<lambda>_. None) \<and> cxEdges d' = cxEdges d \<and>
    NdID ` set (cxNodes d') = NdID ` set (cxNodes d) \<union> NdID ` set ns"
  using assms
proof (induction ns arbitrary: d)
  case Nil
  then show ?case by (simp add: okS_def)
next
  case (Cons n ns)
  let ?d = "d\<lparr>cxStmts := Suc (cxStmts d), cxNodes := putNode n (cxNodes d)\<rparr>"
  have step: "UpsertContextNode n d = (Inr (), ?d)"
    using Cons.prems by (simp add: UpsertContextNode_def cxStep_def)
  obtain d' where "upsertNodes ns ?d = (Inr (), d')" "cxFault d' = (\<lambda>_. None)" "cxEdges d' = cxEdges ?d"
    "NdID ` set (cxNodes d') = NdID ` set (cxNodes ?d) \<union> NdID ` set ns"
    using Cons.IH [of ?d] Cons.prems by auto
  then show ?case using step by (auto simp: bindS_def putNode_ids)
qed

lemma upsertEdges_all:
  assumes "cxFault d = (\<lambda>_. None)"
    and "\<forall>e \<in> set es. EgID e \<noteq> [] \<and> EgRelation e \<noteq> [] \<and> EgFrom e \<noteq> [] \<and> EgTo e \<noteq> [] \<and>
      EgFrom e \<in> NdID ` set (cxNodes d) \<and> EgTo e \<in> NdID ` set (cxNodes d)"
  shows "\<exists>d'. upsertEdges es d = (Inr (), d') \<and> cxFault d' = (\<lambda>_. None) \<and> cxNodes d' = cxNodes d \<and>
    EgID ` set (cxEdges d') = EgID ` set (cxEdges d) \<union> EgID ` set es"
  using assms
proof (induction es arbitrary: d)
  case Nil
  then show ?case by (simp add: okS_def)
next
  case (Cons e es)
  let ?d = "d\<lparr>cxStmts := Suc (cxStmts d), cxEdges := putEdge e (cxEdges d)\<rparr>"
  have step: "UpsertContextEdge e d = (Inr (), ?d)"
    using Cons.prems by (simp add: UpsertContextEdge_def cxStep_def)
  have ids: "EgID ` set (putEdge e (cxEdges d)) = insert (EgID e) (EgID ` set (cxEdges d))"
    by (auto simp: putEdge_def image_iff)
  obtain d' where "upsertEdges es ?d = (Inr (), d')" "cxFault d' = (\<lambda>_. None)" "cxNodes d' = cxNodes ?d"
    "EgID ` set (cxEdges d') = EgID ` set (cxEdges ?d) \<union> EgID ` set es"
    using Cons.IH [of ?d] Cons.prems by auto
  then show ?case using step ids by (auto simp: bindS_def)
qed

lemma Ingest_closed:
  assumes "closedSnap snap" "\<forall>n \<in> set (SnapNodes snap). validNode n" "cxFault d = (\<lambda>_. None)"
  shows "\<exists>d'. IngestSnapshot snap d = (Inr (), d') \<and>
    NdID ` set (cxNodes d') = NdID ` set (cxNodes d) \<union> NdID ` set (SnapNodes snap) \<and>
    EgID ` set (cxEdges d') = EgID ` set (cxEdges d) \<union> EgID ` set (SnapEdges snap)"
proof -
  obtain d1 where n: "upsertNodes (SnapNodes snap) d = (Inr (), d1)" "cxFault d1 = (\<lambda>_. None)"
    "cxEdges d1 = cxEdges d" "NdID ` set (cxNodes d1) = NdID ` set (cxNodes d) \<union> NdID ` set (SnapNodes snap)"
    using upsertNodes_all [OF assms(3,2)] by blast
  obtain d2 where "upsertEdges (SnapEdges snap) d1 = (Inr (), d2)" "cxNodes d2 = cxNodes d1"
    "EgID ` set (cxEdges d2) = EgID ` set (cxEdges d1) \<union> EgID ` set (SnapEdges snap)"
    using upsertEdges_all [OF n(2), of "SnapEdges snap"] assms(1) n(4) by (auto simp: closedSnap_def)
  with n show ?thesis by (auto simp: IngestSnapshot_def bindS_def)
qed

end
