(* ===== verification/Collectors.thy ===== *)
theory Collectors
  imports Context_Graph Tool_Validate
begin

text \<open>
  \<open>internal/context/collectors\<close>: what the pollers and watchers ask the tool router for and how
  they turn its answers into snapshots. \<open>run\<close> stands for the tool router behind HTTP, \<open>unm\<close> for
  the JSON parser, \<open>hash8\<close> for the first eight bytes of SHA-1 in hexadecimal. The locales
  \<open>collector\<close> and \<open>valid_collector\<close> state what the context tables need of a snapshot; every
  builder is an instance.
\<close>

section \<open>Shared helpers\<close>

type_synonym labels = "(string \<times> string) list"

definition lput :: "labels \<Rightarrow> string \<Rightarrow> string \<Rightarrow> labels" where
  "lput m k v = (k, v) # filter (\<lambda>(k', _). k' \<noteq> k) m"

definition lputAll :: "labels \<Rightarrow> labels \<Rightarrow> labels" where
  "lputAll m kvs = foldl (\<lambda>acc (k, v). lput acc k v) m kvs"

definition lget :: "labels \<Rightarrow> string \<Rightarrow> string" where
  "lget m k = (case map_of m k of None \<Rightarrow> [] | Some v \<Rightarrow> v)"

record Base =
  baseContext :: ContextRef
  baseLabels :: labels

definition withLabels :: "Base \<Rightarrow> labels \<Rightarrow> labels" where
  "withLabels b extra = lputAll (lputAll [] (baseLabels b)) extra"

definition nodeID :: "string list \<Rightarrow> string" where
  "nodeID parts = strJoin (filter (\<lambda>p. p \<noteq> []) (map TrimSpace parts)) ''/''"

definition node :: "string \<Rightarrow> string \<Rightarrow> string \<Rightarrow> labels \<Rightarrow> Node" where
  "node kind i name lbls = \<lparr>NdID = i, NdKind = kind, NdName = name, NdLabels = Some lbls, NdTeam = []\<rparr>"

definition edge :: "string \<Rightarrow> string \<Rightarrow> string \<Rightarrow> string \<Rightarrow> Edge" where
  "edge i from to relation = \<lparr>EgID = i, EgFrom = from, EgTo = to, EgRelation = relation\<rparr>"

definition snapAppend :: "Snapshot \<Rightarrow> Snapshot \<Rightarrow> Snapshot" where
  "snapAppend a b = \<lparr>SnapNodes = SnapNodes a @ SnapNodes b, SnapEdges = SnapEdges a @ SnapEdges b\<rparr>"

definition snapConcat :: "Snapshot list \<Rightarrow> Snapshot" where
  "snapConcat ss = \<lparr>SnapNodes = concat (map SnapNodes ss), SnapEdges = concat (map SnapEdges ss)\<rparr>"

text \<open>A node with its edge to another node.\<close>

definition linked :: "Node \<Rightarrow> Node \<Rightarrow> Edge \<Rightarrow> Snapshot" where
  "linked a b e = \<lparr>SnapNodes = [a, b], SnapEdges = [e]\<rparr>"

definition alone :: "Node \<Rightarrow> Snapshot" where
  "alone a = \<lparr>SnapNodes = [a], SnapEdges = []\<rparr>"

fun decodeObjs :: "gval \<Rightarrow> gmap list result" where
  "decodeObjs GNil = Inr []"
| "decodeObjs (GList vs) = mapR decodeObj vs"
| "decodeObjs _ = Inl ''json: cannot unmarshal''"

definition objsOf :: "(string \<Rightarrow> gval option) \<Rightarrow> string \<Rightarrow> gmap list option" where
  "objsOf unm payload =
    (case unm payload of
       None \<Rightarrow> None
     | Some v \<Rightarrow> (case decodeObjs v of Inl _ \<Rightarrow> None | Inr ms \<Rightarrow> Some ms))"

definition objOf :: "(string \<Rightarrow> gval option) \<Rightarrow> string \<Rightarrow> gmap option" where
  "objOf unm payload =
    (case unm payload of
       None \<Rightarrow> None
     | Some v \<Rightarrow> (case decodeObj v of Inl _ \<Rightarrow> None | Inr m \<Rightarrow> Some m))"

section \<open>Kubernetes\<close>

definition defaultK8sResources :: "string list" where
  "defaultK8sResources = [''deployments'', ''statefulsets'', ''daemonsets'', ''services'', ''ingresses'',
     ''pods'', ''events'', ''nodes'']"

definition resourceVersionFromMeta :: "gval \<Rightarrow> string" where
  "resourceVersionFromMeta meta = gstr (mapOf meta) ''resourceVersion''"

definition snapshotFromK8sObject :: "gmap \<Rightarrow> labels \<Rightarrow> Snapshot \<times> string" where
  "snapshotFromK8sObject obj lbls =
    (let meta = mapOf (gget obj ''metadata''); name = gstr meta ''name'';
         namespace = gstr meta ''namespace''; kind = gstr obj ''kind'' in
     if name = [] \<or> kind = [] then (emptySnap, [])
     else (let resourceID = nodeID [''k8s'', ToLower kind, namespace, name];
               resourceLabels = lputAll [(''namespace'', namespace), (''kind'', kind)] lbls;
               k8sNode = node (''k8s.'' @ ToLower kind) resourceID name resourceLabels;
               nsID = nodeID [''k8s'', ''namespace'', namespace] in
           (if namespace \<noteq> []
            then linked k8sNode (node ''k8s.namespace'' nsID namespace lbls)
                   (edge (nodeID [''edge'', nsID, resourceID]) nsID resourceID ''contains'')
            else alone k8sNode,
            resourceVersionFromMeta (GMap meta))))"

definition snapshotFromK8sList :: "(string \<Rightarrow> gval option) \<Rightarrow> string \<Rightarrow> labels \<Rightarrow> Snapshot \<times> string" where
  "snapshotFromK8sList unm payload lbls =
    (if payload = [] then (emptySnap, [])
     else case objOf unm payload of
       None \<Rightarrow> (emptySnap, [])
     | Some raw \<Rightarrow>
        (snapConcat (List.map_filter (\<lambda>item. case item of
            GMap obj \<Rightarrow> Some (fst (snapshotFromK8sObject obj lbls)) | _ \<Rightarrow> None) (listOf (gget raw ''items''))),
         resourceVersionFromMeta (gget raw ''metadata'')))"

fun watchLines :: "(string \<Rightarrow> gval option) \<Rightarrow> labels \<Rightarrow> string list \<Rightarrow> Snapshot \<times> string \<Rightarrow> Snapshot \<times> string" where
  "watchLines unm lbls [] acc = acc"
| "watchLines unm lbls (l # ls) (snap, rv) =
    (let line = TrimSpace l in
     if line = [] then watchLines unm lbls ls (snap, rv)
     else case objOf unm line of
       None \<Rightarrow> watchLines unm lbls ls (snap, rv)
     | Some event \<Rightarrow>
        (case gget event ''object'' of
           GMap obj \<Rightarrow>
             (let (part, rv') = snapshotFromK8sObject obj lbls in
              watchLines unm lbls ls (snapAppend snap part, if rv' \<noteq> [] then rv' else rv))
         | _ \<Rightarrow> watchLines unm lbls ls (snap, rv)))"

definition snapshotFromK8sWatch :: "(string \<Rightarrow> gval option) \<Rightarrow> string \<Rightarrow> labels \<Rightarrow> Snapshot \<times> string" where
  "snapshotFromK8sWatch unm payload lbls =
     watchLines unm lbls (splitChar (CHR 0x0A) (TrimSpace payload)) (emptySnap, [])"

type_synonym runner = "ExecuteRequest \<Rightarrow> string result"

definition toolCall :: "Base \<Rightarrow> string \<Rightarrow> string \<Rightarrow> gmap \<Rightarrow> ExecuteRequest" where
  "toolCall b tool action input =
     \<lparr>ReqTool = tool, ReqAction = action, ReqInput = GMap input, ReqToolCallID = [], ReqExecutionID = [],
      ReqContext = baseContext b\<rparr>"

text \<open>Request by request; the first error ends the poll.\<close>

fun pollAll :: "runner \<Rightarrow> ('a \<Rightarrow> ExecuteRequest) \<Rightarrow> (string \<Rightarrow> Snapshot) \<Rightarrow> 'a list \<Rightarrow> Snapshot result" where
  "pollAll run req build [] = Inr emptySnap"
| "pollAll run req build (x # xs) =
     bindR (run (req x)) (\<lambda>out. bindR (pollAll run req build xs) (\<lambda>rest. Inr (snapAppend (build out) rest)))"

definition whenSet :: "string \<Rightarrow> string \<Rightarrow> gmap" where
  "whenSet k v = (if TrimSpace v \<noteq> [] then [(k, GStr v)] else [])"

definition k8sSnapshot ::
  "(string \<Rightarrow> gval option) \<Rightarrow> runner \<Rightarrow> Base \<Rightarrow> string list \<Rightarrow> string \<Rightarrow> Snapshot result" where
  "k8sSnapshot unm run b resources namespace =
     pollAll run (\<lambda>res. toolCall b ''kubectl'' ''get'' ((''resource'', GStr res) # whenSet ''namespace'' namespace))
       (\<lambda>out. fst (snapshotFromK8sList unm out (withLabels b [])))
       (if resources = [] then defaultK8sResources else resources)"

record K8sWatcher =
  kwBase :: Base
  kwNamespace :: string
  kwSelector :: string
  kwTimeout :: int
  kwInitialEvents :: bool
  kwBookmarks :: bool

definition watchInput :: "K8sWatcher \<Rightarrow> string \<Rightarrow> string \<Rightarrow> gmap" where
  "watchInput w res rv =
     [(''resource'', GStr res),
      (''timeout_seconds'', GInt (if kwTimeout w \<le> 0 then 30 else kwTimeout w div 1000000000))]
     @ (if TrimSpace rv \<noteq> [] then [(''resource_version'', GStr (TrimSpace rv))] else [])
     @ whenSet ''namespace'' (kwNamespace w) @ whenSet ''selector'' (kwSelector w)
     @ (if kwInitialEvents w then [(''send_initial_events'', GBool True)] else [])
     @ (if kwBookmarks w then [(''allow_bookmarks'', GBool True)] else [])"

text \<open>One pass over the resources: the snapshots sent and the resource versions kept.\<close>

fun watchPass ::
  "(string \<Rightarrow> gval option) \<Rightarrow> runner \<Rightarrow> K8sWatcher \<Rightarrow> string list \<Rightarrow> labels \<Rightarrow> Snapshot list \<times> labels" where
  "watchPass unm run w [] rvs = ([], rvs)"
| "watchPass unm run w (res # rest) rvs =
    (case run (toolCall (kwBase w) ''kubectl'' ''watch'' (watchInput w res (lget rvs res))) of
       Inl _ \<Rightarrow> watchPass unm run w rest rvs
     | Inr out \<Rightarrow>
        (let (snap, rv) = snapshotFromK8sWatch unm out (withLabels (kwBase w) []);
             (sent, rvs') = watchPass unm run w rest (if rv \<noteq> [] then lput rvs res rv else rvs) in
         (if SnapNodes snap \<noteq> [] \<or> SnapEdges snap \<noteq> [] then snap # sent else sent, rvs')))"

section \<open>Helm, Argo CD, Alertmanager\<close>

definition helmRelease :: "labels \<Rightarrow> gmap \<Rightarrow> Snapshot" where
  "helmRelease lbls rel =
    (let name = gstr rel ''name''; namespace = gstr rel ''namespace'' in
     if TrimSpace name = [] then emptySnap
     else (let id = nodeID [''helm'', ''release'', namespace, name];
               n = node ''helm.release'' id name (lputAll [(''namespace'', namespace)] lbls);
               nsID = nodeID [''k8s'', ''namespace'', namespace] in
           if namespace \<noteq> []
           then linked n (node ''k8s.namespace'' nsID namespace lbls)
                  (edge (nodeID [''edge'', nsID, id]) nsID id ''contains'')
           else alone n))"

definition snapshotFromHelmList :: "(string \<Rightarrow> gval option) \<Rightarrow> string \<Rightarrow> labels \<Rightarrow> Snapshot" where
  "snapshotFromHelmList unm payload lbls =
    (if payload = [] then emptySnap
     else case objsOf unm payload of
       None \<Rightarrow> emptySnap | Some rels \<Rightarrow> snapConcat (map (helmRelease lbls) rels))"

definition helmSnapshot ::
  "(string \<Rightarrow> gval option) \<Rightarrow> runner \<Rightarrow> Base \<Rightarrow> string list \<Rightarrow> Snapshot result" where
  "helmSnapshot unm run b namespaces =
     pollAll run (\<lambda>ns. toolCall b ''helm'' ''list'' (whenSet ''namespace'' ns))
       (\<lambda>out. snapshotFromHelmList unm out (withLabels b []))
       (if namespaces = [] then [[]] else namespaces)"

fun stringField :: "gval \<Rightarrow> string list \<Rightarrow> string" where
  "stringField v [] = TrimSpace (strOf v)"
| "stringField v (k # ks) =
    (case v of
       GMap m \<Rightarrow> (case map_of m k of None \<Rightarrow> [] | Some x \<Rightarrow> stringField x ks)
     | _ \<Rightarrow> [])"

definition argoApp :: "labels \<Rightarrow> string list \<Rightarrow> gmap \<Rightarrow> Snapshot" where
  "argoApp lbls allow app =
    (let allowed = filter (\<lambda>n. n \<noteq> []) (map TrimSpace allow);
         name = stringField (GMap app) [''metadata'', ''name''] in
     if name = [] \<or> allowed \<noteq> [] \<and> name \<notin> set allowed then emptySnap
     else (let appID = nodeID [''argocd'', ''app'', name];
               n = node ''argocd.app'' appID name lbls;
               namespace = stringField (GMap app) [''spec'', ''destination'', ''namespace''];
               nsID = nodeID [''k8s'', ''namespace'', namespace] in
           if namespace \<noteq> []
           then linked n (node ''k8s.namespace'' nsID namespace lbls)
                  (edge (nodeID [''edge'', appID, nsID]) appID nsID ''targets'')
           else alone n))"

definition snapshotFromArgoList ::
  "(string \<Rightarrow> gval option) \<Rightarrow> string \<Rightarrow> labels \<Rightarrow> string list \<Rightarrow> Snapshot" where
  "snapshotFromArgoList unm payload lbls allow =
    (if payload = [] then emptySnap
     else case objsOf unm payload of
       None \<Rightarrow> emptySnap | Some apps \<Rightarrow> snapConcat (map (argoApp lbls allow) apps))"

definition argoSnapshot ::
  "(string \<Rightarrow> gval option) \<Rightarrow> runner \<Rightarrow> Base \<Rightarrow> string list \<Rightarrow> Snapshot result" where
  "argoSnapshot unm run b apps =
     bindR (run (toolCall b ''argocd'' ''list'' []))
       (\<lambda>out. Inr (snapshotFromArgoList unm out (withLabels b []) apps))"

definition alertLabels :: "Base \<Rightarrow> gval \<Rightarrow> labels" where
  "alertLabels b l =
     lputAll (withLabels b []) (List.map_filter (\<lambda>(k, v). case v of
       GStr s \<Rightarrow> if TrimSpace s \<noteq> [] then Some (k, s) else None | _ \<Rightarrow> None) (mapOf l))"

definition alertNode :: "Base \<Rightarrow> gmap \<Rightarrow> Snapshot" where
  "alertNode b alert =
    (let fp = TrimSpace (gstr alert ''fingerprint'') in
     if fp = [] then emptySnap
     else (let lbls = alertLabels b (gget alert ''labels'');
               alertID = nodeID [''alert'', fp];
               n = node ''alert'' alertID fp lbls;
               service = (if lget lbls ''service'' = [] then lget lbls ''app'' else lget lbls ''service'');
               svcID = nodeID [''service'', service] in
           if TrimSpace service \<noteq> []
           then linked n (node ''service'' svcID service lbls)
                  (edge (nodeID [''edge'', alertID, svcID]) alertID svcID ''alerts'')
           else alone n))"

definition alertmanagerSnapshot :: "(string \<Rightarrow> gval option) \<Rightarrow> runner \<Rightarrow> Base \<Rightarrow> Snapshot result" where
  "alertmanagerSnapshot unm run b =
     bindR (run (toolCall b ''alertmanager'' ''alerts_list'' [])) (\<lambda>out.
       case objsOf unm out of
         None \<Rightarrow> Inl ''json: invalid'' | Some alerts \<Rightarrow> Inr (snapConcat (map (alertNode b) alerts)))"

section \<open>Grafana, AWS\<close>

definition dashboard :: "labels \<Rightarrow> gmap \<Rightarrow> Snapshot" where
  "dashboard lbls item =
    (let uid = gstr item ''uid''; title = gstr item ''title'' in
     if TrimSpace uid = [] then emptySnap
     else (let id = nodeID [''grafana'', ''dashboard'', uid];
               n = node ''grafana.dashboard'' id title lbls in
           case gget item ''folderId'' of
             GFloat f \<Rightarrow>
               if f > 0 then
                 (let fid = showInt (intOfFloat f); folderID = nodeID [''grafana'', ''folder'', fid] in
                  linked n (node ''grafana.folder'' folderID fid lbls)
                    (edge (nodeID [''edge'', folderID, id]) folderID id ''contains''))
               else alone n
           | _ \<Rightarrow> alone n))"

definition snapshotFromGrafana :: "(string \<Rightarrow> gval option) \<Rightarrow> string \<Rightarrow> labels \<Rightarrow> Snapshot" where
  "snapshotFromGrafana unm payload lbls =
    (if payload = [] then emptySnap
     else case objsOf unm payload of
       None \<Rightarrow> emptySnap | Some items \<Rightarrow> snapConcat (map (dashboard lbls) items))"

definition grafanaSnapshot ::
  "(string \<Rightarrow> gval option) \<Rightarrow> runner \<Rightarrow> Base \<Rightarrow> string \<Rightarrow> int list \<Rightarrow> Snapshot result" where
  "grafanaSnapshot unm run b query folders =
    (let ids = filter (\<lambda>i. i > 0) folders in
     bindR (run (toolCall b ''grafana'' ''dashboard_list''
             (whenSet ''query'' query @ (if ids = [] then [] else [(''folder_ids'', GList (map GInt ids))]))))
       (\<lambda>out. Inr (snapshotFromGrafana unm out (withLabels b []))))"

definition parseARN :: "string \<Rightarrow> string \<times> string" where
  "parseARN arn =
    (let parts = splitChar (CHR '':'') arn in
     if length parts < 6 then ([], []) else (parts ! 2, parts ! 4))"

definition awsResource :: "labels \<Rightarrow> gmap \<Rightarrow> Snapshot" where
  "awsResource lbls m =
    (let arn = gstr m ''ResourceARN'' in
     if arn = [] then emptySnap
     else (let (service, account) = parseARN arn;
               resID = nodeID [''aws'', service, arn];
               n = node ''aws.resource'' resID arn (lputAll [(''service'', service), (''account'', account)] lbls);
               acctID = nodeID [''aws'', ''account'', account] in
           if account \<noteq> []
           then linked n (node ''aws.account'' acctID account lbls)
                  (edge (nodeID [''edge'', acctID, resID]) acctID resID ''contains'')
           else alone n))"

definition snapshotFromAWSResources :: "(string \<Rightarrow> gval option) \<Rightarrow> string \<Rightarrow> labels \<Rightarrow> Snapshot" where
  "snapshotFromAWSResources unm payload lbls =
    (if payload = [] then emptySnap
     else case objOf unm payload of
       None \<Rightarrow> emptySnap
     | Some raw \<Rightarrow>
        snapConcat (List.map_filter (\<lambda>item. case item of
          GMap m \<Rightarrow> Some (awsResource lbls m) | _ \<Rightarrow> None) (listOf (gget raw ''ResourceTagMappingList''))))"

definition awsSnapshot ::
  "(string \<Rightarrow> gval option) \<Rightarrow> runner \<Rightarrow> Base \<Rightarrow> gmap list \<Rightarrow> string \<Rightarrow> Snapshot result" where
  "awsSnapshot unm run b tagFilters region =
     bindR (run (toolCall b ''aws'' ''tagging-get-resources''
             ((if tagFilters = [] then [] else [(''tag_filters'', GList (map GMap tagFilters))])
              @ whenSet ''region'' region)))
       (\<lambda>out. Inr (snapshotFromAWSResources unm out (withLabels b [])))"

section \<open>Queries: Prometheus, Thanos, Tempo\<close>

text \<open>The three pollers differ in tool, action, kind and default query; failing queries are skipped.\<close>

definition queryNodes ::
  "runner \<Rightarrow> Base \<Rightarrow> (string \<Rightarrow> string) \<Rightarrow> string \<Rightarrow> string \<Rightarrow> string list \<Rightarrow> Snapshot" where
  "queryNodes run b hash8 tool action queries =
     \<lparr>SnapNodes = map (\<lambda>q. node (tool @ ''.query'') (nodeID [tool, ''query'', hash8 q]) q (withLabels b [(''query'', q)]))
        (filter (\<lambda>q. isOk (run (toolCall b tool action [(''query'', GStr q)]))) queries),
      SnapEdges = []\<rparr>"

definition promSnapshot :: "runner \<Rightarrow> Base \<Rightarrow> (string \<Rightarrow> string) \<Rightarrow> string list \<Rightarrow> Snapshot" where
  "promSnapshot run b hash8 queries =
     queryNodes run b hash8 ''prometheus'' ''query'' (if queries = [] then [''up''] else queries)"

definition thanosSnapshot :: "runner \<Rightarrow> Base \<Rightarrow> (string \<Rightarrow> string) \<Rightarrow> string list \<Rightarrow> Snapshot" where
  "thanosSnapshot run b hash8 queries =
     queryNodes run b hash8 ''thanos'' ''query'' (if queries = [] then [''up''] else queries)"

definition tempoSnapshot :: "runner \<Rightarrow> Base \<Rightarrow> (string \<Rightarrow> string) \<Rightarrow> string list \<Rightarrow> Snapshot" where
  "tempoSnapshot run b hash8 queries =
     queryNodes run b hash8 ''tempo'' ''traceql'' (if queries = [] then [''{ }''] else queries)"

section \<open>Service mappings\<close>

record ServiceMapping =
  SmService :: string
  SmEnvironment :: string
  SmClusterID :: string
  SmNamespace :: string
  SmPromQL :: "string list"
  SmTraceQL :: "string list"
  SmDashboards :: "string list"

text \<open>A node the service points to, when its name is not blank.\<close>

definition mappedTo ::
  "string \<Rightarrow> labels \<Rightarrow> string \<Rightarrow> (string \<Rightarrow> string) \<Rightarrow> string \<Rightarrow> string \<Rightarrow> Snapshot" where
  "mappedTo svcID lbls kind mkID relation v0 =
    (let v = TrimSpace v0; id = mkID v in
     if v = [] then emptySnap
     else \<lparr>SnapNodes = [node kind id v lbls],
           SnapEdges = [edge (nodeID [''edge'', svcID, id]) svcID id relation]\<rparr>)"

definition mappingSnap :: "Base \<Rightarrow> (string \<Rightarrow> string) \<Rightarrow> ServiceMapping \<Rightarrow> Snapshot" where
  "mappingSnap b hash8 m =
    (let service = TrimSpace (SmService m) in
     if service = [] then emptySnap
     else (let svcID = nodeID [''service'', service];
               lbls = withLabels b [(''environment'', SmEnvironment m), (''cluster_id'', SmClusterID m),
                                    (''namespace'', SmNamespace m)];
               to = mappedTo svcID lbls in
       snapConcat
         ([alone (node ''service'' svcID service lbls),
           to ''env'' (\<lambda>v. nodeID [''env'', v]) ''runs_in'' (SmEnvironment m),
           to ''cluster'' (\<lambda>v. nodeID [''cluster'', v]) ''runs_on'' (SmClusterID m),
           to ''k8s.namespace'' (\<lambda>v. nodeID [''k8s'', ''namespace'', v]) ''owns'' (SmNamespace m)]
          @ map (to ''prometheus.query'' (\<lambda>v. nodeID [''prometheus'', ''query'', hash8 v]) ''monitors'') (SmPromQL m)
          @ map (to ''tempo.query'' (\<lambda>v. nodeID [''tempo'', ''query'', hash8 v]) ''traces'') (SmTraceQL m)
          @ map (to ''grafana.dashboard'' (\<lambda>v. nodeID [''grafana'', ''dashboard'', v]) ''dashboards'') (SmDashboards m))))"

definition mappingSnapshot :: "Base \<Rightarrow> (string \<Rightarrow> string) \<Rightarrow> ServiceMapping list \<Rightarrow> Snapshot result" where
  "mappingSnapshot b hash8 mappings =
    (if mappings = [] then Inl ''mappings required''
     else Inr (snapConcat (map (mappingSnap b hash8) mappings)))"

section \<open>The polling watcher\<close>

definition diffSnapshot :: "Snapshot \<Rightarrow> Snapshot \<Rightarrow> Snapshot" where
  "diffSnapshot prev cur =
     \<lparr>SnapNodes = filter (\<lambda>n. NdID n \<noteq> [] \<and> NdID n \<notin> NdID ` set (SnapNodes prev)) (SnapNodes cur),
      SnapEdges = filter (\<lambda>e. EgID e \<noteq> [] \<and> EgID e \<notin> EgID ` set (SnapEdges prev)) (SnapEdges cur)\<rparr>"

text \<open>One round of \<open>PollingWatcher.Watch\<close>: what is sent, and the snapshot kept.\<close>

definition pollRound :: "Snapshot \<Rightarrow> Snapshot result \<Rightarrow> Snapshot option \<times> Snapshot" where
  "pollRound prev r =
    (case r of
       Inl _ \<Rightarrow> (None, prev)
     | Inr snap \<Rightarrow>
        (let update = diffSnapshot prev snap in
         (if SnapNodes update \<noteq> [] \<or> SnapEdges update \<noteq> [] then Some update else None, snap)))"

section \<open>What the context tables need\<close>

locale collector =
  fixes build :: "'a \<Rightarrow> Snapshot"
  assumes closed: "closedSnap (build x)"
begin

lemma ingest_valid:
  assumes "\<forall>n \<in> set (SnapNodes (build x)). validNode n" "cxFault d = (\<lambda>_. None)"
  shows "\<exists>d'. IngestSnapshot (build x) d = (Inr (), d') \<and>
    NdID ` set (cxNodes d') = NdID ` set (cxNodes d) \<union> NdID ` set (SnapNodes (build x)) \<and>
    EgID ` set (cxEdges d') = EgID ` set (cxEdges d) \<union> EgID ` set (SnapEdges (build x))"
  using Ingest_closed [OF closed assms] .

text \<open>An update that a polling watcher sends never dangles once what came before is stored.\<close>

lemma update_closed:
  assumes "e \<in> set (SnapEdges (diffSnapshot prev (build x)))"
  shows "EgFrom e \<in> NdID ` set (SnapNodes prev) \<union> NdID ` set (SnapNodes (diffSnapshot prev (build x)))"
    and "EgTo e \<in> NdID ` set (SnapNodes prev) \<union> NdID ` set (SnapNodes (diffSnapshot prev (build x)))"
  using assms closed [of x] by (fastforce simp: diffSnapshot_def closedSnap_def)+

end

locale valid_collector = collector +
  assumes valid: "n \<in> set (SnapNodes (build x)) \<Longrightarrow> validNode n"
begin

lemma ingest_all:
  assumes "cxFault d = (\<lambda>_. None)"
  shows "\<exists>d'. IngestSnapshot (build x) d = (Inr (), d') \<and>
    NdID ` set (cxNodes d') = NdID ` set (cxNodes d) \<union> NdID ` set (SnapNodes (build x)) \<and>
    EgID ` set (cxEdges d') = EgID ` set (cxEdges d) \<union> EgID ` set (SnapEdges (build x))"
  using ingest_valid valid assms by blast

end

text \<open>A snapshot that satisfies both laws, and how the builders compose.\<close>

definition goodSnap :: "Snapshot \<Rightarrow> bool" where
  "goodSnap s \<longleftrightarrow> closedSnap s \<and> (\<forall>n \<in> set (SnapNodes s). validNode n)"

lemma valid_collectorI: "(\<And>x. goodSnap (build x)) \<Longrightarrow> valid_collector build"
  by unfold_locales (auto simp: goodSnap_def)

lemma goodSnap_empty [simp]: "goodSnap emptySnap" "closedSnap emptySnap"
  by (simp_all add: goodSnap_def closedSnap_def emptySnap_def)

lemma closedSnap_append: "closedSnap a \<Longrightarrow> closedSnap b \<Longrightarrow> closedSnap (snapAppend a b)"
  by (auto simp: closedSnap_def snapAppend_def)

lemma goodSnap_append: "goodSnap a \<Longrightarrow> goodSnap b \<Longrightarrow> goodSnap (snapAppend a b)"
  using closedSnap_append by (auto simp: goodSnap_def snapAppend_def)

lemma closedSnap_concat: "(\<And>s. s \<in> set ss \<Longrightarrow> closedSnap s) \<Longrightarrow> closedSnap (snapConcat ss)"
  unfolding closedSnap_def snapConcat_def by fastforce

lemma goodSnap_concat: "(\<And>s. s \<in> set ss \<Longrightarrow> goodSnap s) \<Longrightarrow> goodSnap (snapConcat ss)"
  using closedSnap_concat [of ss] by (auto simp: goodSnap_def snapConcat_def)

lemma nodeID_nonempty: "p \<noteq> [] \<Longrightarrow> solid (hd p) \<Longrightarrow> solid (last p) \<Longrightarrow> nodeID (p # ps) \<noteq> []"
  using TrimSpace_solid [of p]
  by (cases "filter (\<lambda>p. p \<noteq> []) (map TrimSpace ps)") (simp_all add: nodeID_def)

lemmas collector_simps =
  goodSnap_def closedSnap_def linked_def alone_def node_def edge_def validNode_def
  nodeID_nonempty solid_def

lemma k8sObject_good: "goodSnap (fst (snapshotFromK8sObject obj lbls))"
  by (simp add: snapshotFromK8sObject_def Let_def) (simp add: collector_simps)

lemma k8sList_good: "goodSnap (fst (snapshotFromK8sList unm payload lbls))"
  by (auto simp: snapshotFromK8sList_def map_filter_def k8sObject_good split: option.splits gval.splits
      intro!: goodSnap_concat)

lemma watchLines_good: "goodSnap (fst acc) \<Longrightarrow> goodSnap (fst (watchLines unm lbls ls acc))"
proof (induction ls arbitrary: acc)
  case (Cons l ls)
  obtain snap rv where acc: "acc = (snap, rv)" by (cases acc)
  have skip: "goodSnap (fst (watchLines unm lbls ls (snap, rv)))"
    using Cons acc by simp
  have obj: "goodSnap (fst (watchLines unm lbls ls (snapAppend snap (fst (snapshotFromK8sObject o' lbls)), rv')))"
    for o' rv' using Cons.IH Cons.prems acc k8sObject_good by (simp add: goodSnap_append)
  show ?case
    unfolding acc watchLines.simps Let_def using skip obj
    by (auto simp: split_beta split: option.splits gval.splits)
qed simp

lemma k8sWatch_good: "goodSnap (fst (snapshotFromK8sWatch unm payload lbls))"
  by (simp add: snapshotFromK8sWatch_def watchLines_good)

lemma helm_good: "goodSnap (snapshotFromHelmList unm payload lbls)"
proof -
  have "goodSnap (helmRelease lbls rel)" for rel
    by (simp add: helmRelease_def Let_def) (auto simp: collector_simps)
  then show ?thesis
    by (auto simp: snapshotFromHelmList_def split: option.splits intro!: goodSnap_concat)
qed

lemma argo_good: "goodSnap (snapshotFromArgoList unm payload lbls allow)"
proof -
  have "goodSnap (argoApp lbls allow app)" for app
    by (simp add: argoApp_def Let_def) (simp add: collector_simps)
  then show ?thesis
    by (auto simp: snapshotFromArgoList_def split: option.splits intro!: goodSnap_concat)
qed

lemma alert_good: "goodSnap (alertNode b alert)"
  by (simp add: alertNode_def Let_def) (auto simp: collector_simps)

lemma aws_good: "goodSnap (snapshotFromAWSResources unm payload lbls)"
proof -
  have "goodSnap (awsResource lbls m)" for m
    by (simp add: awsResource_def Let_def split: prod.splits) (simp add: collector_simps)
  then show ?thesis
    by (auto simp: snapshotFromAWSResources_def map_filter_def split: option.splits gval.splits
        intro!: goodSnap_concat)
qed

lemma grafana_closed: "closedSnap (snapshotFromGrafana unm payload lbls)"
proof -
  have "closedSnap (dashboard lbls item)" for item
    by (simp add: dashboard_def Let_def split: gval.splits) (simp add: collector_simps)
  then show ?thesis
    by (auto simp: snapshotFromGrafana_def split: option.splits intro!: closedSnap_concat)
qed

interpretation k8s_list: valid_collector "\<lambda>payload. fst (snapshotFromK8sList unm payload lbls)" for unm lbls
  by (rule valid_collectorI) (rule k8sList_good)

interpretation k8s_watch: valid_collector "\<lambda>payload. fst (snapshotFromK8sWatch unm payload lbls)" for unm lbls
  by (rule valid_collectorI) (rule k8sWatch_good)

interpretation helm_list: valid_collector "\<lambda>payload. snapshotFromHelmList unm payload lbls" for unm lbls
  by (rule valid_collectorI) (rule helm_good)

interpretation argo_list: valid_collector "\<lambda>payload. snapshotFromArgoList unm payload lbls allow" for unm lbls allow
  by (rule valid_collectorI) (rule argo_good)

interpretation alerts: valid_collector "\<lambda>as. snapConcat (map (alertNode b) as)" for b
  by (rule valid_collectorI) (auto intro!: goodSnap_concat alert_good)

interpretation aws_list: valid_collector "\<lambda>payload. snapshotFromAWSResources unm payload lbls" for unm lbls
  by (rule valid_collectorI) (rule aws_good)

interpretation grafana_list: collector "\<lambda>payload. snapshotFromGrafana unm payload lbls" for unm lbls
  by unfold_locales (rule grafana_closed)

text \<open>The pollers that make several requests, and the service mappings.\<close>

lemma pollAll_good: "(\<And>out. goodSnap (build out)) \<Longrightarrow> pollAll run req build xs = Inr s \<Longrightarrow> goodSnap s"
  by (induction xs arbitrary: s) (auto simp: bindR_eq_Inr goodSnap_append)

lemma mappedTo_good:
  assumes "\<And>v. mkID v \<noteq> []" "kind \<noteq> []" "relation \<noteq> []"
  shows "\<forall>n \<in> set (SnapNodes (mappedTo svcID lbls kind mkID relation v)). validNode n"
    and "e \<in> set (SnapEdges (mappedTo svcID lbls kind mkID relation v)) \<Longrightarrow>
      EgID e \<noteq> [] \<and> EgRelation e \<noteq> [] \<and> EgFrom e = svcID \<and>
      EgTo e \<noteq> [] \<and> EgTo e \<in> NdID ` set (SnapNodes (mappedTo svcID lbls kind mkID relation v))"
  using assms
  by (auto simp: mappedTo_def Let_def emptySnap_def node_def edge_def validNode_def nodeID_nonempty solid_def
      split: if_splits)

lemma star_good:
  assumes "validNode c"
    and "\<And>s. s \<in> set ss \<Longrightarrow> \<forall>n \<in> set (SnapNodes s). validNode n"
    and "\<And>s e. s \<in> set ss \<Longrightarrow> e \<in> set (SnapEdges s) \<Longrightarrow>
      EgID e \<noteq> [] \<and> EgRelation e \<noteq> [] \<and> EgFrom e = NdID c \<and> EgTo e \<noteq> [] \<and> EgTo e \<in> NdID ` set (SnapNodes s)"
  shows "goodSnap (snapConcat (alone c # ss))"
  using assms unfolding goodSnap_def closedSnap_def snapConcat_def alone_def
  by (fastforce simp: validNode_def)

lemma mappingSnap_good: "goodSnap (mappingSnap b hash8 m)"
proof (cases "TrimSpace (SmService m) = []")
  case True
  then show ?thesis by (simp add: mappingSnap_def)
next
  case False
  let ?svc = "nodeID [''service'', TrimSpace (SmService m)]"
  have "validNode (node ''service'' ?svc (TrimSpace (SmService m)) lbls)" for lbls
    using False by (simp add: node_def validNode_def nodeID_nonempty solid_def)
  with False show ?thesis
    unfolding mappingSnap_def Let_def if_not_P [OF False] append_Cons
    by (intro star_good)
      (auto simp: node_def nodeID_nonempty solid_def dest: mappedTo_good(2) [rotated 3] mappedTo_good(1) [rule_format, rotated 3])
qed

interpretation mappings: valid_collector "\<lambda>ms. snapConcat (map (mappingSnap b hash8) ms)" for b hash8
  by (rule valid_collectorI) (auto intro!: goodSnap_concat mappingSnap_good)

end
