(* ===== verification/Event_Loop.thy ===== *)
theory Event_Loop
  imports Plan_Api Context_Graph
begin

text \<open>
  From an alert or webhook to a plan: \<open>event_loop.go\<close>, \<open>event_loop_helpers.go\<close>, \<open>event_gate.go\<close> and
  \<open>handleHook\<close> with its helpers of \<open>http.go\<close>. The service graph is read through \<open>heGraph\<close> (the
  context service of the server, if it has one); \<open>heMarshal\<close> is the JSON encoder behind the
  fingerprint of an event, and \<open>heNow\<close> the clock of the gate in nanoseconds.
\<close>

record EventGate =
  egWindow :: int
  egBackoff :: int
  egMinCount :: int
  egSeverities :: "string list"

record HookEnv =
  heGate :: "EventGate option"
  heGraph :: "(string \<Rightarrow> Snapshot result) option"
  heMarshal :: "gval \<Rightarrow> string"
  heNow :: int

section \<open>Reading the payload\<close>

definition extractAlertLabels :: "gmap \<Rightarrow> gmap" where
  "extractAlertLabels payload =
    (case listOf (gget payload ''alerts'') of
       [] \<Rightarrow> []
     | first # _ \<Rightarrow> mapOf (gget (mapOf first) ''labels''))"

text \<open>\<open>extractAlertName\<close> and \<open>extractAlertSeverity\<close>: the first alert's label, or the common one.\<close>

definition alertLabel :: "string \<Rightarrow> gmap \<Rightarrow> string" where
  "alertLabel key payload =
    (if isStr (gget (extractAlertLabels payload) key) then gstr (extractAlertLabels payload) key
     else gstr (mapOf (gget payload ''commonLabels'')) key)"

definition extractAlertName :: "gmap \<Rightarrow> string" where
  "extractAlertName payload = alertLabel ''alertname'' payload"

definition extractAlertSeverity :: "gmap \<Rightarrow> string" where
  "extractAlertSeverity payload = alertLabel ''severity'' payload"

definition hookSummary :: "string \<Rightarrow> gmap \<Rightarrow> string" where
  "hookSummary source payload =
    (if source = ''alertmanager'' then
       (if extractAlertName payload \<noteq> [] then ''Alertmanager: '' @ extractAlertName payload
        else ''Alertmanager webhook'')
     else if source = ''argocd'' then ''Argo CD webhook''
     else if source = ''git'' then ''Git webhook''
     else if source = [] then ''Webhook''
     else ''Webhook: '' @ source)"

definition contextFromHook :: "gmap \<Rightarrow> ContextRef" where
  "contextFromHook payload =
    (case gget payload ''context'' of
       GMap ctx \<Rightarrow> webContextFromMap ctx
     | _ \<Rightarrow> if extractAlertLabels payload \<noteq> [] then webContextFromMap (extractAlertLabels payload)
            else emptyContext)"

definition serviceFromHook :: "gmap \<Rightarrow> string" where
  "serviceFromHook payload =
    (let fromCtx = stringFromMap (mapOf (gget payload ''context''))
                     [''service'', ''service_name'', ''app'', ''application''];
         labels = extractAlertLabels payload in
     if fromCtx \<noteq> [] then fromCtx
     else case filter (\<lambda>k. TrimSpace (gstr labels k) \<noteq> [])
                 [''service'', ''service_name'', ''app'', ''application'', ''job''] of
       [] \<Rightarrow> [] | k # _ \<Rightarrow> gstr labels k)"

definition shouldRunEventLoop :: "Server \<Rightarrow> string \<Rightarrow> bool" where
  "shouldRunEventLoop s source =
    (EnableEventLoop s \<and>
     (if EventLoopSources s = [] then source \<in> {''alertmanager'', ''argocd'', ''git'', ''k8s''}
      else \<exists>allowed \<in> set (EventLoopSources s). EqualFold (TrimSpace allowed) source))"

section \<open>Verification steps\<close>

definition defaultQueryFromIntent :: "string \<Rightarrow> string" where
  "defaultQueryFromIntent intent =
    (let intent = ToLower (TrimSpace intent) in
     if intent = [] then ''up''
     else if strContains intent ''latency'' then
       ''histogram_quantile(0.95, sum(rate(http_request_duration_seconds_bucket[5m])) by (le))''
     else if strContains intent ''error'' then
       ''sum(rate(http_requests_total{status=~'' @ [CHR 0x22] @ ''5..'' @ [CHR 0x22] @ ''}[5m]))''
     else ''up'')"

definition verifyStep :: "string \<Rightarrow> string \<Rightarrow> string \<Rightarrow> planStepDraft" where
  "verifyStep tool action q =
     \<lparr>DrStage = ''verify'', DrAction = action, DrTool = tool,
      DrInput = Some (GMap [(''query'', GStr q)]), DrPreconditions = None, DrRollback = None\<rparr>"

fun verifyFromDiagnostics :: "DiagnosticEvidence list \<Rightarrow> string \<Rightarrow> planStepDraft list option" where
  "verifyFromDiagnostics [] intent = None"
| "verifyFromDiagnostics (d # ds) intent =
    (let q = TrimSpace (DgQuery d); kind = ToLower (TrimSpace (DgType d)) in
     if kind = ''promql'' then
       (let q = (if q = [] then defaultQueryFromIntent intent else q) in
        if q \<noteq> [] then Some [verifyStep ''prometheus'' ''query'' q]
        else verifyFromDiagnostics ds intent)
     else if kind = ''traceql'' \<and> q \<noteq> [] then Some [verifyStep ''tempo'' ''traceql'' q]
     else verifyFromDiagnostics ds intent)"

definition defaultVerifySteps :: "DiagnosticEvidence list \<Rightarrow> string \<Rightarrow> planStepDraft list" where
  "defaultVerifySteps diags intent =
    (case verifyFromDiagnostics diags intent of
       Some steps \<Rightarrow> steps
     | None \<Rightarrow> if defaultQueryFromIntent intent = [] then []
               else [verifyStep ''prometheus'' ''query'' (defaultQueryFromIntent intent)])"

definition hasVerifyStage :: "planStepDraft list \<Rightarrow> bool" where
  "hasVerifyStage steps \<longleftrightarrow> (\<exists>step \<in> set steps. EqualFold (TrimSpace (DrStage step)) ''verify'')"

definition ensureVerifySteps :: "planStepDraft list \<Rightarrow> DiagnosticEvidence list \<Rightarrow> string \<Rightarrow> planStepDraft list" where
  "ensureVerifySteps steps diags intent =
    (if steps = [] \<or> hasVerifyStage steps then steps else steps @ defaultVerifySteps diags intent)"

definition diagnosticHintsFromGraph :: "Snapshot option \<Rightarrow> gmap" where
  "diagnosticHintsFromGraph graph =
    (case graph of
       None \<Rightarrow> []
     | Some sg \<Rightarrow>
        (let named = (\<lambda>kind. filter (\<lambda>q. q \<noteq> []) (map (\<lambda>n. TrimSpace (NdName n))
                 (filter (\<lambda>n. ToLower (TrimSpace (NdKind n)) = kind) (SnapNodes sg))));
             prom = named ''prometheus.query''; trace = named ''tempo.query'' in
         (if prom = [] then [] else [(''promql'', GStrs prom)])
         @ (if trace = [] then [] else [(''traceql'', GStrs trace)])))"

section \<open>The event loop\<close>

definition graphFor :: "HookEnv \<Rightarrow> gmap \<Rightarrow> Snapshot option" where
  "graphFor env payload =
    (case heGraph env of
       None \<Rightarrow> None
     | Some read \<Rightarrow>
        if serviceFromHook payload = [] then None
        else (case read (serviceFromHook payload) of
                Inl _ \<Rightarrow> None
              | Inr g \<Rightarrow> if SnapNodes g \<noteq> [] \<or> SnapEdges g \<noteq> [] then Some g else None))"

definition nodeDoc :: "Node \<Rightarrow> gval" where
  "nodeDoc n = GMap [(''node_id'', GStr (NdID n)), (''kind'', GStr (NdKind n)), (''name'', GStr (NdName n)),
     (''labels'', case NdLabels n of None \<Rightarrow> GNil | Some m \<Rightarrow> GMap (map (\<lambda>(k, v). (k, GStr v)) m)),
     (''owner_team'', GStr (NdTeam n))]"

definition edgeDoc :: "Edge \<Rightarrow> gval" where
  "edgeDoc e = GMap [(''edge_id'', GStr (EgID e)), (''from_node_id'', GStr (EgFrom e)),
     (''to_node_id'', GStr (EgTo e)), (''relation'', GStr (EgRelation e))]"

definition graphDoc :: "Snapshot \<Rightarrow> gval" where
  "graphDoc g = GMap [(''nodes'', GList (map nodeDoc (SnapNodes g))), (''edges'', GList (map edgeDoc (SnapEdges g)))]"

text \<open>\<open>switch dec.Decision\<close>, and the request the loop makes up for the policy.\<close>

definition loopDecision :: "string \<Rightarrow> PolicyDecision \<Rightarrow> unit result" where
  "loopDecision actionType dec =
    (if Decision dec = ''allow'' then Inr ()
     else if Decision dec = ''require_approval'' then
       (if actionType \<noteq> ''write'' then Inl ''approval required'' else Inr ())
     else Inl (''policy decision '' @ Decision dec))"

definition loopRequest :: "Actor option \<Rightarrow> Request" where
  "loopRequest actor = \<lparr>rqMethod = [], rqPath = [], rqHeaders = [], rqQuery = [], rqBody = [], rqActor = actor\<rparr>"

definition loopPlanner ::
  "Server \<Rightarrow> string \<Rightarrow> gval \<Rightarrow> DiagnosticEvidence list \<Rightarrow> string result" where
  "loopPlanner s intent planCtx diags =
    (case srvPlanner s of
       None \<Rightarrow> Inr []
     | Some plan \<Rightarrow> if intent = [] then Inr [] else plan intent planCtx diags)"

text \<open>The steps of the plan: the planner's, completed for a write by a verification step.\<close>

definition loopSteps :: "Server \<Rightarrow> string \<Rightarrow> string \<Rightarrow> DiagnosticEvidence list \<Rightarrow> string \<Rightarrow> planStepDraft list" where
  "loopSteps s actionType planText diags intent =
    (let parsed = (if planText = [] then [] else parsePlanSteps (srvUnmarshal s) planText);
         steps = (if parsed \<noteq> [] \<and> actionType = ''write'' then ensureVerifySteps parsed diags intent else parsed) in
     if actionType = ''write'' \<and> steps = [] then defaultVerifySteps diags intent else steps)"

definition loopRisk :: "string \<Rightarrow> planStepDraft list \<Rightarrow> string" where
  "loopRisk risk steps = (if steps = [] then risk else effectiveRiskDrafts risk steps)"

definition loopPlan ::
  "string \<Rightarrow> ContextRef \<Rightarrow> string \<Rightarrow> gmap \<Rightarrow> string \<Rightarrow> planStepDraft list \<Rightarrow> DiagnosticEvidence list \<Rightarrow>
   Snapshot option \<Rightarrow> gmap" where
  "loopPlan summary ctxRef risk merged planText steps diags graph =
     [(''trigger'', GStr ''alert''), (''summary'', GStr summary), (''context'', ctxDoc ctxRef),
      (''risk_level'', GStr risk), (''intent'', GStr summary), (''constraints'', constraintsDoc merged)]
     @ (if planText = [] then [] else [(''plan_text'', GStr planText)]) @ stepsEntry steps
     @ (if diags = [] then [] else [(''diagnostics'', GList (map diagDoc diags))])
     @ (case graph of None \<Rightarrow> [] | Some g \<Rightarrow> [(''meta'', GMap [(''service_graph'', graphDoc g)])])"

definition storeLoopPlan :: "Server \<Rightarrow> gmap \<Rightarrow> string \<Rightarrow> (Gateway, string) op" where
  "storeLoopPlan s plan actionType =
     bindS (onGwDB (CreatePlan (GMap plan))) (\<lambda>planID.
     bindS (if actionType = ''write'' then bindS (gwCreateApproval s planID True) (\<lambda>_. okS ()) else okS ()) (\<lambda>_.
     okS planID))"

definition runAlertEventLoop ::
  "Server \<Rightarrow> HookEnv \<Rightarrow> Actor option \<Rightarrow> string \<Rightarrow> gmap \<Rightarrow> (Gateway, string) op" where
  "runAlertEventLoop s env actor source payload =
    (let ctxRef = contextFromHook payload in
     bindS (tryS (validateContextRefTenantOnly ctxRef)) (\<lambda>_.
     let summary = hookSummary source payload; intent = summary;
         risk0 = riskFromIntent intent;
         actionType0 = (if risk0 \<noteq> ''read'' then ''write'' else ''read'') in
     bindS (tryS (policyDecision s (loopRequest actor) ''plan.create'' actionType0 ctxRef risk0 0)) (\<lambda>dec.
     bindS (tryS (loopDecision actionType0 dec)) (\<lambda>_.
     let graph = graphFor env payload;
         hints = diagnosticHintsFromGraph graph;
         merged0 = mergeConstraints (srvUnmarshal s) GNil (Constraints dec);
         merged = (if hints = [] then merged0
                   else mergeConstraints (srvUnmarshal s) (GMap merged0) [(''diagnostic_hints'', GMap hints)]);
         diags = collectDiagnostics s ctxRef intent (GMap merged) in
     bindS (tryS (loopPlanner s intent
         (GMap ([(''context'', ctxDoc ctxRef), (''summary'', GStr summary), (''source'', GStr source),
                 (''payload'', GMap payload), (''trigger'', GStr ''alert''),
                 (''diagnostics'', GList (map diagDoc diags))]
                @ (case graph of None \<Rightarrow> [] | Some g \<Rightarrow> [(''service_graph'', graphDoc g)]))) diags)) (\<lambda>planText.
     let steps = loopSteps s actionType0 planText diags intent;
         risk = loopRisk risk0 steps;
         actionType = (if steps \<noteq> [] \<and> risk \<noteq> ''read'' then ''write'' else actionType0) in
     storeLoopPlan s (loopPlan summary ctxRef risk merged planText steps diags graph) actionType)))))"

section \<open>The event gate\<close>

definition hashEvent :: "Server \<Rightarrow> HookEnv \<Rightarrow> string \<Rightarrow> gmap \<Rightarrow> string" where
  "hashEvent s env source payload = srvSHA s (source @ '':'' @ heMarshal env (GMap payload))"

definition severityAllowed :: "EventGate \<Rightarrow> gmap \<Rightarrow> bool" where
  "severityAllowed g payload =
    (egSeverities g = [] \<or>
     (let sev = ToLower (TrimSpace (extractAlertSeverity payload)) in
      sev \<noteq> [] \<and> (\<exists>a \<in> set (egSeverities g). EqualFold (TrimSpace a) sev)))"

definition Accept ::
  "Server \<Rightarrow> HookEnv \<Rightarrow> EventGate \<Rightarrow> string \<Rightarrow> gmap \<Rightarrow> DB \<Rightarrow> (bool result \<times> string) \<times> DB" where
  "Accept s env g source payload d =
    (if \<not> severityAllowed g payload then ((Inr False, []), d)
     else (let fingerprint = hashEvent s env source payload in
           case UpsertEventGate source fingerprint (heNow env) (egWindow g) (egBackoff g) (egMinCount g) d of
             (Inl e, d') \<Rightarrow> ((Inl e, fingerprint), d')
           | (Inr (allowed, _), d') \<Rightarrow> ((Inr allowed, fingerprint), d')))"

section \<open>The webhook\<close>

definition gateH :: "Server \<Rightarrow> HookEnv \<Rightarrow> Request \<Rightarrow> string \<Rightarrow> gmap \<Rightarrow> string \<Rightarrow> unit act" where
  "gateH s env r source payload eventID g =
    (case heGate env of
       None \<Rightarrow> (Inr (), g)
     | Some gate \<Rightarrow>
        (let ((res, fingerprint), d) = Accept s env gate source payload (gwDB g);
             g' = g\<lparr>gwDB := d\<rparr>;
             ctx = GMap [(''source'', GStr source), (''fingerprint'', GStr fingerprint)] in
         case res of
           Inl e \<Rightarrow> denyH s r ''event.gate'' ctx e (httpError ''event gate error'' 400) g'
         | Inr allowed \<Rightarrow>
             if \<not> allowed
             then denyH s r ''event.gate'' ctx ''suppressed''
                    (202, GMap [(''received'', GBool True), (''gated'', GBool True), (''event_id'', GStr eventID)]) g'
             else (Inr (), g')))"

definition eventLoopH :: "Server \<Rightarrow> HookEnv \<Rightarrow> Request \<Rightarrow> string \<Rightarrow> gmap \<Rightarrow> reply act" where
  "eventLoopH s env r source payload g =
    (case runAlertEventLoop s env (rqActor r) source payload g of
       (Inl e, g') \<Rightarrow>
         denyH s r ''event.loop'' (GMap [(''source'', GStr source)]) e (httpError ''event loop error'' 400) g'
     | (Inr planID, g') \<Rightarrow>
         bindH (auditEvent s r ''event.loop'' ''allow''
             (GMap [(''source'', GStr source), (''plan_id'', GStr planID), (''execution_id'', GStr [])]) []) (\<lambda>_.
         okH (200, GMap [(''received'', GBool True), (''plan_id'', GStr planID), (''execution_id'', GStr [])])) g')"

definition hookPlanH :: "Server \<Rightarrow> Request \<Rightarrow> string \<Rightarrow> gmap \<Rightarrow> string \<Rightarrow> unit act" where
  "hookPlanH s r source payload eventID =
    (let ctx = contextFromHook payload; summary = hookSummary source payload; intent = summary;
         risk = riskFromIntent intent;
         actionType = (if risk \<noteq> ''read'' then ''write'' else ''read'') in
     bindH (case policyDecision s r ''plan.create'' actionType ctx risk 0 of
              Inl e \<Rightarrow> denyH s r ''plan.create'' (ctxDoc ctx) e (httpError ''policy denied'' 403)
            | Inr dec \<Rightarrow> okH dec) (\<lambda>dec.
     let merged = mergeConstraints (srvUnmarshal s) GNil (Constraints dec) in
     bindH (decisionH s r ''plan.create'' actionType (ctxDoc ctx) dec) (\<lambda>_.
     bindH (case planWith s intent
                (GMap [(''context'', ctxDoc ctx), (''summary'', GStr summary), (''source'', GStr source),
                       (''payload'', GMap payload), (''trigger'', GStr ''webhook'')]) [] of
              Inl e \<Rightarrow> denyH s r ''plan.create'' (ctxDoc ctx) e (httpError ''planner error'' 502)
            | Inr text \<Rightarrow> okH text) (\<lambda>planText.
     let plan = [(''trigger'', GStr ''webhook''), (''summary'', GStr summary), (''context'', ctxDoc ctx),
                 (''risk_level'', GStr risk), (''intent'', GStr intent), (''constraints'', constraintsDoc merged)]
                @ plannedPart s planText in
     bindH (dbH (CreatePlan (GMap plan)) (httpError ''db error'' 500)) (\<lambda>planID.
     bindH (if actionType = ''write''
            then bindH (createApprovalH s planID True (httpError ''approval error'' 502)) (\<lambda>_. okH ())
            else okH ()) (\<lambda>_.
     bindH (auditEvent s r ''plan.create'' ''allow''
              (GMap [(''plan_id'', GStr planID), (''context'', ctxDoc ctx), (''trigger'', GStr ''webhook''),
                     (''summary'', GStr summary), (''source'', GStr source), (''event_id'', GStr eventID)]) []) (\<lambda>_.
     emit ''plan.updated'' (GMap [(''plan_id'', GStr planID)]) (sessionIDFromRequest r)))))))) "

definition hookPayload :: "Server \<Rightarrow> Request \<Rightarrow> gmap result" where
  "hookPayload s r =
    (if rqBody r = [] then Inr []
     else case srvUnmarshal s (rqBody r) of None \<Rightarrow> Inl ''invalid json'' | Some doc \<Rightarrow> decodeObj doc)"

definition handleHook :: "Server \<Rightarrow> HookEnv \<Rightarrow> Request \<Rightarrow> reply act" where
  "handleHook s env r =
     bindH (checkH (rqMethod r = ''POST'') (405, GNil)) (\<lambda>_.
     bindH (dbH (requireSession s r) (httpError ''session denied'' 403)) (\<lambda>_.
     bindH (checkH (length (rqBody r) \<le> maxRequestBody) (httpError ''invalid body'' 400)) (\<lambda>_.
     let source = TrimPrefix (rqPath r) ''/v1/hooks/'';
         eventID = (if rqBody r = [] then [] else srvSHA s (rqBody r)) in
     bindH (auditEvent s r ''hook.received'' ''allow''
              (GMap [(''source'', GStr source), (''event_id'', GStr eventID),
                     (''payload_bytes'', GInt (int (length (rqBody r))))]) []) (\<lambda>_.
     bindH (case hookPayload s r of Inl _ \<Rightarrow> stopH (httpError ''invalid json'' 400) | Inr p \<Rightarrow> okH p) (\<lambda>payload.
     if shouldRunEventLoop s source then
       bindH (gateH s env r source payload eventID) (\<lambda>_. eventLoopH s env r source payload)
     else
       bindH (hookPlanH s r source payload eventID) (\<lambda>_.
       okH (200, GMap [(''received'', GBool True), (''event_id'', GStr eventID)])))))))"

section \<open>An event starts nothing\<close>

text \<open>
  No execution, no workflow start, and no approval other than pending ones: stated as an
  invariant of the gateway relative to the executions \<open>E\<close>, approvals \<open>A\<close> and starts \<open>S\<close> of before.
\<close>

definition idleTables :: "ExecRow list \<Rightarrow> ApprovalRow set \<Rightarrow> Tables \<Rightarrow> bool" where
  "idleTables E A t \<longleftrightarrow> execsT t = E \<and> (\<forall>a \<in> set (approvalsT t). a \<in> A \<or> ArStatus a = ''pending'')"

definition idleSince ::
  "ExecRow list \<Rightarrow> ApprovalRow set \<Rightarrow> (string \<times> string \<times> ContextRef \<times> PlanStep list) list \<Rightarrow> Gateway \<Rightarrow> bool" where
  "idleSince E A S g \<longleftrightarrow> idleTables E A (tables (gwDB g)) \<and> gwStarts g = S"

abbreviation idleDB :: "ExecRow list \<Rightarrow> ApprovalRow set \<Rightarrow> DB \<Rightarrow> bool" where
  "idleDB E A d \<equiv> idleTables E A (tables d)"

lemma idle_CreatePlan: "preserves (idleDB E A) (CreatePlan doc)"
  unfolding CreatePlan_def
  by (intro keeps preserves_execute [where I = "idleTables E A"]
      preserves_insertPlanStepsConn [where I = "idleTables E A"])
    (auto simp: idleTables_def insertPlan_def insertStep_def split: if_splits)

lemma idle_CreateApproval: "preserves (idleDB E A) (CreateApproval p)"
  unfolding CreateApproval_def
  by (intro keeps preserves_execute [where I = "idleTables E A"])
    (auto simp: idleTables_def insertApproval_def split: if_splits)

lemma idle_UpsertEventGate: "preserves (idleDB E A) (UpsertEventGate s f now w b n)"
  unfolding UpsertEventGate_def Let_def
  by (intro keeps preserves_execute [where I = "idleTables E A"])
    (auto simp: idleTables_def putGate_def split: if_splits)

lemma idle_InsertAuditEvent: "preserves (idleDB E A) (InsertAuditEvent pt doc)"
  unfolding InsertAuditEvent_def
  by (intro keeps preserves_execute [where I = "idleTables E A"])
    (auto simp: idleTables_def insertAudit_def split: if_splits)

lemma idle_reads: "reads m \<Longrightarrow> preserves (idleDB E A) m"
  by (simp add: reads_def preserves_def)

definition stays :: "'a act \<Rightarrow> bool" where
  "stays m \<longleftrightarrow> (\<forall>E A S g. idleSince E A S g \<longrightarrow> idleSince E A S (snd (m g)))"

lemma staysD: "stays m \<Longrightarrow> idleSince E A S g \<Longrightarrow> m g = (x, g') \<Longrightarrow> idleSince E A S g'"
  unfolding stays_def by (metis snd_conv)

named_theorems idle

lemma idle_onGwDB:
  "(\<And>E A. preserves (idleDB E A) m) \<Longrightarrow> idleSince E A S g \<Longrightarrow> idleSince E A S (snd (onGwDB m g))"
  by (auto simp: onGwDB_def idleSince_def preserves_def split: prod.splits) (metis snd_conv)

lemma stays_bindH [idle]: "stays m \<Longrightarrow> (\<And>x. stays (f x)) \<Longrightarrow> stays (bindH m f)"
  unfolding stays_def bindH_def by (auto split: prod.splits sum.splits) (metis snd_conv)+

lemma stays_pure [idle]: "stays (okH x)" "stays (stopH r)" "stays (checkH b r)"
  by (simp_all add: stays_def okH_def stopH_def checkH_def)

lemma stays_dbH: "(\<And>E A. preserves (idleDB E A) m) \<Longrightarrow> stays (dbH m rep)"
  using idle_onGwDB [of m] unfolding stays_def dbH_def
  by (auto split: prod.splits sum.splits) (metis snd_conv)+

lemma stays_audit [idle]: "stays (auditEvent s r a d c n)" "stays (denyH s r a c n rep)"
proof -
  show "stays (auditEvent s r a d c n)" for d
    using idle_onGwDB [OF idle_InsertAuditEvent] by (simp add: stays_def auditEvent_def)
  then show "stays (denyH s r a c n rep)" unfolding denyH_def by (intro idle)
qed

lemma stays_emit [idle]: "stays (emit e d i)"
  by (simp add: stays_def emit_def idleSince_def)

lemma stays_if [idle]: "stays a \<Longrightarrow> stays b \<Longrightarrow> stays (if c then a else b)"
  by simp

lemma stays_sum [idle]:
  "(\<And>e. stays (F e)) \<Longrightarrow> (\<And>y. stays (G y)) \<Longrightarrow> stays (case x of Inl e \<Rightarrow> F e | Inr y \<Rightarrow> G y)"
  by (cases x) auto

lemma stays_Let [idle]: "(\<And>x. stays (f x)) \<Longrightarrow> stays (let x = v in f x)"
  by simp

lemma idle_gwCreateApproval:
  "idleSince E A S g \<Longrightarrow> idleSince E A S (snd (gwCreateApproval s p ext g))"
  using idle_onGwDB [OF idle_CreateApproval]
  unfolding gwCreateApproval_def createApprovalIssue_def
  by (auto simp: idleSince_def split: prod.splits sum.splits option.splits) (metis snd_conv)+

lemma stays_createApprovalH [idle]: "stays (createApprovalH s p ext rep)"
  using idle_gwCreateApproval unfolding stays_def createApprovalH_def
  by (auto split: prod.splits sum.splits) (metis snd_conv)+

lemma stays_decisionH [idle]: "stays (decisionH s r a t c dec)"
  unfolding decisionH_def by (intro idle)

lemma stays_hookPlanH [idle]: "stays (hookPlanH s r source payload eventID)"
  unfolding hookPlanH_def by (intro idle stays_dbH idle_CreatePlan)

lemma idle_runAlertEventLoop: "preserves (idleSince E A S) (runAlertEventLoop s env actor source payload)"
proof -
  have 1: "preserves (idleSince E A S) (onGwDB (CreatePlan doc))" for doc
    using idle_onGwDB [OF idle_CreatePlan] by (simp add: preserves_def)
  have 2: "preserves (idleSince E A S) (gwCreateApproval s p ext)" for p ext
    using idle_gwCreateApproval by (simp add: preserves_def)
  show ?thesis unfolding runAlertEventLoop_def storeLoopPlan_def by (intro keeps 1 2)
qed

lemma stays_snd: "stays m \<Longrightarrow> idleSince E A S g \<Longrightarrow> idleSince E A S (snd (m g))"
  by (simp add: stays_def)

lemma stays_eventLoopH [idle]: "stays (eventLoopH s env r source payload)"
  unfolding stays_def
proof (intro allI impI)
  fix E A S g
  assume I: "idleSince E A S g"
  obtain x g' where run: "runAlertEventLoop s env (rqActor r) source payload g = (x, g')" by fastforce
  have I': "idleSince E A S g'" by (rule preserves_run [OF idle_runAlertEventLoop I run])
  have "idleSince E A S (snd (bindH (auditEvent s r a d c n) (\<lambda>_. okH y) g'))" for a d c n and y :: reply
    by (rule stays_snd [OF _ I']) (intro idle)
  then show "idleSince E A S (snd (eventLoopH s env r source payload g))"
    using stays_snd [OF stays_audit(2) I'] by (cases x) (simp_all add: eventLoopH_def run)
qed

lemma stays_gateH [idle]: "stays (gateH s env r source payload eventID)"
  unfolding stays_def
proof (intro allI impI)
  fix E A S g
  assume I: "idleSince E A S g"
  have db: "idleDB E A (snd (Accept s env gate source payload d))" if "idleDB E A d" for gate d
    using preservesD [OF idle_UpsertEventGate that] that
    by (auto simp: Accept_def Let_def split: prod.splits sum.splits) (metis snd_conv)+
  show "idleSince E A S (snd (gateH s env r source payload eventID g))"
  proof (cases "heGate env")
    case None
    with I show ?thesis by (simp add: gateH_def)
  next
    case (Some gate)
    obtain res fp d where acc: "Accept s env gate source payload (gwDB g) = ((res, fp), d)" by (metis surj_pair)
    have I': "idleSince E A S (g\<lparr>gwDB := d\<rparr>)"
      using db [of "gwDB g" gate] I by (simp add: idleSince_def acc)
    have "idleSince E A S (snd ((denyH s r a c n rep :: unit act) (g\<lparr>gwDB := d\<rparr>)))" for a c n rep
      by (rule stays_snd [OF stays_audit(2) I'])
    with I' show ?thesis by (cases res) (simp_all add: gateH_def Some acc Let_def)
  qed
qed

lemma stays_handleHook: "stays (handleHook s env r)"
  unfolding handleHook_def
  by (intro idle stays_dbH idle_reads reads_requireSession)

section \<open>A plan that changes something waits for approval\<close>

lemma decode_draftDoc:
  "decodePlanStep (draftDoc d) = Inr \<lparr>SpAction = DrAction d, SpTool = DrTool d, SpInput = Some (docOf (DrInput d)),
     SpPreconditions = Some (docOf (DrPreconditions d)), SpRollback = Some (docOf (DrRollback d))\<rparr>"
  by (simp add: decodePlanStep_def draftDoc_def jsonField_def)

lemma decode_draftDocs:
  "decodePlanSteps (GList (map draftDoc ds)) = Inr (map (\<lambda>d. \<lparr>SpAction = DrAction d, SpTool = DrTool d,
     SpInput = Some (docOf (DrInput d)), SpPreconditions = Some (docOf (DrPreconditions d)),
     SpRollback = Some (docOf (DrRollback d))\<rparr>) ds)"
  by (simp add: mapR_map decode_draftDoc mapR_total)

lemma stepRows_origin:
  "r \<in> set (stepRows c n p ss) \<Longrightarrow> \<exists>s \<in> set ss. SrTool r = SpTool s \<and> SrAction r = SpAction s"
  by (induction ss arbitrary: n) (auto split: if_splits)

lemma loopRisk_covers:
  assumes "d \<in> set steps"
  shows "stepRiskOrd (DrTool d, DrAction d) \<le> riskOrd (loopRisk risk steps)"
proof -
  have "stepRiskOrd (DrTool d, DrAction d) \<le> riskOrd (riskFromStepDrafts steps)"
    unfolding riskFromStepDrafts_def riskLoop_max using assms by (intro Max_ge) auto
  also have "\<dots> \<le> riskOrd (loopRisk risk steps)"
    using assms by (auto simp: loopRisk_def effectiveRiskDrafts_def Let_def)
  finally show ?thesis .
qed

lemma gwCreateApproval_pending:
  assumes "gwCreateApproval s p ext g = (Inr i, g')"
  shows "\<exists>a \<in> set (approvalsT (tables (gwDB g'))). ArPlan a = p \<and> ArStatus a = ''pending''"
    "plansT (tables (gwDB g')) = plansT (tables (gwDB g))" "stepsT (tables (gwDB g')) = stepsT (tables (gwDB g))"
  using assms
  by (auto simp: gwCreateApproval_def createApprovalIssue_def onGwDB_def CreateApproval_def bindS_eq_Inr
      newID_run execute_ok insertApproval_def okS_def
      split: prod.splits sum.splits option.splits if_splits)

lemma onGwDB_Inr: "onGwDB m g = (Inr x, g') \<longleftrightarrow> (\<exists>d. m (gwDB g) = (Inr x, d) \<and> g' = g\<lparr>gwDB := d\<rparr>)"
  by (auto simp: onGwDB_def split: prod.splits)

lemma storeLoopPlan_ok:
  assumes "wfDB (gwDB g)"
    and "storeLoopPlan s (loopPlan summary ctxRef (loopRisk risk0 steps) merged planText steps diags graph) actionType g
      = (Inr planID, g')"
    and "loopRisk risk0 steps \<noteq> ''read'' \<Longrightarrow> actionType = ''write''"
  shows "\<exists>row \<in> set (plansT (tables (gwDB g'))). PrID row = planID \<and>
     (\<forall>r \<in> set (stepsT (tables (gwDB g'))). SrPlan r = planID \<longrightarrow>
        stepRiskOrd (SrTool r, SrAction r) \<le> riskOrd (PrRisk row)) \<and>
     (PrRisk row \<noteq> ''read'' \<longrightarrow>
        (\<exists>a \<in> set (approvalsT (tables (gwDB g'))). ArPlan a = planID \<and> ArStatus a = ''pending''))"
proof -
  let ?m = "loopPlan summary ctxRef (loopRisk risk0 steps) merged planText steps diags graph"
  let ?sp = "map (\<lambda>d. \<lparr>SpAction = DrAction d, SpTool = DrTool d, SpInput = Some (docOf (DrInput d)),
     SpPreconditions = Some (docOf (DrPreconditions d)), SpRollback = Some (docOf (DrRollback d))\<rparr>) steps"
  obtain d1 where cr: "CreatePlan (GMap ?m) (gwDB g) = (Inr planID, d1)"
    and fin: "actionType \<noteq> ''write'' \<and> g' = g\<lparr>gwDB := d1\<rparr> \<or>
       (\<exists>i. gwCreateApproval s planID True (g\<lparr>gwDB := d1\<rparr>) = (Inr i, g'))"
    using assms(2) by (auto simp: storeLoopPlan_def bindS_eq_Inr onGwDB_Inr okS_def split: if_splits)
  have dec: "decodePlanSteps (gget ?m ''steps'') = Inr ?sp"
    by (cases "steps = []")
      (auto simp: loopPlan_def stepsEntry_def gget_def decode_draftDocs [simplified] split: option.splits)
  have risk: "gstr ?m ''risk_level'' = loopRisk risk0 steps"
    by (simp add: loopPlan_def gstr_def)
  note c = CreatePlan_ok [OF cr dec]
  obtain row where p: "plansT (tables d1) = plansT (tables (gwDB g)) @ [row]"
    and row: "PrID row = planID" "PrRisk row = loopRisk risk0 steps"
    using c(4) risk by auto
  have "row \<in> set (plansT (tables d1))" by (simp add: p)
  note row = this row
  have old: "SrPlan r \<noteq> planID" if "r \<in> set (stepsT (tables (gwDB g)))" for r
    using that assms(1) c(3) by (auto simp: wfTables_def refs_def hasPlan_def)
  have covered: "stepRiskOrd (SrTool r, SrAction r) \<le> riskOrd (PrRisk row)"
    if "r \<in> set (stepsT (tables d1))" "SrPlan r = planID" for r
  proof -
    have "r \<in> set (stepRows (clockAt (gwDB g)) (clockReads (gwDB g) + 2) planID ?sp)"
      using that old c(2) by auto
    from stepRows_origin [OF this] obtain d where "d \<in> set steps" "SrTool r = DrTool d" "SrAction r = DrAction d"
      by auto
    then show ?thesis using loopRisk_covers row(3) by simp
  qed
  from fin show ?thesis
  proof
    assume "actionType \<noteq> ''write'' \<and> g' = g\<lparr>gwDB := d1\<rparr>"
    then show ?thesis using row covered assms(3) by auto
  next
    assume "\<exists>i. gwCreateApproval s planID True (g\<lparr>gwDB := d1\<rparr>) = (Inr i, g')"
    then obtain i where i: "gwCreateApproval s planID True (g\<lparr>gwDB := d1\<rparr>) = (Inr i, g')" by blast
    show ?thesis using gwCreateApproval_pending [OF i] row covered by auto
  qed
qed

lemma runAlertEventLoop_stored:
  assumes "runAlertEventLoop s env actor source payload g = (Inr planID, g')"
  shows "\<exists>ctxRef risk0 merged planText steps diags graph actionType.
     storeLoopPlan s (loopPlan (hookSummary source payload) ctxRef (loopRisk risk0 steps) merged planText steps diags graph)
       actionType g = (Inr planID, g') \<and>
     (loopRisk risk0 steps \<noteq> ''read'' \<longrightarrow> actionType = ''write'')"
  using assms unfolding runAlertEventLoop_def Let_def
  apply (clarsimp simp: bindS_eq_Inr tryS_def)
  apply (intro exI conjI)
   apply assumption
  apply (auto simp: loopRisk_def split: if_splits)
  done

lemma runAlertEventLoop_plan:
  assumes wf: "wfDB (gwDB g)" and run: "runAlertEventLoop s env actor source payload g = (Inr planID, g')"
  shows "\<exists>row \<in> set (plansT (tables (gwDB g'))). PrID row = planID \<and>
     (\<forall>r \<in> set (stepsT (tables (gwDB g'))). SrPlan r = planID \<longrightarrow>
        stepRiskOrd (SrTool r, SrAction r) \<le> riskOrd (PrRisk row)) \<and>
     (PrRisk row \<noteq> ''read'' \<longrightarrow>
        (\<exists>a \<in> set (approvalsT (tables (gwDB g'))). ArPlan a = planID \<and> ArStatus a = ''pending''))"
  using runAlertEventLoop_stored [OF run] storeLoopPlan_ok [OF wf] by blast

end
