(* ===== verification/Scheduler.thy ===== *)
theory Scheduler
  imports Plan_Api
begin

text \<open>
  \<open>internal/web/scheduler.go\<close>: \<open>RunOnce\<close> turns every schedule that is due into a plan. The cron
  library is the parameter \<open>cron\<close>: it parses a specification into \<open>Next\<close>, which gives the first
  activation after a time, or \<open>None\<close> (Go's zero time) when it finds none within five years.
  A time in a document is the numeral of its nanoseconds.
\<close>

record Schedule =
  SdID :: string
  SdCreatedAt :: "nat option"
  SdCron :: string
  SdContext :: ContextRef
  SdSummary :: string
  SdIntent :: string
  SdConstraints :: gval
  SdTrigger :: string
  SdEnabled :: bool
  SdLastRun :: "nat option"

fun decodeTime :: "gval option \<Rightarrow> nat option result" where
  "decodeTime None = Inr None"
| "decodeTime (Some GNil) = Inr None"
| "decodeTime (Some (GStr s)) =
     (if s \<noteq> [] \<and> list_all isDigit s then Inr (Some (digitsVal s)) else Inl ''parsing time'')"
| "decodeTime (Some _) = Inl ''parsing time''"

definition decodeSchedule :: "gval \<Rightarrow> Schedule result" where
  "decodeSchedule doc =
     bindR (decodeObj doc) (\<lambda>m.
     bindR (decodeStr (jsonField m ''schedule_id'')) (\<lambda>i.
     bindR (decodeTime (jsonField m ''created_at'')) (\<lambda>created.
     bindR (decodeStr (jsonField m ''cron'')) (\<lambda>cron.
     bindR (decodeContext (jsonField m ''context'')) (\<lambda>ctx.
     bindR (decodeStr (jsonField m ''summary'')) (\<lambda>summary.
     bindR (decodeStr (jsonField m ''intent'')) (\<lambda>intent.
     bindR (decodeStr (jsonField m ''trigger'')) (\<lambda>trigger.
     bindR (decodeBool (jsonField m ''enabled'')) (\<lambda>enabled.
     bindR (decodeTime (jsonField m ''last_run_at'')) (\<lambda>lastRun.
       Inr \<lparr>SdID = i, SdCreatedAt = created, SdCron = cron, SdContext = ctx, SdSummary = summary,
            SdIntent = intent, SdConstraints = anyField m ''constraints'', SdTrigger = trigger,
            SdEnabled = enabled, SdLastRun = lastRun\<rparr>))))))))))"

definition parseSchedules :: "gval list \<Rightarrow> Schedule list result" where
  "parseSchedules docs = mapR decodeSchedule docs"

type_synonym cronParser = "string \<Rightarrow> (nat option \<Rightarrow> nat option) result"

definition scheduledPlan :: "nat \<Rightarrow> Schedule \<Rightarrow> gmap" where
  "scheduledPlan now sch =
     [(''trigger'', GStr ''scheduled''), (''summary'', GStr (SdSummary sch)), (''intent'', GStr (SdIntent sch)),
      (''context'', ctxDoc (SdContext sch)), (''constraints'', SdConstraints sch),
      (''risk_level'', GStr (riskFromIntent (SdIntent sch))),
      (''meta'', GMap [(''schedule_id'', GStr (SdID sch)), (''scheduled_at'', GStr (showNat now))])]"

text \<open>The last run, or the creation before the first one.\<close>

definition lastOf :: "Schedule \<Rightarrow> nat option" where
  "lastOf sch = (case SdLastRun sch of None \<Rightarrow> SdCreatedAt sch | Some t \<Rightarrow> Some t)"

definition isDue :: "nat \<Rightarrow> nat option \<Rightarrow> bool" where
  "isDue now activation = (case activation of None \<Rightarrow> True | Some t \<Rightarrow> \<not> now < t)"

definition runSchedule :: "nat \<Rightarrow> Schedule \<Rightarrow> (DB, unit) op" where
  "runSchedule now sch =
     bindS (CreatePlan (GMap (scheduledPlan now sch))) (\<lambda>_. UpdateScheduleLastRun (SdID sch) now)"

fun runSchedules ::
  "cronParser \<Rightarrow> nat \<Rightarrow> Schedule list \<Rightarrow> nat \<Rightarrow> DB \<Rightarrow> (nat \<times> string option) \<times> DB" where
  "runSchedules cron now [] count d = ((count, None), d)"
| "runSchedules cron now (sch # rest) count d =
    (if \<not> SdEnabled sch then runSchedules cron now rest count d
     else case cron (TrimSpace (SdCron sch)) of
       Inl e \<Rightarrow> ((count, Some e), d)
     | Inr nextOf \<Rightarrow>
         if \<not> isDue now (nextOf (lastOf sch)) then runSchedules cron now rest count d
         else (case runSchedule now sch d of
                 (Inl e, d') \<Rightarrow> ((count, Some e), d')
               | (Inr _, d') \<Rightarrow> runSchedules cron now rest (Suc count) d'))"

definition RunOnceSchedules :: "cronParser \<Rightarrow> nat \<Rightarrow> DB \<Rightarrow> (nat \<times> string option) \<times> DB" where
  "RunOnceSchedules cron now d =
    (case ListSchedules 200 0 d of
       (Inl e, d') \<Rightarrow> ((0, Some e), d')
     | (Inr (docs, _), d') \<Rightarrow>
        (case parseSchedules docs of
           Inl e \<Rightarrow> ((0, Some e), d')
         | Inr schedules \<Rightarrow> runSchedules cron now schedules 0 d'))"

text \<open>
  \<open>Run\<close>: one round at the start and one per tick, until a round fails. \<open>nows\<close> are the times of
  the rounds before the context is cancelled.
\<close>

fun RunScheduler :: "cronParser \<Rightarrow> nat list \<Rightarrow> DB \<Rightarrow> string option \<times> DB" where
  "RunScheduler cron [] d = (None, d)"
| "RunScheduler cron (now # nows) d =
    (case RunOnceSchedules cron now d of
       ((_, Some e), d') \<Rightarrow> (Some e, d')
     | ((_, None), d') \<Rightarrow> RunScheduler cron nows d')"

section \<open>Facts\<close>

definition dueSchedule :: "cronParser \<Rightarrow> nat \<Rightarrow> Schedule \<Rightarrow> bool" where
  "dueSchedule cron now sch \<longleftrightarrow>
     SdEnabled sch \<and> (case cron (TrimSpace (SdCron sch)) of Inl _ \<Rightarrow> False | Inr nextOf \<Rightarrow> isDue now (nextOf (lastOf sch)))"

definition markRun :: "nat \<Rightarrow> string set \<Rightarrow> ScheduleRow \<Rightarrow> ScheduleRow" where
  "markRun now ids r = (if ScID r \<in> ids then r\<lparr>ScLastRun := Some now\<rparr> else r)"

lemma insertPlanStepsConn_Nil: "insertPlanStepsConn p [] d = (Inr (), d)"
  by (simp add: okS_def)

lemma runSchedule_ok:
  assumes "runSchedule now sch d = (Inr (), d')"
  shows "\<exists>row. plansT (tables d') = plansT (tables d) @ [row] \<and>
      PrTrigger row = ''scheduled'' \<and> PrSummary row = SdSummary sch \<and>
      PrIntent row = nullString (SdIntent sch) \<and> PrRisk row = riskFromIntent (SdIntent sch) \<and>
      PrContext row = ctxDoc (SdContext sch)"
    and "schedulesT (tables d') = map (markRun now {SdID sch}) (schedulesT (tables d))"
    and "execsT (tables d') = execsT (tables d)" "approvalsT (tables d') = approvalsT (tables d)"
    and "stepsT (tables d') = stepsT (tables d)"
  using assms
  by (auto simp: runSchedule_def CreatePlan_def UpdateScheduleLastRun_def scheduledPlan_def bindS_eq_Inr
      newID_run timeNow_def okS_def tryS_def execute_ok insertPlan_def gstr_def markRun_def
      dest!: withTx_ok split: if_splits)

lemma markRun_compose: "map (markRun now A) (map (markRun now B) rs) = map (markRun now (A \<union> B)) rs"
  by (auto simp: markRun_def)

text \<open>A round without error: one plan per due schedule, in their order, and their time of last run.\<close>

definition planKey :: "PlanRow \<Rightarrow> string \<times> string \<times> string option \<times> string \<times> gval" where
  "planKey r = (PrTrigger r, PrSummary r, PrIntent r, PrRisk r, PrContext r)"

definition scheduleKey :: "Schedule \<Rightarrow> string \<times> string \<times> string option \<times> string \<times> gval" where
  "scheduleKey sch = (''scheduled'', SdSummary sch, nullString (SdIntent sch), riskFromIntent (SdIntent sch),
     ctxDoc (SdContext sch))"

lemma runSchedules_ok:
  assumes "runSchedules cron now schs count d = ((n, None), d')"
  shows "n = count + length (filter (dueSchedule cron now) schs) \<and>
    (\<exists>rows. plansT (tables d') = plansT (tables d) @ rows \<and>
       map planKey rows = map scheduleKey (filter (dueSchedule cron now) schs)) \<and>
    schedulesT (tables d') =
      map (markRun now (SdID ` set (filter (dueSchedule cron now) schs))) (schedulesT (tables d)) \<and>
    execsT (tables d') = execsT (tables d) \<and> approvalsT (tables d') = approvalsT (tables d) \<and>
    stepsT (tables d') = stepsT (tables d)"
  using assms
proof (induction schs arbitrary: count d)
  case Nil
  then show ?case by (simp add: markRun_def map_idI)
next
  case (Cons sch schs)
  show ?case
  proof (cases "dueSchedule cron now sch")
    case False
    then have "runSchedules cron now schs count d = ((n, None), d')"
      using Cons.prems by (auto simp: dueSchedule_def split: if_splits sum.splits)
    with Cons.IH False show ?thesis by simp
  next
    case True
    then obtain d1 where r: "runSchedule now sch d = (Inr (), d1)"
      and rest: "runSchedules cron now schs (Suc count) d1 = ((n, None), d')"
      using Cons.prems by (auto simp: dueSchedule_def split: if_splits sum.splits prod.splits)
    note one = runSchedule_ok [OF r]
    from one(1) obtain row where row: "plansT (tables d1) = plansT (tables d) @ [row]"
      "planKey row = scheduleKey sch"
      by (auto simp: planKey_def scheduleKey_def)
    from Cons.IH [OF rest] obtain rows where "n = Suc count + length (filter (dueSchedule cron now) schs)"
      "plansT (tables d') = plansT (tables d1) @ rows"
      "map planKey rows = map scheduleKey (filter (dueSchedule cron now) schs)" by blast
    moreover have "schedulesT (tables d') =
        map (markRun now (insert (SdID sch) (SdID ` set (filter (dueSchedule cron now) schs)))) (schedulesT (tables d))"
      using Cons.IH [OF rest] one(2) markRun_compose [of now _ "{SdID sch}"] by simp
    ultimately show ?thesis
      using True row one Cons.IH [OF rest] by (auto intro!: exI [of _ "row # rows"])
  qed
qed

section \<open>A second round at the same time finds nothing to do\<close>

lemma insort_key_map:
  "(\<And>r. key (f r) = key r) \<Longrightarrow> insort_key key (f x) (map f xs) = map f (insort_key key x xs)"
  by (induction xs) auto

lemma sort_key_map: "(\<And>r. key (f r) = key r) \<Longrightarrow> sort_key key (map f rs) = map f (sort_key key rs)"
  by (induction rs) (simp_all add: insort_key_map)

lemma pageDesc_map: "(\<And>r. key (f r) = key r) \<Longrightarrow> pageDesc key l n (map f rs) = map f (pageDesc key l n rs)"
  by (simp add: pageDesc_def sort_key_map drop_map take_map rev_map split: prod.splits)

lemma decodeTime_showNat: "decodeTime (Some (GStr (showNat n))) = Inr (Some n)"
  using showNat_digits [of n] by simp

definition scheduleOf :: "ScheduleRow \<Rightarrow> Schedule result" where
  "scheduleOf r = decodeSchedule (GMap (scheduleDoc r))"

lemma scheduleOf_row:
  "scheduleOf r = bindR (decodeContext (Some (ScContext r))) (\<lambda>ctx.
     Inr \<lparr>SdID = ScID r, SdCreatedAt = Some (ScCreatedAt r), SdCron = ScCron r, SdContext = ctx,
          SdSummary = ScSummary r, SdIntent = ScIntent r, SdConstraints = docOf (ScConstraints r),
          SdTrigger = ScTrigger r, SdEnabled = ScEnabled r, SdLastRun = ScLastRun r\<rparr>)"
  using decodeTime_showNat
  by (auto simp: scheduleOf_def decodeSchedule_def scheduleDoc_def jsonField_def anyField_def decodeBool_def
      simp del: decodeTime.simps(3) split: option.splits)

lemma RunOnceSchedules_ok:
  assumes "RunOnceSchedules cron now d = ((n, None), d')"
  obtains schs d1 where "mapR scheduleOf (pageDesc ScCreatedAt 200 0 (schedulesT (tables d))) = Inr schs"
    "tables d1 = tables d" "runSchedules cron now schs 0 d1 = ((n, None), d')"
proof -
  from assms obtain docs k d1 schs where l: "ListSchedules 200 0 d = (Inr (docs, k), d1)"
    and p: "mapR decodeSchedule docs = Inr schs" and r: "runSchedules cron now schs 0 d1 = ((n, None), d')"
    by (auto simp: RunOnceSchedules_def parseSchedules_def split: prod.splits sum.splits)
  from l have "docs = map (\<lambda>r. GMap (scheduleDoc r)) (pageDesc ScCreatedAt 200 0 (schedulesT (tables d)))"
    "tables d1 = tables d"
    by (auto simp: ListSchedules_def query_ok)
  with p r that show ?thesis by (simp add: mapR_map scheduleOf_def [abs_def])
qed

text \<open>The documented law of \<open>Next\<close>, for specifications that have a next activation.\<close>

definition cronAdvances :: "cronParser \<Rightarrow> bool" where
  "cronAdvances cron \<longleftrightarrow> (\<forall>spec nextOf t. cron spec = Inr nextOf \<longrightarrow> (\<exists>t'. nextOf (Some t) = Some t' \<and> t < t'))"

lemma mapR_set: "mapR f xs = Inr ys \<Longrightarrow> y \<in> set ys \<longleftrightarrow> (\<exists>x \<in> set xs. f x = Inr y)"
  by (induction xs arbitrary: ys) (auto simp: bindR_eq_Inr)

lemma second_round:
  assumes adv: "cronAdvances cron"
    and 1: "RunOnceSchedules cron now d = ((n, None), d1)"
    and 2: "RunOnceSchedules cron now d1 = ((m, None), d2)"
  shows "m = 0 \<and> plansT (tables d2) = plansT (tables d1)"
proof -
  let ?page = "pageDesc ScCreatedAt 200 0 (schedulesT (tables d))"
  obtain schs e1 where p1: "mapR scheduleOf ?page = Inr schs" and t1: "tables e1 = tables d"
    and r1: "runSchedules cron now schs 0 e1 = ((n, None), d1)"
    by (rule RunOnceSchedules_ok [OF 1])
  obtain schs' e2 where p2: "mapR scheduleOf (pageDesc ScCreatedAt 200 0 (schedulesT (tables d1))) = Inr schs'"
    and t2: "tables e2 = tables d1" and r2: "runSchedules cron now schs' 0 e2 = ((m, None), d2)"
    by (rule RunOnceSchedules_ok [OF 2])
  let ?ids = "SdID ` set (filter (dueSchedule cron now) schs)"
  have "schedulesT (tables d1) = map (markRun now ?ids) (schedulesT (tables d))"
    using runSchedules_ok [OF r1] t1 by simp
  then have page: "pageDesc ScCreatedAt 200 0 (schedulesT (tables d1)) = map (markRun now ?ids) ?page"
    by (simp add: pageDesc_map markRun_def)
  have "\<not> dueSchedule cron now sch" if sch: "sch \<in> set schs'" for sch
  proof -
    obtain r where r: "r \<in> set ?page" "scheduleOf (markRun now ?ids r) = Inr sch"
      using sch mapR_set [OF p2] unfolding page by auto
    show ?thesis
    proof (cases "ScID r \<in> ?ids")
      case True
      then have "lastOf sch = Some now"
        using r(2) by (auto simp: markRun_def scheduleOf_row bindR_eq_Inr lastOf_def)
      then show ?thesis
        using adv by (auto simp: cronAdvances_def dueSchedule_def isDue_def split: sum.splits) (metis option.case(2))
    next
      case False
      then have "scheduleOf r = Inr sch" using r(2) by (simp add: markRun_def)
      then have "sch \<in> set schs" "SdID sch = ScID r"
        using mapR_set [OF p1] r(1) by (auto simp: scheduleOf_row bindR_eq_Inr)
      show ?thesis
      proof
        assume "dueSchedule cron now sch"
        then have "SdID sch \<in> ?ids" using \<open>sch \<in> set schs\<close> by simp
        with False \<open>SdID sch = ScID r\<close> show False by simp
      qed
    qed
  qed
  then have "filter (dueSchedule cron now) schs' = []" by (simp add: filter_empty_conv)
  with runSchedules_ok [OF r2] t2 show ?thesis by auto
qed

text \<open>A specification that never comes again is due in every round.\<close>

lemma impossible_cron_due:
  "SdEnabled sch \<Longrightarrow> cron (TrimSpace (SdCron sch)) = Inr (\<lambda>_. None) \<Longrightarrow> dueSchedule cron now sch"
  by (simp add: dueSchedule_def isDue_def)

end
