(* ===== verification/Alert_Poller.thy ===== *)
theory Alert_Poller
  imports Event_Loop
begin

text \<open>
  \<open>internal/web/alerts.go\<close> and \<open>internal/db/alert_events.go\<close>: alerts fetched from Alertmanager are
  recorded by fingerprint and handed to the event loop, each fingerprint at most once per
  deduplication window. Times are nanoseconds; the map \<open>seen\<close> is an association list. The
  handler is the one \<open>cmd/gateway/main.go\<close> installs. \<open>apNow\<close> is the clock of \<open>shouldSkip\<close>.
\<close>

record Alert =
  AlFingerprint :: string
  AlStartsAt :: string
  AlStatus :: "gmap option"
  AlLabels :: "(string \<times> string) list option"

record AlertEventRow =
  AeID :: string
  AeStatus :: string
  AeStartedAt :: "int option"
  AeUpdatedAt :: int
  AePayload :: gval

type_synonym seenMap = "(string \<times> int) list"

section \<open>Deduplication\<close>

definition evictSeen :: "int \<Rightarrow> int \<Rightarrow> seenMap \<Rightarrow> seenMap" where
  "evictSeen window now seen =
    (if length seen > 1000 then filter (\<lambda>(_, ts). \<not> now - ts \<ge> window) seen else seen)"

definition putSeen :: "string \<Rightarrow> int \<Rightarrow> seenMap \<Rightarrow> seenMap" where
  "putSeen fp now seen = (fp, now) # filter (\<lambda>(k, _). k \<noteq> fp) seen"

definition shouldSkip :: "int \<Rightarrow> int \<Rightarrow> string \<Rightarrow> seenMap \<Rightarrow> bool \<times> seenMap" where
  "shouldSkip window now fp seen =
    (if window \<le> 0 then (False, seen)
     else if (case map_of seen fp of None \<Rightarrow> False | Some t \<Rightarrow> now - t < window) then (True, seen)
     else (False, evictSeen window now (putSeen fp now seen)))"

section \<open>Recording and handling\<close>

definition UpsertAlertEvent ::
  "int \<Rightarrow> string \<Rightarrow> string \<Rightarrow> int option \<Rightarrow> gval \<Rightarrow> AlertEventRow list \<Rightarrow> string result \<times> AlertEventRow list" where
  "UpsertAlertEvent now fingerprint0 status0 startedAt payload rows =
    (let fingerprint = TrimSpace fingerprint0; status = (if status0 = [] then ''firing'' else status0);
         startedAt = (case startedAt of None \<Rightarrow> Some now | Some t \<Rightarrow> Some t) in
     if fingerprint = [] then (Inl ''fingerprint required'', rows)
     else (Inr fingerprint,
       if fingerprint \<in> AeID ` set rows
       then map (\<lambda>r. if AeID r = fingerprint
                     then r\<lparr>AeStatus := status, AeUpdatedAt := now, AePayload := payload\<rparr> else r) rows
       else rows @ [\<lparr>AeID = fingerprint, AeStatus = status, AeStartedAt = startedAt, AeUpdatedAt = now,
                     AePayload = payload\<rparr>]))"

definition alertState :: "Alert \<Rightarrow> string" where
  "alertState a =
    (case AlStatus a of
       None \<Rightarrow> ''firing''
     | Some m \<Rightarrow> if gstr m ''state'' \<noteq> [] then gstr m ''state'' else ''firing'')"

definition alertPayload :: "Alert \<Rightarrow> string \<Rightarrow> gmap" where
  "alertPayload a fp =
     [(''alerts'', GList [GMap [(''fingerprint'', GStr fp), (''status'', GStr (alertState a)),
        (''startsAt'', GStr (AlStartsAt a)),
        (''labels'', case AlLabels a of None \<Rightarrow> GNil | Some m \<Rightarrow> GMap (map (\<lambda>(k, v). (k, GStr v)) m))]])]"

text \<open>The handler: gate, then event loop; its error is dropped by the poller.\<close>

definition alertHandler :: "Server \<Rightarrow> HookEnv \<Rightarrow> gmap \<Rightarrow> Gateway \<Rightarrow> Gateway" where
  "alertHandler s env payload g =
    (if \<not> shouldRunEventLoop s ''alertmanager'' then g
     else case heGate env of
       None \<Rightarrow> snd (runAlertEventLoop s env None ''alertmanager'' payload g)
     | Some gate \<Rightarrow>
        (let ((res, _), d) = Accept s env gate ''alertmanager'' payload (gwDB g); g' = g\<lparr>gwDB := d\<rparr> in
         case res of
           Inl _ \<Rightarrow> g'
         | Inr allowed \<Rightarrow>
             if allowed then snd (runAlertEventLoop s env None ''alertmanager'' payload g') else g'))"

record PollerState =
  psSeen :: seenMap
  psEvents :: "AlertEventRow list"
  psHandled :: "(int \<times> string) list"
  psGateway :: Gateway

record PollerEnv =
  apServer :: Server
  apHook :: HookEnv
  apWindow :: int
  apParseTime :: "string \<Rightarrow> int result"

text \<open>One alert of a poll. \<open>psHandled\<close> records when which fingerprint was handed on.\<close>

definition pollAlert :: "PollerEnv \<Rightarrow> int \<Rightarrow> Alert \<Rightarrow> PollerState \<Rightarrow> nat \<times> PollerState" where
  "pollAlert env now a st =
    (let fp = TrimSpace (AlFingerprint a) in
     if fp = [] then (0, st)
     else (let (skip, seen) = shouldSkip (apWindow env) now fp (psSeen st); st = st\<lparr>psSeen := seen\<rparr> in
       if skip then (0, st)
       else (let started = (if AlStartsAt a = [] then None
                            else case apParseTime env (AlStartsAt a) of Inl _ \<Rightarrow> None | Inr t \<Rightarrow> Some t);
                 payload = alertPayload a fp in
         (1, st\<lparr>psEvents := snd (UpsertAlertEvent now fp (alertState a) started (GMap payload) (psEvents st)),
                psHandled := psHandled st @ [(now, fp)],
                psGateway := alertHandler (apServer env) (apHook env) payload (psGateway st)\<rparr>))))"

fun pollAlerts :: "PollerEnv \<Rightarrow> (int \<times> Alert) list \<Rightarrow> PollerState \<Rightarrow> nat \<times> PollerState" where
  "pollAlerts env [] st = (0, st)"
| "pollAlerts env ((now, a) # rest) st =
    (let (n, st') = pollAlert env now a st; (m, st'') = pollAlerts env rest st' in (n + m, st''))"

fun decodeStrMap :: "gval option \<Rightarrow> (string \<times> string) list option result" where
  "decodeStrMap None = Inr None"
| "decodeStrMap (Some GNil) = Inr None"
| "decodeStrMap (Some (GMap m)) =
     bindR (mapR (\<lambda>(k, v). bindR (decodeStr (Some v)) (\<lambda>s. Inr (k, s))) m) (\<lambda>kvs. Inr (Some kvs))"
| "decodeStrMap (Some _) = Inl ''json: cannot unmarshal''"

definition decodeAlert :: "gval \<Rightarrow> Alert result" where
  "decodeAlert v =
     bindR (decodeObj v) (\<lambda>m.
     bindR (decodeStr (jsonField m ''fingerprint'')) (\<lambda>fp.
     bindR (decodeStr (jsonField m ''startsAt'')) (\<lambda>starts.
     bindR (case jsonField m ''status'' of
              None \<Rightarrow> Inr None
            | Some GNil \<Rightarrow> Inr None
            | Some x \<Rightarrow> bindR (decodeObj x) (\<lambda>st. Inr (Some st))) (\<lambda>status.
     bindR (decodeStrMap (jsonField m ''labels'')) (\<lambda>labels.
       Inr \<lparr>AlFingerprint = fp, AlStartsAt = starts, AlStatus = status, AlLabels = labels\<rparr>)))))"

fun decodeAlerts :: "gval \<Rightarrow> Alert list result" where
  "decodeAlerts GNil = Inr []"
| "decodeAlerts (GList vs) = mapR decodeAlert vs"
| "decodeAlerts _ = Inl ''json: cannot unmarshal''"

text \<open>
  \<open>RunOnce\<close>: \<open>answer\<close> is the output of the tool router for \<open>alertmanager\<close>/\<open>alerts_list\<close>, \<open>nowAt i\<close> the
  clock when the \<open>i\<close>-th alert is looked at.
\<close>

definition RunOnceAlerts ::
  "PollerEnv \<Rightarrow> (string \<Rightarrow> gval option) \<Rightarrow> string result \<Rightarrow> (nat \<Rightarrow> int) \<Rightarrow> (PollerState, nat) op" where
  "RunOnceAlerts env unm answer nowAt st =
    (case answer of
       Inl e \<Rightarrow> (Inl e, st)
     | Inr out \<Rightarrow>
        (case unm out of
           None \<Rightarrow> (Inl ''json: invalid'', st)
         | Some doc \<Rightarrow>
            (case decodeAlerts doc of
               Inl e \<Rightarrow> (Inl e, st)
             | Inr as \<Rightarrow>
                (let (n, st') = pollAlerts env (zip (map nowAt [0..<length as]) as) st in (Inr n, st')))))"

section \<open>Eviction does not show\<close>

text \<open>The same poller without the eviction of old entries.\<close>

definition skipSpec :: "int \<Rightarrow> int \<Rightarrow> string \<Rightarrow> seenMap \<Rightarrow> bool \<times> seenMap" where
  "skipSpec window now fp seen =
    (if window \<le> 0 then (False, seen)
     else if (case map_of seen fp of None \<Rightarrow> False | Some t \<Rightarrow> now - t < window) then (True, seen)
     else (False, putSeen fp now seen))"

fun runSkips :: "(int \<Rightarrow> string \<Rightarrow> seenMap \<Rightarrow> bool \<times> seenMap) \<Rightarrow> (int \<times> string) list \<Rightarrow> seenMap \<Rightarrow> bool list" where
  "runSkips f [] seen = []"
| "runSkips f ((now, fp) # qs) seen = (let (b, seen') = f now fp seen in b # runSkips f qs seen')"

text \<open>Two maps that agree on the entries younger than the window, and an entry missing in one is old.\<close>

definition agreeAt :: "int \<Rightarrow> int \<Rightarrow> seenMap \<Rightarrow> seenMap \<Rightarrow> bool" where
  "agreeAt window now a b \<longleftrightarrow>
     (\<forall>k. (\<exists>t. map_of a k = Some t \<and> now - t < window) \<longleftrightarrow> (\<exists>t. map_of b k = Some t \<and> now - t < window)) \<and>
     (\<forall>k t u. map_of a k = Some t \<longrightarrow> map_of b k = Some u \<longrightarrow> t = u)"

lemma map_of_putSeen: "map_of (putSeen fp now seen) k = (if k = fp then Some now else map_of seen k)"
proof -
  have "map_of (filter (\<lambda>(k, _). k \<noteq> fp) seen) k = (if k = fp then None else map_of seen k)"
    by (induction seen) auto
  then show ?thesis by (simp add: putSeen_def)
qed

lemma map_of_filter_val:
  "distinct (map fst m) \<Longrightarrow>
   map_of (filter (\<lambda>(_, v). P v) m) k = (case map_of m k of None \<Rightarrow> None | Some v \<Rightarrow> if P v then Some v else None)"
proof (induction m)
  case (Cons kv m)
  then show ?case by (cases kv) (auto simp: map_of_eq_None_iff image_iff split: option.splits)
qed simp

lemma map_of_evictSeen:
  assumes "distinct (map fst m)"
  shows "map_of (evictSeen window now m) k =
    (case map_of m k of None \<Rightarrow> None | Some t \<Rightarrow> if length m > 1000 \<and> now - t \<ge> window then None else Some t)"
  unfolding evictSeen_def using map_of_filter_val [OF assms, of "\<lambda>ts. \<not> now - ts \<ge> window" k]
  by (auto split: option.splits)

lemma putSeen_distinct: "distinct (map fst m) \<Longrightarrow> distinct (map fst (putSeen k t m))"
  by (auto simp: putSeen_def distinct_map_filter)

lemma evictSeen_distinct: "distinct (map fst m) \<Longrightarrow> distinct (map fst (evictSeen w t m))"
  by (simp add: evictSeen_def distinct_map_filter)

lemma agreeAt_later: "agreeAt w now a b \<Longrightarrow> now \<le> now' \<Longrightarrow> agreeAt w now' a b"
  unfolding agreeAt_def by (smt (verit))

lemma skip_agree:
  assumes "agreeAt w now a b" "distinct (map fst a)"
  shows "fst (shouldSkip w now fp a) = fst (skipSpec w now fp b)"
    and "agreeAt w now (snd (shouldSkip w now fp a)) (snd (skipSpec w now fp b))"
    and "distinct (map fst (snd (shouldSkip w now fp a)))"
proof -
  have q: "(case map_of a fp of None \<Rightarrow> False | Some t \<Rightarrow> now - t < w) \<longleftrightarrow>
      (case map_of b fp of None \<Rightarrow> False | Some t \<Rightarrow> now - t < w)"
    using assms(1) by (auto simp: agreeAt_def split: option.splits) (metis not_None_eq option.sel)+
  show "fst (shouldSkip w now fp a) = fst (skipSpec w now fp b)"
    using q by (simp add: shouldSkip_def skipSpec_def)
  show "distinct (map fst (snd (shouldSkip w now fp a)))"
    using assms(2) by (simp add: shouldSkip_def putSeen_distinct evictSeen_distinct)
  have d: "distinct (map fst (putSeen fp now a))" using assms(2) by (rule putSeen_distinct)
  have "agreeAt w now (evictSeen w now (putSeen fp now a)) (putSeen fp now b)" if "0 < w"
    using assms(1) that unfolding agreeAt_def map_of_evictSeen [OF d] map_of_putSeen
    by (auto split: option.splits if_splits) (metis option.distinct(1), metis linorder_not_le)
  with q assms(1) show "agreeAt w now (snd (shouldSkip w now fp a)) (snd (skipSpec w now fp b))"
    by (simp add: shouldSkip_def skipSpec_def)
qed

lemma runSkips_agree:
  assumes "sorted (map fst qs)" "agreeAt w now a b" "distinct (map fst a)" "\<forall>q \<in> set qs. now \<le> fst q"
  shows "runSkips (shouldSkip w) qs a = runSkips (skipSpec w) qs b"
  using assms
proof (induction qs arbitrary: now a b)
  case (Cons q qs)
  obtain t fp where q: "q = (t, fp)" by (cases q)
  have ag: "agreeAt w t a b" using Cons.prems q agreeAt_later by simp
  note s = skip_agree [OF ag Cons.prems(3), of fp]
  have "runSkips (shouldSkip w) qs (snd (shouldSkip w t fp a)) = runSkips (skipSpec w) qs (snd (skipSpec w t fp b))"
    using Cons.prems q s by (intro Cons.IH [of t]) auto
  then show ?case using s(1) by (simp add: q split_beta)
qed simp

section \<open>At most once per window\<close>

text \<open>What was handled is remembered, or older than the window.\<close>

definition pollInv :: "int \<Rightarrow> int \<Rightarrow> PollerState \<Rightarrow> bool" where
  "pollInv w now st \<longleftrightarrow> distinct (map fst (psSeen st)) \<and>
     (\<forall>(t, fp) \<in> set (psHandled st). (\<exists>u. map_of (psSeen st) fp = Some u \<and> t \<le> u) \<or> w \<le> now - t) \<and>
     sorted_wrt (\<lambda>(t, fp) (u, fq). fp = fq \<longrightarrow> w \<le> u - t) (psHandled st)"

lemma pollInv_later: "pollInv w now st \<Longrightarrow> now \<le> now' \<Longrightarrow> pollInv w now' st"
  unfolding pollInv_def by fastforce

lemma shouldSkip_remembers:
  assumes "0 < w" "distinct (map fst seen)"
    and "(\<exists>u. map_of seen fp = Some u \<and> t \<le> u) \<or> w \<le> now - t" "t \<le> now"
  shows "(\<exists>u. map_of (snd (shouldSkip w now fq seen)) fp = Some u \<and> t \<le> u) \<or> w \<le> now - t"
proof -
  have d: "distinct (map fst (putSeen fq now seen))" using assms(2) by (rule putSeen_distinct)
  show ?thesis
    using assms unfolding shouldSkip_def
    by (auto simp: map_of_evictSeen [OF d] map_of_putSeen simp del: map_of_eq_Some_iff split: option.splits)
qed

lemma pollInv_step:
  assumes "0 < apWindow env" "pollInv (apWindow env) now st" "\<forall>(t, _) \<in> set (psHandled st). t \<le> now"
  shows "pollInv (apWindow env) now (snd (pollAlert env now a st))"
    and "\<forall>(t, _) \<in> set (psHandled (snd (pollAlert env now a st))). t \<le> now"
proof -
  let ?w = "apWindow env"
  let ?fp = "TrimSpace (AlFingerprint a)"
  obtain skip seen where sk: "shouldSkip ?w now ?fp (psSeen st) = (skip, seen)" by fastforce
  have d: "distinct (map fst seen)"
    using assms(2) sk skip_agree(3) [of ?w now "psSeen st" "psSeen st" ?fp]
    by (auto simp: pollInv_def agreeAt_def)
  have rem: "(\<exists>u. map_of seen fp = Some u \<and> t \<le> u) \<or> ?w \<le> now - t" if "(t, fp) \<in> set (psHandled st)" for t fp
    using shouldSkip_remembers [of ?w "psSeen st" fp t now ?fp] assms that sk by (fastforce simp: pollInv_def)
  have new: "?w \<le> now - t" if "\<not> skip" "(t, ?fp) \<in> set (psHandled st)" for t
  proof -
    have "(\<exists>u. map_of (psSeen st) ?fp = Some u \<and> t \<le> u) \<or> ?w \<le> now - t"
      using assms(2) that(2) unfolding pollInv_def by fastforce
    moreover have "\<not> now - u < ?w" if "map_of (psSeen st) ?fp = Some u" for u
      using sk \<open>\<not> skip\<close> that assms(1) by (auto simp: shouldSkip_def simp del: map_of_eq_Some_iff split: if_splits)
    ultimately show ?thesis by fastforce
  qed
  have now: "map_of seen ?fp = Some now" if "\<not> skip"
    using that sk assms
    by (auto simp: shouldSkip_def pollInv_def map_of_evictSeen [OF putSeen_distinct] map_of_putSeen
        simp del: map_of_eq_Some_iff split: if_splits)
  show "pollInv ?w now (snd (pollAlert env now a st))"
    using assms(2) d rem new now
    by (auto simp: pollAlert_def sk Let_def pollInv_def sorted_wrt_append simp del: map_of_eq_Some_iff)
  show "\<forall>(t, _) \<in> set (psHandled (snd (pollAlert env now a st))). t \<le> now"
    using assms(3) by (auto simp: pollAlert_def sk Let_def)
qed

lemma pollAlerts_once:
  assumes "0 < apWindow env" "pollInv (apWindow env) now st" "\<forall>(t, _) \<in> set (psHandled st). t \<le> now"
    and "sorted (now # map fst qs)"
  shows "sorted_wrt (\<lambda>(t, fp) (u, fq). fp = fq \<longrightarrow> apWindow env \<le> u - t) (psHandled (snd (pollAlerts env qs st)))"
  using assms(2-)
proof (induction qs arbitrary: now st)
  case (Cons q qs)
  obtain t a where q: "q = (t, a)" by (cases q)
  have le: "now \<le> t" using Cons.prems q by simp
  have inv: "pollInv (apWindow env) t st" "\<forall>(u, _) \<in> set (psHandled st). u \<le> t"
    using pollInv_later [OF Cons.prems(1) le] Cons.prems(2) le by fastforce+
  from Cons.IH [OF pollInv_step [OF assms(1) inv, of a]] Cons.prems q show ?case
    by (simp add: split_beta)
qed (simp add: pollInv_def)

end
