(* ===== verification/Approval_Watcher.thy ===== *)
theory Approval_Watcher
  imports Store
begin

text \<open>
  \<open>internal/approvals\<close>: the client of the issue tracker (\<open>linear.go\<close>) and the watcher that copies
  the labels of its issues to the approvals of the plans (\<open>watcher.go\<close>). The tracker's GraphQL
  endpoint is the parameter \<open>lnPost\<close>: the status and body it answers to the n-th request.
  \<open>createdAt\<close> of an issue is its time in nanoseconds.
\<close>

section \<open>Labels and plan identifiers\<close>

definition labelPending :: string where "labelPending = ''approval:pending''"
definition labelApproved :: string where "labelApproved = ''approval:approved''"
definition labelDenied :: string where "labelDenied = ''approval:denied''"
definition labelExpired :: string where "labelExpired = ''approval:expired''"

definition labelForStatus :: "string \<Rightarrow> string option" where
  "labelForStatus status =
    (if status = ''pending'' then Some labelPending
     else if status = ''approved'' then Some labelApproved
     else if status = ''denied'' then Some labelDenied
     else if status = ''expired'' then Some labelExpired
     else None)"

fun hasLabel :: "string list \<Rightarrow> string \<Rightarrow> bool" where
  "hasLabel [] target = False"
| "hasLabel (l # ls) target = (if l = target then True else hasLabel ls target)"

definition issueStatus :: "string list \<Rightarrow> string" where
  "issueStatus labels =
    (if hasLabel labels labelApproved then ''approved''
     else if hasLabel labels labelDenied then ''denied''
     else if hasLabel labels labelExpired then ''expired''
     else if hasLabel labels labelPending then ''pending''
     else [])"

definition extractPlanID :: "string \<Rightarrow> string option" where
  "extractPlanID input =
    (case strIndex input ''plan_'' of
       None \<Rightarrow> None
     | Some idx \<Rightarrow>
        (let digits = takeWhile isDigit (drop (idx + 5) input) in
         if digits = [] then None else Some (''plan_'' @ digits)))"

record Issue =
  IsID :: string
  IsTitle :: string
  IsDescription :: string
  IsLabels :: "string list"
  IsCreatedAt :: int

section \<open>The client\<close>

record LinearEnv =
  lnToken :: string
  lnTeam :: string
  lnPost :: "nat \<Rightarrow> string \<Rightarrow> gval \<Rightarrow> (nat \<times> string) result"
  lnUnmarshal :: "string \<Rightarrow> gval option"
  lnParseTime :: "string \<Rightarrow> int result"
  lnZero :: int

record Linear =
  lnCache :: "(string \<times> string) list"
  lnRequests :: "(string \<times> gval) list"

text \<open>Decoding nested structs: a member that is an object, a slice or a string.\<close>

definition sub :: "string \<Rightarrow> gval \<Rightarrow> gval result" where
  "sub k v = bindR (decodeObj v) (\<lambda>m. Inr (case jsonField m k of None \<Rightarrow> GNil | Some x \<Rightarrow> x))"

definition subStr :: "string \<Rightarrow> gval \<Rightarrow> string result" where
  "subStr k v = bindR (decodeObj v) (\<lambda>m. decodeStr (jsonField m k))"

definition subList :: "string \<Rightarrow> gval \<Rightarrow> gval list result" where
  "subList k v = bindR (sub k v) (\<lambda>x. case x of
     GNil \<Rightarrow> Inr [] | GList xs \<Rightarrow> Inr xs | _ \<Rightarrow> Inl ''json: cannot unmarshal'')"

text \<open>The \<open>data\<close> of the answer, \<open>None\<close> when the answer has none.\<close>

definition doGraphQL :: "LinearEnv \<Rightarrow> string \<Rightarrow> gval \<Rightarrow> (Linear, gval option) op" where
  "doGraphQL env q vars st =
    (if lnToken env = [] then (Inl ''linear token required'', st)
     else (let st' = st\<lparr>lnRequests := lnRequests st @ [(q, vars)]\<rparr> in
       case lnPost env (length (lnRequests st)) q vars of
         Inl e \<Rightarrow> (Inl e, st')
       | Inr (status, body) \<Rightarrow>
           if status < 200 \<or> status \<ge> 300
           then (Inl (''linear status '' @ showNat status @ '': '' @ TrimSpace body), st')
           else (bindR (case lnUnmarshal env body of None \<Rightarrow> Inl ''json: invalid'' | Some v \<Rightarrow> Inr v) (\<lambda>v.
                 bindR (decodeObj v) (\<lambda>m.
                 bindR (subList ''errors'' v) (\<lambda>es.
                 bindR (mapR (subStr ''message'') es) (\<lambda>msgs.
                   case msgs of
                     msg # _ \<Rightarrow> Inl (''linear error: '' @ msg)
                   | [] \<Rightarrow> Inr (jsonField m ''data''))))), st')))"

text \<open>\<open>json.Unmarshal(envelope.Data, out)\<close>: without data there is nothing to parse.\<close>

definition dataOf :: "gval option \<Rightarrow> gval result" where
  "dataOf d = (case d of None \<Rightarrow> Inl ''unexpected end of JSON input'' | Some v \<Rightarrow> Inr v)"

definition qLabels :: string where
  "qLabels = ''query($name: String!) { issueLabels(filter: { name: { eq: $name } }) { nodes { id name } } }''"

definition qCreate :: string where
  "qCreate = ''mutation($input: IssueCreateInput!) { issueCreate(input: $input) { issue { id } } }''"

definition qUpdate :: string where
  "qUpdate = ''mutation($input: IssueUpdateInput!) { issueUpdate(input: $input) { success } }''"

definition qList :: string where
  "qList = ''query($labels: [String!]!) { issues(first: 100, filter: { labels: { name: { in: $labels } } }) { nodes { id title description createdAt labels { nodes { name } } } } }''"

definition labelID :: "LinearEnv \<Rightarrow> string \<Rightarrow> (Linear, string) op" where
  "labelID env name st =
    (if name = [] then (Inl ''label name required'', st)
     else case map_of (lnCache st) name of
       Some i \<Rightarrow> (Inr i, st)
     | None \<Rightarrow>
        (case doGraphQL env qLabels (GMap [(''name'', GStr name)]) st of
           (Inl e, st') \<Rightarrow> (Inl e, st')
         | (Inr dat, st') \<Rightarrow>
            (case bindR (dataOf dat) (\<lambda>v. bindR (sub ''issueLabels'' v) (\<lambda>l. bindR (subList ''nodes'' l)
                    (mapR (subStr ''id'')))) of
               Inl e \<Rightarrow> (Inl e, st')
             | Inr [] \<Rightarrow> (Inl (''label not found: '' @ name), st')
             | Inr (i # _) \<Rightarrow>
                 if i = [] then (Inl ''label id missing'', st')
                 else (Inr i, st'\<lparr>lnCache := (name, i) # lnCache st'\<rparr>))))"

definition newline :: char where "newline = CHR 0x0A"

definition issueTitle :: "string \<Rightarrow> string" where
  "issueTitle planID = ''Approval required: '' @ planID"

definition issueDescription :: "string \<Rightarrow> string" where
  "issueDescription planID =
     ''Approval required for plan.'' @ [newline, newline] @ ''Plan ID: '' @ planID @ [newline]"

definition CreateApprovalIssue :: "LinearEnv \<Rightarrow> string \<Rightarrow> (Linear, string) op" where
  "CreateApprovalIssue env planID =
    (if planID = [] then failS ''plan id required''
     else if lnTeam env = [] then failS ''linear team id required''
     else bindS (labelID env labelPending) (\<lambda>l.
          bindS (doGraphQL env qCreate (GMap [(''input'', GMap [(''teamId'', GStr (lnTeam env)),
             (''title'', GStr (issueTitle planID)), (''description'', GStr (issueDescription planID)),
             (''labelIds'', GStrs [l])])])) (\<lambda>dat.
          bindS (tryS (bindR (dataOf dat) (\<lambda>v. bindR (sub ''issueCreate'' v) (\<lambda>c.
                   bindR (sub ''issue'' c) (subStr ''id''))))) (\<lambda>i.
          if i = [] then failS ''missing issue id'' else okS i))))"

definition UpdateIssueStatus :: "LinearEnv \<Rightarrow> string \<Rightarrow> string \<Rightarrow> (Linear, unit) op" where
  "UpdateIssueStatus env issueID status =
    (if issueID = [] then failS ''issue id required''
     else case labelForStatus status of
       None \<Rightarrow> failS (''unknown status: '' @ status)
     | Some label \<Rightarrow>
         bindS (labelID env label) (\<lambda>l.
         bindS (doGraphQL env qUpdate (GMap [(''input'', GMap [(''id'', GStr issueID), (''labelIds'', GStrs [l])])]))
           (\<lambda>_. okS ())))"

text \<open>A missing time is Go's zero time, \<open>lnZero\<close> on the scale of nanoseconds.\<close>

definition decodeCreated :: "LinearEnv \<Rightarrow> gval option \<Rightarrow> int result" where
  "decodeCreated env v =
    (case v of
       None \<Rightarrow> Inr (lnZero env)
     | Some GNil \<Rightarrow> Inr (lnZero env)
     | Some (GStr s) \<Rightarrow> lnParseTime env s
     | _ \<Rightarrow> Inl ''parsing time'')"

definition decodeIssue :: "LinearEnv \<Rightarrow> gval \<Rightarrow> Issue result" where
  "decodeIssue env v =
     bindR (decodeObj v) (\<lambda>m.
     bindR (decodeStr (jsonField m ''id'')) (\<lambda>i.
     bindR (decodeStr (jsonField m ''title'')) (\<lambda>title.
     bindR (decodeStr (jsonField m ''description'')) (\<lambda>desc.
     bindR (decodeCreated env (jsonField m ''createdAt'')) (\<lambda>t.
     bindR (bindR (sub ''labels'' v) (\<lambda>l. bindR (subList ''nodes'' l) (mapR (subStr ''name'')))) (\<lambda>labels.
       Inr \<lparr>IsID = i, IsTitle = title, IsDescription = desc, IsLabels = labels, IsCreatedAt = t\<rparr>))))))"

definition ListApprovalIssues :: "LinearEnv \<Rightarrow> (Linear, Issue list) op" where
  "ListApprovalIssues env =
     bindS (doGraphQL env qList (GMap [(''labels'', GStrs [labelPending, labelApproved, labelDenied, labelExpired])]))
       (\<lambda>dat. tryS (bindR (dataOf dat) (\<lambda>v. bindR (sub ''issues'' v) (\<lambda>i. bindR (subList ''nodes'' i)
          (mapR (decodeIssue env))))))"

section \<open>The watcher\<close>

record Watcher =
  waLinear :: Linear
  waDB :: DB
  waLast :: "(string \<times> string) list"

definition onLinear :: "(Linear, 'a) op \<Rightarrow> (Watcher, 'a) op" where
  "onLinear m w = (let (r, l) = m (waLinear w) in (r, w\<lparr>waLinear := l\<rparr>))"

definition onWaDB :: "(DB, 'a) op \<Rightarrow> (Watcher, 'a) op" where
  "onWaDB m w = (let (r, d) = m (waDB w) in (r, w\<lparr>waDB := d\<rparr>))"

definition planOfIssue :: "Issue \<Rightarrow> string option" where
  "planOfIssue issue =
    (case extractPlanID (IsDescription issue) of
       Some p \<Rightarrow> Some p | None \<Rightarrow> extractPlanID (IsTitle issue))"

definition setLast :: "string \<Rightarrow> string \<Rightarrow> (Watcher, unit) op" where
  "setLast i status w = (Inr (), w\<lparr>waLast := (i, status) # waLast w\<rparr>)"

text \<open>A pending issue older than the timeout is relabelled first.\<close>

definition expireH :: "LinearEnv \<Rightarrow> int \<Rightarrow> int \<Rightarrow> Issue \<Rightarrow> string \<Rightarrow> (Watcher, string) op" where
  "expireH env timeout now issue status =
    (if status = ''pending'' \<and> IsCreatedAt issue < now - timeout
     then bindS (onLinear (UpdateIssueStatus env (IsID issue) ''expired'')) (\<lambda>_. okS ''expired'')
     else okS status)"

definition recordStatus :: "string \<Rightarrow> string \<Rightarrow> string \<Rightarrow> (Watcher, unit) op" where
  "recordStatus planID issueID status w =
    (if status = ''pending'' \<or> map_of (waLast w) issueID = Some status then (Inr (), w)
     else bindS (onWaDB (UpdateApprovalStatusByPlan planID status)) (\<lambda>_. setLast issueID status) w)"

definition syncIssue :: "LinearEnv \<Rightarrow> int \<Rightarrow> int \<Rightarrow> Issue \<Rightarrow> (Watcher, unit) op" where
  "syncIssue env timeout now issue =
    (let status0 = issueStatus (IsLabels issue) in
     if status0 = [] then okS ()
     else case planOfIssue issue of
       None \<Rightarrow> okS ()
     | Some planID \<Rightarrow>
         bindS (expireH env timeout now issue status0) (\<lambda>status. recordStatus planID (IsID issue) status))"

fun syncIssues :: "LinearEnv \<Rightarrow> int \<Rightarrow> int \<Rightarrow> Issue list \<Rightarrow> (Watcher, unit) op" where
  "syncIssues env timeout now [] = okS ()"
| "syncIssues env timeout now (i # is) = bindS (syncIssue env timeout now i) (\<lambda>_. syncIssues env timeout now is)"

definition syncOnce :: "LinearEnv \<Rightarrow> int \<Rightarrow> int \<Rightarrow> (Watcher, unit) op" where
  "syncOnce env timeout now =
     bindS (onLinear (ListApprovalIssues env)) (\<lambda>issues. syncIssues env timeout now issues)"

section \<open>An issue names its plan\<close>

lemma takeWhile_digits: "takeWhile isDigit (showNat n @ c # cs) = showNat n" if "\<not> isDigit c"
  using showNat_digits [of n] that by (simp add: list_all_iff takeWhile_append)

lemma extractPlanID_description: "extractPlanID (issueDescription (''plan_'' @ showNat n)) = Some (''plan_'' @ showNat n)"
  using takeWhile_digits [of newline n "[]"]
  by (simp add: extractPlanID_def issueDescription_def newline_def isDigit_def)

section \<open>Nothing is approved that no issue approves\<close>

lemma hasLabel_iff: "hasLabel ls t \<longleftrightarrow> t \<in> set ls"
  by (induction ls) auto

text \<open>Every approval in state \<open>approved\<close> was so before, or an issue with that label names its plan.\<close>

definition approvedBy :: "Issue list \<Rightarrow> ApprovalRow list \<Rightarrow> ApprovalRow list \<Rightarrow> bool" where
  "approvedBy issues before after \<longleftrightarrow>
     (\<forall>a \<in> set after. ArStatus a = ''approved'' \<longrightarrow>
        (\<exists>a' \<in> set before. ArID a' = ArID a \<and> ArPlan a' = ArPlan a \<and> ArStatus a' = ''approved'') \<or>
        (\<exists>i \<in> set issues. labelApproved \<in> set (IsLabels i) \<and> planOfIssue i = Some (ArPlan a)))"

abbreviation waApprovals :: "Watcher \<Rightarrow> ApprovalRow list" where
  "waApprovals w \<equiv> approvalsT (tables (waDB w))"

lemma issueStatus_approved: "issueStatus ls = ''approved'' \<longleftrightarrow> labelApproved \<in> set ls"
  by (auto simp: issueStatus_def hasLabel_iff)

lemma UpdateByPlan_approvals:
  "approvalsT (tables (snd (UpdateApprovalStatusByPlan p st d))) =
     approvalsT (tables d) \<or>
   approvalsT (tables (snd (UpdateApprovalStatusByPlan p st d))) =
     map (\<lambda>r. if ArPlan r = p then r\<lparr>ArStatus := st\<rparr> else r) (approvalsT (tables d))"
  by (auto simp: UpdateApprovalStatusByPlan_def execute_def updateApprovals_def Let_def split: option.splits)

lemma recordStatus_approvals:
  "waApprovals (snd (recordStatus p i st w)) = waApprovals w \<or>
   waApprovals (snd (recordStatus p i st w)) = map (\<lambda>r. if ArPlan r = p then r\<lparr>ArStatus := st\<rparr> else r) (waApprovals w)"
proof -
  obtain r d where u: "UpdateApprovalStatusByPlan p st (waDB w) = (r, d)" by fastforce
  from UpdateByPlan_approvals [of p st "waDB w"] show ?thesis
    by (cases r) (auto simp: recordStatus_def bindS_def onWaDB_def setLast_def u)
qed

lemma expireH_result:
  assumes "expireH env timeout now i st w = (x, w')"
  shows "waDB w' = waDB w" "x = Inr st' \<Longrightarrow> st' = st \<or> st' = ''expired''"
  using assms
  by (auto simp: expireH_def bindS_def okS_def onLinear_def split: if_splits prod.splits sum.splits)

lemma syncIssue_approvals:
  "waApprovals (snd (syncIssue env timeout now i w)) = waApprovals w \<or>
   (\<exists>p st. planOfIssue i = Some p \<and> (st = issueStatus (IsLabels i) \<or> st = ''expired'') \<and>
     waApprovals (snd (syncIssue env timeout now i w)) =
       map (\<lambda>r. if ArPlan r = p then r\<lparr>ArStatus := st\<rparr> else r) (waApprovals w))"
proof (cases "issueStatus (IsLabels i) = [] \<or> planOfIssue i = None")
  case True
  then show ?thesis by (auto simp: syncIssue_def okS_def Let_def split: option.splits)
next
  case False
  then obtain p where p: "planOfIssue i = Some p" by auto
  obtain x w' where e: "expireH env timeout now i (issueStatus (IsLabels i)) w = (x, w')" by fastforce
  note r = expireH_result [OF e]
  show ?thesis
  proof (cases x)
    case (Inl err)
    with False p e r(1) show ?thesis by (simp add: syncIssue_def bindS_def)
  next
    case (Inr st)
    with r False p e recordStatus_approvals [of p "IsID i" st w'] show ?thesis
      by (auto simp: syncIssue_def bindS_def)
  qed
qed

lemma syncIssues_approved:
  assumes "approvedBy (done @ is) before (waApprovals w)"
  shows "approvedBy (done @ is) before (waApprovals (snd (syncIssues env timeout now is w)))"
  using assms
proof (induction "is" arbitrary: "done" w)
  case Nil
  then show ?case by (simp add: okS_def)
next
  case (Cons i "is")
  let ?w = "snd (syncIssue env timeout now i w)"
  have step: "approvedBy (done @ i # is) before (waApprovals ?w)"
    using syncIssue_approvals [of env timeout now i w] Cons.prems issueStatus_approved
    by (auto simp: approvedBy_def split: if_splits) metis+
  have "approvedBy ((done @ [i]) @ is) before (waApprovals (snd (syncIssues env timeout now is ?w)))"
    using step by (intro Cons.IH) simp
  with step show ?case by (auto simp: bindS_def split: prod.splits sum.splits)
qed

lemma onLinear_db: "waDB (snd (onLinear m w)) = waDB w"
  by (simp add: onLinear_def split: prod.splits)

lemma syncOnce_approved:
  "\<exists>issues. (\<forall>r l. ListApprovalIssues env (waLinear w) = (Inr r, l) \<longrightarrow> issues = r) \<and>
     approvedBy issues (waApprovals w) (waApprovals (snd (syncOnce env timeout now w)))"
proof -
  obtain x l where list: "ListApprovalIssues env (waLinear w) = (x, l)" by fastforce
  have start: "approvedBy ([] @ is) (waApprovals w) (waApprovals (w\<lparr>waLinear := l\<rparr>))" for "is"
    by (auto simp: approvedBy_def)
  show ?thesis
    using start syncIssues_approved [OF start]
    by (cases x) (auto simp: syncOnce_def bindS_def onLinear_def list)
qed

section \<open>A decision is copied\<close>

definition rowsOf :: "string \<Rightarrow> Watcher \<Rightarrow> ApprovalRow list" where
  "rowsOf p w = filter (\<lambda>a. ArPlan a = p) (waApprovals w)"

lemma filter_map_other:
  "p \<noteq> q \<Longrightarrow> filter (\<lambda>a. ArPlan a = p) (map (\<lambda>r. if ArPlan r = q then r\<lparr>ArStatus := st\<rparr> else r) rs) =
   filter (\<lambda>a. ArPlan a = p) rs"
  by (induction rs) auto

lemma syncIssue_other: "planOfIssue i \<noteq> Some p \<Longrightarrow> rowsOf p (snd (syncIssue env timeout now i w)) = rowsOf p w"
  using syncIssue_approvals [of env timeout now i w] by (auto simp: rowsOf_def filter_map_other)

lemma syncIssues_other:
  "\<forall>i \<in> set is. planOfIssue i \<noteq> Some p \<Longrightarrow> rowsOf p (snd (syncIssues env timeout now is w)) = rowsOf p w"
proof (induction "is" arbitrary: w)
  case (Cons i "is")
  have "rowsOf p (snd (syncIssue env timeout now i w)) = rowsOf p w" using Cons.prems by (simp add: syncIssue_other)
  with Cons show ?case by (auto simp: bindS_def split: prod.splits sum.splits)
qed (simp add: okS_def)

lemma expireH_last: "waLast (snd (expireH env timeout now j st w)) = waLast w"
  by (auto simp: expireH_def bindS_def okS_def onLinear_def split: if_splits prod.splits sum.splits)

lemma recordStatus_last: "i \<noteq> j \<Longrightarrow> map_of (waLast (snd (recordStatus p j st w))) i = map_of (waLast w) i"
  by (auto simp: recordStatus_def bindS_def onWaDB_def setLast_def split: prod.splits sum.splits)

lemma syncIssue_last: "i \<noteq> IsID j \<Longrightarrow> map_of (waLast (snd (syncIssue env timeout now j w))) i = map_of (waLast w) i"
  using expireH_last [of env timeout now j "issueStatus (IsLabels j)" w] recordStatus_last
  by (auto simp: syncIssue_def Let_def okS_def bindS_def split: option.splits prod.splits sum.splits)

lemma syncIssues_last:
  "\<forall>j \<in> set is. IsID j \<noteq> i \<Longrightarrow> map_of (waLast (snd (syncIssues env timeout now is w))) i = map_of (waLast w) i"
proof (induction "is" arbitrary: w)
  case (Cons j "is")
  have "map_of (waLast (snd (syncIssue env timeout now j w))) i = map_of (waLast w) i"
    using Cons.prems by (intro syncIssue_last) auto
  with Cons show ?case by (auto simp: bindS_def split: prod.splits sum.splits)
qed (simp add: okS_def)

lemma update_at_key:
  assumes "\<And>r. val (f r) = v" "x \<in> set (map (\<lambda>r. if key r = k then f r else r) rs)" "key x = k"
  shows "val x = v"
  using assms by auto

lemma recordStatus_decided:
  assumes "st \<noteq> ''pending''" "map_of (waLast w) i \<noteq> Some st" "recordStatus p i st w = (Inr (), w')"
  shows "\<forall>a \<in> set (rowsOf p w'). ArStatus a = st"
proof -
  from assms obtain d where d: "UpdateApprovalStatusByPlan p st (waDB w) = (Inr (), d)"
    "waApprovals w' = approvalsT (tables d)"
    by (auto simp: recordStatus_def bindS_def onWaDB_def setLast_def split: prod.splits sum.splits)
  then have eq: "waApprovals w' = map (\<lambda>r. if ArPlan r = p then r\<lparr>ArStatus := st\<rparr> else r) (waApprovals w)"
    unfolding UpdateApprovalStatusByPlan_def execute_ok by (auto simp: updateApprovals_def)
  have "ArStatus a = st" if "a \<in> set (waApprovals w')" "ArPlan a = p" for a
    using update_at_key [where val = ArStatus, OF _ that [unfolded eq]] by simp
  then show ?thesis unfolding rowsOf_def set_filter by blast
qed

lemma syncIssue_decided:
  assumes "planOfIssue i = Some p" "issueStatus (IsLabels i) = st" "st \<noteq> []" "st \<noteq> ''pending''"
    and "map_of (waLast w) (IsID i) \<noteq> Some st" "syncIssue env timeout now i w = (Inr (), w')"
  shows "\<forall>a \<in> set (rowsOf p w'). ArStatus a = st"
proof -
  have "expireH env timeout now i st w = (Inr st, w)" using assms(4) by (simp add: expireH_def okS_def)
  with assms have "recordStatus p (IsID i) st w = (Inr (), w')" by (simp add: syncIssue_def bindS_def)
  with recordStatus_decided assms show ?thesis by blast
qed

lemma syncIssues_append:
  "syncIssues env timeout now (is @ js) = bindS (syncIssues env timeout now is) (\<lambda>_. syncIssues env timeout now js)"
  by (induction "is") (auto simp: fun_eq_iff bindS_def okS_def split: prod.splits sum.splits)

lemma syncOnce_decided:
  assumes list: "ListApprovalIssues env (waLinear w) = (Inr (is1 @ i # is2), l)"
    and ids: "distinct (map IsID (is1 @ i # is2))" and last: "\<forall>j \<in> set is2. planOfIssue j \<noteq> Some p"
    and i: "planOfIssue i = Some p" "issueStatus (IsLabels i) = st" "st \<noteq> []" "st \<noteq> ''pending''"
    and fresh: "map_of (waLast w) (IsID i) \<noteq> Some st"
    and run: "syncOnce env timeout now w = (Inr (), w')"
  shows "\<forall>a \<in> set (waApprovals w'). ArPlan a = p \<longrightarrow> ArStatus a = st"
proof -
  from run list obtain w1 w2 where
    1: "syncIssues env timeout now is1 (w\<lparr>waLinear := l\<rparr>) = (Inr (), w1)"
    and 2: "syncIssue env timeout now i w1 = (Inr (), w2)"
    and 3: "syncIssues env timeout now is2 w2 = (Inr (), w')"
    by (auto simp: syncOnce_def onLinear_def bindS_eq_Inr syncIssues_append)
  have "map_of (waLast w1) (IsID i) = map_of (waLast w) (IsID i)"
  proof -
    have "IsID i \<notin> IsID ` set is1" using ids by simp
    then have "\<forall>j \<in> set is1. IsID j \<noteq> IsID i" by (metis imageI)
    with syncIssues_last [of is1 "IsID i" env timeout now "w\<lparr>waLinear := l\<rparr>"] 1 show ?thesis by simp
  qed
  then have "\<forall>a \<in> set (rowsOf p w2). ArStatus a = st"
    using syncIssue_decided [OF i _ 2] fresh by simp
  moreover have "rowsOf p w' = rowsOf p w2"
    using syncIssues_other [OF last, of env timeout now w2] 3 by simp
  ultimately have "ArStatus a = st" if "a \<in> set (rowsOf p w')" for a using that by simp
  then show ?thesis by (simp add: rowsOf_def)
qed

end
