(* ===== verification/Service_Examples.thy ===== *)
theory Service_Examples
  imports Examples Tool_Server Collectors Event_Loop Scheduler Alert_Poller Approval_Watcher
begin

text \<open>
  Concrete services on which the properties of the tool router service, the web tokens, the
  scheduler, the alert poller, the approval watcher and the collectors are instantiated.
\<close>

section \<open>The tool router service\<close>

definition exAuthConfig :: AuthConfig where
  "exAuthConfig = \<lparr>Issuer = [], Audience = [], JWKSURL = ''https://idp'', DevMode = False, AuthToken = ''tok''\<rparr>"

text \<open>A header, a payload; a digest is the signed text, a signature is the digest.\<close>

definition exAuthEnv :: AuthEnv where
  "exAuthEnv = \<lparr>aeUnmarshal = (\<lambda>s. if s = ''h'' then Some (GMap [(''alg'', GStr ''RS256''), (''kid'', GStr ''k1'')])
       else if s = ''p'' then Some (GMap [(''sub'', GStr ''alice''), (''tenant_id'', GStr ''t1'')]) else None),
     aeSHA = id, aeRSA = (\<lambda>_ d sig. sig = d), aeUnix = 0\<rparr>"

definition exJWK :: JWK where
  "exJWK = \<lparr>JwkKty = ''RSA'', JwkKid = ''k1'', JwkAlg = ''RS256'', JwkUse = ''sig'', JwkN = ''AQAB'', JwkE = ''AQAB''\<rparr>"

definition exFetch :: FetchEnv where
  "exFetch = \<lparr>feUnmarshal = (\<lambda>_. None), feAnswer = (\<lambda>_ _. Inl ''connection refused'')\<rparr>"

definition exToolEnv :: RouterEnv where
  "exToolEnv = exRouterEnv\<lparr>renvUnmarshal := (\<lambda>_. Some (GMap [(''Tool'', GStr ''vault''),
     (''Action'', GStr ''read''), (''Input'', GMap []), (''Context'', ctxDoc exCtx)]))\<rparr>"

definition exToolServer :: ToolServer where
  "exToolServer = \<lparr>tsRouterEnv = exToolEnv, tsSandbox = Some (exSandbox (''ok'', None)), tsAuth = exAuthConfig,
     tsAuthEnv = exAuthEnv, tsFetch = exFetch, tsNow = 0, tsPolicy = Some (\<lambda>_. Inr (plainDecision ''allow'')),
     tsStamp = [], tsResources = GNil, tsPrompts = GNil\<rparr>"

definition exToolRequest :: Request where
  "exToolRequest = \<lparr>rqMethod = ''POST'', rqPath = ''/execute'', rqHeaders = [(''Authorization'', ''Bearer tok'')],
     rqQuery = [], rqBody = ''{}'', rqActor = None\<rparr>"

definition exToolService :: ToolService where
  "exToolService = \<lparr>svRouter = NewRouter, svKeys = NewJWKSCache 0\<rparr>"

lemma ex_authenticate: "authenticate exToolServer exToolRequest st = (Inr serviceClaims, st)"
proof -
  have "ParseBearer (header exToolRequest ''Authorization'') = Inr ''tok''" by code_simp
  then show ?thesis by (simp add: authenticate_def exToolServer_def exAuthConfig_def okS_def)
qed

definition exToolDoc :: gmap where
  "exToolDoc = [(''Tool'', GStr ''vault''), (''Action'', GStr ''read''), (''Input'', GMap []), (''Context'', ctxDoc exCtx)]"

lemma ex_toolBody: "toolBody exToolServer exToolRequest = Inr exToolDoc"
  by (simp add: toolBody_def exToolServer_def exToolEnv_def exToolRequest_def exToolDoc_def maxRequestBody_def)

lemma ex_toolRequest:
  "decodeExecuteRequest exToolDoc = Inr (exCall ''read'')"
  "authorize (tsPolicy exToolServer) (header exToolRequest ''X-Break-Glass'')
     (toolActor serviceClaims (TrimSpace (header exToolRequest ''X-Session-Id''))) (tsStamp exToolServer)
     ''vault'' ''read'' exCtx = Inr ()"
  "sandboxCommand exToolEnv (exSandbox (''ok'', None)) (exCall ''read'') = Some [''vault'', ''read'']"
  by code_simp+

lemma ex_handleExecute: "fst (fst (handleExecute exToolServer exToolRequest exToolService)) = 200"
proof -
  have "snd (fst (Execute exToolEnv (Some (exSandbox (''ok'', None))) (exCall ''read'') st)) = None" for st
    using Execute_cli(3) [OF ex_toolRequest(3)] by (simp add: sandboxRun_def exSandbox_def)
  then have "\<exists>resp rs. Execute exToolEnv (Some (exSandbox (''ok'', None))) (exCall ''read'') st = ((resp, None), rs)" for st
    by (metis prod.collapse)
  moreover have "tsRouterEnv exToolServer = exToolEnv" "tsSandbox exToolServer = Some (exSandbox (''ok'', None))"
    by (simp_all add: exToolServer_def)
  moreover have "ReqTool (exCall ''read'') = ''vault''" "ReqAction (exCall ''read'') = ''read''"
    "ReqContext (exCall ''read'') = exCtx" "rqMethod exToolRequest = ''POST''"
    by (simp_all add: exCall_def exToolRequest_def)
  ultimately show ?thesis
    using ex_toolRequest(1,2) ex_toolBody
    by (auto simp: handleExecute_def withCaller_def ex_authenticate executeCall_def split: prod.splits option.splits)
      (metis option.distinct(1) prod.inject)
qed

section \<open>A signed token\<close>

lemma ex_token:
  "bindR (unmarshalDoc exAuthEnv ''h'') decodeHeader = Inr \<lparr>Alg = ''RS256'', Kid = ''k1'', Typ = []\<rparr>"
  "bindR (unmarshalDoc exAuthEnv ''p'') decodePayload = Inr \<lparr>Sub = ''alice'', Email = [], Groups = [], Iss = [],
     Aud = GNil, Exp = 0, Nbf = 0, ClaimTenantID = ''t1''\<rparr>"
  "SelectJWK [exJWK] ''k1'' = Inr exJWK"
  by code_simp+

lemma ex_key: "RSAKeyFromJWK exJWK = Inr \<lparr>keyN = 65537, keyE = 65537\<rparr>"
proof -
  have "DecodeString ''AQAB'' = Inr [CHR 0x01, CHR 0x00, CHR 0x01]" by code_simp
  then show ?thesis by (simp add: RSAKeyFromJWK_def exJWK_def setBytes_def Let_def)
qed

section \<open>A schedule that is due\<close>

definition exScheduleRow :: ScheduleRow where
  "exScheduleRow = \<lparr>ScID = ''schedule_1'', ScCreatedAt = 1, ScCron = ''* * * * *'', ScContext = ctxDoc exCtx,
     ScSummary = ''s'', ScIntent = ''restart'', ScConstraints = None, ScTrigger = ''scheduled'', ScEnabled = True,
     ScLastRun = None\<rparr>"

definition exCron :: cronParser where
  "exCron spec = Inr (\<lambda>t. Some (case t of None \<Rightarrow> 1 | Some t \<Rightarrow> Suc t))"

lemma ex_cron: "cronAdvances exCron"
  by (simp add: cronAdvances_def exCron_def)

abbreviation exScheduleDB :: DB where
  "exScheduleDB \<equiv> exDB (emptyTables\<lparr>schedulesT := [exScheduleRow]\<rparr>)"

lemma ex_RunOnce: "fst (RunOnceSchedules exCron 5 exScheduleDB) = (1, None)"
  by code_simp

section \<open>An alert\<close>

definition exHookEnv :: HookEnv where
  "exHookEnv = \<lparr>heGate = None, heGraph = None, heMarshal = (\<lambda>_. []), heNow = 0\<rparr>"

definition exAlertPayload :: gmap where
  "exAlertPayload = [(''alerts'', GList [GMap [(''labels'', GMap [(''alertname'', GStr ''restart pod''),
     (''tenant_id'', GStr ''t1''), (''environment'', GStr ''dev'')])]])]"

lemma ex_alert_plan:
  "fst (runAlertEventLoop exServer exHookEnv None ''alertmanager'' exAlertPayload (exGateway emptyTables)) = Inr ''plan_5''"
  by code_simp

definition exAlert :: Alert where
  "exAlert = \<lparr>AlFingerprint = ''fp'', AlStartsAt = [], AlStatus = None, AlLabels = None\<rparr>"

definition exPollerEnv :: PollerEnv where
  "exPollerEnv = \<lparr>apServer = exServer, apHook = exHookEnv, apWindow = 60, apParseTime = (\<lambda>_. Inr 0)\<rparr>"

definition exPollerState :: PollerState where
  "exPollerState = \<lparr>psSeen = [], psEvents = [], psHandled = [], psGateway = exGateway emptyTables\<rparr>"

lemma ex_polls:
  "psHandled (snd (pollAlerts exPollerEnv [(0, exAlert), (30, exAlert), (60, exAlert)] exPollerState)) =
     [(0, ''fp''), (60, ''fp'')]"
  by code_simp

section \<open>An approved issue\<close>

definition exIssueDoc :: gval where
  "exIssueDoc = GMap [(''id'', GStr ''issue_1''), (''title'', GStr ''t''), (''description'', GStr ''Plan ID: plan_1''),
     (''labels'', GMap [(''nodes'', GList [GMap [(''name'', GStr ''approval:approved'')]])])]"

definition exLinearEnv :: LinearEnv where
  "exLinearEnv = \<lparr>lnToken = ''t'', lnTeam = ''team'', lnPost = (\<lambda>_ _ _. Inr (200, ''body'')),
     lnUnmarshal = (\<lambda>_. Some (GMap [(''data'', GMap [(''issues'', GMap [(''nodes'', GList [exIssueDoc])])])])),
     lnParseTime = (\<lambda>_. Inr 0), lnZero = 0\<rparr>"

definition exWatcher :: Watcher where
  "exWatcher = \<lparr>waLinear = \<lparr>lnCache = [], lnRequests = []\<rparr>, waDB = exDB (exTables ''pending'' []), waLast = []\<rparr>"

lemma ex_syncOnce:
  "\<exists>w'. syncOnce exLinearEnv 0 0 exWatcher = (Inr (), w') \<and> approvalsT (tables (waDB w')) = [exApproval ''approved'']"
proof -
  have "fst (syncOnce exLinearEnv 0 0 exWatcher) = Inr ()" by code_simp
  moreover have "approvalsT (tables (waDB (snd (syncOnce exLinearEnv 0 0 exWatcher)))) = [exApproval ''approved'']"
    by code_simp
  ultimately show ?thesis by (metis prod.collapse)
qed

section \<open>A Helm release\<close>

definition exHelm :: "string \<Rightarrow> gval option" where
  "exHelm _ = Some (GList [GMap [(''name'', GStr ''web''), (''namespace'', GStr ''ns'')]])"

definition exContextDB :: ContextDB where
  "exContextDB = \<lparr>cxClock = id, cxReads = 0, cxFault = (\<lambda>_. None), cxStmts = 0, cxNodes = [], cxEdges = [], cxSnaps = []\<rparr>"

lemma ex_helm: "map NdID (SnapNodes (snapshotFromHelmList exHelm ''x'' [])) = [''helm/release/ns/web'', ''k8s/namespace/ns'']"
  by code_simp

end
