(* ===== verification/Handler_Logic.thy ===== *)
theory Handler_Logic
  imports Plan_Api Library_Store
begin

text \<open>
  Rules to reason about the answers of the gateway's handlers. \<open>outcome P Q a\<close>: whenever handler
  part \<open>a\<close> stops the reply satisfies \<open>P\<close>, and when it goes on its value satisfies \<open>Q\<close>. The
  collection \<open>outcomes\<close> takes a handler apart along its control flow; what remains are the
  conditions on the values it answers with. Also the parts that several handlers share.
\<close>

section \<open>Checks the handlers share\<close>

definition tenantReadH :: "Server \<Rightarrow> Request \<Rightarrow> string \<Rightarrow> string \<Rightarrow> gval \<Rightarrow> unit act" where
  "tenantReadH s r action tenantID ctx =
     bindH (tryDB (policyCheckTenantRead s r action tenantID)) (\<lambda>chk.
       case chk of
         Inl e \<Rightarrow> denyH s r action ctx e (httpError ''policy denied'' 403)
       | Inr _ \<Rightarrow> okH ())"

definition writeH :: "Server \<Rightarrow> Request \<Rightarrow> string \<Rightarrow> ContextRef \<Rightarrow> gval \<Rightarrow> unit act" where
  "writeH s r action ctxRef ctx =
    (case policyCheck s r action ''write'' ctxRef ''low'' 0 of
       Inl e \<Rightarrow> denyH s r action ctx e (httpError ''policy denied'' 403)
     | Inr _ \<Rightarrow> okH ())"

text \<open>A field of type \<open>map[string]any\<close>: null stays nil.\<close>

fun decodeMapField :: "gval option \<Rightarrow> gval result" where
  "decodeMapField None = Inr GNil"
| "decodeMapField (Some GNil) = Inr GNil"
| "decodeMapField (Some (GMap m)) = Inr (GMap m)"
| "decodeMapField (Some _) = Inl ''json: cannot unmarshal''"

definition readH :: "Server \<Rightarrow> Request \<Rightarrow> string \<Rightarrow> gval \<Rightarrow> unit act" where
  "readH s r action ctx =
     bindH (tryDB (policyCheckRead s r action)) (\<lambda>chk.
       case chk of
         Inl e \<Rightarrow> denyH s r action ctx e (httpError ''policy denied'' 403)
       | Inr _ \<Rightarrow> okH ())"

definition tenantCtx :: "string \<Rightarrow> ContextRef" where
  "tenantCtx t = emptyContext\<lparr>TenantID := t\<rparr>"

definition headerTenantH :: "Request \<Rightarrow> string act" where
  "headerTenantH r =
    (let t = TrimSpace (header r ''X-Tenant-Id'') in
     if t = [] then stopH (httpError ''tenant_id required'' 400) else okH t)"

definition resolveTenantH :: "string \<Rightarrow> Request \<Rightarrow> string act" where
  "resolveTenantH body r =
    (case resolveTenant body (header r ''X-Tenant-Id'') of
       Inl e \<Rightarrow> stopH (httpError e 400) | Inr t \<Rightarrow> okH t)"

definition idDoc :: "string \<Rightarrow> string \<Rightarrow> gval" where
  "idDoc k i = GMap [(k, GStr i)]"

text \<open>\<open>strings.Trim(s, "/")\<close>.\<close>

definition trimSlashes :: "string \<Rightarrow> string" where
  "trimSlashes s = rev (dropWhile (\<lambda>c. c = CHR ''/'') (rev (dropWhile (\<lambda>c. c = CHR ''/'') s)))"

text \<open>The version of a decoded item, an \<open>int\<close> or a \<open>float64\<close>.\<close>

definition itemVersion :: "gmap \<Rightarrow> int" where
  "itemVersion item =
    (case gget item ''version'' of GInt v \<Rightarrow> v | GFloat f \<Rightarrow> intOfFloat f | _ \<Rightarrow> 0)"

text \<open>An item of another tenant is answered like a missing one.\<close>

definition ownItemH :: "gmap \<Rightarrow> string \<Rightarrow> reply act" where
  "ownItemH item tenantID =
    (if tenantMatch (tenantFromMap item) tenantID False then okH (200, GMap item) else stopH notFound)"

section \<open>Outcomes\<close>

definition outcome :: "(reply \<Rightarrow> bool) \<Rightarrow> ('a \<Rightarrow> bool) \<Rightarrow> 'a act \<Rightarrow> bool" where
  "outcome P Q a \<longleftrightarrow> (\<forall>g. case fst (a g) of Inl rep \<Rightarrow> P rep | Inr x \<Rightarrow> Q x)"

named_theorems outcomes

lemma outcome_replyOf:
  assumes "outcome P P a" "replyOf a g = (rep, g')"
  shows "P rep"
proof -
  have "case fst (a g) of Inl rep \<Rightarrow> P rep | Inr rep \<Rightarrow> P rep" using assms(1) by (simp add: outcome_def)
  with assms(2) show ?thesis by (auto simp: replyOf_def split: prod.splits sum.splits)
qed

lemma outcome_reply: "outcome P P a \<Longrightarrow> P (fst (replyOf a g))"
  using outcome_replyOf by (metis prod.collapse)

lemma outcome_mono: "outcome P Q a \<Longrightarrow> (\<And>x. Q x \<Longrightarrow> R x) \<Longrightarrow> outcome P R a"
  unfolding outcome_def by (metis (no_types, lifting) sum.case_eq_if)

lemma outcome_bindH [outcomes]:
  "outcome P (\<lambda>x. outcome P R (f x)) m \<Longrightarrow> outcome P R (bindH m f)"
  unfolding outcome_def bindH_def by (auto split: prod.splits sum.splits) (metis fst_conv sum.case(1) sum.case(2))+

lemma outcome_okH [outcomes]: "Q x \<Longrightarrow> outcome P Q (okH x)"
  by (simp add: outcome_def okH_def)

lemma outcome_stopH [outcomes]: "P r \<Longrightarrow> outcome P Q (stopH r)"
  by (simp add: outcome_def stopH_def)

lemma outcome_checkH [outcomes]: "(\<not> b \<Longrightarrow> P r) \<Longrightarrow> (b \<Longrightarrow> Q ()) \<Longrightarrow> outcome P Q (checkH b r)"
  by (simp add: outcome_def checkH_def stopH_def okH_def)

lemma outcome_if [outcomes]:
  "(b \<Longrightarrow> outcome P Q m) \<Longrightarrow> (\<not> b \<Longrightarrow> outcome P Q m') \<Longrightarrow> outcome P Q (if b then m else m')"
  by simp

lemma outcome_sum [outcomes]:
  "(\<And>e. v = Inl e \<Longrightarrow> outcome P Q (F e)) \<Longrightarrow> (\<And>x. v = Inr x \<Longrightarrow> outcome P Q (G x)) \<Longrightarrow>
   outcome P Q (case v of Inl e \<Rightarrow> F e | Inr x \<Rightarrow> G x)"
  by (cases v) auto

lemma outcome_option [outcomes]:
  "(v = None \<Longrightarrow> outcome P Q F) \<Longrightarrow> (\<And>x. v = Some x \<Longrightarrow> outcome P Q (G x)) \<Longrightarrow>
   outcome P Q (case v of None \<Rightarrow> F | Some x \<Rightarrow> G x)"
  by (cases v) auto

lemma outcome_pair [outcomes]:
  "(\<And>x y. p = (x, y) \<Longrightarrow> outcome P Q (F x y)) \<Longrightarrow> outcome P Q (case p of (x, y) \<Rightarrow> F x y)"
  by (cases p) auto

lemma outcome_Let [outcomes]: "(\<And>x. x = v \<Longrightarrow> outcome P Q (F x)) \<Longrightarrow> outcome P Q (let x = v in F x)"
  by simp

text \<open>A database call goes on with some value the call can return.\<close>

definition returns :: "(DB, 'a) op \<Rightarrow> 'a \<Rightarrow> bool" where
  "returns m x \<longleftrightarrow> (\<exists>d. fst (m d) = Inr x)"

lemma outcome_dbH [outcomes]:
  assumes "P rep" "\<And>x. returns m x \<Longrightarrow> Q x"
  shows "outcome P Q (dbH m rep)"
  using assms by (auto simp: outcome_def dbH_def onGwDB_def returns_def split: prod.splits sum.splits) (metis fst_conv)

lemma outcome_tryDB [outcomes]:
  assumes "\<And>e. Q (Inl e)" "\<And>x. returns m x \<Longrightarrow> Q (Inr x)"
  shows "outcome P Q (tryDB m)"
  unfolding outcome_def
proof
  fix g :: Gateway
  obtain r d where run: "m (gwDB g) = (r, d)" by (cases "m (gwDB g)")
  have "Q r"
  proof (cases r)
    case (Inr x)
    with run have "returns m x" unfolding returns_def by (metis fst_conv)
    with assms(2) Inr show ?thesis by simp
  qed (simp add: assms(1))
  then show "case fst (tryDB m g) of Inl rep \<Rightarrow> P rep | Inr x \<Rightarrow> Q x"
    by (simp add: tryDB_def onGwDB_def run)
qed

lemma outcome_auditEvent [outcomes]: "(\<And>u. Q u) \<Longrightarrow> outcome P Q (auditEvent s r a dec c n)"
  by (auto simp: outcome_def auditEvent_def split: prod.splits sum.splits)

lemma outcome_emit [outcomes]: "(\<And>u. Q u) \<Longrightarrow> outcome P Q (emit e d i)"
  by (auto simp: outcome_def emit_def Let_def split: option.splits)

lemma outcome_denyH [outcomes]: "P rep \<Longrightarrow> outcome P Q (denyH s r a c n rep)"
  unfolding denyH_def by (intro outcomes)

lemma outcome_bodyH [outcomes]:
  "P (httpError ''invalid json'' 400) \<Longrightarrow> (\<And>doc x. dec doc = Inr x \<Longrightarrow> Q x) \<Longrightarrow> outcome P Q (bodyH s r dec)"
  by (auto simp: outcome_def bodyH_def stopH_def okH_def split: option.splits sum.splits)

lemma returns_query: "returns (query q) x \<Longrightarrow> \<exists>t. q t = Inr x"
  by (auto simp: returns_def query_def Let_def split: option.splits)

lemma returns_bindS:
  assumes "returns (bindS m f) y"
  shows "\<exists>x. returns m x \<and> returns (f x) y"
proof -
  obtain d where d: "fst (bindS m f d) = Inr y" using assms by (auto simp: returns_def)
  obtain r d' where run: "m d = (r, d')" by (cases "m d")
  show ?thesis
  proof (cases r)
    case (Inl e)
    with d run show ?thesis by (simp add: bindS_def)
  next
    case (Inr x)
    with d run have "fst (m d) = Inr x" "fst (f x d') = Inr y" by (simp_all add: bindS_def)
    then show ?thesis unfolding returns_def by blast
  qed
qed

section \<open>The shared parts\<close>

lemma outcome_tenantReadH [outcomes]:
  assumes "P (httpError ''policy denied'' 403)" "\<And>u. Q u"
  shows "outcome P Q (tenantReadH s r a t c)"
  unfolding tenantReadH_def by (intro outcomes assms)

lemma outcome_readH [outcomes]:
  assumes "P (httpError ''policy denied'' 403)" "\<And>u. Q u"
  shows "outcome P Q (readH s r a c)"
  unfolding readH_def by (intro outcomes assms)

lemma outcome_writeH [outcomes]:
  assumes "P (httpError ''policy denied'' 403)"
    and "\<And>u. policyCheck s r a ''write'' ctxRef ''low'' 0 = Inr u \<Longrightarrow> Q ()"
  shows "outcome P Q (writeH s r a ctxRef c)"
  unfolding writeH_def by (intro outcomes assms)

lemma outcome_headerTenantH [outcomes]:
  assumes "P (httpError ''tenant_id required'' 400)"
    and "\<And>t. t = TrimSpace (header r ''X-Tenant-Id'') \<Longrightarrow> t \<noteq> [] \<Longrightarrow> Q t"
  shows "outcome P Q (headerTenantH r)"
  unfolding headerTenantH_def by (intro outcomes assms) auto

text \<open>The objects a reply carries: the items of a page or of a list, or the one object.\<close>

fun replyItems :: "gval \<Rightarrow> gmap list" where
  "replyItems (GList vs) = concat (map (\<lambda>v. case v of GMap m \<Rightarrow> [m] | _ \<Rightarrow> []) vs)"
| "replyItems (GMap m) =
    (case gget m ''data'' of
       GList vs \<Rightarrow> concat (map (\<lambda>v. case v of GMap m' \<Rightarrow> [m'] | _ \<Rightarrow> []) vs)
     | _ \<Rightarrow> [m])"
| "replyItems _ = []"

text \<open>What a reply may show to tenant \<open>t\<close>: if it is a success, only items of \<open>t\<close>.\<close>

definition showsOnly :: "(gmap \<Rightarrow> string) \<Rightarrow> string \<Rightarrow> reply \<Rightarrow> bool" where
  "showsOnly tenantOf t rep \<longleftrightarrow> (fst rep = 200 \<longrightarrow> (\<forall>i \<in> set (replyItems (snd rep)). tenantOf i = t))"

lemma objects_of_list [simp]: "concat (map (\<lambda>v. case v of GMap m \<Rightarrow> [m] | _ \<Rightarrow> []) (map GMap ms)) = ms"
  by (induction ms) auto

lemma showsOnly_error [simp]: "c \<noteq> 200 \<Longrightarrow> showsOnly T t (httpError m c)" "showsOnly T t notFound"
  by (simp_all add: showsOnly_def httpError_def notFound_def)

lemma showsOnly_code [simp]: "c \<noteq> 200 \<Longrightarrow> showsOnly T t (c, v)"
  by (simp add: showsOnly_def)

lemma showsOnly_list: "(\<And>i. i \<in> set ms \<Longrightarrow> T i = t) \<Longrightarrow> showsOnly T t (200, GList (map GMap ms))"
  by (simp add: showsOnly_def del: map_map)

lemma showsOnly_page:
  "(\<And>i. i \<in> set ms \<Longrightarrow> T i = t) \<Longrightarrow> showsOnly T t (paginatedResponse (GList (map GMap ms)) l off n)"
  by (simp add: showsOnly_def paginatedResponse_def gget_def del: map_map)

lemma showsOnly_item: "T m = t \<Longrightarrow> gget m ''data'' = GNil \<Longrightarrow> showsOnly T t (200, GMap m)"
  by (simp add: showsOnly_def)

lemma tenantMatch_own:
  "tenantMatch (tenantFromMap i) t False \<Longrightarrow> tenantFromMap i = TrimSpace t"
  by (auto simp: tenantMatch_def tenantFromMap_def TrimSpace_idem Let_def split: if_splits)

lemma outcome_ownItemH:
  "gget item ''data'' = GNil \<Longrightarrow> TrimSpace t = u \<Longrightarrow>
   outcome (showsOnly tenantFromMap u) (showsOnly tenantFromMap u) (ownItemH item t)"
  unfolding ownItemH_def
  by (intro outcomes) (simp_all add: showsOnly_item tenantMatch_own)

lemma filteredContext_own:
  assumes "filterJSONByTenantContext (GList docs) t = Inr items" "i \<in> set items"
  shows "tenantFromContext i = TrimSpace t"
  using assms by_context.keep_sound(3) [of i _ t]
  by (auto simp: filterJSONByTenantContext_def bindR_def split: sum.splits)

lemma handlePlansGet_own:
  "outcome (showsOnly tenantFromContext (TrimSpace (header r ''X-Tenant-Id'')))
     (showsOnly tenantFromContext (TrimSpace (header r ''X-Tenant-Id''))) (handlePlansGet s r)"
  unfolding handlePlansGet_def
  by (intro outcomes showsOnly_page) (auto dest: filteredContext_own simp: TrimSpace_idem)

end
