(* ===== verification/Library_Api.thy ===== *)
theory Library_Api
  imports Handler_Logic
begin

text \<open>
  The handlers of \<open>internal/web\<close> for the libraries: \<open>playbooks.go\<close>, \<open>runbooks.go\<close>,
  \<open>operator_memory.go\<close>, with the entries that come from files of the workspace
  (\<open>runbook_files.go\<close>, \<open>operator_memory_files.go\<close>). The server always has a database here.
\<close>

section \<open>Playbooks\<close>

record PlaybookCreateRequest =
  PrqTenant :: string
  PrqName :: string
  PrqVersion :: int
  PrqTags :: gval
  PrqSpec :: gval

text \<open>\<open>[]string\<close>: null stays nil.\<close>

fun decodeTags :: "gval option \<Rightarrow> gval result" where
  "decodeTags None = Inr GNil"
| "decodeTags (Some GNil) = Inr GNil"
| "decodeTags (Some (GList vs)) = bindR (mapR (\<lambda>v. decodeStr (Some v)) vs) (\<lambda>ss. Inr (GList (map GStr ss)))"
| "decodeTags (Some _) = Inl ''json: cannot unmarshal''"

definition decodePlaybookRequest :: "gval \<Rightarrow> PlaybookCreateRequest result" where
  "decodePlaybookRequest doc =
     bindR (decodeObj doc) (\<lambda>m.
     bindR (decodeStr (jsonField m ''tenant_id'')) (\<lambda>tenant.
     bindR (decodeStr (jsonField m ''name'')) (\<lambda>name.
     bindR (decodeInt (jsonField m ''version'')) (\<lambda>version.
     bindR (decodeTags (jsonField m ''tags'')) (\<lambda>tags.
       Inr \<lparr>PrqTenant = tenant, PrqName = name, PrqVersion = version, PrqTags = tags,
            PrqSpec = anyField m ''spec''\<rparr>)))))"

definition handlePlaybooksPost :: "Server \<Rightarrow> Request \<Rightarrow> reply act" where
  "handlePlaybooksPost s r =
     bindH (bodyH s r decodePlaybookRequest) (\<lambda>req.
     bindH (checkH (TrimSpace (PrqName req) \<noteq> []) (httpError ''name required'' 400)) (\<lambda>_.
     bindH (resolveTenantH (PrqTenant req) r) (\<lambda>tenantID.
     bindH (checkH (PrqSpec req \<noteq> GNil) (httpError ''spec required'' 400)) (\<lambda>_.
     bindH (writeH s r ''playbook.create'' (tenantCtx tenantID) (idDoc ''name'' (PrqName req))) (\<lambda>_.
     bindH (dbH (CreatePlaybook (GMap
        [(''tenant_id'', GStr tenantID), (''name'', GStr (PrqName req)),
         (''version'', GInt (if PrqVersion req = 0 then 1 else PrqVersion req)),
         (''tags'', PrqTags req), (''spec'', PrqSpec req)])) (httpError ''db error'' 500)) (\<lambda>i.
     bindH (auditEvent s r ''playbook.create'' ''allow''
              (GMap [(''playbook_id'', GStr i), (''name'', GStr (PrqName req))]) []) (\<lambda>_.
     okH (200, idDoc ''playbook_id'' i))))))))"

definition handlePlaybooksGet :: "Server \<Rightarrow> Request \<Rightarrow> reply act" where
  "handlePlaybooksGet s r =
     bindH (headerTenantH r) (\<lambda>tenantID.
     bindH (tenantReadH s r ''playbook.list'' tenantID (GMap [])) (\<lambda>_.
     let (limit, offset) = parsePagination r in
     bindH (dbH (ListPlaybooks limit offset) (httpError ''db error'' 500)) (\<lambda>(docs, n).
     case filterJSONByTenant (GList docs) tenantID False of
       Inl _ \<Rightarrow> stopH (httpError ''encode error'' 500)
     | Inr items \<Rightarrow> okH (paginatedResponse (GList (map GMap items)) limit offset n))))"

definition handlePlaybooks :: "Server \<Rightarrow> Request \<Rightarrow> reply act" where
  "handlePlaybooks s r =
    (if rqMethod r = ''POST'' then handlePlaybooksPost s r
     else if rqMethod r = ''GET'' then handlePlaybooksGet s r
     else stopH (405, GNil))"

definition handlePlaybookByID :: "Server \<Rightarrow> Request \<Rightarrow> reply act" where
  "handlePlaybookByID s r =
    (let playbookID = TrimPrefix (rqPath r) ''/v1/playbooks/'' in
     if rqMethod r = ''GET'' then
       bindH (headerTenantH r) (\<lambda>tenantID.
       bindH (checkH (TrimSpace playbookID \<noteq> []) (httpError ''playbook_id required'' 400)) (\<lambda>_.
       bindH (tenantReadH s r ''playbook.get'' tenantID (idDoc ''playbook_id'' playbookID)) (\<lambda>_.
       bindH (dbH (GetPlaybook playbookID) (httpError ''db error'' 500)) (\<lambda>p.
       case p of None \<Rightarrow> stopH notFound | Some item \<Rightarrow> ownItemH item tenantID))))
     else if rqMethod r = ''DELETE'' then
       bindH (dbH (DeletePlaybook playbookID) (httpError ''delete failed'' 500)) (\<lambda>_. okH (204, GNil))
     else stopH (405, GNil))"

section \<open>Runbooks\<close>

text \<open>
  \<open>RunbookCreateRequest\<close> has the fields of the stored payload. Files of the workspace directory
  are read through \<open>wsRead\<close>, \<open>None\<close> for a file that does not exist.
\<close>

record Workspace =
  wsDir :: string
  wsRead :: "string \<Rightarrow> string option result"

definition loadEntries :: "Server \<Rightarrow> Workspace \<Rightarrow> string \<Rightarrow> (gval \<Rightarrow> 'a result) \<Rightarrow> 'a list result" where
  "loadEntries s ws file decode =
    (if TrimSpace (wsDir ws) = [] then Inr []
     else bindR (wsRead ws file) (\<lambda>data.
       case data of
         None \<Rightarrow> Inr []
       | Some bytes \<Rightarrow>
          (case srvUnmarshal s bytes of None \<Rightarrow> Inl ''json: invalid'' | Some v \<Rightarrow> decodeSlice decode v)))"

definition LoadRunbooks :: "Server \<Rightarrow> Workspace \<Rightarrow> runbookPayload list result" where
  "LoadRunbooks s ws = loadEntries s ws ''memory/runbooks.json'' decodeRunbook"

definition runbookRequestDoc :: "runbookPayload \<Rightarrow> gmap" where
  "runbookRequestDoc q =
     [(''tenant_id'', GStr (RpTenant q)), (''service'', GStr (RpService q)), (''name'', GStr (RpName q)),
      (''version'', GInt (RpVersion q)), (''tags'', docOf (RpTags q)), (''body'', GStr (RpBody q)),
      (''spec'', docOf (RpSpec q))]"

definition handleRunbooksPost :: "Server \<Rightarrow> Request \<Rightarrow> reply act" where
  "handleRunbooksPost s r =
     bindH (bodyH s r decodeRunbook) (\<lambda>req.
     bindH (checkH (TrimSpace (RpService req) \<noteq> [] \<and> TrimSpace (RpName req) \<noteq> [])
              (httpError ''service and name required'' 400)) (\<lambda>_.
     bindH (resolveTenantH (RpTenant req) r) (\<lambda>tenantID.
     bindH (writeH s r ''runbook.create'' (tenantCtx tenantID) (idDoc ''name'' (RpName req))) (\<lambda>_.
     bindH (dbH (CreateRunbook (GMap (runbookRequestDoc (req\<lparr>RpTenant := tenantID\<rparr>))))
              (httpError ''db error'' 500)) (\<lambda>i.
     bindH (auditEvent s r ''runbook.create'' ''allow''
              (GMap [(''runbook_id'', GStr i), (''name'', GStr (RpName req))]) []) (\<lambda>_.
     okH (200, idDoc ''runbook_id'' i)))))))"

definition runbookKey :: "gmap \<Rightarrow> string" where
  "runbookKey item =
    (let tenant = TrimSpace (gstr item ''tenant_id''); service = TrimSpace (gstr item ''service'');
         name = TrimSpace (gstr item ''name'') in
     if service = [] \<or> name = [] then []
     else strJoin ([service, name, showInt (itemVersion item)] @ (if tenant \<noteq> [] then [tenant] else [])) '':'')"

text \<open>The entries of the file that are of the tenant and new, in their order.\<close>

fun mergeRunbooks :: "string \<Rightarrow> string list \<Rightarrow> runbookPayload list \<Rightarrow> gmap list" where
  "mergeRunbooks tenantID seen [] = []"
| "mergeRunbooks tenantID seen (rb # rbs) =
    (let item = runbookRequestDoc rb; key = runbookKey item in
     if \<not> tenantMatch (TrimSpace (RpTenant rb)) tenantID False then mergeRunbooks tenantID seen rbs
     else if key \<noteq> [] \<and> key \<in> set seen then mergeRunbooks tenantID seen rbs
     else item # mergeRunbooks tenantID (if key \<noteq> [] then key # seen else seen) rbs)"

definition withFileRunbooks :: "Server \<Rightarrow> Workspace \<Rightarrow> string \<Rightarrow> gmap list \<Rightarrow> gmap list" where
  "withFileRunbooks s ws tenantID items =
    (if wsDir ws = [] then items
     else case LoadRunbooks s ws of
       Inl _ \<Rightarrow> items
     | Inr rbs \<Rightarrow> items @ mergeRunbooks tenantID (filter (\<lambda>k. k \<noteq> []) (map runbookKey items)) rbs)"

definition handleRunbooksGet :: "Server \<Rightarrow> Workspace \<Rightarrow> Request \<Rightarrow> reply act" where
  "handleRunbooksGet s ws r =
     bindH (headerTenantH r) (\<lambda>tenantID.
     bindH (tenantReadH s r ''runbook.list'' tenantID (GMap [])) (\<lambda>_.
     let (limit, offset) = parsePagination r in
     bindH (dbH (ListRunbooks limit offset) (httpError ''db error'' 500)) (\<lambda>(docs, n).
     case filterJSONByTenant (GList docs) tenantID False of
       Inl _ \<Rightarrow> stopH (httpError ''decode error'' 500)
     | Inr items \<Rightarrow>
         okH (paginatedResponse (GList (map GMap (withFileRunbooks s ws tenantID items))) limit offset n))))"

definition handleRunbooks :: "Server \<Rightarrow> Workspace \<Rightarrow> Request \<Rightarrow> reply act" where
  "handleRunbooks s ws r =
    (if rqMethod r = ''POST'' then handleRunbooksPost s r
     else if rqMethod r = ''GET'' then handleRunbooksGet s ws r
     else stopH (405, GNil))"

definition handleRunbookByID :: "Server \<Rightarrow> Request \<Rightarrow> reply act" where
  "handleRunbookByID s r =
    (let runbookID = TrimPrefix (rqPath r) ''/v1/runbooks/'' in
     if rqMethod r = ''GET'' then
       bindH (headerTenantH r) (\<lambda>tenantID.
       bindH (checkH (TrimSpace runbookID \<noteq> []) (httpError ''runbook_id required'' 400)) (\<lambda>_.
       bindH (tenantReadH s r ''runbook.get'' tenantID (idDoc ''runbook_id'' runbookID)) (\<lambda>_.
       bindH (dbH (GetRunbook runbookID) (httpError ''db error'' 500)) (\<lambda>item. ownItemH item tenantID))))
     else if rqMethod r = ''DELETE'' then
       bindH (dbH (DeleteRunbook runbookID) (httpError ''delete failed'' 500)) (\<lambda>_. okH (204, GNil))
     else stopH (405, GNil))"

section \<open>Operator memory\<close>

record OperatorMemoryRequest =
  OrqTenant :: string
  OrqTitle :: string
  OrqBody :: string
  OrqTags :: gval
  OrqMetadata :: gval
  OrqOwner :: string

definition decodeMemoryRequest :: "gval \<Rightarrow> OperatorMemoryRequest result" where
  "decodeMemoryRequest doc =
     bindR (decodeObj doc) (\<lambda>m.
     bindR (decodeStr (jsonField m ''tenant_id'')) (\<lambda>tenant.
     bindR (decodeStr (jsonField m ''title'')) (\<lambda>title.
     bindR (decodeStr (jsonField m ''body'')) (\<lambda>body.
     bindR (decodeTags (jsonField m ''tags'')) (\<lambda>tags.
     bindR (decodeMapField (jsonField m ''metadata'')) (\<lambda>meta.
     bindR (decodeStr (jsonField m ''owner_actor_id'')) (\<lambda>owner.
       Inr \<lparr>OrqTenant = tenant, OrqTitle = title, OrqBody = body, OrqTags = tags, OrqMetadata = meta,
            OrqOwner = owner\<rparr>)))))))"

definition LoadOperatorMemory :: "Server \<Rightarrow> Workspace \<Rightarrow> OperatorMemoryRequest list result" where
  "LoadOperatorMemory s ws = loadEntries s ws ''memory/operator_memory.json'' decodeMemoryRequest"

text \<open>Eight bytes of the digest: sixteen hexadecimal digits.\<close>

definition fileMemoryID :: "Server \<Rightarrow> OperatorMemoryRequest \<Rightarrow> string" where
  "fileMemoryID s q =
     ''file_'' @ take 16 (srvSHA s (TrimSpace (OrqTenant q) @ '':'' @ TrimSpace (OrqTitle q) @ '':'' @ TrimSpace (OrqBody q)))"

definition memoryRequestDoc :: "string \<Rightarrow> OperatorMemoryRequest \<Rightarrow> gmap" where
  "memoryRequestDoc tenant q =
     [(''tenant_id'', GStr tenant), (''title'', GStr (OrqTitle q)), (''body'', GStr (OrqBody q)),
      (''tags'', OrqTags q), (''metadata'', OrqMetadata q), (''owner_actor_id'', GStr (OrqOwner q))]"

definition fileMemoryDoc :: "Server \<Rightarrow> OperatorMemoryRequest \<Rightarrow> gmap" where
  "fileMemoryDoc s q =
     (''memory_id'', GStr (fileMemoryID s q)) # memoryRequestDoc (OrqTenant q) q @ [(''source'', GStr ''file'')]"

definition memoryBodyH :: "Server \<Rightarrow> Request \<Rightarrow> (OperatorMemoryRequest \<times> string) act" where
  "memoryBodyH s r =
     bindH (bodyH s r decodeMemoryRequest) (\<lambda>req.
     bindH (resolveTenantH (OrqTenant req) r) (\<lambda>tenant.
     bindH (checkH (TrimSpace (OrqTitle req) \<noteq> [] \<and> TrimSpace (OrqBody req) \<noteq> [])
              (httpError ''title and body required'' 400)) (\<lambda>_.
     okH (req, tenant))))"

definition handleMemoryPost :: "Server \<Rightarrow> Request \<Rightarrow> reply act" where
  "handleMemoryPost s r =
     bindH (memoryBodyH s r) (\<lambda>(req, tenant).
     bindH (writeH s r ''memory.create'' (tenantCtx tenant) (idDoc ''tenant_id'' tenant)) (\<lambda>_.
     bindH (dbH (CreateOperatorMemory (GMap (memoryRequestDoc tenant req))) (httpError ''db error'' 500)) (\<lambda>i.
     bindH (auditEvent s r ''memory.create'' ''allow''
              (GMap [(''memory_id'', GStr i), (''tenant_id'', GStr tenant)]) []) (\<lambda>_.
     okH (200, idDoc ''memory_id'' i)))))"

definition memoryKey :: "string \<Rightarrow> string \<Rightarrow> string" where
  "memoryKey tenant title = TrimSpace tenant @ '':'' @ TrimSpace title"

fun mergeMemory :: "Server \<Rightarrow> string \<Rightarrow> string list \<Rightarrow> OperatorMemoryRequest list \<Rightarrow> gmap list" where
  "mergeMemory s tenant seen [] = []"
| "mergeMemory s tenant seen (q # qs) =
    (let key = memoryKey (OrqTenant q) (OrqTitle q) in
     if \<not> tenantMatch (OrqTenant q) tenant False \<or> key \<in> set seen then mergeMemory s tenant seen qs
     else fileMemoryDoc s q # mergeMemory s tenant (key # seen) qs)"

definition withFileMemory :: "Server \<Rightarrow> Workspace \<Rightarrow> string \<Rightarrow> gmap list \<Rightarrow> gmap list" where
  "withFileMemory s ws tenant items =
    (if wsDir ws = [] then items
     else case LoadOperatorMemory s ws of
       Inl _ \<Rightarrow> items
     | Inr qs \<Rightarrow> items @ mergeMemory s tenant
         (filter (\<lambda>k. k \<noteq> '':'') (map (\<lambda>i. memoryKey (tenantFromMap i) (stringFromMap i [''title''])) items)) qs)"

definition memoryTenantH :: "Request \<Rightarrow> string act" where
  "memoryTenantH r =
    (let q = TrimSpace (getOr (rqQuery r) ''tenant_id'') in if q \<noteq> [] then okH q else headerTenantH r)"

definition handleMemoryGet :: "Server \<Rightarrow> Workspace \<Rightarrow> Request \<Rightarrow> reply act" where
  "handleMemoryGet s ws r =
     bindH (memoryTenantH r) (\<lambda>tenant.
     bindH (tenantReadH s r ''memory.list'' tenant (idDoc ''tenant_id'' tenant)) (\<lambda>_.
     bindH (dbH (ListOperatorMemory tenant) (httpError ''db error'' 500)) (\<lambda>docs.
     case decodeItems (GList docs) of
       Inl _ \<Rightarrow> stopH (httpError ''decode error'' 500)
     | Inr items \<Rightarrow> okH (200, GList (map GMap (withFileMemory s ws tenant items))))))"

definition handleOperatorMemory :: "Server \<Rightarrow> Workspace \<Rightarrow> Request \<Rightarrow> reply act" where
  "handleOperatorMemory s ws r =
    (if rqMethod r = ''POST'' then handleMemoryPost s r
     else if rqMethod r = ''GET'' then handleMemoryGet s ws r
     else stopH (405, GNil))"

definition fileMemoryEntry :: "Server \<Rightarrow> Workspace \<Rightarrow> string \<Rightarrow> string \<Rightarrow> OperatorMemoryRequest option" where
  "fileMemoryEntry s ws tenantID memoryID =
    (if wsDir ws = [] then None
     else case LoadOperatorMemory s ws of
       Inl _ \<Rightarrow> None
     | Inr qs \<Rightarrow> find (\<lambda>q. tenantMatch (OrqTenant q) tenantID False \<and> fileMemoryID s q = memoryID) qs)"

definition handleMemoryGetByID :: "Server \<Rightarrow> Workspace \<Rightarrow> Request \<Rightarrow> string \<Rightarrow> reply act" where
  "handleMemoryGetByID s ws r memoryID =
     bindH (headerTenantH r) (\<lambda>tenantID.
     bindH (tenantReadH s r ''memory.get'' tenantID (idDoc ''memory_id'' memoryID)) (\<lambda>_.
     bindH (dbH (GetOperatorMemory memoryID) (httpError ''db error'' 500)) (\<lambda>p.
     if (case p of None \<Rightarrow> False | Some item \<Rightarrow> tenantMatch (tenantFromMap item) tenantID False)
     then okH (200, GMap (the p))
     else case fileMemoryEntry s ws tenantID memoryID of
       None \<Rightarrow> stopH notFound
     | Some q \<Rightarrow> okH (200, GMap (fileMemoryDoc s q)))))"

definition handleMemoryPut :: "Server \<Rightarrow> Request \<Rightarrow> string \<Rightarrow> reply act" where
  "handleMemoryPut s r memoryID =
     bindH (memoryBodyH s r) (\<lambda>(req, tenant).
     let ctx = GMap [(''memory_id'', GStr memoryID), (''tenant_id'', GStr tenant)] in
     bindH (writeH s r ''memory.update'' (tenantCtx tenant) ctx) (\<lambda>_.
     bindH (dbH (UpdateOperatorMemory memoryID (GMap (memoryRequestDoc tenant req))) (httpError ''db error'' 500)) (\<lambda>_.
     bindH (auditEvent s r ''memory.update'' ''allow'' ctx []) (\<lambda>_.
     okH (204, GNil)))))"

definition handleMemoryDelete :: "Server \<Rightarrow> Request \<Rightarrow> string \<Rightarrow> reply act" where
  "handleMemoryDelete s r memoryID =
     bindH (headerTenantH r) (\<lambda>tenant.
     bindH (writeH s r ''memory.delete'' (tenantCtx tenant) (idDoc ''memory_id'' memoryID)) (\<lambda>_.
     bindH (dbH (DeleteOperatorMemory memoryID) (httpError ''db error'' 500)) (\<lambda>_.
     bindH (auditEvent s r ''memory.delete'' ''allow'' (idDoc ''memory_id'' memoryID) []) (\<lambda>_.
     okH (204, GNil)))))"

definition handleOperatorMemoryByID :: "Server \<Rightarrow> Workspace \<Rightarrow> Request \<Rightarrow> reply act" where
  "handleOperatorMemoryByID s ws r =
    (let memoryID = trimSlashes (TrimPrefix (rqPath r) ''/v1/memory/'') in
     bindH (checkH (memoryID \<noteq> []) (httpError ''memory_id required'' 400)) (\<lambda>_.
     if rqMethod r = ''GET'' then handleMemoryGetByID s ws r memoryID
     else if rqMethod r = ''PUT'' then handleMemoryPut s r memoryID
     else if rqMethod r = ''DELETE'' then handleMemoryDelete s r memoryID
     else stopH (405, GNil)))"

section \<open>Reads stay within the tenant\<close>

lemma filtered_own:
  assumes "filterJSONByTenant (GList docs) t False = Inr items" "i \<in> set items"
  shows "tenantFromMap i = TrimSpace t"
  using assms by_map.keep_sound(3) [of i _ t False]
  by (auto simp: filterJSONByTenant_def bindR_def split: sum.splits)

lemma mergeRunbooks_own: "i \<in> set (mergeRunbooks t seen rbs) \<Longrightarrow> tenantFromMap i = TrimSpace t"
proof (induction t seen rbs rule: mergeRunbooks.induct)
  case (2 t seen rb rbs)
  have "tenantFromMap (runbookRequestDoc rb) = TrimSpace (RpTenant rb)"
    by (simp add: tenantFromMap_def runbookRequestDoc_def gstr_def gget_def)
  with 2 show ?case
    by (auto simp: Let_def tenantMatch_def TrimSpace_idem split: if_splits)
qed simp

lemma fileMemory_own:
  assumes "tenantMatch (OrqTenant q) t False"
  shows "tenantFromMap (fileMemoryDoc s q) = TrimSpace t"
  using assms
  by (auto simp: tenantFromMap_def fileMemoryDoc_def memoryRequestDoc_def gstr_def gget_def tenantMatch_def Let_def
      split: if_splits)

lemma mergeMemory_own: "i \<in> set (mergeMemory s t seen qs) \<Longrightarrow> tenantFromMap i = TrimSpace t"
proof (induction s t seen qs rule: mergeMemory.induct)
  case (2 s t seen q qs)
  then show ?case by (auto simp: Let_def fileMemory_own split: if_splits)
qed simp

lemma withFileRunbooks_own:
  "(\<And>i. i \<in> set items \<Longrightarrow> tenantFromMap i = TrimSpace t) \<Longrightarrow> i \<in> set (withFileRunbooks s ws t items) \<Longrightarrow>
   tenantFromMap i = TrimSpace t"
  by (auto simp: withFileRunbooks_def dest: mergeRunbooks_own split: if_splits sum.splits)

lemma withFileMemory_own:
  "(\<And>i. i \<in> set items \<Longrightarrow> tenantFromMap i = TrimSpace t) \<Longrightarrow> i \<in> set (withFileMemory s ws t items) \<Longrightarrow>
   tenantFromMap i = TrimSpace t"
  by (auto simp: withFileMemory_def dest: mergeMemory_own split: if_splits sum.splits)

lemma decodeItems_objects: "decodeItems (GList (map GMap ms)) = Inr ms"
proof -
  have "decodeItemList (map GMap ms) = Inr ms" by (induction ms) auto
  then show ?thesis by simp
qed

lemma ListOperatorMemory_own:
  assumes "returns (ListOperatorMemory t) docs"
  shows "\<exists>ms. docs = map GMap ms \<and> (\<forall>i \<in> set ms. tenantFromMap i = TrimSpace t)"
proof -
  have "TrimSpace t \<noteq> []" using assms by (auto simp: ListOperatorMemory_def returns_def failS_def)
  with assms have "returns (query (\<lambda>tb. Inr (map (\<lambda>r. GMap (memoryListDoc r))
      (rev (sort_key MmCreatedAt (filter (\<lambda>r. MmTenant r = TrimSpace t) (memoryT tb))))))) docs"
    by (simp add: ListOperatorMemory_def)
  from returns_query [OF this] obtain tb :: Tables where "(Inr (map (\<lambda>r. GMap (memoryListDoc r))
      (rev (sort_key MmCreatedAt (filter (\<lambda>r. MmTenant r = TrimSpace t) (memoryT tb))))) :: gval list result) = Inr docs" ..
  then have docs: "docs = map GMap (map memoryListDoc
      (rev (sort_key MmCreatedAt (filter (\<lambda>r. MmTenant r = TrimSpace t) (memoryT tb)))))"
    by auto
  have "tenantFromMap (memoryListDoc r) = TrimSpace (MmTenant r)" for r
    by (simp add: tenantFromMap_def memoryListDoc_def gstr_def gget_def)
  with docs show ?thesis
    by (intro exI [of _ "map memoryListDoc (rev (sort_key MmCreatedAt
      (filter (\<lambda>r. MmTenant r = TrimSpace t) (memoryT tb))))"] conjI) (auto simp: TrimSpace_idem)
qed

lemma returned_item_data:
  "returns (GetPlaybook i) (Some item) \<Longrightarrow> gget item ''data'' = GNil"
  "returns (GetRunbook i) item \<Longrightarrow> gget item ''data'' = GNil"
  "returns (GetOperatorMemory i) (Some item) \<Longrightarrow> gget item ''data'' = GNil"
  by (auto simp: GetPlaybook_def GetRunbook_def GetOperatorMemory_def Let_def returns_def failS_def gget_def
      playbookDoc_def dest!: returns_query [unfolded returns_def] split: if_splits option.splits)

lemma handlePlaybooksGet_own:
  "outcome (showsOnly tenantFromMap (TrimSpace (header r ''X-Tenant-Id'')))
     (showsOnly tenantFromMap (TrimSpace (header r ''X-Tenant-Id''))) (handlePlaybooksGet s r)"
  unfolding handlePlaybooksGet_def
  by (intro outcomes showsOnly_page) (auto dest: filtered_own simp: TrimSpace_idem)

lemma handleRunbooksGet_own:
  "outcome (showsOnly tenantFromMap (TrimSpace (header r ''X-Tenant-Id'')))
     (showsOnly tenantFromMap (TrimSpace (header r ''X-Tenant-Id''))) (handleRunbooksGet s ws r)"
  unfolding handleRunbooksGet_def
  by (intro outcomes showsOnly_page) (auto dest!: withFileRunbooks_own [rotated] dest: filtered_own simp: TrimSpace_idem)

lemma handlePlaybookByID_own:
  "outcome (showsOnly tenantFromMap (TrimSpace (header r ''X-Tenant-Id'')))
     (showsOnly tenantFromMap (TrimSpace (header r ''X-Tenant-Id''))) (handlePlaybookByID s r)"
  unfolding handlePlaybookByID_def
  by (intro outcomes outcome_ownItemH) (simp_all add: returned_item_data TrimSpace_idem)

lemma handleRunbookByID_own:
  "outcome (showsOnly tenantFromMap (TrimSpace (header r ''X-Tenant-Id'')))
     (showsOnly tenantFromMap (TrimSpace (header r ''X-Tenant-Id''))) (handleRunbookByID s r)"
  unfolding handleRunbookByID_def
  by (intro outcomes outcome_ownItemH) (simp_all add: returned_item_data TrimSpace_idem)

definition memoryTenant :: "Request \<Rightarrow> string" where
  "memoryTenant r =
    (let q = TrimSpace (getOr (rqQuery r) ''tenant_id'') in
     if q \<noteq> [] then q else TrimSpace (header r ''X-Tenant-Id''))"

lemma outcome_memoryTenantH [outcomes]:
  assumes "P (httpError ''tenant_id required'' 400)" "\<And>t. t = memoryTenant r \<Longrightarrow> Q t"
  shows "outcome P Q (memoryTenantH r)"
  unfolding memoryTenantH_def by (intro outcomes assms) (simp_all add: memoryTenant_def)

lemma handleMemoryGet_own:
  "outcome (showsOnly tenantFromMap (memoryTenant r)) (showsOnly tenantFromMap (memoryTenant r))
     (handleMemoryGet s ws r)"
proof -
  have trim: "TrimSpace (memoryTenant r) = memoryTenant r"
    by (simp add: memoryTenant_def TrimSpace_idem Let_def)
  have "showsOnly tenantFromMap (memoryTenant r) (200, GList (map GMap (withFileMemory s ws (memoryTenant r) items)))"
    if "returns (ListOperatorMemory (memoryTenant r)) docs" "decodeItems (GList docs) = Inr items" for docs items
  proof (rule showsOnly_list)
    fix i assume i: "i \<in> set (withFileMemory s ws (memoryTenant r) items)"
    have "\<forall>i \<in> set items. tenantFromMap i = TrimSpace (memoryTenant r)"
      using ListOperatorMemory_own [OF that(1)] that(2) decodeItems_objects by auto
    with i show "tenantFromMap i = memoryTenant r"
      using withFileMemory_own [of items "memoryTenant r" i s ws] by (simp add: trim)
  qed
  then show ?thesis
    unfolding handleMemoryGet_def by (intro outcomes) (simp_all del: decodeItems.simps)
qed

lemma handleMemoryGetByID_own:
  "outcome (showsOnly tenantFromMap (TrimSpace (header r ''X-Tenant-Id'')))
     (showsOnly tenantFromMap (TrimSpace (header r ''X-Tenant-Id''))) (handleMemoryGetByID s ws r i)"
proof -
  have entry: "showsOnly tenantFromMap u (200, GMap (fileMemoryDoc s q))"
    if "fileMemoryEntry s ws t i = Some q" "u = TrimSpace t" for t q u
  proof (rule showsOnly_item)
    show "tenantFromMap (fileMemoryDoc s q) = u"
      unfolding that(2) using that(1) by (intro fileMemory_own)
        (auto simp: fileMemoryEntry_def find_Some_iff split: if_splits sum.splits)
    show "gget (fileMemoryDoc s q) ''data'' = GNil"
      by (simp add: fileMemoryDoc_def memoryRequestDoc_def gget_def)
  qed
  have db: "showsOnly tenantFromMap u (200, GMap (the p))"
    if "returns (GetOperatorMemory i) p" "u = TrimSpace t"
      "case p of None \<Rightarrow> False | Some item \<Rightarrow> tenantMatch (tenantFromMap item) t False" for t p u
    using that by (cases p) (auto intro!: showsOnly_item dest: returned_item_data tenantMatch_own)
  show ?thesis
    unfolding handleMemoryGetByID_def
    by (intro outcomes; (rule entry, assumption | rule db, assumption)?) (auto simp: TrimSpace_idem)
qed

end
