(* ===== verification/Session_Api.thy ===== *)
theory Session_Api
  imports Handler_Logic
begin

text \<open>
  \<open>internal/web/sessions.go\<close>: the handlers for sessions and their members.
\<close>

record SessionRequest =
  SqName :: string
  SqTenant :: string
  SqGroup :: string
  SqOwner :: string
  SqMetadata :: gval

definition decodeSessionRequest :: "gval \<Rightarrow> SessionRequest result" where
  "decodeSessionRequest doc =
     bindR (decodeObj doc) (\<lambda>m.
     bindR (decodeStr (jsonField m ''name'')) (\<lambda>name.
     bindR (decodeStr (jsonField m ''tenant_id'')) (\<lambda>tenant.
     bindR (decodeStr (jsonField m ''group_id'')) (\<lambda>grp.
     bindR (decodeStr (jsonField m ''owner_actor_id'')) (\<lambda>owner.
     bindR (decodeMapField (jsonField m ''metadata'')) (\<lambda>meta.
       Inr \<lparr>SqName = name, SqTenant = tenant, SqGroup = grp, SqOwner = owner, SqMetadata = meta\<rparr>))))))"

definition sessionRequestDoc :: "SessionRequest \<Rightarrow> gval" where
  "sessionRequestDoc q = GMap
     [(''name'', GStr (SqName q)), (''tenant_id'', GStr (SqTenant q)), (''group_id'', GStr (SqGroup q)),
      (''owner_actor_id'', GStr (SqOwner q)), (''metadata'', SqMetadata q)]"

definition sessionBodyH :: "Server \<Rightarrow> Request \<Rightarrow> SessionRequest act" where
  "sessionBodyH s r =
     bindH (bodyH s r decodeSessionRequest) (\<lambda>req.
     bindH (checkH (TrimSpace (SqName req) \<noteq> [] \<and> TrimSpace (SqTenant req) \<noteq> [])
              (httpError ''name and tenant_id required'' 400)) (\<lambda>_.
     okH req))"

definition handleSessionsPost :: "Server \<Rightarrow> Request \<Rightarrow> reply act" where
  "handleSessionsPost s r =
     bindH (sessionBodyH s r) (\<lambda>req.
     bindH (writeH s r ''session.create'' (tenantCtx (SqTenant req)) (idDoc ''tenant_id'' (SqTenant req))) (\<lambda>_.
     bindH (dbH (CreateSession (sessionRequestDoc req)) (httpError ''db error'' 500)) (\<lambda>i.
     bindH (auditEvent s r ''session.create'' ''allow'' (idDoc ''session_id'' i) []) (\<lambda>_.
     okH (200, idDoc ''session_id'' i)))))"

definition sessionKept :: "string \<Rightarrow> string \<Rightarrow> gmap \<Rightarrow> bool" where
  "sessionKept tenantID groupID item \<longleftrightarrow>
     (tenantID = [] \<or> gget item ''tenant_id'' = GStr tenantID) \<and>
     (groupID = [] \<or> gget item ''group_id'' = GStr groupID)"

definition filterSessions :: "gval \<Rightarrow> string \<Rightarrow> string \<Rightarrow> gmap list result" where
  "filterSessions payload tenantID groupID =
     bindR (decodeItems payload) (\<lambda>items.
       Inr (filter (sessionKept (TrimSpace tenantID) (TrimSpace groupID)) items))"

definition handleSessionsGet :: "Server \<Rightarrow> Request \<Rightarrow> reply act" where
  "handleSessionsGet s r =
     bindH (readH s r ''session.list'' (GMap [])) (\<lambda>_.
     let (limit, offset) = parsePagination r in
     bindH (dbH (ListSessions limit offset) (httpError ''db error'' 500)) (\<lambda>(docs, n).
     let q = TrimSpace (getOr (rqQuery r) ''tenant_id'');
         tenant = (if q = [] then TrimSpace (header r ''X-Tenant-Id'') else q);
         grp = TrimSpace (getOr (rqQuery r) ''group_id'') in
     if tenant = [] \<and> grp = [] then okH (paginatedResponse (GList docs) limit offset n)
     else case filterSessions (GList docs) tenant grp of
       Inl _ \<Rightarrow> stopH (httpError ''encode error'' 500)
     | Inr items \<Rightarrow> okH (paginatedResponse (GList (map GMap items)) limit offset n)))"

definition handleSessions :: "Server \<Rightarrow> Request \<Rightarrow> reply act" where
  "handleSessions s r =
    (if rqMethod r = ''POST'' then handleSessionsPost s r
     else if rqMethod r = ''GET'' then handleSessionsGet s r
     else stopH (405, GNil))"

section \<open>Members\<close>

definition decodeMemberRequest :: "gval \<Rightarrow> (string \<times> string) result" where
  "decodeMemberRequest doc =
     bindR (decodeObj doc) (\<lambda>m.
     bindR (decodeStr (jsonField m ''member_id'')) (\<lambda>member.
     bindR (decodeStr (jsonField m ''role'')) (\<lambda>role. Inr (member, role))))"

definition handleMembersPost :: "Server \<Rightarrow> Request \<Rightarrow> string \<Rightarrow> reply act" where
  "handleMembersPost s r sessionID =
     bindH (bodyH s r decodeMemberRequest) (\<lambda>(member, role).
     bindH (checkH (TrimSpace member \<noteq> [] \<and> TrimSpace role \<noteq> [])
              (httpError ''member_id and role required'' 400)) (\<lambda>_.
     bindH (writeH s r ''session.member.add'' emptyContext (idDoc ''session_id'' sessionID)) (\<lambda>_.
     bindH (dbH (AddSessionMember sessionID (GMap [(''member_id'', GStr member), (''role'', GStr role)]))
              (httpError ''db error'' 500)) (\<lambda>_.
     bindH (auditEvent s r ''session.member.add'' ''allow''
              (GMap [(''session_id'', GStr sessionID), (''member_id'', GStr member)]) []) (\<lambda>_.
     okH (204, GNil))))))"

definition handleSessionMembers :: "Server \<Rightarrow> Request \<Rightarrow> reply act" where
  "handleSessionMembers s r =
    (let sessionID = trimSlashes (TrimSuffix (TrimPrefix (rqPath r) ''/v1/sessions/'') ''/members'') in
     bindH (checkH (sessionID \<noteq> []) (httpError ''session_id required'' 400)) (\<lambda>_.
     if rqMethod r = ''POST'' then handleMembersPost s r sessionID
     else if rqMethod r = ''GET'' then
       bindH (readH s r ''session.member.list'' (idDoc ''session_id'' sessionID)) (\<lambda>_.
       bindH (dbH (ListSessionMembers sessionID) (httpError ''db error'' 500)) (\<lambda>docs.
       okH (200, GList docs)))
     else stopH (405, GNil)))"

section \<open>One session\<close>

definition handleSessionPut :: "Server \<Rightarrow> Request \<Rightarrow> string \<Rightarrow> reply act" where
  "handleSessionPut s r sessionID =
     bindH (sessionBodyH s r) (\<lambda>req.
     bindH (writeH s r ''session.update'' (tenantCtx (SqTenant req)) (idDoc ''session_id'' sessionID)) (\<lambda>_.
     bindH (dbH (UpdateSession sessionID (sessionRequestDoc req)) (httpError ''db error'' 500)) (\<lambda>_.
     bindH (auditEvent s r ''session.update'' ''allow'' (idDoc ''session_id'' sessionID) []) (\<lambda>_.
     okH (204, GNil)))))"

definition handleSessionDelete :: "Server \<Rightarrow> Request \<Rightarrow> string \<Rightarrow> reply act" where
  "handleSessionDelete s r sessionID =
     bindH (writeH s r ''session.delete'' emptyContext (idDoc ''session_id'' sessionID)) (\<lambda>_.
     bindH (dbH (DeleteSession sessionID) (httpError ''db error'' 500)) (\<lambda>_.
     bindH (auditEvent s r ''session.delete'' ''allow'' (idDoc ''session_id'' sessionID) []) (\<lambda>_.
     okH (204, GNil))))"

definition handleSessionByID :: "Server \<Rightarrow> Request \<Rightarrow> reply act" where
  "handleSessionByID s r =
    (let path = TrimPrefix (rqPath r) ''/v1/sessions/'' in
     if hasSuffix path ''/members'' then handleSessionMembers s r
     else let sessionID = trimSlashes path in
     bindH (checkH (sessionID \<noteq> []) (httpError ''session_id required'' 400)) (\<lambda>_.
     if rqMethod r = ''GET'' then
       bindH (readH s r ''session.get'' (idDoc ''session_id'' sessionID)) (\<lambda>_.
       bindH (dbH (GetSession sessionID) (httpError ''db error'' 500)) (\<lambda>p.
       case p of None \<Rightarrow> stopH notFound | Some doc \<Rightarrow> okH (200, GMap doc)))
     else if rqMethod r = ''PUT'' then handleSessionPut s r sessionID
     else if rqMethod r = ''DELETE'' then handleSessionDelete s r sessionID
     else stopH (405, GNil)))"

end
