(* ===== verification/Workflow_Api.thy ===== *)
theory Workflow_Api
  imports Handler_Logic Event_Loop Workflow_Catalog
begin

text \<open>
  \<open>internal/web/workflows.go\<close>: the workflow catalogue over HTTP, and the start of a catalogue
  workflow as a plan, with its approval and, when that is allowed at once, its execution.
\<close>

section \<open>The stored catalogue\<close>

fun newestByName :: "string \<Rightarrow> gmap option \<Rightarrow> int \<Rightarrow> gmap list \<Rightarrow> gmap option" where
  "newestByName name selected best [] = selected"
| "newestByName name selected best (item # items) =
    (if isStr (gget item ''name'') \<and> EqualFold (gstr item ''name'') name \<and> itemVersion item \<ge> best
     then newestByName name (Some item) (itemVersion item) items
     else newestByName name selected best items)"

definition findWorkflowByName :: "gval \<Rightarrow> string \<Rightarrow> gmap option" where
  "findWorkflowByName payload name0 =
    (case decodeItems payload of
       Inl _ \<Rightarrow> None
     | Inr items \<Rightarrow>
        (let name = TrimSpace name0 in if name = [] then None else newestByName name None 0 items))"

definition templateDoc :: "WorkflowTemplate \<Rightarrow> gval" where
  "templateDoc t = GMap [(''name'', GStr (TplName t)), (''description'', GStr (TplDescription t)),
     (''risk'', GStr (TplRisk t))]"

definition handleWorkflows :: "Server \<Rightarrow> Request \<Rightarrow> reply act" where
  "handleWorkflows s r =
     bindH (checkH (rqMethod r = ''GET'') (405, GNil)) (\<lambda>_.
     bindH (headerTenantH r) (\<lambda>tenantID.
     bindH (tenantReadH s r ''workflow.list'' tenantID (GMap [])) (\<lambda>_.
     let (limit, offset) = parsePagination r in
     bindH (tryDB (ListWorkflowCatalog limit offset)) (\<lambda>res.
     case res of
       Inl _ \<Rightarrow> okH (200, GMap [(''workflows'', GList (map templateDoc workflowCatalog))])
     | Inr (docs, n) \<Rightarrow>
        (case filterJSONByTenant (GList docs) tenantID True of
           Inl _ \<Rightarrow> stopH (httpError ''encode error'' 500)
         | Inr items \<Rightarrow> okH (paginatedResponse (GList (map GMap items)) limit offset n))))))"

definition handleWorkflowGet :: "Server \<Rightarrow> Request \<Rightarrow> string \<Rightarrow> reply act" where
  "handleWorkflowGet s r name =
     bindH (headerTenantH r) (\<lambda>tenantID.
     bindH (tenantReadH s r ''workflow.get'' tenantID (idDoc ''workflow'' name)) (\<lambda>_.
     bindH (tryDB (ListWorkflowCatalog 200 0)) (\<lambda>res.
     bindH (case res of
              Inl _ \<Rightarrow> okH None
            | Inr (docs, _) \<Rightarrow>
               (case filterJSONByTenant (GList docs) tenantID True of
                  Inl _ \<Rightarrow> stopH (httpError ''encode error'' 500)
                | Inr items \<Rightarrow> okH (findWorkflowByName (GList (map GMap items)) name))) (\<lambda>found.
     case found of
       Some item \<Rightarrow> okH (200, GMap item)
     | None \<Rightarrow>
        (case findWorkflowTemplate name of
           None \<Rightarrow> stopH notFound
         | Some t \<Rightarrow> okH (200, templateDoc t))))))"

text \<open>
  A handler that panics: the server closes the connection, which status 0 stands for. A body
  \<open>null\<close> leaves the map nil, and the assignment of its \<open>name\<close> panics.
\<close>

definition panicReply :: reply where
  "panicReply = (0, GStr ''assignment to entry in nil map'')"

definition handleWorkflowVersion :: "Server \<Rightarrow> Request \<Rightarrow> string \<Rightarrow> reply act" where
  "handleWorkflowVersion s r name =
     bindH (bodyH s r (\<lambda>doc. bindR (decodeObj doc) (\<lambda>m. Inr (doc = GNil, m)))) (\<lambda>(isNil, req).
     bindH (resolveTenantH (gstr req ''tenant_id'') r) (\<lambda>tenantID.
     bindH (writeH s r ''workflow.version.create'' (tenantCtx tenantID) (idDoc ''workflow'' name)) (\<lambda>_.
     bindH (checkH (\<not> isNil) panicReply) (\<lambda>_.
     bindH (dbH (CreateWorkflowCatalog (GMap (gput (gput req ''name'' (GStr name)) ''tenant_id'' (GStr tenantID))))
              (httpError ''db error'' 500)) (\<lambda>i.
     bindH (auditEvent s r ''workflow.version.create'' ''allow''
              (GMap [(''workflow'', GStr name), (''workflow_id'', GStr i)]) []) (\<lambda>_.
     okH (200, idDoc ''workflow_id'' i)))))))"

section \<open>Starting a workflow\<close>

text \<open>
  What a value reads back as after \<open>json.Marshal\<close> and \<open>json.Unmarshal\<close> into \<open>any\<close>, for the
  values that a step of the catalogue can hold.
\<close>

fun jsonView :: "gval \<Rightarrow> gval" where
  "jsonView (GInt n) = GFloat (of_int n)"
| "jsonView (GInt64 n) = GFloat (of_int n)"
| "jsonView (GStrs ss) = GList (map GStr ss)"
| "jsonView (GList vs) = GList (map jsonView vs)"
| "jsonView (GMap m) = GMap (map (\<lambda>(k, v). (k, jsonView v)) m)"
| "jsonView v = v"

record WorkflowStartRequest =
  WqContext :: ContextRef
  WqInput :: gmap
  WqConstraints :: gval

definition decodeWorkflowStart :: "gval \<Rightarrow> WorkflowStartRequest result" where
  "decodeWorkflowStart doc =
     bindR (decodeObj doc) (\<lambda>m.
     bindR (decodeContext (jsonField m ''context'')) (\<lambda>ctx.
     bindR (decodeObj (anyField m ''input'')) (\<lambda>input.
       Inr \<lparr>WqContext = ctx, WqInput = input, WqConstraints = anyField m ''constraints''\<rparr>)))"

definition templateRisk :: "WorkflowTemplate \<Rightarrow> string" where
  "templateRisk t = (if TrimSpace (TplRisk t) = [] then ''low'' else TplRisk t)"

definition workflowPlan ::
  "Server \<Rightarrow> string \<Rightarrow> WorkflowStartRequest \<Rightarrow> string \<Rightarrow> PolicyDecision \<Rightarrow> string \<Rightarrow> PlanStep list \<Rightarrow> gmap" where
  "workflowPlan s name req risk dec summary steps =
     [(''trigger'', GStr ''workflow''), (''summary'', GStr summary), (''context'', ctxDoc (WqContext req)),
      (''risk_level'', GStr risk), (''intent'', GStr (''Workflow '' @ name)),
      (''constraints'', constraintsDoc (mergeConstraints (srvUnmarshal s) (WqConstraints req) (Constraints dec))),
      (''steps'', jsonView (GList (map stepDocWeb steps))),
      (''meta'', GMap [(''workflow'', GStr name), (''input'', GMap (WqInput req))])]"

definition workflowApproval :: "Server \<Rightarrow> Request \<Rightarrow> string \<Rightarrow> PolicyDecision \<Rightarrow> string \<Rightarrow> unit act" where
  "workflowApproval s r risk dec planID =
    (if risk = ''low'' \<and> AutoApproveLow s \<and> Decision dec \<noteq> ''require_approval'' then
       bindH (createApprovalH s planID False (httpError ''approval error'' 502)) (\<lambda>approvalID.
       bindH (dbH (UpdateApprovalStatusByPlan planID ''approved'') (httpError ''db error'' 500)) (\<lambda>_.
       auditEvent s r ''approval.auto'' ''allow''
         (GMap [(''plan_id'', GStr planID), (''approval_id'', GStr approvalID),
                (''status'', GStr ''approved'')]) []))
     else bindH (createApprovalH s planID True (httpError ''approval error'' 502)) (\<lambda>_. okH ()))"

definition workflowExecution :: "Server \<Rightarrow> ContextRef \<Rightarrow> PlanStep list \<Rightarrow> string \<Rightarrow> string act" where
  "workflowExecution s ctx steps planID =
     bindH (dbH (HasActiveExecution planID) (httpError ''db error'' 500)) (\<lambda>active.
     bindH (checkH (\<not> active) (httpError ''execution already in progress'' 409)) (\<lambda>_.
     bindH (dbH (CreateExecution planID) (httpError ''db error'' 500)) (\<lambda>execID.
     bindH (startExecution s planID execID ctx steps) (\<lambda>_.
     okH execID))))"

definition handleWorkflowStart :: "Server \<Rightarrow> Request \<Rightarrow> string \<Rightarrow> reply act" where
  "handleWorkflowStart s r name =
     bindH (case findWorkflowTemplate name of None \<Rightarrow> stopH notFound | Some t \<Rightarrow> okH t) (\<lambda>template.
     bindH (bodyH s r decodeWorkflowStart) (\<lambda>req.
     let ctx = WqContext req in
     bindH (case webValidateContextRefStrict ctx of
              Inl e \<Rightarrow> denyH s r ''workflow.start'' (ctxDoc ctx) e (httpError ''invalid context'' 400)
            | Inr _ \<Rightarrow> okH ()) (\<lambda>_.
     bindH (case buildWorkflowPlan name (WqInput req) of
              Inl e \<Rightarrow> stopH (httpError e 400) | Inr p \<Rightarrow> okH p) (\<lambda>(summary, steps).
     let risk = templateRisk template;
         actionType = (if risk \<noteq> ''read'' then ''write'' else ''read'') in
     bindH (case policyDecision s r ''plan.create'' actionType ctx risk 0 of
              Inl e \<Rightarrow> denyH s r ''workflow.start'' (ctxDoc ctx) e (httpError ''policy denied'' 403)
            | Inr dec \<Rightarrow> okH dec) (\<lambda>dec.
     bindH (decisionH s r ''workflow.start'' actionType (ctxDoc ctx) dec) (\<lambda>_.
     bindH (checkH (srvExecutor s \<noteq> None) (httpError ''{\"error\":\"temporal not configured\"}'' 503)) (\<lambda>_.
     bindH (dbH (CreatePlan (GMap (workflowPlan s name req risk dec summary steps))) (httpError ''db error'' 500)) (\<lambda>planID.
     bindH (if actionType = ''write'' then workflowApproval s r risk dec planID else okH ()) (\<lambda>_.
     bindH (if actionType \<noteq> ''write'' \<or> risk = ''low'' \<and> AutoApproveLow s
            then workflowExecution s ctx steps planID else okH []) (\<lambda>execID.
     bindH (auditEvent s r ''workflow.start'' ''allow''
              (GMap [(''plan_id'', GStr planID), (''workflow'', GStr name)]) []) (\<lambda>_.
     okH (200, GMap ([(''plan_id'', GStr planID)] @
            (if execID = [] then [] else [(''execution_id'', GStr execID)]) @
            [(''status'', GStr ''ok'')])))))))))))))"

definition handleWorkflowByID :: "Server \<Rightarrow> Request \<Rightarrow> reply act" where
  "handleWorkflowByID s r =
    (let parts = splitChar CHR ''/'' (trimSlashes (TrimPrefix (rqPath r) ''/v1/workflows/''));
         name = hd parts in
     if name = [] then stopH (httpError ''workflow required'' 400)
     else if length parts = 1 \<and> rqMethod r = ''GET'' then handleWorkflowGet s r name
     else if length parts = 2 \<and> parts ! 1 = ''version'' \<and> rqMethod r = ''POST'' then handleWorkflowVersion s r name
     else if length parts = 2 \<and> parts ! 1 = ''start'' \<and> rqMethod r = ''POST'' then handleWorkflowStart s r name
     else stopH (405, GNil))"

section \<open>The newest version of a name\<close>

lemma newestByName_spec:
  assumes "newestByName name sel v items = Some item" "sel \<noteq> None \<Longrightarrow> v = itemVersion (the sel)"
  shows "(sel = Some item \<or> item \<in> set items \<and> EqualFold (gstr item ''name'') name) \<and> v \<le> itemVersion item \<or> sel = Some item"
    and "\<And>i. i \<in> set items \<Longrightarrow> isStr (gget i ''name'') \<Longrightarrow> EqualFold (gstr i ''name'') name \<Longrightarrow>
           itemVersion i \<le> itemVersion item \<or> itemVersion i < v"
  using assms
proof (induction name sel v items rule: newestByName.induct)
  case (2 name sel v i items)
  {
    case 1
    show ?case
    proof (cases "isStr (gget i ''name'') \<and> EqualFold (gstr i ''name'') name \<and> itemVersion i \<ge> v")
      case True
      with 1 have "newestByName name (Some i) (itemVersion i) items = Some item" by simp
      from "2.IH"(1) [OF True this] True show ?thesis by auto
    next
      case False
      with 1 have "newestByName name sel v items = Some item" by simp
      from "2.IH"(3) [OF False this 1(2)] show ?thesis by auto
    qed
  next
    case (2 j)
    show ?case
    proof (cases "isStr (gget i ''name'') \<and> EqualFold (gstr i ''name'') name \<and> itemVersion i \<ge> v")
      case True
      with 2 have run: "newestByName name (Some i) (itemVersion i) items = Some item" by simp
      from "2.IH"(1) [OF True run] have "itemVersion i \<le> itemVersion item" by auto
      with "2.IH"(2) [OF True _ _ _ run] 2 show ?thesis by fastforce
    next
      case False
      with 2 have run: "newestByName name sel v items = Some item" by simp
      from "2.IH"(4) [OF False _ _ _ run 2(5)] 2 False show ?thesis by auto
    qed
  }
qed auto

section \<open>What a start may do\<close>

lemma stays_option [idle]:
  "stays F \<Longrightarrow> (\<And>y. stays (G y)) \<Longrightarrow> stays (case x of None \<Rightarrow> F | Some y \<Rightarrow> G y)"
  by (cases x) auto

lemma stays_pair [idle]: "(\<And>x y. stays (F x y)) \<Longrightarrow> stays (case p of (x, y) \<Rightarrow> F x y)"
  by (cases p) auto

lemma stays_bodyH [idle]: "stays (bodyH s r dec)"
  unfolding bodyH_def by (intro idle)

lemma bindH_okH: "bindH (okH x) f = f x"
  by (simp add: bindH_def okH_def fun_eq_iff)

lemma bindH_stopH: "bindH (stopH x) f = stopH x"
  by (simp add: bindH_def stopH_def fun_eq_iff)

lemma catalogue_risks:
  "map (\<lambda>t. (TplName t, templateRisk t)) workflowCatalog =
    [(''gitops_deploy'', ''medium''), (''helm_release'', ''medium''), (''scale_service'', ''low''),
     (''incident_remediation'', ''medium''), (''secret_rotation'', ''high'')]"
  by code_simp

lemma catalogue_template:
  assumes "findWorkflowTemplate name = Some t"
  shows "(name, templateRisk t) \<in> set [(''gitops_deploy'', ''medium''), (''helm_release'', ''medium''),
     (''scale_service'', ''low''), (''incident_remediation'', ''medium''), (''secret_rotation'', ''high'')]"
proof -
  have "t \<in> set workflowCatalog" "TplName t = name"
    using assms by (auto simp: findWorkflowTemplate_def find_Some_iff)
  then have "(name, templateRisk t) \<in> set (map (\<lambda>t. (TplName t, templateRisk t)) workflowCatalog)" by force
  then show ?thesis unfolding catalogue_risks .
qed

lemma catalogue_waits:
  assumes "findWorkflowTemplate name = Some t" "\<not> AutoApproveLow s \<or> name \<noteq> ''scale_service''"
  shows "templateRisk t \<noteq> ''read''" "templateRisk t \<noteq> ''low'' \<or> \<not> AutoApproveLow s"
  using catalogue_template [OF assms(1)] assms(2) by auto

lemma workflowApproval_external:
  "risk \<noteq> ''low'' \<or> \<not> AutoApproveLow s \<Longrightarrow> workflowApproval s r risk dec planID =
     bindH (createApprovalH s planID True (httpError ''approval error'' 502)) (\<lambda>_. okH ())"
  by (auto simp: workflowApproval_def)

text \<open>Unless a low-risk workflow may be approved by the gateway itself, a start stores a plan and waits.\<close>

lemma handleWorkflowStart_idle:
  assumes "\<not> AutoApproveLow s \<or> name \<noteq> ''scale_service''"
  shows "stays (handleWorkflowStart s r name)"
proof (cases "findWorkflowTemplate name")
  case None
  then show ?thesis unfolding handleWorkflowStart_def None option.case bindH_stopH by (intro idle)
next
  case (Some t)
  have risk: "templateRisk t \<noteq> ''read''" "templateRisk t \<noteq> ''low'' \<or> \<not> AutoApproveLow s"
    using catalogue_waits [OF Some assms] .
  then have no: "(templateRisk t = ''low'' \<and> AutoApproveLow s) = False" by auto
  show ?thesis
    unfolding handleWorkflowStart_def Some option.case bindH_okH Let_def
    by (simp only: no risk(1) if_True if_False not_False_eq_True simp_thms workflowApproval_external [OF risk(2)])
      (intro idle stays_dbH idle_CreatePlan)
qed

lemma approvals_beyondAudit: "beyondAudit g' = beyondAudit g \<Longrightarrow> approvalsT (tables (gwDB g')) = approvalsT (tables (gwDB g))"
  unfolding beyondAudit_def by (metis Tables.select_convs(6) Tables.simps(1) Tables.surjective Tables.update_convs(8) prod.inject)

lemma handleWorkflowStart_pending:
  assumes "\<not> AutoApproveLow s \<or> name \<noteq> ''scale_service''"
    and run: "handleWorkflowStart s r name g = (Inr (200, doc), g')"
  shows "\<exists>a \<in> set (approvalsT (tables (gwDB g'))). ArPlan a = gstr (mapOf doc) ''plan_id'' \<and> ArStatus a = ''pending''"
proof -
  obtain t where t: "findWorkflowTemplate name = Some t"
    using run by (auto simp: handleWorkflowStart_def bindH_Inr stopH_Inr split: option.splits)
  have risk: "templateRisk t \<noteq> ''read''" "templateRisk t \<noteq> ''low'' \<or> \<not> AutoApproveLow s"
    using catalogue_waits [OF t assms(1)] .
  then have no: "(templateRisk t = ''low'' \<and> AutoApproveLow s) = False" by auto
  obtain p h i h' u where a: "createApprovalH s p True (httpError ''approval error'' 502) h = (Inr i, h')"
    and e: "auditEvent s r ''workflow.start'' ''allow'' (GMap [(''plan_id'', GStr p), (''workflow'', GStr name)]) [] h' = (u, g')"
    and d: "doc = GMap [(''plan_id'', GStr p), (''status'', GStr ''ok'')]"
    using run
    unfolding handleWorkflowStart_def t option.case bindH_okH Let_def
    by (simp only: no risk(1) if_True if_False not_False_eq_True simp_thms workflowApproval_external [OF risk(2)])
      (auto simp: bindH_Inr okH_Inr)
  have "approvalsT (tables (gwDB g')) = approvalsT (tables (gwDB h'))"
    using onlyAudits_audit(1) e by (intro approvals_beyondAudit) (metis onlyAudits_def snd_conv)
  moreover have "gwCreateApproval s p True h = (Inr i, h')"
    using a by (auto simp: createApprovalH_def split: prod.splits sum.splits)
  ultimately show ?thesis using gwCreateApproval_pending(1) d by (simp add: gstr_def)
qed

end
