(* ===== verification/Context_Api.thy ===== *)
theory Context_Api
  imports Handler_Logic Event_Loop
begin

text \<open>
  The gateway's view of the context graph: \<open>internal/web/context_snapshots.go\<close>, the context
  handlers of \<open>internal/web/http.go\<close> and the listings of \<open>internal/db\<close> behind them
  (\<open>ListContextServices\<close>, \<open>ListContextSnapshots\<close>). These handlers work on the gateway's state and
  the context tables together. The order in which Go ranges over a map is the parameter \<open>ord\<close>,
  applied to the keys in order of insertion.
\<close>

section \<open>Handlers over both stores\<close>

type_synonym 'a cact = "Gateway \<times> ContextDB \<Rightarrow> (reply + 'a) \<times> (Gateway \<times> ContextDB)"

definition bindC :: "'a cact \<Rightarrow> ('a \<Rightarrow> 'b cact) \<Rightarrow> 'b cact" where
  "bindC m f st = (case m st of (Inl r, st') \<Rightarrow> (Inl r, st') | (Inr x, st') \<Rightarrow> f x st')"

definition gwC :: "'a act \<Rightarrow> 'a cact" where
  "gwC m st = (case m (fst st) of (r, g) \<Rightarrow> (r, (g, snd st)))"

definition cxC :: "(ContextDB, 'a) op \<Rightarrow> reply \<Rightarrow> 'a cact" where
  "cxC m rep st =
    (case m (snd st) of (Inl _, d) \<Rightarrow> (Inl rep, (fst st, d)) | (Inr x, d) \<Rightarrow> (Inr x, (fst st, d)))"

definition replyOfC :: "reply cact \<Rightarrow> Gateway \<times> ContextDB \<Rightarrow> reply" where
  "replyOfC m st = (case fst (m st) of Inl r \<Rightarrow> r | Inr r \<Rightarrow> r)"

section \<open>Listings\<close>

definition labelsDoc :: "(string \<times> string) list option \<Rightarrow> gval" where
  "labelsDoc l = (case l of None \<Rightarrow> GNil | Some m \<Rightarrow> GMap (map (\<lambda>(k, v). (k, GStr v)) m))"

definition serviceDoc :: "Node \<Rightarrow> gmap" where
  "serviceDoc n =
     [(''service_id'', GStr (NdID n)), (''name'', GStr (NdName n)),
      (''owner_team'', docOf (map_option GStr (nullString (NdTeam n)))), (''labels'', labelsDoc (NdLabels n))]"

definition ListContextServices :: "int \<Rightarrow> int \<Rightarrow> (ContextDB, gval list \<times> nat) op" where
  "ListContextServices limit0 offset0 =
    (let (limit, offset) = clampPagination limit0 offset0 in
     cxStep (\<lambda>d.
       let svcs = filter (\<lambda>n. NdKind n = ''service'') (cxNodes d) in
       (Inr (map (\<lambda>n. GMap (serviceDoc n)) (take (nat limit) (drop (nat offset) (sort_key NdName svcs))),
             length svcs), d)))"

definition snapshotListDoc :: "SnapRow \<Rightarrow> gmap" where
  "snapshotListDoc r =
     [(''snapshot_id'', GStr (SpID r)), (''source'', GStr (SpSource r)),
      (''collected_at'', GStr (showNat (SpCollectedAt r))), (''labels'', labelsDoc (SpLabels r))]"

definition ListContextSnapshots :: "int \<Rightarrow> int \<Rightarrow> (ContextDB, gval list \<times> nat) op" where
  "ListContextSnapshots limit offset =
     cxStep (\<lambda>d. (Inr (map (\<lambda>r. GMap (snapshotListDoc r)) (pageDesc SpCollectedAt limit offset (cxSnaps d)),
                       length (cxSnaps d)), d))"

text \<open>The two list handlers differ in the action and the query.\<close>

definition labelListC ::
  "(int \<Rightarrow> int \<Rightarrow> (ContextDB, gval list \<times> nat) op) \<Rightarrow> string \<Rightarrow> Server \<Rightarrow> Request \<Rightarrow> reply cact" where
  "labelListC list action s r =
     bindC (gwC (checkH (rqMethod r = ''GET'') (405, GNil))) (\<lambda>_.
     bindC (gwC (headerTenantH r)) (\<lambda>tenantID.
     bindC (gwC (tenantReadH s r action tenantID (GMap []))) (\<lambda>_.
     let (limit, offset) = parsePagination r in
     bindC (cxC (list limit offset) (httpError ''db error'' 500)) (\<lambda>(docs, n).
     case decodeItems (GList docs) of
       Inl _ \<Rightarrow> gwC (stopH (httpError ''decode error'' 500))
     | Inr items \<Rightarrow>
         gwC (okH (paginatedResponse (GList (map GMap (filterItemsByLabelTenant items tenantID False)))
                     limit offset n))))))"

definition handleContextServices :: "Server \<Rightarrow> Request \<Rightarrow> reply cact" where
  "handleContextServices = labelListC ListContextServices ''context.services''"

definition handleContextSnapshots :: "Server \<Rightarrow> Request \<Rightarrow> reply cact" where
  "handleContextSnapshots = labelListC ListContextSnapshots ''context.snapshots''"

section \<open>One snapshot, and the difference of two\<close>

definition snapshotDoc :: "SnapRow \<Rightarrow> gmap" where
  "snapshotDoc r =
     [(''snapshot_id'', GStr (SpID r)), (''source'', GStr (SpSource r)),
      (''collected_at'', GStr (showNat (SpCollectedAt r))), (''nodes'', GList (map nodeDoc (SpNodes r))),
      (''edges'', GList (map edgeDoc (SpEdges r))), (''labels'', labelsDoc (SpLabels r))]"

definition snapshotTenant :: "SnapRow \<Rightarrow> string" where
  "snapshotTenant r = tenantFromLabels [(''labels'', labelsDoc (SpLabels r))]"

text \<open>A map from identifiers: the last of several elements with one identifier stays.\<close>

definition byID :: "('x \<Rightarrow> string) \<Rightarrow> 'x list \<Rightarrow> string \<Rightarrow> 'x option" where
  "byID key xs = map_of (rev (map (\<lambda>x. (key x, x)) (filter (\<lambda>x. key x \<noteq> []) xs)))"

definition idsOf :: "('x \<Rightarrow> string) \<Rightarrow> 'x list \<Rightarrow> string list" where
  "idsOf key xs = rev (remdups (rev (map key (filter (\<lambda>x. key x \<noteq> []) xs))))"

text \<open>The elements of \<open>xs\<close> whose identifier is not one of \<open>ys\<close>.\<close>

definition onlyIn :: "(string list \<Rightarrow> string list) \<Rightarrow> ('x \<Rightarrow> string) \<Rightarrow> 'x list \<Rightarrow> 'x list \<Rightarrow> 'x list" where
  "onlyIn ord key xs ys =
     map (\<lambda>i. the (byID key xs i)) (filter (\<lambda>i. byID key ys i = None) (ord (idsOf key xs)))"

definition diffNodes ::
  "(string list \<Rightarrow> string list) \<Rightarrow> Node list \<Rightarrow> Node list \<Rightarrow> Node list \<times> Node list" where
  "diffNodes ord current base = (onlyIn ord NdID current base, onlyIn ord NdID base current)"

definition diffEdges ::
  "(string list \<Rightarrow> string list) \<Rightarrow> Edge list \<Rightarrow> Edge list \<Rightarrow> Edge list \<times> Edge list" where
  "diffEdges ord current base = (onlyIn ord EgID current base, onlyIn ord EgID base current)"

definition nilList :: "gval list \<Rightarrow> gval" where
  "nilList vs = (if vs = [] then GNil else GList vs)"

definition diffSnapshots :: "(string list \<Rightarrow> string list) \<Rightarrow> SnapRow \<Rightarrow> SnapRow \<Rightarrow> gmap" where
  "diffSnapshots ord current base =
    (let (addedNodes, removedNodes) = diffNodes ord (SpNodes current) (SpNodes base);
         (addedEdges, removedEdges) = diffEdges ord (SpEdges current) (SpEdges base) in
     [(''added_nodes'', nilList (map nodeDoc addedNodes)), (''removed_nodes'', nilList (map nodeDoc removedNodes)),
      (''added_edges'', nilList (map edgeDoc addedEdges)), (''removed_edges'', nilList (map edgeDoc removedEdges))])"

definition ownSnapshotC :: "string \<Rightarrow> SnapRow list \<Rightarrow> unit cact" where
  "ownSnapshotC tenantID rows =
     gwC (checkH (\<forall>r \<in> set rows. tenantMatch (snapshotTenant r) tenantID False) notFound)"

definition snapshotC :: "string \<Rightarrow> SnapRow option cact" where
  "snapshotC i = cxC (GetContextSnapshot i) (httpError ''db error'' 500)"

definition handleContextSnapshotByID :: "(string list \<Rightarrow> string list) \<Rightarrow> Server \<Rightarrow> Request \<Rightarrow> reply cact" where
  "handleContextSnapshotByID ord s r =
     bindC (gwC (checkH (rqMethod r = ''GET'') (405, GNil))) (\<lambda>_.
     bindC (gwC (headerTenantH r)) (\<lambda>tenantID.
     let parts = splitChar CHR ''/'' (trimSlashes (TrimPrefix (rqPath r) ''/v1/context/snapshots/''));
         snapshotID = hd parts in
     bindC (gwC (checkH (snapshotID \<noteq> []) (httpError ''snapshot_id required'' 400))) (\<lambda>_.
     if length parts = 1 then
       bindC (gwC (tenantReadH s r ''context.snapshot.get'' tenantID (idDoc ''snapshot_id'' snapshotID))) (\<lambda>_.
       bindC (snapshotC snapshotID) (\<lambda>p.
       case p of
         None \<Rightarrow> gwC (stopH notFound)
       | Some row \<Rightarrow> bindC (ownSnapshotC tenantID [row]) (\<lambda>_. gwC (okH (200, GMap (snapshotDoc row))))))
     else if length parts = 2 \<and> parts ! 1 = ''diff'' then
       bindC (gwC (tenantReadH s r ''context.snapshot.diff'' tenantID (idDoc ''snapshot_id'' snapshotID))) (\<lambda>_.
       let baseID = TrimSpace (getOr (rqQuery r) ''base'') in
       bindC (gwC (checkH (baseID \<noteq> []) (httpError ''base snapshot required'' 400))) (\<lambda>_.
       bindC (snapshotC snapshotID) (\<lambda>a.
       bindC (snapshotC baseID) (\<lambda>b.
       case (a, b) of
         (Some current, Some base) \<Rightarrow>
           bindC (ownSnapshotC tenantID [current, base]) (\<lambda>_.
           gwC (okH (200, GMap (diffSnapshots ord current base @
             [(''snapshot_id'', GStr snapshotID), (''base_snapshot_id'', GStr baseID)]))))
       | _ \<Rightarrow> gwC (stopH notFound)))))
     else gwC (stopH (httpError ''invalid snapshot path'' 400)))))"

section \<open>Refresh and graph\<close>

fun decodeLabelList :: "gmap \<Rightarrow> (string \<times> string) list result" where
  "decodeLabelList [] = Inr []"
| "decodeLabelList ((k, v) # m) =
     bindR (decodeStr (Some v)) (\<lambda>x. bindR (decodeLabelList m) (\<lambda>rest. Inr ((k, x) # rest)))"

fun decodeLabels :: "gval option \<Rightarrow> (string \<times> string) list option result" where
  "decodeLabels None = Inr None"
| "decodeLabels (Some GNil) = Inr None"
| "decodeLabels (Some (GMap m)) = bindR (decodeLabelList m) (\<lambda>l. Inr (Some l))"
| "decodeLabels (Some _) = Inl ''json: cannot unmarshal''"

definition decodeNode :: "gval \<Rightarrow> Node result" where
  "decodeNode v =
     bindR (decodeObj v) (\<lambda>m.
     bindR (decodeStr (jsonField m ''node_id'')) (\<lambda>i.
     bindR (decodeStr (jsonField m ''kind'')) (\<lambda>kind.
     bindR (decodeStr (jsonField m ''name'')) (\<lambda>name.
     bindR (decodeLabels (jsonField m ''labels'')) (\<lambda>labels.
     bindR (decodeStr (jsonField m ''owner_team'')) (\<lambda>team.
       Inr \<lparr>NdID = i, NdKind = kind, NdName = name, NdLabels = labels, NdTeam = team\<rparr>))))))"

definition decodeEdge :: "gval \<Rightarrow> Edge result" where
  "decodeEdge v =
     bindR (decodeObj v) (\<lambda>m.
     bindR (decodeStr (jsonField m ''edge_id'')) (\<lambda>i.
     bindR (decodeStr (jsonField m ''from_node_id'')) (\<lambda>from.
     bindR (decodeStr (jsonField m ''to_node_id'')) (\<lambda>to.
     bindR (decodeStr (jsonField m ''relation'')) (\<lambda>rel.
       Inr \<lparr>EgID = i, EgFrom = from, EgTo = to, EgRelation = rel\<rparr>)))))"

record ContextRefreshRequest =
  CrqService :: string
  CrqNodes :: "Node list"
  CrqEdges :: "Edge list"

definition decodeContextRefresh :: "gval \<Rightarrow> ContextRefreshRequest result" where
  "decodeContextRefresh v =
     bindR (decodeObj v) (\<lambda>m.
     bindR (decodeStr (jsonField m ''service'')) (\<lambda>service.
     bindR (decodeSlice decodeNode (anyField m ''nodes'')) (\<lambda>nodes.
     bindR (decodeSlice decodeEdge (anyField m ''edges'')) (\<lambda>edges.
       Inr \<lparr>CrqService = service, CrqNodes = nodes, CrqEdges = edges\<rparr>))))"

text \<open>An empty body (\<open>io.EOF\<close>) is a request without data.\<close>

definition refreshBodyH :: "Server \<Rightarrow> Request \<Rightarrow> ContextRefreshRequest act" where
  "refreshBodyH s r =
    (if rqBody r = [] then okH \<lparr>CrqService = [], CrqNodes = [], CrqEdges = []\<rparr>
     else bodyH s r decodeContextRefresh)"

definition handleContextRefresh ::
  "Snapshot result option list \<Rightarrow> Server \<Rightarrow> Request \<Rightarrow> reply cact" where
  "handleContextRefresh pollers s r =
     bindC (gwC (checkH (rqMethod r = ''POST'') (405, GNil))) (\<lambda>_.
     bindC (gwC (refreshBodyH s r)) (\<lambda>req.
     bindC (gwC (case policyCheck s r ''context.refresh'' ''read'' emptyContext ''read'' 0 of
              Inl e \<Rightarrow> denyH s r ''context.refresh'' (idDoc ''service'' (CrqService req)) e
                        (httpError ''policy denied'' 403)
            | Inr _ \<Rightarrow> okH ())) (\<lambda>_.
     bindC (cxC (if CrqNodes req \<noteq> [] \<or> CrqEdges req \<noteq> []
                 then IngestSnapshot \<lparr>SnapNodes = CrqNodes req, SnapEdges = CrqEdges req\<rparr>
                 else RefreshContext pollers) (httpError ''context error'' 500)) (\<lambda>_.
     bindC (gwC (auditEvent s r ''context.refresh'' ''allow''
              (GMap [(''service'', GStr (CrqService req)), (''node_count'', GInt (int (length (CrqNodes req)))),
                     (''edge_count'', GInt (int (length (CrqEdges req))))]) [])) (\<lambda>_.
     gwC (okH (200, GMap [(''status'', GStr ''ok'')])))))))"

definition handleContextGraph :: "Server \<Rightarrow> Request \<Rightarrow> reply cact" where
  "handleContextGraph s r =
     bindC (gwC (checkH (rqMethod r = ''GET'') (405, GNil))) (\<lambda>_.
     let service = TrimSpace (getOr (rqQuery r) ''service'') in
     bindC (gwC (checkH (service \<noteq> []) (httpError ''service required'' 400))) (\<lambda>_.
     bindC (gwC (readH s r ''context.graph'' (idDoc ''service'' service))) (\<lambda>_.
     bindC (cxC (GetServiceGraph service) (httpError ''context error'' 500)) (\<lambda>graph.
     gwC (okH (200, graphDoc graph))))))"

section \<open>The difference of two snapshots\<close>

definition keysOf :: "('x \<Rightarrow> string) \<Rightarrow> 'x list \<Rightarrow> string set" where
  "keysOf key xs = key ` set xs - {[]}"

lemma byID_Some:
  assumes "byID key xs i = Some x"
  shows "x \<in> set xs \<and> key x = i \<and> i \<noteq> []"
  using map_of_SomeD [OF assms [unfolded byID_def]] by auto

lemma byID_None: "byID key xs i = None \<longleftrightarrow> i \<notin> keysOf key xs"
proof -
  have "fst ` (\<lambda>x. (key x, x)) ` {x \<in> set xs. key x \<noteq> []} = key ` {x \<in> set xs. key x \<noteq> []}"
    by (simp add: image_image)
  then show ?thesis by (auto simp: byID_def keysOf_def map_of_eq_None_iff)
qed

lemma set_idsOf [simp]: "set (idsOf key xs) = keysOf key xs"
  by (auto simp: idsOf_def keysOf_def)

lemma onlyIn_elem:
  assumes "\<And>ks. set (ord ks) = set ks" "x \<in> set (onlyIn ord key xs ys)"
  shows "x \<in> set xs \<and> key x \<in> keysOf key xs - keysOf key ys"
proof -
  obtain i where i: "i \<in> keysOf key xs" "byID key ys i = None" "x = the (byID key xs i)"
    using assms by (auto simp: onlyIn_def)
  have "byID key xs i \<noteq> None" using i(1) by (simp add: byID_None)
  then obtain y where y: "byID key xs i = Some y" by blast
  have "i \<notin> keysOf key ys" using i(2) by (simp add: byID_None)
  with i y byID_Some [OF y] show ?thesis by simp
qed

lemma onlyIn_keys:
  assumes "\<And>ks. set (ord ks) = set ks"
  shows "key ` set (onlyIn ord key xs ys) = keysOf key xs - keysOf key ys"
proof
  show "key ` set (onlyIn ord key xs ys) \<subseteq> keysOf key xs - keysOf key ys"
    by (intro image_subsetI) (rule onlyIn_elem [OF assms, THEN conjunct2])
  show "keysOf key xs - keysOf key ys \<subseteq> key ` set (onlyIn ord key xs ys)"
  proof
    fix i assume i: "i \<in> keysOf key xs - keysOf key ys"
    then obtain y where y: "byID key xs i = Some y" using byID_None [of key xs i] by auto
    have "i \<in> set (filter (\<lambda>i. byID key ys i = None) (ord (idsOf key xs)))"
      using i assms by (simp add: byID_None)
    then have "the (byID key xs i) \<in> set (onlyIn ord key xs ys)" unfolding onlyIn_def by simp
    then have "y \<in> set (onlyIn ord key xs ys)" by (simp add: y)
    with byID_Some [OF y] show "i \<in> key ` set (onlyIn ord key xs ys)" by blast
  qed
qed

text \<open>Taking the removed identifiers away from the base and adding the added ones gives the current ones.\<close>

lemma onlyIn_apply:
  assumes "\<And>ks. set (ord ks) = set ks"
  shows "(keysOf key base - key ` set (onlyIn ord key base current)) \<union> key ` set (onlyIn ord key current base)
    = keysOf key current"
  unfolding onlyIn_keys [OF assms] by blast

section \<open>Reads stay within the tenant\<close>

definition outcomeC :: "(reply \<Rightarrow> bool) \<Rightarrow> ('a \<Rightarrow> bool) \<Rightarrow> 'a cact \<Rightarrow> bool" where
  "outcomeC P Q a \<longleftrightarrow> (\<forall>st. case fst (a st) of Inl rep \<Rightarrow> P rep | Inr x \<Rightarrow> Q x)"

named_theorems outcomesC

lemma outcomeC_reply: "outcomeC P P a \<Longrightarrow> P (replyOfC a st)"
  unfolding outcomeC_def replyOfC_def by (cases "fst (a st)") (metis sum.case)+

lemma outcomeC_bindC [outcomesC]: "outcomeC P (\<lambda>x. outcomeC P R (f x)) m \<Longrightarrow> outcomeC P R (bindC m f)"
  unfolding outcomeC_def bindC_def by (auto split: prod.splits sum.splits) (metis fst_conv sum.case)+

lemma outcomeC_gwC [outcomesC]: "outcome P Q m \<Longrightarrow> outcomeC P Q (gwC m)"
  by (auto simp: outcome_def outcomeC_def gwC_def split: prod.splits) (metis fst_conv)

lemma outcomeC_cxC [outcomesC]: "P rep \<Longrightarrow> (\<And>d x d'. m d = (Inr x, d') \<Longrightarrow> Q x) \<Longrightarrow> outcomeC P Q (cxC m rep)"
  by (auto simp: outcomeC_def cxC_def split: prod.splits sum.splits)

lemma outcomeC_if [outcomesC]:
  "(b \<Longrightarrow> outcomeC P Q m) \<Longrightarrow> (\<not> b \<Longrightarrow> outcomeC P Q m') \<Longrightarrow> outcomeC P Q (if b then m else m')"
  by simp

lemma outcomeC_option [outcomesC]:
  "(v = None \<Longrightarrow> outcomeC P Q F) \<Longrightarrow> (\<And>x. v = Some x \<Longrightarrow> outcomeC P Q (G x)) \<Longrightarrow>
   outcomeC P Q (case v of None \<Rightarrow> F | Some x \<Rightarrow> G x)"
  by (cases v) auto

lemma outcomeC_sum [outcomesC]:
  "(\<And>e. v = Inl e \<Longrightarrow> outcomeC P Q (F e)) \<Longrightarrow> (\<And>x. v = Inr x \<Longrightarrow> outcomeC P Q (G x)) \<Longrightarrow>
   outcomeC P Q (case v of Inl e \<Rightarrow> F e | Inr x \<Rightarrow> G x)"
  by (cases v) auto

lemma outcomeC_pair [outcomesC]:
  "(\<And>x y. p = (x, y) \<Longrightarrow> outcomeC P Q (F x y)) \<Longrightarrow> outcomeC P Q (case p of (x, y) \<Rightarrow> F x y)"
  by (cases p) auto

lemma outcomeC_Let [outcomesC]: "(\<And>x. x = v \<Longrightarrow> outcomeC P Q (F x)) \<Longrightarrow> outcomeC P Q (let x = v in F x)"
  by simp

lemma labelListC_own:
  "outcomeC (showsOnly tenantFromLabels (TrimSpace (header r ''X-Tenant-Id'')))
     (showsOnly tenantFromLabels (TrimSpace (header r ''X-Tenant-Id''))) (labelListC list action s r)"
  unfolding labelListC_def
  by (intro outcomesC outcomes showsOnly_page)
    (auto dest: by_labels.keep_sound(3) simp: TrimSpace_idem)

lemma handleContextSnapshotByID_own:
  "outcomeC (\<lambda>rep. fst rep = 200 \<longrightarrow> P rep) (\<lambda>rep. fst rep = 200 \<longrightarrow> P rep) (handleContextSnapshotByID ord s r)"
  if one: "\<And>row. snapshotTenant row = TrimSpace (header r ''X-Tenant-Id'') \<Longrightarrow> P (200, GMap (snapshotDoc row))"
    and two: "\<And>a b i j. snapshotTenant a = TrimSpace (header r ''X-Tenant-Id'') \<Longrightarrow>
      snapshotTenant b = TrimSpace (header r ''X-Tenant-Id'') \<Longrightarrow>
      P (200, GMap (diffSnapshots ord a b @ [(''snapshot_id'', GStr i), (''base_snapshot_id'', GStr j)]))"
proof -
  have own: "snapshotTenant row = TrimSpace t" if "tenantMatch (snapshotTenant row) t False" for row t
    using that by (auto simp: tenantMatch_def snapshotTenant_def tenantFromLabels_def TrimSpace_idem Let_def
        split: if_splits)
  show ?thesis
    unfolding handleContextSnapshotByID_def snapshotC_def ownSnapshotC_def
    by (intro outcomesC outcomes) (auto simp: httpError_def notFound_def TrimSpace_idem dest!: own intro!: one two)
qed

section \<open>The stored graph stays a graph\<close>

lemma wfGraph_bindC:
  assumes "wfGraph (snd st)" "\<And>st. wfGraph (snd st) \<Longrightarrow> wfGraph (snd (snd (m st)))"
    and "\<And>x st. wfGraph (snd st) \<Longrightarrow> wfGraph (snd (snd (f x st)))"
  shows "wfGraph (snd (snd (bindC m f st)))"
proof -
  obtain r st' where m: "m st = (r, st')" by (cases "m st")
  have "wfGraph (snd st')" using assms(2) [OF assms(1)] by (simp add: m)
  with assms(3) show ?thesis by (cases r) (simp_all add: bindC_def m)
qed

lemma wfGraph_gwC: "wfGraph (snd st) \<Longrightarrow> wfGraph (snd (snd (gwC m st)))"
  by (simp add: gwC_def split: prod.splits)

lemma wfGraph_cxC: "wfGraph (snd st) \<Longrightarrow> preserves wfGraph m \<Longrightarrow> wfGraph (snd (snd (cxC m rep st)))"
  using preservesD [of wfGraph m "snd st"] by (auto simp: cxC_def split: prod.splits sum.splits)

lemma wfGraph_refresh:
  "wfGraph (snd st) \<Longrightarrow> wfGraph (snd (snd (handleContextRefresh pollers s r st)))"
  unfolding handleContextRefresh_def
  by (intro wfGraph_bindC wfGraph_gwC wfGraph_cxC keeps)

end
