(* ===== verification/Audit_Trail.thy ===== *)
theory Audit_Trail
  imports Handler_Logic
begin

text \<open>
  The audit trail as it is read back: \<open>ListAuditEvents\<close> of \<open>internal/db/audit_context.go\<close> and
  the handler of \<open>GET /v1/audit/events\<close> (\<open>handleAuditEvents\<close>, \<open>parseAuditFilter\<close> in
  \<open>internal/web/http.go\<close>). Writing is \<open>auditEvent\<close> of the gateway. How PostgreSQL renders a
  number, a list or an object as text (\<open>->>\<close>) is the parameter \<open>render\<close>; a zero time is \<open>None\<close>.
\<close>

section \<open>The query\<close>

record AuditFilter =
  AfTenant :: string
  AfFrom :: "nat option"
  AfTo :: "nat option"
  AfActor :: string
  AfAction :: string
  AfDecision :: string
  AfLimit :: int
  AfOffset :: int

definition jsonArrow :: "gval \<Rightarrow> string \<Rightarrow> gval" where
  "jsonArrow v k = (case v of GMap m \<Rightarrow> gget m k | _ \<Rightarrow> GNil)"

definition jsonText :: "(gval \<Rightarrow> string) \<Rightarrow> gval \<Rightarrow> string option" where
  "jsonText render v = (case v of GNil \<Rightarrow> None | GStr s \<Rightarrow> Some s | _ \<Rightarrow> Some (render v))"

definition auditTenant :: "(gval \<Rightarrow> string) \<Rightarrow> string \<Rightarrow> gval \<Rightarrow> bool" where
  "auditTenant render t ctx \<longleftrightarrow>
     jsonText render (jsonArrow ctx ''tenant_id'') = Some t \<or>
     jsonText render (jsonArrow (jsonArrow ctx ''context'') ''tenant_id'') = Some t \<or>
     jsonText render (jsonArrow (jsonArrow ctx ''labels'') ''tenant_id'') = Some t"

definition auditMatches :: "(gval \<Rightarrow> string) \<Rightarrow> AuditFilter \<Rightarrow> AuditRow \<Rightarrow> bool" where
  "auditMatches render f r \<longleftrightarrow>
     (AfTenant f \<noteq> [] \<longrightarrow> auditTenant render (AfTenant f) (AuContext r)) \<and>
     (case AfFrom f of None \<Rightarrow> True | Some t \<Rightarrow> t \<le> AuOccurredAt r) \<and>
     (case AfTo f of None \<Rightarrow> True | Some t \<Rightarrow> AuOccurredAt r \<le> t) \<and>
     (AfActor f \<noteq> [] \<longrightarrow> jsonText render (jsonArrow (AuActor r) ''id'') = Some (AfActor f)) \<and>
     (AfAction f \<noteq> [] \<longrightarrow> AuAction r = AfAction f) \<and>
     (AfDecision f \<noteq> [] \<longrightarrow> AuDecision r = AfDecision f)"

definition auditRowDoc :: "AuditRow \<Rightarrow> gmap" where
  "auditRowDoc r =
     [(''event_id'', GStr (AuID r)), (''occurred_at'', GStr (showNat (AuOccurredAt r))),
      (''actor'', AuActor r), (''action'', GStr (AuAction r)), (''decision'', GStr (AuDecision r)),
      (''context'', AuContext r), (''evidence_refs'', AuEvidence r), (''hash'', GStr (AuHash r))]"

text \<open>The total is read off the page: a page past the end has total 0.\<close>

definition ListAuditEvents :: "(gval \<Rightarrow> string) \<Rightarrow> AuditFilter \<Rightarrow> (DB, gval list \<times> nat) op" where
  "ListAuditEvents render f = query (\<lambda>t.
     let rows = filter (auditMatches render f) (auditT t);
         paged = pageDesc AuOccurredAt (AfLimit f) (AfOffset f) rows in
     Inr (map (\<lambda>r. GMap (auditRowDoc r)) paged, if paged = [] then 0 else length rows))"

section \<open>The handler\<close>

definition queryTime :: "Server \<Rightarrow> Request \<Rightarrow> string \<Rightarrow> nat option result" where
  "queryTime s r k =
    (let v = getOr (rqQuery r) k in
     if v = [] then Inr None else bindR (srvParseTime s v) (\<lambda>t. Inr (Some t)))"

definition parseAuditFilter :: "Server \<Rightarrow> Request \<Rightarrow> AuditFilter result" where
  "parseAuditFilter s r =
     bindR (queryTime s r ''from'') (\<lambda>from.
     bindR (queryTime s r ''to'') (\<lambda>to.
     let (limit, offset) = parsePagination r in
     Inr \<lparr>AfTenant = TrimSpace (getOr (rqQuery r) ''tenant_id''), AfFrom = from, AfTo = to,
          AfActor = getOr (rqQuery r) ''actor_id'', AfAction = getOr (rqQuery r) ''action'',
          AfDecision = getOr (rqQuery r) ''decision'', AfLimit = limit, AfOffset = offset\<rparr>))"

definition handleAuditEvents :: "(gval \<Rightarrow> string) \<Rightarrow> Server \<Rightarrow> Request \<Rightarrow> reply act" where
  "handleAuditEvents render s r =
     bindH (checkH (rqMethod r = ''GET'') (405, GNil)) (\<lambda>_.
     bindH (case parseAuditFilter s r of
              Inl _ \<Rightarrow> stopH (httpError ''invalid query'' 400) | Inr f \<Rightarrow> okH f) (\<lambda>f.
     bindH (resolveTenantH (AfTenant f) r) (\<lambda>tenantID.
     bindH (tenantReadH s r ''audit.list'' tenantID (idDoc ''tenant_id'' tenantID)) (\<lambda>_.
     bindH (dbH (ListAuditEvents render (f\<lparr>AfTenant := tenantID\<rparr>)) (httpError ''db error'' 500)) (\<lambda>(docs, n).
     okH (paginatedResponse (GList docs) (AfLimit f) (AfOffset f) n))))))"

section \<open>What was recorded can be found\<close>

definition auditFound :: "(gval \<Rightarrow> string) \<Rightarrow> AuditFilter \<Rightarrow> Gateway \<Rightarrow> AuditRow list" where
  "auditFound render f g = filter (auditMatches render f) (auditT (tables (gwDB g)))"

lemma auditPayload_absent:
  "jsonField (auditPayloadDoc s r a d c n) ''hash'' = None"
  "jsonField (auditPayloadDoc s r a d c n) ''evidence_refs'' = None"
proof -
  have ne: "\<not> EqualFold k ''hash'' \<and> \<not> EqualFold k ''evidence_refs''"
    if "k \<in> {''occurred_at'', ''actor'', ''action'', ''decision'', ''context'', ''note''}" for k
    using that by (elim insertE emptyE; hypsubst) code_simp+
  show "jsonField (auditPayloadDoc s r a d c n) ''hash'' = None"
    "jsonField (auditPayloadDoc s r a d c n) ''evidence_refs'' = None"
    using ne by (simp_all add: auditPayloadDoc_def jsonField_def)
qed

lemma auditPayload_present:
  "jsonField (auditPayloadDoc s r a d c n) ''occurred_at'' = Some (GStr (srvStamp s))"
  "jsonField (auditPayloadDoc s r a d c n) ''actor'' = Some (actorDoc (rqActor r))"
  "jsonField (auditPayloadDoc s r a d c n) ''action'' = Some (GStr a)"
  "jsonField (auditPayloadDoc s r a d c n) ''decision'' = Some (GStr d)"
  "jsonField (auditPayloadDoc s r a d c n) ''context'' = Some c"
  by (simp_all add: auditPayloadDoc_def jsonField_def)

definition recorded :: "Server \<Rightarrow> Request \<Rightarrow> string \<Rightarrow> string \<Rightarrow> gval \<Rightarrow> string \<Rightarrow> nat \<Rightarrow> AuditRow" where
  "recorded s r action decision ctx i now =
     \<lparr>AuID = i, AuOccurredAt = now, AuActor = actorDoc (rqActor r), AuAction = orStr ''unknown'' action,
      AuDecision = orStr ''allow'' decision, AuContext = ctx, AuEvidence = GList [], AuHash = []\<rparr>"

text \<open>An audit call adds the row, or nothing when the statement fails or the stamp is not a time.\<close>

lemma auditEvent_rows:
  assumes "auditEvent s r action decision ctx note g = (x, g')"
  shows "auditT (tables (gwDB g')) = auditT (tables (gwDB g)) \<or>
    (\<exists>i now. auditT (tables (gwDB g')) = auditT (tables (gwDB g)) @ [recorded s r action decision ctx i now])"
  using assms
  by (auto simp: auditEvent_def onGwDB_def InsertAuditEvent_def bindS_def newID_run timeNow_def tryS_def okS_def
      execute_def insertAudit_def auditPayload_absent auditPayload_present orDoc_def recorded_def Let_def bindR_def
      split: prod.splits sum.splits if_splits option.splits)

lemma auditEvent_answered:
  assumes "connFault (gwDB g) = (\<lambda>_. None)" "srvParseTime s (srvStamp s) = Inr now" "srvStamp s \<noteq> []"
    and "''audit_'' @ showNat (clockAt (gwDB g) (clockReads (gwDB g))) \<notin> AuID ` set (auditT (tables (gwDB g)))"
    and "auditEvent s r action decision ctx note g = (x, g')"
  shows "\<exists>i. auditT (tables (gwDB g')) = auditT (tables (gwDB g)) @ [recorded s r action decision ctx i now]"
  using assms
  by (auto simp: auditEvent_def onGwDB_def InsertAuditEvent_def bindS_def newID_run timeNow_def tryS_def okS_def
      execute_def insertAudit_def auditPayload_absent auditPayload_present orDoc_def recorded_def Let_def
      split: prod.splits sum.splits if_splits)

lemma recorded_no_id: "jsonText render (jsonArrow (AuActor (recorded s r a d c i now)) ''id'') = None"
  by (simp add: recorded_def actorDoc_def jsonArrow_def jsonText_def gget_def split: option.splits)

lemma insort_key_snoc: "key x \<le> key y \<Longrightarrow> insort_key key x (zs @ [y]) = insort_key key x zs @ [y]"
  by (induction zs) auto

lemma sort_key_snoc: "(\<And>x. x \<in> set xs \<Longrightarrow> key x \<le> key y) \<Longrightarrow> sort_key key (xs @ [y]) = sort_key key xs @ [y]"
  by (induction xs) (simp_all add: insort_key_snoc)

text \<open>The newest row that matches heads the first page.\<close>

lemma ListAuditEvents_newest:
  assumes "connFault d = (\<lambda>_. None)" "auditT (tables d) = rows @ [row]" "auditMatches render f row"
    and "\<And>r. r \<in> set rows \<Longrightarrow> AuOccurredAt r \<le> AuOccurredAt row" "AfOffset f = 0"
  shows "\<exists>docs d'. ListAuditEvents render f d =
    (Inr (GMap (auditRowDoc row) # docs, Suc (length (filter (auditMatches render f) rows))), d')"
proof -
  let ?rows = "filter (auditMatches render f) rows"
  have s: "rev (sort_key AuOccurredAt (?rows @ [row])) = row # rev (sort_key AuOccurredAt ?rows)"
    using assms(4) by (subst sort_key_snoc) auto
  obtain k where k: "pageDesc AuOccurredAt (AfLimit f) (AfOffset f) (?rows @ [row]) =
      row # take k (rev (sort_key AuOccurredAt ?rows))"
  proof -
    obtain l where l: "clampPagination (AfLimit f) (AfOffset f) = (l, 0)" "1 \<le> l"
      using assms(5) by (auto simp: clampPagination_def Let_def)
    then obtain k where "nat l = Suc k" by (cases "nat l") auto
    then show ?thesis using that [of k] unfolding pageDesc_def s l(1) by simp
  qed
  show ?thesis using assms(1,2,3) k by (simp add: ListAuditEvents_def query_def Let_def)
qed

text \<open>A reply of the handler holds only events of the tenant it resolved.\<close>

lemma auditEvent_connFault: "connFault (gwDB (snd (auditEvent s r action decision ctx msg g))) = connFault (gwDB g)"
  by (auto simp: auditEvent_def onGwDB_def InsertAuditEvent_def bindS_def newID_run timeNow_def tryS_def okS_def
      execute_def Let_def split: prod.splits sum.splits if_splits option.splits)

lemma auditEvent_found:
  assumes "connFault (gwDB g) = (\<lambda>_. None)" "srvParseTime s (srvStamp s) = Inr now" "srvStamp s \<noteq> []"
    and "''audit_'' @ showNat (clockAt (gwDB g) (clockReads (gwDB g))) \<notin> AuID ` set (auditT (tables (gwDB g)))"
    and old: "\<forall>row \<in> set (auditT (tables (gwDB g))). AuOccurredAt row \<le> now"
    and run: "auditEvent s r action decision ctx msg g = (x, g')"
  shows "\<exists>row. auditT (tables (gwDB g')) = auditT (tables (gwDB g)) @ [row] \<and>
    AuOccurredAt row = now \<and> AuActor row = actorDoc (rqActor r) \<and> AuAction row = orStr ''unknown'' action \<and>
    AuDecision row = orStr ''allow'' decision \<and> AuContext row = ctx \<and>
    (\<forall>f. AfOffset f = 0 \<and> auditMatches render f row \<longrightarrow>
       (\<exists>docs n d'. ListAuditEvents render f (gwDB g') = (Inr (GMap (auditRowDoc row) # docs, n), d'))) \<and>
    (\<forall>f. AfActor f \<noteq> [] \<longrightarrow> \<not> auditMatches render f row)"
proof -
  obtain i where rows: "auditT (tables (gwDB g')) = auditT (tables (gwDB g)) @ [recorded s r action decision ctx i now]"
    using auditEvent_answered [OF assms(1-4) run] by blast
  let ?row = "recorded s r action decision ctx i now"
  have conn: "connFault (gwDB g') = (\<lambda>_. None)"
    using auditEvent_connFault [of s r action decision ctx msg g] assms(1) run by simp
  have "\<exists>docs n d'. ListAuditEvents render f (gwDB g') = (Inr (GMap (auditRowDoc ?row) # docs, n), d')"
    if "AfOffset f = 0" "auditMatches render f ?row" for f
    using ListAuditEvents_newest [OF conn rows that(2) _ that(1)] old by (auto simp: recorded_def)
  moreover have "\<not> auditMatches render f ?row" if "AfActor f \<noteq> []" for f
    using that recorded_no_id by (simp add: auditMatches_def)
  ultimately show ?thesis using rows by (intro exI [of _ ?row]) (auto simp: recorded_def)
qed

lemma handleAuditEvents_own:
  assumes "replyOf (handleAuditEvents render s r) g = ((200, doc), g')"
  shows "\<exists>t. TrimSpace t = t \<and> t \<noteq> [] \<and> (TrimSpace (header r ''X-Tenant-Id'') = [] \<or> t = TrimSpace (header r ''X-Tenant-Id'')) \<and>
     (\<forall>i \<in> set (replyItems doc). auditTenant render t (gget i ''context''))"
proof -
  let ?P = "\<lambda>rep. fst rep = 200 \<longrightarrow> (\<exists>t. TrimSpace t = t \<and> t \<noteq> [] \<and>
     (TrimSpace (header r ''X-Tenant-Id'') = [] \<or> t = TrimSpace (header r ''X-Tenant-Id'')) \<and>
     (\<forall>i \<in> set (replyItems (snd rep)). auditTenant render t (gget i ''context'')))"
  have page: "?P (paginatedResponse (GList docs) l off n)"
    if t: "resolveTenant b (header r ''X-Tenant-Id'') = Inr t"
      and ret: "returns (ListAuditEvents render (f\<lparr>AfTenant := t\<rparr>)) (docs, n)" for b t f docs n l off
  proof -
    let ?f = "f\<lparr>AfTenant := t\<rparr>"
    obtain tb where "(Inr (docs, n) :: (gval list \<times> nat) result) =
        (let rows = filter (auditMatches render ?f) (auditT (tb :: Tables));
             paged = pageDesc AuOccurredAt (AfLimit ?f) (AfOffset ?f) rows in
         Inr (map (\<lambda>r. GMap (auditRowDoc r)) paged, if paged = [] then 0 else length rows))"
      using returns_query [OF ret [unfolded ListAuditEvents_def]] by metis
    then obtain rows where docs: "docs = map GMap (map auditRowDoc rows)"
      and rows: "rows = pageDesc AuOccurredAt (AfLimit ?f) (AfOffset ?f) (filter (auditMatches render ?f) (auditT tb))"
      by (simp add: Let_def comp_def)
    have rows: "\<forall>row \<in> set rows. auditMatches render ?f row"
      unfolding rows pageDesc_def by (auto split: prod.splits dest!: in_set_takeD in_set_dropD)
    have "auditTenant render t (gget i ''context'')" if "i \<in> set (map auditRowDoc rows)" for i
      using that rows resolveTenant_ok(1) [OF t] by (auto simp: auditMatches_def auditRowDoc_def)
    then show ?thesis
      using resolveTenant_ok [OF t] unfolding docs paginatedResponse_def
      by (intro impI exI [of _ t]) (auto simp del: map_map)
  qed
  have "outcome ?P ?P (handleAuditEvents render s r)"
    unfolding handleAuditEvents_def resolveTenantH_def
    by (intro outcomes; (rule page, assumption+)?) (auto simp: httpError_def)
  from outcome_replyOf [OF this assms] show ?thesis by simp
qed

end
