(* ===== verification/Streams.thy ===== *)
theory Streams
  imports Handler_Logic "HOL-Library.Word"
begin

text \<open>
  The live streams of the gateway: websocket frames and handshake (\<open>internal/web/ws.go\<close>),
  server-sent events and the log stream (\<open>internal/web/sse.go\<close>). A stream handler either answers
  with an error or leaves a subscription in the hub; what is sent for each message is a function
  of the message. SHA-1 with base64, the JSON encoder and the time stamp are parameters, and
  whether the connection can be hijacked or flushed is an argument.
\<close>

section \<open>Websocket frames\<close>

type_synonym byte = "8 word"

definition byteOf :: "nat \<Rightarrow> byte" where
  "byteOf n = word_of_nat n"

definition frameHeader :: "nat \<Rightarrow> byte list" where
  "frameHeader n =
    (if n \<le> 125 then [0x81, byteOf n]
     else if n \<le> 65535 then [0x81, 126, byteOf (n div 2 ^ 8), byteOf n]
     else [0x81, 127,
           byteOf (n div 2 ^ 56), byteOf (n div 2 ^ 48), byteOf (n div 2 ^ 40), byteOf (n div 2 ^ 32),
           byteOf (n div 2 ^ 24), byteOf (n div 2 ^ 16), byteOf (n div 2 ^ 8), byteOf n])"

definition writeTextFrame :: "byte list \<Rightarrow> byte list" where
  "writeTextFrame payload = frameHeader (length payload) @ payload"

text \<open>What a client reads: an unmasked final text frame, the length in network byte order.\<close>

definition bigEndian :: "byte list \<Rightarrow> nat" where
  "bigEndian bs = foldl (\<lambda>n b. n * 256 + unat b) 0 bs"

definition takeExactly :: "nat \<Rightarrow> byte list \<Rightarrow> (byte list \<times> byte list) option" where
  "takeExactly n bs = (if length bs < n then None else Some (take n bs, drop n bs))"

definition readTextFrame :: "byte list \<Rightarrow> (byte list \<times> byte list) option" where
  "readTextFrame bs =
    (case bs of
       b0 # b1 # rest \<Rightarrow>
         if b0 \<noteq> 0x81 then None
         else if unat b1 \<le> 125 then takeExactly (unat b1) rest
         else if b1 = 126 then
           (case takeExactly 2 rest of None \<Rightarrow> None | Some (l, rest') \<Rightarrow> takeExactly (bigEndian l) rest')
         else if b1 = 127 then
           (case takeExactly 8 rest of None \<Rightarrow> None | Some (l, rest') \<Rightarrow> takeExactly (bigEndian l) rest')
         else None
     | _ \<Rightarrow> None)"

section \<open>Handshake\<close>

definition headerValues :: "Request \<Rightarrow> string \<Rightarrow> string list" where
  "headerValues r k = map snd (filter (\<lambda>(k', _). k' = k) (rqHeaders r))"

definition headerHasToken :: "Request \<Rightarrow> string \<Rightarrow> string \<Rightarrow> bool" where
  "headerHasToken r key token \<longleftrightarrow>
     (\<exists>v \<in> set (headerValues r key). \<exists>part \<in> set (splitChar CHR '','' v). EqualFold (TrimSpace part) token)"

definition isWebSocketRequest :: "Request \<Rightarrow> bool" where
  "isWebSocketRequest r \<longleftrightarrow>
     headerHasToken r ''Connection'' ''upgrade'' \<and> EqualFold (header r ''Upgrade'') ''websocket''"

definition wsGUID :: string where
  "wsGUID = ''258EAFA5-E914-47DA-95CA-C5AB0DC85B11''"

definition computeAccept :: "(string \<Rightarrow> string) \<Rightarrow> string \<Rightarrow> string" where
  "computeAccept sha1b64 key = sha1b64 (key @ wsGUID)"

definition crlf :: string where
  "crlf = [CHR 0x0D, CHR 0x0A]"

definition upgradeWebSocket :: "(string \<Rightarrow> string) \<Rightarrow> string option \<Rightarrow> Request \<Rightarrow> string result" where
  "upgradeWebSocket sha1b64 hijackErr r =
    (if \<not> isWebSocketRequest r then Inl ''not websocket''
     else (let key = header r ''Sec-Websocket-Key'' in
       if key = [] then Inl ''missing key''
       else case hijackErr of
         Some e \<Rightarrow> Inl e
       | None \<Rightarrow> Inr (''HTTP/1.1 101 Switching Protocols'' @ crlf @ ''Upgrade: websocket'' @ crlf @
                 ''Connection: Upgrade'' @ crlf @
                 ''Sec-WebSocket-Accept: '' @ computeAccept sha1b64 key @ crlf @ crlf)))"

section \<open>Subscribing\<close>

definition streamSession :: "Server \<Rightarrow> Request \<Rightarrow> string act" where
  "streamSession s r =
    (if SessionRequired s then dbH (requireSession s r) (httpError ''session denied'' 403)
     else okH (sessionIDFromRequest r))"

definition subscribeH :: "string \<Rightarrow> nat act" where
  "subscribeH sessionID g = (let (i, h) = Subscribe sessionID (gwHub g) in (Inr i, g\<lparr>gwHub := h\<rparr>))"

definition handleWS ::
  "(string \<Rightarrow> string) \<Rightarrow> bool \<Rightarrow> string option \<Rightarrow> Server \<Rightarrow> Request \<Rightarrow> (string \<times> string \<times> nat) act" where
  "handleWS sha1b64 canHijack hijackErr s r =
     bindH (checkH (rqMethod r = ''GET'') (405, GNil)) (\<lambda>_.
     bindH (streamSession s r) (\<lambda>sessionID.
     bindH (checkH canHijack (httpError ''hijack unsupported'' 500)) (\<lambda>_.
     bindH (case upgradeWebSocket sha1b64 hijackErr r of
              Inl e \<Rightarrow> stopH (httpError e 400) | Inr hello \<Rightarrow> okH hello) (\<lambda>hello.
     bindH (subscribeH sessionID) (\<lambda>i.
     okH (hello, sessionID, i))))))"

definition wsEvent :: "string \<Rightarrow> Event \<Rightarrow> Event" where
  "wsEvent sessionID ev = (if EvSession ev = [] then ev\<lparr>EvSession := sessionID\<rparr> else ev)"

definition handleEventsSSE :: "bool \<Rightarrow> Server \<Rightarrow> Request \<Rightarrow> (string \<times> nat) act" where
  "handleEventsSSE canFlush s r =
     bindH (checkH (rqMethod r = ''GET'') (405, GNil)) (\<lambda>_.
     bindH (streamSession s r) (\<lambda>sessionID.
     bindH (checkH canFlush (httpError ''stream unsupported'' 500)) (\<lambda>_.
     bindH (subscribeH sessionID) (\<lambda>i.
     okH (sessionID, i)))))"

definition lf :: string where
  "lf = [CHR 0x0A]"

definition sseFrame :: "string \<Rightarrow> string \<Rightarrow> string" where
  "sseFrame name payload = ''event: '' @ name @ lf @ ''data: '' @ payload @ lf @ lf"

definition eventFrame :: "(Event \<Rightarrow> string option) \<Rightarrow> Event \<Rightarrow> string" where
  "eventFrame marshal ev =
    (case marshal ev of
       None \<Rightarrow> []
     | Some payload \<Rightarrow>
         (let name = TrimSpace (EvName ev) in sseFrame (if name = [] then ''event'' else name) payload))"

section \<open>The log stream\<close>

record WebLogLine =
  WlExecution :: string
  WlToolCall :: string
  WlLevel :: string
  WlMessage :: string

definition wantsLine :: "Request \<Rightarrow> WebLogLine \<Rightarrow> bool" where
  "wantsLine r line \<longleftrightarrow>
    (let toolFilter = TrimSpace (getOr (rqQuery r) ''tool_call_id'');
         levelFilter = TrimSpace (getOr (rqQuery r) ''level'') in
     (toolFilter = [] \<or> WlToolCall line = toolFilter) \<and> (levelFilter = [] \<or> WlLevel line = levelFilter))"

text \<open>\<open>writeLine\<close> over a sequence of lines: it stops at the first one that cannot be encoded.\<close>

fun writeLines :: "(WebLogLine \<Rightarrow> string option) \<Rightarrow> Request \<Rightarrow> WebLogLine list \<Rightarrow> string \<times> bool" where
  "writeLines marshal r [] = ([], True)"
| "writeLines marshal r (l # ls) =
    (if \<not> wantsLine r l then writeLines marshal r ls
     else case marshal l of
       None \<Rightarrow> ([], False)
     | Some payload \<Rightarrow> (let (out, ok) = writeLines marshal r ls in (sseFrame ''log'' payload @ out, ok)))"

definition handleExecutionLogs ::
  "(WebLogLine \<Rightarrow> string option) \<Rightarrow> bool \<Rightarrow> Request \<Rightarrow> string \<Rightarrow> WebLogLine LogHub \<Rightarrow>
   (reply + string \<times> nat option) \<times> WebLogLine LogHub" where
  "handleExecutionLogs marshal canFlush r executionID h =
    (if rqMethod r \<noteq> ''GET'' then (Inl (405, GNil), h)
     else if executionID = [] then (Inl (httpError ''missing execution'' 400), h)
     else if \<not> canFlush then (Inl (httpError ''stream unsupported'' 500), h)
     else (let (out, ok) = writeLines marshal r (History h executionID) in
       if \<not> ok then (Inr ('':ok'' @ lf @ lf @ out, None), h)
       else (let (i, h') = Subscribe executionID h in (Inr ('':ok'' @ lf @ lf @ out, Some i), h'))))"

section \<open>Frames are read back\<close>

lemma unat_byteOf: "unat (byteOf n) = n mod 256"
  by (simp add: byteOf_def unat_of_nat)

lemma shift_step:
  assumes "j = k + 8"
  shows "n div 2 ^ j * 256 + n div 2 ^ k mod 256 = (n :: nat) div 2 ^ k"
proof -
  have "n div 2 ^ j = n div 2 ^ k div 256" unfolding assms power_add by (simp add: div_mult2_eq)
  then show ?thesis by simp
qed

lemma shift_last: "n div 2 ^ 8 * 256 + n mod 256 = (n :: nat)"
  by simp

lemma bigEndian_two: "n < 2 ^ 16 \<Longrightarrow> bigEndian [byteOf (n div 2 ^ 8), byteOf n] = n"
  by (simp add: bigEndian_def unat_byteOf)

lemma bigEndian_eight:
  assumes "n < 2 ^ 64"
  shows "bigEndian [byteOf (n div 2 ^ 56), byteOf (n div 2 ^ 48), byteOf (n div 2 ^ 40), byteOf (n div 2 ^ 32),
           byteOf (n div 2 ^ 24), byteOf (n div 2 ^ 16), byteOf (n div 2 ^ 8), byteOf n] = n"
proof -
  have "(2::nat) ^ 64 = 256 * 2 ^ 56" by simp
  with assms have "n div 2 ^ 56 < 256" by (intro less_mult_imp_div_less) simp
  then have top: "n div 2 ^ 56 mod 256 = n div 2 ^ 56" by simp
  have steps: "n div 2 ^ 56 * 256 + n div 2 ^ 48 mod 256 = n div 2 ^ 48"
    "n div 2 ^ 48 * 256 + n div 2 ^ 40 mod 256 = n div 2 ^ 40"
    "n div 2 ^ 40 * 256 + n div 2 ^ 32 mod 256 = n div 2 ^ 32"
    "n div 2 ^ 32 * 256 + n div 2 ^ 24 mod 256 = n div 2 ^ 24"
    "n div 2 ^ 24 * 256 + n div 2 ^ 16 mod 256 = n div 2 ^ 16"
    "n div 2 ^ 16 * 256 + n div 2 ^ 8 mod 256 = n div 2 ^ 8"
    "n div 2 ^ 8 * 256 + n mod 256 = n"
    by (rule shift_step, simp)+ (rule shift_last)
  show ?thesis
    by (simp only: bigEndian_def unat_byteOf foldl.simps mult_zero_left add_0 top steps)
qed

lemma takeExactly_append: "takeExactly (length p) (p @ rest) = Some (p, rest)"
  by (simp add: takeExactly_def)

lemma frame_read:
  assumes "length payload < 2 ^ 64"
  shows "readTextFrame (writeTextFrame payload @ rest) = Some (payload, rest)"
proof -
  let ?n = "length payload"
  consider "?n \<le> 125" | "125 < ?n" "?n \<le> 65535" | "65535 < ?n" by linarith
  then show ?thesis
  proof cases
    case 1
    then have "unat (byteOf ?n) = ?n" by (simp add: unat_byteOf)
    with 1 show ?thesis
      by (simp add: readTextFrame_def writeTextFrame_def frameHeader_def takeExactly_append)
  next
    case 2
    have h: "frameHeader ?n = [0x81, 126, byteOf (?n div 2 ^ 8), byteOf ?n]"
      using 2 by (simp add: frameHeader_def)
    have "takeExactly 2 ([byteOf (?n div 2 ^ 8), byteOf ?n] @ payload @ rest) =
        Some ([byteOf (?n div 2 ^ 8), byteOf ?n], payload @ rest)"
      by (simp add: takeExactly_def)
    with bigEndian_two [of ?n] 2 show ?thesis
      unfolding writeTextFrame_def h by (simp add: readTextFrame_def takeExactly_append)
  next
    case 3
    let ?l = "[byteOf (?n div 2 ^ 56), byteOf (?n div 2 ^ 48), byteOf (?n div 2 ^ 40), byteOf (?n div 2 ^ 32),
           byteOf (?n div 2 ^ 24), byteOf (?n div 2 ^ 16), byteOf (?n div 2 ^ 8), byteOf ?n]"
    have h: "frameHeader ?n = 0x81 # 127 # ?l" using 3 by (simp add: frameHeader_def)
    have "takeExactly 8 (?l @ payload @ rest) = Some (?l, payload @ rest)" by (simp add: takeExactly_def)
    then have "readTextFrame (0x81 # 127 # ?l @ payload @ rest) = takeExactly (bigEndian ?l) (payload @ rest)"
      by (simp only: readTextFrame_def list.case) simp
    then show ?thesis
      unfolding writeTextFrame_def h bigEndian_eight [OF assms] by (simp add: takeExactly_append)
  qed
qed

text \<open>Frames written one after the other are read back one after the other.\<close>

fun readFrames :: "nat \<Rightarrow> byte list \<Rightarrow> byte list list option" where
  "readFrames 0 bs = (if bs = [] then Some [] else None)"
| "readFrames (Suc n) bs =
    (case readTextFrame bs of
       None \<Rightarrow> None
     | Some (p, rest) \<Rightarrow> map_option ((#) p) (readFrames n rest))"

lemma frames_read:
  "\<forall>p \<in> set ps. length p < 2 ^ 64 \<Longrightarrow> readFrames (length ps) (concat (map writeTextFrame ps)) = Some ps"
  by (induction ps) (simp_all add: frame_read)

section \<open>Who gets a stream, and what it misses\<close>

lemma requireSession_member:
  assumes "requireSession s r d = (Inr sid, d')" "SessionRequired s"
  shows "sid = sessionIDFromRequest r \<and> sid \<noteq> [] \<and>
    (\<forall>a. rqActor r = Some a \<longrightarrow> TrimSpace (ActorID a) = [] \<or>
       (\<exists>m \<in> set (membersT (tables d)). MbSession m = TrimSpace sid \<and> MbMember m = TrimSpace (ActorID a)))"
  using assms
  by (auto simp: requireSession_def Let_def okS_def failS_def bindS_eq_Inr IsSessionMember_def query_def
      split: if_splits option.splits)

lemma streamSession_member:
  assumes "streamSession s r g = (Inr sid, g')" "SessionRequired s"
  shows "sid = sessionIDFromRequest r \<and> sid \<noteq> [] \<and>
    (\<forall>a. rqActor r = Some a \<longrightarrow> TrimSpace (ActorID a) = [] \<or>
       (\<exists>m \<in> set (membersT (tables (gwDB g))). MbSession m = TrimSpace sid \<and> MbMember m = TrimSpace (ActorID a)))"
proof -
  obtain d where "requireSession s r (gwDB g) = (Inr sid, d)"
    using assms by (auto simp: streamSession_def dbH_def onGwDB_def split: prod.splits sum.splits)
  from requireSession_member [OF this assms(2)] show ?thesis .
qed

lemma logs_gap:
  assumes "length (History h e) < maxLines h" "maxKeys h \<le> 0"
    and "writeLines marshal r (History h e) = (out, True)"
    and "Subscribe e (webLogAppend order line e h) = (i, h2)"
  shows "line \<in> set (History (webLogAppend order line e h) e)" "buffer h2 e i = Some []"
  using assms buffer_Subscribe [OF assms(4)]
  by (auto simp: webLogAppend_def Let_def History_def storeLine_def deliverTo_def split: option.splits)

end
