(* ===== verification/Gateway_Server.thy ===== *)
theory Gateway_Server
  imports Library_Api Session_Api Workflow_Api Context_Api Audit_Trail Streams Jwks_Cache
begin

text \<open>
  The gateway as a whole: authentication (\<open>internal/web/auth.go\<close>), health
  (\<open>internal/web/health.go\<close>), the routes of \<open>registerRoutes\<close> (\<open>internal/web/http.go\<close>) and the
  dispatch of \<open>http.ServeMux\<close>. \<open>NewServer\<close> registers the routes before a rate limiter can be set,
  so \<open>withRateLimit\<close> always sees a nil one and returns the handler itself. The text of the pages
  under \<open>/ui\<close>, the metrics page and the parameters of the components are the fields of \<open>GwEnv\<close>.
\<close>

section \<open>Health\<close>

record GoroutineTracker =
  gtAlive :: "(string \<times> bool) list"
  gtLastErr :: "(string \<times> string) list"

definition setAlive :: "string \<Rightarrow> bool \<Rightarrow> GoroutineTracker \<Rightarrow> GoroutineTracker" where
  "setAlive name alive t = t\<lparr>gtAlive := aput (gtAlive t) name alive\<rparr>"

definition setErr :: "string \<Rightarrow> string \<Rightarrow> GoroutineTracker \<Rightarrow> GoroutineTracker" where
  "setErr name err t = t\<lparr>gtLastErr := aput (gtLastErr t) name err\<rparr>"

text \<open>The life of a tracked goroutine: registered, then ended with a result; \<open>cancelled\<close> is \<open>ctx.Err() != nil\<close>.\<close>

definition goStart :: "string \<Rightarrow> GoroutineTracker \<Rightarrow> GoroutineTracker" where
  "goStart name = setAlive name True"

definition goEnd :: "string \<Rightarrow> string option \<Rightarrow> bool \<Rightarrow> GoroutineTracker \<Rightarrow> GoroutineTracker" where
  "goEnd name err cancelled t =
     setAlive name False (case err of None \<Rightarrow> t | Some e \<Rightarrow> if cancelled then t else setErr name e t)"

definition checkOf :: "GoroutineTracker \<Rightarrow> string \<Rightarrow> bool \<Rightarrow> string" where
  "checkOf t name alive =
    (if alive then ''ok''
     else case map_of (gtLastErr t) name of
       None \<Rightarrow> ''stopped'' | Some msg \<Rightarrow> if msg \<noteq> [] then msg else ''stopped'')"

definition Checks :: "GoroutineTracker \<Rightarrow> (string \<times> string) list" where
  "Checks t = map (\<lambda>(name, alive). (name, checkOf t name alive)) (gtAlive t)"

definition handleReadyz :: "string result option \<Rightarrow> string result option \<Rightarrow> GoroutineTracker option \<Rightarrow> reply" where
  "handleReadyz ping temporal tracker =
    (let db = (case ping of
                 None \<Rightarrow> (True, ''unknown'')
               | Some (Inl e) \<Rightarrow> (False, e)
               | Some (Inr _) \<Rightarrow> (True, ''ok''));
         tmp = (case temporal of
                 None \<Rightarrow> []
               | Some (Inl e) \<Rightarrow> [(False, ''temporal'', e)]
               | Some (Inr _) \<Rightarrow> [(True, ''temporal'', ''ok'')]);
         gos = (case tracker of
                 None \<Rightarrow> []
               | Some t \<Rightarrow> map (\<lambda>(name, status). (status = ''ok'', ''goroutine.'' @ name, status)) (Checks t));
         all = (fst db, ''db'', snd db) # tmp @ gos in
     if \<forall>c \<in> set all. fst c then (200, GMap [(''status'', GStr ''ok'')])
     else (503, GMap [(''status'', GStr ''unavailable''), (''checks'', GMap (map (\<lambda>(_, k, v). (k, GStr v)) all))]))"

section \<open>State and environment\<close>

record GwState =
  gsGw :: Gateway
  gsCx :: ContextDB
  gsLogs :: "WebLogLine LogHub"
  gsKeys :: JWKSCache

record GwEnv =
  geServer :: Server
  geHook :: HookEnv
  geWorkspace :: Workspace
  gePollers :: "Snapshot result option list"
  geOrd :: "string list \<Rightarrow> string list"
  geRender :: "gval \<Rightarrow> string"
  geSha1b64 :: "string \<Rightarrow> string"
  geCanHijack :: bool
  geHijackErr :: "string option"
  geCanFlush :: bool
  geMarshalLine :: "WebLogLine \<Rightarrow> string option"
  geAuth :: AuthConfig
  geAuthEnv :: AuthEnv
  geFetch :: FetchEnv
  geNow :: int
  gePing :: "string result option"
  geTemporal :: "string result option"
  geTracker :: "GoroutineTracker option"
  geMetrics :: gval
  geUiPage :: "string \<Rightarrow> string \<Rightarrow> gval"
  geUiPlanPage :: "string \<Rightarrow> gval"

type_synonym gwHandler = "Request \<Rightarrow> GwState \<Rightarrow> reply \<times> GwState"

definition gwOnly :: "(Request \<Rightarrow> reply act) \<Rightarrow> gwHandler" where
  "gwOnly h r st = (let (rep, g) = replyOf (h r) (gsGw st) in (rep, st\<lparr>gsGw := g\<rparr>))"

definition withContext :: "(Request \<Rightarrow> reply cact) \<Rightarrow> gwHandler" where
  "withContext h r st =
    (case h r (gsGw st, gsCx st) of
       (Inl rep, (g, d)) \<Rightarrow> (rep, st\<lparr>gsGw := g, gsCx := d\<rparr>)
     | (Inr rep, (g, d)) \<Rightarrow> (rep, st\<lparr>gsGw := g, gsCx := d\<rparr>))"

section \<open>Executions, with their logs\<close>

definition logsGate :: "Server \<Rightarrow> Request \<Rightarrow> string \<Rightarrow> unit act" where
  "logsGate s r execID =
     bindH (tryDB (GetExecution execID)) (\<lambda>res.
     case res of
       Inr (Some exec) \<Rightarrow>
         (if gstr exec ''plan_id'' = [] then okH ()
          else bindH (tryDB (GetPlan (gstr exec ''plan_id''))) (\<lambda>q.
            case q of
              Inr (Some plan) \<Rightarrow>
                bindH (dbH (policyCheckReadPlan s r plan ''execution.logs'')
                         (httpError ''policy denied'' 403)) (\<lambda>_. okH ())
            | _ \<Rightarrow> okH ()))
     | _ \<Rightarrow> okH ())"

definition pathID :: "string \<Rightarrow> string \<Rightarrow> string" where
  "pathID path suff = TrimSuffix (TrimPrefix (TrimSuffix path suff) ''/v1/executions/'') ''/''"

definition handleExecutionByID :: "GwEnv \<Rightarrow> gwHandler" where
  "handleExecutionByID env r st =
    (let s = geServer env in
     if rqMethod r = ''GET'' \<and> hasSuffix (rqPath r) ''/logs'' then
       (case logsGate s r (pathID (rqPath r) ''/logs'') (gsGw st) of
          (Inl rep, g) \<Rightarrow> (rep, st\<lparr>gsGw := g\<rparr>)
        | (Inr _, g) \<Rightarrow>
           (case handleExecutionLogs (geMarshalLine env) (geCanFlush env) r (pathID (rqPath r) ''/logs'') (gsLogs st) of
              (Inl rep, h) \<Rightarrow> (rep, st\<lparr>gsGw := g, gsLogs := h\<rparr>)
            | (Inr (out, _), h) \<Rightarrow> ((200, GStr out), st\<lparr>gsGw := g, gsLogs := h\<rparr>)))
     else if rqMethod r = ''GET'' then
       gwOnly (\<lambda>r. handleExecutionGet s r (TrimPrefix (rqPath r) ''/v1/executions/'')) r st
     else if rqMethod r = ''POST'' \<and> hasSuffix (rqPath r) ''/cancel'' then
       gwOnly (\<lambda>r. handleExecutionCancel s r (pathID (rqPath r) ''/cancel'')) r st
     else ((405, GNil), st))"

section \<open>Pages\<close>

definition handleUIPage :: "GwEnv \<Rightarrow> string \<Rightarrow> string \<Rightarrow> gwHandler" where
  "handleUIPage env title endpoint r st =
    (if rqMethod r \<noteq> ''GET'' then ((405, GNil), st) else ((200, geUiPage env title endpoint), st))"

definition handleUIPlan :: "GwEnv \<Rightarrow> gwHandler" where
  "handleUIPlan env r st =
    (if rqMethod r \<noteq> ''GET'' then ((405, GNil), st)
     else (let planID = trimSlashes (TrimPrefix (rqPath r) ''/ui/plans/'') in
       if planID = [] then (httpError ''plan id required'' 400, st)
       else ((200, geUiPlanPage env planID), st)))"

section \<open>Authentication\<close>

definition gwFetchKeys :: "GwEnv \<Rightarrow> string \<Rightarrow> (GwState, JWKS) op" where
  "gwFetchKeys env url st =
    (let (r, c) = Get (geFetch env) (geNow env) url (gsKeys st) in (r, st\<lparr>gsKeys := c\<rparr>))"

definition unauthorized :: reply where
  "unauthorized = httpError ''unauthorized'' 401"

definition actorOf :: "JWTPayload \<Rightarrow> Actor" where
  "actorOf claims = \<lparr>ActorID = Sub claims, ActorEmail = Email claims, ActorRoles = Groups claims\<rparr>"

definition AuthMiddleware :: "GwEnv \<Rightarrow> gwHandler \<Rightarrow> gwHandler" where
  "AuthMiddleware env next r st =
    (case ParseBearer (header r ''Authorization'') of
       Inl _ \<Rightarrow> (unauthorized, st)
     | Inr token \<Rightarrow>
        if token = [] then (unauthorized, st)
        else case verifyToken (geAuthEnv env) (gwFetchKeys env) (geAuth env) token st of
          (Inl _, st') \<Rightarrow> (unauthorized, st')
        | (Inr claims, st') \<Rightarrow> next (r\<lparr>rqActor := Some (actorOf claims)\<rparr>) st')"

text \<open>\<open>withRateLimit\<close> with the limiter of the server, nil when the routes are registered.\<close>

definition withRateLimit :: "(gwHandler \<Rightarrow> gwHandler) option \<Rightarrow> gwHandler \<Rightarrow> gwHandler" where
  "withRateLimit limiter h = (case limiter of None \<Rightarrow> h | Some limit \<Rightarrow> limit h)"

section \<open>Routes\<close>

definition registerRoutes :: "GwEnv \<Rightarrow> (string \<times> gwHandler) list" where
  "registerRoutes env =
    (let s = geServer env; ws = geWorkspace env; auth = AuthMiddleware env;
         limited = (\<lambda>h. withRateLimit None (auth h)) in
     [(''/healthz'', \<lambda>r st. ((200, GMap [(''status'', GStr ''ok'')]), st)),
      (''/readyz'', \<lambda>r st. (handleReadyz (gePing env) (geTemporal env) (geTracker env), st)),
      (''/metrics'', \<lambda>r st. ((200, geMetrics env), st)),
      (''/v1/plans'', limited (gwOnly (handlePlans s))),
      (''/v1/plans/'', limited (gwOnly (handlePlanByID s))),
      (''/v1/approvals'', limited (gwOnly (handleApprovals s))),
      (''/v1/schedules'', limited (gwOnly (handleSchedules s))),
      (''/v1/schedules/'', limited (gwOnly handleScheduleByID)),
      (''/v1/context/refresh'', limited (withContext (handleContextRefresh (gePollers env) s))),
      (''/v1/playbooks'', limited (gwOnly (handlePlaybooks s))),
      (''/v1/runbooks'', limited (gwOnly (handleRunbooks s ws))),
      (''/v1/memory'', limited (gwOnly (handleOperatorMemory s ws))),
      (''/v1/memory/'', limited (gwOnly (handleOperatorMemoryByID s ws))),
      (''/v1/sessions'', limited (gwOnly (handleSessions s))),
      (''/v1/sessions/'', limited (gwOnly (handleSessionByID s))),
      (''/v1/workflows'', limited (gwOnly (handleWorkflows s))),
      (''/v1/workflows/'', limited (gwOnly (handleWorkflowByID s))),
      (''/v1/hooks/alertmanager'', limited (gwOnly (handleHook s (geHook env)))),
      (''/v1/hooks/argocd'', limited (gwOnly (handleHook s (geHook env)))),
      (''/v1/hooks/git'', limited (gwOnly (handleHook s (geHook env)))),
      (''/v1/hooks/k8s'', limited (gwOnly (handleHook s (geHook env)))),
      (''/v1/audit/events'', auth (gwOnly (handleAuditEvents (geRender env) s))),
      (''/v1/context/services'', auth (withContext (handleContextServices s))),
      (''/v1/context/snapshots'', auth (withContext (handleContextSnapshots s))),
      (''/v1/context/snapshots/'', auth (withContext (handleContextSnapshotByID (geOrd env) s))),
      (''/v1/context/graph'', auth (withContext (handleContextGraph s))),
      (''/v1/playbooks/'', auth (gwOnly (handlePlaybookByID s))),
      (''/v1/runbooks/'', auth (gwOnly (handleRunbookByID s))),
      (''/v1/executions'', auth (gwOnly (handleExecutions s))),
      (''/v1/executions/'', auth (handleExecutionByID env)),
      (''/v1/ws'', auth (gwOnly (\<lambda>r. bindH (handleWS (geSha1b64 env) (geCanHijack env) (geHijackErr env) s r)
                                          (\<lambda>(hello, _). okH (101, GStr hello))))),
      (''/v1/events'', auth (gwOnly (\<lambda>r. bindH (handleEventsSSE (geCanFlush env) s r)
                                              (\<lambda>_. okH (200, GStr ('':ok'' @ lf @ lf)))))),
      (''/ui/playbooks'', auth (handleUIPage env ''Playbooks'' ''/v1/playbooks'')),
      (''/ui/runbooks'', auth (handleUIPage env ''Runbooks'' ''/v1/runbooks'')),
      (''/ui/plans/'', auth (handleUIPlan env))])"

section \<open>Dispatch\<close>

text \<open>\<open>http.ServeMux\<close>: clean the path, then the longest pattern; one that ends in a slash matches a subtree.\<close>

fun cleanSegs :: "string list \<Rightarrow> string list \<Rightarrow> string list" where
  "cleanSegs acc [] = rev acc"
| "cleanSegs acc (x # xs) =
    (if x = [] \<or> x = ''.'' then cleanSegs acc xs
     else if x = ''..'' then cleanSegs (tl acc) xs
     else cleanSegs (x # acc) xs)"

definition cleanPath :: "string \<Rightarrow> string" where
  "cleanPath p =
    (if p = [] then ''/''
     else (let np = ''/'' @ strJoin (cleanSegs [] (splitChar CHR ''/'' p)) ''/'' in
       if last p = CHR ''/'' \<and> np \<noteq> ''/'' then np @ ''/'' else np))"

definition matchesPattern :: "string \<Rightarrow> string \<Rightarrow> bool" where
  "matchesPattern path pat \<longleftrightarrow> path = pat \<or> pat \<noteq> [] \<and> last pat = CHR ''/'' \<and> prefix pat path"

definition muxMatch :: "(string \<times> 'h) list \<Rightarrow> string \<Rightarrow> (string \<times> 'h) option" where
  "muxMatch pats path =
    (case rev (sort_key (\<lambda>(p, _). length p) (filter (\<lambda>(p, _). matchesPattern path p) pats)) of
       [] \<Rightarrow> None | x # _ \<Rightarrow> Some x)"

definition redirect :: "string \<Rightarrow> reply" where
  "redirect path = (301, GStr path)"

definition ServeHTTP :: "GwEnv \<Rightarrow> gwHandler" where
  "ServeHTTP env r st =
    (let path = cleanPath (rqPath r) in
     if path \<noteq> rqPath r then (redirect path, st)
     else case muxMatch (registerRoutes env) path of
       Some (_, h) \<Rightarrow> h r st
     | None \<Rightarrow>
        (if (path @ ''/'') \<in> fst ` set (registerRoutes env) then (redirect (path @ ''/''), st) else (notFound, st)))"

section \<open>Only with a verified token\<close>

definition openPaths :: "string set" where
  "openPaths = {''/healthz'', ''/readyz'', ''/metrics''}"

lemma muxMatch_route:
  assumes "muxMatch pats path = Some (p, h)"
  shows "(p, h) \<in> set pats" "matchesPattern path p"
proof -
  obtain xs where "rev (sort_key (\<lambda>(p, _). length p) (filter (\<lambda>(p, _). matchesPattern path p) pats)) = (p, h) # xs"
    using assms unfolding muxMatch_def by (simp split: list.split_asm)
  then have "(p, h) \<in> set (sort_key (\<lambda>(p, _). length p) (filter (\<lambda>(p, _). matchesPattern path p) pats))"
    by (metis list.set_intros(1) set_rev)
  then show "(p, h) \<in> set pats" "matchesPattern path p" by auto
qed

definition guarded :: "GwEnv \<Rightarrow> string \<Rightarrow> gwHandler \<Rightarrow> bool" where
  "guarded env p h \<longleftrightarrow> p \<in> openPaths \<and> (\<forall>r st. snd (h r st) = st) \<or> (\<exists>inner. h = AuthMiddleware env inner)"

lemma guarded_auth: "guarded env p (AuthMiddleware env inner)"
  by (auto simp: guarded_def)

lemma guarded_open: "p \<in> openPaths \<Longrightarrow> guarded env p (\<lambda>r st. (f r, st))"
  by (simp add: guarded_def)

lemma routes_all_guarded: "list_all (\<lambda>(p, h). guarded env p h) (registerRoutes env)"
  unfolding registerRoutes_def Let_def withRateLimit_def option.case list.pred_inject prod.case
  by (intro conjI guarded_auth guarded_open TrueI) (simp_all add: openPaths_def)

lemma routes_guarded:
  "(p, h) \<in> set (registerRoutes env) \<Longrightarrow>
   p \<in> openPaths \<and> (\<forall>r st. snd (h r st) = st) \<or> (\<exists>inner. h = AuthMiddleware env inner)"
  using routes_all_guarded [of env] by (auto simp: list_all_iff guarded_def)

lemma openPaths_exact: "p \<in> openPaths \<Longrightarrow> matchesPattern path p \<Longrightarrow> path = p"
  by (auto simp: openPaths_def matchesPattern_def)

text \<open>What the key fetch leaves alone.\<close>

definition served :: "GwState \<Rightarrow> Gateway \<times> ContextDB \<times> WebLogLine LogHub" where
  "served st = (gsGw st, gsCx st, gsLogs st)"

lemma gwFetchKeys_served: "gwFetchKeys env url st = (x, st') \<Longrightarrow> served st' = served st"
  by (auto simp: gwFetchKeys_def served_def split: prod.splits)

lemma verifyToken_served:
  assumes "verifyToken aenv (gwFetchKeys env) cfg token st = (x, st')"
  shows "served st' = served st"
  using assms
  by (auto simp: verifyToken_def VerifyJWTSignature_def Let_def bindS_def tryS_def okS_def failS_def
      split: if_splits prod.splits sum.splits dest: gwFetchKeys_served)

lemma AuthMiddleware_gate:
  assumes "AuthMiddleware env inner r st = (rep, st')" "served st' \<noteq> served st \<or> rep \<noteq> unauthorized"
  obtains token claims st1 where "ParseBearer (header r ''Authorization'') = Inr token"
    "verifyToken (geAuthEnv env) (gwFetchKeys env) (geAuth env) token st = (Inr claims, st1)"
    "served st1 = served st" "inner (r\<lparr>rqActor := Some (actorOf claims)\<rparr>) st1 = (rep, st')"
  using assms verifyToken_served
  by (auto simp: AuthMiddleware_def split: sum.splits if_splits prod.splits)

lemma ServeHTTP_gate:
  assumes run: "ServeHTTP env r st = (rep, st')" and path: "rqPath r \<notin> openPaths"
    and eff: "served st' \<noteq> served st \<or> fst rep = 200"
  obtains p inner token claims st1 where "(p, AuthMiddleware env inner) \<in> set (registerRoutes env)"
    "matchesPattern (rqPath r) p"
    "ParseBearer (header r ''Authorization'') = Inr token"
    "verifyToken (geAuthEnv env) (gwFetchKeys env) (geAuth env) token st = (Inr claims, st1)"
    "served st1 = served st" "inner (r\<lparr>rqActor := Some (actorOf claims)\<rparr>) st1 = (rep, st')"
proof -
  have "\<exists>p h. muxMatch (registerRoutes env) (rqPath r) = Some (p, h) \<and> h r st = (rep, st')"
    using run eff
    by (auto simp: ServeHTTP_def Let_def redirect_def notFound_def httpError_def split: if_splits option.splits)
  then obtain p h where m: "muxMatch (registerRoutes env) (rqPath r) = Some (p, h)" and h: "h r st = (rep, st')"
    by blast
  note route = muxMatch_route [OF m]
  have "p \<notin> openPaths" using openPaths_exact [OF _ route(2)] path by auto
  with routes_guarded [OF route(1)] obtain n where n: "h = AuthMiddleware env n" by auto
  have "served st' \<noteq> served st \<or> rep \<noteq> unauthorized" using eff by (auto simp: unauthorized_def httpError_def)
  with h n show ?thesis using that route by (auto elim!: AuthMiddleware_gate)
qed

lemma verified_caller:
  assumes wf: "wfCache ttl (geNow env) (gsKeys st)"
    and dev: "DevMode (geAuth env) \<Longrightarrow> TrimSpace (JWKSURL (geAuth env)) \<noteq> []"
    and v: "verifyToken (geAuthEnv env) (gwFetchKeys env) (geAuth env) token st = (Inr claims, st1)"
  shows "\<exists>h p g sig keys key pub t.
     token = h @ ''.'' @ p @ ''.'' @ g \<and>
     bindR (DecodeString p) (\<lambda>d. bindR (unmarshalDoc (geAuthEnv env) d) decodePayload) = Inr claims \<and>
     DecodeString g = Inr sig \<and> key \<in> set keys \<and> RSAKeyFromJWK key = Inr pub \<and>
     aeRSA (geAuthEnv env) pub (aeSHA (geAuthEnv env) (h @ ''.'' @ p)) sig \<and>
     ValidateClaims (geAuthEnv env) claims (geAuth env) = Inr () \<and>
     (TrimSpace (JWKSURL (geAuth env)), t, keys) \<in> set (jcFetched (gsKeys st1)) \<and>
     t \<le> geNow env \<and> geNow env < t + cacheTTL ttl"
proof -
  have url: "TrimSpace (JWKSURL (geAuth env)) \<noteq> []"
    using v dev by (auto simp: verifyToken_def bindS_eq_Inr VerifyJWTSignature_def Let_def failS_def tryS_def split: if_splits)
  obtain h p g sig keys key pub where w: "token = h @ ''.'' @ p @ ''.'' @ g"
    "bindR (DecodeString p) (\<lambda>d. bindR (unmarshalDoc (geAuthEnv env) d) decodePayload) = Inr claims"
    "DecodeString g = Inr sig" "gwFetchKeys env (TrimSpace (JWKSURL (geAuth env))) st = (Inr keys, st1)"
    "key \<in> set keys" "RSAKeyFromJWK key = Inr pub"
    "aeRSA (geAuthEnv env) pub (aeSHA (geAuthEnv env) (h @ ''.'' @ p)) sig"
    "ValidateClaims (geAuthEnv env) claims (geAuth env) = Inr ()"
    by (rule verifyToken_ok [OF v url])
  from w(4) obtain c where "Get (geFetch env) (geNow env) (TrimSpace (JWKSURL (geAuth env))) (gsKeys st) = (Inr keys, c)"
    "gsKeys st1 = c"
    by (auto simp: gwFetchKeys_def split: prod.splits)
  with Get_fresh [OF wf] obtain t where "(TrimSpace (JWKSURL (geAuth env)), t, keys) \<in> set (jcFetched (gsKeys st1))"
    "t \<le> geNow env" "geNow env < t + cacheTTL ttl"
    by fastforce
  with w show ?thesis by blast
qed

end
