(* ===== verification/Rate_Limit.thy ===== *)
theory Rate_Limit
  imports Gateway
begin

text \<open>
  \<open>internal/web/ratelimit.go\<close>: the token bucket per client address. Times are seconds, and
  \<open>float64\<close> arithmetic is taken as exact, over the rationals. \<open>rqRemote\<close> of a request and
  \<open>net.SplitHostPort\<close> on it are the arguments \<open>remote\<close> and \<open>splitHost\<close> of \<open>clientIP\<close>.
\<close>

record rateLimitEntry =
  rlTokens :: rat
  rlLast :: rat

record RateLimiter =
  rlClients :: "string \<Rightarrow> rateLimitEntry option"
  rlRate :: rat
  rlBurst :: int
  rlSweep :: rat

definition NewRateLimiter :: "rat \<Rightarrow> int \<Rightarrow> rat \<Rightarrow> RateLimiter" where
  "NewRateLimiter ratePerSecond burst now =
     \<lparr>rlClients = (\<lambda>_. None), rlRate = ratePerSecond, rlBurst = burst, rlSweep = now\<rparr>"

text \<open>Every five minutes the entries not used for ten are dropped.\<close>

definition sweep :: "rat \<Rightarrow> RateLimiter \<Rightarrow> RateLimiter" where
  "sweep now rl =
    (if now - rlSweep rl > 300
     then rl\<lparr>rlClients := (\<lambda>k. case rlClients rl k of
                None \<Rightarrow> None | Some v \<Rightarrow> if rlLast v < now - 600 then None else Some v),
             rlSweep := now\<rparr>
     else rl)"

definition Allow :: "rat \<Rightarrow> string \<Rightarrow> RateLimiter \<Rightarrow> bool \<times> RateLimiter" where
  "Allow now ip rl0 =
    (let rl = sweep now rl0 in
     case rlClients rl ip of
       None \<Rightarrow>
        (True, rl\<lparr>rlClients := (rlClients rl)(ip \<mapsto> \<lparr>rlTokens = of_int (rlBurst rl) - 1, rlLast = now\<rparr>)\<rparr>)
     | Some entry \<Rightarrow>
        (let refilled = rlTokens entry + (now - rlLast entry) * rlRate rl;
             tokens = (if refilled > of_int (rlBurst rl) then of_int (rlBurst rl) else refilled) in
         if tokens < 1 then
           (False, rl\<lparr>rlClients := (rlClients rl)(ip \<mapsto> \<lparr>rlTokens = tokens, rlLast = now\<rparr>)\<rparr>)
         else
           (True, rl\<lparr>rlClients := (rlClients rl)(ip \<mapsto> \<lparr>rlTokens = tokens - 1, rlLast = now\<rparr>)\<rparr>)))"

definition clientIP :: "(string \<Rightarrow> string option) \<Rightarrow> string \<Rightarrow> Request \<Rightarrow> string" where
  "clientIP splitHost remote r =
    (let xff = header r ''X-Forwarded-For'' in
     if xff \<noteq> [] then takeWhile (\<lambda>c. c \<noteq> CHR '','') xff
     else case splitHost remote of None \<Rightarrow> remote | Some host \<Rightarrow> host)"

definition RateLimitMiddleware :: "rat \<Rightarrow> string \<Rightarrow> (RateLimiter \<Rightarrow> reply \<times> RateLimiter) \<Rightarrow> RateLimiter \<Rightarrow> reply \<times> RateLimiter" where
  "RateLimitMiddleware now ip next rl =
    (case Allow now ip rl of
       (False, rl') \<Rightarrow> (httpError ''rate limit exceeded'' 429, rl')
     | (True, rl') \<Rightarrow> next rl')"

text \<open>The decisions over a sequence of calls.\<close>

fun allowAll :: "(rat \<times> string) list \<Rightarrow> RateLimiter \<Rightarrow> bool list \<times> RateLimiter" where
  "allowAll [] rl = ([], rl)"
| "allowAll ((now, ip) # calls) rl =
    (let (b, rl') = Allow now ip rl; (bs, rl'') = allowAll calls rl' in (b # bs, rl''))"

section \<open>How much a client gets\<close>

text \<open>
  The tokens client \<open>ip\<close> could use at time \<open>t\<close>; an unknown client has a full bucket. The sweep
  is invisible as long as ten minutes refill a bucket.
\<close>

definition available :: "RateLimiter \<Rightarrow> string \<Rightarrow> rat \<Rightarrow> rat" where
  "available rl ip t =
    (case rlClients rl ip of
       None \<Rightarrow> of_int (rlBurst rl)
     | Some e \<Rightarrow> min (of_int (rlBurst rl)) (rlTokens e + (t - rlLast e) * rlRate rl))"

definition soundLimiter :: "rat \<Rightarrow> RateLimiter \<Rightarrow> bool" where
  "soundLimiter t rl \<longleftrightarrow> 0 \<le> rlRate rl \<and> 1 \<le> rlBurst rl \<and> of_int (rlBurst rl) \<le> 600 * rlRate rl \<and>
     (\<forall>k e. rlClients rl k = Some e \<longrightarrow> 0 \<le> rlTokens e \<and> rlLast e \<le> t)"

lemma soundLimiter_New:
  "0 \<le> rate \<Longrightarrow> 1 \<le> burst \<Longrightarrow> of_int burst \<le> 600 * rate \<Longrightarrow> soundLimiter t (NewRateLimiter rate burst now)"
  by (simp add: soundLimiter_def NewRateLimiter_def)

lemma soundLimiter_mono: "soundLimiter t rl \<Longrightarrow> t \<le> t' \<Longrightarrow> soundLimiter t' rl"
  unfolding soundLimiter_def by (meson order_trans)

lemma sweep_params [simp]: "rlRate (sweep now rl) = rlRate rl" "rlBurst (sweep now rl) = rlBurst rl"
  by (simp_all add: sweep_def)

lemma sweep_sound: "soundLimiter t rl \<Longrightarrow> soundLimiter t (sweep now rl)"
  by (auto simp: soundLimiter_def sweep_def split: option.splits if_splits)

lemma sweep_available:
  assumes "soundLimiter now rl"
  shows "available (sweep now rl) ip now = available rl ip now"
proof (cases "rlClients rl ip")
  case (Some e)
  show ?thesis
  proof (cases "now - rlSweep rl > 300 \<and> rlLast e < now - 600")
    case True
    have "600 * rlRate rl \<le> (now - rlLast e) * rlRate rl"
      using True assms by (intro mult_right_mono) (auto simp: soundLimiter_def)
    moreover have "of_int (rlBurst rl) \<le> 600 * rlRate rl" "0 \<le> rlTokens e"
      using assms Some by (auto simp: soundLimiter_def)
    ultimately have "of_int (rlBurst rl) \<le> rlTokens e + (now - rlLast e) * rlRate rl" by linarith
    with True Some show ?thesis by (simp add: available_def sweep_def)
  qed (auto simp: available_def sweep_def Some)
qed (simp add: available_def sweep_def)

lemma available_later:
  assumes "soundLimiter t rl" "t \<le> t'"
  shows "available rl ip t' \<le> available rl ip t + (t' - t) * rlRate rl"
proof -
  have "0 \<le> (t' - t) * rlRate rl" using assms by (simp add: soundLimiter_def)
  then show ?thesis by (auto simp: available_def algebra_simps split: option.splits)
qed

lemma available_nonneg:
  assumes "soundLimiter t rl"
  shows "0 \<le> available rl ip t"
proof (cases "rlClients rl ip")
  case (Some e)
  then have "0 \<le> rlTokens e" "0 \<le> (t - rlLast e) * rlRate rl" using assms by (auto simp: soundLimiter_def)
  with assms Some show ?thesis by (simp add: available_def soundLimiter_def)
qed (use assms in \<open>simp add: available_def soundLimiter_def\<close>)

lemma Allow_params: "rlRate (snd (Allow t ip rl)) = rlRate rl" "rlBurst (snd (Allow t ip rl)) = rlBurst rl"
  by (auto simp: Allow_def Let_def split: option.splits)

lemma Allow_sound:
  assumes "soundLimiter t rl"
  shows "soundLimiter t (snd (Allow t ip rl))"
proof -
  have s: "soundLimiter t (sweep t rl)" by (rule sweep_sound [OF assms])
  have refill: "0 \<le> rlTokens e + (t - rlLast e) * rlRate rl" if "rlClients (sweep t rl) ip = Some e" for e
    using s that by (auto simp: soundLimiter_def)
  from s refill show ?thesis
    by (auto simp: Allow_def soundLimiter_def Let_def split: option.splits)
qed

text \<open>A call that is let through costs its client one token and another client nothing.\<close>

lemma Allow_available:
  assumes "soundLimiter t rl"
  shows "available (snd (Allow t ip rl)) k t =
    available rl k t - (if k = ip \<and> fst (Allow t ip rl) then 1 else 0)"
proof -
  have "available (snd (Allow t ip rl)) k t =
      available (sweep t rl) k t - (if k = ip \<and> fst (Allow t ip rl) then 1 else 0)"
    by (auto simp: Allow_def available_def Let_def min_def split: option.splits)
  then show ?thesis by (simp add: sweep_available [OF assms])
qed

definition granted :: "string \<Rightarrow> (rat \<times> string) list \<Rightarrow> bool list \<Rightarrow> nat" where
  "granted ip calls bs = length (filter (\<lambda>((_, k), b). k = ip \<and> b) (zip calls bs))"

lemma granted_Cons:
  "granted ip ((t, k) # calls) (b # bs) = (if k = ip \<and> b then 1 else 0) + granted ip calls bs"
  by (simp add: granted_def)

lemma allowAll_params: "allowAll calls rl = (bs, rl') \<Longrightarrow> rlRate rl' = rlRate rl \<and> rlBurst rl' = rlBurst rl"
proof (induction calls arbitrary: rl bs)
  case (Cons c calls)
  obtain now k where c: "c = (now, k)" by (cases c)
  obtain b rl1 where a: "Allow now k rl = (b, rl1)" by (cases "Allow now k rl")
  obtain bs' where "allowAll calls rl1 = (bs', rl')"
    using Cons.prems by (auto simp: c a split: prod.splits)
  from Cons.IH [OF this] show ?case using Allow_params [of now k rl] by (simp add: a)
qed simp

lemma allowAll_granted:
  assumes "soundLimiter t rl" "sorted (t # map fst calls)" "allowAll calls rl = (bs, rl')"
  shows "of_nat (granted ip calls bs) \<le> available rl ip t + (last (t # map fst calls) - t) * rlRate rl \<and>
    soundLimiter (last (t # map fst calls)) rl'"
  using assms
proof (induction calls arbitrary: t rl bs)
  case Nil
  then show ?case using available_nonneg by (simp add: granted_def)
next
  case (Cons c calls)
  obtain now k where c: "c = (now, k)" by (cases c)
  obtain b rl1 where a: "Allow now k rl = (b, rl1)" by (cases "Allow now k rl")
  obtain bs' where run: "allowAll calls rl1 = (bs', rl')" and bs: "bs = b # bs'"
    using Cons.prems(3) by (auto simp: c a split: prod.splits)
  have le: "t \<le> now" and srt: "sorted (now # map fst calls)" using Cons.prems(2) by (auto simp: c)
  have snd0: "soundLimiter now rl" using soundLimiter_mono [OF Cons.prems(1) le] .
  have "soundLimiter now rl1" using Allow_sound [OF snd0, of k] by (simp add: a)
  note IH = Cons.IH [OF this srt run]
  have rate: "rlRate rl1 = rlRate rl" using Allow_params(1) [of now k rl] by (simp add: a)
  have "available rl1 ip now = available rl ip now - (if ip = k \<and> b then 1 else 0)"
    using Allow_available [OF snd0, of k ip] by (simp add: a)
  moreover have "available rl ip now \<le> available rl ip t + (now - t) * rlRate rl"
    by (rule available_later [OF Cons.prems(1) le])
  ultimately have "of_nat (granted ip (c # calls) bs) \<le>
      available rl ip t + (now - t) * rlRate rl + (last (now # map fst calls) - now) * rlRate rl"
    using IH rate by (auto simp: c bs granted_Cons split: if_splits)
  also have "\<dots> = available rl ip t + (last (t # map fst (c # calls)) - t) * rlRate rl"
    by (simp add: c algebra_simps)
  finally show ?case using IH by (simp add: c)
qed

lemma allowAll_append:
  "allowAll (xs @ ys) rl = (let (bs, rl1) = allowAll xs rl; (cs, rl2) = allowAll ys rl1 in (bs @ cs, rl2))"
  by (induction xs rl rule: allowAll.induct) (auto split: prod.splits)

text \<open>
  In any stretch of calls of any history, a client gets at most the burst and what the rate adds
  over the stretch.
\<close>

lemma rate_bound:
  assumes "0 \<le> rate" "1 \<le> burst" "of_int burst \<le> 600 * rate"
    and "sorted (map fst (before @ window))" "window \<noteq> []"
    and "allowAll before (NewRateLimiter rate burst start) = (bs, rl)" "allowAll window rl = (cs, rl')"
  shows "of_nat (granted ip window cs) \<le> of_int burst + rate * (fst (last window) - fst (hd window))"
proof -
  let ?t = "fst (hd window)"
  let ?rl0 = "NewRateLimiter rate burst start"
  have rl: "rlRate rl = rate \<and> rlBurst rl = burst"
    using allowAll_params [OF assms(6)] by (simp add: NewRateLimiter_def)
  have "soundLimiter ?t rl"
  proof (cases before)
    case Nil
    with assms(6) have "rl = ?rl0" by simp
    then show ?thesis using soundLimiter_New [OF assms(1-3)] by simp
  next
    case (Cons c rest)
    have "sorted (fst c # map fst before)" using assms(4) by (simp add: Cons sorted_append)
    from allowAll_granted [OF soundLimiter_New [OF assms(1-3)] this assms(6)]
    have "soundLimiter (last (fst c # map fst before)) rl" by blast
    moreover have "last (fst c # map fst before) \<le> ?t"
      using assms(4,5) by (auto simp: Cons sorted_append last_map)
    ultimately show ?thesis by (rule soundLimiter_mono)
  qed
  moreover have "sorted (?t # map fst window)"
    using assms(4,5) by (cases window) (auto simp: sorted_append)
  ultimately have "of_nat (granted ip window cs) \<le> available rl ip ?t + (last (?t # map fst window) - ?t) * rlRate rl"
    using allowAll_granted assms(7) by blast
  moreover have "available rl ip ?t \<le> of_int burst" by (simp add: available_def rl split: option.splits)
  moreover have "last (?t # map fst window) = fst (last window)" using assms(5) by (simp add: last_map)
  ultimately show ?thesis by (simp add: rl mult.commute)
qed

end
