(* ===== verification/Gateway_Examples.thy ===== *)
theory Gateway_Examples
  imports Service_Examples Gateway_Server Rate_Limit
begin

text \<open>
  A gateway whose identity provider serves one key, and requests signed with it, on which the
  properties of the served interface are instantiated.
\<close>

section \<open>A signed request\<close>

definition exKeyFetch :: FetchEnv where
  "exKeyFetch = \<lparr>feUnmarshal = (\<lambda>_. Some (GMap [(''keys'', GList [GMap [(''kty'', GStr ''RSA''), (''kid'', GStr ''k1''),
       (''alg'', GStr ''RS256''), (''use'', GStr ''sig''), (''n'', GStr ''AQAB''), (''e'', GStr ''AQAB'')]])])),
     feAnswer = (\<lambda>_ _. Inr (200, ''keys''))\<rparr>"

definition exGwEnv :: GwEnv where
  "exGwEnv = \<lparr>geServer = exServer, geHook = exHookEnv, geWorkspace = \<lparr>wsDir = [], wsRead = (\<lambda>_. Inr None)\<rparr>,
     gePollers = [], geOrd = id, geRender = (\<lambda>_. []), geSha1b64 = id, geCanHijack = False, geHijackErr = None,
     geCanFlush = False, geMarshalLine = (\<lambda>_. None), geAuth = exAuthConfig\<lparr>AuthToken := []\<rparr>, geAuthEnv = exAuthEnv,
     geFetch = exKeyFetch, geNow = 0, gePing = None, geTemporal = None, geTracker = None, geMetrics = GNil,
     geUiPage = (\<lambda>title _. GStr title), geUiPlanPage = (\<lambda>_. GNil)\<rparr>"

definition exGwState :: GwState where
  "exGwState = \<lparr>gsGw = exGateway emptyTables, gsCx = exContextDB, gsLogs = NewLogHub, gsKeys = NewJWKSCache 0\<rparr>"

definition exSigned :: "string \<Rightarrow> Request" where
  "exSigned path = \<lparr>rqMethod = ''GET'', rqPath = path, rqHeaders = [(''Authorization'', ''Bearer aA.cA.YUEuY0E'')],
     rqQuery = [], rqBody = [], rqActor = None\<rparr>"

lemma ex_bearer: "ParseBearer (header (exSigned path) ''Authorization'') = Inr ''aA.cA.YUEuY0E''"
proof -
  have "header (exSigned path) ''Authorization'' = ''Bearer aA.cA.YUEuY0E''"
    by (simp add: exSigned_def getOr_def)
  moreover have "ParseBearer ''Bearer aA.cA.YUEuY0E'' = Inr ''aA.cA.YUEuY0E''" by code_simp
  ultimately show ?thesis by simp
qed

lemma ex_fetched: "\<exists>st. gwFetchKeys exGwEnv ''https://idp'' exGwState = (Inr [exJWK], st)"
proof -
  have "fst (Get exKeyFetch 0 ''https://idp'' (NewJWKSCache 0)) = Inr [exJWK]" by code_simp
  then show ?thesis
    by (cases "Get exKeyFetch 0 ''https://idp'' (NewJWKSCache 0)") (simp add: gwFetchKeys_def exGwEnv_def exGwState_def)
qed

lemma ex_verify:
  "\<exists>claims st. verifyToken (geAuthEnv exGwEnv) (gwFetchKeys exGwEnv) (geAuth exGwEnv) ''aA.cA.YUEuY0E'' exGwState = (Inr claims, st)"
proof -
  let ?cfg = "exAuthConfig\<lparr>AuthToken := []\<rparr>"
  obtain st where fetch: "gwFetchKeys exGwEnv ''https://idp'' exGwState = (Inr [exJWK], st)"
    using ex_fetched by blast
  have token: "compactToken ''h'' ''p'' ''aA.cA'' = ''aA.cA.YUEuY0E''" by code_simp
  have url: "TrimSpace (JWKSURL exAuthConfig) = ''https://idp''" by code_simp
  let ?claims = "\<lparr>Sub = ''alice'', Email = [], Groups = [], Iss = [], Aud = GNil, Exp = 0, Nbf = 0,
     ClaimTenantID = ''t1''\<rparr>"
  have claims: "ValidateClaims exAuthEnv ?claims ?cfg = Inr ()" by code_simp
  have "EncodeToString ''h'' @ ''.'' @ EncodeToString ''p'' = ''aA.cA''" by code_simp
  then have sig: "aeRSA exAuthEnv \<lparr>keyN = 65537, keyE = 65537\<rparr>
      (aeSHA exAuthEnv (EncodeToString ''h'' @ ''.'' @ EncodeToString ''p'')) ''aA.cA''"
    by (simp add: exAuthEnv_def)
  have "verifyToken exAuthEnv (gwFetchKeys exGwEnv) ?cfg (compactToken ''h'' ''p'' ''aA.cA'') exGwState = (Inr ?claims, st)"
    by (rule verifyToken_compact [OF _ ex_token(1) _ ex_token(2) claims])
      (use fetch sig ex_key ex_token(3) in \<open>simp_all add: url\<close>)
  then show ?thesis unfolding token by (auto simp: exGwEnv_def)
qed

lemma ex_route:
  "muxMatch (registerRoutes exGwEnv) ''/ui/playbooks'' =
     Some (''/ui/playbooks'', AuthMiddleware exGwEnv (handleUIPage exGwEnv ''Playbooks'' ''/v1/playbooks''))"
  by (simp add: muxMatch_def registerRoutes_def matchesPattern_def withRateLimit_def Let_def)

lemma ex_served: "\<exists>st'. ServeHTTP exGwEnv (exSigned ''/ui/playbooks'') exGwState = ((200, GStr ''Playbooks''), st')"
proof -
  have clean: "cleanPath ''/ui/playbooks'' = ''/ui/playbooks''" by code_simp
  obtain claims st where "verifyToken (geAuthEnv exGwEnv) (gwFetchKeys exGwEnv) (geAuth exGwEnv) ''aA.cA.YUEuY0E'' exGwState =
      (Inr claims, st)"
    using ex_verify by blast
  moreover have "rqPath (exSigned ''/ui/playbooks'') = ''/ui/playbooks''" "rqMethod (exSigned ''/ui/playbooks'') = ''GET''"
    "geUiPage exGwEnv ''Playbooks'' x = GStr ''Playbooks''" for x
    by (simp_all add: exSigned_def exGwEnv_def)
  ultimately show ?thesis
    by (simp add: ServeHTTP_def clean ex_route AuthMiddleware_def ex_bearer handleUIPage_def)
qed

section \<open>A workflow that is started\<close>

definition exStartServer :: Server where
  "exStartServer = exServer\<lparr>srvExecutor := Some (\<lambda>_ _ _ _ _. Inr ''run''),
     srvUnmarshal := (\<lambda>_. Some (GMap [(''context'', ctxDoc exCtx),
       (''input'', GMap [(''service'', GStr ''web''), (''namespace'', GStr ''ns''), (''replicas'', GInt 3)])]))\<rparr>"

definition exStartRequest :: Request where
  "exStartRequest = (exRequest ''POST'' ''/v1/workflows/scale_service/start'')\<lparr>rqBody := ''{}''\<rparr>"

abbreviation exStartInput :: gmap where
  "exStartInput \<equiv> [(''service'', GStr ''web''), (''namespace'', GStr ''ns''), (''replicas'', GInt 3)]"

abbreviation exStartReq :: WorkflowStartRequest where
  "exStartReq \<equiv> \<lparr>WqContext = exCtx, WqInput = exStartInput, WqConstraints = GNil\<rparr>"

definition exStartPlan :: "string \<times> PlanStep list" where
  "exStartPlan = projr (buildScaleService exStartInput)"

lemma ex_start_steps: "buildWorkflowPlan ''scale_service'' exStartInput = Inr (fst exStartPlan, snd exStartPlan)"
proof -
  have "isOk (buildScaleService exStartInput)" by code_simp
  then show ?thesis
    by (cases "buildScaleService exStartInput") (auto simp: buildWorkflowPlan_def exStartPlan_def)
qed

lemma ex_start_body: "bodyH exStartServer exStartRequest decodeWorkflowStart = okH exStartReq"
proof -
  have "decodeWorkflowStart (GMap [(''context'', ctxDoc exCtx), (''input'', GMap exStartInput)]) = Inr exStartReq" by code_simp
  then show ?thesis
    by (simp add: bodyH_def decodeBody_def exStartServer_def exStartRequest_def exRequest_def maxRequestBody_def)
qed

lemma ex_start_policy:
  "webValidateContextRefStrict exCtx = Inr ()" "map_option templateRisk (findWorkflowTemplate ''scale_service'') = Some ''low''"
  "map_sum id Decision (policyDecision exStartServer exStartRequest ''plan.create'' ''write'' exCtx ''low'' 0) = Inr ''allow''"
  by code_simp+

definition exStartDecision :: PolicyDecision where
  "exStartDecision = projr (policyDecision exStartServer exStartRequest ''plan.create'' ''write'' exCtx ''low'' 0)"

lemma ex_start_decision:
  "policyDecision exStartServer exStartRequest ''plan.create'' ''write'' exCtx ''low'' 0 = Inr exStartDecision"
  "Decision exStartDecision = ''allow''"
  using ex_start_policy(3)
  by (cases "policyDecision exStartServer exStartRequest ''plan.create'' ''write'' exCtx ''low'' 0",
      simp_all add: exStartDecision_def)+

definition exStartStore :: "string result \<times> Gateway" where
  "exStartStore = onGwDB (CreatePlan (GMap (workflowPlan exStartServer ''scale_service'' exStartReq ''low'' exStartDecision
     (fst exStartPlan) (snd exStartPlan)))) (exGateway emptyTables)"

lemma ex_start_stored:
  "case exStartStore of
     (Inr planID, g) \<Rightarrow> isOk (map_sum (\<lambda>_. []) id (fst (createApprovalH exStartServer planID True (httpError ''approval error'' 502) g)))
   | _ \<Rightarrow> False"
  by code_simp

lemma ex_start:
  "\<exists>doc g'. handleWorkflowStart exStartServer exStartRequest ''scale_service'' (exGateway emptyTables) = (Inr (200, doc), g')"
proof -
  obtain t where t: "findWorkflowTemplate ''scale_service'' = Some t" "templateRisk t = ''low''"
    using ex_start_policy(2) by auto
  obtain summary steps where p: "exStartPlan = (summary, steps)" by (cases exStartPlan)
  obtain planID g where plan: "onGwDB (CreatePlan (GMap (workflowPlan exStartServer ''scale_service'' exStartReq ''low''
      exStartDecision (fst exStartPlan) (snd exStartPlan)))) (exGateway emptyTables) = (Inr planID, g)"
    and "isOk (map_sum (\<lambda>_. []) id (fst (createApprovalH exStartServer planID True (httpError ''approval error'' 502) g)))"
    using ex_start_stored by (auto simp: exStartStore_def split: prod.splits sum.splits)
  then obtain i g' where "createApprovalH exStartServer planID True (httpError ''approval error'' 502) g = (Inr i, g')"
    by (cases "createApprovalH exStartServer planID True (httpError ''approval error'' 502) g";
        cases "fst (createApprovalH exStartServer planID True (httpError ''approval error'' 502) g)") auto
  moreover have "AutoApproveLow exStartServer = False" "srvExecutor exStartServer \<noteq> None"
    by (simp_all add: exStartServer_def exServer_def)
  ultimately show ?thesis
    using plan [unfolded p fst_conv snd_conv] t
    by (auto simp: handleWorkflowStart_def ex_start_body bindH_okH ex_start_steps p ex_start_policy ex_start_decision
        decisionH_def workflowApproval_def checkH_def dbH_def bindH_def okH_def Let_def auditEvent_def
        split: prod.splits sum.splits)
qed

end
