(* ===== verification/Config.thy ===== *)
theory Config
  imports Library_Store
begin

text \<open>
  \<open>internal/config/config.go\<close>: the configuration file, its JSON decoding and \<open>Validate\<close>. Each struct is a
  record whose fields carry a two-letter prefix; a field that is missing or null has its zero value.
  Reading the file and parsing JSON are parameters; the warnings \<open>Validate\<close> logs are left out.
\<close>

section \<open>Decoding\<close>

definition orNull :: "gval option \<Rightarrow> gval" where
  "orNull v = (case v of None \<Rightarrow> GNil | Some x \<Rightarrow> x)"

definition decodeStrV :: "gval \<Rightarrow> string result" where
  "decodeStrV v = decodeStr (Some v)"

definition decodeMapOf :: "(gval \<Rightarrow> 'a result) \<Rightarrow> gval option \<Rightarrow> (string \<times> 'a) list result" where
  "decodeMapOf f v =
    (case orNull v of
       GNil \<Rightarrow> Inr []
     | GMap m \<Rightarrow> mapR (\<lambda>(k, x). bindR (f x) (\<lambda>y. Inr (k, y))) m
     | _ \<Rightarrow> Inl ''json: cannot unmarshal'')"

record GatewayConfig =
  gcHTTPAddr :: string
  gcWSAddr :: string
  gcCanvasAddr :: string
  gcOIDCIssuer :: string
  gcOIDCClientID :: string
  gcOIDCJWKSURL :: string
  gcJWKSCacheTTLSecs :: int
  gcDevMode :: bool
  gcEnableEventLoop :: bool
  gcEventLoopSources :: "string list"
  gcSessionRequired :: bool
  gcAlertPollIntervalSecs :: int
  gcAlertDedupWindowSecs :: int
  gcEventGateWindowSecs :: int
  gcEventGateBackoffSecs :: int
  gcEventGateMinCount :: int
  gcEventGateSeverities :: "string list"

definition decodeGatewayConfig :: "gval \<Rightarrow> GatewayConfig result" where
  "decodeGatewayConfig v =
     bindR (decodeObj v) (\<lambda>m.
     bindR (decodeStr (jsonField m ''http_addr'')) (\<lambda>http_addr.
     bindR (decodeStr (jsonField m ''ws_addr'')) (\<lambda>ws_addr.
     bindR (decodeStr (jsonField m ''canvas_addr'')) (\<lambda>canvas_addr.
     bindR (decodeStr (jsonField m ''oidc_issuer'')) (\<lambda>oidc_issuer.
     bindR (decodeStr (jsonField m ''oidc_client_id'')) (\<lambda>oidc_client_id.
     bindR (decodeStr (jsonField m ''oidc_jwks_url'')) (\<lambda>oidc_jwks_url.
     bindR (decodeInt (jsonField m ''jwks_cache_ttl_secs'')) (\<lambda>jwks_cache_ttl_secs.
     bindR (decodeBool (jsonField m ''dev_mode'')) (\<lambda>dev_mode.
     bindR (decodeBool (jsonField m ''enable_event_loop'')) (\<lambda>enable_event_loop.
     bindR (decodeSlice decodeStrV (orNull (jsonField m ''event_loop_sources''))) (\<lambda>event_loop_sources.
     bindR (decodeBool (jsonField m ''session_required'')) (\<lambda>session_required.
     bindR (decodeInt (jsonField m ''alert_poll_interval_secs'')) (\<lambda>alert_poll_interval_secs.
     bindR (decodeInt (jsonField m ''alert_dedup_window_secs'')) (\<lambda>alert_dedup_window_secs.
     bindR (decodeInt (jsonField m ''event_gate_window_secs'')) (\<lambda>event_gate_window_secs.
     bindR (decodeInt (jsonField m ''event_gate_backoff_secs'')) (\<lambda>event_gate_backoff_secs.
     bindR (decodeInt (jsonField m ''event_gate_min_count'')) (\<lambda>event_gate_min_count.
     bindR (decodeSlice decodeStrV (orNull (jsonField m ''event_gate_severities''))) (\<lambda>event_gate_severities.
       Inr \<lparr>gcHTTPAddr = http_addr, gcWSAddr = ws_addr, gcCanvasAddr = canvas_addr,
          gcOIDCIssuer = oidc_issuer, gcOIDCClientID = oidc_client_id, gcOIDCJWKSURL = oidc_jwks_url,
          gcJWKSCacheTTLSecs = jwks_cache_ttl_secs, gcDevMode = dev_mode,
          gcEnableEventLoop = enable_event_loop, gcEventLoopSources = event_loop_sources,
          gcSessionRequired = session_required, gcAlertPollIntervalSecs = alert_poll_interval_secs,
          gcAlertDedupWindowSecs = alert_dedup_window_secs,
          gcEventGateWindowSecs = event_gate_window_secs,
          gcEventGateBackoffSecs = event_gate_backoff_secs, gcEventGateMinCount = event_gate_min_count,
          gcEventGateSeverities = event_gate_severities\<rparr>))))))))))))))))))"

record ServiceMapping =
  smService :: string
  smEnvironment :: string
  smClusterID :: string
  smNamespace :: string
  smPromQL :: "string list"
  smTraceQL :: "string list"
  smDashboards :: "string list"

definition decodeServiceMapping :: "gval \<Rightarrow> ServiceMapping result" where
  "decodeServiceMapping v =
     bindR (decodeObj v) (\<lambda>m.
     bindR (decodeStr (jsonField m ''service'')) (\<lambda>service.
     bindR (decodeStr (jsonField m ''environment'')) (\<lambda>environment.
     bindR (decodeStr (jsonField m ''cluster_id'')) (\<lambda>cluster_id.
     bindR (decodeStr (jsonField m ''namespace'')) (\<lambda>namespace.
     bindR (decodeSlice decodeStrV (orNull (jsonField m ''promql''))) (\<lambda>promql.
     bindR (decodeSlice decodeStrV (orNull (jsonField m ''traceql''))) (\<lambda>traceql.
     bindR (decodeSlice decodeStrV (orNull (jsonField m ''dashboards''))) (\<lambda>dashboards.
       Inr \<lparr>smService = service, smEnvironment = environment, smClusterID = cluster_id,
          smNamespace = namespace, smPromQL = promql, smTraceQL = traceql, smDashboards = dashboards\<rparr>))))))))"

record ContextConfig =
  ccEnabled :: bool
  ccPollIntervalSecs :: int
  ccWatchIntervalSecs :: int
  ccSnapshotIntervalSecs :: int
  ccWatchTimeoutSecs :: int
  ccWatchSendInitialEvents :: bool
  ccWatchAllowBookmarks :: bool
  ccK8sResources :: "string list"
  ccLabels :: "(string \<times> string) list"
  ccK8sNamespaces :: "string list"
  ccHelmNamespaces :: "string list"
  ccArgoApps :: "string list"
  ccPromQLQueries :: "string list"
  ccTraceQLQueries :: "string list"
  ccGrafanaFolders :: "int list"
  ccAWSResourceTags :: "(string \<times> string list) list"
  ccTenantID :: string
  ccEnvironment :: string
  ccClusterID :: string
  ccNamespace :: string
  ccAWSAccountID :: string
  ccRegion :: string
  ccArgoCDProject :: string
  ccGrafanaOrgID :: string
  ccServices :: "ServiceMapping list"

definition decodeContextConfig :: "gval \<Rightarrow> ContextConfig result" where
  "decodeContextConfig v =
     bindR (decodeObj v) (\<lambda>m.
     bindR (decodeBool (jsonField m ''enabled'')) (\<lambda>enabled.
     bindR (decodeInt (jsonField m ''poll_interval_secs'')) (\<lambda>poll_interval_secs.
     bindR (decodeInt (jsonField m ''watch_interval_secs'')) (\<lambda>watch_interval_secs.
     bindR (decodeInt (jsonField m ''snapshot_interval_secs'')) (\<lambda>snapshot_interval_secs.
     bindR (decodeInt (jsonField m ''watch_timeout_secs'')) (\<lambda>watch_timeout_secs.
     bindR (decodeBool (jsonField m ''watch_send_initial_events'')) (\<lambda>watch_send_initial_events.
     bindR (decodeBool (jsonField m ''watch_allow_bookmarks'')) (\<lambda>watch_allow_bookmarks.
     bindR (decodeSlice decodeStrV (orNull (jsonField m ''k8s_resources''))) (\<lambda>k8s_resources.
     bindR (decodeMapOf decodeStrV (jsonField m ''labels'')) (\<lambda>labels.
     bindR (decodeSlice decodeStrV (orNull (jsonField m ''k8s_namespaces''))) (\<lambda>k8s_namespaces.
     bindR (decodeSlice decodeStrV (orNull (jsonField m ''helm_namespaces''))) (\<lambda>helm_namespaces.
     bindR (decodeSlice decodeStrV (orNull (jsonField m ''argo_apps''))) (\<lambda>argo_apps.
     bindR (decodeSlice decodeStrV (orNull (jsonField m ''promql_queries''))) (\<lambda>promql_queries.
     bindR (decodeSlice decodeStrV (orNull (jsonField m ''traceql_queries''))) (\<lambda>traceql_queries.
     bindR (decodeSlice (\<lambda>v. decodeInt (Some v)) (orNull (jsonField m ''grafana_folders''))) (\<lambda>grafana_folders.
     bindR (decodeMapOf (decodeSlice decodeStrV) (jsonField m ''aws_resource_tags'')) (\<lambda>aws_resource_tags.
     bindR (decodeStr (jsonField m ''tenant_id'')) (\<lambda>tenant_id.
     bindR (decodeStr (jsonField m ''environment'')) (\<lambda>environment.
     bindR (decodeStr (jsonField m ''cluster_id'')) (\<lambda>cluster_id.
     bindR (decodeStr (jsonField m ''namespace'')) (\<lambda>namespace.
     bindR (decodeStr (jsonField m ''aws_account_id'')) (\<lambda>aws_account_id.
     bindR (decodeStr (jsonField m ''region'')) (\<lambda>region.
     bindR (decodeStr (jsonField m ''argocd_project'')) (\<lambda>argocd_project.
     bindR (decodeStr (jsonField m ''grafana_org_id'')) (\<lambda>grafana_org_id.
     bindR (decodeSlice decodeServiceMapping (orNull (jsonField m ''services''))) (\<lambda>services.
       Inr \<lparr>ccEnabled = enabled, ccPollIntervalSecs = poll_interval_secs,
          ccWatchIntervalSecs = watch_interval_secs, ccSnapshotIntervalSecs = snapshot_interval_secs,
          ccWatchTimeoutSecs = watch_timeout_secs, ccWatchSendInitialEvents = watch_send_initial_events,
          ccWatchAllowBookmarks = watch_allow_bookmarks, ccK8sResources = k8s_resources,
          ccLabels = labels, ccK8sNamespaces = k8s_namespaces, ccHelmNamespaces = helm_namespaces,
          ccArgoApps = argo_apps, ccPromQLQueries = promql_queries, ccTraceQLQueries = traceql_queries,
          ccGrafanaFolders = grafana_folders, ccAWSResourceTags = aws_resource_tags,
          ccTenantID = tenant_id, ccEnvironment = environment, ccClusterID = cluster_id,
          ccNamespace = namespace, ccAWSAccountID = aws_account_id, ccRegion = region,
          ccArgoCDProject = argocd_project, ccGrafanaOrgID = grafana_org_id, ccServices = services\<rparr>))))))))))))))))))))))))))"

record ToolRouterConfig =
  trHTTPAddr :: string
  trBaseURL :: string
  trAuthToken :: string
  trOIDCIssuer :: string
  trOIDCClientID :: string
  trOIDCJWKSURL :: string

definition decodeToolRouterConfig :: "gval \<Rightarrow> ToolRouterConfig result" where
  "decodeToolRouterConfig v =
     bindR (decodeObj v) (\<lambda>m.
     bindR (decodeStr (jsonField m ''http_addr'')) (\<lambda>http_addr.
     bindR (decodeStr (jsonField m ''base_url'')) (\<lambda>base_url.
     bindR (decodeStr (jsonField m ''auth_token'')) (\<lambda>auth_token.
     bindR (decodeStr (jsonField m ''oidc_issuer'')) (\<lambda>oidc_issuer.
     bindR (decodeStr (jsonField m ''oidc_client_id'')) (\<lambda>oidc_client_id.
     bindR (decodeStr (jsonField m ''oidc_jwks_url'')) (\<lambda>oidc_jwks_url.
       Inr \<lparr>trHTTPAddr = http_addr, trBaseURL = base_url, trAuthToken = auth_token,
          trOIDCIssuer = oidc_issuer, trOIDCClientID = oidc_client_id, trOIDCJWKSURL = oidc_jwks_url\<rparr>)))))))"

record PolicyConfig =
  pcOPAURL :: string
  pcPolicyPackage :: string
  pcFailOpenReads :: bool

definition decodePolicyConfig :: "gval \<Rightarrow> PolicyConfig result" where
  "decodePolicyConfig v =
     bindR (decodeObj v) (\<lambda>m.
     bindR (decodeStr (jsonField m ''opa_url'')) (\<lambda>opa_url.
     bindR (decodeStr (jsonField m ''policy_package'')) (\<lambda>policy_package.
     bindR (decodeBool (jsonField m ''fail_open_reads'')) (\<lambda>fail_open_reads.
       Inr \<lparr>pcOPAURL = opa_url, pcPolicyPackage = policy_package, pcFailOpenReads = fail_open_reads\<rparr>))))"

record LLMConfig =
  lcProvider :: string
  lcAPIKey :: string
  lcAPIBase :: string
  lcModel :: string
  lcTimeoutMS :: int
  lcMaxOutputTokens :: int
  lcRedactPatterns :: "string list"
  lcAuthProfile :: string
  lcAuthPath :: string

definition decodeLLMConfig :: "gval \<Rightarrow> LLMConfig result" where
  "decodeLLMConfig v =
     bindR (decodeObj v) (\<lambda>m.
     bindR (decodeStr (jsonField m ''provider'')) (\<lambda>provider.
     bindR (decodeStr (jsonField m ''api_key'')) (\<lambda>api_key.
     bindR (decodeStr (jsonField m ''api_base'')) (\<lambda>api_base.
     bindR (decodeStr (jsonField m ''model'')) (\<lambda>model.
     bindR (decodeInt (jsonField m ''timeout_ms'')) (\<lambda>timeout_ms.
     bindR (decodeInt (jsonField m ''max_output_tokens'')) (\<lambda>max_output_tokens.
     bindR (decodeSlice decodeStrV (orNull (jsonField m ''redact_patterns''))) (\<lambda>redact_patterns.
     bindR (decodeStr (jsonField m ''auth_profile'')) (\<lambda>auth_profile.
     bindR (decodeStr (jsonField m ''auth_path'')) (\<lambda>auth_path.
       Inr \<lparr>lcProvider = provider, lcAPIKey = api_key, lcAPIBase = api_base, lcModel = model,
          lcTimeoutMS = timeout_ms, lcMaxOutputTokens = max_output_tokens,
          lcRedactPatterns = redact_patterns, lcAuthProfile = auth_profile, lcAuthPath = auth_path\<rparr>))))))))))"

record OrchestratorConfig =
  ocTemporalAddr :: string
  ocNamespace :: string
  ocTaskQueue :: string
  ocHealthAddr :: string

definition decodeOrchestratorConfig :: "gval \<Rightarrow> OrchestratorConfig result" where
  "decodeOrchestratorConfig v =
     bindR (decodeObj v) (\<lambda>m.
     bindR (decodeStr (jsonField m ''temporal_addr'')) (\<lambda>temporal_addr.
     bindR (decodeStr (jsonField m ''namespace'')) (\<lambda>namespace.
     bindR (decodeStr (jsonField m ''task_queue'')) (\<lambda>task_queue.
     bindR (decodeStr (jsonField m ''health_addr'')) (\<lambda>health_addr.
       Inr \<lparr>ocTemporalAddr = temporal_addr, ocNamespace = namespace, ocTaskQueue = task_queue,
          ocHealthAddr = health_addr\<rparr>)))))"

record ObjectStoreConfig =
  osEndpoint :: string
  osBucket :: string

definition decodeObjectStoreConfig :: "gval \<Rightarrow> ObjectStoreConfig result" where
  "decodeObjectStoreConfig v =
     bindR (decodeObj v) (\<lambda>m.
     bindR (decodeStr (jsonField m ''endpoint'')) (\<lambda>endpoint.
     bindR (decodeStr (jsonField m ''bucket'')) (\<lambda>bucket.
       Inr \<lparr>osEndpoint = endpoint, osBucket = bucket\<rparr>)))"

record StorageConfig =
  stPostgresDSN :: string
  stMaxOpenConns :: int
  stMaxIdleConns :: int
  stConnMaxLifetime :: string
  stObjectStore :: ObjectStoreConfig
  stWorkspaceDir :: string

definition decodeStorageConfig :: "gval \<Rightarrow> StorageConfig result" where
  "decodeStorageConfig v =
     bindR (decodeObj v) (\<lambda>m.
     bindR (decodeStr (jsonField m ''postgres_dsn'')) (\<lambda>postgres_dsn.
     bindR (decodeInt (jsonField m ''max_open_conns'')) (\<lambda>max_open_conns.
     bindR (decodeInt (jsonField m ''max_idle_conns'')) (\<lambda>max_idle_conns.
     bindR (decodeStr (jsonField m ''conn_max_lifetime'')) (\<lambda>conn_max_lifetime.
     bindR (decodeObjectStoreConfig (orNull (jsonField m ''object_store''))) (\<lambda>object_store.
     bindR (decodeStr (jsonField m ''workspace_dir'')) (\<lambda>workspace_dir.
       Inr \<lparr>stPostgresDSN = postgres_dsn, stMaxOpenConns = max_open_conns,
          stMaxIdleConns = max_idle_conns, stConnMaxLifetime = conn_max_lifetime,
          stObjectStore = object_store, stWorkspaceDir = workspace_dir\<rparr>)))))))"

record SandboxConfig =
  scEnabled :: bool
  scEnforce :: bool
  scImage :: string
  scRuntime :: string
  scEgressAllowlist :: "string list"
  scMounts :: "string list"
  scReadOnlyRoot :: bool
  scTmpfs :: "string list"
  scUser :: string
  scSeccompProfile :: string
  scNoNewPrivs :: bool
  scDropCaps :: "string list"
  scRequireSeccomp :: bool
  scRequireNoNewPrivs :: bool
  scRequireUser :: bool
  scRequireDropCaps :: bool
  scRequireOnWrite :: bool
  scRequireEgressAllowlist :: bool
  scMaxOutputBytes :: int

definition decodeSandboxConfig :: "gval \<Rightarrow> SandboxConfig result" where
  "decodeSandboxConfig v =
     bindR (decodeObj v) (\<lambda>m.
     bindR (decodeBool (jsonField m ''enabled'')) (\<lambda>enabled.
     bindR (decodeBool (jsonField m ''enforce'')) (\<lambda>enforce.
     bindR (decodeStr (jsonField m ''image'')) (\<lambda>image.
     bindR (decodeStr (jsonField m ''runtime'')) (\<lambda>runtime.
     bindR (decodeSlice decodeStrV (orNull (jsonField m ''egress_allowlist''))) (\<lambda>egress_allowlist.
     bindR (decodeSlice decodeStrV (orNull (jsonField m ''mounts''))) (\<lambda>mounts.
     bindR (decodeBool (jsonField m ''read_only_root'')) (\<lambda>read_only_root.
     bindR (decodeSlice decodeStrV (orNull (jsonField m ''tmpfs''))) (\<lambda>tmpfs.
     bindR (decodeStr (jsonField m ''user'')) (\<lambda>user.
     bindR (decodeStr (jsonField m ''seccomp_profile'')) (\<lambda>seccomp_profile.
     bindR (decodeBool (jsonField m ''no_new_privs'')) (\<lambda>no_new_privs.
     bindR (decodeSlice decodeStrV (orNull (jsonField m ''drop_caps''))) (\<lambda>drop_caps.
     bindR (decodeBool (jsonField m ''require_seccomp'')) (\<lambda>require_seccomp.
     bindR (decodeBool (jsonField m ''require_no_new_privs'')) (\<lambda>require_no_new_privs.
     bindR (decodeBool (jsonField m ''require_user'')) (\<lambda>require_user.
     bindR (decodeBool (jsonField m ''require_drop_caps'')) (\<lambda>require_drop_caps.
     bindR (decodeBool (jsonField m ''require_on_write'')) (\<lambda>require_on_write.
     bindR (decodeBool (jsonField m ''require_egress_allowlist'')) (\<lambda>require_egress_allowlist.
     bindR (decodeInt (jsonField m ''max_output_bytes'')) (\<lambda>max_output_bytes.
       Inr \<lparr>scEnabled = enabled, scEnforce = enforce, scImage = image, scRuntime = runtime,
          scEgressAllowlist = egress_allowlist, scMounts = mounts, scReadOnlyRoot = read_only_root,
          scTmpfs = tmpfs, scUser = user, scSeccompProfile = seccomp_profile,
          scNoNewPrivs = no_new_privs, scDropCaps = drop_caps, scRequireSeccomp = require_seccomp,
          scRequireNoNewPrivs = require_no_new_privs, scRequireUser = require_user,
          scRequireDropCaps = require_drop_caps, scRequireOnWrite = require_on_write,
          scRequireEgressAllowlist = require_egress_allowlist, scMaxOutputBytes = max_output_bytes\<rparr>))))))))))))))))))))"

record SchedulerConfig =
  shEnabled :: bool
  shPollIntervalSecs :: int
  shDefaultCron :: string

definition decodeSchedulerConfig :: "gval \<Rightarrow> SchedulerConfig result" where
  "decodeSchedulerConfig v =
     bindR (decodeObj v) (\<lambda>m.
     bindR (decodeBool (jsonField m ''enabled'')) (\<lambda>enabled.
     bindR (decodeInt (jsonField m ''poll_interval_secs'')) (\<lambda>poll_interval_secs.
     bindR (decodeStr (jsonField m ''default_cron'')) (\<lambda>default_cron.
       Inr \<lparr>shEnabled = enabled, shPollIntervalSecs = poll_interval_secs, shDefaultCron = default_cron\<rparr>))))"

record AWSConfig =
  awRoleARN :: string
  awAddr :: string
  awToken :: string

definition decodeAWSConfig :: "gval \<Rightarrow> AWSConfig result" where
  "decodeAWSConfig v =
     bindR (decodeObj v) (\<lambda>m.
     bindR (decodeStr (jsonField m ''role_arn'')) (\<lambda>role_arn.
     bindR (decodeStr (jsonField m ''addr'')) (\<lambda>addr.
     bindR (decodeStr (jsonField m ''token'')) (\<lambda>token.
       Inr \<lparr>awRoleARN = role_arn, awAddr = addr, awToken = token\<rparr>))))"

record VaultConfig =
  vaAddr :: string
  vaToken :: string
  vaAgentRole :: string
  vaAuthPath :: string
  vaTemplateDir :: string
  vaSinkPath :: string
  vaNamespace :: string
  vaAutoAuthMethod :: string
  vaAppRoleID :: string
  vaAppRoleSecret :: string
  vaTemplateSource :: string
  vaTemplateDest :: string
  vaRetryMaxBackoff :: string
  vaAuditEnable :: bool
  vaAuditPath :: string
  vaHealthIntervalSecs :: int
  vaRenewIntervalSecs :: int

definition decodeVaultConfig :: "gval \<Rightarrow> VaultConfig result" where
  "decodeVaultConfig v =
     bindR (decodeObj v) (\<lambda>m.
     bindR (decodeStr (jsonField m ''addr'')) (\<lambda>addr.
     bindR (decodeStr (jsonField m ''token'')) (\<lambda>token.
     bindR (decodeStr (jsonField m ''agent_role'')) (\<lambda>agent_role.
     bindR (decodeStr (jsonField m ''auth_path'')) (\<lambda>auth_path.
     bindR (decodeStr (jsonField m ''template_dir'')) (\<lambda>template_dir.
     bindR (decodeStr (jsonField m ''sink_path'')) (\<lambda>sink_path.
     bindR (decodeStr (jsonField m ''namespace'')) (\<lambda>namespace.
     bindR (decodeStr (jsonField m ''auto_auth_method'')) (\<lambda>auto_auth_method.
     bindR (decodeStr (jsonField m ''approle_id'')) (\<lambda>approle_id.
     bindR (decodeStr (jsonField m ''approle_secret'')) (\<lambda>approle_secret.
     bindR (decodeStr (jsonField m ''template_source'')) (\<lambda>template_source.
     bindR (decodeStr (jsonField m ''template_dest'')) (\<lambda>template_dest.
     bindR (decodeStr (jsonField m ''retry_max_backoff'')) (\<lambda>retry_max_backoff.
     bindR (decodeBool (jsonField m ''audit_enable'')) (\<lambda>audit_enable.
     bindR (decodeStr (jsonField m ''audit_path'')) (\<lambda>audit_path.
     bindR (decodeInt (jsonField m ''health_interval_secs'')) (\<lambda>health_interval_secs.
     bindR (decodeInt (jsonField m ''renew_interval_secs'')) (\<lambda>renew_interval_secs.
       Inr \<lparr>vaAddr = addr, vaToken = token, vaAgentRole = agent_role, vaAuthPath = auth_path,
          vaTemplateDir = template_dir, vaSinkPath = sink_path, vaNamespace = namespace,
          vaAutoAuthMethod = auto_auth_method, vaAppRoleID = approle_id,
          vaAppRoleSecret = approle_secret, vaTemplateSource = template_source,
          vaTemplateDest = template_dest, vaRetryMaxBackoff = retry_max_backoff,
          vaAuditEnable = audit_enable, vaAuditPath = audit_path,
          vaHealthIntervalSecs = health_interval_secs, vaRenewIntervalSecs = renew_interval_secs\<rparr>))))))))))))))))))"

record K8sConfig =
  ksKubeconfigPath :: string

definition decodeK8sConfig :: "gval \<Rightarrow> K8sConfig result" where
  "decodeK8sConfig v =
     bindR (decodeObj v) (\<lambda>m.
     bindR (decodeStr (jsonField m ''kubeconfig_path'')) (\<lambda>kubeconfig_path.
       Inr \<lparr>ksKubeconfigPath = kubeconfig_path\<rparr>))"

record BoundaryConfig =
  boAddr :: string
  boToken :: string
  boTargetID :: string
  boSessionDuration :: string
  boAutoClose :: bool
  boEnableTunnel :: bool
  boListenAddr :: string

definition decodeBoundaryConfig :: "gval \<Rightarrow> BoundaryConfig result" where
  "decodeBoundaryConfig v =
     bindR (decodeObj v) (\<lambda>m.
     bindR (decodeStr (jsonField m ''addr'')) (\<lambda>addr.
     bindR (decodeStr (jsonField m ''token'')) (\<lambda>token.
     bindR (decodeStr (jsonField m ''target_id'')) (\<lambda>target_id.
     bindR (decodeStr (jsonField m ''session_duration'')) (\<lambda>session_duration.
     bindR (decodeBool (jsonField m ''auto_close'')) (\<lambda>auto_close.
     bindR (decodeBool (jsonField m ''enable_tunnel'')) (\<lambda>enable_tunnel.
     bindR (decodeStr (jsonField m ''listen_addr'')) (\<lambda>listen_addr.
       Inr \<lparr>boAddr = addr, boToken = token, boTargetID = target_id, boSessionDuration = session_duration,
          boAutoClose = auto_close, boEnableTunnel = enable_tunnel, boListenAddr = listen_addr\<rparr>))))))))"

record ArgoCDConfig =
  arAddr :: string
  arToken :: string

definition decodeArgoCDConfig :: "gval \<Rightarrow> ArgoCDConfig result" where
  "decodeArgoCDConfig v =
     bindR (decodeObj v) (\<lambda>m.
     bindR (decodeStr (jsonField m ''addr'')) (\<lambda>addr.
     bindR (decodeStr (jsonField m ''token'')) (\<lambda>token.
       Inr \<lparr>arAddr = addr, arToken = token\<rparr>)))"

record PrometheusConfig =
  prAddr :: string
  prToken :: string

definition decodePrometheusConfig :: "gval \<Rightarrow> PrometheusConfig result" where
  "decodePrometheusConfig v =
     bindR (decodeObj v) (\<lambda>m.
     bindR (decodeStr (jsonField m ''addr'')) (\<lambda>addr.
     bindR (decodeStr (jsonField m ''token'')) (\<lambda>token.
       Inr \<lparr>prAddr = addr, prToken = token\<rparr>)))"

record AlertmanagerConfig =
  amAddr :: string
  amToken :: string

definition decodeAlertmanagerConfig :: "gval \<Rightarrow> AlertmanagerConfig result" where
  "decodeAlertmanagerConfig v =
     bindR (decodeObj v) (\<lambda>m.
     bindR (decodeStr (jsonField m ''addr'')) (\<lambda>addr.
     bindR (decodeStr (jsonField m ''token'')) (\<lambda>token.
       Inr \<lparr>amAddr = addr, amToken = token\<rparr>)))"

record ThanosConfig =
  thAddr :: string
  thToken :: string

definition decodeThanosConfig :: "gval \<Rightarrow> ThanosConfig result" where
  "decodeThanosConfig v =
     bindR (decodeObj v) (\<lambda>m.
     bindR (decodeStr (jsonField m ''addr'')) (\<lambda>addr.
     bindR (decodeStr (jsonField m ''token'')) (\<lambda>token.
       Inr \<lparr>thAddr = addr, thToken = token\<rparr>)))"

record GrafanaConfig =
  grAddr :: string
  grToken :: string
  grOrgID :: string

definition decodeGrafanaConfig :: "gval \<Rightarrow> GrafanaConfig result" where
  "decodeGrafanaConfig v =
     bindR (decodeObj v) (\<lambda>m.
     bindR (decodeStr (jsonField m ''addr'')) (\<lambda>addr.
     bindR (decodeStr (jsonField m ''token'')) (\<lambda>token.
     bindR (decodeStr (jsonField m ''org_id'')) (\<lambda>org_id.
       Inr \<lparr>grAddr = addr, grToken = token, grOrgID = org_id\<rparr>))))"

record TempoConfig =
  teAddr :: string
  teToken :: string

definition decodeTempoConfig :: "gval \<Rightarrow> TempoConfig result" where
  "decodeTempoConfig v =
     bindR (decodeObj v) (\<lambda>m.
     bindR (decodeStr (jsonField m ''addr'')) (\<lambda>addr.
     bindR (decodeStr (jsonField m ''token'')) (\<lambda>token.
       Inr \<lparr>teAddr = addr, teToken = token\<rparr>)))"

record LinearConfig =
  liToken :: string
  liTeamID :: string
  liBaseURL :: string
  liPollIntervalMS :: int
  liTimeoutHours :: int

definition decodeLinearConfig :: "gval \<Rightarrow> LinearConfig result" where
  "decodeLinearConfig v =
     bindR (decodeObj v) (\<lambda>m.
     bindR (decodeStr (jsonField m ''token'')) (\<lambda>token.
     bindR (decodeStr (jsonField m ''team_id'')) (\<lambda>team_id.
     bindR (decodeStr (jsonField m ''base_url'')) (\<lambda>base_url.
     bindR (decodeInt (jsonField m ''poll_interval_ms'')) (\<lambda>poll_interval_ms.
     bindR (decodeInt (jsonField m ''timeout_hours'')) (\<lambda>timeout_hours.
       Inr \<lparr>liToken = token, liTeamID = team_id, liBaseURL = base_url,
          liPollIntervalMS = poll_interval_ms, liTimeoutHours = timeout_hours\<rparr>))))))"

record PagerDutyConfig =
  pdAddr :: string
  pdToken :: string

definition decodePagerDutyConfig :: "gval \<Rightarrow> PagerDutyConfig result" where
  "decodePagerDutyConfig v =
     bindR (decodeObj v) (\<lambda>m.
     bindR (decodeStr (jsonField m ''addr'')) (\<lambda>addr.
     bindR (decodeStr (jsonField m ''token'')) (\<lambda>token.
       Inr \<lparr>pdAddr = addr, pdToken = token\<rparr>)))"

record ConnectorsConfig =
  cnAWS :: AWSConfig
  cnVault :: VaultConfig
  cnK8s :: K8sConfig
  cnBoundary :: BoundaryConfig
  cnArgoCD :: ArgoCDConfig
  cnPrometheus :: PrometheusConfig
  cnAlertmanager :: AlertmanagerConfig
  cnThanos :: ThanosConfig
  cnGrafana :: GrafanaConfig
  cnTempo :: TempoConfig
  cnLinear :: LinearConfig
  cnPagerDuty :: PagerDutyConfig

definition decodeConnectorsConfig :: "gval \<Rightarrow> ConnectorsConfig result" where
  "decodeConnectorsConfig v =
     bindR (decodeObj v) (\<lambda>m.
     bindR (decodeAWSConfig (orNull (jsonField m ''aws''))) (\<lambda>aws.
     bindR (decodeVaultConfig (orNull (jsonField m ''vault''))) (\<lambda>vault.
     bindR (decodeK8sConfig (orNull (jsonField m ''k8s''))) (\<lambda>k8s.
     bindR (decodeBoundaryConfig (orNull (jsonField m ''boundary''))) (\<lambda>boundary.
     bindR (decodeArgoCDConfig (orNull (jsonField m ''argocd''))) (\<lambda>argocd.
     bindR (decodePrometheusConfig (orNull (jsonField m ''prometheus''))) (\<lambda>prometheus.
     bindR (decodeAlertmanagerConfig (orNull (jsonField m ''alertmanager''))) (\<lambda>alertmanager.
     bindR (decodeThanosConfig (orNull (jsonField m ''thanos''))) (\<lambda>thanos.
     bindR (decodeGrafanaConfig (orNull (jsonField m ''grafana''))) (\<lambda>grafana.
     bindR (decodeTempoConfig (orNull (jsonField m ''tempo''))) (\<lambda>tempo.
     bindR (decodeLinearConfig (orNull (jsonField m ''linear''))) (\<lambda>linear.
     bindR (decodePagerDutyConfig (orNull (jsonField m ''pagerduty''))) (\<lambda>pagerduty.
       Inr \<lparr>cnAWS = aws, cnVault = vault, cnK8s = k8s, cnBoundary = boundary, cnArgoCD = argocd,
          cnPrometheus = prometheus, cnAlertmanager = alertmanager, cnThanos = thanos,
          cnGrafana = grafana, cnTempo = tempo, cnLinear = linear, cnPagerDuty = pagerduty\<rparr>)))))))))))))"

record ChatOpsConfig =
  coSlackBotToken :: string
  coSlackSigningSecret :: string
  coGatewayURL :: string
  coGatewayToken :: string

definition decodeChatOpsConfig :: "gval \<Rightarrow> ChatOpsConfig result" where
  "decodeChatOpsConfig v =
     bindR (decodeObj v) (\<lambda>m.
     bindR (decodeStr (jsonField m ''slack_bot_token'')) (\<lambda>slack_bot_token.
     bindR (decodeStr (jsonField m ''slack_signing_secret'')) (\<lambda>slack_signing_secret.
     bindR (decodeStr (jsonField m ''gateway_url'')) (\<lambda>gateway_url.
     bindR (decodeStr (jsonField m ''gateway_token'')) (\<lambda>gateway_token.
       Inr \<lparr>coSlackBotToken = slack_bot_token, coSlackSigningSecret = slack_signing_secret,
          coGatewayURL = gateway_url, coGatewayToken = gateway_token\<rparr>)))))"

record ApprovalsConfig =
  avAutoApproveLow :: bool

definition decodeApprovalsConfig :: "gval \<Rightarrow> ApprovalsConfig result" where
  "decodeApprovalsConfig v =
     bindR (decodeObj v) (\<lambda>m.
     bindR (decodeBool (jsonField m ''auto_approve_low'')) (\<lambda>auto_approve_low.
       Inr \<lparr>avAutoApproveLow = auto_approve_low\<rparr>))"

record Config =
  cfGateway :: GatewayConfig
  cfContext :: ContextConfig
  cfToolRouter :: ToolRouterConfig
  cfPolicy :: PolicyConfig
  cfLLM :: LLMConfig
  cfOrchestrator :: OrchestratorConfig
  cfStorage :: StorageConfig
  cfSandbox :: SandboxConfig
  cfScheduler :: SchedulerConfig
  cfConnectors :: ConnectorsConfig
  cfChatOps :: ChatOpsConfig
  cfApprovals :: ApprovalsConfig

definition decodeConfig :: "gval \<Rightarrow> Config result" where
  "decodeConfig v =
     bindR (decodeObj v) (\<lambda>m.
     bindR (decodeGatewayConfig (orNull (jsonField m ''gateway''))) (\<lambda>gateway.
     bindR (decodeContextConfig (orNull (jsonField m ''context''))) (\<lambda>context.
     bindR (decodeToolRouterConfig (orNull (jsonField m ''tool_router''))) (\<lambda>tool_router.
     bindR (decodePolicyConfig (orNull (jsonField m ''policy''))) (\<lambda>policy.
     bindR (decodeLLMConfig (orNull (jsonField m ''llm''))) (\<lambda>llm.
     bindR (decodeOrchestratorConfig (orNull (jsonField m ''orchestrator''))) (\<lambda>orchestrator.
     bindR (decodeStorageConfig (orNull (jsonField m ''storage''))) (\<lambda>storage.
     bindR (decodeSandboxConfig (orNull (jsonField m ''sandbox''))) (\<lambda>sandbox.
     bindR (decodeSchedulerConfig (orNull (jsonField m ''scheduler''))) (\<lambda>scheduler.
     bindR (decodeConnectorsConfig (orNull (jsonField m ''connectors''))) (\<lambda>connectors.
     bindR (decodeChatOpsConfig (orNull (jsonField m ''chatops''))) (\<lambda>chatops.
     bindR (decodeApprovalsConfig (orNull (jsonField m ''approvals''))) (\<lambda>approvals.
       Inr \<lparr>cfGateway = gateway, cfContext = context, cfToolRouter = tool_router, cfPolicy = policy,
          cfLLM = llm, cfOrchestrator = orchestrator, cfStorage = storage, cfSandbox = sandbox,
          cfScheduler = scheduler, cfConnectors = connectors, cfChatOps = chatops,
          cfApprovals = approvals\<rparr>)))))))))))))"

section \<open>Validation\<close>

definition validateOIDC :: "string \<Rightarrow> string \<Rightarrow> string \<Rightarrow> string \<Rightarrow> unit result" where
  "validateOIDC pre issuer0 clientID0 jwksURL0 =
    (let issuer = TrimSpace issuer0; clientID = TrimSpace clientID0; jwksURL = TrimSpace jwksURL0 in
     if issuer = [] \<and> clientID = [] \<and> jwksURL = [] then Inr ()
     else if issuer = [] \<or> clientID = [] \<or> jwksURL = []
     then Inl (pre @ '' oidc config incomplete: require oidc_issuer, oidc_client_id, oidc_jwks_url'')
     else Inr ())"

definition validateTokenAddr :: "string \<Rightarrow> string \<Rightarrow> string \<Rightarrow> unit result" where
  "validateTokenAddr pre addr token =
    (if TrimSpace token = [] then Inr ()
     else if TrimSpace addr = [] then Inl (pre @ ''.addr required when token is set'')
     else Inr ())"

definition require :: "bool \<Rightarrow> string \<Rightarrow> unit result" where
  "require ok msg = (if ok then Inr () else Inl msg)"

definition validateLLM :: "LLMConfig \<Rightarrow> unit result" where
  "validateLLM c =
    (if TrimSpace (lcProvider c) = [] then Inr ()
     else if TrimSpace (lcModel c) = [] then Inl ''llm.model required when llm.provider is set''
     else (let p = ToLower (TrimSpace (lcProvider c)) in
       if (p = ''openai'' \<or> p = ''anthropic'') \<and> TrimSpace (lcAPIKey c) = [] \<and> TrimSpace (lcAuthProfile c) = []
       then Inl (''llm.api_key or llm.auth_profile required for llm.provider '' @ p)
       else Inr ()))"

definition validateSandbox :: "SandboxConfig \<Rightarrow> unit result" where
  "validateSandbox c =
     bindR (require (\<not> (scEnforce c \<and> TrimSpace (scImage c) = [])) ''sandbox.image required when sandbox.enforce is true'') (\<lambda>_.
     bindR (require (\<not> (scRequireSeccomp c \<and> TrimSpace (scSeccompProfile c) = []))
              ''sandbox.seccomp_profile required when sandbox.require_seccomp is true'') (\<lambda>_.
     require (\<not> (scRequireUser c \<and> TrimSpace (scUser c) = [])) ''sandbox.user required when sandbox.require_user is true''))"

definition connectorAddrs :: "ConnectorsConfig \<Rightarrow> (string \<times> string \<times> string) list" where
  "connectorAddrs c =
     [(''connectors.prometheus'', prAddr (cnPrometheus c), prToken (cnPrometheus c)),
      (''connectors.alertmanager'', amAddr (cnAlertmanager c), amToken (cnAlertmanager c)),
      (''connectors.thanos'', thAddr (cnThanos c), thToken (cnThanos c)),
      (''connectors.grafana'', grAddr (cnGrafana c), grToken (cnGrafana c)),
      (''connectors.tempo'', teAddr (cnTempo c), teToken (cnTempo c)),
      (''connectors.linear'', liBaseURL (cnLinear c), liToken (cnLinear c)),
      (''connectors.pagerduty'', pdAddr (cnPagerDuty c), pdToken (cnPagerDuty c)),
      (''connectors.vault'', vaAddr (cnVault c), vaToken (cnVault c)),
      (''connectors.boundary'', boAddr (cnBoundary c), boToken (cnBoundary c)),
      (''connectors.argocd'', arAddr (cnArgoCD c), arToken (cnArgoCD c)),
      (''connectors.aws'', awAddr (cnAWS c), awToken (cnAWS c))]"

fun validateConnectors :: "(string \<times> string \<times> string) list \<Rightarrow> unit result" where
  "validateConnectors [] = Inr ()"
| "validateConnectors ((pre, addr, token) # cs) =
     bindR (validateTokenAddr pre addr token) (\<lambda>_. validateConnectors cs)"

definition Validate :: "Config \<Rightarrow> unit result" where
  "Validate c =
     bindR (require (gcHTTPAddr (cfGateway c) \<noteq> []) ''gateway.http_addr required'') (\<lambda>_.
     bindR (require (stPostgresDSN (cfStorage c) \<noteq> []) ''storage.postgres_dsn required'') (\<lambda>_.
     bindR (validateOIDC ''gateway'' (gcOIDCIssuer (cfGateway c)) (gcOIDCClientID (cfGateway c)) (gcOIDCJWKSURL (cfGateway c))) (\<lambda>_.
     bindR (validateOIDC ''tool_router'' (trOIDCIssuer (cfToolRouter c)) (trOIDCClientID (cfToolRouter c))
              (trOIDCJWKSURL (cfToolRouter c))) (\<lambda>_.
     bindR (validateLLM (cfLLM c)) (\<lambda>_.
     bindR (validateSandbox (cfSandbox c)) (\<lambda>_.
     bindR (validateConnectors (connectorAddrs (cfConnectors c))) (\<lambda>_.
     require (\<not> (TrimSpace (coSlackSigningSecret (cfChatOps c)) \<noteq> [] \<and> TrimSpace (coGatewayURL (cfChatOps c)) = [] \<and>
                  TrimSpace (gcHTTPAddr (cfGateway c)) = []))
       ''chatops.gateway_url required when chatops.slack_signing_secret is set'')))))))"

definition LoadConfig :: "(string \<Rightarrow> string result) \<Rightarrow> (string \<Rightarrow> gval option) \<Rightarrow> string \<Rightarrow> Config result" where
  "LoadConfig read unmarshal path =
     bindR (read path) (\<lambda>data.
     bindR (case unmarshal data of None \<Rightarrow> Inl ''invalid json'' | Some doc \<Rightarrow> decodeConfig doc) (\<lambda>cfg.
     bindR (Validate cfg) (\<lambda>_. Inr cfg)))"

section \<open>What a loaded configuration guarantees\<close>

lemma require_ok: "require b msg = Inr () \<longleftrightarrow> b"
  by (simp add: require_def)

lemma validateOIDC_ok:
  "validateOIDC pre i c u = Inr () \<longleftrightarrow>
   (TrimSpace i = [] \<and> TrimSpace c = [] \<and> TrimSpace u = [] \<or> TrimSpace i \<noteq> [] \<and> TrimSpace c \<noteq> [] \<and> TrimSpace u \<noteq> [])"
  by (auto simp: validateOIDC_def Let_def)

lemma validateConnectors_ok:
  "validateConnectors cs = Inr () \<longleftrightarrow> (\<forall>(_, addr, token) \<in> set cs. TrimSpace token \<noteq> [] \<longrightarrow> TrimSpace addr \<noteq> [])"
  by (induction cs rule: validateConnectors.induct) (auto simp: bindR_eq_Inr validateTokenAddr_def split: if_splits)

lemma validateSandbox_ok:
  "validateSandbox c = Inr () \<longleftrightarrow>
   (scEnforce c \<longrightarrow> TrimSpace (scImage c) \<noteq> []) \<and> (scRequireSeccomp c \<longrightarrow> TrimSpace (scSeccompProfile c) \<noteq> []) \<and>
   (scRequireUser c \<longrightarrow> TrimSpace (scUser c) \<noteq> [])"
  by (auto simp: validateSandbox_def bindR_eq_Inr require_ok)

lemma Validate_parts:
  assumes "Validate c = Inr ()"
  shows "gcHTTPAddr (cfGateway c) \<noteq> []" "stPostgresDSN (cfStorage c) \<noteq> []"
    and "validateOIDC ''gateway'' (gcOIDCIssuer (cfGateway c)) (gcOIDCClientID (cfGateway c)) (gcOIDCJWKSURL (cfGateway c)) = Inr ()"
    and "validateOIDC ''tool_router'' (trOIDCIssuer (cfToolRouter c)) (trOIDCClientID (cfToolRouter c))
           (trOIDCJWKSURL (cfToolRouter c)) = Inr ()"
    and "validateLLM (cfLLM c) = Inr ()" "validateSandbox (cfSandbox c) = Inr ()"
    and "validateConnectors (connectorAddrs (cfConnectors c)) = Inr ()"
  using assms by (simp_all add: Validate_def bindR_eq_Inr require_ok)

lemma LoadConfig_valid: "LoadConfig read unmarshal path = Inr c \<Longrightarrow> Validate c = Inr ()"
  by (auto simp: LoadConfig_def bindR_eq_Inr)

end
