(* ===== verification/Tool_Clients.thy ===== *)
theory Tool_Clients
  imports Tool_Router Config
begin

text \<open>
  The HTTP clients behind the tools: \<open>APIClient.Do\<close> and its allow-list (\<open>internal/tools/api_fallbacks.go\<close>,
  \<open>api_auth.go\<close>), their construction from the configuration (\<open>clients_builder.go\<close>), the egress proxy's
  decision on a connection (\<open>egress_proxy.go\<close>) and the client of the tool router service
  (\<open>router_client.go\<close>). The round trip, the files and basic authentication are parameters.
\<close>

section \<open>One request\<close>

record AuthHeaders =
  ahBearer :: string
  ahBasicUser :: string
  ahBasicPass :: string
  ahExtra :: "(string \<times> string) list"

record APIClient =
  acBaseURL :: string
  acAuth :: AuthHeaders
  acAllowlist :: "string list"
  acTokenFile :: string
  acMaxOutput :: int

record HttpEnv =
  htHost :: "string \<Rightarrow> string option"
  htMarshal :: "gval \<Rightarrow> string result"
  htRead :: "string \<Rightarrow> string result"
  htBasic :: "string \<Rightarrow> string \<Rightarrow> string"
  htSend :: "string \<Rightarrow> string \<Rightarrow> (string \<times> string) list \<Rightarrow> string \<Rightarrow> string result"

definition setHeader :: "(string \<times> string) list \<Rightarrow> string \<Rightarrow> string \<Rightarrow> (string \<times> string) list" where
  "setHeader hs k v = filter (\<lambda>(k', _). k' \<noteq> k) hs @ [(k, v)]"

definition ApplyAuth :: "HttpEnv \<Rightarrow> (string \<times> string) list \<Rightarrow> AuthHeaders \<Rightarrow> (string \<times> string) list" where
  "ApplyAuth env hs auth =
    (let h1 = (if ahBearer auth \<noteq> [] then setHeader hs ''Authorization'' (''Bearer '' @ ahBearer auth) else hs);
         h2 = (if ahBasicUser auth \<noteq> []
               then setHeader h1 ''Authorization'' (htBasic env (ahBasicUser auth) (ahBasicPass auth)) else h1) in
     foldl (\<lambda>h (k, v). setHeader h k v) h2 (ahExtra auth))"

definition readTokenFile :: "HttpEnv \<Rightarrow> string \<Rightarrow> string result" where
  "readTokenFile env path = bindR (htRead env path) (\<lambda>data. Inr (TrimSpace data))"

definition effectiveAuth :: "HttpEnv \<Rightarrow> APIClient \<Rightarrow> AuthHeaders" where
  "effectiveAuth env c =
    (if ahBearer (acAuth c) = [] \<and> TrimSpace (acTokenFile c) \<noteq> [] then
       (case readTokenFile env (acTokenFile c) of
          Inr token \<Rightarrow> if token \<noteq> [] then (acAuth c)\<lparr>ahBearer := token\<rparr> else acAuth c
        | Inl _ \<Rightarrow> acAuth c)
     else acAuth c)"

text \<open>At most one byte more than the limit is read, then the answer is cut.\<close>

definition limitBody :: "int \<Rightarrow> string \<Rightarrow> string" where
  "limitBody limit body =
    (if limit > 0 then
       (let data = take (nat (limit + 1)) body in
        if int (length data) > limit then take (nat limit) data @ truncatedMark else data)
     else body)"

text \<open>The call with the requests it sends.\<close>

definition Do :: "HttpEnv \<Rightarrow> APIClient \<Rightarrow> string \<Rightarrow> string \<Rightarrow> gval \<Rightarrow>
    string result \<times> (string \<times> string \<times> (string \<times> string) list \<times> string) list" where
  "Do env c method path body =
    (if acAllowlist c \<noteq> [] \<and> \<not> allowHost (htHost env) (acBaseURL c) (acAllowlist c) then (Inl ''egress denied'', [])
     else case (if body = GNil then Inr [] else htMarshal env body) of
       Inl e \<Rightarrow> (Inl e, [])
     | Inr data \<Rightarrow>
        (let hs = ApplyAuth env [(''Content-Type'', ''application/json'')] (effectiveAuth env c) in
         (bindR (htSend env method (acBaseURL c @ path) hs data) (\<lambda>answer. Inr (limitBody (acMaxOutput c) answer)),
          [(method, acBaseURL c @ path, hs, data)])))"

section \<open>The clients of a configuration\<close>

record APIConfig =
  apBases :: "(string \<times> string) list"
  apGrafanaOrgID :: string
  apTokens :: "(string \<times> string) list"
  apEgress :: "string list"
  apMaxOutput :: int

definition apiTools :: "string list" where
  "apiTools = [''prometheus'', ''alertmanager'', ''thanos'', ''grafana'', ''tempo'', ''linear'', ''pagerduty'',
     ''vault'', ''boundary'', ''argocd'', ''aws'']"

text \<open>Address and token of each connector.\<close>

definition connectorOf :: "ConnectorsConfig \<Rightarrow> string \<Rightarrow> string \<times> string" where
  "connectorOf c tool =
    (if tool = ''prometheus'' then (prAddr (cnPrometheus c), prToken (cnPrometheus c))
     else if tool = ''alertmanager'' then (amAddr (cnAlertmanager c), amToken (cnAlertmanager c))
     else if tool = ''thanos'' then (thAddr (cnThanos c), thToken (cnThanos c))
     else if tool = ''grafana'' then (grAddr (cnGrafana c), grToken (cnGrafana c))
     else if tool = ''tempo'' then (teAddr (cnTempo c), teToken (cnTempo c))
     else if tool = ''linear'' then (liBaseURL (cnLinear c), liToken (cnLinear c))
     else if tool = ''pagerduty'' then (pdAddr (cnPagerDuty c), pdToken (cnPagerDuty c))
     else if tool = ''vault'' then (vaAddr (cnVault c), vaToken (cnVault c))
     else if tool = ''boundary'' then (boAddr (cnBoundary c), boToken (cnBoundary c))
     else if tool = ''argocd'' then (arAddr (cnArgoCD c), arToken (cnArgoCD c))
     else if tool = ''aws'' then (awAddr (cnAWS c), awToken (cnAWS c))
     else ([], []))"

definition lookupOr :: "(string \<times> string) list \<Rightarrow> string \<Rightarrow> string \<Rightarrow> string" where
  "lookupOr m k dflt = (case map_of m k of None \<Rightarrow> dflt | Some v \<Rightarrow> if v = [] then dflt else v)"

definition clientFor :: "Config \<Rightarrow> APIConfig \<Rightarrow> string \<Rightarrow> APIClient" where
  "clientFor cfg api tool =
    (let (addr, tok) = connectorOf (cfConnectors cfg) tool;
         token = lookupOr (apTokens api) tool tok;
         org = (if apGrafanaOrgID api \<noteq> [] then apGrafanaOrgID api
                else if grOrgID (cnGrafana (cfConnectors cfg)) \<noteq> [] then grOrgID (cnGrafana (cfConnectors cfg)) else ''1'') in
     \<lparr>acBaseURL = lookupOr (apBases api) tool addr,
      acAuth = \<lparr>ahBearer = token, ahBasicUser = [], ahBasicPass = [],
                ahExtra = (if tool = ''grafana'' then [(''X-Grafana-Org-Id'', org)] else [])\<rparr>,
      acAllowlist = apEgress api,
      acTokenFile = (if tool = ''vault'' \<and> token = [] then vaSinkPath (cnVault (cfConnectors cfg)) else []),
      acMaxOutput = (if apMaxOutput api = 0 then scMaxOutputBytes (cfSandbox cfg) else apMaxOutput api)\<rparr>)"

definition BuildHTTPClients :: "Config \<Rightarrow> APIConfig \<Rightarrow> string \<Rightarrow> APIClient option" where
  "BuildHTTPClients cfg api tool = (if tool \<in> set apiTools then Some (clientFor cfg api tool) else None)"

section \<open>The egress proxy\<close>

text \<open>
  What \<open>handleConn\<close> does with a request whose \<open>Host\<close> is \<open>host\<close> and whose URL host is \<open>target\<close>: nothing, an
  answer of its own, or a connection to a host.
\<close>

datatype proxyAction = Refuse string | Tunnel string | Forward string

definition proxyHandle ::
  "(string \<Rightarrow> string option) \<Rightarrow> (string \<Rightarrow> string) \<Rightarrow> string list \<Rightarrow> string \<Rightarrow> string \<Rightarrow> string \<Rightarrow> proxyAction" where
  "proxyHandle urlHost urlHostPort allowlist method host target =
    (if method = ''CONNECT'' then
       (if proxyAllowHost urlHost urlHostPort allowlist host then Tunnel host else Refuse ''HTTP/1.1 403 Forbidden'')
     else
       (let t = (if target = [] then host else target) in
        if proxyAllowHost urlHost urlHostPort allowlist t then Forward t else Refuse ''HTTP/1.1 403 Forbidden''))"

section \<open>The client of the tool router service\<close>

record RouterClient =
  rcBaseURL :: string
  rcToken :: string

definition requestDoc :: "(ContextRef \<Rightarrow> gval) \<Rightarrow> ExecuteRequest \<Rightarrow> gval" where
  "requestDoc ctxOf req = GMap
     [(''Tool'', GStr (ReqTool req)), (''Action'', GStr (ReqAction req)), (''Input'', ReqInput req),
      (''tool_call_id'', GStr (ReqToolCallID req)), (''execution_id'', GStr (ReqExecutionID req)),
      (''Context'', ctxOf (ReqContext req))]"

definition routerExecute ::
  "(gval \<Rightarrow> string result) \<Rightarrow> (string \<Rightarrow> gmap result) \<Rightarrow>
   (string \<Rightarrow> (string \<times> string) list \<Rightarrow> string \<Rightarrow> (int \<times> string) result) \<Rightarrow>
   (ContextRef \<Rightarrow> gval) \<Rightarrow> RouterClient \<Rightarrow> ExecuteRequest \<Rightarrow> gmap result" where
  "routerExecute marshal unmarshal post ctxOf c req =
    (if TrimSpace (rcBaseURL c) = [] then Inl ''base url required''
     else
       bindR (marshal (requestDoc ctxOf req)) (\<lambda>body.
       bindR (post (rev (dropWhile (\<lambda>ch. ch = CHR ''/'') (rev (rcBaseURL c))) @ ''/v1/tools:execute'')
                ((''Content-Type'', ''application/json'') #
                 (if rcToken c \<noteq> [] then [(''Authorization'', ''Bearer '' @ rcToken c)] else [])) body) (\<lambda>(status, answer).
       if status < 200 \<or> status \<ge> 300 then Inl (''tool router status '' @ showInt status)
       else unmarshal answer)))"

section \<open>Where requests go\<close>

lemma limitBody_bound: "0 < limit \<Longrightarrow> int (length (limitBody limit body)) \<le> limit + int (length truncatedMark)"
  by (auto simp: limitBody_def Let_def min_def)

lemma Do_requests:
  assumes "Do env c method path body = (res, sent)" "q \<in> set sent"
  shows "fst (snd q) = acBaseURL c @ path"
    and "acAllowlist c \<noteq> [] \<Longrightarrow> allowHost (htHost env) (acBaseURL c) (acAllowlist c)"
  using assms by (auto simp: Do_def Let_def split: if_splits sum.splits)

lemma Do_answer:
  assumes "Do env c method path body = (res, sent)"
  shows "length sent \<le> 1"
    and "0 < acMaxOutput c \<Longrightarrow> res = Inr out \<Longrightarrow> int (length out) \<le> acMaxOutput c + int (length truncatedMark)"
  using assms by (auto simp: Do_def Let_def bindR_eq_Inr limitBody_bound split: if_splits sum.splits)

lemma proxyAllowHost_allowed:
  assumes "proxyAllowHost urlHost urlHostPort allowlist raw"
  shows "\<exists>h. allowHost urlHost (''http://'' @ urlHostPort h) allowlist"
  using assms by (auto simp: proxyAllowHost_def Let_def split: if_splits option.splits)

lemma connectorAddrs_map: "connectorAddrs c = map (\<lambda>tool. (''connectors.'' @ tool, connectorOf c tool)) apiTools"
  by (simp add: connectorAddrs_def connectorOf_def apiTools_def)

lemma connectorOf_listed: "tool \<in> set apiTools \<Longrightarrow> \<exists>pre. (pre, connectorOf c tool) \<in> set (connectorAddrs c)"
  unfolding connectorAddrs_map by auto

lemma clientFor_secret:
  assumes "Validate cfg = Inr ()" "apBases api = []" "apTokens api = []" "tool \<in> set apiTools"
    and "TrimSpace (ahBearer (acAuth (clientFor cfg api tool))) \<noteq> []"
  shows "TrimSpace (acBaseURL (clientFor cfg api tool)) \<noteq> []"
proof -
  have "\<forall>(_, addr, token) \<in> set (connectorAddrs (cfConnectors cfg)). TrimSpace token \<noteq> [] \<longrightarrow> TrimSpace addr \<noteq> []"
    using Validate_parts(7) [OF assms(1)] by (simp add: validateConnectors_ok)
  moreover obtain addr tok where c: "connectorOf (cfConnectors cfg) tool = (addr, tok)" by fastforce
  moreover obtain pre where "(pre, addr, tok) \<in> set (connectorAddrs (cfConnectors cfg))"
    using connectorOf_listed [OF assms(4), of "cfConnectors cfg"] c by auto
  ultimately have "TrimSpace tok \<noteq> [] \<longrightarrow> TrimSpace addr \<noteq> []" by blast
  then show ?thesis using assms(2,3,5) c by (simp add: clientFor_def lookupOr_def Let_def)
qed

end
