(* ===== verification/Go_Regexp.thy ===== *)
theory Go_Regexp
  imports Go_Strings
begin

text \<open>
  The part of Go's \<open>regexp\<close> the program uses: literals under \<open>(?i)\<close>, character classes, \<open>?\<close>, \<open>*\<close>
  and \<open>+\<close> over a class, and \<open>ReplaceAllString\<close>. A class is the list of the UTF-8 encodings of its
  runes. Matching is leftmost-first: the matcher tries the alternatives in the order Go does,
  with the rest of the expression as its continuation. Patterns here match no empty string.
\<close>

section \<open>Expressions\<close>

datatype regex =
    Sym "string list"
  | Many "string list"
  | Opt regex
  | Seq regex regex

definition Plus :: "string list \<Rightarrow> regex" where
  "Plus cls = Seq (Sym cls) (Many cls)"

text \<open>\<open>\s\<close> is \<open>[\t\n\f\r ]\<close>. Under \<open>(?i)\<close> a letter matches both cases; \<open>k\<close> and \<open>s\<close> also match the
  Kelvin sign and the long s, which fold to them.\<close>

definition spaceClass :: "string list" where
  "spaceClass = [[CHR 0x09], [CHR 0x0A], [CHR 0x0C], [CHR 0x0D], [CHR 0x20]]"

definition upperChar :: "char \<Rightarrow> char" where
  "upperChar c = (if 97 \<le> (of_char c :: nat) \<and> (of_char c :: nat) \<le> 122 then char_of (of_char c - 32 :: nat) else c)"

definition foldClass :: "char \<Rightarrow> string list" where
  "foldClass c =
    (if upperChar c = c then [[c]] else [[c], [upperChar c]]) @
    (if c = CHR ''s'' then [[CHR 0xC5, CHR 0xBF]] else []) @
    (if c = CHR ''k'' then [[CHR 0xE2, CHR 0x84, CHR 0xAA]] else [])"

text \<open>A literal in lower case, and a sequence of expressions.\<close>

definition lit :: "string \<Rightarrow> regex list" where
  "lit w = map (\<lambda>c. Sym (foldClass c)) w"

fun seqs :: "regex list \<Rightarrow> regex" where
  "seqs [] = Many []"
| "seqs [r] = r"
| "seqs (r # rs) = Seq r (seqs rs)"

section \<open>Matching\<close>

definition takeClass :: "string list \<Rightarrow> string \<Rightarrow> string option" where
  "takeClass cls s =
    (case find (\<lambda>c. c \<noteq> [] \<and> prefix c s) cls of None \<Rightarrow> None | Some c \<Rightarrow> Some (drop (length c) s))"

lemma takeClass_shorter: "takeClass cls s = Some t \<Longrightarrow> length t < length s"
  by (auto simp: takeClass_def find_Some_iff prefix_def split: option.splits)

function manyK :: "string list \<Rightarrow> string \<Rightarrow> (string \<Rightarrow> string option) \<Rightarrow> string option" where
  "manyK cls s k =
    (case takeClass cls s of
       None \<Rightarrow> k s
     | Some t \<Rightarrow> (case manyK cls t k of None \<Rightarrow> k s | Some u \<Rightarrow> Some u))"
  by pat_completeness auto
termination
  by (relation "measure (\<lambda>(_, s, _). length s)") (auto dest: takeClass_shorter)

declare manyK.simps [simp del]

primrec matchK :: "regex \<Rightarrow> string \<Rightarrow> (string \<Rightarrow> string option) \<Rightarrow> string option" where
  "matchK (Sym cls) s k = (case takeClass cls s of None \<Rightarrow> None | Some t \<Rightarrow> k t)"
| "matchK (Many cls) s k = manyK cls s k"
| "matchK (Opt r) s k = (case matchK r s k of None \<Rightarrow> k s | Some t \<Rightarrow> Some t)"
| "matchK (Seq a b) s k = matchK a s (\<lambda>t. matchK b t k)"

text \<open>What is left after a match at the start of the text.\<close>

definition lookingAt :: "regex \<Rightarrow> string \<Rightarrow> string option" where
  "lookingAt r s = matchK r s Some"

function ReplaceAllString :: "regex \<Rightarrow> string \<Rightarrow> string \<Rightarrow> string" where
  "ReplaceAllString r repl [] = []"
| "ReplaceAllString r repl (c # cs) =
    (case lookingAt r (c # cs) of
       None \<Rightarrow> c # ReplaceAllString r repl cs
     | Some rest \<Rightarrow>
        if length rest < length (c # cs) then repl @ ReplaceAllString r repl rest
        else c # ReplaceAllString r repl cs)"
  by pat_completeness auto
termination by (relation "measure (\<lambda>(_, _, s). length s)") auto

section \<open>What an expression matches\<close>

inductive_set reps :: "string list \<Rightarrow> string set" for cls where
  reps_Nil: "[] \<in> reps cls"
| reps_Cons: "c \<in> set cls \<Longrightarrow> w \<in> reps cls \<Longrightarrow> c @ w \<in> reps cls"

primrec lang :: "regex \<Rightarrow> string set" where
  "lang (Sym cls) = set cls"
| "lang (Many cls) = reps cls"
| "lang (Opt r) = insert [] (lang r)"
| "lang (Seq a b) = {u @ v |u v. u \<in> lang a \<and> v \<in> lang b}"

text \<open>A class lists encodings of different runes: none is empty or a prefix of another.\<close>

definition classOk :: "string list \<Rightarrow> bool" where
  "classOk cls \<longleftrightarrow> (\<forall>c \<in> set cls. c \<noteq> [] \<and> (\<forall>d \<in> set cls. prefix c d \<longrightarrow> c = d))"

primrec regexOk :: "regex \<Rightarrow> bool" where
  "regexOk (Sym cls) = classOk cls"
| "regexOk (Many cls) = classOk cls"
| "regexOk (Opt r) = regexOk r"
| "regexOk (Seq a b) = (regexOk a \<and> regexOk b)"

lemma takeClass_Some: "takeClass cls s = Some t \<Longrightarrow> \<exists>c \<in> set cls. c \<noteq> [] \<and> s = c @ t"
  by (auto simp: takeClass_def find_Some_iff prefix_def split: option.splits)

lemma takeClass_append:
  assumes "classOk cls" "c \<in> set cls"
  shows "takeClass cls (c @ t) = Some t"
proof -
  have "find (\<lambda>c'. c' \<noteq> [] \<and> prefix c' (c @ t)) cls = Some c"
  proof -
    have "find (\<lambda>c'. c' \<noteq> [] \<and> prefix c' (c @ t)) cls \<noteq> None"
      using assms by (auto simp: find_None_iff classOk_def)
    then obtain d where d: "find (\<lambda>c'. c' \<noteq> [] \<and> prefix c' (c @ t)) cls = Some d" by blast
    then have "d \<in> set cls" "prefix d (c @ t)" by (auto simp: find_Some_iff)
    then have "prefix d c \<or> prefix c d" by (metis prefix_same_cases prefixI)
    with assms \<open>d \<in> set cls\<close> have "d = c" by (auto simp: classOk_def)
    with d show ?thesis by simp
  qed
  then show ?thesis by (simp add: takeClass_def)
qed

lemma manyK_sound: "manyK cls s k = Some t \<Longrightarrow> \<exists>w u. s = w @ u \<and> w \<in> reps cls \<and> k u = Some t"
proof (induction cls s k rule: manyK.induct)
  case (1 cls s k)
  have stop: ?case if "k s = Some t"
    using that by (intro exI [of _ "[]"] exI [of _ s]) (simp add: reps_Nil)
  show ?case
  proof (cases "takeClass cls s")
    case None
    with "1.prems" stop show ?thesis by (simp add: manyK.simps [of cls s k])
  next
    case (Some v)
    obtain c where c: "c \<in> set cls" "s = c @ v" using takeClass_Some [OF Some] by blast
    show ?thesis
    proof (cases "manyK cls v k")
      case None
      with "1.prems" Some stop show ?thesis by (simp add: manyK.simps [of cls s k])
    next
      case (Some x)
      with "1.prems" \<open>takeClass cls s = Some v\<close> have "manyK cls v k = Some t"
        by (simp add: manyK.simps [of cls s k])
      from "1.IH" [OF \<open>takeClass cls s = Some v\<close> this] obtain w u where "v = w @ u" "w \<in> reps cls" "k u = Some t"
        by blast
      with c show ?thesis by (intro exI [of _ "c @ w"] exI [of _ u]) (simp add: reps_Cons)
    qed
  qed
qed

lemma manyK_complete:
  assumes "w \<in> reps cls" "classOk cls" "k u \<noteq> None"
  shows "manyK cls (w @ u) k \<noteq> None"
  using assms(1)
proof induction
  case reps_Nil
  with assms(3) show ?case by (subst manyK.simps) (auto split: option.splits)
next
  case (reps_Cons c w)
  then have "takeClass cls (c @ w @ u) = Some (w @ u)" by (simp add: takeClass_append assms(2))
  with reps_Cons.IH show ?case by (subst append_assoc, subst manyK.simps) (auto split: option.splits)
qed

lemma matchK_sound: "matchK r s k = Some t \<Longrightarrow> \<exists>w u. s = w @ u \<and> w \<in> lang r \<and> k u = Some t"
proof (induction r arbitrary: s k)
  case (Sym cls)
  then obtain v where "takeClass cls s = Some v" "k v = Some t" by (auto split: option.splits)
  with takeClass_Some show ?case by fastforce
next
  case (Many cls)
  then show ?case using manyK_sound by simp
next
  case (Opt r)
  show ?case
  proof (cases "matchK r s k")
    case None
    with Opt.prems have "k s = Some t" by simp
    then show ?thesis by (intro exI [of _ "[]"] exI [of _ s]) simp
  next
    case (Some x)
    with Opt.prems have "matchK r s k = Some t" by simp
    from Opt.IH [OF this] show ?thesis by fastforce
  qed
next
  case (Seq a b)
  from Seq.prems have "matchK a s (\<lambda>t. matchK b t k) = Some t" by simp
  from Seq.IH(1) [OF this] obtain w u where w: "s = w @ u" "w \<in> lang a" "matchK b u k = Some t" by blast
  from Seq.IH(2) [OF w(3)] obtain w' u' where "u = w' @ u'" "w' \<in> lang b" "k u' = Some t" by blast
  with w show ?case by (intro exI [of _ "w @ w'"] exI [of _ u']) auto
qed

lemma matchK_complete: "w \<in> lang r \<Longrightarrow> regexOk r \<Longrightarrow> k u \<noteq> None \<Longrightarrow> matchK r (w @ u) k \<noteq> None"
proof (induction r arbitrary: w u k)
  case (Sym cls)
  then show ?case by (simp add: takeClass_append)
next
  case (Many cls)
  then show ?case using manyK_complete by simp
next
  case (Opt r)
  show ?case
  proof (cases "w \<in> lang r")
    case True
    with Opt.prems have "matchK r (w @ u) k \<noteq> None" by (intro Opt.IH) simp_all
    then show ?thesis by (auto split: option.splits)
  next
    case False
    with Opt.prems show ?thesis by (auto split: option.splits)
  qed
next
  case (Seq a b)
  then obtain x y where xy: "w = x @ y" "x \<in> lang a" "y \<in> lang b" by auto
  have "matchK b (y @ u) k \<noteq> None" using Seq.IH(2) [OF xy(3)] Seq.prems by simp
  with Seq.IH(1) [OF xy(2), of "\<lambda>t. matchK b t k" "y @ u"] Seq.prems xy show ?case by simp
qed

lemma lookingAt_Some: "lookingAt r s = Some t \<Longrightarrow> \<exists>w \<in> lang r. s = w @ t"
  unfolding lookingAt_def using matchK_sound [of r s Some t] by auto

lemma lookingAt_None: "lookingAt r (w @ t) = None \<Longrightarrow> regexOk r \<Longrightarrow> w \<notin> lang r"
  unfolding lookingAt_def using matchK_complete [of w r Some t] by auto

section \<open>What a replacement leaves\<close>

definition occurs :: "regex \<Rightarrow> string \<Rightarrow> bool" where
  "occurs r s \<longleftrightarrow> (\<exists>a w b. s = a @ w @ b \<and> w \<in> lang r)"

text \<open>No match can overlap an inserted \<open>repl\<close>.\<close>

definition apart :: "string \<Rightarrow> regex \<Rightarrow> bool" where
  "apart repl r \<longleftrightarrow> (\<forall>a b x w y. w \<in> lang r \<longrightarrow> a @ repl @ b = x @ w @ y \<longrightarrow>
     length (x @ w) \<le> length a \<or> length (a @ repl) \<le> length x)"

lemma apart_cases:
  assumes "apart repl r" "w \<in> lang r" "a @ repl @ b = x @ w @ y"
  shows "(\<exists>z. a = x @ w @ z) \<or> (\<exists>z. b = z @ w @ y)"
proof -
  consider "length (x @ w) \<le> length a" | "length (a @ repl) \<le> length x"
    using assms unfolding apart_def by blast
  then show ?thesis
  proof cases
    case 1
    then have "\<exists>z. a = (x @ w) @ z"
      using assms(3) by (metis append_assoc append_eq_append_conv_if append_take_drop_id)
    then show ?thesis by auto
  next
    case 2
    then have "\<exists>z. x = (a @ repl) @ z"
      using assms(3) by (metis append_assoc append_eq_append_conv_if append_take_drop_id)
    with assms(3) show ?thesis by auto
  qed
qed

lemma occurs_prefix: "occurs r a \<Longrightarrow> occurs r (a @ b)" and occurs_suffix: "occurs r b \<Longrightarrow> occurs r (a @ b)"
  unfolding occurs_def by (metis append_assoc)+

lemma replace_keeps_out_aux:
  "apart repl p \<Longrightarrow> \<not> occurs p (pre @ s) \<Longrightarrow> \<not> occurs p (pre @ ReplaceAllString r repl s)"
proof (induction r repl s arbitrary: pre rule: ReplaceAllString.induct)
  case (2 r repl c cs)
  have keep: "\<not> occurs p (pre @ c # ReplaceAllString r repl cs)"
    if "\<And>pre. \<not> occurs p (pre @ cs) \<Longrightarrow> \<not> occurs p (pre @ ReplaceAllString r repl cs)"
    using that [of "pre @ [c]"] "2.prems"(2) by simp
  show ?case
  proof (cases "lookingAt r (c # cs)")
    case None
    with keep "2.IH"(1) "2.prems"(1) show ?thesis by simp
  next
    case (Some rest)
    show ?thesis
    proof (cases "length rest < length (c # cs)")
      case False
      with Some keep "2.IH"(3) "2.prems"(1) show ?thesis by simp
    next
      case True
      obtain w where w: "c # cs = w @ rest" using lookingAt_Some [OF Some] by blast
      have "\<not> occurs p rest" using "2.prems"(2) w occurs_suffix [of p rest "pre @ w"] by auto
      with "2.IH"(2) [OF Some True "2.prems"(1), of "[]"] have rest: "\<not> occurs p (ReplaceAllString r repl rest)" by simp
      have "\<not> occurs p (pre @ repl @ ReplaceAllString r repl rest)"
      proof
        assume "occurs p (pre @ repl @ ReplaceAllString r repl rest)"
        then obtain x v y where "pre @ repl @ ReplaceAllString r repl rest = x @ v @ y" "v \<in> lang p"
          by (auto simp: occurs_def)
        with apart_cases [OF "2.prems"(1)] have "occurs p pre \<or> occurs p (ReplaceAllString r repl rest)"
          unfolding occurs_def by metis
        with rest "2.prems"(2) occurs_prefix show False by blast
      qed
      with Some True show ?thesis by simp
    qed
  qed
qed simp

lemma replace_keeps_out: "apart repl p \<Longrightarrow> \<not> occurs p s \<Longrightarrow> \<not> occurs p (ReplaceAllString r repl s)"
  using replace_keeps_out_aux [of repl p "[]"] by simp

lemma replace_clears_aux:
  assumes "apart repl r" "regexOk r" "[] \<notin> lang r"
    and "\<And>a w b. pre @ s = a @ w @ b \<Longrightarrow> w \<in> lang r \<Longrightarrow> length pre \<le> length a"
  shows "\<not> occurs r (pre @ ReplaceAllString r repl s)"
  using assms
proof (induction r repl s arbitrary: pre rule: ReplaceAllString.induct)
  case (1 r repl)
  show ?case
  proof
    assume "occurs r (pre @ ReplaceAllString r repl [])"
    then obtain a w b where w: "pre = a @ w @ b" "w \<in> lang r" by (auto simp: occurs_def)
    with "1.prems"(4) [of a w b] have "w = []" by simp
    with w(2) "1.prems"(3) show False by simp
  qed
next
  case (2 r repl c cs)
  show ?case
  proof (cases "lookingAt r (c # cs)")
    case None
    have "length (pre @ [c]) \<le> length a" if "(pre @ [c]) @ cs = a @ w @ b" "w \<in> lang r" for a w b
    proof (rule ccontr)
      assume "\<not> length (pre @ [c]) \<le> length a"
      moreover have "length pre \<le> length a" using "2.prems"(4) that by simp
      ultimately have "length a = length pre" by simp
      with that(1) have "c # cs = w @ b" by (simp add: append_eq_append_conv)
      with None that(2) lookingAt_None [of r w b] "2.prems"(2) show False by simp
    qed
    from "2.IH"(1) [OF None "2.prems"(1-3), of "pre @ [c]"] this None show ?thesis by simp
  next
    case (Some rest)
    obtain w where w: "c # cs = w @ rest" "w \<in> lang r" using lookingAt_Some [OF Some] by blast
    with "2.prems"(3) have shorter: "length rest < length (c # cs)" by (cases w) auto
    have rest: "\<not> occurs r (ReplaceAllString r repl rest)"
      using "2.IH"(2) [OF Some shorter "2.prems"(1-3), of "[]"] by simp
    have pre: "\<not> occurs r pre"
    proof
      assume "occurs r pre"
      then obtain a v b where v: "pre = a @ v @ b" "v \<in> lang r" by (auto simp: occurs_def)
      with "2.prems"(4) [of a v "b @ c # cs"] have "v = []" by simp
      with v(2) "2.prems"(3) show False by simp
    qed
    have "\<not> occurs r (pre @ repl @ ReplaceAllString r repl rest)"
    proof
      assume "occurs r (pre @ repl @ ReplaceAllString r repl rest)"
      then obtain x v y where "pre @ repl @ ReplaceAllString r repl rest = x @ v @ y" "v \<in> lang r"
        by (auto simp: occurs_def)
      with apart_cases [OF "2.prems"(1)] have "occurs r pre \<or> occurs r (ReplaceAllString r repl rest)"
        unfolding occurs_def by metis
      with rest pre show False by blast
    qed
    with Some shorter show ?thesis by simp
  qed
qed

lemma replace_clears: "apart repl r \<Longrightarrow> regexOk r \<Longrightarrow> [] \<notin> lang r \<Longrightarrow> \<not> occurs r (ReplaceAllString r repl s)"
  using replace_clears_aux [of repl r "[]" s] by simp

lemma replace_chars: "set (ReplaceAllString r repl s) \<subseteq> set s \<union> set repl"
proof (induction r repl s rule: ReplaceAllString.induct)
  case (2 r repl c cs)
  show ?case
  proof (cases "lookingAt r (c # cs)")
    case (Some rest)
    from lookingAt_Some [OF this] obtain w where "c # cs = w @ rest" by blast
    then have "set rest \<subseteq> set (c # cs)" by (metis Un_upper2 set_append)
    with 2 Some show ?thesis by (auto split: if_splits)
  qed (use 2 in auto)
qed simp

text \<open>Every pattern of a list is gone after replacing them one after the other.\<close>

definition replaceEach :: "regex list \<Rightarrow> string \<Rightarrow> string \<Rightarrow> string" where
  "replaceEach ps repl s = foldl (\<lambda>t p. ReplaceAllString p repl t) s ps"

lemma replaceEach_keeps_out:
  "apart repl p \<Longrightarrow> \<not> occurs p s \<Longrightarrow> \<not> occurs p (replaceEach ps repl s)"
  unfolding replaceEach_def by (induction ps arbitrary: s) (simp_all add: replace_keeps_out)

lemma replaceEach_clears:
  assumes "\<And>p. p \<in> set ps \<Longrightarrow> apart repl p \<and> regexOk p \<and> [] \<notin> lang p" "p \<in> set ps"
  shows "\<not> occurs p (replaceEach ps repl s)"
proof -
  obtain qs rs where ps: "ps = qs @ p # rs" using assms(2) by (meson split_list)
  have p: "apart repl p" "regexOk p" "[] \<notin> lang p" using assms(1) [OF assms(2)] by simp_all
  have "\<not> occurs p (replaceEach rs repl (ReplaceAllString p repl (replaceEach qs repl s)))"
    by (rule replaceEach_keeps_out [OF p(1) replace_clears [OF p]])
  with ps show ?thesis by (simp add: replaceEach_def)
qed

lemma replaceEach_chars: "set (replaceEach ps repl s) \<subseteq> set s \<union> set repl"
proof (induction ps arbitrary: s)
  case (Cons p ps)
  with replace_chars [of p repl s] show ?case by (fastforce simp: replaceEach_def)
qed (simp add: replaceEach_def)

lemma ReplaceAllString_id: "\<not> occurs r s \<Longrightarrow> ReplaceAllString r repl s = s"
proof (induction r repl s rule: ReplaceAllString.induct)
  case (2 r repl c cs)
  have "lookingAt r (c # cs) = None"
  proof (rule ccontr)
    assume "lookingAt r (c # cs) \<noteq> None"
    then obtain rest where "lookingAt r (c # cs) = Some rest" by blast
    with lookingAt_Some have "occurs r (c # cs)" unfolding occurs_def by (metis append_Nil)
    with "2.prems" show False by simp
  qed
  moreover have "\<not> occurs r cs" using "2.prems" occurs_suffix [of r cs "[c]"] by auto
  ultimately show ?case using "2.IH"(1) by simp
qed simp

lemma replaceEach_id: "\<forall>p \<in> set ps. \<not> occurs p s \<Longrightarrow> replaceEach ps repl s = s"
  unfolding replaceEach_def by (induction ps) (simp_all add: ReplaceAllString_id)

section \<open>When a replacement stays apart\<close>

primrec regexChars :: "regex \<Rightarrow> char set" where
  "regexChars (Sym cls) = \<Union> (set ` set cls)"
| "regexChars (Many cls) = \<Union> (set ` set cls)"
| "regexChars (Opt r) = regexChars r"
| "regexChars (Seq a b) = regexChars a \<union> regexChars b"

lemma reps_chars: "w \<in> reps cls \<Longrightarrow> set w \<subseteq> \<Union> (set ` set cls)"
  by (induction rule: reps.induct) auto

lemma lang_chars: "w \<in> lang r \<Longrightarrow> set w \<subseteq> regexChars r"
proof (induction r arbitrary: w)
  case (Seq a b)
  then obtain u v where "w = u @ v" "u \<in> lang a" "v \<in> lang b" by auto
  with Seq.IH [of u] Seq.IH(2) [of v] show ?case by auto
qed (auto dest: reps_chars)

text \<open>
  A match whose first character does not come back, and whose first two characters are not two
  neighbours of \<open>repl\<close>, cannot overlap \<open>repl\<close>, whose first character occurs in a match only at its start.
\<close>

definition neighbours :: "string \<Rightarrow> string set" where
  "neighbours s = set (map (\<lambda>(c, d). [c, d]) (zip s (tl s)))"

lemma neighbours_nth: "Suc i < length s \<Longrightarrow> [s ! i, s ! Suc i] \<in> neighbours s"
  unfolding neighbours_def by (auto simp: in_set_zip nth_tl intro!: image_eqI [of _ _ "(s ! i, s ! Suc i)"] exI [of _ i])

lemma apartI:
  assumes "repl \<noteq> []"
    and "\<And>w. w \<in> lang r \<Longrightarrow> 2 \<le> length w \<and> hd repl \<notin> set (tl w) \<and> hd w \<noteq> last repl \<and> take 2 w \<notin> neighbours repl"
  shows "apart repl r"
  unfolding apart_def
proof (intro allI impI)
  fix a b x w y
  assume w: "w \<in> lang r" and eq: "a @ repl @ b = x @ w @ y"
  note c = assms(2) [OF w]
  have nth: "(a @ repl @ b) ! i = (x @ w @ y) ! i" for i using eq by simp
  show "length (x @ w) \<le> length a \<or> length (a @ repl) \<le> length x"
  proof (rule ccontr)
    assume over: "\<not> (length (x @ w) \<le> length a \<or> length (a @ repl) \<le> length x)"
    show False
    proof (cases "length x < length a")
      case True
      define j where "j = length a - length x"
      have j: "0 < j" "j < length w" "length a = length x + j" using True over by (auto simp: j_def)
      have "(a @ repl @ b) ! length a = hd repl" using assms(1) by (simp add: nth_append hd_conv_nth)
      moreover have "(x @ w @ y) ! length a = w ! j" using j by (simp add: nth_append)
      ultimately have "w ! j = hd repl" using nth by metis
      moreover have "w ! j \<in> set (tl w)" using j by (metis Suc_pred' length_tl less_diff_conv nth_mem nth_tl One_nat_def Suc_eq_plus1)
      ultimately show False using c by simp
    next
      case False
      define i where "i = length x - length a"
      have i: "length x = length a + i" "i < length repl" using False over by (auto simp: i_def)
      have w0: "w ! 0 = repl ! i"
        using nth [of "length x"] i c by (cases w) (simp_all add: nth_append)
      show False
      proof (cases "Suc i = length repl")
        case True
        then have "hd w = last repl" using w0 c assms(1) by (metis diff_Suc_1 hd_conv_nth last_conv_nth list.size(3) not_numeral_le_zero)
        with c show False by simp
      next
        case False
        with i have "Suc i < length repl" by simp
        moreover from this have "w ! 1 = repl ! Suc i"
          using nth [of "Suc (length x)"] i c by (simp add: nth_append)
        moreover have "take 2 w = [w ! 0, w ! 1]"
          using c by (cases w; cases "tl w") (auto simp: numeral_2_eq_2)
        ultimately have "take 2 w \<in> neighbours repl" using w0 neighbours_nth by auto
        with c show False by simp
      qed
    qed
  qed
qed

text \<open>The check for an expression that begins with two classes.\<close>

fun startsApart :: "string \<Rightarrow> regex \<Rightarrow> bool" where
  "startsApart repl (Seq (Sym c) (Seq (Sym d) r)) \<longleftrightarrow>
     (\<forall>u \<in> set c. \<forall>v \<in> set d. u \<noteq> [] \<and> v \<noteq> [] \<and> hd u \<noteq> last repl \<and> take 2 (u @ v) \<notin> neighbours repl \<and>
        hd repl \<notin> set (tl u) \<and> hd repl \<notin> set v) \<and>
     hd repl \<notin> regexChars r"
| "startsApart repl _ \<longleftrightarrow> False"

lemma startsApart_apart:
  assumes "startsApart repl p" "repl \<noteq> []"
  shows "apart repl p \<and> [] \<notin> lang p"
  using assms
proof (induction repl p rule: startsApart.induct)
  case (1 repl c d r)
  have "2 \<le> length w \<and> hd repl \<notin> set (tl w) \<and> hd w \<noteq> last repl \<and> take 2 w \<notin> neighbours repl"
    if "w \<in> lang (Seq (Sym c) (Seq (Sym d) r))" for w
  proof -
    from that obtain u v z where w: "w = u @ v @ z" "u \<in> set c" "v \<in> set d" "z \<in> lang r" by auto
    with 1 have ok: "u \<noteq> []" "v \<noteq> []" "hd u \<noteq> last repl" "take 2 (u @ v) \<notin> neighbours repl"
      "hd repl \<notin> set (tl u)" "hd repl \<notin> set v" "hd repl \<notin> set z"
      using lang_chars [OF w(4)] by auto
    have len: "2 \<le> length (u @ v)" using ok(1,2) by (cases u; cases v) auto
    then have "take 2 w = take 2 (u @ v)" by (simp add: w(1) take_append)
    moreover have "tl w = tl u @ v @ z" "hd w = hd u" using ok(1) w(1) by simp_all
    ultimately show ?thesis using ok len w(1) by auto
  qed
  then show ?case using apartI [OF "1.prems"(2)] by force
qed simp_all

end
