(* ===== verification/Tool_Redact.thy ===== *)
theory Tool_Redact
  imports Go_Regexp
begin

text \<open>
  \<open>internal/tools/redact.go\<close>: the redactor of step outputs (\<open>Redact\<close>) and log lines (\<open>RedactString\<close>). Parsing a pattern
  (\<open>regexp.Compile\<close>) is the parameter \<open>compile\<close>; \<open>defaultCompiled\<close> are the expressions the default patterns
  denote. They are written as raw strings with doubled backslashes, so the one for \<open>token=\<close> asks for a backslash
  followed by letters w, not a run of word characters.
\<close>

section \<open>The redactor\<close>

definition backslash :: char where
  "backslash = CHR 0x5C"

definition DefaultRedactPatterns :: "string list" where
  "DefaultRedactPatterns =
    (let bb = [backslash, backslash] in
     [''(?i)token='' @ bb @ ''w+'', ''(?i)secret='' @ bb @ ''w+'',
      ''(?i)x-api-key:'' @ bb @ ''s*'' @ bb @ ''S+''])"

type_synonym Redactor = "regex list option"

definition NewRedactor :: "(string \<Rightarrow> regex option) \<Rightarrow> string list \<Rightarrow> Redactor" where
  "NewRedactor compile patterns =
    (if patterns = [] then None
     else (case List.map_filter (\<lambda>p. if p = [] then None else compile p) patterns of
             [] \<Rightarrow> None | compiled \<Rightarrow> Some compiled))"

definition RedactString :: "Redactor \<Rightarrow> string \<Rightarrow> string" where
  "RedactString r input =
    (case r of None \<Rightarrow> input | Some ps \<Rightarrow> if input = [] then input else replaceEach ps ''***'' input)"

definition Redact :: "Redactor \<Rightarrow> string \<Rightarrow> string" where
  "Redact r input =
    (case r of None \<Rightarrow> input | Some ps \<Rightarrow> if input = [] then input else replaceEach ps ''***'' input)"

definition defaultCompiled :: "regex list" where
  "defaultCompiled =
    map seqs
     [lit ''token='' @ [Sym [[backslash]], Plus (foldClass CHR ''w'')],
      lit ''secret='' @ [Sym [[backslash]], Plus (foldClass CHR ''w'')],
      lit ''x-api-key:'' @ [Sym [[backslash]], Many (foldClass CHR ''s''), Sym [[backslash]], Plus (foldClass CHR ''s'')]]"

section \<open>What the default patterns miss\<close>

lemma seqs_append_lang: "w \<in> lang (seqs (rs @ Sym [[c]] # qs)) \<Longrightarrow> c \<in> set w"
proof (induction rs arbitrary: w)
  case Nil
  then show ?case by (cases qs) auto
next
  case (Cons r rs)
  then obtain u v where "w = u @ v" "v \<in> lang (seqs (rs @ Sym [[c]] # qs))"
    by (cases "rs @ Sym [[c]] # qs") auto
  with Cons.IH show ?case by auto
qed

lemma default_needs_backslash:
  assumes "p \<in> set defaultCompiled" "w \<in> lang p"
  shows "backslash \<in> set w"
proof -
  obtain rs qs where "p = seqs (rs @ Sym [[backslash]] # qs)"
    using assms(1) unfolding defaultCompiled_def by auto
  with assms(2) seqs_append_lang show ?thesis by blast
qed

lemma default_redacts_nothing:
  assumes "backslash \<notin> set s"
  shows "RedactString (Some defaultCompiled) s = s"
proof -
  have "\<not> occurs p s" if "p \<in> set defaultCompiled" for p
    using default_needs_backslash [OF that] assms unfolding occurs_def by auto
  then show ?thesis by (simp add: RedactString_def replaceEach_id)
qed

lemma Redact_RedactString: "Redact r s = RedactString r s"
  by (simp add: Redact_def RedactString_def)

lemma redact_chars: "set (RedactString r s) \<subseteq> insert CHR ''*'' (set s)"
  using replaceEach_chars [of _ "''***''" s] by (auto simp: RedactString_def split: option.splits)

end
