(* ===== verification/Secrets.thy ===== *)
theory Secrets
  imports Tool_Validate Go_Path Go_Effects
begin

text \<open>
  \<open>internal/secrets\<close>: Boundary sessions and tunnels (\<open>boundary.go\<close>), the Vault agent with its rendered
  configuration (\<open>manager.go\<close>, \<open>vault_agent.go\<close>) and the environment file it writes (\<open>vault_env.go\<close>).
  Calls of tools are the parameter \<open>call\<close>; starting a process, the temporary directory and files are
  parameters too.
\<close>

section \<open>Boundary\<close>

definition ParseSessionID :: "(string \<Rightarrow> gval option) \<Rightarrow> string \<Rightarrow> string result" where
  "ParseSessionID unmarshal payload =
     bindR (case unmarshal payload of None \<Rightarrow> Inl ''invalid json'' | Some doc \<Rightarrow> decodeObj doc) (\<lambda>data.
     if gstr data ''id'' \<noteq> [] then Inr (gstr data ''id'')
     else if gstr data ''session_id'' \<noteq> [] then Inr (gstr data ''session_id'')
     else Inl ''session_id missing'')"

definition boundaryRequest :: "string \<Rightarrow> gmap \<Rightarrow> ContextRef \<Rightarrow> ExecuteRequest" where
  "boundaryRequest action input ctx =
     \<lparr>ReqTool = ''boundary'', ReqAction = action, ReqInput = GMap input, ReqToolCallID = [], ReqExecutionID = [],
      ReqContext = ctx\<rparr>"

definition OpenBoundarySession ::
  "(string \<Rightarrow> gval option) \<Rightarrow> (ExecuteRequest \<Rightarrow> string result) \<Rightarrow> string \<Rightarrow> string \<Rightarrow> ContextRef \<Rightarrow> string result" where
  "OpenBoundarySession unmarshal call targetID duration ctx =
     bindR (call (boundaryRequest ''session_open''
              ([(''target_id'', GStr targetID)] @ (if duration \<noteq> [] then [(''duration'', GStr duration)] else [])) ctx))
       (ParseSessionID unmarshal)"

definition CloseBoundarySession :: "(ExecuteRequest \<Rightarrow> string result) \<Rightarrow> string \<Rightarrow> ContextRef \<Rightarrow> unit result" where
  "CloseBoundarySession call sessionID ctx =
     bindR (call (boundaryRequest ''session_close'' [(''session_id'', GStr sessionID)] ctx)) (\<lambda>_. Inr ())"

definition tunnelCommand :: "string \<Rightarrow> string \<Rightarrow> string list result" where
  "tunnelCommand targetID0 listenAddr =
    (let targetID = TrimSpace targetID0 in
     if targetID = [] then Inl ''target_id required''
     else Inr ([''boundary'', ''connect'', ''-target-id'', targetID] @
               (if TrimSpace listenAddr \<noteq> [] then [''-listen'', listenAddr] else [])))"

definition FormatBoundarySessionEnv :: "string \<Rightarrow> (string \<times> string) list" where
  "FormatBoundarySessionEnv sessionID =
    (if TrimSpace sessionID = [] then [] else [(''BOUNDARY_SESSION_ID'', sessionID)])"

section \<open>The Vault agent\<close>

record VaultAgentConfig =
  vgAddr :: string
  vgNamespace :: string
  vgMethod :: string
  vgRole :: string
  vgRoleID :: string
  vgSecret :: string
  vgSink :: string
  vgSource :: string
  vgDest :: string
  vgBackoff :: string

definition ResolveTemplatePaths :: "string \<Rightarrow> string \<Rightarrow> string \<Rightarrow> string \<times> string" where
  "ResolveTemplatePaths templateDir source dest =
    (if TrimSpace source \<noteq> [] then (source, dest)
     else (let dir = TrimSpace templateDir in
       if dir = [] then ([], [])
       else (pathJoin [dir, ''vault-agent.ctmpl''], pathJoin [dir, ''vault-agent.rendered''])))"

type_synonym path = string
type_synonym credential = string

definition BuildVaultAgentConfigFromConnectors ::
  "string \<Rightarrow> string \<Rightarrow> string \<Rightarrow> credential \<Rightarrow> path \<Rightarrow> credential \<Rightarrow> credential \<Rightarrow> path \<Rightarrow> path \<Rightarrow> path \<Rightarrow> string \<Rightarrow>
   VaultAgentConfig result" where
  "BuildVaultAgentConfigFromConnectors addr ns autoAuth role authPath roleID secret sink source dest backoff =
    (if TrimSpace addr = [] then Inl ''vault addr required''
     else if TrimSpace source = [] \<and> TrimSpace dest \<noteq> [] then Inl ''template_source required''
     else
       (let method0 = TrimSpace autoAuth;
            method = (if method0 \<noteq> [] then method0
                      else if strContains (ToLower authPath) ''approle'' then ''approle'' else ''kubernetes'');
            blank = TrimSpace source = [] \<and> TrimSpace dest = [] \<and> TrimSpace role \<noteq> [] in
        Inr \<lparr>vgAddr = addr, vgNamespace = ns, vgMethod = method, vgRole = role, vgRoleID = roleID, vgSecret = secret,
             vgSink = sink, vgSource = (if blank then [] else source), vgDest = (if blank then [] else dest),
             vgBackoff = backoff\<rparr>))"

definition nl :: string where
  "nl = [CHR 0x0A]"

definition quoted :: "string \<Rightarrow> string" where
  "quoted s = [CHR 0x22] @ s @ [CHR 0x22]"

definition authMethodBlock :: "VaultAgentConfig \<Rightarrow> string" where
  "authMethodBlock cfg =
    (if ToLower (TrimSpace (vgMethod cfg)) = ''approle'' then
       ''  method '' @ quoted ''approle'' @ '' {'' @ nl @ ''    config = {'' @ nl @
       ''      role_id = '' @ quoted (vgRoleID cfg) @ nl @ ''      secret_id = '' @ quoted (vgSecret cfg) @ nl @
       ''    }'' @ nl @ ''  }'' @ nl
     else
       ''  method '' @ quoted ''kubernetes'' @ '' {'' @ nl @ ''    mount_path = '' @ quoted ''auth/kubernetes'' @ nl @
       ''    config = {'' @ nl @ ''      role = '' @ quoted (vgRole cfg) @ nl @ ''    }'' @ nl @ ''  }'' @ nl)"

definition RenderVaultAgentConfig :: "VaultAgentConfig \<Rightarrow> string result" where
  "RenderVaultAgentConfig cfg =
    (if TrimSpace (vgAddr cfg) = [] then Inl ''vault_addr required''
     else Inr
       (''exit_after_auth = false'' @ nl @ ''pid_file = '' @ quoted ''/tmp/vault-agent.pid'' @ nl @
        ''vault {'' @ nl @ ''  address = '' @ quoted (vgAddr cfg) @ nl @
        (let ns = TrimSpace (vgNamespace cfg) in if ns \<noteq> [] then ''  namespace = '' @ quoted ns @ nl else []) @
        ''}'' @ nl @ nl @ ''auto_auth {'' @ nl @ authMethodBlock cfg @
        (let sink = TrimSpace (vgSink cfg) in
         if sink \<noteq> [] then
           ''  sink '' @ quoted ''file'' @ '' {'' @ nl @ ''    config = {'' @ nl @ ''      path = '' @ quoted sink @ nl @
           ''      mode = '' @ quoted ''0400'' @ nl @ ''    }'' @ nl @ ''  }'' @ nl
         else []) @
        ''}'' @ nl @ nl @
        (if TrimSpace (vgSource cfg) \<noteq> [] \<and> TrimSpace (vgDest cfg) \<noteq> [] then
           ''template {'' @ nl @ ''  source = '' @ quoted (vgSource cfg) @ nl @
           ''  destination = '' @ quoted (vgDest cfg) @ nl @ ''}'' @ nl @ nl
         else []) @
        (if TrimSpace (vgBackoff cfg) \<noteq> [] then
           ''retry {'' @ nl @ ''  max_backoff = '' @ quoted (vgBackoff cfg) @ nl @ ''}'' @ nl
         else [])))"

text \<open>What starting the agent writes and runs: the path and text of its configuration and the command.\<close>

record AgentEnv =
  agOnPath :: "string \<Rightarrow> bool"
  agTempDir :: "string result"
  agWrite :: "string \<Rightarrow> string option"
  agStart :: "string list \<Rightarrow> string option"

definition StartVaultAgent ::
  "AgentEnv \<Rightarrow> VaultAgentConfig \<Rightarrow> (string \<times> string \<times> string list) option result" where
  "StartVaultAgent env cfg =
    (if TrimSpace (vgAddr cfg) = [] \<or> TrimSpace (vgSink cfg) = [] then Inr None
     else if \<not> agOnPath env ''vault'' then Inl ''executable file not found in $PATH''
     else
       bindR (agTempDir env) (\<lambda>dir.
       let path = pathJoin [dir, ''agent.hcl'']; cmd = [''vault'', ''agent'', ''-config'', path] in
       bindR (RenderVaultAgentConfig cfg) (\<lambda>text.
       case agWrite env path of
         Some e \<Rightarrow> Inl e
       | None \<Rightarrow> (case agStart env cmd of Some e \<Rightarrow> Inl e | None \<Rightarrow> Inr (Some (path, text, cmd))))))"

section \<open>The environment file\<close>

text \<open>\<open>bufio.Scanner\<close> splits at newlines, drops a carriage return and gives up on a line of 64 KiB.\<close>

definition scanLines :: "string \<Rightarrow> string list result" where
  "scanLines data =
    (let raw = splitChar CHR 0x0A data;
         lines = (if last raw = [] then butlast raw else raw) in
     if \<exists>l \<in> set lines. length l \<ge> 65536 then Inl ''bufio.Scanner: token too long''
     else Inr (map (\<lambda>l. if l \<noteq> [] \<and> last l = CHR 0x0D then butlast l else l) lines))"

definition envLine :: "string \<Rightarrow> (string \<times> string) list \<Rightarrow> (string \<times> string) list" where
  "envLine l env =
    (let line = TrimSpace l in
     if line = [] \<or> prefix ''#'' line then env
     else case strIndex line ''='' of
       None \<Rightarrow> env
     | Some i \<Rightarrow>
        (let key = TrimSpace (take i line); val = TrimSpace (drop (i + 1) line) in
         if key = [] then env else filter (\<lambda>(k, _). k \<noteq> key) env @ [(key, val)]))"

definition LoadTemplateEnv :: "(string \<Rightarrow> string result) \<Rightarrow> string \<Rightarrow> (string \<times> string) list result" where
  "LoadTemplateEnv openFile path0 =
    (let path = TrimSpace path0 in
     if path = [] then Inr []
     else
       bindR (openFile path) (\<lambda>data.
       bindR (scanLines data) (\<lambda>lines.
       let env = fold envLine lines [] in
       if env = [] then Inl ''no env entries'' else Inr env)))"

section \<open>Facts\<close>

definition goodEnv :: "(string \<times> string) list \<Rightarrow> bool" where
  "goodEnv env \<longleftrightarrow>
     distinct (map fst env) \<and> (\<forall>(k, v) \<in> set env. k \<noteq> [] \<and> TrimSpace k = k \<and> TrimSpace v = v)"

lemma goodEnv_put:
  assumes "goodEnv env" "TrimSpace k \<noteq> []"
  shows "goodEnv (filter (\<lambda>(k', _). k' \<noteq> TrimSpace k) env @ [(TrimSpace k, TrimSpace v)])"
proof -
  have "distinct (map fst (filter (\<lambda>(k', _). k' \<noteq> TrimSpace k) env))"
    using assms(1) by (simp add: goodEnv_def distinct_map_filter)
  moreover have "TrimSpace k \<notin> set (map fst (filter (\<lambda>(k', _). k' \<noteq> TrimSpace k) env))" by auto
  ultimately show ?thesis using assms by (auto simp: goodEnv_def TrimSpace_idem)
qed

lemma goodEnv_line: "goodEnv env \<Longrightarrow> goodEnv (envLine l env)"
  by (cases "strIndex (TrimSpace l) ''=''") (simp_all add: envLine_def Let_def goodEnv_put)

lemma goodEnv_lines: "goodEnv env \<Longrightarrow> goodEnv (fold envLine ls env)"
  by (induction ls arbitrary: env) (simp_all add: goodEnv_line)

lemma LoadTemplateEnv_keys: "LoadTemplateEnv openFile path = Inr env \<Longrightarrow> goodEnv env"
  using goodEnv_lines [of "[]"] by (auto simp: LoadTemplateEnv_def bindR_eq_Inr Let_def goodEnv_def split: if_splits)

end
