(* ===== verification/Tool_Main.thy ===== *)
theory Tool_Main
  imports Tool_Clients Tool_Redact Tool_Server Secrets
begin

text \<open>
  \<open>cmd/tool-router/main.go\<close>: how the configuration becomes the tool router that serves requests. The
  sandbox, the HTTP clients, the redactor, the credentials and the policy come from the configuration; the
  Vault agent, the audit device, the Boundary session and its tunnel are started first and may add
  variables to the sandbox's environment, never anything else. The router's own outside world is a
  \<open>RouterEnv\<close> whose clients and redactor the program fills in.
\<close>

record MainEnv =
  mnRead :: "string \<Rightarrow> string result"
  mnRouter :: RouterEnv
  mnHttp :: HttpEnv
  mnCompile :: "string \<Rightarrow> regex option"
  mnAgent :: AgentEnv
  mnOpa :: "PolicyConfig \<Rightarrow> checker"
  mnAuth :: AuthEnv
  mnFetch :: FetchEnv
  mnNow :: int
  mnStamp :: string
  mnResources :: gval
  mnPrompts :: gval

section \<open>From the configuration\<close>

definition defaultMaxOutputBytes :: int where
  "defaultMaxOutputBytes = 1000000"

definition maxOutputOf :: "Config \<Rightarrow> int" where
  "maxOutputOf cfg =
    (let m = scMaxOutputBytes (cfSandbox cfg) in if m = 0 then defaultMaxOutputBytes else m)"

definition configSandbox :: "Config \<Rightarrow> Sandbox" where
  "configSandbox cfg =
    (let c = cfSandbox cfg in
     (NewSandboxWithConfig (scEnabled c) (scRuntime c) (scImage c) (scEgressAllowlist c) (scMounts c))
       \<lparr>Enforce := scEnforce c, ReadOnlyRoot := scReadOnlyRoot c, Tmpfs := scTmpfs c, User := scUser c,
        SeccompProfile := scSeccompProfile c, NoNewPrivs := scNoNewPrivs c, DropCaps := scDropCaps c,
        RequireSeccomp := scRequireSeccomp c, RequireNoNewPrivs := scRequireNoNewPrivs c,
        RequireUser := scRequireUser c, RequireDropCaps := scRequireDropCaps c,
        RequireOnWrite := scRequireOnWrite c, RequireEgressAllowlist := scRequireEgressAllowlist c,
        MaxOutputBytes := maxOutputOf cfg\<rparr>)"

text \<open>The literal lists every tool with its connector's address and token.\<close>

definition configAPI :: "Config \<Rightarrow> APIConfig" where
  "configAPI cfg =
    (let cn = cfConnectors cfg in
     \<lparr>apBases = map (\<lambda>tool. (tool, fst (connectorOf cn tool))) apiTools,
      apGrafanaOrgID = grOrgID (cnGrafana cn),
      apTokens = map (\<lambda>tool. (tool, snd (connectorOf cn tool))) apiTools,
      apEgress = scEgressAllowlist (cfSandbox cfg), apMaxOutput = maxOutputOf cfg\<rparr>)"

definition clientCall :: "HttpEnv \<Rightarrow> APIClient \<Rightarrow> client" where
  "clientCall env c method path body =
    (case fst (Do env c method path body) of Inl e \<Rightarrow> ([], Some e) | Inr out \<Rightarrow> (out, None))"

definition configRedactor :: "MainEnv \<Rightarrow> Config \<Rightarrow> Redactor" where
  "configRedactor env cfg =
    (let ps = lcRedactPatterns (cfLLM cfg) in
     NewRedactor (mnCompile env) (if ps = [] then DefaultRedactPatterns else ps))"

definition routerEnvOf :: "MainEnv \<Rightarrow> Config \<Rightarrow> RouterEnv" where
  "routerEnvOf env cfg =
     (mnRouter env)\<lparr>renvClients := (\<lambda>tool. map_option (clientCall (mnHttp env)) (BuildHTTPClients cfg (configAPI cfg) tool)),
                    renvRedact := Some (RedactString (configRedactor env cfg))\<rparr>"

definition configAuth :: "Config \<Rightarrow> AuthConfig" where
  "configAuth cfg =
    (let c = cfToolRouter cfg in
     \<lparr>Issuer = trOIDCIssuer c, Audience = trOIDCClientID c, JWKSURL = trOIDCJWKSURL c, DevMode = False,
      AuthToken = trAuthToken c\<rparr>)"

definition configPolicy :: "MainEnv \<Rightarrow> Config \<Rightarrow> checker option" where
  "configPolicy env cfg = (if pcOPAURL (cfPolicy cfg) \<noteq> [] then Some (mnOpa env (cfPolicy cfg)) else None)"

section \<open>What is started first\<close>

text \<open>The sandbox under construction and the router's state.\<close>

type_synonym startup = "Sandbox \<times> RouterState"

definition addEnv :: "(string \<times> string) list \<Rightarrow> Sandbox \<Rightarrow> Sandbox" where
  "addEnv kvs sb = sb\<lparr>Env := mergeEnv (Env sb) kvs\<rparr>"

definition startVault :: "MainEnv \<Rightarrow> Config \<Rightarrow> startup \<Rightarrow> startup" where
  "startVault env cfg su =
    (let v = cnVault (cfConnectors cfg); (sb, st) = su in
     if vaAddr v \<noteq> [] \<and> vaSinkPath v \<noteq> [] then
       (let (source, dest) = ResolveTemplatePaths (vaTemplateDir v) (vaTemplateSource v) (vaTemplateDest v) in
        case bindR (BuildVaultAgentConfigFromConnectors (vaAddr v) (vaNamespace v) (vaAutoAuthMethod v) (vaAgentRole v)
                      (vaAuthPath v) (vaAppRoleID v) (vaAppRoleSecret v) (vaSinkPath v) source dest (vaRetryMaxBackoff v))
               (StartVaultAgent (mnAgent env)) of
          Inl _ \<Rightarrow> su
        | Inr _ \<Rightarrow>
           (case LoadTemplateEnv (mnRead env) dest of Inl _ \<Rightarrow> su | Inr kvs \<Rightarrow> (addEnv kvs sb, st)))
     else su)"

definition startupCall :: "string \<Rightarrow> string \<Rightarrow> gmap \<Rightarrow> ExecuteRequest" where
  "startupCall tool action input =
     \<lparr>ReqTool = tool, ReqAction = action, ReqInput = GMap input, ReqToolCallID = [], ReqExecutionID = [],
      ReqContext = emptyContext\<rparr>"

definition enableAudit :: "RouterEnv \<Rightarrow> Config \<Rightarrow> startup \<Rightarrow> startup" where
  "enableAudit renv cfg su =
    (let v = cnVault (cfConnectors cfg); (sb, st) = su in
     if vaAuditEnable v then
       (sb, snd (Execute renv (Some sb)
                   (startupCall ''vault'' ''audit_enable'' [(''type'', GStr ''file''), (''path'', GStr (vaAuditPath v))]) st))
     else su)"

text \<open>A tick of the health or renewal loop: the call, whose error is only logged.\<close>

definition vaultTick :: "RouterEnv \<Rightarrow> string \<Rightarrow> startup \<Rightarrow> startup" where
  "vaultTick renv action su =
    (let (sb, st) = su in (sb, snd (Execute renv (Some sb) (startupCall ''vault'' action []) st)))"

definition vaultLoops :: "Config \<Rightarrow> (string \<times> int) list" where
  "vaultLoops cfg =
    (let v = cnVault (cfConnectors cfg) in
     (if vaHealthIntervalSecs v > 0 then [(''health'', vaHealthIntervalSecs v)] else []) @
     (if vaRenewIntervalSecs v > 0 then [(''token_renew'', vaRenewIntervalSecs v)] else []))"

definition openSession :: "RouterEnv \<Rightarrow> Config \<Rightarrow> startup \<Rightarrow> startup \<times> string option" where
  "openSession renv cfg su =
    (let b = cnBoundary (cfConnectors cfg); (sb, st) = su in
     if boTargetID b \<noteq> [] then
       (let ((resp, err), st') =
              Execute renv (Some sb)
                (startupCall ''boundary'' ''session_open''
                   [(''target_id'', GStr (boTargetID b)), (''duration'', GStr (boSessionDuration b))]) st in
        if err \<noteq> None then ((sb, st'), None)
        else case ParseSessionID (renvUnmarshal renv) (RespOutput resp) of
          Inl _ \<Rightarrow> ((sb, st'), None)
        | Inr sid \<Rightarrow> ((addEnv (FormatBoundarySessionEnv sid) sb, st'), if boAutoClose b then Some sid else None))
     else (su, None))"

text \<open>On the way out: the session to close.\<close>

definition closeSession :: "RouterEnv \<Rightarrow> string \<Rightarrow> startup \<Rightarrow> startup" where
  "closeSession renv sid su =
    (let (sb, st) = su in
     (sb, snd (Execute renv (Some sb) (startupCall ''boundary'' ''session_close'' [(''session_id'', GStr sid)]) st)))"

definition startTunnel :: "MainEnv \<Rightarrow> Config \<Rightarrow> string list option" where
  "startTunnel env cfg =
    (let b = cnBoundary (cfConnectors cfg) in
     if boEnableTunnel b \<and> boTargetID b \<noteq> [] then
       (case tunnelCommand (boTargetID b) (boListenAddr b) of
          Inl _ \<Rightarrow> None
        | Inr cmd \<Rightarrow> if agStart (mnAgent env) cmd = None then Some cmd else None)
     else None)"

section \<open>The program\<close>

record Served =
  seAddr :: string
  seServer :: ToolServer
  seState :: ToolService
  seSession :: "string option"
  seTunnel :: "string list option"
  seLoops :: "(string \<times> int) list"

definition serverOf :: "MainEnv \<Rightarrow> Config \<Rightarrow> Sandbox \<Rightarrow> ToolServer" where
  "serverOf env cfg sb =
     \<lparr>tsRouterEnv = routerEnvOf env cfg, tsSandbox = Some sb, tsAuth = configAuth cfg, tsAuthEnv = mnAuth env,
      tsFetch = mnFetch env, tsNow = mnNow env, tsPolicy = configPolicy env cfg, tsStamp = mnStamp env,
      tsResources = mnResources env, tsPrompts = mnPrompts env\<rparr>"

definition startAll :: "MainEnv \<Rightarrow> Config \<Rightarrow> startup \<times> string option" where
  "startAll env cfg =
    (let renv = routerEnvOf env cfg in
     openSession renv cfg (enableAudit renv cfg (startVault env cfg (configSandbox cfg, NewRouter))))"

definition serveConfig :: "MainEnv \<Rightarrow> JWKSCache \<Rightarrow> Config \<Rightarrow> Served" where
  "serveConfig env keys cfg =
    (let started = startAll env cfg in
     \<lparr>seAddr = (let a = trHTTPAddr (cfToolRouter cfg) in if a = [] then '':8081'' else a),
      seServer = serverOf env cfg (fst (fst started)),
      seState = \<lparr>svRouter = snd (fst started), svKeys = keys\<rparr>,
      seSession = snd started, seTunnel = startTunnel env cfg, seLoops = vaultLoops cfg\<rparr>)"

text \<open>\<open>run\<close> up to the point where it serves; the parsed \<open>-config\<close> flag is an argument.\<close>

definition runMain :: "MainEnv \<Rightarrow> string result \<Rightarrow> JWKSCache \<Rightarrow> Served result" where
  "runMain env flag keys =
     bindR flag (\<lambda>configPath.
     if configPath = [] then Inl ''config required''
     else
       bindR (LoadConfig (mnRead env) (renvUnmarshal (mnRouter env)) configPath) (\<lambda>cfg.
       Inr (serveConfig env keys cfg)))"

text \<open>
  What \<open>run\<close> returns after serving: the server's error arrives first (\<open>early\<close>) or a signal came and the
  server was shut down.
\<close>

definition errServerClosed :: string where
  "errServerClosed = ''http: Server closed''"

definition exitError :: "bool \<Rightarrow> bool \<Rightarrow> string option \<Rightarrow> string option" where
  "exitError early signalled err =
    (case err of
       None \<Rightarrow> None
     | Some e \<Rightarrow> if e = errServerClosed \<and> (\<not> early \<or> signalled) then None else Some e)"

text \<open>\<open>/readyz\<close>: the version of the container runtime and the health of the policy service.\<close>

definition readyChecks ::
  "(string \<Rightarrow> string option) \<Rightarrow> (string \<Rightarrow> (nat \<times> string) result) \<Rightarrow> Config \<Rightarrow> (string \<times> string \<times> bool) list" where
  "readyChecks runVersion httpGet cfg =
    (if scEnabled (cfSandbox cfg) then
       (let rt = (let r = TrimSpace (scRuntime (cfSandbox cfg)) in if r = [] then ''docker'' else r) in
        [case runVersion rt of Some e \<Rightarrow> (''sandbox_runtime'', e, False) | None \<Rightarrow> (''sandbox_runtime'', ''ok'', True)])
     else []) @
    (if pcOPAURL (cfPolicy cfg) \<noteq> [] then
       [case httpGet (rev (dropWhile (\<lambda>c. c = CHR ''/'') (rev (pcOPAURL (cfPolicy cfg)))) @ ''/health'') of
          Inl e \<Rightarrow> (''opa'', e, False)
        | Inr (code, status) \<Rightarrow> if code div 100 \<noteq> 2 then (''opa'', status, False) else (''opa'', ''ok'', True)]
     else [])"

definition readyz ::
  "(string \<Rightarrow> string option) \<Rightarrow> (string \<Rightarrow> (nat \<times> string) result) \<Rightarrow> Config \<Rightarrow> reply" where
  "readyz runVersion httpGet cfg =
    (let checks = readyChecks runVersion httpGet cfg in
     if list_all (\<lambda>(_, _, ok). ok) checks then (200, GMap [(''status'', GStr ''ok'')])
     else (503, GMap [(''status'', GStr ''unavailable''),
                      (''checks'', GMap (map (\<lambda>(k, v, _). (k, GStr v)) checks))]))"

section \<open>Facts\<close>

text \<open>Starting up changes nothing of the sandbox but its environment.\<close>

definition sameButEnv :: "Sandbox \<Rightarrow> Sandbox \<Rightarrow> bool" where
  "sameButEnv a b \<longleftrightarrow> (\<exists>e. b = a\<lparr>Env := e\<rparr>)"

lemma sameButEnv_refl: "sameButEnv a a"
  unfolding sameButEnv_def by (rule exI [of _ "Env a"]) simp

lemma sameButEnv_add: "sameButEnv a b \<Longrightarrow> sameButEnv a (addEnv kvs b)"
  by (auto simp: sameButEnv_def addEnv_def)

lemma startVault_sandbox: "sameButEnv a (fst su) \<Longrightarrow> sameButEnv a (fst (startVault env cfg su))"
  by (auto simp: startVault_def Let_def sameButEnv_add split: prod.splits sum.splits)

lemma enableAudit_sandbox: "fst (enableAudit renv cfg su) = fst su"
  by (auto simp: enableAudit_def Let_def split: prod.splits)

lemma openSession_sandbox: "sameButEnv a (fst su) \<Longrightarrow> sameButEnv a (fst (fst (openSession renv cfg su)))"
  by (auto simp: openSession_def Let_def sameButEnv_add split: prod.splits sum.splits)

lemma startAll_sandbox: "sameButEnv (configSandbox cfg) (fst (fst (startAll env cfg)))"
  by (simp add: startAll_def Let_def openSession_sandbox enableAudit_sandbox startVault_sandbox sameButEnv_refl)

lemma runMain_served:
  assumes "runMain env flag keys = Inr s"
  obtains cfg where "Validate cfg = Inr ()" "s = serveConfig env keys cfg"
  using assms by (auto simp: runMain_def bindR_eq_Inr split: if_splits dest: LoadConfig_valid)

lemma exitError_signal: "exitError False signalled (Some errServerClosed) = None"
  by (simp add: exitError_def)

text \<open>An enforcing configuration gives a sandbox that refuses or runs a container.\<close>

lemma TrimSpace_nil_img: "TrimSpace s \<noteq> [] \<Longrightarrow> s \<noteq> []"
  by auto

lemma enforced_run:
  assumes "Validate cfg = Inr ()" "sameButEnv (configSandbox cfg) sb" "scEnforce (cfSandbox cfg)"
  shows "(\<exists>e. sandboxRun os sb cmd = ([], Some e)) \<or>
    sandboxChecks sb = Inr () \<and> Enforce sb \<and> Enabled sb \<and> sandboxRun os sb cmd = runContainer os sb cmd"
proof -
  have img: "TrimSpace (scImage (cfSandbox cfg)) \<noteq> []"
    using Validate_parts(6) [OF assms(1)] assms(3) by (simp add: validateSandbox_ok)
  obtain e where sb: "sb = (configSandbox cfg)\<lparr>Env := e\<rparr>" using assms(2) by (auto simp: sameButEnv_def)
  have f: "RunFunc sb = None" "Image sb \<noteq> []" "Enforce sb"
    using img assms(3) by (auto simp: sb configSandbox_def NewSandboxWithConfig_def NewSandbox_def Let_def)
  show ?thesis
  proof (cases "sandboxChecks sb")
    case (Inr u)
    then have ok: "sandboxChecks sb = Inr ()" by simp
    with f(3) have "Enabled sb" by (simp add: sandboxChecks_enforced)
    with f ok show ?thesis by (auto simp: sandboxRun_def)
  qed (simp add: sandboxRun_def f)
qed

text \<open>The command line of an enforced container carries the restrictions.\<close>

lemma containerArgs_hardened:
  assumes "sandboxChecks s = Inr ()" "Enforce s" "containerArgs os s runtime cmd = Inr args"
  shows "sublist [''--security-opt'', ''no-new-privileges''] args"
    and "sublist [''--security-opt'', ''seccomp='' @ TrimSpace (SeccompProfile s)] args"
    and "sublist [''--user'', TrimSpace (User s)] args" and "suffix (Image s # cmd) args"
proof -
  obtain pre where args: "args = isolationArgs s @ pre @ [Image s] @ cmd"
    using containerArgs_shape [OF assms(3)] by blast
  then show "suffix (Image s # cmd) args" by (simp add: suffix_def)
  have "sublist (isolationArgs s) args" unfolding args by (metis append_Nil sublist_appendI)
  then show "sublist [''--security-opt'', ''no-new-privileges''] args"
    "sublist [''--security-opt'', ''seccomp='' @ TrimSpace (SeccompProfile s)] args" "sublist [''--user'', TrimSpace (User s)] args"
    using isolationArgs_hardened [OF assms(1,2)] by (blast intro: sublist_order.order.trans)+
qed

text \<open>The clients of the served router carry a secret only when the connector has an address.\<close>

lemma map_of_tools: "map_of (map (\<lambda>tool. (tool, f tool)) ts) tool = (if tool \<in> set ts then Some (f tool) else None)"
  by (induction ts) auto

lemma clientFor_config:
  assumes "tool \<in> set apiTools"
  shows "acBaseURL (clientFor cfg (configAPI cfg) tool) = fst (connectorOf (cfConnectors cfg) tool)"
    and "ahBearer (acAuth (clientFor cfg (configAPI cfg) tool)) = snd (connectorOf (cfConnectors cfg) tool)"
    and "acAllowlist (clientFor cfg (configAPI cfg) tool) = scEgressAllowlist (cfSandbox cfg)"
    and "acMaxOutput (clientFor cfg (configAPI cfg) tool) = maxOutputOf cfg"
  using assms
  by (auto simp: clientFor_def configAPI_def Let_def lookupOr_def map_of_tools maxOutputOf_def defaultMaxOutputBytes_def
      split: prod.splits)

end
