(* ===== verification/Diagnostics.thy ===== *)
theory Diagnostics
  imports Gateway Plan_Constraints Tool_Clients
begin

text \<open>
  \<open>internal/web/diagnostics.go\<close> with \<open>internal/storage/object_store.go\<close>: the evidence a plan is made from. Hints
  become read-only calls of the tool router; an answer is stored through the \<open>aws\<close> command line and linked.
  The tool router, the commands run and the printed clock are parameters; the commands and calls are values, so
  what is asked and where it is stored can be stated.
\<close>

section \<open>The object store\<close>

record ObjectStore =
  obEndpoint :: string
  obBucket :: string

type_synonym cmdRunner = "string list \<Rightarrow> string option \<Rightarrow> outcome"

definition storeEnabled :: "ObjectStore \<Rightarrow> bool" where
  "storeEnabled o1 \<longleftrightarrow> TrimSpace (obBucket o1) \<noteq> []"

definition objectURI :: "ObjectStore \<Rightarrow> string \<Rightarrow> string result" where
  "objectURI o1 key =
    (let t = TrimSpace key in
     if t = [] then Inl ''invalid object key''
     else if prefix ''s3://'' t then Inr t
     else if \<not> storeEnabled o1 then Inl ''object store disabled''
     else (let t = (if prefix ''/'' t then drop 1 t else t) in
       if t = [] then Inl ''invalid object key'' else Inr (''s3://'' @ obBucket o1 @ ''/'' @ t)))"

definition endpointArgs :: "ObjectStore \<Rightarrow> string list" where
  "endpointArgs o1 = (if obEndpoint o1 \<noteq> [] then [''--endpoint-url'', obEndpoint o1] else [])"

definition putArgs :: "ObjectStore \<Rightarrow> string \<Rightarrow> string list" where
  "putArgs o1 uri = [''aws'', ''s3'', ''cp'', ''--only-show-errors''] @ endpointArgs o1 @ [''-'', uri]"

definition Put :: "cmdRunner \<Rightarrow> ObjectStore \<Rightarrow> string \<Rightarrow> string \<Rightarrow> string result" where
  "Put run o1 key data =
     bindR (objectURI o1 key) (\<lambda>uri.
     case run (putArgs o1 uri) (Some data) of
       (out, Some e) \<Rightarrow> Inl (''aws s3 cp failed: '' @ e @ '': '' @ TrimSpace out)
     | (_, None) \<Rightarrow> Inr uri)"

text \<open>The lifetime is in nanoseconds; \<open>int(ttl.Seconds())\<close> cuts the fraction.\<close>

definition presignArgs :: "ObjectStore \<Rightarrow> string \<Rightarrow> int \<Rightarrow> string list" where
  "presignArgs o1 uri ttl =
    (let ns = (if ttl \<le> 0 then 15 * 60 * 1000000000 else ttl) in
     [''aws'', ''s3'', ''presign''] @ endpointArgs o1 @ [uri, ''--expires-in'', showInt (ns div 1000000000)])"

definition Presign :: "cmdRunner \<Rightarrow> ObjectStore \<Rightarrow> string \<Rightarrow> int \<Rightarrow> string result" where
  "Presign run o1 key ttl =
     bindR (objectURI o1 key) (\<lambda>uri.
     case run (presignArgs o1 uri ttl) None of
       (out, Some e) \<Rightarrow> Inl (''aws s3 presign failed: '' @ e @ '': '' @ TrimSpace out)
     | (out, None) \<Rightarrow> Inr (TrimSpace out))"

section \<open>Hints\<close>

definition latencyQuery :: string where
  "latencyQuery = ''histogram_quantile(0.95, sum(rate(http_request_duration_seconds_bucket[5m])) by (le))''"

definition errorQuery :: string where
  "errorQuery = ''sum(rate(http_requests_total{status=~'' @ [CHR 0x22] @ ''5..'' @ [CHR 0x22] @ ''}[5m]))''"

definition queryFromIntent :: "string \<Rightarrow> string" where
  "queryFromIntent intent0 =
    (let intent = ToLower (TrimSpace intent0) in
     if intent = [] then ''up''
     else if strContains intent ''latency'' then latencyQuery
     else if strContains intent ''error'' then errorQuery
     else ''up'')"

text \<open>The loop over the items, with the ones seen so far and the output.\<close>

fun uniqueLoop :: "string list \<Rightarrow> string list \<Rightarrow> string list" where
  "uniqueLoop out [] = out"
| "uniqueLoop out (x # xs) =
    (let item = TrimSpace x in
     if item = [] \<or> item \<in> set out then uniqueLoop out xs else uniqueLoop (out @ [item]) xs)"

definition uniqueStrings :: "string list \<Rightarrow> string list" where
  "uniqueStrings items = uniqueLoop [] items"

definition diagnosticHintsFromConstraints :: "gval \<Rightarrow> string \<Rightarrow> string list \<times> string list \<times> string list" where
  "diagnosticHintsFromConstraints constraints intent =
    (let hints = (case constraints of
                    GMap c \<Rightarrow> (case gget c ''diagnostic_hints'' of GMap hm \<Rightarrow> hm | _ \<Rightarrow> c)
                  | _ \<Rightarrow> []);
         prom = stringSliceFromAny (gget hints ''promql'');
         prom = (if prom = [] then [queryFromIntent intent] else prom) in
     (uniqueStrings prom, uniqueStrings (stringSliceFromAny (gget hints ''traceql'')),
      uniqueStrings (stringSliceFromAny (gget hints ''trace_ids''))))"

section \<open>Collect\<close>

record diagRoute =
  drTool :: string
  drAction :: string
  drInput :: gmap
  drType :: string
  drQuery :: string

definition promRoutes :: "string \<Rightarrow> string \<Rightarrow> string \<Rightarrow> diagRoute list" where
  "promRoutes start stop q =
     [\<lparr>drTool = ''prometheus'', drAction = ''query_range'',
       drInput = [(''query'', GStr q), (''start'', GStr start), (''end'', GStr stop), (''step'', GStr ''60s'')],
       drType = ''promql'', drQuery = q\<rparr>,
      \<lparr>drTool = ''prometheus'', drAction = ''query_exemplars'',
       drInput = [(''query'', GStr q), (''start'', GStr start), (''end'', GStr stop)], drType = ''promql'', drQuery = q\<rparr>]"

definition diagRoutes :: "string \<Rightarrow> string \<Rightarrow> gval \<Rightarrow> string \<Rightarrow> diagRoute list" where
  "diagRoutes start stop constraints intent =
    (let (prom, trace, ids) = diagnosticHintsFromConstraints constraints intent in
     [\<lparr>drTool = ''prometheus'', drAction = ''rules'', drInput = [], drType = ''promql'', drQuery = ''rules''\<rparr>] @
     concat (map (promRoutes start stop) prom) @
     map (\<lambda>q. \<lparr>drTool = ''tempo'', drAction = ''traceql'', drInput = [(''query'', GStr q)], drType = ''traceql'', drQuery = q\<rparr>) trace @
     map (\<lambda>i. \<lparr>drTool = ''tempo'', drAction = ''trace_by_id'', drInput = [(''trace_id'', GStr i)], drType = ''traceql'',
               drQuery = i\<rparr>) ids)"

definition routeRequest :: "ContextRef \<Rightarrow> diagRoute \<Rightarrow> ExecuteRequest" where
  "routeRequest ctx rt =
     \<lparr>ReqTool = drTool rt, ReqAction = drAction rt, ReqInput = GMap (drInput rt), ReqToolCallID = [], ReqExecutionID = [],
      ReqContext = ctx\<rparr>"

record DiagEnv =
  dgRouter :: "(ExecuteRequest \<Rightarrow> string result) option"
  dgRun :: cmdRunner
  dgStore :: "ObjectStore option"
  dgTTL :: int
  dgStart :: string
  dgEnd :: string
  dgStamp :: "diagRoute \<Rightarrow> string"

text \<open>\<open>dgStamp\<close>: the clock printed when the answer of a route is stored.\<close>

definition diagKey :: "string \<Rightarrow> string \<Rightarrow> string \<Rightarrow> string" where
  "diagKey ts tool action = ''diagnostics/'' @ ts @ ''/'' @ tool @ ''-'' @ action @ ''.json''"

definition storeDiagnostic :: "DiagEnv \<Rightarrow> string \<Rightarrow> string \<Rightarrow> string \<Rightarrow> string \<Rightarrow> string \<times> string" where
  "storeDiagnostic env ts tool action output =
    (case dgStore env of
       None \<Rightarrow> ([], [])
     | Some o1 \<Rightarrow>
        if output = [] then ([], [])
        else (case Put (dgRun env) o1 (diagKey ts tool action) output of
          Inl _ \<Rightarrow> ([], [])
        | Inr ref \<Rightarrow> (ref, case Presign (dgRun env) o1 ref (dgTTL env) of Inl _ \<Rightarrow> [] | Inr signed \<Rightarrow> signed)))"

definition evidenceOf :: "DiagEnv \<Rightarrow> (ExecuteRequest \<Rightarrow> string result) \<Rightarrow> ContextRef \<Rightarrow> diagRoute \<Rightarrow> DiagnosticEvidence option" where
  "evidenceOf env call ctx rt =
    (case call (routeRequest ctx rt) of
       Inl _ \<Rightarrow> None
     | Inr output \<Rightarrow>
        (let (ref, link) = storeDiagnostic env (dgStamp env rt) (drTool rt) (drAction rt) output in
         Some \<lparr>DgType = drType rt, DgQuery = drQuery rt, DgResultRef = ref, DgLink = link\<rparr>))"

definition Collect :: "DiagEnv \<Rightarrow> ContextRef \<Rightarrow> string \<Rightarrow> gval \<Rightarrow> DiagnosticEvidence list result" where
  "Collect env ctx intent constraints =
    (case dgRouter env of
       None \<Rightarrow> Inr []
     | Some call \<Rightarrow>
         Inr (List.map_filter (evidenceOf env call ctx) (diagRoutes (dgStart env) (dgEnd env) constraints intent)))"

section \<open>Unique strings\<close>

lemma uniqueLoop_set: "set (uniqueLoop out xs) = set out \<union> {t. t \<noteq> [] \<and> t \<in> TrimSpace ` set xs}"
  by (induction out xs rule: uniqueLoop.induct) (auto simp: Let_def)

lemma uniqueLoop_distinct: "distinct out \<Longrightarrow> distinct (uniqueLoop out xs)"
  by (induction out xs rule: uniqueLoop.induct) (auto simp: Let_def)

text \<open>The loop against a reference: the first occurrences of the trimmed, non-empty items.\<close>

lemma uniqueLoop_remdups:
  "uniqueLoop out xs =
   out @ rev (remdups (rev (filter (\<lambda>t. t \<noteq> [] \<and> t \<notin> set out) (map TrimSpace xs))))"
proof (induction out xs rule: uniqueLoop.induct)
  case (2 out x xs)
  define item where "item = TrimSpace x"
  show ?case
  proof (cases "item = [] \<or> item \<in> set out")
    case True
    with 2 show ?thesis by (auto simp: item_def Let_def)
  next
    case False
    let ?F = "\<lambda>P. filter P (map TrimSpace xs)"
    have cut: "remdups (rev zs @ [y]) = remdups (rev (filter (\<lambda>z. z \<noteq> y) zs)) @ [y]" for zs and y :: string
      by (induction zs rule: rev_induct) auto
    have "filter (\<lambda>z. z \<noteq> item) (?F (\<lambda>t. t \<noteq> [] \<and> t \<notin> set out)) = ?F (\<lambda>t. t \<noteq> [] \<and> t \<notin> set (out @ [item]))"
      unfolding filter_filter by (rule filter_cong) auto
    with 2 False show ?thesis by (simp add: item_def [symmetric] Let_def cut)
  qed
qed simp

lemma uniqueStrings_spec: "uniqueStrings xs = rev (remdups (rev (filter (\<lambda>t. t \<noteq> []) (map TrimSpace xs))))"
  by (simp add: uniqueStrings_def uniqueLoop_remdups)

section \<open>What is asked and stored\<close>

lemma diagRoutes_tools:
  assumes "rt \<in> set (diagRoutes start stop constraints intent)"
  shows "(drTool rt, drAction rt) \<in>
    {(''prometheus'', ''rules''), (''prometheus'', ''query_range''), (''prometheus'', ''query_exemplars''),
     (''tempo'', ''traceql''), (''tempo'', ''trace_by_id'')}"
  using assms by (auto simp: diagRoutes_def promRoutes_def split: prod.splits)

lemma read_tools:
  "actionTypeForTool ''prometheus'' a = ''read''" "actionTypeForTool ''tempo'' a = ''read''"
proof -
  have "ToLower (TrimSpace ''prometheus'') = ''prometheus''" "ToLower (TrimSpace ''tempo'') = ''tempo''" by code_simp+
  then show "actionTypeForTool ''prometheus'' a = ''read''" "actionTypeForTool ''tempo'' a = ''read''"
    by (simp_all add: actionTypeForTool_def Let_def)
qed

lemma diagRoutes_read:
  "rt \<in> set (diagRoutes start stop constraints intent) \<Longrightarrow> actionTypeForTool (drTool rt) (drAction rt) = ''read''"
  using diagRoutes_tools [of rt start stop constraints intent] by (auto simp: read_tools)

lemma Collect_length:
  assumes "Collect env ctx intent constraints = Inr ds"
  shows "length ds \<le> length (diagRoutes (dgStart env) (dgEnd env) constraints intent)"
proof -
  have "length (List.map_filter f xs) \<le> length xs" for f :: "diagRoute \<Rightarrow> DiagnosticEvidence option" and xs
    by (simp add: List.map_filter_def)
  with assms show ?thesis by (auto simp: Collect_def split: option.splits)
qed

lemma storeDiagnostic_router: "storeDiagnostic (env\<lparr>dgRouter := x\<rparr>) = storeDiagnostic env"
  by (intro ext) (simp add: storeDiagnostic_def split: option.split sum.split)

lemma Collect_depends:
  assumes "\<And>req. actionTypeForTool (ReqTool req) (ReqAction req) = ''read'' \<Longrightarrow> call req = call' req"
  shows "Collect (env\<lparr>dgRouter := Some call\<rparr>) ctx intent constraints =
    Collect (env\<lparr>dgRouter := Some call'\<rparr>) ctx intent constraints"
proof -
  let ?rts = "diagRoutes (dgStart env) (dgEnd env) constraints intent"
  have "evidenceOf (env\<lparr>dgRouter := Some call\<rparr>) call ctx rt = evidenceOf (env\<lparr>dgRouter := Some call'\<rparr>) call' ctx rt"
    if "rt \<in> set ?rts" for rt
    using assms [of "routeRequest ctx rt"] diagRoutes_read [OF that]
    by (simp add: evidenceOf_def routeRequest_def storeDiagnostic_router split: sum.split)
  then have "List.map_filter (evidenceOf (env\<lparr>dgRouter := Some call\<rparr>) call ctx) ?rts =
      List.map_filter (evidenceOf (env\<lparr>dgRouter := Some call'\<rparr>) call' ctx) ?rts"
    by (simp add: List.map_filter_def cong: map_cong filter_cong)
  then show ?thesis by (simp add: Collect_def)
qed

lemma objectURI_bucket:
  "objectURI o1 key = Inr uri \<Longrightarrow> prefix ''s3://'' uri \<and> (\<not> prefix ''s3://'' (TrimSpace key) \<longrightarrow> prefix (''s3://'' @ obBucket o1 @ ''/'') uri)"
  by (auto simp: objectURI_def Let_def split: if_splits)

lemma objectURI_again: "objectURI o1 key = Inr uri \<Longrightarrow> TrimSpace uri = uri \<Longrightarrow> objectURI o2 uri = Inr uri"
  using objectURI_bucket [of o1 key uri] by (auto simp: objectURI_def Let_def)

end
