(* ===== verification/Orchestrator_Main.thy ===== *)
theory Orchestrator_Main
  imports Tool_Main Diagnostics
begin

text \<open>
  \<open>cmd/orchestrator/main.go\<close>: the worker process. It loads the configuration, opens the database, builds its own
  router, sandbox and HTTP clients, starts what the tool router starts, and registers the workflows with
  Temporal. The database, the Temporal client and the worker's run are parameters. The program writes its
  sandbox and clients out a second time; the last section shows that the copies agree with the tool router's.
\<close>

record OrchEnv = MainEnv +
  onNewDB :: "string \<Rightarrow> string option"
  onDial :: "OrchestratorConfig \<Rightarrow> string option"
  onRunWorker :: "string list \<Rightarrow> string option"

definition orchMaxOutput :: "Config \<Rightarrow> int" where
  "orchMaxOutput cfg = (let m = scMaxOutputBytes (cfSandbox cfg) in if m = 0 then 1000000 else m)"

text \<open>Only seven of the connectors are listed here; the builder falls back to the configuration for the rest.\<close>

definition orchAPI :: "Config \<Rightarrow> APIConfig" where
  "orchAPI cfg =
    (let cn = cfConnectors cfg in
     \<lparr>apBases = [(''prometheus'', prAddr (cnPrometheus cn)), (''alertmanager'', amAddr (cnAlertmanager cn)),
        (''thanos'', thAddr (cnThanos cn)), (''grafana'', grAddr (cnGrafana cn)), (''tempo'', teAddr (cnTempo cn)),
        (''linear'', liBaseURL (cnLinear cn)), (''pagerduty'', pdAddr (cnPagerDuty cn))],
      apGrafanaOrgID = grOrgID (cnGrafana cn),
      apTokens = [(''prometheus'', prToken (cnPrometheus cn)), (''alertmanager'', amToken (cnAlertmanager cn)),
        (''thanos'', thToken (cnThanos cn)), (''grafana'', grToken (cnGrafana cn)), (''tempo'', teToken (cnTempo cn)),
        (''linear'', liToken (cnLinear cn)), (''pagerduty'', pdToken (cnPagerDuty cn))],
      apEgress = scEgressAllowlist (cfSandbox cfg), apMaxOutput = orchMaxOutput cfg\<rparr>)"

definition orchSandbox :: "Config \<Rightarrow> Sandbox" where
  "orchSandbox cfg =
    (let c = cfSandbox cfg in
     (NewSandboxWithConfig (scEnabled c) (scRuntime c) (scImage c) (scEgressAllowlist c) (scMounts c))
       \<lparr>Enforce := scEnforce c, ReadOnlyRoot := scReadOnlyRoot c, Tmpfs := scTmpfs c, User := scUser c,
        SeccompProfile := scSeccompProfile c, NoNewPrivs := scNoNewPrivs c, DropCaps := scDropCaps c,
        RequireSeccomp := scRequireSeccomp c, RequireNoNewPrivs := scRequireNoNewPrivs c,
        RequireUser := scRequireUser c, RequireDropCaps := scRequireDropCaps c,
        RequireOnWrite := scRequireOnWrite c, RequireEgressAllowlist := scRequireEgressAllowlist c,
        MaxOutputBytes := orchMaxOutput cfg\<rparr>)"

definition orchRouterEnv :: "('a) MainEnv_scheme \<Rightarrow> Config \<Rightarrow> RouterEnv" where
  "orchRouterEnv env cfg =
    (let ps = lcRedactPatterns (cfLLM cfg) in
     (mnRouter env)\<lparr>renvClients := (\<lambda>tool. map_option (clientCall (mnHttp env)) (BuildHTTPClients cfg (orchAPI cfg) tool)),
                    renvRedact := Some (RedactString (NewRedactor (mnCompile env)
                                    (if ps = [] then DefaultRedactPatterns else ps)))\<rparr>)"

definition openBoundarySession ::
  "RouterEnv \<Rightarrow> Sandbox \<Rightarrow> string \<Rightarrow> string \<Rightarrow> ContextRef \<Rightarrow> RouterState \<Rightarrow> string result \<times> RouterState" where
  "openBoundarySession renv sb targetID duration ctx st =
    (let ((resp, err), st') =
           Execute renv (Some sb)
             \<lparr>ReqTool = ''boundary'', ReqAction = ''session_open'',
              ReqInput = GMap [(''target_id'', GStr targetID), (''duration'', GStr duration)], ReqToolCallID = [],
              ReqExecutionID = [], ReqContext = ctx\<rparr> st in
     (case err of Some e \<Rightarrow> Inl e | None \<Rightarrow> ParseSessionID (renvUnmarshal renv) (RespOutput resp), st'))"

definition orchSession :: "RouterEnv \<Rightarrow> Config \<Rightarrow> startup \<Rightarrow> startup \<times> string option" where
  "orchSession renv cfg su =
    (let b = cnBoundary (cfConnectors cfg); (sb, st) = su in
     if boTargetID b \<noteq> [] then
       (case openBoundarySession renv sb (boTargetID b) (boSessionDuration b) emptyContext st of
          (Inl _, st') \<Rightarrow> ((sb, st'), None)
        | (Inr sid, st') \<Rightarrow> ((addEnv (FormatBoundarySessionEnv sid) sb, st'), if boAutoClose b then Some sid else None))
     else (su, None))"

definition orchStart :: "MainEnv \<Rightarrow> Config \<Rightarrow> startup \<times> string option" where
  "orchStart env cfg =
    (let renv = orchRouterEnv env cfg in
     orchSession renv cfg (enableAudit renv cfg (startVault env cfg (orchSandbox cfg, NewRouter))))"

text \<open>The names under which the workflows are registered, in order.\<close>

definition registeredWorkflows :: "string list" where
  "registeredWorkflows =
     [''PlanExecutionWorkflow'', ''GitOpsDeployWorkflow'', ''HelmReleaseWorkflow'', ''ScaleServiceWorkflow'',
      ''IncidentRemediationWorkflow'', ''SecretRotationWorkflow'']"

text \<open>
  The names under which \<open>RegisterTemporalWorkflows\<close> of \<open>internal/workflows/replay.go\<close> registers the same
  functions with the replayer; without a name option the SDK uses the name of the function.
\<close>

definition replayWorkflows :: "string list" where
  "replayWorkflows =
     [''PlanExecutionWorkflow'', ''GitOpsDeployWorkflowTemporal'', ''HelmReleaseWorkflowTemporal'',
      ''ScaleServiceWorkflowTemporal'', ''IncidentRemediationWorkflowTemporal'', ''SecretRotationWorkflowTemporal'']"

text \<open>The error the worker ends with; \<open>None\<close> when it was interrupted.\<close>

definition startWorker :: "OrchEnv \<Rightarrow> Config \<Rightarrow> string option" where
  "startWorker env cfg =
    (if ocTemporalAddr (cfOrchestrator cfg) = [] then Some ''orchestrator.temporal_addr required''
     else case onDial env (cfOrchestrator cfg) of
       Some e \<Rightarrow> Some e
     | None \<Rightarrow> onRunWorker env registeredWorkflows)"

definition orchRun :: "OrchEnv \<Rightarrow> string result \<Rightarrow> (startup \<times> string option) result" where
  "orchRun env flag =
     bindR flag (\<lambda>configPath.
     if configPath = [] then Inl ''config required''
     else
       bindR (LoadConfig (mnRead env) (renvUnmarshal (mnRouter env)) configPath) (\<lambda>cfg.
       if stPostgresDSN (cfStorage cfg) = [] then Inl ''storage.postgres_dsn required''
       else case onNewDB env (stPostgresDSN (cfStorage cfg)) of
         Some e \<Rightarrow> Inl e
       | None \<Rightarrow>
          (let started = orchStart (MainEnv.truncate env) cfg in
           case startWorker env cfg of Some e \<Rightarrow> Inl e | None \<Rightarrow> Inr started)))"

text \<open>\<open>/readyz\<close>: the database answers a ping, and Temporal is healthy when there is a client or an address.\<close>

definition orchReady :: "bool \<Rightarrow> bool option \<Rightarrow> Config \<Rightarrow> reply" where
  "orchReady pings temporal cfg =
    (let ok = pings \<and> (case temporal of Some healthy \<Rightarrow> healthy | None \<Rightarrow> ocTemporalAddr (cfOrchestrator cfg) = []) in
     if ok then (200, GMap [(''status'', GStr ''ok'')]) else (503, GMap [(''status'', GStr ''unavailable'')]))"

definition newObjectStore :: "ObjectStoreConfig \<Rightarrow> ObjectStore" where
  "newObjectStore c = \<lparr>obEndpoint = osEndpoint c, obBucket = osBucket c\<rparr>"

section \<open>The two programs agree\<close>

lemma orchSandbox_same: "orchSandbox cfg = configSandbox cfg"
  by (simp add: orchSandbox_def configSandbox_def orchMaxOutput_def maxOutputOf_def defaultMaxOutputBytes_def Let_def)

lemma lookupOr_same: "lookupOr m k d = d" if "\<And>v. map_of m k = Some v \<Longrightarrow> v = d"
  using that by (auto simp: lookupOr_def split: option.splits)

lemma orchAPI_lookup:
  assumes "tool \<in> set apiTools"
  shows "lookupOr (apBases (orchAPI cfg)) tool (fst (connectorOf (cfConnectors cfg) tool)) =
      fst (connectorOf (cfConnectors cfg) tool)"
    and "lookupOr (apTokens (orchAPI cfg)) tool (snd (connectorOf (cfConnectors cfg) tool)) =
      snd (connectorOf (cfConnectors cfg) tool)"
  using assms unfolding apiTools_def
  by (simp_all only: set_simps insert_iff empty_iff)
    (elim disjE FalseE, simp_all add: orchAPI_def connectorOf_def lookupOr_def Let_def)+

lemma configAPI_lookup:
  "lookupOr (apBases (configAPI cfg)) tool (fst (connectorOf (cfConnectors cfg) tool)) =
      fst (connectorOf (cfConnectors cfg) tool)"
  "lookupOr (apTokens (configAPI cfg)) tool (snd (connectorOf (cfConnectors cfg) tool)) =
      snd (connectorOf (cfConnectors cfg) tool)"
  by (rule lookupOr_same, auto simp: configAPI_def Let_def map_of_tools split: if_splits)+

lemma orchClients_same: "BuildHTTPClients cfg (orchAPI cfg) tool = BuildHTTPClients cfg (configAPI cfg) tool"
proof (cases "tool \<in> set apiTools")
  case True
  have "apEgress (orchAPI cfg) = apEgress (configAPI cfg)" "apMaxOutput (orchAPI cfg) = apMaxOutput (configAPI cfg)"
    "apGrafanaOrgID (orchAPI cfg) = apGrafanaOrgID (configAPI cfg)"
    by (simp_all add: orchAPI_def configAPI_def Let_def orchMaxOutput_def maxOutputOf_def defaultMaxOutputBytes_def)
  then show ?thesis
    using True orchAPI_lookup [OF True, of cfg] configAPI_lookup [of cfg tool]
    by (simp add: BuildHTTPClients_def clientFor_def Let_def case_prod_beta)
qed (simp add: BuildHTTPClients_def)

lemma orchRouterEnv_same: "orchRouterEnv env cfg = routerEnvOf env cfg"
  by (simp add: orchRouterEnv_def routerEnvOf_def configRedactor_def orchClients_same Let_def)

lemma orchSession_same: "orchSession renv cfg su = openSession renv cfg su"
  by (auto simp: orchSession_def openSession_def openBoundarySession_def startupCall_def Let_def
      split: prod.splits sum.splits option.splits)

lemma orchStart_same: "orchStart env cfg = startAll env cfg"
  by (simp add: orchStart_def startAll_def orchRouterEnv_same orchSession_same orchSandbox_same Let_def)

text \<open>A recorded history of a catalogue workflow has no workflow of its name in the replayer.\<close>

lemma replayed_names: "set replayWorkflows \<inter> set registeredWorkflows = {''PlanExecutionWorkflow''}"
  by code_simp

end
