(* ===== verification/Gateway_Main.thy ===== *)
theory Gateway_Main
  imports Go_Path Auth Collectors Event_Loop Library_Store Workflow_Catalog Diagnostics
begin

text \<open>
  \<open>cmd/gateway/main.go\<close>: how the gateway is put together. The configuration decides the collectors and watchers
  of the context service, the event gate, the alert poller, the clients, the listeners and the credentials;
  the workflow catalogue in the database is completed from the built-in one. Starting goroutines and
  serving HTTP are not modelled; what they are started with is. Durations are in nanoseconds.
\<close>

definition seconds :: "int \<Rightarrow> int" where
  "seconds n = signed_take_bit 63 (n * 1000000000)"

section \<open>Clients\<close>

definition defaultPolicyPackage :: string where
  "defaultPolicyPackage = ''policy.assistant.v1''"

text \<open>The address and package the policy service is asked at.\<close>

definition newPolicyService :: "PolicyConfig \<Rightarrow> string \<times> string" where
  "newPolicyService c =
     (pcOPAURL c, if pcPolicyPackage c = [] then defaultPolicyPackage else pcPolicyPackage c)"

definition newToolRouterClient :: "ToolRouterConfig \<Rightarrow> RouterClient" where
  "newToolRouterClient c = \<lparr>rcBaseURL = trBaseURL c, rcToken = trAuthToken c\<rparr>"

record LinearClient =
  lnToken :: string
  lnTeamID :: string
  lnBaseURL :: string

definition approvalsClient :: "string \<Rightarrow> LinearConfig \<Rightarrow> LinearClient option" where
  "approvalsClient dfltURL c =
    (if liToken c \<noteq> [] \<and> liTeamID c \<noteq> [] then
       Some \<lparr>lnToken = liToken c, lnTeamID = liTeamID c, lnBaseURL = (if liBaseURL c \<noteq> [] then liBaseURL c else dfltURL)\<rparr>
     else None)"

text \<open>\<open>SetAuthConfig\<close> is called when any of the fields is set; otherwise the zero value stays.\<close>

definition gatewayAuth :: "GatewayConfig \<Rightarrow> AuthConfig option" where
  "gatewayAuth c =
    (if gcOIDCIssuer c \<noteq> [] \<or> gcOIDCClientID c \<noteq> [] \<or> gcOIDCJWKSURL c \<noteq> [] \<or> gcDevMode c then
       Some \<lparr>Issuer = gcOIDCIssuer c, Audience = gcOIDCClientID c, JWKSURL = gcOIDCJWKSURL c, DevMode = gcDevMode c,
             AuthToken = []\<rparr>
     else None)"

section \<open>The context service\<close>

text \<open>A label of the configuration stays; an empty one takes the context's value when there is one.\<close>

definition fillLabel :: "labels \<Rightarrow> string \<times> string \<Rightarrow> labels" where
  "fillLabel ls kv = (case kv of (k, v) \<Rightarrow> if lget ls k = [] \<and> v \<noteq> [] then lput ls k v else ls)"

definition contextFields :: "ContextConfig \<Rightarrow> (string \<times> string) list" where
  "contextFields c =
     [(''tenant_id'', ccTenantID c), (''environment'', ccEnvironment c), (''cluster_id'', ccClusterID c),
      (''namespace'', ccNamespace c), (''aws_account_id'', ccAWSAccountID c), (''region'', ccRegion c),
      (''argocd_project'', ccArgoCDProject c), (''grafana_org_id'', ccGrafanaOrgID c)]"

definition contextLabels :: "ContextConfig \<Rightarrow> labels" where
  "contextLabels c = foldl fillLabel (lputAll [] (ccLabels c)) (contextFields c)"

definition contextBase :: "ContextConfig \<Rightarrow> Base" where
  "contextBase c =
     \<lparr>baseContext = \<lparr>TenantID = ccTenantID c, Environment = ccEnvironment c, ClusterID = ccClusterID c,
        Namespace = ccNamespace c, AWSAccountID = ccAWSAccountID c, Region = ccRegion c,
        ArgoCDProject = ccArgoCDProject c, GrafanaOrgID = ccGrafanaOrgID c\<rparr>,
      baseLabels = contextLabels c\<rparr>"

datatype poller =
    ArgoCDPoller "string list"
  | AWSPoller "gmap list" string
  | PromPoller "string list"
  | ThanosPoller "string list"
  | AlertmanagerPoller
  | TempoPoller "string list"
  | GrafanaPoller "int list"
  | StaticMappingPoller "Collectors.ServiceMapping list"
  | HelmPoller "string list"
  | K8sPoller "string list" string

datatype watcher =
    WatchK8s "string list" K8sWatcher
  | PollingWatcher poller int

definition toMapping :: "Config.ServiceMapping \<Rightarrow> Collectors.ServiceMapping" where
  "toMapping m =
     \<lparr>SmService = smService m, SmEnvironment = smEnvironment m, SmClusterID = smClusterID m, SmNamespace = smNamespace m,
      SmPromQL = smPromQL m, SmTraceQL = smTraceQL m, SmDashboards = smDashboards m\<rparr>"

definition awsTagFilters :: "(string \<times> string list) list \<Rightarrow> gmap list" where
  "awsTagFilters tags =
     map (\<lambda>(k, vs). [(''key'', GStr k), (''values'', GStrs vs)]) (filter (\<lambda>(_, vs). vs \<noteq> []) tags)"

definition helmNamespaces :: "ContextConfig \<Rightarrow> string list" where
  "helmNamespaces c =
    (if ccHelmNamespaces c = [] \<and> ccNamespace c \<noteq> [] then [ccNamespace c] else ccHelmNamespaces c)"

definition k8sNamespaces :: "ContextConfig \<Rightarrow> string list" where
  "k8sNamespaces c =
    (let ns = (if ccK8sNamespaces c = [] \<and> ccNamespace c \<noteq> [] then [ccNamespace c] else ccK8sNamespaces c) in
     if ns = [] then [[]] else ns)"

definition k8sResources :: "ContextConfig \<Rightarrow> string list" where
  "k8sResources c = (if ccK8sResources c = [] then defaultK8sResources else ccK8sResources c)"

text \<open>The pollers in the order they are added; \<open>extra\<close> are the mappings of the workspace.\<close>

definition contextPollers :: "Config \<Rightarrow> Collectors.ServiceMapping list result \<Rightarrow> poller list" where
  "contextPollers cfg extra =
    (let c = cfContext cfg; cn = cfConnectors cfg in
     [ArgoCDPoller (ccArgoApps c), AWSPoller (awsTagFilters (ccAWSResourceTags c)) (ccRegion c),
      PromPoller (ccPromQLQueries c)] @
     (if thAddr (cnThanos cn) \<noteq> [] then [ThanosPoller (ccPromQLQueries c)] else []) @
     (if amAddr (cnAlertmanager cn) \<noteq> [] then [AlertmanagerPoller] else []) @
     [TempoPoller (ccTraceQLQueries c), GrafanaPoller (ccGrafanaFolders c)] @
     (if ccServices c \<noteq> [] then [StaticMappingPoller (map toMapping (ccServices c))] else []) @
     (case extra of Inr ms \<Rightarrow> if ms \<noteq> [] then [StaticMappingPoller ms] else [] | Inl _ \<Rightarrow> []) @
     [HelmPoller (helmNamespaces c)] @ map (K8sPoller (k8sResources c)) (k8sNamespaces c))"

definition k8sWatcher :: "ContextConfig \<Rightarrow> string \<Rightarrow> K8sWatcher" where
  "k8sWatcher c ns =
    (let sendInitial = (if \<not> ccWatchSendInitialEvents c then True else ccWatchSendInitialEvents c);
         bookmarks = (if \<not> ccWatchAllowBookmarks c then True else ccWatchAllowBookmarks c) in
     \<lparr>kwBase = contextBase c, kwNamespace = ns, kwSelector = [], kwTimeout = seconds (ccWatchTimeoutSecs c),
      kwInitialEvents = sendInitial, kwBookmarks = bookmarks\<rparr>)"

definition isK8sPoller :: "poller \<Rightarrow> bool" where
  "isK8sPoller p = (case p of K8sPoller _ _ \<Rightarrow> True | _ \<Rightarrow> False)"

definition contextWatchers :: "Config \<Rightarrow> Collectors.ServiceMapping list result \<Rightarrow> watcher list" where
  "contextWatchers cfg extra =
    (let c = cfContext cfg in
     map (\<lambda>ns. WatchK8s (k8sResources c) (k8sWatcher c ns)) (k8sNamespaces c) @
     (if ccWatchIntervalSecs c > 0 then
        map (\<lambda>p. PollingWatcher p (seconds (ccWatchIntervalSecs c)))
            (filter (\<lambda>p. \<not> isK8sPoller p) (contextPollers cfg extra))
      else []))"

record ContextService =
  csPollers :: "poller list"
  csWatchers :: "watcher list"
  csPollInterval :: "int option"
  csSnapshotInterval :: "int option"

definition newContextService :: "Config \<Rightarrow> Collectors.ServiceMapping list result \<Rightarrow> ContextService option" where
  "newContextService cfg extra =
    (let c = cfContext cfg in
     if \<not> ccEnabled c then None
     else Some \<lparr>csPollers = contextPollers cfg extra, csWatchers = contextWatchers cfg extra,
       csPollInterval = (if ccPollIntervalSecs c > 0 then Some (seconds (ccPollIntervalSecs c)) else None),
       csSnapshotInterval = (if ccSnapshotIntervalSecs c > 0 then Some (seconds (ccSnapshotIntervalSecs c)) else None)\<rparr>)"

text \<open>The collectors' struct has no tags, so its keys are the field names (in any case).\<close>

definition decodeMapping :: "gval \<Rightarrow> Collectors.ServiceMapping result" where
  "decodeMapping v =
     bindR (decodeObj v) (\<lambda>m.
     bindR (decodeStr (jsonField m ''Service'')) (\<lambda>service.
     bindR (decodeStr (jsonField m ''Environment'')) (\<lambda>environment.
     bindR (decodeStr (jsonField m ''ClusterID'')) (\<lambda>cluster.
     bindR (decodeStr (jsonField m ''Namespace'')) (\<lambda>ns.
     bindR (decodeSlice decodeStrV (orNull (jsonField m ''PromQL''))) (\<lambda>promql.
     bindR (decodeSlice decodeStrV (orNull (jsonField m ''TraceQL''))) (\<lambda>traceql.
     bindR (decodeSlice decodeStrV (orNull (jsonField m ''Dashboards''))) (\<lambda>dashboards.
       Inr \<lparr>SmService = service, SmEnvironment = environment, SmClusterID = cluster, SmNamespace = ns, SmPromQL = promql,
            SmTraceQL = traceql, SmDashboards = dashboards\<rparr>))))))))"

definition LoadServiceMappings ::
  "(string \<Rightarrow> (string + string option)) \<Rightarrow> (string \<Rightarrow> gval option) \<Rightarrow> string \<Rightarrow>
   Collectors.ServiceMapping list result" where
  "LoadServiceMappings read unmarshal workspaceDir =
    (let dir = TrimSpace workspaceDir in
     if dir = [] then Inr []
     else bindR (read (pathJoin [dir, ''memory'', ''service_mappings.json''])) (\<lambda>data.
       case data of
         None \<Rightarrow> Inr []
       | Some text \<Rightarrow>
          (case unmarshal text of
             None \<Rightarrow> Inl ''invalid json''
           | Some doc \<Rightarrow> decodeSlice decodeMapping doc)))"

section \<open>The event loop\<close>

definition eventGateOf :: "GatewayConfig \<Rightarrow> EventGate option" where
  "eventGateOf c =
    (if gcEnableEventLoop c then
       Some \<lparr>egWindow = (if gcEventGateWindowSecs c > 0 then seconds (gcEventGateWindowSecs c)
                         else if gcAlertDedupWindowSecs c > 0 then seconds (gcAlertDedupWindowSecs c) else 0),
             egBackoff = (if gcEventGateBackoffSecs c > 0 then seconds (gcEventGateBackoffSecs c) else 0),
             egMinCount = (if gcEventGateMinCount c > 0 then gcEventGateMinCount c else 0),
             egSeverities = gcEventGateSeverities c\<rparr>
     else None)"

text \<open>Poll interval and deduplication window of the alert poller, when there is one.\<close>

definition alertPollerOf :: "Config \<Rightarrow> (int \<times> int) option" where
  "alertPollerOf cfg =
    (let c = cfGateway cfg in
     if gcEnableEventLoop c \<and> trBaseURL (cfToolRouter cfg) \<noteq> [] \<and> amAddr (cnAlertmanager (cfConnectors cfg)) \<noteq> [] then
       Some (if gcAlertPollIntervalSecs c > 0 then seconds (gcAlertPollIntervalSecs c) else 30 * 1000000000,
             if gcAlertDedupWindowSecs c > 0 then seconds (gcAlertDedupWindowSecs c) else 120 * 1000000000)
     else None)"

section \<open>The server\<close>

text \<open>The server of a configuration around the parts that come from outside.\<close>

record GatewayParts =
  gpBase :: Server
  gpChecker :: "string \<times> string \<Rightarrow> checker"
  gpPlanner :: "LLMConfig \<Rightarrow> string \<Rightarrow> gval \<Rightarrow> DiagnosticEvidence list \<Rightarrow> string result"
  gpDiag :: "RouterClient \<Rightarrow> ObjectStore \<Rightarrow> int \<Rightarrow> DiagEnv"
  gpIssues :: "LinearClient \<Rightarrow> nat \<Rightarrow> string \<Rightarrow> string result"
  gpStarter :: "string \<Rightarrow> nat \<Rightarrow> string \<Rightarrow> string \<Rightarrow> ContextRef \<Rightarrow> PlanStep list \<Rightarrow> string result"
  gpLinearURL :: string

definition gatewayServer :: "GatewayParts \<Rightarrow> Config \<Rightarrow> bool \<Rightarrow> Server" where
  "gatewayServer p cfg temporal =
    (gpBase p)
     \<lparr>srvPolicy := (if pcOPAURL (cfPolicy cfg) \<noteq> [] then Some (gpChecker p (newPolicyService (cfPolicy cfg))) else None),
      srvPlanner := (if lcProvider (cfLLM cfg) \<noteq> [] then Some (gpPlanner p (cfLLM cfg)) else None),
      srvDiagnostics :=
        (if trBaseURL (cfToolRouter cfg) \<noteq> [] then
           Some (Collect (gpDiag p (newToolRouterClient (cfToolRouter cfg))
                   \<lparr>obEndpoint = osEndpoint (stObjectStore (cfStorage cfg)), obBucket = osBucket (stObjectStore (cfStorage cfg))\<rparr>
                   (15 * 60 * 1000000000)))
         else None),
      srvApprovals := map_option (gpIssues p) (approvalsClient (gpLinearURL p) (cnLinear (cfConnectors cfg))),
      srvExecutor := (if temporal then Some (gpStarter p (ocTaskQueue (cfOrchestrator cfg))) else None),
      AutoApproveLow := avAutoApproveLow (cfApprovals cfg),
      EnableEventLoop := gcEnableEventLoop (cfGateway cfg),
      EventLoopSources := gcEventLoopSources (cfGateway cfg),
      SessionRequired := gcSessionRequired (cfGateway cfg)\<rparr>"

section \<open>Listeners\<close>

datatype listener = MainServer string | CanvasServer string | WSServer string

definition gatewayAddr :: "Config option \<Rightarrow> string" where
  "gatewayAddr cfg =
    (case cfg of None \<Rightarrow> '':8080'' | Some c \<Rightarrow> if gcHTTPAddr (cfGateway c) \<noteq> [] then gcHTTPAddr (cfGateway c) else '':8080'')"

definition listeners :: "Config option \<Rightarrow> listener list" where
  "listeners cfg =
    (let addr = gatewayAddr cfg;
         canvas = (case cfg of None \<Rightarrow> [] | Some c \<Rightarrow> gcCanvasAddr (cfGateway c));
         ws = (case cfg of None \<Rightarrow> [] | Some c \<Rightarrow> gcWSAddr (cfGateway c)) in
     [MainServer addr] @
     (if canvas \<noteq> [] \<and> canvas \<noteq> addr then [CanvasServer canvas] else []) @
     (if ws \<noteq> [] \<and> ws \<noteq> addr \<and> ws \<noteq> canvas then [WSServer ws] else []))"

fun listenAddr :: "listener \<Rightarrow> string" where
  "listenAddr (MainServer a) = a"
| "listenAddr (CanvasServer a) = a"
| "listenAddr (WSServer a) = a"

text \<open>What \<open>run\<close> returns: the first error of a server, unless it was only closed.\<close>

definition gatewayExit :: "string option \<Rightarrow> string option" where
  "gatewayExit err = (case err of Some e \<Rightarrow> if e = ''http: Server closed'' then None else Some e | None \<Rightarrow> None)"

section \<open>The built-in catalogue\<close>

definition WorkflowSpecFromTemplate :: "WorkflowTemplate \<Rightarrow> gval" where
  "WorkflowSpecFromTemplate t =
     GMap [(''name'', GStr (TplName t)), (''description'', GStr (TplDescription t)), (''risk'', GStr (TplRisk t))]"

definition seedDoc :: "WorkflowTemplate \<Rightarrow> gval" where
  "seedDoc t = GMap [(''name'', GStr (TplName t)), (''version'', GInt 1), (''spec'', WorkflowSpecFromTemplate t)]"

fun seedEach :: "string set \<Rightarrow> WorkflowTemplate list \<Rightarrow> DB \<Rightarrow> DB" where
  "seedEach seen [] d = d"
| "seedEach seen (t # ts) d =
    seedEach seen ts (if TplName t \<in> seen then d else snd (CreateWorkflowCatalog (seedDoc t) d))"

definition namesOf :: "gval list \<Rightarrow> string set" where
  "namesOf items = {n. n \<noteq> [] \<and> n \<in> (\<lambda>v. case v of GMap m \<Rightarrow> gstr m ''name'' | _ \<Rightarrow> []) ` set items}"

definition seedWorkflowCatalog :: "DB \<Rightarrow> DB" where
  "seedWorkflowCatalog d =
    (case ListWorkflowCatalog 200 0 d of
       (Inl _, d') \<Rightarrow> d'
     | (Inr (items, _), d') \<Rightarrow> seedEach (namesOf items) workflowCatalog d')"

section \<open>Facts\<close>

lemma listeners_distinct: "distinct (map listenAddr (listeners cfg))"
  by (auto simp: listeners_def Let_def)

text \<open>The two watch options of the configuration change nothing.\<close>

lemma k8sWatcher_options: "kwInitialEvents (k8sWatcher c ns)" "kwBookmarks (k8sWatcher c ns)"
  by (simp_all add: k8sWatcher_def Let_def)

lemma lget_lput: "lget (lput ls k v) k' = (if k' = k then v else lget ls k')"
proof -
  have "map_of (filter (\<lambda>(a, _). a \<noteq> k) ls) k' = (if k' = k then None else map_of ls k')"
    by (induction ls) auto
  then show ?thesis by (simp add: lget_def lput_def)
qed

lemma fillLabel_get:
  "lget (fillLabel ls (k, v)) k' = (if k' = k \<and> lget ls k = [] then v else lget ls k')"
  by (auto simp: fillLabel_def lget_lput)

lemma fillLabels_get:
  "distinct (map fst kvs) \<Longrightarrow>
   lget (foldl fillLabel ls kvs) k = (if lget ls k \<noteq> [] then lget ls k else case map_of kvs k of None \<Rightarrow> [] | Some v \<Rightarrow> v)"
proof (induction kvs arbitrary: ls)
  case (Cons kv kvs)
  obtain k1 v1 where kv: "kv = (k1, v1)" by fastforce
  have "map_of kvs k1 = None" using Cons.prems by (simp add: kv map_of_eq_None_iff)
  with Cons show ?case by (auto simp: kv fillLabel_get split: option.splits)
qed simp

lemma contextLabels_get:
  "lget (contextLabels c) k =
   (let own = lget (lputAll [] (ccLabels c)) k in
    if own \<noteq> [] then own else case map_of (contextFields c) k of None \<Rightarrow> [] | Some v \<Rightarrow> v)"
  unfolding contextLabels_def Let_def by (rule fillLabels_get) (simp add: contextFields_def)

text \<open>Seeding adds rows for missing templates and touches nothing else.\<close>

definition seeded :: "Tables \<Rightarrow> Tables \<Rightarrow> bool" where
  "seeded t t' \<longleftrightarrow>
    (\<exists>rows. t' = t\<lparr>catalogT := catalogT t @ rows\<rparr> \<and>
       (\<forall>r \<in> set rows. WcVersion r = 1 \<and>
          (\<exists>tpl \<in> set workflowCatalog. WcName r = TplName tpl \<and> WcSpec r = WorkflowSpecFromTemplate tpl)) \<and>
       distinct (map WcName rows) \<and> WcName ` set rows \<inter> WcName ` {r \<in> set (catalogT t). WcVersion r = 1} = {})"

lemma seeded_refl: "seeded t t"
  unfolding seeded_def by (rule exI [of _ "[]"]) simp

lemma templates_decode:
  assumes "tpl \<in> set workflowCatalog"
  shows "decodeWorkflow (seedDoc tpl) = Inr \<lparr>WpTenant = [], WpName = TplName tpl, WpVersion = 1,
      WpSpec = Some (WorkflowSpecFromTemplate tpl)\<rparr>"
    and "TrimSpace (TplName tpl) = TplName tpl" "TplName tpl \<noteq> []"
proof -
  have "\<forall>tpl \<in> set workflowCatalog. TrimSpace (TplName tpl) = TplName tpl \<and> TplName tpl \<noteq> []" by code_simp
  with assms show "TrimSpace (TplName tpl) = TplName tpl" "TplName tpl \<noteq> []" by auto
  have "\<not> EqualFold ''name'' ''tenant_id''" "\<not> EqualFold ''version'' ''tenant_id''" "\<not> EqualFold ''spec'' ''tenant_id''"
    by code_simp+
  then show "decodeWorkflow (seedDoc tpl) = Inr \<lparr>WpTenant = [], WpName = TplName tpl, WpVersion = 1,
      WpSpec = Some (WorkflowSpecFromTemplate tpl)\<rparr>"
    by (simp add: decodeWorkflow_def seedDoc_def jsonField_def)
qed

lemma insertWorkflow_Inr:
  assumes "insertWorkflow r t = Inr t'"
  shows "t' = t\<lparr>catalogT := catalogT t @ [r]\<rparr>" "(WcName r, WcVersion r) \<notin> (\<lambda>q. (WcName q, WcVersion q)) ` set (catalogT t)"
  using assms by (auto simp: insertWorkflow_def split: if_splits)

lemma create_seed_op:
  assumes "tpl \<in> set workflowCatalog"
  shows "CreateWorkflowCatalog (seedDoc tpl) =
    bindS (newID ''workflow'') (\<lambda>i. bindS timeNow (\<lambda>now. bindS (execute (insertWorkflow
      \<lparr>WcID = i, WcTenant = nullString [], WcName = TplName tpl, WcVersion = 1, WcSpec = WorkflowSpecFromTemplate tpl,
       WcCreatedAt = now\<rparr>)) (\<lambda>_. okS i)))"
proof -
  have ret: "bindS (tryS (Inr p)) f = f p" for p :: workflowPayload and f :: "_ \<Rightarrow> (DB, string) op"
    by (rule ext) (simp add: bindS_def tryS_def okS_def)
  show ?thesis
    using templates_decode(2,3) [OF assms]
    by (simp add: CreateWorkflowCatalog_def templates_decode(1) [OF assms] ret Let_def)
qed

lemma create_seed:
  assumes "tpl \<in> set workflowCatalog" "seeded t (tables d)"
  shows "seeded t (tables (snd (CreateWorkflowCatalog (seedDoc tpl) d)))"
proof -
  let ?ok = "\<lambda>d. seeded t (tables d)"
  have ins: "insertWorkflow r u = Inr u' \<Longrightarrow> seeded t u \<Longrightarrow> WcVersion r = 1 \<Longrightarrow> WcName r = TplName tpl \<Longrightarrow>
      WcSpec r = WorkflowSpecFromTemplate tpl \<Longrightarrow> seeded t u'" for r u u'
  proof -
    assume i: "insertWorkflow r u = Inr u'" and s: "seeded t u" and r: "WcVersion r = 1" "WcName r = TplName tpl"
      "WcSpec r = WorkflowSpecFromTemplate tpl"
    from s obtain rows where rows: "u = t\<lparr>catalogT := catalogT t @ rows\<rparr>"
      "\<forall>r \<in> set rows. WcVersion r = 1 \<and>
          (\<exists>tpl \<in> set workflowCatalog. WcName r = TplName tpl \<and> WcSpec r = WorkflowSpecFromTemplate tpl)"
      "distinct (map WcName rows)" "WcName ` set rows \<inter> WcName ` {r \<in> set (catalogT t). WcVersion r = 1} = {}"
      unfolding seeded_def by blast
    note new = insertWorkflow_Inr [OF i]
    have "WcName r \<notin> WcName ` set rows" using new(2) rows(1,2) r(1) by force
    moreover have "WcName r \<notin> WcName ` {r \<in> set (catalogT t). WcVersion r = 1}" using new(2) rows(1) r(1) by force
    ultimately show "seeded t u'"
      unfolding seeded_def using new(1) rows assms(1) r
      by (intro exI [of _ "rows @ [r]"]) auto
  qed
  have "preserves ?ok (CreateWorkflowCatalog (seedDoc tpl))"
    unfolding create_seed_op [OF assms(1)]
    by (intro keeps preserves_execute [where I = "seeded t"] preserves_newID [where I = "seeded t"]
        preserves_timeNow [where I = "seeded t"]; (erule ins | assumption | simp)+)
  with assms(2) show ?thesis by (simp add: preserves_def)
qed

lemma seedEach_seeded:
  "set ts \<subseteq> set workflowCatalog \<Longrightarrow> seeded t (tables d) \<Longrightarrow> seeded t (tables (seedEach seen ts d))"
  by (induction seen ts d rule: seedEach.induct) (simp_all add: create_seed)

lemma seedWorkflowCatalog_seeded: "seeded (tables d) (tables (seedWorkflowCatalog d))"
proof -
  obtain res d' where l: "ListWorkflowCatalog 200 0 d = (res, d')" by fastforce
  then have "tables d' = tables d"
    by (auto simp: ListWorkflowCatalog_def query_def Let_def split: option.splits)
  then show ?thesis
    using l seedEach_seeded [of workflowCatalog "tables d" d']
    by (auto simp: seedWorkflowCatalog_def seeded_refl split: sum.splits)
qed

end
