(* ===== verification/Slack.thy ===== *)
theory Slack
  imports Plan_Api Tool_Api
begin

text \<open>
  \<open>internal/chatops\<close>: the Slack command endpoint (\<open>slack.go\<close>) and the gateway client it calls
  (\<open>gateway_client.go\<close>). The keyed hash, the JSON codec, URL parsing and printing and the HTTP exchange are
  parameters. Every client operation returns its result with the requests it sent, so that what reaches the
  gateway can be stated. The timestamp arithmetic wraps at 64 bits as in Go.
\<close>

record SlackHandler =
  SigningSecret :: string
  slHasClient :: bool
  slBaseURL :: string
  slToken :: string
  slNow :: int
  slMac :: "string \<Rightarrow> string \<Rightarrow> string"
  slMarshal :: "gval \<Rightarrow> string result"
  slUnmarshal :: "string \<Rightarrow> gval option"
  slParse :: "string \<Rightarrow> (string \<times> string) result"
  slURL :: "string \<Rightarrow> string \<Rightarrow> string \<Rightarrow> string"
  slSend :: "string \<Rightarrow> string \<Rightarrow> (string \<times> string) list \<Rightarrow> string \<Rightarrow> (nat \<times> string) result"

section \<open>Form bodies\<close>

definition hexVal :: "char \<Rightarrow> nat option" where
  "hexVal c =
    (let n = of_char c in
     if 48 \<le> n \<and> n \<le> 57 then Some (n - 48)
     else if 97 \<le> n \<and> n \<le> 102 then Some (n - 87)
     else if 65 \<le> n \<and> n \<le> 70 then Some (n - 55)
     else None)"

fun QueryUnescape :: "string \<Rightarrow> string option" where
  "QueryUnescape [] = Some []"
| "QueryUnescape (c # cs) =
    (if c = CHR ''%'' then
       (case cs of
          a # b # rest \<Rightarrow>
           (case (hexVal a, hexVal b) of
              (Some h, Some l) \<Rightarrow> map_option ((#) (char_of (16 * h + l))) (QueryUnescape rest)
            | _ \<Rightarrow> None)
        | _ \<Rightarrow> None)
     else map_option ((#) (if c = CHR ''+'' then CHR '' '' else c)) (QueryUnescape cs))"

text \<open>\<open>strings.Cut\<close> at a character.\<close>

definition cutAt :: "char \<Rightarrow> string \<Rightarrow> string \<times> string" where
  "cutAt c s = (takeWhile (\<lambda>x. x \<noteq> c) s, drop 1 (dropWhile (\<lambda>x. x \<noteq> c) s))"

definition parsePair :: "string \<Rightarrow> (string \<times> string) option" where
  "parsePair piece =
    (if CHR '';'' \<in> set piece then None
     else (let (k, v) = cutAt CHR ''='' piece in
       case (QueryUnescape k, QueryUnescape v) of (Some k, Some v) \<Rightarrow> Some (k, v) | _ \<Rightarrow> None))"

fun parsePairs :: "string list \<Rightarrow> (string \<times> string) list option" where
  "parsePairs [] = Some []"
| "parsePairs (p # ps) =
    (if p = [] then parsePairs ps
     else case (parsePair p, parsePairs ps) of (Some kv, Some kvs) \<Rightarrow> Some (kv # kvs) | _ \<Rightarrow> None)"

text \<open>The handler refuses a body with any malformed pair, so only the error-free result matters.\<close>

definition ParseQuery :: "string \<Rightarrow> (string \<times> string) list option" where
  "ParseQuery q = parsePairs (splitChar CHR ''&'' q)"

section \<open>Commands\<close>

fun firstWord :: "string \<Rightarrow> string" where
  "firstWord [] = []"
| "firstWord (c # cs) = (if \<exists>w \<in> set space_runes. prefix w (c # cs) then [] else c # firstWord cs)"

definition splitFirst :: "string \<Rightarrow> string \<times> string" where
  "splitFirst text =
    (if text = [] then ([], [])
     else (let action = firstWord (trimFront space_runes text) in
       if action = [] then ([], [])
       else (action, TrimSpace (if prefix action text then drop (length action) text else text))))"

section \<open>The signature\<close>

text \<open>Subtraction of \<open>int64\<close> values.\<close>

definition sub64 :: "int \<Rightarrow> int \<Rightarrow> int" where
  "sub64 a b = signed_take_bit 63 (a - b)"

definition lowerHex :: "nat \<Rightarrow> char" where
  "lowerHex d = (if d < 10 then char_of (48 + d) else char_of (87 + d))"

definition hexEncodeToString :: "string \<Rightarrow> string" where
  "hexEncodeToString bs = concat (map (\<lambda>c. [lowerHex (of_char c div 16), lowerHex (of_char c mod 16)]) bs)"

definition expectedSignature :: "SlackHandler \<Rightarrow> string \<Rightarrow> string \<Rightarrow> string" where
  "expectedSignature h ts body = ''v0='' @ hexEncodeToString (slMac h (SigningSecret h) (''v0:'' @ ts @ '':'' @ body))"

definition verifySignature :: "SlackHandler \<Rightarrow> Request \<Rightarrow> bool" where
  "verifySignature h r =
    (let ts = header r ''X-Slack-Request-Timestamp''; sig = header r ''X-Slack-Signature'' in
     if SigningSecret h = [] then False
     else if ts = [] \<or> sig = [] then False
     else case Atoi ts of
       None \<Rightarrow> False
     | Some parsed \<Rightarrow>
         if sub64 (slNow h) parsed > 300 \<or> sub64 parsed (slNow h) > 300 then False
         else expectedSignature h ts (rqBody r) = sig)"

section \<open>The gateway client\<close>

type_synonym httpReq = "string \<times> string \<times> (string \<times> string) list \<times> string"
type_synonym 'a call = "'a result \<times> httpReq list"

definition doRequest :: "SlackHandler \<Rightarrow> string \<Rightarrow> string \<Rightarrow> gval option \<Rightarrow> string call" where
  "doRequest h method path0 req =
    (case (case req of None \<Rightarrow> Inr [] | Some doc \<Rightarrow> slMarshal h doc) of
       Inl e \<Rightarrow> (Inl e, [])
     | Inr data \<Rightarrow>
      (case slParse h (slBaseURL h) of
         Inl e \<Rightarrow> (Inl e, [])
       | Inr (front, base) \<Rightarrow>
          (let (path, rawQuery) = cutAt CHR ''?'' path0;
               url = slURL h front ((if base \<noteq> [] \<and> last base = CHR ''/'' then butlast base else base) @ path) rawQuery;
               hs = (if req \<noteq> None then [(''Content-Type'', ''application/json'')] else []) @
                    (if slToken h \<noteq> [] then [(''Authorization'', ''Bearer '' @ slToken h)] else []) in
           ((case slSend h method url hs data of
               Inl e \<Rightarrow> Inl e
             | Inr (code, answer) \<Rightarrow>
                 if code < 200 \<or> code \<ge> 300 then Inl (''gateway status '' @ showNat code @ '': '' @ take 4096 answer)
                 else Inr answer),
            [(method, url, hs, data)]))))"

definition doJSON :: "SlackHandler \<Rightarrow> string \<Rightarrow> string \<Rightarrow> gval \<Rightarrow> (gval \<Rightarrow> 'a result) \<Rightarrow> 'a call" where
  "doJSON h method path doc decode =
    (let (res, sent) = doRequest h method path (Some doc) in
     (bindR res (\<lambda>answer. case slUnmarshal h answer of None \<Rightarrow> Inl ''invalid json'' | Some v \<Rightarrow> decode v), sent))"

definition planReqDoc :: "PlanCreateRequest \<Rightarrow> gval" where
  "planReqDoc req =
     GMap [(''summary'', GStr (PcSummary req)), (''trigger'', GStr (PcTrigger req)), (''context'', ctxDoc (PcContext req)),
           (''intent'', GStr (PcIntent req)), (''constraints'', PcConstraints req), (''session_id'', GStr (PcSessionID req))]"

definition decodePlanID :: "gval \<Rightarrow> string result" where
  "decodePlanID v =
     bindR (decodeObj v) (\<lambda>m.
     bindR (decodeStr (jsonField m ''plan_id'')) (\<lambda>outer.
     bindR (case jsonField m ''plan'' of None \<Rightarrow> Inr [] | Some p \<Rightarrow> bindR (decodeObj p) (\<lambda>pm. decodeStr (jsonField pm ''plan_id'')))
       (\<lambda>inner.
     let planID = (if outer = [] then inner else outer) in
     if planID = [] then Inl ''missing plan_id'' else Inr planID)))"

definition clientCreatePlan :: "SlackHandler \<Rightarrow> PlanCreateRequest \<Rightarrow> string call" where
  "clientCreatePlan h req = doJSON h ''POST'' ''/v1/plans'' (planReqDoc req) decodePlanID"

definition clientCreateApproval :: "SlackHandler \<Rightarrow> string \<Rightarrow> string \<Rightarrow> string \<Rightarrow> unit call" where
  "clientCreateApproval h planID status note0 =
     doJSON h ''POST'' ''/v1/approvals''
       (GMap [(''plan_id'', GStr planID), (''approver_note'', GStr note0), (''status'', GStr status)])
       (\<lambda>v. bindR (decodeObj v) (\<lambda>_. Inr ()))"

definition clientGetExecution :: "SlackHandler \<Rightarrow> string \<Rightarrow> string call" where
  "clientGetExecution h executionID = doRequest h ''GET'' (''/v1/executions/'' @ executionID) None"

definition clientListAudit :: "SlackHandler \<Rightarrow> (string \<times> string) list \<Rightarrow> string call" where
  "clientListAudit h values =
     doRequest h ''GET'' (''/v1/audit/events'' @ (if values \<noteq> [] then ''?'' @ encodeValues values else [])) None"

section \<open>The endpoint\<close>

type_synonym slackReply = "reply \<times> httpReq list"

definition finish :: "'a call \<Rightarrow> string \<Rightarrow> ('a \<Rightarrow> string) \<Rightarrow> slackReply" where
  "finish c err text = ((case fst c of Inl _ \<Rightarrow> httpError err 400 | Inr x \<Rightarrow> (200, GStr (text x))), snd c)"

definition slackPlan :: "string \<Rightarrow> PlanCreateRequest" where
  "slackPlan text = \<lparr>PcSummary = text, PcTrigger = ''manual'', PcContext = emptyContext, PcIntent = text,
     PcConstraints = GNil, PcSessionID = []\<rparr>"

definition handlePlan :: "SlackHandler \<Rightarrow> string \<Rightarrow> slackReply" where
  "handlePlan h text =
    (if text = [] then (httpError ''missing intent'' 400, [])
     else finish (clientCreatePlan h (slackPlan text)) ''plan error'' (\<lambda>planID. ''plan created: '' @ planID))"

definition handleApprove :: "SlackHandler \<Rightarrow> string \<Rightarrow> slackReply" where
  "handleApprove h text =
    (let (planID, rest) = splitFirst text in
     if planID = [] then (httpError ''missing plan_id'' 400, [])
     else (let status = (if rest \<noteq> [] then rest else ''approved'') in
       finish (clientCreateApproval h planID status []) ''approval error''
         (\<lambda>_. ''approval '' @ status @ '': '' @ planID)))"

definition handleStatus :: "SlackHandler \<Rightarrow> string \<Rightarrow> slackReply" where
  "handleStatus h text =
    (if text = [] then (httpError ''missing execution_id'' 400, [])
     else finish (clientGetExecution h text) ''status error'' (\<lambda>out. out))"

definition handleAudit :: "SlackHandler \<Rightarrow> string \<Rightarrow> slackReply" where
  "handleAudit h text =
     finish (clientListAudit h (if text \<noteq> [] then [(''plan_id'', text)] else [])) ''audit error'' (\<lambda>out. out)"

definition slackServeHTTP :: "SlackHandler \<Rightarrow> Request \<Rightarrow> slackReply" where
  "slackServeHTTP h r =
    (if rqMethod r \<noteq> ''POST'' then (httpError [] 405, [])
     else if \<not> slHasClient h then (httpError ''client required'' 500, [])
     else if \<not> verifySignature h r then (httpError ''unauthorized'' 401, [])
     else case ParseQuery (rqBody r) of
       None \<Rightarrow> (httpError ''invalid body'' 400, [])
     | Some values \<Rightarrow>
        (let (action, rest) = splitFirst (TrimSpace (getOr values ''text'')) in
         if action = [] then (httpError ''missing command'' 400, [])
         else if action = ''plan'' then handlePlan h (TrimSpace rest)
         else if action = ''approve'' then handleApprove h (TrimSpace rest)
         else if action = ''status'' then handleStatus h (TrimSpace rest)
         else if action = ''audit'' then handleAudit h (TrimSpace rest)
         else (httpError ''unknown command'' 400, [])))"

section \<open>Signed requests\<close>

lemma sub64_in_range: "- (2 ^ 63) \<le> a - b \<Longrightarrow> a - b < 2 ^ 63 \<Longrightarrow> sub64 a b = a - b"
  by (simp add: sub64_def signed_take_bit_int_eq_self)

lemma sub64_over: "2 ^ 63 \<le> a - b \<Longrightarrow> a - b < 2 ^ 64 \<Longrightarrow> sub64 a b = a - b - 2 ^ 64"
proof -
  assume a: "2 ^ 63 \<le> a - b" "a - b < 2 ^ 64"
  have "sub64 a b = signed_take_bit 63 (a - b - 2 ^ 64)"
    unfolding sub64_def by (simp add: signed_take_bit_eq_iff_take_bit_eq take_bit_eq_mod)
  also have "\<dots> = a - b - 2 ^ 64" using a by (intro signed_take_bit_int_eq_self) simp_all
  finally show ?thesis .
qed

lemma sub64_under: "- (2 ^ 64) \<le> a - b \<Longrightarrow> a - b < - (2 ^ 63) \<Longrightarrow> sub64 a b = a - b + 2 ^ 64"
proof -
  assume a: "- (2 ^ 64) \<le> a - b" "a - b < - (2 ^ 63)"
  have "sub64 a b = signed_take_bit 63 (a - b + 2 ^ 64)"
    unfolding sub64_def by (simp add: signed_take_bit_eq_iff_take_bit_eq take_bit_eq_mod)
  also have "\<dots> = a - b + 2 ^ 64" using a by (intro signed_take_bit_int_eq_self) simp_all
  finally show ?thesis .
qed

lemma window:
  assumes "0 \<le> now" "now < 2 ^ 62" "- (2 ^ 63) \<le> p" "p < 2 ^ 63" "sub64 now p \<le> 300" "sub64 p now \<le> 300"
  shows "\<bar>now - p\<bar> \<le> 300 \<or> p = now - 2 ^ 63"
proof (cases "now - p < 2 ^ 63")
  case True
  then have "sub64 now p = now - p" "sub64 p now = p - now"
    using assms(1-4) by (simp_all add: sub64_in_range)
  with assms(5,6) show ?thesis by linarith
next
  case False
  show ?thesis
  proof (cases "now - p = 2 ^ 63")
    case False
    then have "sub64 p now = p - now + 2 ^ 64"
      using \<open>\<not> now - p < 2 ^ 63\<close> assms(1-4) by (intro sub64_under) simp_all
    with assms show ?thesis by simp
  qed simp
qed

lemma Atoi_range: "Atoi s = Some v \<Longrightarrow> - (2 ^ 63) \<le> v \<and> v < 2 ^ 63"
  by (auto simp: Atoi_def Let_def split: if_splits list.splits prod.splits)

lemma verifySignature_ok:
  assumes "verifySignature h r" "0 \<le> slNow h" "slNow h < 2 ^ 62"
  obtains p where "Atoi (header r ''X-Slack-Request-Timestamp'') = Some p"
    and "\<bar>slNow h - p\<bar> \<le> 300 \<or> p = slNow h - 2 ^ 63"
    and "header r ''X-Slack-Signature'' = expectedSignature h (header r ''X-Slack-Request-Timestamp'') (rqBody r)"
    and "SigningSecret h \<noteq> []"
proof -
  from assms(1) obtain p where p: "Atoi (header r ''X-Slack-Request-Timestamp'') = Some p"
    "sub64 (slNow h) p \<le> 300" "sub64 p (slNow h) \<le> 300" "SigningSecret h \<noteq> []"
    "expectedSignature h (header r ''X-Slack-Request-Timestamp'') (rqBody r) = header r ''X-Slack-Signature''"
    by (auto simp: verifySignature_def Let_def split: if_splits option.splits)
  from Atoi_range [OF p(1)] have "- (2 ^ 63) \<le> p" "p < 2 ^ 63" by simp_all
  from window [OF assms(2,3) this p(2,3)] p(1,4,5) that show thesis by simp
qed

lemma slack_sends_signed: "snd (slackServeHTTP h r) \<noteq> [] \<Longrightarrow> rqMethod r = ''POST'' \<and> verifySignature h r"
  by (auto simp: slackServeHTTP_def split: if_splits)

lemma doRequest_headers:
  "q \<in> set (snd (doRequest h method path req)) \<Longrightarrow>
   fst q = method \<and> (slToken h \<noteq> [] \<longrightarrow> (''Authorization'', ''Bearer '' @ slToken h) \<in> set (fst (snd (snd q))))"
  by (auto simp: doRequest_def Let_def split: sum.splits prod.splits option.splits)

lemma doRequest_one: "length (snd (doRequest h method path req)) \<le> 1"
  by (simp add: doRequest_def Let_def split: sum.split prod.split option.split)

lemma doJSON_sent: "snd (doJSON h method path doc decode) = snd (doRequest h method path (Some doc))"
  by (simp add: doJSON_def split: prod.split)

text \<open>Whatever the command, what is sent is what one call of \<open>doRequest\<close> sends.\<close>

lemma slack_sent: "snd (slackServeHTTP h r) = [] \<or> (\<exists>method path req. snd (slackServeHTTP h r) = snd (doRequest h method path req))"
proof -
  have plan: "snd (handlePlan h t) = [] \<or> (\<exists>m p q. snd (handlePlan h t) = snd (doRequest h m p q))" for t
    unfolding handlePlan_def finish_def clientCreatePlan_def by (auto simp: doJSON_sent)
  have approve: "snd (handleApprove h t) = [] \<or> (\<exists>m p q. snd (handleApprove h t) = snd (doRequest h m p q))" for t
    unfolding handleApprove_def finish_def clientCreateApproval_def by (auto simp: doJSON_sent Let_def split: prod.split)
  have status: "snd (handleStatus h t) = [] \<or> (\<exists>m p q. snd (handleStatus h t) = snd (doRequest h m p q))" for t
    unfolding handleStatus_def finish_def clientGetExecution_def by auto
  have audit: "\<exists>m p q. snd (handleAudit h t) = snd (doRequest h m p q)" for t
    unfolding handleAudit_def finish_def clientListAudit_def by auto
  show ?thesis
    unfolding slackServeHTTP_def using plan approve status audit
    by (simp split: option.split prod.split)
qed

section \<open>Form encoding round trip\<close>

lemma hexVal_hexDigit: "d < 16 \<Longrightarrow> hexVal (hexDigit d) = Some d"
  by (auto simp: hexVal_def hexDigit_def Let_def)

lemma char_nibbles: "(of_char (c :: char) :: nat) div 16 < 16" "(of_char c :: nat) mod 16 < 16"
proof -
  have "(of_char c :: nat) < 16 * 16" using nat_of_char_less_256 [of c] by linarith
  then show "(of_char c :: nat) div 16 < 16" by (rule less_mult_imp_div_less)
qed simp

lemma unescape_percent: "QueryUnescape (percentEncode c @ s) = map_option ((#) c) (QueryUnescape s)"
  by (simp add: percentEncode_def hexVal_hexDigit char_nibbles)

lemma QueryUnescape_QueryEscape: "QueryUnescape (QueryEscape s) = Some s"
proof (induction s)
  case (Cons c s)
  have step: "QueryEscape (c # s) = QueryEscape [c] @ QueryEscape s" by (simp add: QueryEscape_def)
  have plain: "c \<noteq> CHR ''%'' \<and> c \<noteq> CHR ''+''" if "unreserved c" using that by (auto simp: unreserved_def)
  show ?case
  proof (cases "unreserved c")
    case True
    with plain Cons show ?thesis unfolding step by (simp add: QueryEscape_def)
  next
    case False
    then have "QueryEscape [c] = (if c = CHR '' '' then ''+'' else percentEncode c)" by (simp add: QueryEscape_def)
    with Cons show ?thesis unfolding step by (simp add: unescape_percent)
  qed
qed (simp add: QueryEscape_def)

lemma hexDigit_plain: "d < 16 \<Longrightarrow> hexDigit d \<notin> {CHR ''&'', CHR '';'', CHR ''=''}"
  using hexVal_hexDigit [of d] by (auto simp: hexVal_def)

lemma percentEncode_plain: "c \<in> set (percentEncode x) \<Longrightarrow> c \<notin> {CHR ''&'', CHR '';'', CHR ''=''}"
  using hexDigit_plain [OF char_nibbles(1) [of x]] hexDigit_plain [OF char_nibbles(2) [of x]]
  by (auto simp: percentEncode_def)

lemma QueryEscape_plain: "c \<in> set (QueryEscape s) \<Longrightarrow> c \<notin> {CHR ''&'', CHR '';'', CHR ''=''}"
proof -
  assume "c \<in> set (QueryEscape s)"
  then obtain x where "c \<in> set (if unreserved x then [x] else if x = CHR '' '' then ''+'' else percentEncode x)"
    by (auto simp only: QueryEscape_def set_concat set_map)
  moreover have "x \<notin> {CHR ''&'', CHR '';'', CHR ''=''}" if "unreserved x"
    using that by (auto simp: unreserved_def)
  ultimately show ?thesis using percentEncode_plain [of c x] by (auto split: if_splits)
qed

lemma cutAt_append: "c \<notin> set a \<Longrightarrow> cutAt c (a @ c # b) = (a, b)"
  by (simp add: cutAt_def takeWhile_append dropWhile_append)

lemma parsePair_encoded: "parsePair (QueryEscape k @ ''='' @ QueryEscape v) = Some (k, v)"
proof -
  have "CHR ''='' \<notin> set (QueryEscape k)" "CHR '';'' \<notin> set (QueryEscape k @ ''='' @ QueryEscape v)"
    using QueryEscape_plain by fastforce+
  then show ?thesis by (simp add: parsePair_def cutAt_append QueryUnescape_QueryEscape)
qed

lemma parsePairs_encoded: "parsePairs (map (\<lambda>(k, v). QueryEscape k @ ''='' @ QueryEscape v) kvs) = Some kvs"
  using parsePair_encoded by (induction kvs) auto

lemma splitChar_plain: "c \<notin> set s \<Longrightarrow> splitChar c s = [s]"
  by (induction s) auto

lemma splitChar_cut: "c \<notin> set a \<Longrightarrow> splitChar c (a @ c # b) = a # splitChar c b"
  by (induction a) (auto split: list.splits)

lemma splitChar_strJoin:
  "ps \<noteq> [] \<Longrightarrow> \<forall>p \<in> set ps. c \<notin> set p \<Longrightarrow> splitChar c (strJoin ps [c]) = ps"
  by (induction ps "[c]" rule: strJoin.induct) (simp_all add: splitChar_plain splitChar_cut)

lemma ParseQuery_encodeValues: "ParseQuery (encodeValues kvs) = Some kvs"
proof (cases kvs)
  case Nil
  then show ?thesis by (simp add: ParseQuery_def encodeValues_def)
next
  case (Cons kv kvs')
  define ps where "ps = map (\<lambda>(k, v). QueryEscape k @ ''='' @ QueryEscape v) kvs"
  have "\<forall>p \<in> set ps. CHR ''&'' \<notin> set p"
    using QueryEscape_plain unfolding ps_def by fastforce
  then have "splitChar CHR ''&'' (strJoin ps ''&'') = ps"
    using Cons by (intro splitChar_strJoin) (simp_all add: ps_def)
  then show ?thesis
    using parsePairs_encoded [of kvs] by (simp add: ParseQuery_def encodeValues_def ps_def)
qed

section \<open>Plans from Slack\<close>

text \<open>What the gateway reads from the client's document, and what it makes of a context without a tenant.\<close>

lemma decodeContext_ctxDoc: "decodeContext (Some (ctxDoc c)) = Inr c"
  by (simp add: decodeContext_def ctxDoc_def jsonField_def)

lemma decode_planReqDoc: "decodePlanCreate (planReqDoc req) = Inr req"
  by (simp add: decodePlanCreate_def planReqDoc_def decodeContext_ctxDoc anyField_def jsonField_def)

lemma denyH_stops: "\<exists>g'. denyH s r a c n rep g = (Inl rep, g')"
  by (simp add: denyH_def bindH_def auditEvent_def stopH_def)

lemma plans_need_tenant:
  assumes "decodeBody s r = Some doc" "decodePlanCreate doc = Inr req" "TrimSpace (TenantID (PcContext req)) = []"
  shows "\<exists>rep g'. handlePlansPost s r g = (Inl rep, g') \<and> beyondAudit g' = beyondAudit g \<and>
    rep \<in> {httpError ''session denied'' 403, httpError ''invalid context'' 400}"
proof (cases "dbH (requireSession s r) (httpError ''session denied'' 403) g")
  case (Pair res h)
  have h: "beyondAudit h = beyondAudit g"
    using onlyAudits_dbH [OF reads_requireSession] Pair unfolding onlyAudits_def by (metis snd_conv)
  show ?thesis
  proof (cases res)
    case (Inl rep)
    then have "rep = httpError ''session denied'' 403" using Pair by (auto simp: dbH_def split: prod.splits sum.splits)
    with Pair Inl h show ?thesis by (simp add: handlePlansPost_def bindH_def)
  next
    case (Inr required)
    have "validateContextRefMinimal (PcContext req) = Inl ''tenant_id required''"
      using assms(3) by (simp add: validateContextRefMinimal_def)
    moreover have "bodyH s r decodePlanCreate = okH req" using assms(1,2) by (simp add: bodyH_def)
    moreover obtain g' where "(denyH s r ''plan.create'' (ctxDoc (PcContext req)) ''tenant_id required''
        (httpError ''invalid context'' 400) :: unit act) h = (Inl (httpError ''invalid context'' 400), g')"
      using denyH_stops by blast
    moreover from this have "beyondAudit g' = beyondAudit h"
      using onlyAudits_audit(2) unfolding onlyAudits_def by (metis snd_conv)
    ultimately show ?thesis using Pair Inr h by (simp add: handlePlansPost_def bindH_def okH_def Let_def)
  qed
qed

lemma slack_plan_refused:
  assumes "decodeBody s r = Some (planReqDoc (slackPlan text))"
  shows "\<exists>rep g'. handlePlansPost s r g = (Inl rep, g') \<and> beyondAudit g' = beyondAudit g \<and>
    rep \<in> {httpError ''session denied'' 403, httpError ''invalid context'' 400}"
  by (rule plans_need_tenant [OF assms decode_planReqDoc]) (simp add: slackPlan_def emptyContext_def)

end
