(* ===== verification/Opa.thy ===== *)
theory Opa
  imports Gateway Library_Store
begin

text \<open>
  \<open>internal/policy/opa.go\<close>: the policy service the checkers of the gateway and of the tool router ask. The JSON
  codec and the HTTP exchange (status and body of the answer) are parameters.
\<close>

record OpaEnv =
  opMarshal :: "gval \<Rightarrow> string result"
  opDecode :: "string \<Rightarrow> gval option"
  opPost :: "string \<Rightarrow> string \<Rightarrow> (int \<times> string) result"

record PolicyService =
  psURL :: string
  psPackage :: string

text \<open>\<open>strings.Trim(s, "/")\<close> and \<open>strings.TrimRight(s, "/")\<close>.\<close>

definition trimRightSlash :: "string \<Rightarrow> string" where
  "trimRightSlash s = rev (dropWhile (\<lambda>c. c = CHR ''/'') (rev s))"

definition trimSlash :: "string \<Rightarrow> string" where
  "trimSlash s = trimRightSlash (dropWhile (\<lambda>c. c = CHR ''/'') s)"

definition dataURL :: "PolicyService \<Rightarrow> string" where
  "dataURL p =
     trimRightSlash (TrimSpace (psURL p)) @ ''/v1/data/'' @
     map (\<lambda>c. if c = CHR ''.'' then CHR ''/'' else c) (trimSlash (TrimSpace (psPackage p)))"

definition riskDoc :: "PolicyInput \<Rightarrow> gval" where
  "riskDoc i =
     GMap ([(''level'', GStr (RiskLevel i))] @
           (if RiskTargets i = 0 then [] else [(''targets'', GInt (RiskTargets i))]) @
           (if BlastRadius i = [] then [] else [(''blast_radius'', GStr (BlastRadius i))]) @
           (if RiskTier i = [] then [] else [(''tier'', GStr (RiskTier i))]))"

definition policyDoc :: "PolicyInput \<Rightarrow> gval" where
  "policyDoc i =
     GMap [(''actor'', InActor i), (''action'', GMap [(''name'', GStr (ActionName i)), (''type'', GStr (ActionType i))]),
           (''context'', ctxDoc (InContext i)), (''resources'', GMap [(''break_glass'', GBool (InBreakGlass i))]),
           (''risk'', riskDoc i), (''time'', GStr (InTime i))]"

definition decodeDecision :: "gval \<Rightarrow> PolicyDecision result" where
  "decodeDecision v =
     bindR (decodeObj v) (\<lambda>m.
     bindR (decodeStr (jsonField m ''decision'')) (\<lambda>decision.
     bindR (case jsonField m ''constraints'' of None \<Rightarrow> Inr [] | Some c \<Rightarrow> decodeObj c) (\<lambda>constraints.
     bindR (decodeInt (jsonField m ''ttl'')) (\<lambda>ttl.
       Inr \<lparr>Decision = decision, Constraints = constraints, TTL = ttl\<rparr>))))"

definition EvaluateDoc :: "OpaEnv \<Rightarrow> PolicyService \<Rightarrow> gval \<Rightarrow> PolicyDecision result" where
  "EvaluateDoc env p input =
     bindR (opMarshal env (GMap [(''input'', input)])) (\<lambda>body.
     bindR (opPost env (dataURL p) body) (\<lambda>(status, answer).
     if status < 200 \<or> status \<ge> 300 then Inl (''opa status '' @ showInt status)
     else case opDecode env answer of
       None \<Rightarrow> Inl ''invalid json''
     | Some doc \<Rightarrow>
         bindR (decodeObj doc) (\<lambda>m.
         case jsonField m ''result'' of None \<Rightarrow> Inr (plainDecision []) | Some r \<Rightarrow> decodeDecision r)))"

definition Evaluate :: "OpaEnv \<Rightarrow> PolicyService \<Rightarrow> checker" where
  "Evaluate env p i = EvaluateDoc env p (policyDoc i)"

section \<open>What a policy service decides\<close>

text \<open>The service answers only after an exchange with a 2xx status.\<close>

lemma Evaluate_answered:
  assumes "Evaluate env p i = Inr dec"
  obtains body status answer where "opMarshal env (GMap [(''input'', policyDoc i)]) = Inr body"
    "opPost env (dataURL p) body = Inr (status, answer)" "200 \<le> status" "status < 300"
  using assms by (auto simp: Evaluate_def EvaluateDoc_def bindR_eq_Inr split: if_splits)

text \<open>For a package the service does not know the answer has no result, and the decision is empty.\<close>

lemma Evaluate_undefined:
  assumes "opMarshal env (GMap [(''input'', policyDoc i)]) = Inr body" "opPost env (dataURL p) body = Inr (200, answer)"
    and "opDecode env answer = Some (GMap [])"
  shows "Evaluate env p i = Inr (plainDecision [])"
  using assms by (simp add: Evaluate_def EvaluateDoc_def jsonField_def)

end
