(* ===== verification/Go_Flags.thy ===== *)
theory Go_Flags
  imports Go_Effects
begin

text \<open>
  The \<open>flag\<close> package as the programs use it: \<open>FlagSet.Parse\<close> over flags of type string, bool, int, duration and
  list. The syntax of integers and durations is the parameter \<open>valid\<close>; the texts of errors are shortened.
\<close>

datatype flagKind = FlagStr | FlagBool | FlagInt | FlagDuration | FlagList

type_synonym flagSpec = "(string \<times> flagKind) list"
type_synonym flagVals = "(string \<times> string) list"

definition boolTrue :: "string list" where
  "boolTrue = [''1'', ''t'', ''T'', ''TRUE'', ''true'', ''True'']"

definition boolFalse :: "string list" where
  "boolFalse = [''0'', ''f'', ''F'', ''FALSE'', ''false'', ''False'']"

definition validFlag :: "(flagKind \<Rightarrow> string \<Rightarrow> bool) \<Rightarrow> flagKind \<Rightarrow> string \<Rightarrow> bool" where
  "validFlag valid k v =
    (case k of
       FlagStr \<Rightarrow> True
     | FlagList \<Rightarrow> True
     | FlagBool \<Rightarrow> v \<in> set boolTrue \<or> v \<in> set boolFalse
     | _ \<Rightarrow> valid k v)"

text \<open>The values set so far are in the order of the arguments; the rest of the arguments is returned.\<close>

function parseFlags ::
  "(flagKind \<Rightarrow> string \<Rightarrow> bool) \<Rightarrow> flagSpec \<Rightarrow> flagVals \<Rightarrow> string list \<Rightarrow> (flagVals \<times> string list) result" where
  "parseFlags valid spec vals args =
    (case args of
       [] \<Rightarrow> Inr (vals, [])
     | s # rest \<Rightarrow>
        if length s < 2 \<or> hd s \<noteq> CHR ''-'' then Inr (vals, args)
        else if s = ''--'' then Inr (vals, rest)
        else
          (let body = (if s ! 1 = CHR ''-'' then drop 2 s else drop 1 s) in
           if hd body = CHR ''-'' \<or> hd body = CHR ''='' then Inl ''bad flag syntax''
           else
             (let name = takeWhile (\<lambda>c. c \<noteq> CHR ''='') body; given = dropWhile (\<lambda>c. c \<noteq> CHR ''='') body in
              case map_of spec name of
                None \<Rightarrow>
                  Inl (if name = ''help'' \<or> name = ''h'' then ''flag: help requested''
                       else ''flag provided but not defined: -'' @ name)
              | Some k \<Rightarrow>
                  if given = [] \<and> k \<noteq> FlagBool then
                    (case rest of
                       [] \<Rightarrow> Inl (''flag needs an argument: -'' @ name)
                     | v # rest' \<Rightarrow>
                        if validFlag valid k v then parseFlags valid spec (vals @ [(name, v)]) rest'
                        else Inl (''invalid value for flag -'' @ name))
                  else
                    (let v = (if given = [] then ''true'' else tl given) in
                     if validFlag valid k v then parseFlags valid spec (vals @ [(name, v)]) rest
                     else Inl (''invalid value for flag -'' @ name)))))"
  by pat_completeness auto

termination
  by (relation "measure (\<lambda>(_, _, _, args). length args)") auto

declare parseFlags.simps [simp del]

text \<open>The value of a flag: the last one set, or its default.\<close>

definition flagOr :: "flagVals \<Rightarrow> string \<Rightarrow> string \<Rightarrow> string" where
  "flagOr vals name dflt = (case map_of (rev vals) name of None \<Rightarrow> dflt | Some v \<Rightarrow> v)"

definition flagBool :: "flagVals \<Rightarrow> string \<Rightarrow> bool \<Rightarrow> bool" where
  "flagBool vals name dflt = (case map_of (rev vals) name of None \<Rightarrow> dflt | Some v \<Rightarrow> v \<in> set boolTrue)"

definition flagAll :: "flagVals \<Rightarrow> string \<Rightarrow> string list" where
  "flagAll vals name = map snd (filter (\<lambda>(k, _). k = name) vals)"

section \<open>Facts\<close>

text \<open>Every value that was set is valid for the flag it was set for.\<close>

lemma parseFlags_valid:
  assumes "parseFlags valid spec vals args = Inr (vals', rest)"
    and "\<forall>(n, v) \<in> set vals. \<exists>k. map_of spec n = Some k \<and> validFlag valid k v"
  shows "\<forall>(n, v) \<in> set vals'. \<exists>k. map_of spec n = Some k \<and> validFlag valid k v"
  using assms
proof (induction valid spec vals args rule: parseFlags.induct)
  case (1 valid spec vals args)
  let ?ok = "\<lambda>vals. \<forall>(n, v) \<in> set vals. \<exists>k. map_of spec n = Some k \<and> validFlag valid k v"
  have snoc: "?ok (vals @ [(n, v)])" if "map_of spec n = Some k" "validFlag valid k v" for n v k
    using "1.prems"(2) that by auto
  show ?case
  proof (cases args)
    case Nil
    with "1.prems" show ?thesis by (simp add: parseFlags.simps)
  next
    case (Cons s tail)
    define body where "body = (if s ! 1 = CHR ''-'' then drop 2 s else drop 1 s)"
    define name where "name = takeWhile (\<lambda>c. c \<noteq> CHR ''='') body"
    define given where "given = dropWhile (\<lambda>c. c \<noteq> CHR ''='') body"
    note run = "1.prems"(1) [unfolded parseFlags.simps [of valid spec vals args], unfolded Cons list.case,
        folded body_def, unfolded Let_def, folded name_def given_def]
    show ?thesis
    proof (cases "length s < 2 \<or> hd s \<noteq> CHR ''-'' \<or> s = ''--''")
      case True
      with run "1.prems"(2) show ?thesis by (auto split: if_splits)
    next
      case plain: False
      with run have syn: "\<not> (hd body = CHR ''-'' \<or> hd body = CHR ''='')" by (auto split: if_splits)
      with run plain obtain k where k: "map_of spec name = Some k" by (auto split: option.splits)
      note go = "1.IH" [OF Cons _ _ body_def _ name_def given_def k]
      show ?thesis
      proof (cases "given = [] \<and> k \<noteq> FlagBool")
        case True
        with run plain syn k obtain v tail' where v: "tail = v # tail'" "validFlag valid k v"
          "parseFlags valid spec (vals @ [(name, v)]) tail' = Inr (vals', rest)"
          by (auto split: list.splits if_splits)
        from go(1) [OF _ _ syn True v(1,2,3) snoc [OF k v(2)]] plain show ?thesis by auto
      next
        case False
        define v where "v = (if given = [] then ''true'' else tl given)"
        from run plain syn k False have "validFlag valid k v"
          "parseFlags valid spec (vals @ [(name, v)]) tail = Inr (vals', rest)"
          by (auto simp: v_def split: if_splits)
        from go(2) [OF _ _ syn False v_def this snoc [OF k this(1)]] plain show ?thesis by auto
      qed
    qed
  qed
qed

end
