(* ===== verification/Cli.thy ===== *)
theory Cli
  imports Slack Opa Go_Flags Session_Api Workflow_Api Library_Api
begin

text \<open>
  \<open>cmd/assistantctl\<close>: the command line. A command parses its flags, checks what is required, and sends one request
  to the gateway; the result is what it prints or its error, with the requests it sent. \<open>parseJSONInput\<close> leaves
  the zero value for an empty flag. File reads, the codec and the HTTP exchange are parameters.
\<close>

record CliEnv =
  clRead :: "string \<Rightarrow> string result"
  clUnmarshal :: "string \<Rightarrow> gval option"
  clMarshal :: "gval \<Rightarrow> string result"
  clParse :: "string \<Rightarrow> (string \<times> string) result"
  clURL :: "string \<Rightarrow> string \<Rightarrow> string \<Rightarrow> string"
  clSend :: "string \<Rightarrow> string \<Rightarrow> (string \<times> string) list \<Rightarrow> string \<Rightarrow> (int \<times> string) result"
  clValid :: "flagKind \<Rightarrow> string \<Rightarrow> bool"
  clOpa :: OpaEnv
  clReplay :: "string \<Rightarrow> string option"
  clEncode :: "PolicyDecision \<Rightarrow> string"
  clVersion :: string
  clCommit :: string

section \<open>Input\<close>

definition readInput :: "CliEnv \<Rightarrow> string \<Rightarrow> string result" where
  "readInput env value =
    (if prefix ''@'' value then
       (let path = drop 1 value in if TrimSpace path = [] then Inl ''input path required'' else clRead env path)
     else Inr value)"

text \<open>\<open>zero\<close> is the value of the variable that nothing is decoded into.\<close>

definition parseJSONInput :: "CliEnv \<Rightarrow> (gval \<Rightarrow> 'a result) \<Rightarrow> 'a \<Rightarrow> string \<Rightarrow> 'a result" where
  "parseJSONInput env decode zero value =
    (if TrimSpace value = [] then Inr zero
     else bindR (readInput env value) (\<lambda>data.
       case clUnmarshal env data of None \<Rightarrow> Inl ''invalid json'' | Some v \<Rightarrow> decode v))"

definition contextInput :: "CliEnv \<Rightarrow> string \<Rightarrow> ContextRef result" where
  "contextInput env = parseJSONInput env (\<lambda>v. decodeContext (Some v)) emptyContext"

definition anyInput :: "CliEnv \<Rightarrow> string \<Rightarrow> gval result" where
  "anyInput env = parseJSONInput env Inr GNil"

section \<open>The gateway client\<close>

record gatewayClient =
  gcBaseURL :: string
  gcToken :: string

definition gatewayClientFromFlags :: "string \<Rightarrow> string \<Rightarrow> gatewayClient result" where
  "gatewayClientFromFlags baseURL token =
    (let b = TrimSpace baseURL in
     if b = [] then Inl ''gateway required'' else Inr \<lparr>gcBaseURL = trimRightSlash b, gcToken = token\<rparr>)"

definition bindCall :: "'a call \<Rightarrow> ('a \<Rightarrow> 'b call) \<Rightarrow> 'b call" where
  "bindCall c f = (case c of (Inl e, s) \<Rightarrow> (Inl e, s) | (Inr x, s) \<Rightarrow> (let (r, s') = f x in (r, s @ s')))"

definition noCall :: "'a result \<Rightarrow> 'a call" where
  "noCall r = (r, [])"

definition ctlRequestWithTenant ::
  "CliEnv \<Rightarrow> gatewayClient \<Rightarrow> string \<Rightarrow> string \<Rightarrow> gval option \<Rightarrow> string \<Rightarrow> string call" where
  "ctlRequestWithTenant env c method path0 req tenantID =
    (case (case req of None \<Rightarrow> Inr [] | Some doc \<Rightarrow> clMarshal env doc) of
       Inl e \<Rightarrow> (Inl e, [])
     | Inr data \<Rightarrow>
      (case clParse env (gcBaseURL c) of
         Inl e \<Rightarrow> (Inl e, [])
       | Inr (front, base) \<Rightarrow>
          (let (path, rawQuery) = cutAt CHR ''?'' path0;
               url = clURL env front ((if base \<noteq> [] \<and> last base = CHR ''/'' then butlast base else base) @ path) rawQuery;
               hs = (if req \<noteq> None then [(''Content-Type'', ''application/json'')] else []) @
                    (if gcToken c \<noteq> [] then [(''Authorization'', ''Bearer '' @ gcToken c)] else []) @
                    (if TrimSpace tenantID \<noteq> [] then [(''X-Tenant-Id'', tenantID)] else []) in
           ((case clSend env method url hs data of
               Inl e \<Rightarrow> Inl e
             | Inr (code, answer) \<Rightarrow>
                 if code < 200 \<or> code \<ge> 300 then Inl (''gateway status '' @ showInt code @ '': '' @ answer) else Inr answer),
            [(method, url, hs, data)]))))"

text \<open>\<open>doRequest\<close> repeats the same code without the tenant header.\<close>

definition ctlRequest :: "CliEnv \<Rightarrow> gatewayClient \<Rightarrow> string \<Rightarrow> string \<Rightarrow> gval option \<Rightarrow> string call" where
  "ctlRequest env c method path req = ctlRequestWithTenant env c method path req []"

definition ctlJSON :: "CliEnv \<Rightarrow> gatewayClient \<Rightarrow> string \<Rightarrow> string \<Rightarrow> gval \<Rightarrow> (gval \<Rightarrow> 'a result) \<Rightarrow> 'a call" where
  "ctlJSON env c method path doc decode =
     bindCall (ctlRequest env c method path (Some doc)) (\<lambda>answer.
       noCall (case clUnmarshal env answer of None \<Rightarrow> Inl ''invalid json'' | Some v \<Rightarrow> decode v))"

definition idField :: "string \<Rightarrow> gval \<Rightarrow> string result" where
  "idField key v =
     bindR (decodeObj v) (\<lambda>m. bindR (decodeStr (jsonField m key)) (\<lambda>i.
       if i = [] then Inl (''missing '' @ key) else Inr i))"

definition ctlCreatePlan :: "CliEnv \<Rightarrow> gatewayClient \<Rightarrow> PlanCreateRequest \<Rightarrow> string call" where
  "ctlCreatePlan env c req = ctlJSON env c ''POST'' ''/v1/plans'' (planReqDoc req) decodePlanID"

definition ctlCreateApproval :: "CliEnv \<Rightarrow> gatewayClient \<Rightarrow> string \<Rightarrow> string \<Rightarrow> string \<Rightarrow> unit call" where
  "ctlCreateApproval env c planID status note0 =
     bindCall (ctlRequest env c ''POST'' ''/v1/approvals''
       (Some (GMap [(''plan_id'', GStr planID), (''approver_note'', GStr note0), (''status'', GStr status)])))
       (\<lambda>_. noCall (Inr ()))"

definition ctlExecLogs :: "CliEnv \<Rightarrow> gatewayClient \<Rightarrow> string \<Rightarrow> string \<Rightarrow> string \<Rightarrow> string call" where
  "ctlExecLogs env c executionID toolCallID level =
    (let values = (if TrimSpace level \<noteq> [] then [(''level'', level)] else []) @
                  (if TrimSpace toolCallID \<noteq> [] then [(''tool_call_id'', toolCallID)] else []) in
     ctlRequest env c ''GET''
       (''/v1/executions/'' @ executionID @ ''/logs'' @ (if values \<noteq> [] then ''?'' @ encodeValues values else [])) None)"

definition ctlRefreshContext :: "CliEnv \<Rightarrow> gatewayClient \<Rightarrow> string \<Rightarrow> unit call" where
  "ctlRefreshContext env c service =
     bindCall (ctlRequest env c ''POST'' ''/v1/context/refresh''
       (Some (GMap [(''service'', GStr service), (''nodes'', GNil), (''edges'', GNil)]))) (\<lambda>_. noCall (Inr ()))"

definition scheduleReqDoc :: "ScheduleCreateRequest \<Rightarrow> gval" where
  "scheduleReqDoc req =
     GMap [(''summary'', GStr (ScrSummary req)), (''cron'', GStr (ScrCron req)), (''context'', ctxDoc (ScrContext req)),
           (''intent'', GStr (ScrIntent req)), (''constraints'', ScrConstraints req), (''enabled'', GBool (ScrEnabled req))]"

definition ctlCreateSchedule :: "CliEnv \<Rightarrow> gatewayClient \<Rightarrow> ScheduleCreateRequest \<Rightarrow> string call" where
  "ctlCreateSchedule env c req = ctlJSON env c ''POST'' ''/v1/schedules'' (scheduleReqDoc req) (idField ''schedule_id'')"

definition ctlExecutePlan :: "CliEnv \<Rightarrow> gatewayClient \<Rightarrow> string \<Rightarrow> string \<Rightarrow> string call" where
  "ctlExecutePlan env c planID approvalToken =
     ctlJSON env c ''POST'' (''/v1/plans/'' @ planID @ '':execute'')
       (GMap (if TrimSpace approvalToken \<noteq> [] then [(''approval_token'', GStr approvalToken)] else []))
       (idField ''execution_id'')"

text \<open>The input is a map, or null when the flag was not given.\<close>

definition ctlStartWorkflow :: "CliEnv \<Rightarrow> gatewayClient \<Rightarrow> string \<Rightarrow> ContextRef \<Rightarrow> gval \<Rightarrow> gval \<Rightarrow> string call" where
  "ctlStartWorkflow env c name ctx input constraints =
     ctlRequest env c ''POST'' (''/v1/workflows/'' @ name @ ''/start'')
       (Some (GMap [(''context'', ctxDoc ctx), (''input'', input), (''constraints'', constraints)]))"

definition ctlCreateSession :: "CliEnv \<Rightarrow> gatewayClient \<Rightarrow> SessionRequest \<Rightarrow> string call" where
  "ctlCreateSession env c req = ctlJSON env c ''POST'' ''/v1/sessions'' (sessionRequestDoc req) (idField ''session_id'')"

section \<open>Commands\<close>

type_synonym command = "CliEnv \<Rightarrow> string list \<Rightarrow> string call"

definition println :: "string \<Rightarrow> string" where
  "println s = s @ [CHR 0x0A]"

definition strFlags :: "string list \<Rightarrow> flagSpec" where
  "strFlags names = map (\<lambda>n. (n, FlagStr)) (names @ [''gateway'', ''token''])"

text \<open>The flags of a command and what it does with them; arguments after the flags are ignored.\<close>

definition withFlags :: "flagSpec \<Rightarrow> (flagVals \<Rightarrow> string call) \<Rightarrow> CliEnv \<Rightarrow> string list \<Rightarrow> string call" where
  "withFlags spec body env args = bindCall (noCall (parseFlags (clValid env) spec [] args)) (\<lambda>(vals, _). body vals)"

definition requireFlag :: "flagVals \<Rightarrow> string \<Rightarrow> unit call" where
  "requireFlag vals name =
     noCall (if TrimSpace (flagOr vals name []) = [] then Inl (name @ '' required'') else Inr ())"

definition clientOf :: "flagVals \<Rightarrow> gatewayClient call" where
  "clientOf vals = noCall (gatewayClientFromFlags (flagOr vals ''gateway'' []) (flagOr vals ''token'' []))"

definition intentOf :: "flagVals \<Rightarrow> string" where
  "intentOf vals =
    (let intent = flagOr vals ''intent'' [] in if TrimSpace intent = [] then flagOr vals ''summary'' [] else intent)"

definition runPlanCreate :: command where
  "runPlanCreate env =
     withFlags (strFlags [''summary'', ''trigger'', ''intent'', ''context'', ''constraints'']) (\<lambda>v.
     bindCall (requireFlag v ''summary'') (\<lambda>_.
     bindCall (noCall (contextInput env (flagOr v ''context'' []))) (\<lambda>ctx.
     bindCall (noCall (anyInput env (flagOr v ''constraints'' []))) (\<lambda>constraints.
     bindCall (clientOf v) (\<lambda>c.
     bindCall (ctlCreatePlan env c
       \<lparr>PcSummary = flagOr v ''summary'' [], PcTrigger = flagOr v ''trigger'' ''manual'', PcContext = ctx,
        PcIntent = intentOf v, PcConstraints = constraints, PcSessionID = []\<rparr>) (\<lambda>planID.
     noCall (Inr (println planID)))))))) env"

definition runPlanApprove :: command where
  "runPlanApprove env =
     withFlags (strFlags [''plan-id'', ''status'', ''note'']) (\<lambda>v.
     bindCall (requireFlag v ''plan-id'') (\<lambda>_.
     bindCall (clientOf v) (\<lambda>c.
     bindCall (ctlCreateApproval env c (flagOr v ''plan-id'' []) (flagOr v ''status'' ''approved'') (flagOr v ''note'' []))
       (\<lambda>_. noCall (Inr (println ''ok'')))))) env"

definition runPlanGet :: command where
  "runPlanGet env =
     withFlags (strFlags [''plan-id'']) (\<lambda>v.
     bindCall (requireFlag v ''plan-id'') (\<lambda>_.
     bindCall (clientOf v) (\<lambda>c. ctlRequest env c ''GET'' (''/v1/plans/'' @ flagOr v ''plan-id'' []) None))) env"

definition runPlanExecute :: command where
  "runPlanExecute env =
     withFlags (strFlags [''plan-id'', ''approval-token'']) (\<lambda>v.
     bindCall (requireFlag v ''plan-id'') (\<lambda>_.
     bindCall (clientOf v) (\<lambda>c.
     bindCall (ctlExecutePlan env c (flagOr v ''plan-id'' []) (flagOr v ''approval-token'' [])) (\<lambda>execID.
     noCall (Inr (println execID)))))) env"

definition runExecLogs :: command where
  "runExecLogs env =
     withFlags (strFlags [''execution-id'', ''tool-call-id'', ''level'']) (\<lambda>v.
     bindCall (requireFlag v ''execution-id'') (\<lambda>_.
     bindCall (clientOf v) (\<lambda>c.
     ctlExecLogs env c (flagOr v ''execution-id'' []) (flagOr v ''tool-call-id'' []) (flagOr v ''level'' [])))) env"

definition runContextRefresh :: command where
  "runContextRefresh env =
     withFlags (strFlags [''service'']) (\<lambda>v.
     bindCall (requireFlag v ''service'') (\<lambda>_.
     bindCall (clientOf v) (\<lambda>c.
     bindCall (ctlRefreshContext env c (flagOr v ''service'' [])) (\<lambda>_. noCall (Inr (println ''ok'')))))) env"

text \<open>A list read for the tenant of a flag, which is required.\<close>

definition tenantList :: "string \<Rightarrow> command" where
  "tenantList path env =
     withFlags (strFlags [''tenant-id'']) (\<lambda>v.
     bindCall (requireFlag v ''tenant-id'') (\<lambda>_.
     bindCall (clientOf v) (\<lambda>c. ctlRequestWithTenant env c ''GET'' path None (flagOr v ''tenant-id'' [])))) env"

definition runContextSnapshot :: command where
  "runContextSnapshot = tenantList ''/v1/context/snapshots''"

definition runAuditList :: command where
  "runAuditList = tenantList ''/v1/audit/events''"

text \<open>A list read without a tenant.\<close>

definition plainList :: "string \<Rightarrow> command" where
  "plainList path env =
     withFlags (strFlags []) (\<lambda>v. bindCall (clientOf v) (\<lambda>c. ctlRequest env c ''GET'' path None)) env"

definition itemGet :: "string \<Rightarrow> string \<Rightarrow> command" where
  "itemGet key path env =
     withFlags (strFlags [key]) (\<lambda>v.
     bindCall (requireFlag v key) (\<lambda>_.
     bindCall (clientOf v) (\<lambda>c. ctlRequest env c ''GET'' (path @ flagOr v key []) None))) env"

definition runScheduleList :: command where
  "runScheduleList = plainList ''/v1/schedules''"

definition runSessionList :: command where
  "runSessionList = plainList ''/v1/sessions''"

definition runPlaybookList :: command where
  "runPlaybookList = plainList ''/v1/playbooks''"

definition runRunbookList :: command where
  "runRunbookList = plainList ''/v1/runbooks''"

definition runPlaybookGet :: command where
  "runPlaybookGet = itemGet ''playbook-id'' ''/v1/playbooks/''"

definition runRunbookGet :: command where
  "runRunbookGet = itemGet ''runbook-id'' ''/v1/runbooks/''"

definition runScheduleCreate :: command where
  "runScheduleCreate env =
     withFlags ((''enabled'', FlagBool) # strFlags [''summary'', ''cron'', ''intent'', ''context'', ''constraints'']) (\<lambda>v.
     bindCall (requireFlag v ''summary'') (\<lambda>_.
     bindCall (requireFlag v ''cron'') (\<lambda>_.
     bindCall (noCall (contextInput env (flagOr v ''context'' []))) (\<lambda>ctx.
     bindCall (noCall (anyInput env (flagOr v ''constraints'' []))) (\<lambda>constraints.
     bindCall (clientOf v) (\<lambda>c.
     bindCall (ctlCreateSchedule env c
       \<lparr>ScrSummary = flagOr v ''summary'' [], ScrCron = flagOr v ''cron'' [], ScrContext = ctx, ScrIntent = intentOf v,
        ScrConstraints = constraints, ScrEnabled = flagBool v ''enabled'' True\<rparr>) (\<lambda>i.
     noCall (Inr (println i))))))))) env"

definition runWorkflowReplay :: command where
  "runWorkflowReplay env =
     withFlags [(''history'', FlagStr)] (\<lambda>v.
     bindCall (requireFlag v ''history'') (\<lambda>_.
     let p = TrimSpace (flagOr v ''history'' []);
         path = (if prefix ''@'' p then TrimSpace (drop 1 p) else p) in
     noCall (case clReplay env path of Some e \<Rightarrow> Inl e | None \<Rightarrow> Inr (println ''ok'')))) env"

definition runWorkflowList :: command where
  "runWorkflowList env =
     withFlags (strFlags [''tenant-id'']) (\<lambda>v.
     bindCall (clientOf v) (\<lambda>c. ctlRequestWithTenant env c ''GET'' ''/v1/workflows'' None (flagOr v ''tenant-id'' []))) env"

definition runWorkflowStart :: command where
  "runWorkflowStart env =
     withFlags (strFlags [''name'', ''context'', ''input'', ''constraints'']) (\<lambda>v.
     bindCall (requireFlag v ''name'') (\<lambda>_.
     bindCall (noCall (contextInput env (flagOr v ''context'' []))) (\<lambda>ctx.
     bindCall (noCall (parseJSONInput env (\<lambda>d. bindR (decodeObj d) (\<lambda>_. Inr d)) GNil (flagOr v ''input'' []))) (\<lambda>input.
     bindCall (noCall (anyInput env (flagOr v ''constraints'' []))) (\<lambda>constraints.
     bindCall (clientOf v) (\<lambda>c.
     ctlStartWorkflow env c (flagOr v ''name'' []) ctx input constraints)))))) env"

definition runSessionCreate :: command where
  "runSessionCreate env =
     withFlags (strFlags [''name'', ''tenant-id'']) (\<lambda>v.
     bindCall (requireFlag v ''name'') (\<lambda>_.
     bindCall (requireFlag v ''tenant-id'') (\<lambda>_.
     bindCall (clientOf v) (\<lambda>c.
     bindCall (ctlCreateSession env c
       \<lparr>SqName = flagOr v ''name'' [], SqTenant = flagOr v ''tenant-id'' [], SqGroup = [], SqOwner = [], SqMetadata = GNil\<rparr>)
       (\<lambda>i. noCall (Inr (println i))))))) env"

text \<open>A JSON document read into a \<open>PolicyInput\<close> and printed again.\<close>

definition policyInput :: "gval \<Rightarrow> gval result" where
  "policyInput d =
     bindR (decodeObj d) (\<lambda>m.
     bindR (decodeStr (jsonField m ''time'')) (\<lambda>time.
       Inr (GMap (map (\<lambda>k. (k, anyField m k)) [''actor'', ''action'', ''context'', ''resources'', ''risk''] @
                  [(''time'', GStr time)]))))"

definition runPolicyTest :: command where
  "runPolicyTest env =
     withFlags [(''opa-url'', FlagStr), (''package'', FlagStr), (''input'', FlagStr), (''timeout-ms'', FlagInt)] (\<lambda>v.
     bindCall (requireFlag v ''opa-url'') (\<lambda>_.
     bindCall (requireFlag v ''input'') (\<lambda>_.
     bindCall (noCall (parseJSONInput env policyInput GNil (flagOr v ''input'' []))) (\<lambda>input.
     noCall (bindR (EvaluateDoc (clOpa env)
         \<lparr>psURL = trimRightSlash (flagOr v ''opa-url'' []),
          psPackage = TrimSpace (flagOr v ''package'' ''policy.assistant.v1'')\<rparr> input)
       (\<lambda>dec. Inr (println (clEncode env dec)))))))) env"

section \<open>Dispatch\<close>

definition helpArgs :: "string list" where
  "helpArgs = [''-h'', ''--help'', ''help'']"

definition dispatch :: "string \<Rightarrow> string \<Rightarrow> (string \<times> command) list \<Rightarrow> command" where
  "dispatch name usage table env args =
    (case args of
       [] \<Rightarrow> noCall (Inl (name @ '' subcommand required''))
     | a # rest \<Rightarrow>
        if a \<in> set helpArgs then noCall (Inr (println (''Usage: assistantctl '' @ name @ '' <'' @ usage @ ''> [flags]'')))
        else (case map_of table a of
                Some f \<Rightarrow> f env rest
              | None \<Rightarrow> noCall (Inl (''unknown '' @ name @ '' command: '' @ a))))"

definition runPlanCmd :: command where
  "runPlanCmd = dispatch ''plan'' ''create|approve|get|execute''
     [(''create'', runPlanCreate), (''approve'', runPlanApprove), (''get'', runPlanGet), (''execute'', runPlanExecute)]"

definition runExec :: command where
  "runExec = dispatch ''exec'' ''logs'' [(''logs'', runExecLogs)]"

definition runContext :: command where
  "runContext = dispatch ''context'' ''refresh|snapshot'' [(''refresh'', runContextRefresh), (''snapshot'', runContextSnapshot)]"

definition runPolicy :: command where
  "runPolicy = dispatch ''policy'' ''test'' [(''test'', runPolicyTest)]"

definition runScheduleCmd :: command where
  "runScheduleCmd = dispatch ''schedule'' ''create|list'' [(''create'', runScheduleCreate), (''list'', runScheduleList)]"

definition runWorkflow :: command where
  "runWorkflow = dispatch ''workflow'' ''list|start|replay''
     [(''replay'', runWorkflowReplay), (''list'', runWorkflowList), (''start'', runWorkflowStart)]"

definition runSession :: command where
  "runSession = dispatch ''session'' ''create|list'' [(''create'', runSessionCreate), (''list'', runSessionList)]"

definition runPlaybook :: command where
  "runPlaybook = dispatch ''playbook'' ''list|get'' [(''list'', runPlaybookList), (''get'', runPlaybookGet)]"

definition runRunbook :: command where
  "runRunbook = dispatch ''runbook'' ''list|get'' [(''list'', runRunbookList), (''get'', runRunbookGet)]"

definition runAudit :: command where
  "runAudit = dispatch ''audit'' ''list'' [(''list'', runAuditList)]"

definition commands :: "(string \<times> command) list" where
  "commands = [(''plan'', runPlanCmd), (''exec'', runExec), (''context'', runContext), (''policy'', runPolicy),
     (''schedule'', runScheduleCmd), (''workflow'', runWorkflow), (''session'', runSession), (''playbook'', runPlaybook),
     (''runbook'', runRunbook), (''audit'', runAudit)]"

definition usageText :: string where
  "usageText =
     println ''Usage: assistantctl <command> <subcommand> [flags]'' @ println [] @
     println ''Commands: plan, exec, context, policy, llm, schedule, workflow, session, playbook, runbook, audit'' @
     println ''Global flags: --help, --version''"

text \<open>\<open>run\<close>; the \<open>llm\<close> commands work on files and are an argument here.\<close>

definition ctlRun :: "command \<Rightarrow> command" where
  "ctlRun runLLM env args =
    (case args of
       [] \<Rightarrow> noCall (Inl ''command required'')
     | a # rest \<Rightarrow>
        if a \<in> set helpArgs then noCall (Inr usageText)
        else if a = ''--version'' \<or> a = ''version'' then
          noCall (Inr (println (clVersion env @ (if TrimSpace (clCommit env) \<noteq> [] then '' ('' @ clCommit env @ '')'' else []))))
        else if a = ''llm'' then runLLM env rest
        else (case map_of commands a of
                Some f \<Rightarrow> f env rest
              | None \<Rightarrow> noCall (Inl (''unknown command: '' @ a))))"

section \<open>What is sent\<close>

lemma bindCall_noCall [simp]: "bindCall (noCall r) f = (case r of Inl e \<Rightarrow> (Inl e, []) | Inr x \<Rightarrow> f x)"
  by (auto simp: bindCall_def noCall_def split: sum.splits prod.splits)

lemma bindCall_sent: "q \<in> set (snd (bindCall c f)) \<Longrightarrow> q \<in> set (snd c) \<or> (\<exists>x. q \<in> set (snd (f x)))"
  by (auto simp: bindCall_def split: prod.splits sum.splits) (metis snd_conv)

lemma noCall_sent [simp]: "snd (noCall r) = []"
  by (simp add: noCall_def)

lemma ctlRequest_sent:
  "q \<in> set (snd (ctlRequestWithTenant env c method path req tenant)) \<Longrightarrow>
   fst q = method \<and>
   (gcToken c \<noteq> [] \<longrightarrow> (''Authorization'', ''Bearer '' @ gcToken c) \<in> set (fst (snd (snd q)))) \<and>
   (TrimSpace tenant = [] \<longrightarrow> ''X-Tenant-Id'' \<notin> fst ` set (fst (snd (snd q))))"
  by (auto simp: ctlRequestWithTenant_def Let_def split: sum.splits prod.splits option.splits if_splits)

text \<open>At most one request.\<close>

definition sendsOne :: "'a call \<Rightarrow> bool" where
  "sendsOne c \<longleftrightarrow> length (snd c) \<le> 1"

named_theorems calls

lemma sendsOne_noCall [calls]: "sendsOne (noCall r)"
  by (simp add: sendsOne_def)

lemma sendsOne_request [calls]: "sendsOne (ctlRequestWithTenant env c method path req tenant)"
  by (auto simp: sendsOne_def ctlRequestWithTenant_def Let_def split: sum.splits prod.splits)

lemma sendsOne_pure [calls]: "(\<And>x. sendsOne (f x)) \<Longrightarrow> sendsOne (bindCall (noCall r) f)"
  by (auto simp: sendsOne_def split: sum.splits)

lemma sendsOne_last: "sendsOne c \<Longrightarrow> sendsOne (bindCall c (\<lambda>x. noCall (f x)))"
  by (auto simp: sendsOne_def bindCall_def noCall_def split: prod.splits sum.splits)

lemma sendsOne_client [calls]:
  "sendsOne (ctlRequest env c m p req)" "sendsOne (ctlJSON env c m p doc decode)" "sendsOne (ctlCreatePlan env c plan)"
  "sendsOne (ctlCreateApproval env c i st nt)" "sendsOne (ctlExecLogs env c i tc lv)" "sendsOne (ctlRefreshContext env c s)"
  "sendsOne (ctlCreateSchedule env c sched)" "sendsOne (ctlExecutePlan env c i tok)"
  "sendsOne (ctlStartWorkflow env c n ctx inp con)" "sendsOne (ctlCreateSession env c sess)"
  unfolding ctlRequest_def ctlJSON_def ctlCreatePlan_def ctlCreateApproval_def ctlExecLogs_def ctlRefreshContext_def
    ctlCreateSchedule_def ctlExecutePlan_def ctlStartWorkflow_def ctlCreateSession_def Let_def
  by (intro sendsOne_last sendsOne_request)+

lemma sendsOne_flags [calls]: "(\<And>v. sendsOne (body v)) \<Longrightarrow> sendsOne (withFlags spec body env args)"
  unfolding withFlags_def by (intro calls) (auto split: prod.splits)

lemma sendsOne_require [calls]: "(\<And>x. sendsOne (f x)) \<Longrightarrow> sendsOne (bindCall (requireFlag v n) f)"
  unfolding requireFlag_def by (intro calls)

lemma sendsOne_clientOf [calls]: "(\<And>x. sendsOne (f x)) \<Longrightarrow> sendsOne (bindCall (clientOf v) f)"
  unfolding clientOf_def by (intro calls)

lemma sendsOne_commands:
  "sendsOne (runPlanCreate env args)" "sendsOne (runPlanApprove env args)" "sendsOne (runPlanGet env args)"
  "sendsOne (runPlanExecute env args)" "sendsOne (runExecLogs env args)" "sendsOne (runContextRefresh env args)"
  "sendsOne (runContextSnapshot env args)" "sendsOne (runAuditList env args)" "sendsOne (runScheduleList env args)"
  "sendsOne (runSessionList env args)" "sendsOne (runPlaybookList env args)" "sendsOne (runRunbookList env args)"
  "sendsOne (runPlaybookGet env args)" "sendsOne (runRunbookGet env args)" "sendsOne (runScheduleCreate env args)"
  "sendsOne (runWorkflowReplay env args)" "sendsOne (runWorkflowList env args)" "sendsOne (runWorkflowStart env args)"
  "sendsOne (runSessionCreate env args)" "sendsOne (runPolicyTest env args)"
  unfolding runPlanCreate_def runPlanApprove_def runPlanGet_def runPlanExecute_def runExecLogs_def runContextRefresh_def
    runContextSnapshot_def runAuditList_def runScheduleList_def runSessionList_def runPlaybookList_def runRunbookList_def
    runPlaybookGet_def runRunbookGet_def runScheduleCreate_def runWorkflowReplay_def runWorkflowList_def runWorkflowStart_def
    runSessionCreate_def runPolicyTest_def tenantList_def plainList_def itemGet_def Let_def
  by (intro calls sendsOne_last)+

lemma sendsOne_dispatch:
  assumes "\<And>k f. map_of table k = Some f \<Longrightarrow> sendsOne (f env (tl args))"
  shows "sendsOne (dispatch name usage table env args)"
proof (cases args)
  case (Cons a rest)
  then show ?thesis
    using assms by (cases "map_of table a") (simp_all add: dispatch_def sendsOne_noCall)
qed (simp add: dispatch_def sendsOne_noCall)

lemma sendsOne_groups:
  "sendsOne (runPlanCmd env args)" "sendsOne (runExec env args)" "sendsOne (runContext env args)" "sendsOne (runPolicy env args)"
  "sendsOne (runScheduleCmd env args)" "sendsOne (runWorkflow env args)" "sendsOne (runSession env args)"
  "sendsOne (runPlaybook env args)" "sendsOne (runRunbook env args)" "sendsOne (runAudit env args)"
  unfolding runPlanCmd_def runExec_def runContext_def runPolicy_def runScheduleCmd_def runWorkflow_def runSession_def
    runPlaybook_def runRunbook_def runAudit_def
  by (rule sendsOne_dispatch, auto simp: sendsOne_commands split: if_splits)+

lemma sendsOne_command: "map_of commands a = Some f \<Longrightarrow> sendsOne (f env args)"
  by (auto simp: commands_def sendsOne_groups split: if_splits)

lemma sendsOne_run: "(\<And>a. sendsOne (runLLM env a)) \<Longrightarrow> sendsOne (ctlRun runLLM env args)"
  by (auto simp: ctlRun_def sendsOne_noCall sendsOne_command split: list.splits option.splits)

text \<open>The commands for playbooks and runbooks send no tenant, which the gateway requires.\<close>

definition libraryCommand :: "command \<Rightarrow> bool" where
  "libraryCommand f \<longleftrightarrow> f \<in> {runPlaybookList, runPlaybookGet, runRunbookList, runRunbookGet}"

lemma library_sent:
  assumes "libraryCommand f" "q \<in> set (snd (f env args))"
  shows "fst q = ''GET'' \<and> ''X-Tenant-Id'' \<notin> fst ` set (fst (snd (snd q)))"
proof -
  obtain c path where "q \<in> set (snd (ctlRequestWithTenant env c ''GET'' path None []))"
    using assms
    by (auto simp: libraryCommand_def runPlaybookList_def runPlaybookGet_def runRunbookList_def runRunbookGet_def plainList_def
        itemGet_def withFlags_def requireFlag_def clientOf_def ctlRequest_def
        split: sum.splits if_splits prod.splits)
  then show ?thesis using ctlRequest_sent by fastforce
qed

lemma no_tenant_refused:
  assumes "rqMethod r = ''GET''" "''X-Tenant-Id'' \<notin> fst ` set (rqHeaders r)"
  shows "fst (handlePlaybooks s r g) = Inl (httpError ''tenant_id required'' 400)"
    and "fst (handlePlaybookByID s r g) = Inl (httpError ''tenant_id required'' 400)"
    and "fst (handleRunbooks s ws r g) = Inl (httpError ''tenant_id required'' 400)"
    and "fst (handleRunbookByID s r g) = Inl (httpError ''tenant_id required'' 400)"
proof -
  have "map_of (rqHeaders r) ''X-Tenant-Id'' = None" using assms(2) by (simp add: map_of_eq_None_iff)
  then have "headerTenantH r g = (Inl (httpError ''tenant_id required'' 400), g)"
    by (simp add: headerTenantH_def getOr_def stopH_def)
  then show "fst (handlePlaybooks s r g) = Inl (httpError ''tenant_id required'' 400)"
    "fst (handlePlaybookByID s r g) = Inl (httpError ''tenant_id required'' 400)"
    "fst (handleRunbooks s ws r g) = Inl (httpError ''tenant_id required'' 400)"
    "fst (handleRunbookByID s r g) = Inl (httpError ''tenant_id required'' 400)"
    using assms(1)
    by (simp_all add: handlePlaybooks_def handlePlaybooksGet_def handlePlaybookByID_def handleRunbooks_def handleRunbooksGet_def
        handleRunbookByID_def bindH_def Let_def)
qed

end
