(* ===== verification/Llm_Prompt.thy ===== *)
theory Llm_Prompt
  imports Go_Regexp Go_Effects
begin

text \<open>
  What the gateway sends to a language model: \<open>SanitizePromptInput\<close> (\<open>internal/llm/router.go\<close>) and
  \<open>buildPrompt\<close> (\<open>internal/llm/plan.go\<close>). \<open>strings.Map\<close> goes over the runes of a UTF-8 string and
  writes U+FFFD for a byte that is not part of one, so the patterns see valid UTF-8.
\<close>

section \<open>Runes\<close>

definition byteIn :: "nat \<Rightarrow> nat \<Rightarrow> char \<Rightarrow> bool" where
  "byteIn lo hi c \<longleftrightarrow> lo \<le> of_char c \<and> of_char c \<le> hi"

abbreviation contByte :: "char \<Rightarrow> bool" where
  "contByte \<equiv> byteIn 0x80 0xBF"

text \<open>The width of the rune at the start, 0 where the bytes are no UTF-8.\<close>

definition runeWidth :: "string \<Rightarrow> nat" where
  "runeWidth s =
    (case s of
       [] \<Rightarrow> 0
     | c # cs \<Rightarrow>
        if byteIn 0 0x7F c then 1
        else if byteIn 0xC2 0xDF c \<and> 1 \<le> length cs \<and> contByte (cs ! 0) then 2
        else if 2 \<le> length cs \<and> contByte (cs ! 1) \<and>
          (byteIn 0xE0 0xE0 c \<and> byteIn 0xA0 0xBF (cs ! 0) \<or> byteIn 0xE1 0xEC c \<and> contByte (cs ! 0) \<or>
           byteIn 0xED 0xED c \<and> byteIn 0x80 0x9F (cs ! 0) \<or> byteIn 0xEE 0xEF c \<and> contByte (cs ! 0)) then 3
        else if 3 \<le> length cs \<and> contByte (cs ! 1) \<and> contByte (cs ! 2) \<and>
          (byteIn 0xF0 0xF0 c \<and> byteIn 0x90 0xBF (cs ! 0) \<or> byteIn 0xF1 0xF3 c \<and> contByte (cs ! 0) \<or>
           byteIn 0xF4 0xF4 c \<and> byteIn 0x80 0x8F (cs ! 0)) then 4
        else 0)"

definition runeError :: string where
  "runeError = [CHR 0xEF, CHR 0xBF, CHR 0xBD]"

function mapRunes :: "(string \<Rightarrow> string) \<Rightarrow> string \<Rightarrow> string" where
  "mapRunes f [] = []"
| "mapRunes f (c # cs) =
    (let w = runeWidth (c # cs) in
     if w = 0 then f runeError @ mapRunes f cs
     else f (take w (c # cs)) @ mapRunes f (drop (w - 1) cs))"
  by pat_completeness auto
termination by (relation "measure (\<lambda>(_, s). length s)") auto

text \<open>\<open>unicode.IsControl\<close>: the C0 and C1 control characters and DEL.\<close>

definition IsControl :: "string \<Rightarrow> bool" where
  "IsControl r \<longleftrightarrow>
    (case r of
       [c] \<Rightarrow> byteIn 0 0x1F c \<or> byteIn 0x7F 0x7F c
     | [c, d] \<Rightarrow> byteIn 0xC2 0xC2 c \<and> byteIn 0x80 0x9F d
     | _ \<Rightarrow> False)"

definition keepRune :: "string \<Rightarrow> string" where
  "keepRune r =
    (if r \<in> {[CHR 0x0A], [CHR 0x09], [CHR 0x0D]} then r else if IsControl r then [] else r)"

section \<open>Injection patterns\<close>

definition allSpace :: regex where
  "allSpace = Opt (seqs (lit ''all'' @ [Plus spaceClass]))"

definition injectionPatterns :: "regex list" where
  "injectionPatterns =
    map seqs
     [lit ''ignore'' @ [Plus spaceClass, allSpace] @ lit ''previous'' @ [Plus spaceClass] @ lit ''instructions'',
      lit ''ignore'' @ [Plus spaceClass, allSpace] @ lit ''above'' @ [Plus spaceClass] @ lit ''instructions'',
      lit ''disregard'' @ [Plus spaceClass, allSpace] @ lit ''previous'',
      lit ''forget'' @ [Plus spaceClass, allSpace] @ lit ''previous'',
      lit ''you'' @ [Plus spaceClass] @ lit ''are'' @ [Plus spaceClass] @ lit ''now'' @ [Plus spaceClass] @ lit ''a'',
      lit ''new'' @ [Plus spaceClass] @ lit ''instruction'' @ [Opt (Sym (foldClass CHR ''s'')), Many spaceClass] @ lit '':'',
      lit ''system'' @ [Many spaceClass] @ lit '':'' @ [Many spaceClass] @ lit ''you'',
      lit ''<<'' @ [Many spaceClass] @ lit ''sys'' @ [Many spaceClass] @ lit ''>>'',
      lit ''[inst]'', lit ''[/inst]'', lit ''<|im_start|>'', lit ''<|im_end|>'']"

definition filteredMark :: string where
  "filteredMark = ''[FILTERED]''"

definition SanitizePromptInput :: "string \<Rightarrow> string" where
  "SanitizePromptInput input = replaceEach injectionPatterns filteredMark (mapRunes keepRune input)"

definition newline :: string where
  "newline = [CHR 0x0A]"

text \<open>\<open>json.Marshal\<close> is the parameter \<open>marshal\<close>.\<close>

definition buildPrompt :: "(gval \<Rightarrow> string result) \<Rightarrow> string \<Rightarrow> gval \<Rightarrow> gval \<Rightarrow> string result" where
  "buildPrompt marshal intent context evidence =
     bindR (marshal context) (\<lambda>ctxJSON.
     bindR (marshal evidence) (\<lambda>evJSON.
     Inr (''Intent:'' @ newline @ SanitizePromptInput intent @ newline @
          ''Context:'' @ newline @ SanitizePromptInput ctxJSON @ newline @
          ''Evidence:'' @ newline @ SanitizePromptInput evJSON @ newline @
          ''Return JSON only with shape:'' @ newline @
          ''{\"summary\":string,\"risk_level\":\"low|medium|high\",\"steps\":[{\"action\":string,\"tool\":string,\"input\":object,\"preconditions\":array,\"rollback\":object}]}'')))"

section \<open>Nothing suspicious is left\<close>

lemma patterns_apart: "list_all (\<lambda>p. startsApart filteredMark p \<and> regexOk p) injectionPatterns"
  by code_simp

lemma sanitized_no_pattern:
  assumes "p \<in> set injectionPatterns"
  shows "\<not> occurs p (SanitizePromptInput input)"
  unfolding SanitizePromptInput_def
proof (rule replaceEach_clears [OF _ assms])
  fix q assume "q \<in> set injectionPatterns"
  then have "startsApart filteredMark q" "regexOk q" using patterns_apart by (auto simp: list_all_iff)
  moreover have "filteredMark \<noteq> []" by (simp add: filteredMark_def)
  ultimately show "apart filteredMark q \<and> regexOk q \<and> [] \<notin> lang q" using startsApart_apart by blast
qed

definition printable :: "char \<Rightarrow> bool" where
  "printable c \<longleftrightarrow> 32 \<le> (of_char c :: nat) \<and> of_char c \<noteq> (127 :: nat) \<or> c \<in> {CHR 0x09, CHR 0x0A, CHR 0x0D}"

lemma high_printable: "byteIn lo hi c \<Longrightarrow> 128 \<le> lo \<Longrightarrow> printable c"
  by (auto simp: byteIn_def printable_def)

lemma runeWidth_ascii: "byteIn 0 0x7F c \<Longrightarrow> runeWidth (c # cs) = 1"
  by (simp add: runeWidth_def)

lemma runeWidth_bound: "runeWidth (c # cs) \<le> Suc (length cs)"
  by (simp add: runeWidth_def)

lemma runeWidth_cont:
  assumes "Suc i < runeWidth (c # cs)"
  shows "128 \<le> (of_char (cs ! i) :: nat)"
proof -
  have "i < 3" using assms by (auto simp: runeWidth_def split: if_splits)
  then consider "i = 0" | "i = 1" | "i = 2" by linarith
  then show ?thesis using assms by cases (auto simp: runeWidth_def byteIn_def split: if_splits)
qed

lemma runeWidth_wide:
  assumes "\<not> byteIn 0 0x7F c"
  shows "\<forall>d \<in> set (take (runeWidth (c # cs)) (c # cs)). printable d"
proof -
  have "printable ((c # cs) ! j)" if "j < runeWidth (c # cs)" for j
  proof (cases j)
    case 0
    with assms show ?thesis by (auto simp: byteIn_def printable_def)
  next
    case (Suc i)
    with that runeWidth_cont [of i c cs] have "128 \<le> (of_char (cs ! i) :: nat)" by simp
    with Suc show ?thesis by (simp add: printable_def)
  qed
  then show ?thesis using runeWidth_bound [of c cs] by (auto simp: in_set_conv_nth)
qed

lemma keepRune_ascii: "\<forall>d \<in> set (keepRune [c]). printable d"
  by (auto simp: keepRune_def IsControl_def printable_def byteIn_def)

lemma mapRunes_printable: "\<forall>d \<in> set (mapRunes keepRune s). printable d"
proof (induction "keepRune" s rule: mapRunes.induct)
  case (2 c cs)
  let ?w = "runeWidth (c # cs)"
  have err: "\<forall>d \<in> set (keepRune runeError). printable d"
    by (simp add: keepRune_def IsControl_def runeError_def printable_def)
  show ?case
  proof (cases "byteIn 0 0x7F c")
    case True
    with 2(2) [of 1] keepRune_ascii [of c] show ?thesis by (auto simp: runeWidth_ascii)
  next
    case False
    have "set (keepRune (take ?w (c # cs))) \<subseteq> set (take ?w (c # cs))" by (auto simp: keepRune_def)
    with runeWidth_wide [OF False, of cs] have "\<forall>d \<in> set (keepRune (take ?w (c # cs))). printable d" by blast
    with err 2 show ?thesis by (auto simp: Let_def split: if_splits)
  qed
qed simp

lemma sanitized_printable: "\<forall>d \<in> set (SanitizePromptInput s). printable d"
proof -
  have "\<forall>d \<in> set filteredMark. printable d" by (simp add: filteredMark_def printable_def)
  with mapRunes_printable [of s] replaceEach_chars [of injectionPatterns filteredMark "mapRunes keepRune s"]
  show ?thesis unfolding SanitizePromptInput_def by blast
qed

text \<open>Ordinary text passes unchanged: printable ASCII in which no pattern occurs.\<close>

lemma mapRunes_ascii: "\<forall>c \<in> set s. byteIn 0 0x7F c \<and> printable c \<Longrightarrow> mapRunes keepRune s = s"
  by (induction s) (auto simp: runeWidth_ascii keepRune_def IsControl_def printable_def byteIn_def)

lemma sanitize_id:
  assumes "\<forall>c \<in> set s. byteIn 0 0x7F c \<and> printable c" "\<forall>p \<in> set injectionPatterns. \<not> occurs p s"
  shows "SanitizePromptInput s = s"
  using assms by (simp add: SanitizePromptInput_def mapRunes_ascii replaceEach_id)

end
