(* ===== verification/Llm.thy ===== *)
theory Llm
  imports Llm_Prompt Jwks_Cache Library_Store Go_Path
begin

text \<open>
  \<open>internal/llm\<close>: the clients of the language models (\<open>openai.go\<close>, \<open>anthropic.go\<close>, \<open>codex.go\<close>), their
  choice in \<open>Plan\<close> (\<open>plan.go\<close>), the stored access profiles (\<open>auth.go\<close>, \<open>codex_auth.go\<close>) and their import
  from other programs (\<open>openclaw_auth.go\<close>). The environment variables, the files, JSON, the clock,
  RFC 3339 times, the expansion of a glob and the HTTP round trip are the fields of \<open>LlmEnv\<close>.
  A time is in nanoseconds since 1970, the zero time is \<open>None\<close>.
\<close>

record LlmEnv =
  leGetenv :: "string \<Rightarrow> string"
  leHome :: "string result"
  leUnmarshal :: "string \<Rightarrow> gval option"
  leMarshal :: "gval \<Rightarrow> string result"
  lePost :: "string \<Rightarrow> (string \<times> string) list \<Rightarrow> string \<Rightarrow> (int \<times> string) result"
  leNow :: int
  leParseTime :: "string \<Rightarrow> int option result"
  leShowTime :: "int option \<Rightarrow> string"
  leReplace :: "string \<Rightarrow> string \<Rightarrow> string \<Rightarrow> string option"
  leReadFault :: "string \<Rightarrow> string option"
  leWriteFault :: "string \<Rightarrow> string option"
  leGlob :: "string \<Rightarrow> string list"
  leModTime :: "string \<Rightarrow> int option"

type_synonym files = "string \<Rightarrow> string option"

definition codexProvider :: string where
  "codexProvider = ''openai-codex''"

section \<open>Paths\<close>

definition DefaultStateDir :: "LlmEnv \<Rightarrow> string result" where
  "DefaultStateDir env =
    (let dir = TrimSpace (leGetenv env ''CARAPULSE_STATE_DIR'') in
     if dir \<noteq> [] then Inr dir
     else bindR (leHome env) (\<lambda>home. Inr (pathJoin [home, ''.carapulse''])))"

definition DefaultAuthPath :: "LlmEnv \<Rightarrow> string result" where
  "DefaultAuthPath env = bindR (DefaultStateDir env) (\<lambda>dir. Inr (pathJoin [dir, ''auth-profiles.json'']))"

definition DefaultCodexAuthPath :: "LlmEnv \<Rightarrow> string result" where
  "DefaultCodexAuthPath env =
    (let dir = TrimSpace (leGetenv env ''CODEX_HOME'') in
     if dir \<noteq> [] then Inr (pathJoin [dir, ''auth.json''])
     else bindR (leHome env) (\<lambda>home. Inr (pathJoin [home, ''.codex'', ''auth.json''])))"

section \<open>Profiles\<close>

record AuthProfile =
  ApID :: string
  ApProvider :: string
  ApAccount :: string
  ApAccess :: string
  ApRefresh :: string
  ApExpires :: "int option"
  ApSource :: string

record AuthProfiles =
  ApDefaults :: "(string \<times> string) list"
  ApProfiles :: "AuthProfile list"

definition decodeTimeField :: "LlmEnv \<Rightarrow> gval option \<Rightarrow> int option result" where
  "decodeTimeField env v =
    (case v of
       None \<Rightarrow> Inr None
     | Some GNil \<Rightarrow> Inr None
     | Some (GStr t) \<Rightarrow> leParseTime env t
     | Some _ \<Rightarrow> Inl ''json: cannot unmarshal'')"

definition decodeProfile :: "LlmEnv \<Rightarrow> gval \<Rightarrow> AuthProfile result" where
  "decodeProfile env v =
     bindR (decodeObj v) (\<lambda>m.
     bindR (decodeStr (jsonField m ''id'')) (\<lambda>i.
     bindR (decodeStr (jsonField m ''provider'')) (\<lambda>p.
     bindR (decodeStr (jsonField m ''account_id'')) (\<lambda>a.
     bindR (decodeStr (jsonField m ''access_token'')) (\<lambda>t.
     bindR (decodeStr (jsonField m ''refresh_token'')) (\<lambda>r.
     bindR (decodeTimeField env (jsonField m ''expires_at'')) (\<lambda>e.
     bindR (decodeStr (jsonField m ''source'')) (\<lambda>src.
       Inr \<lparr>ApID = i, ApProvider = p, ApAccount = a, ApAccess = t, ApRefresh = r, ApExpires = e, ApSource = src\<rparr>))))))))"

definition decodeStrPairs :: "gval option \<Rightarrow> (string \<times> string) list result" where
  "decodeStrPairs v =
    (case v of
       None \<Rightarrow> Inr []
     | Some GNil \<Rightarrow> Inr []
     | Some (GMap m) \<Rightarrow> mapR (\<lambda>(k, x). bindR (decodeStr (Some x)) (\<lambda>s. Inr (k, s))) m
     | Some _ \<Rightarrow> Inl ''json: cannot unmarshal'')"

definition decodeProfiles :: "LlmEnv \<Rightarrow> gval \<Rightarrow> AuthProfiles result" where
  "decodeProfiles env v =
     bindR (decodeObj v) (\<lambda>m.
     bindR (decodeStrPairs (jsonField m ''defaults'')) (\<lambda>d.
     bindR (decodeSlice (decodeProfile env) (case jsonField m ''profiles'' of None \<Rightarrow> GNil | Some x \<Rightarrow> x)) (\<lambda>ps.
       Inr \<lparr>ApDefaults = d, ApProfiles = ps\<rparr>)))"

definition omitEmpty :: "string \<Rightarrow> string \<Rightarrow> gmap" where
  "omitEmpty k v = (if v = [] then [] else [(k, GStr v)])"

definition profileDoc :: "LlmEnv \<Rightarrow> AuthProfile \<Rightarrow> gval" where
  "profileDoc env p = GMap
     ([(''id'', GStr (ApID p)), (''provider'', GStr (ApProvider p))] @
      omitEmpty ''account_id'' (ApAccount p) @ omitEmpty ''access_token'' (ApAccess p) @
      omitEmpty ''refresh_token'' (ApRefresh p) @ [(''expires_at'', GStr (leShowTime env (ApExpires p)))] @
      omitEmpty ''source'' (ApSource p))"

definition profilesDoc :: "LlmEnv \<Rightarrow> AuthProfiles \<Rightarrow> gval" where
  "profilesDoc env ps = GMap
     ((if ApDefaults ps = [] then [] else [(''defaults'', GMap (map (\<lambda>(k, v). (k, GStr v)) (ApDefaults ps)))]) @
      [(''profiles'', GList (map (profileDoc env) (ApProfiles ps)))])"

definition pathOr :: "string result \<Rightarrow> string \<Rightarrow> string result" where
  "pathOr dflt path = (if TrimSpace path = [] then dflt else Inr path)"

text \<open>\<open>os.ReadFile\<close>: \<open>None\<close> is \<open>os.ErrNotExist\<close>.\<close>

definition readFile :: "LlmEnv \<Rightarrow> files \<Rightarrow> string \<Rightarrow> string option result" where
  "readFile env fs path = (case leReadFault env path of Some e \<Rightarrow> Inl e | None \<Rightarrow> Inr (fs path))"

definition existing :: "string option result \<Rightarrow> string result" where
  "existing r = bindR r (\<lambda>d. case d of None \<Rightarrow> Inl ''file does not exist'' | Some x \<Rightarrow> Inr x)"

definition LoadAuthProfiles :: "LlmEnv \<Rightarrow> files \<Rightarrow> string \<Rightarrow> AuthProfiles result" where
  "LoadAuthProfiles env fs path0 =
     bindR (pathOr (DefaultAuthPath env) path0) (\<lambda>path.
     bindR (readFile env fs path) (\<lambda>data.
     case data of
       None \<Rightarrow> Inr \<lparr>ApDefaults = [], ApProfiles = []\<rparr>
     | Some [] \<Rightarrow> Inr \<lparr>ApDefaults = [], ApProfiles = []\<rparr>
     | Some d \<Rightarrow> (case leUnmarshal env d of
                   None \<Rightarrow> Inl ''invalid json'' | Some doc \<Rightarrow> decodeProfiles env doc)))"

definition SaveAuthProfiles :: "LlmEnv \<Rightarrow> string \<Rightarrow> AuthProfiles \<Rightarrow> (files, unit) op" where
  "SaveAuthProfiles env path0 profiles fs =
    (case bindR (pathOr (DefaultAuthPath env) path0) (\<lambda>path.
          bindR (leMarshal env (profilesDoc env profiles)) (\<lambda>data. Inr (path, data))) of
       Inl e \<Rightarrow> (Inl e, fs)
     | Inr (path, data) \<Rightarrow>
        (case leWriteFault env path of Some e \<Rightarrow> (Inl e, fs) | None \<Rightarrow> (Inr (), fs(path \<mapsto> data))))"

fun upsertIn :: "AuthProfile \<Rightarrow> AuthProfile list \<Rightarrow> AuthProfile list" where
  "upsertIn p [] = [p]"
| "upsertIn p (q # qs) = (if ApID q = ApID p then p # qs else q # upsertIn p qs)"

definition UpsertProfile :: "AuthProfiles \<Rightarrow> AuthProfile \<Rightarrow> AuthProfiles result" where
  "UpsertProfile profiles profile =
    (if TrimSpace (ApID profile) = [] then Inl ''profile id required''
     else Inr (profiles\<lparr>ApProfiles := upsertIn profile (ApProfiles profiles)\<rparr>))"

definition defaultFor :: "AuthProfiles \<Rightarrow> string \<Rightarrow> AuthProfile option" where
  "defaultFor profiles provider =
    (case map_of (ApDefaults profiles) provider of
       None \<Rightarrow> None
     | Some i \<Rightarrow> if i = [] then None else find (\<lambda>p. ApID p = i) (ApProfiles profiles))"

definition SelectProfile :: "AuthProfiles \<Rightarrow> string \<Rightarrow> string \<Rightarrow> AuthProfile option" where
  "SelectProfile profiles provider preferredID =
    (if preferredID \<noteq> [] then find (\<lambda>p. ApID p = preferredID) (ApProfiles profiles)
     else case defaultFor profiles provider of
       Some p \<Rightarrow> Some p
     | None \<Rightarrow> find (\<lambda>p. ApProvider p = provider) (ApProfiles profiles))"

definition Expired :: "AuthProfile \<Rightarrow> int \<Rightarrow> bool" where
  "Expired p now = (case ApExpires p of None \<Rightarrow> False | Some e \<Rightarrow> e < now)"

definition LoadAuthProfile :: "LlmEnv \<Rightarrow> files \<Rightarrow> string \<Rightarrow> string \<Rightarrow> string \<Rightarrow> AuthProfile result" where
  "LoadAuthProfile env fs path provider preferredID =
     bindR (LoadAuthProfiles env fs path) (\<lambda>profiles.
     case SelectProfile profiles provider preferredID of
       None \<Rightarrow> Inl ''auth profile not found'' | Some p \<Rightarrow> Inr p)"

section \<open>Imported profiles\<close>

definition stringFromAny :: "gval \<Rightarrow> string" where
  "stringFromAny v = TrimSpace (strOf v)"

text \<open>\<open>time.Unix(n, 0)\<close>: the zero time is the first second of year 1.\<close>

definition timeUnix :: "int \<Rightarrow> int option" where
  "timeUnix n = (if n = - 62135596800 then None else Some (n * second))"

definition parseTimeAny :: "LlmEnv \<Rightarrow> gval \<Rightarrow> int option option" where
  "parseTimeAny env v =
    (case v of
       GStr s \<Rightarrow>
        (if s = [] then None
         else case leParseTime env s of
           Inr t \<Rightarrow> Some t
         | Inl _ \<Rightarrow> map_option timeUnix (Atoi s))
     | GFloat r \<Rightarrow> Some (timeUnix (intOfFloat r))
     | GInt64 n \<Rightarrow> Some (timeUnix n)
     | GInt n \<Rightarrow> Some (timeUnix n)
     | _ \<Rightarrow> None)"

definition parseIntAny :: "gval \<Rightarrow> int option" where
  "parseIntAny v =
    (case v of
       GFloat r \<Rightarrow> Some (intOfFloat r)
     | GInt n \<Rightarrow> Some n
     | GInt64 n \<Rightarrow> Some n
     | GStr s \<Rightarrow> if s = [] then None else Atoi s
     | _ \<Rightarrow> None)"

text \<open>\<open>base.Add(time.Duration(seconds) * time.Second)\<close>, the product in \<open>int64\<close>.\<close>

definition afterSeconds :: "int \<Rightarrow> int \<Rightarrow> int option" where
  "afterSeconds base seconds = Some (base + int64 (seconds * second))"

fun firstTime :: "LlmEnv \<Rightarrow> gmap \<Rightarrow> string list \<Rightarrow> int option option" where
  "firstTime env raw [] = None"
| "firstTime env raw (k # ks) =
    (case map_of raw k of
       None \<Rightarrow> firstTime env raw ks
     | Some v \<Rightarrow> (case parseTimeAny env v of None \<Rightarrow> firstTime env raw ks | Some t \<Rightarrow> Some t))"

definition expiresIn :: "gmap \<Rightarrow> int \<Rightarrow> int option" where
  "expiresIn raw base =
    (case map_of raw ''expires_in'' of
       None \<Rightarrow> None
     | Some v \<Rightarrow> (case parseIntAny v of
                   None \<Rightarrow> None | Some seconds \<Rightarrow> if seconds > 0 then afterSeconds base seconds else None))"

definition parseExpires :: "LlmEnv \<Rightarrow> gmap \<Rightarrow> int \<Rightarrow> int option" where
  "parseExpires env raw base =
    (case firstTime env raw [''expires_at''] of Some t \<Rightarrow> t | None \<Rightarrow> expiresIn raw base)"

definition extractAccountID :: "LlmEnv \<Rightarrow> string \<Rightarrow> string" where
  "extractAccountID env token =
    (case splitChar CHR ''.'' token of
       _ # part # _ \<Rightarrow>
        (case DecodeString part of
           Inl _ \<Rightarrow> []
         | Inr payload \<Rightarrow>
            (case leUnmarshal env payload of
               None \<Rightarrow> []
             | Some doc \<Rightarrow>
                (case decodeObj doc of
                   Inl _ \<Rightarrow> []
                 | Inr data \<Rightarrow>
                    if stringFromAny (gget data ''account_id'') \<noteq> [] then stringFromAny (gget data ''account_id'')
                    else if stringFromAny (gget data ''accountId'') \<noteq> [] then stringFromAny (gget data ''accountId'')
                    else stringFromAny (gget data ''sub''))))
     | _ \<Rightarrow> [])"

definition ImportCodexAuth :: "LlmEnv \<Rightarrow> files \<Rightarrow> string \<Rightarrow> AuthProfile result" where
  "ImportCodexAuth env fs path0 =
     bindR (pathOr (DefaultCodexAuthPath env) path0) (\<lambda>path.
     bindR (existing (readFile env fs path)) (\<lambda>data.
     bindR (case leUnmarshal env data of None \<Rightarrow> Inl ''invalid json'' | Some doc \<Rightarrow> decodeObj doc) (\<lambda>raw.
     let access = stringFromAny (gget raw ''access_token'') in
     if access = [] then Inl ''codex access token missing''
     else
       (let account0 = stringFromAny (gget raw ''account_id'');
            account = (if account0 = [] then extractAccountID env access else account0) in
        Inr \<lparr>ApID = codexProvider @ (if account = [] then '':default'' else '':'' @ account), ApProvider = codexProvider,
             ApAccount = account, ApAccess = access, ApRefresh = stringFromAny (gget raw ''refresh_token''),
             ApExpires = parseExpires env raw (leNow env), ApSource = ''codex-auth''\<rparr>))))"

text \<open>The first of several fields that is not blank.\<close>

fun firstField :: "gmap \<Rightarrow> string list \<Rightarrow> string" where
  "firstField raw [] = []"
| "firstField raw (k # ks) =
    (if stringFromAny (gget raw k) \<noteq> [] then stringFromAny (gget raw k) else firstField raw ks)"

definition parseOpenClawExpires :: "LlmEnv \<Rightarrow> gmap \<Rightarrow> int option" where
  "parseOpenClawExpires env raw =
    (case firstTime env raw [''expires'', ''expires_at'', ''expiresAt''] of
       Some t \<Rightarrow> t | None \<Rightarrow> expiresIn raw (leNow env))"

definition decodeOpenClawProfile :: "LlmEnv \<Rightarrow> string \<Rightarrow> gmap \<Rightarrow> AuthProfile" where
  "decodeOpenClawProfile env id0 raw =
    (let provider = stringFromAny (gget raw ''provider'');
         access = firstField raw [''access'', ''access_token'', ''accessToken'', ''key''];
         refresh = firstField raw [''refresh'', ''refresh_token'', ''refreshToken''];
         account0 = firstField raw [''account_id'', ''accountId'', ''email''];
         id1 = (if id0 = [] then stringFromAny (gget raw ''id'') else id0);
         account = (if id1 = [] \<and> account0 = [] then extractAccountID env access else account0);
         id2 = (if id1 \<noteq> [] then id1
                else if account \<noteq> [] \<and> provider \<noteq> [] then provider @ '':'' @ account
                else if provider \<noteq> [] then provider @ '':default'' else []) in
     \<lparr>ApID = id2, ApProvider = provider, ApAccount = account, ApAccess = access, ApRefresh = refresh,
      ApExpires = parseOpenClawExpires env raw, ApSource = ''openclaw-auth''\<rparr>)"

definition openClawProfilesFromSlice :: "LlmEnv \<Rightarrow> gval list \<Rightarrow> AuthProfile list" where
  "openClawProfilesFromSlice env items =
     List.map_filter (\<lambda>v. case v of GMap m \<Rightarrow> Some (decodeOpenClawProfile env [] m) | _ \<Rightarrow> None) items"

lemma map_of_size: "map_of m k = Some v \<Longrightarrow> size v < size (GMap m)"
  by (induction m) (auto split: if_splits)

text \<open>A map is visited in the order \<open>m\<close> is given in.\<close>

function (sequential) openClawProfilesFromAny :: "LlmEnv \<Rightarrow> gval \<Rightarrow> AuthProfile list" where
  "openClawProfilesFromAny env (GList vs) = openClawProfilesFromSlice env vs"
| "openClawProfilesFromAny env (GMap m) =
    (case map_of m ''profiles'' of
       Some nested \<Rightarrow> openClawProfilesFromAny env nested
     | None \<Rightarrow>
        (case map_of m ''authProfiles'' of
           Some nested \<Rightarrow> openClawProfilesFromAny env nested
         | None \<Rightarrow>
            if stringFromAny (gget m ''provider'') \<noteq> [] then [decodeOpenClawProfile env [] m]
            else List.map_filter
              (\<lambda>(k, v). case v of GMap obj \<Rightarrow> Some (decodeOpenClawProfile env k obj) | _ \<Rightarrow> None) m))"
| "openClawProfilesFromAny env _ = []"
  by pat_completeness auto

termination
  by (relation "measure (\<lambda>(_, v). size v)") (auto dest: map_of_size)

definition selectOpenClawProfile :: "AuthProfile list \<Rightarrow> string \<Rightarrow> string \<Rightarrow> AuthProfile option" where
  "selectOpenClawProfile profiles provider preferredID =
    (if preferredID \<noteq> [] then find (\<lambda>p. ApID p = preferredID) profiles
     else find (\<lambda>p. ApProvider p = provider) profiles)"

definition loadAuthProfileFromProfiles :: "LlmEnv \<Rightarrow> string \<Rightarrow> string \<Rightarrow> string \<Rightarrow> AuthProfile option" where
  "loadAuthProfileFromProfiles env data provider preferredID =
    (case leUnmarshal env data of
       None \<Rightarrow> None
     | Some doc \<Rightarrow>
        (case decodeProfiles env doc of
           Inl _ \<Rightarrow> None
         | Inr profiles \<Rightarrow>
            if ApProfiles profiles = [] then None
            else case SelectProfile profiles provider preferredID of
              None \<Rightarrow> None
            | Some p \<Rightarrow>
               if TrimSpace (ApAccess p) = [] \<and> TrimSpace (ApRefresh p) = [] \<and> ApExpires p = None then None else Some p))"

definition finalizeOpenClawProfile :: "LlmEnv \<Rightarrow> AuthProfile \<Rightarrow> AuthProfile result" where
  "finalizeOpenClawProfile env p =
    (if TrimSpace (ApAccess p) = [] then Inl ''openclaw access token required''
     else if Expired p (leNow env) then Inl ''openclaw access token expired''
     else Inr p)"

fun newestPath :: "LlmEnv \<Rightarrow> string \<Rightarrow> int \<Rightarrow> string list \<Rightarrow> string" where
  "newestPath env newest time [] = newest"
| "newestPath env newest time (p # ps) =
    (case leModTime env p of
       None \<Rightarrow> newestPath env newest time ps
     | Some t \<Rightarrow> if newest = [] \<or> time < t then newestPath env p t ps else newestPath env newest time ps)"

definition findOpenClawAuthPath :: "LlmEnv \<Rightarrow> string \<Rightarrow> string" where
  "findOpenClawAuthPath env base =
    (let newest = newestPath env [] 0 (leGlob env (pathJoin [base, ''agents'', ''*'', ''agent'', ''auth-profiles.json'']));
         legacy = pathJoin [base, ''agent'', ''auth-profiles.json''] in
     if newest \<noteq> [] then newest else if leModTime env legacy \<noteq> None then legacy else [])"

definition DefaultOpenClawAuthPath :: "LlmEnv \<Rightarrow> string result" where
  "DefaultOpenClawAuthPath env =
    (let agent = TrimSpace (leGetenv env ''OPENCLAW_AGENT_DIR''); state = TrimSpace (leGetenv env ''OPENCLAW_STATE_DIR'');
         found = (\<lambda>base. if findOpenClawAuthPath env base \<noteq> [] then findOpenClawAuthPath env base
                         else pathJoin [base, ''agent'', ''auth-profiles.json'']) in
     if agent \<noteq> [] then Inr (pathJoin [agent, ''auth-profiles.json''])
     else if state \<noteq> [] then Inr (found state)
     else bindR (leHome env) (\<lambda>home. Inr (found (pathJoin [home, ''.openclaw'']))))"

definition ImportOpenClawAuth :: "LlmEnv \<Rightarrow> files \<Rightarrow> string \<Rightarrow> string \<Rightarrow> string \<Rightarrow> AuthProfile result" where
  "ImportOpenClawAuth env fs path0 provider0 preferredID =
     bindR (pathOr (DefaultOpenClawAuthPath env) path0) (\<lambda>path.
     bindR (existing (readFile env fs path)) (\<lambda>data.
     let provider = (if provider0 = [] then codexProvider else provider0) in
     case loadAuthProfileFromProfiles env data provider preferredID of
       Some p \<Rightarrow> finalizeOpenClawProfile env p
     | None \<Rightarrow>
        (case leUnmarshal env data of
           None \<Rightarrow> Inl ''invalid json''
         | Some raw \<Rightarrow>
            (case selectOpenClawProfile (openClawProfilesFromAny env raw) provider preferredID of
               None \<Rightarrow> Inl ''openclaw auth profile not found''
             | Some p \<Rightarrow> finalizeOpenClawProfile env p))))"

end
