(* ===== verification/Llm_Client.thy ===== *)
theory Llm_Client
  imports Llm
begin

text \<open>
  The calls of the language models (\<open>internal/llm/openai.go\<close>, \<open>anthropic.go\<close>, \<open>codex.go\<close>), the choice of
  the provider in \<open>Plan\<close> (\<open>plan.go\<close>), the access token of Codex (\<open>codex_auth.go\<close>), and what the stored
  profiles promise.
\<close>

section \<open>Clients\<close>

definition TrimRightSlash :: "string \<Rightarrow> string" where
  "TrimRightSlash s = rev (dropWhile (\<lambda>c. c = CHR ''/'') (rev s))"

definition apiBase :: "string \<Rightarrow> string \<Rightarrow> string" where
  "apiBase dflt base = (let b = TrimRightSlash (TrimSpace base) in if b = [] then dflt else b)"

definition chatDoc :: "string \<Rightarrow> string \<Rightarrow> int \<Rightarrow> gval" where
  "chatDoc model prompt maxTokens = GMap
     [(''model'', GStr model),
      (''messages'', GList [GMap [(''role'', GStr ''user''), (''content'', GStr prompt)]]),
      (''max_tokens'', GInt maxTokens)]"

text \<open>A status outside 200 to 299 is an error with the first 4096 bytes of the body.\<close>

definition checkStatus :: "string \<Rightarrow> (int \<times> string) \<Rightarrow> string result" where
  "checkStatus name resp =
    (let (status, body) = resp in
     if status < 200 \<or> status \<ge> 300
     then Inl (name @ '' status '' @ showInt status @ '': '' @ TrimSpace (take 4096 body)) else Inr body)"

definition unmarshalBody :: "LlmEnv \<Rightarrow> string \<Rightarrow> gmap result" where
  "unmarshalBody env body =
    (case leUnmarshal env body of None \<Rightarrow> Inl ''invalid json'' | Some doc \<Rightarrow> decodeObj doc)"

definition choiceText :: "gval \<Rightarrow> string result" where
  "choiceText v =
     bindR (decodeObj v) (\<lambda>m.
     bindR (decodeObj (case jsonField m ''message'' of None \<Rightarrow> GNil | Some x \<Rightarrow> x)) (\<lambda>msg.
     decodeStr (jsonField msg ''content'')))"

definition chatAnswer :: "string \<Rightarrow> gmap \<Rightarrow> string result" where
  "chatAnswer name out =
     bindR (decodeSlice choiceText (case jsonField out ''choices'' of None \<Rightarrow> GNil | Some x \<Rightarrow> x)) (\<lambda>texts.
     case texts of
       [] \<Rightarrow> Inl (name @ '' empty response'')
     | t # _ \<Rightarrow> if TrimSpace t = [] then Inl (name @ '' empty response'') else Inr t)"

definition defaultOpenAIBase :: string where
  "defaultOpenAIBase = ''https://api.openai.com''"

definition chatHeaders :: "string \<Rightarrow> (string \<times> string) list" where
  "chatHeaders key = [(''Authorization'', ''Bearer '' @ key), (''Content-Type'', ''application/json'')]"

definition openAIComplete :: "LlmEnv \<Rightarrow> string \<Rightarrow> string \<Rightarrow> string \<Rightarrow> string \<Rightarrow> int \<Rightarrow> string result" where
  "openAIComplete env base key model prompt maxTokens =
    (if TrimSpace key = [] then Inl ''openai api key required''
     else if TrimSpace model = [] then Inl ''openai model required''
     else
       bindR (leMarshal env (chatDoc model prompt maxTokens)) (\<lambda>body.
       bindR (lePost env (apiBase defaultOpenAIBase base @ ''/v1/chat/completions'') (chatHeaders key) body) (\<lambda>resp.
       bindR (checkStatus ''openai'' resp) (\<lambda>answer.
       bindR (unmarshalBody env answer) (chatAnswer ''openai'')))))"

definition codexComplete :: "LlmEnv \<Rightarrow> string \<Rightarrow> string \<Rightarrow> string \<Rightarrow> string \<Rightarrow> int \<Rightarrow> string result" where
  "codexComplete env base token model prompt maxTokens =
    (if TrimSpace token = [] then Inl ''codex access token required''
     else if TrimSpace model = [] then Inl ''codex model required''
     else
       bindR (leMarshal env (chatDoc model prompt maxTokens)) (\<lambda>body.
       bindR (lePost env (apiBase defaultOpenAIBase base @ ''/v1/chat/completions'') (chatHeaders token) body) (\<lambda>resp.
       bindR (checkStatus ''codex'' resp) (\<lambda>answer.
       bindR (unmarshalBody env answer) (chatAnswer ''codex'')))))"

definition defaultAnthropicBase :: string where
  "defaultAnthropicBase = ''https://api.anthropic.com''"

definition anthropicDoc :: "string \<Rightarrow> string \<Rightarrow> int \<Rightarrow> gval" where
  "anthropicDoc model prompt maxTokens = GMap
     [(''model'', GStr model), (''max_tokens'', GInt maxTokens),
      (''messages'', GList [GMap [(''role'', GStr ''user''), (''content'', GStr prompt)]])]"

definition blockText :: "gval \<Rightarrow> string result" where
  "blockText v =
     bindR (decodeObj v) (\<lambda>m.
     bindR (decodeStr (jsonField m ''type'')) (\<lambda>_. decodeStr (jsonField m ''text'')))"

definition anthropicAnswer :: "gmap \<Rightarrow> string result" where
  "anthropicAnswer out =
     bindR (decodeSlice blockText (case jsonField out ''content'' of None \<Rightarrow> GNil | Some x \<Rightarrow> x)) (\<lambda>texts.
     case find (\<lambda>t. TrimSpace t \<noteq> []) texts of
       None \<Rightarrow> Inl ''anthropic empty response'' | Some t \<Rightarrow> Inr t)"

definition anthropicHeaders :: "string \<Rightarrow> (string \<times> string) list" where
  "anthropicHeaders key =
     [(''Content-Type'', ''application/json''), (''x-api-key'', key), (''anthropic-version'', ''2023-06-01'')]"

definition anthropicComplete :: "LlmEnv \<Rightarrow> string \<Rightarrow> string \<Rightarrow> string \<Rightarrow> string \<Rightarrow> int \<Rightarrow> string result" where
  "anthropicComplete env base key model prompt maxTokens =
    (if TrimSpace key = [] then Inl ''anthropic api key required''
     else if TrimSpace model = [] then Inl ''anthropic model required''
     else
       bindR (leMarshal env (anthropicDoc model prompt maxTokens)) (\<lambda>body.
       bindR (lePost env (apiBase defaultAnthropicBase base @ ''/v1/messages'') (anthropicHeaders key) body) (\<lambda>resp.
       bindR (checkStatus ''anthropic'' resp) (\<lambda>answer.
       bindR (unmarshalBody env answer) anthropicAnswer))))"

section \<open>The router\<close>

record LlmRouter =
  lrProvider :: string
  lrModel :: string
  lrAPIBase :: string
  lrAPIKey :: string
  lrMaxTokens :: int
  lrAuthProfile :: string
  lrAuthPath :: string
  lrRedact :: "string list"

text \<open>A pattern that does not compile is skipped.\<close>

definition llmRedact :: "LlmEnv \<Rightarrow> string \<Rightarrow> string list \<Rightarrow> string" where
  "llmRedact env input patterns =
     TrimSpace (foldl (\<lambda>out p. case leReplace env p ''[REDACTED]'' out of None \<Rightarrow> out | Some t \<Rightarrow> t) input patterns)"

definition orEnv :: "LlmEnv \<Rightarrow> string \<Rightarrow> string \<Rightarrow> string" where
  "orEnv env v name = (if v = [] then leGetenv env name else v)"

definition orTrimEnv :: "LlmEnv \<Rightarrow> string \<Rightarrow> string \<Rightarrow> string" where
  "orTrimEnv env v name = (let t = TrimSpace v in if t = [] then TrimSpace (leGetenv env name) else t)"

definition resolveCodexToken :: "LlmEnv \<Rightarrow> files \<Rightarrow> LlmRouter \<Rightarrow> string result" where
  "resolveCodexToken env fs r =
    (let token = orTrimEnv env (lrAPIKey r) ''OPENAI_ACCESS_TOKEN'' in
     if token \<noteq> [] then Inr token
     else
       bindR (LoadAuthProfile env fs (orTrimEnv env (lrAuthPath r) ''CARAPULSE_AUTH_PATH'') codexProvider
                (orTrimEnv env (lrAuthProfile r) ''CARAPULSE_AUTH_PROFILE'')) (\<lambda>profile.
       if TrimSpace (ApAccess profile) = [] then Inl ''codex access token required''
       else if Expired profile (leNow env) then Inl ''codex access token expired''
       else Inr (TrimSpace (ApAccess profile))))"

definition llmPrompt :: "LlmEnv \<Rightarrow> LlmRouter \<Rightarrow> string \<Rightarrow> gval \<Rightarrow> gval \<Rightarrow> string result" where
  "llmPrompt env r intent context evidence =
     bindR (buildPrompt (leMarshal env) intent context evidence) (\<lambda>prompt.
     Inr (if lrRedact r \<noteq> [] then llmRedact env prompt (lrRedact r) else prompt))"

definition Plan :: "LlmEnv \<Rightarrow> files \<Rightarrow> LlmRouter \<Rightarrow> string \<Rightarrow> gval \<Rightarrow> gval \<Rightarrow> string result" where
  "Plan env fs r intent0 context evidence =
    (let intent = TrimSpace intent0 in
     if intent = [] then Inl ''intent required''
     else
       bindR (llmPrompt env r intent context evidence) (\<lambda>prompt.
       let maxTokens = (if lrMaxTokens r \<le> 0 then 512 else lrMaxTokens r);
           provider = ToLower (TrimSpace (lrProvider r)) in
       if provider = ''openai'' then
         openAIComplete env (lrAPIBase r) (orEnv env (lrAPIKey r) ''OPENAI_API_KEY'') (lrModel r) prompt maxTokens
       else if provider = ''anthropic'' then
         anthropicComplete env (lrAPIBase r) (orEnv env (lrAPIKey r) ''ANTHROPIC_API_KEY'') (lrModel r) prompt maxTokens
       else if provider = codexProvider then
         bindR (resolveCodexToken env fs r) (\<lambda>token.
         codexComplete env (lrAPIBase r) token (lrModel r) prompt maxTokens)
       else Inl (''unknown provider: '' @ provider)))"

section \<open>What is sent\<close>

lemma buildPrompt_parts:
  assumes "buildPrompt marshal intent context evidence = Inr prompt"
  shows "\<exists>ctx ev tail. marshal context = Inr ctx \<and> marshal evidence = Inr ev \<and>
    prompt = ''Intent:'' @ newline @ SanitizePromptInput intent @ newline @ ''Context:'' @ newline @ SanitizePromptInput ctx @
      newline @ ''Evidence:'' @ newline @ SanitizePromptInput ev @ newline @ ''Return JSON only with shape:'' @ newline @ tail"
  using assms unfolding buildPrompt_def bindR_eq_Inr by blast

text \<open>A plan comes from one request, which carries the prompt; its address is that of the provider.\<close>

lemma chatAnswer_ok: "chatAnswer name out = Inr t \<Longrightarrow> TrimSpace t \<noteq> []"
proof -
  assume "chatAnswer name out = Inr t"
  then obtain texts where "(case texts of [] \<Rightarrow> Inl (name @ '' empty response'')
      | t # _ \<Rightarrow> if TrimSpace t = [] then Inl (name @ '' empty response'') else Inr t) = Inr t"
    unfolding chatAnswer_def bindR_eq_Inr by blast
  then show ?thesis by (cases texts) (auto split: if_splits)
qed

lemma chat_sent:
  assumes "openAIComplete env base key model prompt n = Inr text \<or> codexComplete env base key model prompt n = Inr text"
  shows "\<exists>body status answer. leMarshal env (chatDoc model prompt n) = Inr body \<and> 200 \<le> status \<and> status < 300 \<and>
    lePost env (apiBase defaultOpenAIBase base @ ''/v1/chat/completions'') (chatHeaders key) body = Inr (status, answer) \<and>
    TrimSpace key \<noteq> [] \<and> TrimSpace text \<noteq> []"
  using assms
  by (auto simp: openAIComplete_def codexComplete_def bindR_eq_Inr checkStatus_def Let_def dest: chatAnswer_ok
      split: if_splits)

lemma anthropic_sent:
  assumes "anthropicComplete env base key model prompt n = Inr text"
  shows "\<exists>body status answer. leMarshal env (anthropicDoc model prompt n) = Inr body \<and> 200 \<le> status \<and> status < 300 \<and>
    lePost env (apiBase defaultAnthropicBase base @ ''/v1/messages'') (anthropicHeaders key) body = Inr (status, answer) \<and>
    TrimSpace key \<noteq> [] \<and> TrimSpace text \<noteq> []"
  using assms
  by (auto simp: anthropicComplete_def bindR_eq_Inr checkStatus_def anthropicAnswer_def find_Some_iff Let_def
      split: if_splits option.splits)

lemma codex_token_valid:
  assumes "resolveCodexToken env fs r = Inr token" "orTrimEnv env (lrAPIKey r) ''OPENAI_ACCESS_TOKEN'' = []"
  shows "\<exists>p profiles. LoadAuthProfiles env fs (orTrimEnv env (lrAuthPath r) ''CARAPULSE_AUTH_PATH'') = Inr profiles \<and>
    p \<in> set (ApProfiles profiles) \<and> token = TrimSpace (ApAccess p) \<and> token \<noteq> [] \<and> \<not> Expired p (leNow env)"
proof -
  obtain p where p: "LoadAuthProfile env fs (orTrimEnv env (lrAuthPath r) ''CARAPULSE_AUTH_PATH'') codexProvider
      (orTrimEnv env (lrAuthProfile r) ''CARAPULSE_AUTH_PROFILE'') = Inr p" "token = TrimSpace (ApAccess p)" "token \<noteq> []"
    "\<not> Expired p (leNow env)"
    using assms by (auto simp: resolveCodexToken_def bindR_eq_Inr Let_def split: if_splits)
  from p(1) obtain profiles where "LoadAuthProfiles env fs (orTrimEnv env (lrAuthPath r) ''CARAPULSE_AUTH_PATH'') = Inr profiles"
    "SelectProfile profiles codexProvider (orTrimEnv env (lrAuthProfile r) ''CARAPULSE_AUTH_PROFILE'') = Some p"
    by (auto simp: LoadAuthProfile_def bindR_eq_Inr split: option.splits)
  moreover from this(2) have "p \<in> set (ApProfiles profiles)"
    by (auto simp: SelectProfile_def defaultFor_def find_Some_iff split: if_splits option.splits)
  ultimately show ?thesis using p by blast
qed

section \<open>Stored profiles\<close>

lemma upsertIn_find:
  "find (\<lambda>q. ApID q = i) (upsertIn p ps) = (if i = ApID p then Some p else find (\<lambda>q. ApID q = i) ps)"
  by (induction ps) auto

lemma upsertIn_ids:
  "set (map ApID (upsertIn p ps)) = insert (ApID p) (set (map ApID ps))"
  "distinct (map ApID ps) \<Longrightarrow> distinct (map ApID (upsertIn p ps))"
proof -
  show ids: "set (map ApID (upsertIn p ps)) = insert (ApID p) (set (map ApID ps))" for ps
    by (induction ps) auto
  show "distinct (map ApID ps) \<Longrightarrow> distinct (map ApID (upsertIn p ps))"
  proof (induction ps)
    case (Cons q qs)
    with ids [of qs] show ?case by auto
  qed simp
qed

lemma UpsertProfile_select:
  assumes "UpsertProfile ps p = Inr ps'" "i \<noteq> []"
  shows "SelectProfile ps' provider i = (if i = ApID p then Some p else SelectProfile ps provider i)"
  using assms by (auto simp: UpsertProfile_def SelectProfile_def upsertIn_find split: if_splits)

text \<open>A field is found under its exact name when no other key differs from it by case only.\<close>

lemma jsonField_exact:
  assumes "\<forall>k' \<in> fst ` set m. k' = k \<or> \<not> EqualFold k' k"
  shows "jsonField m k = map_of m k"
proof (cases "map_of m k")
  case None
  then have "k \<notin> fst ` set m" by (simp add: map_of_eq_None_iff)
  with assms have "filter (\<lambda>(k', _). EqualFold k' k) m = []" by (fastforce simp: filter_empty_conv)
  with None show ?thesis by (simp add: jsonField_def)
qed (simp add: jsonField_def)

definition profileKeys :: "string list" where
  "profileKeys = [''id'', ''provider'', ''account_id'', ''access_token'', ''refresh_token'', ''expires_at'', ''source'']"

lemma profileKeys_fold: "list_all (\<lambda>k. list_all (\<lambda>k'. k' = k \<or> \<not> EqualFold k' k) profileKeys) profileKeys"
  by code_simp

lemma profileDoc_field:
  assumes "k \<in> set profileKeys"
  shows "jsonField (mapOf (profileDoc env p)) k = map_of (mapOf (profileDoc env p)) k"
proof (rule jsonField_exact, rule ballI)
  fix k' assume "k' \<in> fst ` set (mapOf (profileDoc env p))"
  then have "k' \<in> set profileKeys" by (auto simp: profileDoc_def omitEmpty_def profileKeys_def split: if_splits)
  with assms show "k' = k \<or> \<not> EqualFold k' k" using profileKeys_fold by (auto simp: list_all_iff)
qed

lemma map_of_omitEmpty: "map_of (omitEmpty k v @ m) k' = (if k' = k \<and> v \<noteq> [] then Some (GStr v) else map_of m k')"
  by (simp add: omitEmpty_def)

lemma decodeStr_omitted: "decodeStr (if v = [] then None else Some (GStr v)) = Inr v"
  by simp

lemma decode_profileDoc:
  assumes "\<And>t. leParseTime env (leShowTime env t) = Inr t"
  shows "decodeProfile env (profileDoc env p) = Inr p"
proof -
  let ?m = "mapOf (profileDoc env p)"
  have "map_of ?m ''id'' = Some (GStr (ApID p))" "map_of ?m ''provider'' = Some (GStr (ApProvider p))"
    "map_of ?m ''account_id'' = (if ApAccount p = [] then None else Some (GStr (ApAccount p)))"
    "map_of ?m ''access_token'' = (if ApAccess p = [] then None else Some (GStr (ApAccess p)))"
    "map_of ?m ''refresh_token'' = (if ApRefresh p = [] then None else Some (GStr (ApRefresh p)))"
    "map_of ?m ''expires_at'' = Some (GStr (leShowTime env (ApExpires p)))"
    "map_of ?m ''source'' = (if ApSource p = [] then None else Some (GStr (ApSource p)))"
    by (simp_all add: profileDoc_def omitEmpty_def)
  moreover have "profileDoc env p = GMap ?m" by (simp add: profileDoc_def)
  ultimately have "decodeProfile env (GMap ?m) = Inr p"
    unfolding decodeProfile_def decodeObj.simps bindR_simps
    by (simp add: profileDoc_field profileKeys_def decodeStr_omitted decodeTimeField_def assms)
  then show ?thesis by (simp add: profileDoc_def)
qed

lemma mapR_decode: "(\<And>x. x \<in> set xs \<Longrightarrow> f (g x) = Inr x) \<Longrightarrow> mapR f (map g xs) = Inr xs"
  by (induction xs) auto

lemma decode_profilesDoc:
  assumes "\<And>t. leParseTime env (leShowTime env t) = Inr t"
  shows "decodeProfiles env (profilesDoc env ps) = Inr ps"
proof -
  have keys: "\<not> EqualFold ''profiles'' ''defaults''" "\<not> EqualFold ''defaults'' ''profiles''" by code_simp+
  let ?d = "if ApDefaults ps = [] then [] else [(''defaults'', GMap (map (\<lambda>(k, v). (k, GStr v)) (ApDefaults ps)))]"
  let ?m = "?d @ [(''profiles'', GList (map (profileDoc env) (ApProfiles ps)))]"
  have "jsonField ?m ''defaults'' = map_of ?m ''defaults''" "jsonField ?m ''profiles'' = map_of ?m ''profiles''"
    by (rule jsonField_exact, use keys in simp)+
  moreover have "mapR (\<lambda>(k, x). bindR (decodeStr (Some x)) (\<lambda>s. Inr (k, s))) (map (\<lambda>(k, v). (k, GStr v)) (ApDefaults ps)) =
      Inr (ApDefaults ps)"
    by (rule mapR_decode) (auto split: prod.splits)
  moreover have "mapR (decodeProfile env) (map (profileDoc env) (ApProfiles ps)) = Inr (ApProfiles ps)"
    by (rule mapR_decode) (simp add: decode_profileDoc [OF assms])
  ultimately show ?thesis
    unfolding profilesDoc_def decodeProfiles_def decodeObj.simps bindR_simps
    by (simp add: decodeStrPairs_def)
qed

text \<open>What is saved is loaded again, and a profile that was put in is found under its name.\<close>

lemma Save_Load:
  assumes time: "\<And>t. leParseTime env (leShowTime env t) = Inr t"
    and json: "\<And>v s. leMarshal env v = Inr s \<Longrightarrow> s \<noteq> [] \<and> leUnmarshal env s = Some v"
    and "SaveAuthProfiles env path ps fs = (Inr (), fs')" "\<And>p. leReadFault env p = None"
  shows "LoadAuthProfiles env fs' path = Inr ps"
proof -
  obtain p s where p: "pathOr (DefaultAuthPath env) path = Inr p" "leMarshal env (profilesDoc env ps) = Inr s" "fs' = fs(p \<mapsto> s)"
    using assms(3) by (auto simp: SaveAuthProfiles_def bindR_def split: sum.splits option.splits)
  with json [OF p(2)] show ?thesis
    using assms(4) decode_profilesDoc [OF time, of ps]
    by (cases s) (auto simp: LoadAuthProfiles_def readFile_def)
qed

end
