(* ===== verification/Cli_Auth.thy ===== *)
theory Cli_Auth
  imports Llm_Client Go_Flags
begin

text \<open>
  \<open>cmd/assistantctl/llm_auth.go\<close>: importing credentials for the language model. The commands read and write the
  profile file; the files are the state, and starting \<open>codex --login\<close> is the parameter \<open>login\<close> (\<open>None\<close> when the
  program is not on the path).
\<close>

definition parseExpiryFlag :: "LlmEnv \<Rightarrow> string \<Rightarrow> int option result" where
  "parseExpiryFlag env value =
    (if TrimSpace value = [] then Inr None
     else case leParseTime env value of Inr t \<Rightarrow> Inr t | Inl _ \<Rightarrow> Inl ''invalid expires-at'')"

definition defaultProfileID :: "string \<Rightarrow> string \<Rightarrow> string" where
  "defaultProfileID provider override =
    (if TrimSpace override \<noteq> [] then TrimSpace override
     else (if provider = [] then codexProvider else provider) @ '':manual'')"

definition setDefaultProfile :: "AuthProfile \<Rightarrow> AuthProfiles \<Rightarrow> AuthProfiles" where
  "setDefaultProfile p ps =
     ps\<lparr>ApDefaults := filter (\<lambda>(k, _). k \<noteq> ApProvider p) (ApDefaults ps) @ [(ApProvider p, ApID p)]\<rparr>"

definition storeAuthProfile :: "LlmEnv \<Rightarrow> AuthProfile \<Rightarrow> string \<Rightarrow> bool \<Rightarrow> (files, unit) op" where
  "storeAuthProfile env profile authPath setDefault fs =
    (case bindR (LoadAuthProfiles env fs authPath) (\<lambda>ps. UpsertProfile ps profile) of
       Inl e \<Rightarrow> (Inl e, fs)
     | Inr ps \<Rightarrow> SaveAuthProfiles env authPath (if setDefault then setDefaultProfile profile ps else ps) fs)"

definition renamed :: "string \<Rightarrow> AuthProfile \<Rightarrow> AuthProfile" where
  "renamed profileID p = (if TrimSpace profileID \<noteq> [] then p\<lparr>ApID := TrimSpace profileID\<rparr> else p)"

definition importSpec :: flagSpec where
  "importSpec = (''set-default'', FlagBool) #
     map (\<lambda>n. (n, FlagStr)) [''provider'', ''codex-auth'', ''openclaw-auth'', ''auth-path'', ''profile-id'', ''access-token'',
       ''refresh-token'', ''expires-at'']"

definition importedProfile :: "LlmEnv \<Rightarrow> files \<Rightarrow> flagVals \<Rightarrow> AuthProfile result" where
  "importedProfile env fs v =
    (let provider = flagOr v ''provider'' codexProvider; profileID = flagOr v ''profile-id'' [];
         access = flagOr v ''access-token'' []; openClaw = flagOr v ''openclaw-auth'' [] in
     if TrimSpace access \<noteq> [] then
       bindR (parseExpiryFlag env (flagOr v ''expires-at'' [])) (\<lambda>expires.
       Inr \<lparr>ApID = defaultProfileID provider (TrimSpace profileID), ApProvider = TrimSpace provider, ApAccount = [],
            ApAccess = TrimSpace access, ApRefresh = TrimSpace (flagOr v ''refresh-token'' []), ApExpires = expires,
            ApSource = ''manual''\<rparr>)
     else if TrimSpace openClaw \<noteq> [] then
       bindR (ImportOpenClawAuth env fs openClaw (TrimSpace provider) (TrimSpace profileID)) (\<lambda>p. Inr (renamed profileID p))
     else if TrimSpace provider \<noteq> codexProvider then Inl ''only openai-codex import supported without access-token''
     else bindR (ImportCodexAuth env fs (flagOr v ''codex-auth'' [])) (\<lambda>p. Inr (renamed profileID p)))"

text \<open>The commands print the identifier of the profile they stored.\<close>

definition storeAndPrint :: "LlmEnv \<Rightarrow> flagVals \<Rightarrow> AuthProfile \<Rightarrow> (files, string) op" where
  "storeAndPrint env v p =
     bindS (storeAuthProfile env p (flagOr v ''auth-path'' []) (flagBool v ''set-default'' True)) (\<lambda>_.
     okS (ApID p @ [CHR 0x0A]))"

definition runLLMAuthImport :: "LlmEnv \<Rightarrow> (flagKind \<Rightarrow> string \<Rightarrow> bool) \<Rightarrow> string list \<Rightarrow> (files, string) op" where
  "runLLMAuthImport env valid args fs =
    (case bindR (parseFlags valid importSpec [] args) (\<lambda>(v, _). bindR (importedProfile env fs v) (\<lambda>p. Inr (v, p))) of
       Inl e \<Rightarrow> (Inl e, fs)
     | Inr (v, p) \<Rightarrow> storeAndPrint env v p fs)"

definition loginSpec :: flagSpec where
  "loginSpec = (''set-default'', FlagBool) # map (\<lambda>n. (n, FlagStr)) [''codex-auth'', ''auth-path'', ''profile-id'']"

definition runLLMAuthLogin ::
  "LlmEnv \<Rightarrow> (flagKind \<Rightarrow> string \<Rightarrow> bool) \<Rightarrow> (files, unit) op option \<Rightarrow> string list \<Rightarrow> (files, string) op" where
  "runLLMAuthLogin env valid login args fs =
    (case parseFlags valid loginSpec [] args of
       Inl e \<Rightarrow> (Inl e, fs)
     | Inr (v, _) \<Rightarrow>
        (case login of
           None \<Rightarrow> (Inl ''codex CLI not found'', fs)
         | Some run \<Rightarrow>
            bindS run (\<lambda>_ fs.
              case ImportCodexAuth env fs (flagOr v ''codex-auth'' []) of
                Inl e \<Rightarrow> (Inl e, fs)
              | Inr p \<Rightarrow> storeAndPrint env v (renamed (flagOr v ''profile-id'' []) p) fs) fs))"

definition runLLMAuth ::
  "LlmEnv \<Rightarrow> (flagKind \<Rightarrow> string \<Rightarrow> bool) \<Rightarrow> (files, unit) op option \<Rightarrow> string list \<Rightarrow> (files, string) op" where
  "runLLMAuth env valid login args =
    (case args of
       [] \<Rightarrow> failS ''llm auth subcommand required''
     | a # rest \<Rightarrow>
        if a = ''import'' then runLLMAuthImport env valid rest
        else if a = ''login'' then runLLMAuthLogin env valid login rest
        else failS (''unknown llm auth command: '' @ a))"

definition runLLM ::
  "LlmEnv \<Rightarrow> (flagKind \<Rightarrow> string \<Rightarrow> bool) \<Rightarrow> (files, unit) op option \<Rightarrow> string list \<Rightarrow> (files, string) op" where
  "runLLM env valid login args =
    (case args of
       [] \<Rightarrow> failS ''llm subcommand required''
     | a # rest \<Rightarrow>
        if a = ''auth'' then runLLMAuth env valid login rest else failS (''unknown llm command: '' @ a))"

section \<open>A stored profile is found again\<close>

lemma defaultFor_set:
  assumes "TrimSpace (ApID p) \<noteq> []"
  shows "defaultFor (setDefaultProfile p (ps\<lparr>ApProfiles := upsertIn p qs\<rparr>)) (ApProvider p) = Some p"
proof -
  have "map_of (filter (\<lambda>(k, _). k \<noteq> ApProvider p) (ApDefaults ps) @ [(ApProvider p, ApID p)]) (ApProvider p) = Some (ApID p)"
    by (induction "ApDefaults ps") (auto simp: map_add_def map_of_eq_None_iff split: option.splits dest: map_of_SomeD)
  moreover have "ApID p \<noteq> []" using assms by auto
  moreover have "find (\<lambda>q. ApID q = ApID p) (upsertIn p qs) = Some p" by (induction qs) auto
  ultimately show ?thesis by (simp add: defaultFor_def setDefaultProfile_def)
qed

lemma store_then_load:
  assumes time: "\<And>t. leParseTime env (leShowTime env t) = Inr t"
    and json: "\<And>v s. leMarshal env v = Inr s \<Longrightarrow> s \<noteq> [] \<and> leUnmarshal env s = Some v"
    and "\<And>p. leReadFault env p = None"
    and "storeAuthProfile env p path True fs = (Inr (), fs')"
  shows "LoadAuthProfile env fs' path (ApProvider p) [] = Inr p"
proof -
  from assms(4) obtain ps where ps: "TrimSpace (ApID p) \<noteq> []"
    "SaveAuthProfiles env path (setDefaultProfile p (ps\<lparr>ApProfiles := upsertIn p (ApProfiles ps)\<rparr>)) fs = (Inr (), fs')"
    by (auto simp: storeAuthProfile_def bindR_def UpsertProfile_def split: sum.splits if_splits)
  from Save_Load [OF time json ps(2) assms(3)] defaultFor_set [OF ps(1)]
  show ?thesis by (simp add: LoadAuthProfile_def SelectProfile_def)
qed

end
