(* ===== verification/Programs.thy ===== *)
theory Programs
  imports Slack Config Tool_Sandbox Go_Flags
begin

text \<open>
  The small programs: \<open>cmd/agent\<close> (the Slack endpoint), \<open>cmd/sandbox-exec\<close> (one command in a sandbox) and
  \<open>cmd/migrate\<close> (schema migrations). Serving, running processes and the migration library are parameters.
\<close>

section \<open>agent\<close>

definition stripSlashes :: "string \<Rightarrow> string" where
  "stripSlashes s = rev (dropWhile (\<lambda>c. c = CHR ''/'') (rev s))"

definition normalizeGatewayURL :: "string \<Rightarrow> string \<Rightarrow> string" where
  "normalizeGatewayURL gatewayURL addr =
    (if gatewayURL \<noteq> [] then stripSlashes gatewayURL
     else if addr = [] then []
     else if prefix ''http://'' addr \<or> prefix ''https://'' addr then stripSlashes addr
     else if prefix '':'' addr then ''http://127.0.0.1'' @ addr
     else ''http://'' @ addr)"

definition normalizePath :: "string \<Rightarrow> string" where
  "normalizePath path =
    (if path = [] then ''/slack/commands'' else if prefix ''/'' path then path else ''/'' @ path)"

definition agentFlags :: flagSpec where
  "agentFlags = [(''config'', FlagStr), (''addr'', FlagStr), (''path'', FlagStr)]"

text \<open>Listen address, endpoint path and handler; what the handler takes from outside is \<open>base\<close>.\<close>

definition agentRun ::
  "(flagKind \<Rightarrow> string \<Rightarrow> bool) \<Rightarrow> (string \<Rightarrow> string result) \<Rightarrow> (string \<Rightarrow> gval option) \<Rightarrow> SlackHandler \<Rightarrow> string list \<Rightarrow>
   (string \<times> string \<times> SlackHandler) result" where
  "agentRun valid read unmarshal base args =
     bindR (parseFlags valid agentFlags [] args) (\<lambda>(v, _).
     if flagOr v ''config'' [] = [] then Inl ''config required''
     else
       bindR (LoadConfig read unmarshal (flagOr v ''config'' [])) (\<lambda>cfg.
       if coSlackSigningSecret (cfChatOps cfg) = [] then Inl ''slack signing secret required''
       else
         (let url = normalizeGatewayURL (coGatewayURL (cfChatOps cfg)) (gcHTTPAddr (cfGateway cfg)) in
          if url = [] then Inl ''gateway url required''
          else Inr (flagOr v ''addr'' '':8090'', normalizePath (flagOr v ''path'' ''/slack/commands''),
            base\<lparr>SigningSecret := coSlackSigningSecret (cfChatOps cfg), slHasClient := True, slBaseURL := url,
                 slToken := coGatewayToken (cfChatOps cfg)\<rparr>))))"

definition agentReady :: "(string \<Rightarrow> int result) \<Rightarrow> string \<Rightarrow> reply" where
  "agentReady httpGet gatewayURL =
    (case httpGet (stripSlashes gatewayURL @ ''/healthz'') of
       Inl _ \<Rightarrow> (503, GMap [(''status'', GStr ''unavailable'')])
     | Inr code \<Rightarrow>
         if code div 100 \<noteq> 2 then (503, GMap [(''status'', GStr ''unavailable'')])
         else (200, GMap [(''status'', GStr ''ok'')]))"

section \<open>sandbox-exec\<close>

definition sandboxFlags :: flagSpec where
  "sandboxFlags =
     [(''timeout'', FlagDuration), (''runtime'', FlagStr), (''image'', FlagStr), (''egress'', FlagStr),
      (''read-only'', FlagBool), (''no-new-privs'', FlagBool), (''user'', FlagStr), (''seccomp'', FlagStr),
      (''mount'', FlagList), (''tmpfs'', FlagList), (''drop-cap'', FlagList)]"

definition egressList :: "string \<Rightarrow> string list" where
  "egressList egress =
    (let t = TrimSpace egress in
     if t = [] then [] else filter (\<lambda>x. x \<noteq> []) (map TrimSpace (splitChar CHR '','' t)))"

definition execSandbox :: "flagVals \<Rightarrow> Sandbox" where
  "execSandbox v =
    (if TrimSpace (flagOr v ''image'' []) = [] then NewSandbox
     else (NewSandboxWithConfig True (flagOr v ''runtime'' []) (flagOr v ''image'' []) (egressList (flagOr v ''egress'' []))
             (flagAll v ''mount''))
            \<lparr>ReadOnlyRoot := flagBool v ''read-only'' True, NoNewPrivs := flagBool v ''no-new-privs'' True,
             User := flagOr v ''user'' [], SeccompProfile := flagOr v ''seccomp'' [], Tmpfs := flagAll v ''tmpfs'',
             DropCaps := flagAll v ''drop-cap''\<rparr>)"

text \<open>What is written and the error; the timeout cancels the process from outside.\<close>

definition sandboxExec :: "(flagKind \<Rightarrow> string \<Rightarrow> bool) \<Rightarrow> OSEnv \<Rightarrow> string list \<Rightarrow> outcome" where
  "sandboxExec valid os args =
    (case parseFlags valid sandboxFlags [] args of
       Inl e \<Rightarrow> ([], Some e)
     | Inr (v, cmd) \<Rightarrow>
         if cmd = [] then ([], Some ''command required'') else sandboxRun os (execSandbox v) cmd)"

section \<open>migrate\<close>

datatype migration = Up | Down | Status | Version | Redo

definition migrateAction :: "string \<Rightarrow> migration option" where
  "migrateAction a =
    (if a = ''up'' then Some Up else if a = ''down'' then Some Down else if a = ''status'' then Some Status
     else if a = ''version'' then Some Version else if a = ''redo'' then Some Redo else None)"

definition migrateRun ::
  "(flagKind \<Rightarrow> string \<Rightarrow> bool) \<Rightarrow> (string \<Rightarrow> string option) \<Rightarrow> (migration \<Rightarrow> string \<Rightarrow> bool \<Rightarrow> string option) \<Rightarrow> string list \<Rightarrow>
   string option" where
  "migrateRun valid dial goose args =
    (case parseFlags valid [(''dsn'', FlagStr), (''dir'', FlagStr), (''action'', FlagStr), (''embed'', FlagBool)] [] args of
       Inl e \<Rightarrow> Some e
     | Inr (v, _) \<Rightarrow>
        (let dsn = flagOr v ''dsn'' []; action = flagOr v ''action'' []; embedded = flagBool v ''embed'' False;
             dir = (if embedded then ''.'' else flagOr v ''dir'' ''./migrations'') in
         if TrimSpace dsn = [] then Some ''dsn required''
         else if TrimSpace action = [] then Some ''action required''
         else case dial dsn of
           Some e \<Rightarrow> Some e
         | None \<Rightarrow>
            (case migrateAction action of None \<Rightarrow> Some (''unknown action '' @ action) | Some m \<Rightarrow> goose m dir embedded)))"

section \<open>Facts\<close>

text \<open>The agent serves a handler that has a secret and a gateway to call.\<close>

lemma agentRun_secret:
  assumes "agentRun valid read unmarshal base args = Inr (addr, path, h)"
  shows "SigningSecret h \<noteq> []" "slBaseURL h \<noteq> []" "prefix ''/'' path"
  using assms by (auto simp: agentRun_def bindR_eq_Inr Let_def normalizePath_def split: if_splits prod.splits)

text \<open>Without an image the sandbox enforces and is disabled: nothing runs.\<close>

lemma sandboxExec_no_image:
  assumes "parseFlags valid sandboxFlags [] args = Inr (v, cmd)" "TrimSpace (flagOr v ''image'' []) = []"
  shows "\<exists>e. sandboxExec valid os args = ([], Some e)"
  using assms by (auto simp: sandboxExec_def execSandbox_def sandboxRun_def NewSandbox_def sandboxChecks_def)

lemma sandboxExec_container:
  "(\<exists>e. sandboxExec valid os args = ([], Some e)) \<or>
   (\<exists>s cmd. Enforce s \<and> sandboxChecks s = Inr () \<and> sandboxExec valid os args = runContainer os s cmd)"
proof (cases "parseFlags valid sandboxFlags [] args")
  case (Inr vc)
  obtain v cmd where vc: "vc = (v, cmd)" by fastforce
  let ?s = "execSandbox v"
  show ?thesis
  proof (cases "cmd = [] \<or> TrimSpace (flagOr v ''image'' []) = []")
    case True
    then show ?thesis using Inr vc sandboxExec_no_image [of valid args v cmd os] by (auto simp: sandboxExec_def)
  next
    case False
    then have "flagOr v ''image'' [] \<noteq> []" by auto
    with False have f: "RunFunc ?s = None" "Image ?s \<noteq> []" "Enforce ?s" "Enabled ?s"
      by (auto simp: execSandbox_def NewSandboxWithConfig_def NewSandbox_def)
    then have "sandboxExec valid os args = (case sandboxChecks ?s of Inl e \<Rightarrow> ([], Some e) | Inr _ \<Rightarrow> runContainer os ?s cmd)"
      using Inr vc False by (simp add: sandboxExec_def sandboxRun_def)
    with f show ?thesis by (cases "sandboxChecks ?s") auto
  qed
qed (simp add: sandboxExec_def)

end
