(* ===== verification/Tool_Resources.thy ===== *)
theory Tool_Resources
  imports Library_Store Go_Path
begin

text \<open>
  \<open>internal/tools/resources.go\<close> and \<open>resources_loader.go\<close>: the runbooks, playbooks, workflows and prompts that the
  files of the workspace describe, and how the address of one is resolved. Reading a file (\<open>Inr None\<close>: it does
  not exist) and the JSON codec are parameters.
\<close>

record Resource =
  rsName :: string
  rsType :: string
  rsURI :: string

record Prompt =
  ptName :: string
  ptBody :: string

record namedVersion =
  nvName :: string
  nvVersion :: int
  nvService :: string

record WorkspaceEnv =
  weDir :: string
  weRead :: "string \<Rightarrow> string option result"
  weUnmarshal :: "string \<Rightarrow> gval option"
  weMarshal :: "gval \<Rightarrow> string result"

definition memoryPath :: "WorkspaceEnv \<Rightarrow> string \<Rightarrow> string" where
  "memoryPath env name = pathJoin [weDir env, ''memory'', name]"

text \<open>A file that cannot be read or decoded lists nothing.\<close>

definition loadItems :: "WorkspaceEnv \<Rightarrow> (gval \<Rightarrow> 'a result) \<Rightarrow> string \<Rightarrow> 'a list" where
  "loadItems env decode name =
    (case weRead env (memoryPath env name) of
       Inr (Some data) \<Rightarrow>
         (case weUnmarshal env data of
            None \<Rightarrow> []
          | Some doc \<Rightarrow> (case decodeSlice decode doc of Inl _ \<Rightarrow> [] | Inr xs \<Rightarrow> xs))
     | _ \<Rightarrow> [])"

definition decodeNamed :: "gval \<Rightarrow> namedVersion result" where
  "decodeNamed v =
     bindR (decodeObj v) (\<lambda>m.
     bindR (decodeStr (jsonField m ''name'')) (\<lambda>name.
     bindR (decodeInt (jsonField m ''version'')) (\<lambda>version.
     bindR (decodeStr (jsonField m ''service'')) (\<lambda>service.
       Inr \<lparr>nvName = name, nvVersion = version, nvService = service\<rparr>))))"

definition uriOf :: "string \<Rightarrow> string \<Rightarrow> int \<Rightarrow> string" where
  "uriOf kind label version = kind @ ''://'' @ label @ ''?version='' @ showInt version"

definition runbookResource :: "namedVersion \<Rightarrow> Resource option" where
  "runbookResource n =
    (let name = TrimSpace (nvName n); service = TrimSpace (nvService n);
         label = (if service \<noteq> [] then service @ ''/'' @ name else name) in
     if name = [] then None else Some \<lparr>rsName = label, rsType = ''runbook'', rsURI = uriOf ''runbook'' label (nvVersion n)\<rparr>)"

definition loadRunbookResources :: "WorkspaceEnv \<Rightarrow> Resource list" where
  "loadRunbookResources env = List.map_filter runbookResource (loadItems env decodeNamed ''runbooks.json'')"

definition namedResource :: "string \<Rightarrow> namedVersion \<Rightarrow> Resource option" where
  "namedResource kind n =
    (let name = TrimSpace (nvName n) in
     if name = [] then None else Some \<lparr>rsName = name, rsType = kind, rsURI = uriOf kind name (nvVersion n)\<rparr>)"

definition loadPlaybookResources :: "WorkspaceEnv \<Rightarrow> Resource list" where
  "loadPlaybookResources env = List.map_filter (namedResource ''playbook'') (loadItems env decodeNamed ''playbooks.json'')"

definition loadWorkflowResources :: "WorkspaceEnv \<Rightarrow> Resource list" where
  "loadWorkflowResources env = List.map_filter (namedResource ''workflow'') (loadItems env decodeNamed ''workflows.json'')"

definition decodePrompt :: "gval \<Rightarrow> Prompt result" where
  "decodePrompt v =
     bindR (decodeObj v) (\<lambda>m.
     bindR (decodeStr (jsonField m ''name'')) (\<lambda>name.
     bindR (decodeStr (jsonField m ''body'')) (\<lambda>body. Inr \<lparr>ptName = name, ptBody = body\<rparr>)))"

definition loadPrompts :: "WorkspaceEnv \<Rightarrow> Prompt list" where
  "loadPrompts env = loadItems env decodePrompt ''prompts.json''"

definition ListResources :: "WorkspaceEnv \<Rightarrow> Resource list" where
  "ListResources env =
    (if weDir env = [] then []
     else loadRunbookResources env @ loadPlaybookResources env @ loadWorkflowResources env)"

definition ListPrompts :: "WorkspaceEnv \<Rightarrow> Prompt list" where
  "ListPrompts env = (if weDir env = [] then [] else loadPrompts env)"

section \<open>Resolving an address\<close>

definition itemLabel :: "gmap \<Rightarrow> string" where
  "itemLabel m =
    (let label = TrimSpace (gstr m ''name''); service = TrimSpace (gstr m ''service'') in
     if service \<noteq> [] then service @ ''/'' @ label else label)"

definition resolveResourceFromList :: "WorkspaceEnv \<Rightarrow> string \<Rightarrow> string \<Rightarrow> string result" where
  "resolveResourceFromList env path uri =
     bindR (weRead env path) (\<lambda>data.
     case data of
       None \<Rightarrow> Inl ''invalid artifact ref''
     | Some text \<Rightarrow>
        bindR (case weUnmarshal env text of None \<Rightarrow> Inl ''invalid json'' | Some doc \<Rightarrow> decodeSlice decodeObj doc) (\<lambda>items.
        case find (\<lambda>m. strContains uri (itemLabel m)) items of
          None \<Rightarrow> Inl ''invalid artifact ref''
        | Some m \<Rightarrow> weMarshal env (GMap m)))"

definition resolveResourceFile :: "WorkspaceEnv \<Rightarrow> string \<Rightarrow> string result" where
  "resolveResourceFile env uri0 =
    (let uri = TrimSpace uri0 in
     if uri = [] then Inl ''invalid artifact ref''
     else if prefix ''runbook://'' uri then resolveResourceFromList env (memoryPath env ''runbooks.json'') uri
     else if prefix ''playbook://'' uri then resolveResourceFromList env (memoryPath env ''playbooks.json'') uri
     else if prefix ''workflow://'' uri then resolveResourceFromList env (memoryPath env ''workflows.json'') uri
     else Inl ''unsupported artifact ref'')"

section \<open>Facts\<close>

lemma ListResources_named: "r \<in> set (ListResources env) \<Longrightarrow> rsName r \<noteq> [] \<and> rsType r \<in> {''runbook'', ''playbook'', ''workflow''}"
  by (auto simp: ListResources_def loadRunbookResources_def loadPlaybookResources_def loadWorkflowResources_def
      runbookResource_def namedResource_def Let_def List.map_filter_def split: if_splits)

text \<open>The first item whose label occurs in the address is taken; an item without a name answers for every address.\<close>

lemma resolve_nameless:
  assumes "weRead env path = Inr (Some text)" "weUnmarshal env text = Some (GList (GMap m # rest))"
    and "itemLabel m = []" "decodeSlice decodeObj (GList rest) = Inr ms"
  shows "resolveResourceFromList env path uri = weMarshal env (GMap m)"
  using assms by (cases uri) (simp_all add: resolveResourceFromList_def)

end
