(* ===== verification/Program_Examples.thy ===== *)
theory Program_Examples
  imports Gateway_Examples Orchestrator_Main Gateway_Main Cli Cli_Auth Programs Tool_Resources
begin

text \<open>
  A configuration file, a tool router started from it, a signed Slack command, a credential file and a
  command line, on which the properties of the programs are instantiated.
\<close>

section \<open>A configuration that enforces the sandbox\<close>

definition exSandboxDoc :: gmap where
  "exSandboxDoc = [(''enabled'', GBool True), (''enforce'', GBool True), (''image'', GStr ''img''), (''user'', GStr ''app''),
     (''seccomp_profile'', GStr ''p.json''), (''no_new_privs'', GBool True), (''drop_caps'', GList [GStr ''ALL''])]"

definition exConfigDoc :: gmap where
  "exConfigDoc = [(''gateway'', GMap [(''http_addr'', GStr '':8080'')]), (''storage'', GMap [(''postgres_dsn'', GStr ''dsn'')]),
     (''sandbox'', GMap exSandboxDoc)]"

definition exSandboxConfig :: SandboxConfig where
  "exSandboxConfig = \<lparr>scEnabled = True, scEnforce = True, scImage = ''img'', scRuntime = [], scEgressAllowlist = [],
     scMounts = [], scReadOnlyRoot = False, scTmpfs = [], scUser = ''app'', scSeccompProfile = ''p.json'', scNoNewPrivs = True,
     scDropCaps = [''ALL''], scRequireSeccomp = False, scRequireNoNewPrivs = False, scRequireUser = False,
     scRequireDropCaps = False, scRequireOnWrite = False, scRequireEgressAllowlist = False, scMaxOutputBytes = 0\<rparr>"

definition exConfig :: Config where
  "exConfig = \<lparr>cfGateway = projr (decodeGatewayConfig (GMap [(''http_addr'', GStr '':8080'')])),
     cfContext = projr (decodeContextConfig GNil), cfToolRouter = projr (decodeToolRouterConfig GNil),
     cfPolicy = projr (decodePolicyConfig GNil), cfLLM = projr (decodeLLMConfig GNil),
     cfOrchestrator = projr (decodeOrchestratorConfig GNil),
     cfStorage = projr (decodeStorageConfig (GMap [(''postgres_dsn'', GStr ''dsn'')])), cfSandbox = exSandboxConfig,
     cfScheduler = projr (decodeSchedulerConfig GNil), cfConnectors = projr (decodeConnectorsConfig GNil),
     cfChatOps = projr (decodeChatOpsConfig GNil), cfApprovals = projr (decodeApprovalsConfig GNil)\<rparr>"

text \<open>A missing section or field has its zero value.\<close>

lemma decode_missing:
  "jsonField [] k = None" "decodeSlice f (orNull None) = Inr []" "decodeMapOf f None = Inr []" "orNull None = GNil"
  "decodeBool None = Inr False"
  by (simp_all add: jsonField_def decodeMapOf_def orNull_def decodeBool_def)

text \<open>The keys are lower case, so a field is found by its exact name.\<close>

lemma jsonField_lower:
  assumes "list_all (\<lambda>k'. ToLower k' = k') (map fst m)" "ToLower k = k"
  shows "jsonField m k = map_of m k"
  using assms by (intro jsonField_exact) (auto simp: list_all_iff EqualFold_def)

lemma ex_keys:
  "list_all (\<lambda>k. ToLower k = k)
    [''http_addr'', ''ws_addr'', ''canvas_addr'', ''oidc_issuer'', ''oidc_client_id'', ''oidc_jwks_url'',
     ''jwks_cache_ttl_secs'', ''dev_mode'', ''enable_event_loop'', ''event_loop_sources'',
     ''session_required'', ''alert_poll_interval_secs'', ''alert_dedup_window_secs'',
     ''event_gate_window_secs'', ''event_gate_backoff_secs'', ''event_gate_min_count'',
     ''event_gate_severities'', ''postgres_dsn'', ''max_open_conns'', ''max_idle_conns'',
     ''conn_max_lifetime'', ''object_store'', ''workspace_dir'', ''enabled'', ''enforce'', ''image'',
     ''runtime'', ''egress_allowlist'', ''mounts'', ''read_only_root'', ''tmpfs'', ''user'',
     ''seccomp_profile'', ''no_new_privs'', ''drop_caps'', ''require_seccomp'', ''require_no_new_privs'',
     ''require_user'', ''require_drop_caps'', ''require_on_write'', ''require_egress_allowlist'',
     ''max_output_bytes'', ''gateway'', ''context'', ''tool_router'', ''policy'', ''llm'', ''orchestrator'',
     ''storage'', ''sandbox'', ''scheduler'', ''connectors'', ''chatops'', ''approvals'']"
  by (simp add: ToLower_def lowerChar_def)

lemmas ex_fields = decode_missing jsonField_lower ex_keys [simplified]
lemmas ex_decoders = decodeGatewayConfig_def decodeContextConfig_def decodeToolRouterConfig_def decodePolicyConfig_def
  decodeLLMConfig_def decodeOrchestratorConfig_def decodeStorageConfig_def decodeSchedulerConfig_def
  decodeConnectorsConfig_def decodeChatOpsConfig_def decodeApprovalsConfig_def
  decodeAWSConfig_def decodeVaultConfig_def decodeK8sConfig_def decodeBoundaryConfig_def decodeArgoCDConfig_def
  decodePrometheusConfig_def decodeAlertmanagerConfig_def decodeThanosConfig_def decodeGrafanaConfig_def
  decodeTempoConfig_def decodeLinearConfig_def decodePagerDutyConfig_def decodeObjectStoreConfig_def

lemma ex_zero:
  "isOk (decodeContextConfig GNil)" "isOk (decodeToolRouterConfig GNil)" "isOk (decodePolicyConfig GNil)"
  "isOk (decodeLLMConfig GNil)" "isOk (decodeOrchestratorConfig GNil)" "isOk (decodeSchedulerConfig GNil)"
  "isOk (decodeChatOpsConfig GNil)"
  by (simp_all add: ex_decoders decode_missing)

lemma ex_sections:
  "isOk (decodeGatewayConfig (GMap [(''http_addr'', GStr '':8080'')]))"
  "isOk (decodeStorageConfig (GMap [(''postgres_dsn'', GStr ''dsn'')]))"
  "isOk (decodeConnectorsConfig GNil)" "isOk (decodeApprovalsConfig GNil)"
  by (simp_all add: ex_decoders ex_fields)

lemma ex_sandboxDoc: "decodeSandboxConfig (GMap exSandboxDoc) = Inr exSandboxConfig"
  by (simp add: decodeSandboxConfig_def exSandboxDoc_def exSandboxConfig_def ex_fields orNull_def decodeStrV_def decodeBool_def)

lemma ex_sectionDocs:
  "map (\<lambda>k. orNull (jsonField exConfigDoc k)) [''gateway'', ''context'', ''tool_router'', ''policy'', ''llm'', ''orchestrator'',
     ''storage'', ''sandbox'', ''scheduler'', ''connectors'', ''chatops'', ''approvals''] =
   [GMap [(''http_addr'', GStr '':8080'')], GNil, GNil, GNil, GNil, GNil, GMap [(''postgres_dsn'', GStr ''dsn'')],
    GMap exSandboxDoc, GNil, GNil, GNil, GNil]"
  by (simp add: exConfigDoc_def ex_fields orNull_def)

lemma bindR_isOk: "isOk x \<Longrightarrow> bindR x f = f (projr x)"
  by (auto simp: isOk_iff)

lemma ex_decoded: "decodeConfig (GMap exConfigDoc) = Inr exConfig"
  using ex_sectionDocs unfolding decodeConfig_def exConfig_def
  by (simp add: ex_sandboxDoc ex_sections [THEN bindR_isOk] ex_zero [THEN bindR_isOk])

lemma ex_gateway:
  "\<exists>g. cfGateway exConfig = g \<and> gcHTTPAddr g = '':8080'' \<and> gcOIDCIssuer g = [] \<and> gcOIDCClientID g = [] \<and> gcOIDCJWKSURL g = []"
  by (simp add: exConfig_def decodeGatewayConfig_def ex_fields)

lemma ex_connectors:
  "\<exists>c. cfConnectors exConfig = c \<and> connectorAddrs c = map (\<lambda>tool. (''connectors.'' @ tool, [], [])) apiTools \<and>
     vaAddr (cnVault c) = [] \<and> \<not> vaAuditEnable (cnVault c) \<and> boTargetID (cnBoundary c) = []"
  by (simp add: exConfig_def ex_decoders decode_missing connectorAddrs_def apiTools_def)

lemma ex_validated: "Validate exConfig = Inr ()"
proof -
  have "validateConnectors (connectorAddrs (cfConnectors exConfig)) = Inr ()"
    using ex_connectors by (auto simp: validateConnectors_ok)
  moreover have "stPostgresDSN (cfStorage exConfig) \<noteq> []" "cfToolRouter exConfig = projr (decodeToolRouterConfig GNil)"
    "lcProvider (cfLLM exConfig) = []"
    by (simp_all add: exConfig_def decodeStorageConfig_def decodeObjectStoreConfig_def decodeLLMConfig_def ex_fields)
  moreover have "\<exists>t. projr (decodeToolRouterConfig GNil) = t \<and> trOIDCIssuer t = [] \<and> trOIDCClientID t = [] \<and> trOIDCJWKSURL t = []"
    by (simp add: decodeToolRouterConfig_def decode_missing)
  moreover have "validateSandbox (cfSandbox exConfig) = Inr ()" unfolding exConfig_def Config.simps by code_simp
  moreover have "TrimSpace '':8080'' \<noteq> []" by code_simp
  ultimately show ?thesis
    using ex_gateway by (auto simp: Validate_def require_def validateOIDC_def validateLLM_def)
qed

definition exHttpEnv :: HttpEnv where
  "exHttpEnv = \<lparr>htHost = (\<lambda>_. Some ''prom''), htMarshal = (\<lambda>_. Inr ''{}''), htRead = (\<lambda>_. Inl ''no file''),
     htBasic = (\<lambda>u _. u), htSend = (\<lambda>_ _ _ _. Inr ''up'')\<rparr>"

definition exMainEnv :: MainEnv where
  "exMainEnv = \<lparr>mnRead = (\<lambda>_. Inr ''config''), mnRouter = exRouterEnv\<lparr>renvUnmarshal := (\<lambda>_. Some (GMap exConfigDoc))\<rparr>,
     mnHttp = exHttpEnv, mnCompile = (\<lambda>_. None),
     mnAgent = \<lparr>agOnPath = (\<lambda>_. False), agTempDir = Inl ''no directory'', agWrite = (\<lambda>_. None), agStart = (\<lambda>_. None)\<rparr>,
     mnOpa = (\<lambda>_ _. Inr (plainDecision ''allow'')), mnAuth = exAuthEnv, mnFetch = exFetch, mnNow = 0, mnStamp = [],
     mnResources = GNil, mnPrompts = GNil\<rparr>"

lemma ex_loaded: "LoadConfig (mnRead exMainEnv) (renvUnmarshal (mnRouter exMainEnv)) ''config.json'' = Inr exConfig"
  by (simp add: LoadConfig_def exMainEnv_def ex_decoded ex_validated)

lemma ex_started: "runMain exMainEnv (Inr ''config.json'') keys = Inr (serveConfig exMainEnv keys exConfig)"
  by (simp add: runMain_def ex_loaded)

lemma ex_startAll: "startAll exMainEnv exConfig = ((configSandbox exConfig, NewRouter), None)"
  using ex_connectors by (auto simp: startAll_def startVault_def enableAudit_def openSession_def Let_def)

lemma ex_sandbox:
  "sandboxChecks (configSandbox exConfig) = Inr ()" "Enforce (configSandbox exConfig)" "User (configSandbox exConfig) = ''app''"
  "isOk (containerArgs (renvOS exRouterEnv) (configSandbox exConfig) ''docker'' [''kubectl''])"
proof -
  show "Enforce (configSandbox exConfig)" "User (configSandbox exConfig) = ''app''"
    by (simp_all add: configSandbox_def exConfig_def exSandboxConfig_def Let_def)
  show "sandboxChecks (configSandbox exConfig) = Inr ()"
    "isOk (containerArgs (renvOS exRouterEnv) (configSandbox exConfig) ''docker'' [''kubectl''])"
    unfolding configSandbox_def maxOutputOf_def exConfig_def Config.simps Let_def by code_simp+
qed

section \<open>A Slack command\<close>

definition exSlack :: SlackHandler where
  "exSlack = \<lparr>SigningSecret = ''key'', slHasClient = True, slBaseURL = ''http://gw'', slToken = ''tok'', slNow = 1000,
     slMac = (\<lambda>_ _. ''s''), slMarshal = (\<lambda>_. Inr ''{}''), slUnmarshal = (\<lambda>_. None), slParse = (\<lambda>u. Inr (u, [])),
     slURL = (\<lambda>front path q. front @ path), slSend = (\<lambda>_ _ _ _. Inr (200, ''done''))\<rparr>"

definition exSlackRequest :: Request where
  "exSlackRequest = \<lparr>rqMethod = ''POST'', rqPath = ''/slack'', rqHeaders = [(''X-Slack-Request-Timestamp'', ''990''),
     (''X-Slack-Signature'', ''v0=73'')], rqQuery = [], rqBody = ''text=status+e1'', rqActor = None\<rparr>"

lemma ex_slack:
  "snd (slackServeHTTP exSlack exSlackRequest) =
   [(''GET'', ''http://gw/v1/executions/e1'', [(''Authorization'', ''Bearer tok'')], [])]"
  by code_simp

section \<open>A credential file\<close>

text \<open>Instants are written in unary, and one document has a text.\<close>

definition exWriteTime :: "int option \<Rightarrow> string" where
  "exWriteTime t =
    (case t of
       None \<Rightarrow> []
     | Some i \<Rightarrow> if 0 \<le> i then CHR ''+'' # replicate (nat i) CHR ''1'' else CHR ''-'' # replicate (nat (- i)) CHR ''1'')"

definition exReadTime :: "string \<Rightarrow> int option result" where
  "exReadTime s =
    (case s of
       [] \<Rightarrow> Inr None
     | c # cs \<Rightarrow> Inr (Some (if c = CHR ''+'' then int (length cs) else - int (length cs))))"

definition exProfile :: AuthProfile where
  "exProfile = \<lparr>ApID = ''openai-codex:manual'', ApProvider = ''openai-codex'', ApAccount = [], ApAccess = ''secret'',
     ApRefresh = [], ApExpires = Some 7, ApSource = ''manual''\<rparr>"

definition exProfilesDoc :: gval where
  "exProfilesDoc = GMap [(''defaults'', GMap [(''openai-codex'', GStr ''openai-codex:manual'')]),
     (''profiles'', GList [GMap [(''id'', GStr ''openai-codex:manual''), (''provider'', GStr ''openai-codex''),
        (''access_token'', GStr ''secret''), (''expires_at'', GStr ''+1111111''), (''source'', GStr ''manual'')]])]"

definition exLlmEnv :: LlmEnv where
  "exLlmEnv = \<lparr>leGetenv = (\<lambda>_. []), leHome = Inr ''/home'',
     leUnmarshal = (\<lambda>s. if s = ''doc'' then Some exProfilesDoc else None),
     leMarshal = (\<lambda>v. if v = exProfilesDoc then Inr ''doc'' else Inl ''unsupported''),
     lePost = (\<lambda>_ _ _. Inl ''offline''), leNow = 0, leParseTime = exReadTime, leShowTime = exWriteTime,
     leReplace = (\<lambda>_ s _. Some s), leReadFault = (\<lambda>_. None), leWriteFault = (\<lambda>_. None), leGlob = (\<lambda>_. []),
     leModTime = (\<lambda>_. None)\<rparr>"

lemma ex_time: "leParseTime exLlmEnv (leShowTime exLlmEnv t) = Inr t"
  by (simp add: exLlmEnv_def exWriteTime_def exReadTime_def split: option.split)

lemma ex_json: "leMarshal exLlmEnv v = Inr s \<Longrightarrow> s \<noteq> [] \<and> leUnmarshal exLlmEnv s = Some v"
  by (simp add: exLlmEnv_def split: if_splits)

lemma ex_stored: "storeAuthProfile exLlmEnv exProfile ''auth.json'' True Map.empty = (Inr (), [''auth.json'' \<mapsto> ''doc''])"
proof -
  have path: "TrimSpace ''auth.json'' \<noteq> []" "TrimSpace (ApID exProfile) \<noteq> []" by code_simp+
  let ?ps = "\<lparr>ApDefaults = [(''openai-codex'', ''openai-codex:manual'')], ApProfiles = [exProfile]\<rparr>"
  have "exWriteTime (Some 7) = ''+1111111''" by code_simp
  then have "profilesDoc exLlmEnv ?ps = exProfilesDoc"
    by (simp add: profilesDoc_def profileDoc_def omitEmpty_def exProfile_def exProfilesDoc_def exLlmEnv_def)
  then have "leMarshal exLlmEnv (profilesDoc exLlmEnv ?ps) = Inr ''doc''" by (simp add: exLlmEnv_def)
  moreover have "setDefaultProfile exProfile \<lparr>ApDefaults = [], ApProfiles = [exProfile]\<rparr> = ?ps"
    by (simp add: setDefaultProfile_def exProfile_def)
  moreover have "leReadFault exLlmEnv p = None" "leWriteFault exLlmEnv p = None" for p by (simp_all add: exLlmEnv_def)
  ultimately show ?thesis using path
    by (simp add: storeAuthProfile_def LoadAuthProfiles_def SaveAuthProfiles_def pathOr_def readFile_def UpsertProfile_def)
qed

section \<open>A command line and a collection of diagnostics\<close>

definition exCliEnv :: CliEnv where
  "exCliEnv = \<lparr>clRead = (\<lambda>_. Inl ''no file''), clUnmarshal = (\<lambda>_. None), clMarshal = (\<lambda>_. Inr ''{}''), clParse = (\<lambda>u. Inr (u, [])),
     clURL = (\<lambda>front path q. front @ path), clSend = (\<lambda>_ _ _ _. Inr (200, ''[]'')), clValid = (\<lambda>_ _. True),
     clOpa = \<lparr>opMarshal = (\<lambda>_. Inr ''{}''), opDecode = (\<lambda>_. None), opPost = (\<lambda>_ _. Inl ''offline'')\<rparr>,
     clReplay = (\<lambda>_. None), clEncode = (\<lambda>_. []), clVersion = ''1'', clCommit = []\<rparr>"

lemma ex_cli: "\<exists>q. snd (runPlaybookList exCliEnv [''-gateway'', ''http://gw'']) = [q]"
proof -
  have "length (snd (runPlaybookList exCliEnv [''-gateway'', ''http://gw''])) = 1" by code_simp
  then show ?thesis by (simp add: length_Suc_conv)
qed

definition exDiag :: DiagEnv where
  "exDiag = \<lparr>dgRouter = None, dgRun = (\<lambda>_ _. ([], Some ''no aws'')), dgStore = None, dgTTL = 0, dgStart = ''0'', dgEnd = ''60'',
     dgStamp = (\<lambda>_. [])\<rparr>"

end
