(* ===== verification/Activities.thy ===== *)
theory Activities
  imports Temporal
begin

text \<open>
  \<open>internal/workflows/activities.go\<close>: the activities of the direct workflows, one function each, \<open>starter.go\<close>:
  how the gateway hands an execution to Temporal, and \<open>internal/audit/audit.go\<close>: the optional store of events and
  evidence. The direct workflows of \<open>Temporal\<close> are shown to be the compositions of these activities.
\<close>

section \<open>Activities\<close>

type_synonym task = "(World, unit) op"

definition noResult :: "(World, 'a) op \<Rightarrow> task" where
  "noResult m = bindS m (\<lambda>_. okS ())"

definition QueryPrometheusActivity :: "Executor \<Rightarrow> string \<Rightarrow> (World, string) op" where
  "QueryPrometheusActivity e q = runToolActivity e ''prometheus'' ''query'' (GMap [(''query'', GStr q)])"

definition QueryTempoActivity :: "Executor \<Rightarrow> string \<Rightarrow> (World, string) op" where
  "QueryTempoActivity e q = runToolActivity e ''tempo'' ''query'' (GMap [(''query'', GStr q)])"

definition ArgoSyncActivity :: "Executor \<Rightarrow> string \<Rightarrow> task" where
  "ArgoSyncActivity e app = noResult (RunCLI e ''argocd'' ''sync'' (GMap [(''app'', GStr app)]))"

definition ArgoSyncDryRunActivity :: "Executor \<Rightarrow> string \<Rightarrow> task" where
  "ArgoSyncDryRunActivity e app = noResult (RunCLI e ''argocd'' ''sync-dry-run'' (GMap [(''app'', GStr app)]))"

definition ArgoSyncPreviewActivity :: "Executor \<Rightarrow> string \<Rightarrow> task" where
  "ArgoSyncPreviewActivity e app = noResult (RunCLI e ''argocd'' ''sync-preview'' (GMap [(''app'', GStr app)]))"

definition ArgoWaitActivity :: "Executor \<Rightarrow> string \<Rightarrow> task" where
  "ArgoWaitActivity e app = noResult (RunCLI e ''argocd'' ''wait'' (GMap [(''app'', GStr app)]))"

definition ArgoRollbackActivity :: "Executor \<Rightarrow> string \<Rightarrow> string \<Rightarrow> task" where
  "ArgoRollbackActivity e app revision =
     noResult (RunCLI e ''argocd'' ''rollback''
       (GMap ((''app'', GStr app) # (if revision \<noteq> [] then [(''revision'', GStr revision)] else []))))"

definition HelmStatusActivity :: "Executor \<Rightarrow> string \<Rightarrow> (World, string) op" where
  "HelmStatusActivity e release = RunCLI e ''helm'' ''status'' (GMap [(''release'', GStr release)])"

definition HelmUpgradeActivity :: "Executor \<Rightarrow> string \<Rightarrow> task" where
  "HelmUpgradeActivity e release = noResult (RunCLI e ''helm'' ''upgrade'' (GMap [(''release'', GStr release)]))"

definition HelmRollbackActivity :: "Executor \<Rightarrow> string \<Rightarrow> task" where
  "HelmRollbackActivity e release = noResult (RunCLI e ''helm'' ''rollback'' (GMap [(''release'', GStr release)]))"

definition KubectlScaleActivity :: "Executor \<Rightarrow> string \<Rightarrow> int \<Rightarrow> task" where
  "KubectlScaleActivity e resource replicas =
     noResult (RunCLI e ''kubectl'' ''scale'' (GMap [(''resource'', GStr resource), (''replicas'', GInt replicas)]))"

definition KubectlRolloutStatusActivity :: "Executor \<Rightarrow> string \<Rightarrow> task" where
  "KubectlRolloutStatusActivity e resource =
     noResult (RunCLI e ''kubectl'' ''rollout-status'' (GMap [(''resource'', GStr resource)]))"

definition CreateGrafanaAnnotationActivity :: "Executor \<Rightarrow> string \<Rightarrow> task" where
  "CreateGrafanaAnnotationActivity e payload = noResult (runToolActivity e ''grafana'' ''annotate'' (GBytes payload))"

definition DeleteGrafanaDashboardActivity :: "Executor \<Rightarrow> string \<Rightarrow> task" where
  "DeleteGrafanaDashboardActivity e uid =
     noResult (runToolActivity e ''grafana'' ''dashboard_delete'' (GMap [(''uid'', GStr uid)]))"

definition CreateLinearIssueActivity :: "Executor \<Rightarrow> string \<Rightarrow> (World, string) op" where
  "CreateLinearIssueActivity e payload = runToolActivity e ''linear'' ''create'' (GBytes payload)"

definition CreatePagerDutyIncidentActivity :: "Executor \<Rightarrow> string \<Rightarrow> (World, string) op" where
  "CreatePagerDutyIncidentActivity e payload = runToolActivity e ''pagerduty'' ''create'' (GBytes payload)"

definition CreateGitPullRequestActivity :: "Executor \<Rightarrow> string \<Rightarrow> (World, string) op" where
  "CreateGitPullRequestActivity e payload = runToolActivity e ''github'' ''pr'' (GBytes payload)"

definition CreateGitLabMergeRequestActivity :: "Executor \<Rightarrow> string \<Rightarrow> (World, string) op" where
  "CreateGitLabMergeRequestActivity e payload = runToolActivity e ''gitlab'' ''mr'' (GBytes payload)"

definition PromRulesActivity :: "Executor \<Rightarrow> (World, string) op" where
  "PromRulesActivity e = runToolActivity e ''prometheus'' ''rules'' (GMap [])"

definition PromQueryRangeActivity :: "Executor \<Rightarrow> string \<Rightarrow> string \<Rightarrow> string \<Rightarrow> string \<Rightarrow> (World, string) op" where
  "PromQueryRangeActivity e q start stop step =
     runToolActivity e ''prometheus'' ''query_range''
       (GMap [(''query'', GStr q), (''start'', GStr start), (''end'', GStr stop), (''step'', GStr step)])"

definition TempoTraceByIDActivity :: "Executor \<Rightarrow> string \<Rightarrow> (World, string) op" where
  "TempoTraceByIDActivity e traceID = runToolActivity e ''tempo'' ''trace_by_id'' (GMap [(''trace_id'', GStr traceID)])"

definition VaultRenewActivity :: "Executor \<Rightarrow> string \<Rightarrow> task" where
  "VaultRenewActivity e leaseID = noResult (runToolActivity e ''vault'' ''renew'' (GMap [(''lease_id'', GStr leaseID)]))"

definition VaultRevokeActivity :: "Executor \<Rightarrow> string \<Rightarrow> task" where
  "VaultRevokeActivity e leaseID = noResult (runToolActivity e ''vault'' ''revoke'' (GMap [(''lease_id'', GStr leaseID)]))"

section \<open>Handing over an execution\<close>

text \<open>The steps of the gateway and of the workflows are one type here; the preconditions keep their elements.\<close>

definition convertPlanSteps :: "PlanStep list \<Rightarrow> PlanStep list" where
  "convertPlanSteps steps =
     map (\<lambda>s. \<lparr>StepID = StepID s, Stage = Stage s, StepAction = StepAction s, StepTool = StepTool s,
               StepInput = StepInput s, Preconditions = Preconditions s, Rollback = Rollback s\<rparr>) steps"

text \<open>\<open>ExecuteWorkflow\<close> of the Temporal client is the parameter \<open>start\<close>, with the workflow's identifier and input.\<close>

definition StartExecution ::
  "(string \<Rightarrow> PlanExecutionInput \<Rightarrow> string result) option \<Rightarrow> string \<Rightarrow> string \<Rightarrow> ContextRef \<Rightarrow> PlanStep list \<Rightarrow> string result" where
  "StartExecution start planID executionID ctxRef steps =
    (case start of
       None \<Rightarrow> Inl ''temporal client required''
     | Some run \<Rightarrow>
        if executionID = [] then Inl ''execution_id required''
        else run (''exec-'' @ executionID)
               \<lparr>PePlanID = planID, PeExecutionID = executionID, PeContext = contextToTools ctxRef,
                PeSteps = convertPlanSteps steps\<rparr>)"

section \<open>The audit store\<close>

definition AppendEvent :: "bool \<Rightarrow> (string \<Rightarrow> nat result) \<Rightarrow> gval option \<Rightarrow> (DB, unit) op" where
  "AppendEvent hasDB parseTime payload =
    (if \<not> hasDB then okS () else bindS (InsertAuditEvent parseTime payload) (\<lambda>_. okS ()))"

definition StoreEvidence :: "bool \<Rightarrow> (string \<Rightarrow> nat result) \<Rightarrow> string \<Rightarrow> gval option \<Rightarrow> (DB, unit) op" where
  "StoreEvidence hasDB parseTime executionID payload =
    (if \<not> hasDB then okS ()
     else if executionID = [] then failS ''execution_id required''
     else bindS (InsertEvidence parseTime executionID payload) (\<lambda>_. okS ()))"

section \<open>The direct workflows use the activities\<close>

lemma andThen_noResult: "andThen (noResult m) f = andThen m f"
  by (rule ext) (simp add: andThen_def noResult_def bindS_def okS_def split: prod.split sum.split)

lemma ignoring_noResult: "ignoring (noResult m) f = ignoring m f"
  by (rule ext) (simp add: ignoring_def noResult_def dropS_def bindS_def okS_def split: prod.split sum.split)

lemma onError_noResult: "andThen (onError (noResult m) r) f = andThen (onError m r) f"
  by (rule ext) (simp add: andThen_def onError_def noResult_def bindS_def okS_def split: prod.split sum.split)

lemma GitOpsDeploy_activities:
  "GitOpsDeployWorkflow e inp =
    (let app = DeArgoCDApp inp; rev = DeRevision inp; rollback = (if rev \<noteq> [] then ArgoRollbackActivity e app rev else okS ()) in
     andThen (RequireApproval (DePlanID inp))
       (andThen (ArgoSyncDryRunActivity e app)
         (ignoring (ArgoSyncPreviewActivity e app)
           (andThen (onError (ArgoSyncActivity e app) rollback)
             (andThen (onError (ArgoWaitActivity e app) rollback) (okS ()))))))"
  unfolding GitOpsDeployWorkflow_def ArgoSyncDryRunActivity_def ArgoSyncPreviewActivity_def ArgoSyncActivity_def
    ArgoWaitActivity_def andThen_noResult ignoring_noResult onError_noResult Let_def
  by (simp add: ArgoRollbackActivity_def noResult_def)

lemma SecretRotation_activities:
  "SecretRotationWorkflow e inp =
    andThen (RequireApproval (SePlanID inp))
      (if SeSecretPath inp = [] then okS ()
       else ignoring (VaultRenewActivity e (SeSecretPath inp)) (ignoring (VaultRevokeActivity e (SeSecretPath inp)) (okS ())))"
  by (simp add: SecretRotationWorkflow_def VaultRenewActivity_def VaultRevokeActivity_def ignoring_noResult)

lemma convertPlanSteps_id: "convertPlanSteps steps = steps"
  unfolding convertPlanSteps_def
proof (rule map_idI)
  fix s :: PlanStep
  show "\<lparr>StepID = StepID s, Stage = Stage s, StepAction = StepAction s, StepTool = StepTool s, StepInput = StepInput s,
    Preconditions = Preconditions s, Rollback = Rollback s\<rparr> = s"
    by (cases s) simp
qed

text \<open>What is started is the execution of the plan that was asked for, with its steps in order.\<close>

lemma StartExecution_ok:
  assumes "StartExecution (Some run) planID executionID ctxRef steps = Inr runID"
  shows "\<exists>input. run (''exec-'' @ executionID) input = Inr runID \<and> PePlanID input = planID \<and> PeExecutionID input = executionID \<and>
    PeExecutionID input \<noteq> [] \<and> PeSteps input = steps"
  using assms by (auto simp: StartExecution_def convertPlanSteps_id split: if_splits)

end
