(* ===== verification/Spec2Isabelle.thy ===== *)
theory Spec2Isabelle
  imports Program_Examples Activities Tool_Api Tool_Artifacts Hubs Tenancy
begin

text \<open>
  A verification development of carapulse, an operations assistant: a gateway that turns intents,
  alerts, webhooks and schedules into plans, has risky plans approved, and has their steps run by
  tools behind a policy and a sandbox. The sources are under \<open>src/\<close>; the theories translate the Go
  code of \<open>src/internal\<close> and \<open>src/cmd\<close> function by function.

  \<^bold>\<open>Parts and theories.\<close>
  \<^item> Go itself: \<open>Go_Strings\<close> (strings, trimming, case, splitting), \<open>Go_Values\<close> (values of type \<open>any\<close>,
    context references, plan steps), \<open>Go_Effects\<close> (results, state passing \<open>bindS\<close>, decoding of JSON
    into structs, preservation), \<open>Go_Base64\<close> (URL-safe base64, big-endian numbers), \<open>Go_Path\<close>
    (\<open>filepath\<close>), \<open>Go_Flags\<close> (\<open>flag\<close>), \<open>Go_Regexp\<close> (the regular expressions used, as a matcher proved sound and
    complete for their languages, and \<open>ReplaceAllString\<close>).
  \<^item> \<open>internal/tools\<close>: \<open>Tool_Registry\<close> (\<open>registry.go\<close>, \<open>sanitize.go\<close>), \<open>Tool_Commands\<close> (\<open>commands.go\<close>),
    \<open>Tool_Validate\<close> (\<open>validate.go\<close>, \<open>schema.go\<close>), \<open>Tool_Policy\<close> (\<open>policy_helpers.go\<close>, \<open>authorize\<close>),
    \<open>Tool_Sandbox\<close> (\<open>sandbox.go\<close>, \<open>egress_proxy.go\<close>), \<open>Tool_Artifacts\<close> (\<open>artifacts.go\<close>, \<open>helm_values.go\<close>),
    \<open>Tool_Api\<close> (\<open>api_exec.go\<close>, \<open>api_fallbacks.go\<close>), \<open>Tool_Router\<close> (\<open>router_exec.go\<close>, \<open>logs.go\<close>), \<open>Tool_Server\<close>
    (\<open>tool_router_server.go\<close>, \<open>auth_context.go\<close>), \<open>Tool_Clients\<close> (\<open>APIClient.Do\<close>, \<open>clients_builder.go\<close>,
    \<open>egress_proxy.go\<close>, \<open>router_client.go\<close>), \<open>Tool_Redact\<close> (\<open>redact.go\<close>), \<open>Tool_Resources\<close>
    (\<open>resources.go\<close>, \<open>resources_loader.go\<close>).
  \<^item> \<open>internal/config\<close>: \<open>Config\<close> (every section, its decoder, \<open>Validate\<close>, \<open>LoadConfig\<close>).
  \<^item> \<open>internal/llm\<close>: \<open>Llm_Prompt\<close> (sanitising, injection patterns, \<open>buildPrompt\<close>), \<open>Llm\<close> (credential profiles and
    their import), \<open>Llm_Client\<close> (the providers, \<open>Router.Plan\<close>).
  \<^item> \<open>internal/secrets\<close>: \<open>Secrets\<close>; \<open>internal/policy\<close>: \<open>Opa\<close>; \<open>internal/chatops\<close>: \<open>Slack\<close>.
  \<^item> \<open>internal/auth\<close>: \<open>Auth\<close> (bearer tokens, claims, RS256), \<open>Jwks_Cache\<close> (the cache of key sets with its
    background refresh).
  \<^item> \<open>internal/db\<close>: \<open>Store\<close> (tables, statements, transactions), \<open>Store_Reach\<close> (sequences of statements),
    \<open>Library_Store\<close> (playbooks, runbooks, operator memory, workflow versions).
  \<^item> \<open>internal/workflows\<close>: \<open>Executor\<close>, \<open>Executor_Live\<close> (the polling worker), \<open>Workflow_Catalog\<close>
    (templates), \<open>Temporal\<close> (workflows and their engine), \<open>Activities\<close> (\<open>activities.go\<close>, \<open>starter.go\<close>,
    \<open>audit.go\<close>).
  \<^item> \<open>internal/web\<close>: \<open>Plan_Risk\<close>, \<open>Plan_Constraints\<close>, \<open>Tenancy\<close>, \<open>Hubs\<close> (\<open>events.go\<close>), \<open>Gateway\<close> (policy,
    sessions, audit, approvals), \<open>Plan_Api\<close> (handlers of plans, approvals, schedules, executions),
    \<open>Event_Loop\<close> (\<open>event_loop.go\<close>, \<open>event_gate.go\<close>, webhooks), \<open>Scheduler\<close>, \<open>Alert_Poller\<close>.
    \<open>Handler_Logic\<close> has the parts the other handlers share and the rules (\<open>outcome\<close>) by which their
    replies are described; \<open>Library_Api\<close> (playbooks, runbooks, operator memory), \<open>Session_Api\<close>, \<open>Workflow_Api\<close>,
    \<open>Context_Api\<close> (services, snapshots and their differences, graph, refresh), \<open>Audit_Trail\<close>, \<open>Streams\<close> (\<open>ws.go\<close>,
    \<open>sse.go\<close>), \<open>Rate_Limit\<close>; \<open>Gateway_Server\<close> puts them behind authentication and routes (\<open>auth.go\<close>,
    \<open>registerRoutes\<close>, \<open>health.go\<close>); \<open>Diagnostics\<close> (\<open>diagnostics.go\<close>, \<open>storage/object_store.go\<close>).
  \<^item> \<open>internal/context\<close>: \<open>Context_Graph\<close> (\<open>service.go\<close>, \<open>db/context.go\<close>), \<open>Collectors\<close> (all pollers and
    watchers).
  \<^item> \<open>internal/approvals\<close>: \<open>Approval_Watcher\<close> (\<open>linear.go\<close>, \<open>watcher.go\<close>).
  \<^item> \<open>cmd\<close>: \<open>Tool_Main\<close> (tool-router), \<open>Orchestrator_Main\<close>, \<open>Gateway_Main\<close>, \<open>Cli\<close> and \<open>Cli_Auth\<close> (assistantctl),
    \<open>Programs\<close> (agent, sandbox-exec, migrate): what each builds from its flags and configuration, what it sends and starts.
  \<^item> \<open>Examples\<close>, \<open>Service_Examples\<close>, \<open>Gateway_Examples\<close> and \<open>Program_Examples\<close> hold the concrete states of the witnesses.

  \<^bold>\<open>How they interact.\<close> A handler of the gateway runs on a state \<open>Gateway\<close> (database, event hub,
  issues opened, workflows started) and composes statements of \<open>Store\<close> with the decisions of
  \<open>Gateway\<close>, \<open>Plan_Risk\<close> and \<open>Plan_Constraints\<close>. Pending executions are taken up by \<open>Executor\<close>, which
  calls \<open>Tool_Router.Execute\<close>; the tool router service calls the same function for remote callers
  after \<open>Auth\<close> and \<open>Tool_Policy\<close>. \<open>Event_Loop\<close>, \<open>Scheduler\<close> and \<open>Alert_Poller\<close> create plans through \<open>Store\<close>,
  and \<open>Approval_Watcher\<close> copies decisions from the issue tracker into it. The programs under \<open>cmd\<close> read a
  \<open>Config\<close> and put the parts together; their clients (\<open>Slack\<close>, \<open>Cli\<close>) return the requests they send, which the
  gateway's handlers take. Errors are values: a Go
  function returning \<open>(T, error)\<close> is a \<open>T result\<close> or, with state, a \<open>(state, T) op\<close>.

  \<^bold>\<open>Parameters.\<close> What is not in the repository is an argument: the policy checker, the JSON parser
  and printer, SHA-256, RSA verification, the JSON-schema library, the cron library, processes and
  the network, the answers of language models, the migration library, the Temporal engine (constrained by its retry policy), the clock of a
  database (a function of the number of reads) and the failure of its statements (a function of the
  number of statements). A map that Go iterates in random order takes the order as an argument
  where it matters.

  \<^bold>\<open>Bounds and fuel.\<close> No definition uses fuel to stand for termination: loops over data are
  structural, the polling loops (\<open>Executor.pollLoop\<close>, \<open>Scheduler.RunScheduler\<close>) recurse over the ticks
  they are given. Durations and the back-off of the key cache are \<open>int\<close> with the wrap-around of
  \<open>int64\<close> written out; floats read from JSON are rationals.

  \<^bold>\<open>Interfaces as locales.\<close> \<open>arg_builder\<close> (command builders), \<open>pubsub\<close> (event and log hubs),
  \<open>tenant_filter\<close>, \<open>collector\<close> and \<open>valid_collector\<close> state what the clients rely on; each is interpreted on
  the functions of the code.

  \<^bold>\<open>What is shown.\<close> The properties below: execution only of allowed plans, in order, with failures
  rolled back and recorded; safe command lines and hardened containers; approval before effect in
  the workflows; a router started from an enforcing configuration never runs a command on the host and calls
  only allowlisted connectors, in both programs that build one; prompts without injection patterns, signed Slack requests,
  diagnostics that only read, credentials that survive their file; integrity of the stored data and atomicity of its transactions; authentication of
  the gateway and of the tool service; replies that stay within the tenant; alerts, webhooks and schedules create plans and nothing more; approvals only
  from labelled issues; equivalence of the two copies of the workflow catalogue; refinement of the
  event gate. Further lemmas of the theories: the risk of a plan is a maximum, the log history is the last
  lines, the key refresh backs off, tokens, form bodies and websocket frames round-trip, each command of assistantctl sends at
  most one request, seeding adds missing templates only.

  \<^bold>\<open>Not modelled.\<close> The text of the HTML pages (\<open>ui.go\<close>), the end-to-end test program (\<open>cmd/e2e\<close>), logging and
  metrics, the goroutines of the programs and their shutdown. Timeouts of steps and concurrency inside one
  component are not modelled: an operation is one atomic function of its state, and the interleaving
  of components is a sequence of operations.
\<close>



text \<open>
  (C2) A refused execute request changes neither the tables (apart from the audit log) nor the
  approvals opened nor the workflows started.
\<close>

theorem refused_execute_changes_nothing:
  assumes "handlePlanExecute s r planID g = (Inl rep, g')"
  shows "(tables (gwDB g'))\<lparr>auditT := []\<rparr> = (tables (gwDB g))\<lparr>auditT := []\<rparr> \<and>
    gwIssues g' = gwIssues g \<and> gwStarts g' = gwStarts g"
  using handlePlanExecute_refused [OF assms] by (simp add: beyondAudit_def)

theorem refused_execute_changes_nothing_witness:
  "\<exists>g'. handlePlanExecute exServer exPost [] (gwAt 0) = (Inl (httpError ''plan id required'' 400), g') \<and>
     gwStarts g' = gwStarts (gwAt 0)"
proof -
  have "\<exists>g'. handlePlanExecute exServer exPost [] (gwAt 0) = (Inl (httpError ''plan id required'' 400), g')"
    by (simp add: handlePlanExecute_def executeChecks_def bindH_def checkH_def stopH_def Let_def)
  then show ?thesis using refused_execute_changes_nothing by blast
qed

text \<open>
  (C3) Apart from the health, readiness and metrics endpoints, a request to the gateway changes
  its tables, its context graph, its hubs or its issues, or is answered with 200, only if it
  carries a bearer token whose signature a key of the configured key set verifies (a key set
  fetched within its time to live) and whose claims are valid; the route that serves it then runs
  with the subject of that token as the actor. In development mode this holds as long as a key set
  is configured.
\<close>

theorem gateway_serves_only_verified_callers:
  assumes "cacheReach (geFetch env) ttl (geNow env) (gsKeys st)"
    and "DevMode (geAuth env) \<longrightarrow> TrimSpace (JWKSURL (geAuth env)) \<noteq> []"
    and "ServeHTTP env r st = (rep, st')" "rqPath r \<notin> {''/healthz'', ''/readyz'', ''/metrics''}"
    and "served st' \<noteq> served st \<or> fst rep = 200"
  shows "\<exists>h p g claims sig keys key pub t st1 pattern inner.
    ParseBearer (header r ''Authorization'') = Inr (h @ ''.'' @ p @ ''.'' @ g) \<and>
    bindR (DecodeString p) (\<lambda>d. bindR (unmarshalDoc (geAuthEnv env) d) decodePayload) = Inr claims \<and>
    DecodeString g = Inr sig \<and> key \<in> set keys \<and> RSAKeyFromJWK key = Inr pub \<and>
    aeRSA (geAuthEnv env) pub (aeSHA (geAuthEnv env) (h @ ''.'' @ p)) sig \<and>
    ValidateClaims (geAuthEnv env) claims (geAuth env) = Inr () \<and>
    (TrimSpace (JWKSURL (geAuth env)), t, keys) \<in> set (jcFetched (gsKeys st1)) \<and>
    t \<le> geNow env \<and> geNow env < t + cacheTTL ttl \<and>
    (pattern, AuthMiddleware env inner) \<in> set (registerRoutes env) \<and> matchesPattern (rqPath r) pattern \<and>
    served st1 = served st \<and>
    inner (r\<lparr>rqActor := Some \<lparr>ActorID = Sub claims, ActorEmail = Email claims, ActorRoles = Groups claims\<rparr>\<rparr>) st1 = (rep, st')"
proof -
  have path: "rqPath r \<notin> openPaths" using assms(4) by (simp add: openPaths_def)
  obtain pattern inner token claims st1 where g: "(pattern, AuthMiddleware env inner) \<in> set (registerRoutes env)"
    "matchesPattern (rqPath r) pattern" "ParseBearer (header r ''Authorization'') = Inr token"
    "verifyToken (geAuthEnv env) (gwFetchKeys env) (geAuth env) token st = (Inr claims, st1)"
    "served st1 = served st" "inner (r\<lparr>rqActor := Some (actorOf claims)\<rparr>) st1 = (rep, st')"
    by (rule ServeHTTP_gate [OF assms(3) path assms(5)])
  obtain h p gs sig keys key pub t where v: "token = h @ ''.'' @ p @ ''.'' @ gs"
    "bindR (DecodeString p) (\<lambda>d. bindR (unmarshalDoc (geAuthEnv env) d) decodePayload) = Inr claims"
    "DecodeString gs = Inr sig" "key \<in> set keys" "RSAKeyFromJWK key = Inr pub"
    "aeRSA (geAuthEnv env) pub (aeSHA (geAuthEnv env) (h @ ''.'' @ p)) sig"
    "ValidateClaims (geAuthEnv env) claims (geAuth env) = Inr ()"
    "(TrimSpace (JWKSURL (geAuth env)), t, keys) \<in> set (jcFetched (gsKeys st1))"
    "t \<le> geNow env" "geNow env < t + cacheTTL ttl"
    using verified_caller [OF cacheReach_wf [OF assms(1)] _ g(4)] assms(2) by blast
  note facts = g(3) [unfolded v(1)] v(2-) g(1,2,5) g(6) [unfolded actorOf_def]
  show ?thesis
    by (rule exI [of _ h], rule exI [of _ p], rule exI [of _ gs], rule exI [of _ claims], rule exI [of _ sig],
        rule exI [of _ keys], rule exI [of _ key], rule exI [of _ pub], rule exI [of _ t], rule exI [of _ st1],
        rule exI [of _ pattern], rule exI [of _ inner]) (intro conjI facts)
qed

theorem gateway_serves_only_verified_callers_witness:
  "\<exists>st' h p g. ServeHTTP exGwEnv (exSigned ''/ui/playbooks'') exGwState = ((200, GStr ''Playbooks''), st') \<and>
     ParseBearer (header (exSigned ''/ui/playbooks'') ''Authorization'') = Inr (h @ ''.'' @ p @ ''.'' @ g)"
proof -
  obtain st' where run: "ServeHTTP exGwEnv (exSigned ''/ui/playbooks'') exGwState = ((200, GStr ''Playbooks''), st')"
    using ex_served by blast
  have keys: "cacheReach (geFetch exGwEnv) 0 (geNow exGwEnv) (gsKeys exGwState)"
    by (simp add: exGwState_def cacheReach.start)
  have dev: "DevMode (geAuth exGwEnv) \<longrightarrow> TrimSpace (JWKSURL (geAuth exGwEnv)) \<noteq> []"
    by (simp add: exGwEnv_def exAuthConfig_def)
  have "rqPath (exSigned ''/ui/playbooks'') \<notin> {''/healthz'', ''/readyz'', ''/metrics''}" by (simp add: exSigned_def)
  from gateway_serves_only_verified_callers [OF keys dev run this] run show ?thesis by fastforce
qed

text \<open>
  (C4) When the executor reports success for an execution, the tool calls it made are exactly the
  steps of the stored plan, once each and in order, and every row of that execution has status
  succeeded.
\<close>

theorem executor_runs_plan_in_order:
  assumes "executePlan e ref w = (Inr (), w')"
  shows "xOps w' = xOps w @ map (stepOp (planContext (tables (xDB w)) (RefPlanID ref)) (RefExecutionID ref))
           (planSteps (tables (xDB w)) (RefPlanID ref)) \<and>
    (\<forall>q\<in>set (execsT (tables (xDB w'))). ErID q = RefExecutionID ref \<longrightarrow> ErStatus q = ''succeeded'')"
proof -
  obtain w1 where w1: "runPlan e (RefExecutionID ref) (planContext (tables (xDB w)) (RefPlanID ref))
      (planSteps (tables (xDB w)) (RefPlanID ref)) w1 = (Inr (), w')" "xCalls w1 = xCalls w"
    using executePlan_cases [OF assms] by auto
  with runPlan_ok [OF w1(1)] show ?thesis by simp
qed

theorem executor_runs_plan_in_order_witness:
  "\<exists>w'. executePlan (exExecutor (''ok'', None)) exRef exWorld = (Inr (), w') \<and>
     xOps w' = map (stepOp (planContext (tables (xDB exWorld)) ''plan_1'') ''exec_1'')
       [stepOfRow (exStepRow ''step_1'' ''read''), stepOfRow (exStepRow ''step_2'' ''write'')]"
proof -
  obtain w' where w': "executePlan (exExecutor (''ok'', None)) exRef exWorld = (Inr (), w')"
    using ex_executePlan by blast
  moreover have "xCalls exWorld = []" by (simp add: exWorld_def)
  ultimately show ?thesis
    using executor_runs_plan_in_order [OF w'] by (auto simp: exRef_def ex_planSteps)
qed



text \<open>
  (C6) On a database that answers and hands out new identifiers, with tools and uploads that
  succeed, executing a stored plan terminates with success.
\<close>

theorem executor_completes:
  assumes "list_all (toolWorks e (RefExecutionID ref) (planContext (tables (xDB w)) (RefPlanID ref)))
       (planSteps (tables (xDB w)) (RefPlanID ref))"
    and "blobsWork e" and "healthyDB (RefExecutionID ref) (xDB w)"
    and "TrimSpace (RefExecutionID ref) \<noteq> []" and "TrimSpace (RefPlanID ref) \<noteq> []"
  shows "\<exists>w'. executePlan e ref w = (Inr (), w')"
  using assms by (rule live_executePlan)

theorem executor_completes_witness:
  "\<exists>w'. executePlan (exExecutor (''ok'', None)) exRef exWorld = (Inr (), w')"
proof (rule executor_completes)
  show "blobsWork (exExecutor (''ok'', None))" by (simp add: blobsWork_def exExecutor_def)
  show "list_all (toolWorks (exExecutor (''ok'', None)) (RefExecutionID exRef)
      (planContext (tables (xDB exWorld)) (RefPlanID exRef))) (planSteps (tables (xDB exWorld)) (RefPlanID exRef))"
    by (simp add: exRef_def ex_planSteps ex_toolWorks)
qed (simp_all add: exRef_def ex_healthy TrimSpace_solid solid_def)



text \<open>
  (C8) Router.Execute uses the CLI exactly when a valid request has a safe command line for an
  installed CLI; then its output is that of running this command in the sandbox, cut at the
  sandbox limit if there is one (at most the limit plus the truncation mark), with the error of
  that run.
\<close>

theorem router_runs_exactly_that_command:
  "case sandboxCommand env sb req of
     Some cmd \<Rightarrow>
       RespUsed (fst (fst (Execute env (Some sb) req st))) = ''cli'' \<and>
       RespOutput (fst (fst (Execute env (Some sb) req st))) = limitOutput sb (fst (sandboxRun (renvOS env) sb cmd)) \<and>
       (0 < MaxOutputBytes sb \<longrightarrow>
         int (length (RespOutput (fst (fst (Execute env (Some sb) req st))))) \<le> MaxOutputBytes sb + int (length truncatedMark) \<and>
         take (nat (MaxOutputBytes sb)) (RespOutput (fst (fst (Execute env (Some sb) req st)))) =
           take (nat (MaxOutputBytes sb)) (fst (sandboxRun (renvOS env) sb cmd))) \<and>
       snd (fst (Execute env (Some sb) req st)) = snd (sandboxRun (renvOS env) sb cmd)
   | None \<Rightarrow> RespUsed (fst (fst (Execute env (Some sb) req st))) \<noteq> ''cli''"
  by (simp add: Execute_cli Execute_no_cli limitOutput_length limitOutput_prefix split: option.split)

theorem router_runs_exactly_that_command_witness:
  "RespUsed (fst (fst (Execute exToolEnv (Some (exSandbox (''ok'', None))) (exCall ''read'') NewRouter))) = ''cli''"
  using router_runs_exactly_that_command [of exToolEnv "exSandbox (''ok'', None)" "exCall ''read''" NewRouter]
  unfolding ex_toolRequest(3) by simp

text \<open>
  (C9) A catalogue workflow started for a plan whose latest approval is not approved fails and has
  changed no table and called no tool, however often the engine retries the check.
\<close>

theorem no_approval_no_effect:
  assumes "retriesUpTo k engine" "\<not> approved (xDB w) planID"
    and "runWorkflowSteps engine engineS e planID ctx steps w = (r, w')"
  shows "(\<exists>err. r = Inl err) \<and> tables (xDB w') = tables (xDB w) \<and> xCalls w' = xCalls w"
  using runWorkflowSteps_gated [OF assms] by (simp add: untouched_def)

theorem no_approval_no_effect_witness:
  "retriesUpTo 5 (attempts 5 :: engine) \<and> \<not> approved (xDB exWorld) ''plan_2'' \<and>
   xCalls (snd (runWorkflowSteps (attempts 5) (attempts 5) (exExecutor (''ok'', None)) ''plan_2'' exCtx [] exWorld)) = []"
proof -
  have e: "retriesUpTo 5 (attempts 5 :: engine)" using retriesUpTo_attempts [of 4] by simp
  have a: "\<not> approved (xDB exWorld) ''plan_2''"
    by (simp add: approved_def latestApproval_def exWorld_def ex_defs)
  have "xCalls (snd (runWorkflowSteps (attempts 5) (attempts 5) (exExecutor (''ok'', None)) ''plan_2'' exCtx [] exWorld)) = xCalls exWorld"
    using no_approval_no_effect [OF e a, of "attempts 5" "exExecutor (''ok'', None)" exCtx "[]"] by (metis prod.collapse)
  with e a show ?thesis by (simp add: exWorld_def)
qed





text \<open>
  (C12) A CreatePlan that fails, at any statement of its transaction, leaves every table as it
  was.
\<close>

theorem create_plan_is_atomic:
  assumes "CreatePlan doc d = (Inl e, d')"
  shows "tables d' = tables d"
  using assms by (rule CreatePlan_err)

theorem create_plan_is_atomic_witness:
  "\<exists>e d'. CreatePlan (GMap []) ((exDB emptyTables)\<lparr>connFault := (\<lambda>n. if n = 1 then Some ''lost'' else None)\<rparr>) = (Inl e, d') \<and>
     tables d' = emptyTables"
proof -
  let ?d = "(exDB emptyTables)\<lparr>connFault := (\<lambda>n. if n = 1 then Some ''lost'' else None)\<rparr>"
  have "\<exists>e d'. CreatePlan (GMap []) ?d = (Inl e, d')"
    by (simp add: CreatePlan_def bindS_def newID_run timeNow_def tryS_def okS_def withTx_def execute_def Let_def exDB_def)
  then show ?thesis using create_plan_is_atomic by (fastforce simp: exDB_def)
qed





text \<open>
  (C15) Whatever the tables hold, the lists of plans, playbooks, runbooks, context services and
  snapshots and the single playbook, runbook and memory entry that the gateway answers with belong
  to the tenant of the request; the list of operator memory to the tenant of the query or, without
  one, of the header.
\<close>

theorem replies_stay_within_the_tenant:
  "let tenant = TrimSpace (header r ''X-Tenant-Id'') in
    showsOnly tenantFromContext tenant (fst (replyOf (handlePlansGet s r) g)) \<and>
    showsOnly tenantFromMap tenant (fst (replyOf (handlePlaybooksGet s r) g)) \<and>
    showsOnly tenantFromMap tenant (fst (replyOf (handlePlaybookByID s r) g)) \<and>
    showsOnly tenantFromMap tenant (fst (replyOf (handleRunbooksGet s ws r) g)) \<and>
    showsOnly tenantFromMap tenant (fst (replyOf (handleRunbookByID s r) g)) \<and>
    showsOnly tenantFromMap (memoryTenant r) (fst (replyOf (handleMemoryGet s ws r) g)) \<and>
    showsOnly tenantFromMap tenant (fst (replyOf (handleMemoryGetByID s ws r memoryID) g)) \<and>
    showsOnly tenantFromLabels tenant (replyOfC (handleContextServices s r) (g, d)) \<and>
    showsOnly tenantFromLabels tenant (replyOfC (handleContextSnapshots s r) (g, d))"
  unfolding Let_def handleContextServices_def handleContextSnapshots_def
  by (intro conjI outcome_reply [OF handlePlansGet_own] outcome_reply [OF handlePlaybooksGet_own]
      outcome_reply [OF handlePlaybookByID_own] outcome_reply [OF handleRunbooksGet_own]
      outcome_reply [OF handleRunbookByID_own] outcome_reply [OF handleMemoryGet_own]
      outcome_reply [OF handleMemoryGetByID_own] outcomeC_reply [OF labelListC_own])

text \<open>
  (C16) Starting a catalogue workflow over HTTP, except for scale_service where low-risk workflows
  are approved automatically, adds no execution and starts nothing; an accepted start names a plan
  for which an approval is pending.
\<close>

theorem workflow_start_awaits_approval:
  assumes "\<not> AutoApproveLow s \<or> name \<noteq> ''scale_service''" "handleWorkflowStart s r name g = (res, g')"
  shows "execsT (tables (gwDB g')) = execsT (tables (gwDB g)) \<and> gwStarts g' = gwStarts g \<and>
    set (approvalsT (tables (gwDB g'))) \<subseteq> set (approvalsT (tables (gwDB g))) \<union> {a. ArStatus a = ''pending''} \<and>
    (\<forall>doc. res = Inr (200, doc) \<longrightarrow>
       (\<exists>a \<in> set (approvalsT (tables (gwDB g'))). ArPlan a = gstr (mapOf doc) ''plan_id'' \<and> ArStatus a = ''pending''))"
proof -
  have "idleSince (execsT (tables (gwDB g))) (set (approvalsT (tables (gwDB g)))) (gwStarts g) g"
    by (simp add: idleSince_def idleTables_def)
  from staysD [OF handleWorkflowStart_idle [OF assms(1)] this assms(2)]
  show ?thesis using handleWorkflowStart_pending [OF assms(1)] assms(2)
    by (auto simp: idleSince_def idleTables_def)
qed

theorem workflow_start_awaits_approval_witness:
  "\<exists>doc g'. handleWorkflowStart exStartServer exStartRequest ''scale_service'' (exGateway emptyTables) = (Inr (200, doc), g') \<and>
     execsT (tables (gwDB g')) = [] \<and>
     (\<exists>a \<in> set (approvalsT (tables (gwDB g'))). ArPlan a = gstr (mapOf doc) ''plan_id'' \<and> ArStatus a = ''pending'')"
proof -
  obtain doc g' where run: "handleWorkflowStart exStartServer exStartRequest ''scale_service'' (exGateway emptyTables) =
      (Inr (200, doc), g')"
    using ex_start by blast
  have auto: "\<not> AutoApproveLow exStartServer \<or> (''scale_service'' :: string) \<noteq> ''scale_service''"
    by (simp add: exStartServer_def exServer_def)
  have "execsT (tables (gwDB (exGateway emptyTables))) = []"
    by (simp add: exGateway_def exDB_def emptyTables_def)
  with workflow_start_awaits_approval [OF auto run] run show ?thesis by auto
qed



text \<open>
  (C18) With an egress allowlist configured, a request of a tool client of the router is sent only
  to the address of the connector of that tool, only if its host equals an entry of the allowlist
  or lies below a wildcard entry, and at most once per call; the answer handed back is at most the
  output limit and the truncation mark long.
\<close>

theorem api_calls_go_to_allowlisted_connectors:
  assumes "BuildHTTPClients cfg (configAPI cfg) tool = Some c" "Do env c method path body = (res, sent)"
    and "q \<in> set sent" "scEgressAllowlist (cfSandbox cfg) \<noteq> []" "0 < maxOutputOf cfg"
  shows "fst (snd q) = fst (connectorOf (cfConnectors cfg) tool) @ path \<and> length sent = 1 \<and>
    (\<exists>host a. htHost env (TrimSpace (fst (connectorOf (cfConnectors cfg) tool))) = Some host \<and> host \<noteq> [] \<and>
       a \<in> set (scEgressAllowlist (cfSandbox cfg)) \<and> TrimSpace a \<noteq> [] \<and>
       (EqualFold host (TrimSpace a) \<or> (\<exists>dom. TrimSpace a = ''*.'' @ dom \<and> suffix (''.'' @ dom) host))) \<and>
    (\<forall>out. res = Inr out \<longrightarrow> int (length out) \<le> maxOutputOf cfg + int (length truncatedMark))"
proof -
  have tool: "tool \<in> set apiTools" "c = clientFor cfg (configAPI cfg) tool"
    using assms(1) by (simp_all add: BuildHTTPClients_def split: if_splits)
  note c = clientFor_config [OF tool(1), of cfg, folded tool(2)]
  have "allowHost (htHost env) (acBaseURL c) (scEgressAllowlist (cfSandbox cfg))"
    using Do_requests(2) [OF assms(2,3)] assms(4) unfolding c(3) by blast
  from allowHost_match [OF this] Do_requests(1) [OF assms(2,3)] Do_answer(2) [OF assms(2)] assms(5)
  have "fst (snd q) = acBaseURL c @ path" and "\<exists>host a. htHost env (TrimSpace (acBaseURL c)) = Some host \<and> host \<noteq> [] \<and>
       a \<in> set (scEgressAllowlist (cfSandbox cfg)) \<and> TrimSpace a \<noteq> [] \<and>
       (EqualFold host (TrimSpace a) \<or> (\<exists>dom. TrimSpace a = ''*.'' @ dom \<and> suffix (''.'' @ dom) host))"
    and "\<forall>out. res = Inr out \<longrightarrow> int (length out) \<le> maxOutputOf cfg + int (length truncatedMark)"
    unfolding c(4) by blast+
  moreover have "length sent = 1" using Do_answer(1) [OF assms(2)] assms(3) by (cases sent) auto
  ultimately show ?thesis unfolding c(1) by blast
qed

theorem api_calls_go_to_allowlisted_connectors_witness:
  "let cn = (cfConnectors exConfig)\<lparr>cnPrometheus := \<lparr>prAddr = ''http://prom'', prToken = []\<rparr>\<rparr>;
       cfg = exConfig\<lparr>cfSandbox := exSandboxConfig\<lparr>scEgressAllowlist := [''prom'']\<rparr>, cfConnectors := cn\<rparr> in
   \<exists>c q. BuildHTTPClients cfg (configAPI cfg) ''prometheus'' = Some c \<and>
     snd (Do exHttpEnv c ''GET'' ''/api/v1/rules'' GNil) = [q] \<and> fst (snd q) = ''http://prom/api/v1/rules''"
proof -
  define cfg where "cfg = exConfig\<lparr>cfSandbox := exSandboxConfig\<lparr>scEgressAllowlist := [''prom'']\<rparr>,
    cfConnectors := (cfConnectors exConfig)\<lparr>cnPrometheus := \<lparr>prAddr = ''http://prom'', prToken = []\<rparr>\<rparr>\<rparr>"
  have tool: "''prometheus'' \<in> set apiTools" by (simp add: apiTools_def)
  then obtain c where c: "BuildHTTPClients cfg (configAPI cfg) ''prometheus'' = Some c" "c = clientFor cfg (configAPI cfg) ''prometheus''"
    by (simp add: BuildHTTPClients_def)
  have cfg': "scEgressAllowlist (cfSandbox cfg) = [''prom'']" "fst (connectorOf (cfConnectors cfg) ''prometheus'') = ''http://prom''"
    "maxOutputOf cfg = 1000000"
    by (simp_all add: cfg_def connectorOf_def maxOutputOf_def exSandboxConfig_def defaultMaxOutputBytes_def)
  have "allowHost (\<lambda>_. Some ''prom'') ''http://prom'' [''prom'']" by code_simp
  then have "snd (Do exHttpEnv c ''GET'' ''/api/v1/rules'' GNil) \<noteq> []"
    by (simp add: Do_def c(2) clientFor_config [OF tool] cfg' exHttpEnv_def Let_def)
  then obtain q where "q \<in> set (snd (Do exHttpEnv c ''GET'' ''/api/v1/rules'' GNil))" by (meson hd_in_set)
  from api_calls_go_to_allowlisted_connectors [OF c(1) prod.collapse [symmetric] this] cfg' this
  have "fst (snd q) = ''http://prom/api/v1/rules''" "snd (Do exHttpEnv c ''GET'' ''/api/v1/rules'' GNil) = [q]"
    by (auto simp: length_Suc_conv)
  with c(1) show ?thesis unfolding Let_def cfg_def [symmetric] by blast
qed





text \<open>
  (C21) A configuration that a program loads has an address for the gateway and a database, gives
  the identity provider completely or not at all for the gateway and for the tool router, names a
  container image when it enforces the sandbox (and the seccomp profile and user it requires), and
  has an address for every connector that has a token.
\<close>

theorem loaded_configuration_is_well_formed:
  assumes "LoadConfig read unmarshal path = Inr c"
  shows "gcHTTPAddr (cfGateway c) \<noteq> [] \<and> stPostgresDSN (cfStorage c) \<noteq> [] \<and>
    (\<forall>(i, cl, u) \<in> {(gcOIDCIssuer (cfGateway c), gcOIDCClientID (cfGateway c), gcOIDCJWKSURL (cfGateway c)),
         (trOIDCIssuer (cfToolRouter c), trOIDCClientID (cfToolRouter c), trOIDCJWKSURL (cfToolRouter c))}.
       (TrimSpace i = [] \<longleftrightarrow> TrimSpace cl = []) \<and> (TrimSpace cl = [] \<longleftrightarrow> TrimSpace u = [])) \<and>
    (scEnforce (cfSandbox c) \<longrightarrow> TrimSpace (scImage (cfSandbox c)) \<noteq> []) \<and>
    (scRequireSeccomp (cfSandbox c) \<longrightarrow> TrimSpace (scSeccompProfile (cfSandbox c)) \<noteq> []) \<and>
    (scRequireUser (cfSandbox c) \<longrightarrow> TrimSpace (scUser (cfSandbox c)) \<noteq> []) \<and>
    (\<forall>tool \<in> set apiTools. TrimSpace (snd (connectorOf (cfConnectors c) tool)) \<noteq> [] \<longrightarrow>
       TrimSpace (fst (connectorOf (cfConnectors c) tool)) \<noteq> [])"
proof -
  note v = Validate_parts [OF LoadConfig_valid [OF assms]]
  have oidc: "(TrimSpace i = [] \<longleftrightarrow> TrimSpace cl = []) \<and> (TrimSpace cl = [] \<longleftrightarrow> TrimSpace u = [])"
    if "validateOIDC pre i cl u = Inr ()" for pre i cl u
    using that unfolding validateOIDC_ok by blast
  have "TrimSpace (fst (connectorOf (cfConnectors c) tool)) \<noteq> []"
    if "tool \<in> set apiTools" "TrimSpace (snd (connectorOf (cfConnectors c) tool)) \<noteq> []" for tool
  proof -
    obtain addr tok where co: "connectorOf (cfConnectors c) tool = (addr, tok)" by fastforce
    have "\<exists>pre. (pre, addr, tok) \<in> set (connectorAddrs (cfConnectors c))"
      using connectorOf_listed [OF \<open>tool \<in> set apiTools\<close>] unfolding co [symmetric] .
    with v(7) that(2) co show ?thesis unfolding validateConnectors_ok by fastforce
  qed
  with v(1,2,6) oidc [OF v(3)] oidc [OF v(4)] show ?thesis by (simp add: validateSandbox_ok)
qed

theorem loaded_configuration_is_well_formed_witness:
  "LoadConfig (mnRead exMainEnv) (renvUnmarshal (mnRouter exMainEnv)) ''config.json'' = Inr exConfig \<and>
   scEnforce (cfSandbox exConfig) \<and> TrimSpace (scImage (cfSandbox exConfig)) \<noteq> []"
proof -
  have "scEnforce (cfSandbox exConfig)" by (simp add: exConfig_def exSandboxConfig_def)
  with loaded_configuration_is_well_formed [OF ex_loaded] ex_loaded show ?thesis by blast
qed


text \<open>
  (C23) The Slack endpoint sends something to the gateway only for a POST whose body and timestamp
  carry the signature of the configured, non-empty secret and whose timestamp is within five
  minutes of the clock (or exactly 2^63 seconds before it, where the 64-bit subtraction wraps);
  then it sends one request, with the bearer token if there is one.
\<close>

theorem slack_requests_are_signed:
  assumes "slackServeHTTP h r = (rep, sent)" "sent \<noteq> []" "0 \<le> slNow h" "slNow h < 2 ^ 62"
  shows "rqMethod r = ''POST'' \<and> SigningSecret h \<noteq> [] \<and>
    header r ''X-Slack-Signature'' = expectedSignature h (header r ''X-Slack-Request-Timestamp'') (rqBody r) \<and>
    (\<exists>p. Atoi (header r ''X-Slack-Request-Timestamp'') = Some p \<and> (\<bar>slNow h - p\<bar> \<le> 300 \<or> p = slNow h - 2 ^ 63)) \<and>
    (\<exists>verb url hs data. sent = [(verb, url, hs, data)] \<and>
       (slToken h \<noteq> [] \<longrightarrow> (''Authorization'', ''Bearer '' @ slToken h) \<in> set hs))"
proof -
  have "snd (slackServeHTTP h r) \<noteq> []" using assms(1,2) by simp
  from slack_sends_signed [OF this] have post: "rqMethod r = ''POST''" "verifySignature h r" by simp_all
  obtain m p req where sent: "sent = snd (doRequest h m p req)" using slack_sent [of h r] assms(1,2) by auto
  with doRequest_one [of h m p req] assms(2) have "length sent = 1" by (simp add: Suc_leI le_antisym)
  then obtain verb url hs data where one: "sent = [(verb, url, hs, data)]" by (auto simp: length_Suc_conv)
  then have "(verb, url, hs, data) \<in> set (snd (doRequest h m p req))" unfolding sent [symmetric] by simp
  from doRequest_headers [OF this] have "slToken h \<noteq> [] \<longrightarrow> (''Authorization'', ''Bearer '' @ slToken h) \<in> set hs" by simp
  with one post(1) verifySignature_ok [OF post(2) assms(3,4)] show ?thesis by metis
qed

theorem slack_requests_are_signed_witness:
  "snd (slackServeHTTP exSlack exSlackRequest) \<noteq> [] \<and>
   header exSlackRequest ''X-Slack-Signature'' =
     expectedSignature exSlack (header exSlackRequest ''X-Slack-Request-Timestamp'') (rqBody exSlackRequest)"
proof -
  have "snd (slackServeHTTP exSlack exSlackRequest) \<noteq> []" "0 \<le> slNow exSlack" "slNow exSlack < 2 ^ 62"
    by (simp_all add: ex_slack) (simp_all add: exSlack_def)
  with slack_requests_are_signed [OF prod.collapse [symmetric] this] show ?thesis by blast
qed







text \<open>
  (C27) The gateway refuses every request that the playbook and runbook commands of assistantctl
  send (list and get): each is a GET without a tenant header, which the handlers of all four
  routes answer with 400 and "tenant_id required".
\<close>

theorem library_commands_are_refused:
  assumes "f \<in> {runPlaybookList, runPlaybookGet, runRunbookList, runRunbookGet}" "q \<in> set (snd (f env args))"
    and "rqMethod r = fst q" "rqHeaders r = fst (snd (snd q))"
  shows "fst (handlePlaybooks s r g) = Inl (httpError ''tenant_id required'' 400) \<and>
    fst (handlePlaybookByID s r g) = Inl (httpError ''tenant_id required'' 400) \<and>
    fst (handleRunbooks s ws r g) = Inl (httpError ''tenant_id required'' 400) \<and>
    fst (handleRunbookByID s r g) = Inl (httpError ''tenant_id required'' 400)"
proof -
  have "rqMethod r = ''GET''" "''X-Tenant-Id'' \<notin> fst ` set (rqHeaders r)"
    using library_sent [of f q env args] assms by (auto simp: libraryCommand_def)
  then show ?thesis using no_tenant_refused by blast
qed

theorem library_commands_are_refused_witness:
  "\<exists>q. snd (runPlaybookList exCliEnv [''-gateway'', ''http://gw'']) = [q] \<and>
     fst (handlePlaybooks exServer (\<lparr>rqMethod = fst q, rqPath = ''/v1/playbooks'', rqHeaders = fst (snd (snd q)), rqQuery = [],
       rqBody = [], rqActor = None\<rparr>) (exGateway emptyTables)) = Inl (httpError ''tenant_id required'' 400)"
proof -
  let ?r = "\<lambda>q. \<lparr>rqMethod = fst q, rqPath = ''/v1/playbooks'', rqHeaders = fst (snd (snd q)), rqQuery = [], rqBody = [],
    rqActor = None\<rparr>"
  obtain q where q: "snd (runPlaybookList exCliEnv [''-gateway'', ''http://gw'']) = [q]" using ex_cli by blast
  with library_commands_are_refused [of runPlaybookList q exCliEnv "[''-gateway'', ''http://gw'']" "?r q" exServer "exGateway emptyTables"]
  show ?thesis by simp
qed

text \<open>
  (C28) A subscriber of a session has in its channel, after any sequence of publications, what it
  had followed by the events of its session (of all sessions for the empty one) in order, cut at
  the capacity of eight; events of other sessions never reach it.
\<close>

theorem subscribers_get_their_events_in_order:
  assumes "buffer h key i = Some b" "length b \<le> chanCap"
  shows "buffer (foldl (\<lambda>h (ev, sid). Publish ev sid h) h evs) key i =
    Some (take chanCap (b @ map fst (filter (\<lambda>(ev, sid). key = sid \<or> key = []) evs)))"
  using events.after_publishing [OF assms, of evs] unfolding events.publishAll_def eventListens_def .

theorem subscribers_get_their_events_in_order_witness:
  "buffer (foldl (\<lambda>h (ev, sid). Publish ev sid h) (snd (Subscribe ''s1'' NewEventHub)) [(1 :: nat, ''s1''), (2, ''s2''), (3, ''s1'')]) ''s1'' 0 =
   Some [1, 3]"
proof -
  have "buffer (snd (Subscribe ''s1'' (NewEventHub :: nat SubHub))) ''s1'' 0 = Some []" by code_simp
  from subscribers_get_their_events_in_order [OF this, of "[(1, ''s1''), (2, ''s2''), (3, ''s1'')]"]
  show ?thesis by (simp add: chanCap_def)
qed

text \<open>
  (C29) An artifact that resolves with a digest given has exactly that SHA-256 digest.
\<close>

theorem artifact_matches_its_digest:
  assumes "ResolveArtifact os sha ref = Inr data" "TrimSpace (ArtSHA ref) \<noteq> []"
  shows "sha data = TrimPrefix (ToLower (TrimSpace (ArtSHA ref))) ''sha256:''"
  using verifySHA_ok [OF ResolveArtifact_checked [OF assms(1)] assms(2)] by blast

theorem artifact_matches_its_digest_witness:
  "let sha = (\<lambda>_. replicate 64 CHR ''a''); ref = \<lparr>ArtKind = ''inline'', ArtRef = ''data'', ArtSHA = replicate 64 CHR ''a''\<rparr> in
   ResolveArtifact (renvOS exRouterEnv) sha ref = Inr ''data'' \<and>
   sha ''data'' = TrimPrefix (ToLower (TrimSpace (ArtSHA ref))) ''sha256:''"
proof -
  let ?sha = "\<lambda>_ :: string. replicate 64 CHR ''a''"
  let ?ref = "\<lparr>ArtKind = ''inline'', ArtRef = ''data'', ArtSHA = replicate 64 CHR ''a''\<rparr>"
  have r: "ResolveArtifact (renvOS exRouterEnv) ?sha ?ref = Inr ''data''" by code_simp
  have t: "TrimSpace (ArtSHA ?ref) \<noteq> []" by code_simp
  show ?thesis unfolding Let_def using r artifact_matches_its_digest [OF r t] by blast
qed

text \<open>
  (C30) The workflow catalogue of the gateway and the one of the worker build the same steps for
  every name and input, and the gateway lists a template exactly for the names the builder knows.
\<close>

theorem gateway_and_worker_build_the_same_steps:
  "buildWorkflowPlan name input = BuildWorkflowSteps name input \<and>
   (findWorkflowTemplate name = None \<longleftrightarrow> buildWorkflowPlan name input = Inl ''unknown workflow'')"
  using builders_agree catalogue_complete by blast



text \<open>
  (C32) UpsertEventGate does to the stored row of an event exactly what the abstract gate does,
  answers what the abstract gate answers, and leaves the rows of other events alone.
\<close>

theorem event_gate_refines_its_specification:
  assumes "UpsertEventGate src fp now window backoff minCount d = (Inr (allowed, g), d')"
  shows "(allowed, gateOf d' (TrimSpace src, TrimSpace fp)) =
      map_prod id Some (gateStep window backoff minCount (gateOf d (TrimSpace src, TrimSpace fp)) now) \<and>
    (\<forall>k'. k' \<noteq> (TrimSpace src, TrimSpace fp) \<longrightarrow> gateOf d' k' = gateOf d k')"
  using UpsertEventGate_refines [OF assms] by (simp add: map_prod_def split: prod.split)

theorem event_gate_refines_its_specification_witness:
  "\<exists>g d'. UpsertEventGate ''alertmanager'' ''f'' 7 60 10 1 (exDB emptyTables) = (Inr (True, g), d') \<and>
     gateOf d' (TrimSpace ''alertmanager'', TrimSpace ''f'') = Some \<lparr>FirstSeen = 7, LastSeen = 7, GateCount = 1, SuppressedUntil = Some 17\<rparr>"
proof -
  obtain g d' where run: "UpsertEventGate ''alertmanager'' ''f'' 7 60 10 1 (exDB emptyTables) = (Inr (True, g), d')"
    by (simp add: UpsertEventGate_def TrimSpace_solid solid_def bindS_def query_def execute_def okS_def Let_def
        exDB_def emptyTables_def)
  from event_gate_refines_its_specification [OF run] run show ?thesis
    by (auto simp: gateStep_def exDB_def emptyTables_def)
qed

text \<open>
  (C33) Whatever a webhook carries, handling it adds no execution and starts no workflow, and
  every approval it creates is pending.
\<close>

theorem webhooks_start_nothing:
  "execsT (tables (gwDB (snd (handleHook s env r g)))) = execsT (tables (gwDB g)) \<and>
   gwStarts (snd (handleHook s env r g)) = gwStarts g \<and>
   set (approvalsT (tables (gwDB (snd (handleHook s env r g))))) \<subseteq>
     set (approvalsT (tables (gwDB g))) \<union> {a. ArStatus a = ''pending''}"
proof -
  have "idleSince (execsT (tables (gwDB g))) (set (approvalsT (tables (gwDB g)))) (gwStarts g) g"
    by (simp add: idleSince_def idleTables_def)
  with stays_handleHook have "idleSince (execsT (tables (gwDB g))) (set (approvalsT (tables (gwDB g)))) (gwStarts g)
      (snd (handleHook s env r g))"
    unfolding stays_def by blast
  then show ?thesis by (auto simp: idleSince_def idleTables_def)
qed

text \<open>
  (C34) A plan the event loop stores for an alert has a risk level at least that of each of its
  stored steps, and unless that level is read there is a pending approval for the plan.
\<close>

theorem alert_plans_await_approval:
  assumes "wfDB (gwDB g)" and "runAlertEventLoop s env actor source payload g = (Inr planID, g')"
  shows "\<exists>row \<in> set (plansT (tables (gwDB g'))). PrID row = planID \<and>
     (\<forall>r \<in> set (stepsT (tables (gwDB g'))). SrPlan r = planID \<longrightarrow>
        stepRiskOrd (SrTool r, SrAction r) \<le> riskOrd (PrRisk row)) \<and>
     (PrRisk row \<noteq> ''read'' \<longrightarrow>
        (\<exists>a \<in> set (approvalsT (tables (gwDB g'))). ArPlan a = planID \<and> ArStatus a = ''pending''))"
  using assms by (rule runAlertEventLoop_plan)

theorem alert_plans_await_approval_witness:
  "\<exists>g' row. runAlertEventLoop exServer exHookEnv None ''alertmanager'' exAlertPayload (exGateway emptyTables) =
      (Inr ''plan_5'', g') \<and> row \<in> set (plansT (tables (gwDB g'))) \<and> PrID row = ''plan_5''"
proof -
  obtain g' where g': "runAlertEventLoop exServer exHookEnv None ''alertmanager'' exAlertPayload (exGateway emptyTables) =
      (Inr ''plan_5'', g')"
    using ex_alert_plan by (metis prod.collapse)
  have "wfDB (gwDB (exGateway emptyTables))"
    by (simp add: exGateway_def exDB_def emptyTables_def wfTables_def)
  from alert_plans_await_approval [OF this g'] show ?thesis using g' by blast
qed



text \<open>
  (C36) However the polls follow one another in time, the poller hands an alert of the same
  fingerprint on at most once per deduplication window, although it forgets old fingerprints when
  it remembers more than a thousand.
\<close>

theorem alerts_are_handled_once_per_window:
  assumes "0 < apWindow env" and "psSeen st = []" "psHandled st = []" and "sorted (map fst polls)"
  shows "sorted_wrt (\<lambda>(t, fp) (u, fq). fp = fq \<longrightarrow> apWindow env \<le> u - t)
    (psHandled (snd (pollAlerts env polls st)))"
proof (cases polls)
  case (Cons q qs)
  then show ?thesis
    using pollAlerts_once [OF assms(1), of "fst q" st polls] assms(2-) by (simp add: pollInv_def)
qed (simp add: assms(3))

theorem alerts_are_handled_once_per_window_witness:
  "sorted_wrt (\<lambda>(t, fp) (u, fq). fp = fq \<longrightarrow> 60 \<le> u - t)
     (psHandled (snd (pollAlerts exPollerEnv [(0, exAlert), (30, exAlert), (60, exAlert)] exPollerState))) \<and>
   psHandled (snd (pollAlerts exPollerEnv [(0, exAlert), (30, exAlert), (60, exAlert)] exPollerState)) =
     [(0, ''fp''), (60, ''fp'')]"
proof -
  have "apWindow exPollerEnv = 60" "psSeen exPollerState = []" "psHandled exPollerState = []"
    by (simp_all add: exPollerEnv_def exPollerState_def)
  then show ?thesis
    using alerts_are_handled_once_per_window [of exPollerEnv exPollerState "[(0, exAlert), (30, exAlert), (60, exAlert)]"]
      ex_polls by simp
qed

text \<open>
  (C37) After a round of the approval watcher, an approval that is approved was approved before,
  or one of the issues the round listed carries the label approval:approved and names its plan.
\<close>

theorem approvals_come_from_labelled_issues:
  assumes "syncOnce env timeout now w = (x, w')"
    and "a \<in> set (approvalsT (tables (waDB w')))" "ArStatus a = ''approved''"
  shows "(\<exists>b \<in> set (approvalsT (tables (waDB w))). ArID b = ArID a \<and> ArPlan b = ArPlan a \<and> ArStatus b = ''approved'') \<or>
    (\<exists>issues l i. ListApprovalIssues env (waLinear w) = (Inr issues, l) \<and> i \<in> set issues \<and>
       labelApproved \<in> set (IsLabels i) \<and> planOfIssue i = Some (ArPlan a))"
proof (cases "ListApprovalIssues env (waLinear w)")
  case (Pair r l)
  show ?thesis
  proof (cases r)
    case (Inl e)
    then have "waDB w' = waDB w" using Pair assms(1) by (auto simp: syncOnce_def bindS_def onLinear_def)
    then show ?thesis using assms by auto
  next
    case (Inr issues)
    then have "approvedBy issues (approvalsT (tables (waDB w))) (approvalsT (tables (waDB w')))"
      using syncOnce_approved [of env w timeout now] Pair assms(1) by auto
    then show ?thesis using assms(2,3) Pair Inr unfolding approvedBy_def by blast
  qed
qed

theorem approvals_come_from_labelled_issues_witness:
  "\<exists>w'. syncOnce exLinearEnv 0 0 exWatcher = (Inr (), w') \<and>
     approvalsT (tables (waDB w')) = [exApproval ''approved''] \<and>
     (\<exists>issues l i. ListApprovalIssues exLinearEnv (waLinear exWatcher) = (Inr issues, l) \<and> i \<in> set issues \<and>
        labelApproved \<in> set (IsLabels i) \<and> planOfIssue i = Some ''plan_1'')"
proof -
  obtain w' where w': "syncOnce exLinearEnv 0 0 exWatcher = (Inr (), w')"
    "approvalsT (tables (waDB w')) = [exApproval ''approved'']"
    using ex_syncOnce by blast
  moreover have "approvalsT (tables (waDB exWatcher)) = [exApproval ''pending'']"
    by (simp add: exWatcher_def exDB_def exTables_def)
  ultimately show ?thesis
    using approvals_come_from_labelled_issues [OF w'(1), of "exApproval ''approved''"] by (auto simp: exApproval_def)
qed







end
